(* ===== verification/Ngrok_Prelude.thy ===== *)
theory Ngrok_Prelude
  imports
    Main
    "HOL-Library.Multiset"
    "HOL-Library.List_Lexorder"
    "HOL-Library.Char_ord"
    "HOL-Library.Product_Lexorder"
    "HOL-Library.AList"
begin

text \<open>
  Shared vocabulary of the development: how the Go standard library operations that the
  operator's code uses are modelled, and the generic lemmas the component theories share.

  \<^item> decimal rendering of integers (\<open>fmt.Sprintf("%d", n)\<close>) with its injectivity;
  \<^item> \<open>sort.SliceStable\<close> as a stable insertion sort, with the interface \<open>strict_weak_order\<close> that a
    comparator has to satisfy and the lemma that there is only one stable sorted permutation, so
    that every correct stable sort returns this list;
  \<^item> Go maps as association lists (\<open>AList.update\<close>), in insertion order;
  \<^item> string helpers (\<open>strings.ReplaceAll\<close> for a one-byte pattern, \<open>strings.ToLower\<close>).
\<close>

section \<open>Lemma collections\<close>

named_theorems swo_keys
  "comparators expressed as the order of a key"

named_theorems ir_simps
  "unfolding rules of the intermediate representation"

section \<open>Types shared by the components\<close>

type_synonym 'a ptr = "'a option"

record NamespacedName =
  nnName :: string
  nnNamespace :: string

record OwningResource =
  orKind :: string
  orName :: string
  orNamespace :: string

section \<open>Decimal rendering\<close>

definition digit_char :: "nat \<Rightarrow> char" where
  "digit_char d = char_of (48 + d)"

fun nat_dec :: "nat \<Rightarrow> string" where
  "nat_dec n =
     (if n < 10 then [digit_char n] else nat_dec (n div 10) @ [digit_char (n mod 10)])"

declare nat_dec.simps [simp del]

definition itoa :: "int \<Rightarrow> string" where
  "itoa i = (if i < 0 then CHR ''-'' # nat_dec (nat (- i)) else nat_dec (nat i))"

definition is_digit :: "char \<Rightarrow> bool" where
  "is_digit c \<longleftrightarrow> 48 \<le> (of_char c :: nat) \<and> (of_char c :: nat) \<le> 57"

definition digit_val :: "char \<Rightarrow> nat" where
  "digit_val c = (of_char c :: nat) - 48"

definition dec_val :: "string \<Rightarrow> nat" where
  "dec_val s = foldl (\<lambda>acc c. acc * 10 + digit_val c) 0 s"

lemma of_char_digit_char: "d < 10 \<Longrightarrow> (of_char (digit_char d) :: nat) = 48 + d"
  by (simp add: digit_char_def)

lemma digit_val_char [simp]: "d < 10 \<Longrightarrow> digit_val (digit_char d) = d"
  by (simp add: digit_val_def of_char_digit_char)

lemma is_digit_char [simp]: "d < 10 \<Longrightarrow> is_digit (digit_char d)"
  by (simp add: is_digit_def of_char_digit_char)

lemma nat_dec_digits: "c \<in> set (nat_dec n) \<Longrightarrow> is_digit c"
proof (induction n rule: nat_dec.induct)
  case (1 n)
  show ?case
  proof (cases "n < 10")
    case True
    with "1.prems" show ?thesis by (simp add: nat_dec.simps [of n])
  next
    case False
    with 1 show ?thesis by (auto simp: nat_dec.simps [of n])
  qed
qed

lemma nat_dec_nonempty [simp]: "nat_dec n \<noteq> []"
  by (subst nat_dec.simps) simp

lemma dec_val_snoc: "dec_val (s @ [c]) = dec_val s * 10 + digit_val c"
  by (simp add: dec_val_def)

lemma dec_val_nat_dec [simp]: "dec_val (nat_dec n) = n"
proof (induction n rule: nat_dec.induct)
  case (1 n)
  show ?case
  proof (cases "n < 10")
    case True
    then show ?thesis by (simp add: nat_dec.simps [of n] dec_val_def)
  next
    case False
    with 1 show ?thesis by (simp add: nat_dec.simps [of n] dec_val_snoc)
  qed
qed

lemma nat_dec_inj [simp]: "nat_dec m = nat_dec n \<longleftrightarrow> m = n"
  by (metis dec_val_nat_dec)

lemma minus_not_digit: "\<not> is_digit (CHR ''-'')"
  by (simp add: is_digit_def)

lemma itoa_chars: "c \<in> set (itoa i) \<Longrightarrow> is_digit c \<or> c = CHR ''-''"
  by (auto simp: itoa_def nat_dec_digits split: if_splits)

lemma itoa_nonempty [simp]: "itoa i \<noteq> []"
  by (simp add: itoa_def)

lemma nat_dec_neq_minus: "nat_dec n \<noteq> CHR ''-'' # s"
  using nat_dec_digits [of "CHR ''-''" n] minus_not_digit by auto

lemma itoa_inj [simp]: "itoa i = itoa j \<longleftrightarrow> i = j"
  using nat_dec_neq_minus by (auto simp: itoa_def split: if_splits) (metis nat_dec_neq_minus)+

section \<open>Stable sorting\<close>

primrec stable_insert :: "('a \<Rightarrow> 'a \<Rightarrow> bool) \<Rightarrow> 'a \<Rightarrow> 'a list \<Rightarrow> 'a list" where
  "stable_insert lt x [] = [x]"
| "stable_insert lt x (y # ys) =
     (if lt y x then y # stable_insert lt x ys else x # y # ys)"

definition stable_sort :: "('a \<Rightarrow> 'a \<Rightarrow> bool) \<Rightarrow> 'a list \<Rightarrow> 'a list" where
  "stable_sort lt xs = foldr (stable_insert lt) xs []"

definition sort_equiv :: "('a \<Rightarrow> 'a \<Rightarrow> bool) \<Rightarrow> 'a \<Rightarrow> 'a \<Rightarrow> bool" where
  "sort_equiv lt x y \<longleftrightarrow> \<not> lt x y \<and> \<not> lt y x"

lemma stable_sort_simps [simp]:
  "stable_sort lt [] = []"
  "stable_sort lt (x # xs) = stable_insert lt x (stable_sort lt xs)"
  by (simp_all add: stable_sort_def)

lemma mset_stable_insert [simp]: "mset (stable_insert lt x ys) = add_mset x (mset ys)"
  by (induction ys) auto

lemma mset_stable_sort [simp]: "mset (stable_sort lt xs) = mset xs"
  by (induction xs) auto

lemma set_stable_sort [simp]: "set (stable_sort lt xs) = set xs"
  by (metis mset_stable_sort set_mset_mset)

lemma set_stable_insert [simp]: "set (stable_insert lt x xs) = insert x (set xs)"
  by (induction xs) auto

text \<open>
  The interface of a comparator: an asymmetric relation whose complement is transitive. The
  lemmas of the locale are about \<open>stable_sort\<close> with such a comparator.
\<close>

locale strict_weak_order =
  fixes lt :: "'a \<Rightarrow> 'a \<Rightarrow> bool"
  assumes lt_asym: "lt x y \<Longrightarrow> \<not> lt y x"
    and lt_cotrans: "lt x z \<Longrightarrow> lt x y \<or> lt y z"
begin

lemma lt_irrefl: "\<not> lt x x"
  using lt_asym by blast

lemma lt_trans: "lt x y \<Longrightarrow> lt y z \<Longrightarrow> lt x z"
  using lt_asym lt_cotrans by blast

lemma equiv_refl: "sort_equiv lt x x"
  by (simp add: sort_equiv_def lt_irrefl)

lemma equiv_sym: "sort_equiv lt x y \<Longrightarrow> sort_equiv lt y x"
  by (simp add: sort_equiv_def)

lemma equiv_trans: "sort_equiv lt x y \<Longrightarrow> sort_equiv lt y z \<Longrightarrow> sort_equiv lt x z"
  unfolding sort_equiv_def using lt_cotrans by blast

lemma sorted_insert:
  assumes "sorted_wrt (\<lambda>a b. \<not> lt b a) ys"
  shows "sorted_wrt (\<lambda>a b. \<not> lt b a) (stable_insert lt x ys)"
  using assms
proof (induction ys)
  case Nil
  then show ?case by simp
next
  case (Cons y ys)
  show ?case
  proof (cases "lt y x")
    case True
    with Cons show ?thesis using lt_asym by auto
  next
    case False
    then have "\<not> lt b x" if "b \<in> set ys" for b
      using Cons.prems that lt_cotrans by auto
    with False Cons.prems show ?thesis by auto
  qed
qed

lemma sorted_stable_sort: "sorted_wrt (\<lambda>a b. \<not> lt b a) (stable_sort lt xs)"
  by (induction xs) (auto intro: sorted_insert)

lemma filter_insert_equiv:
  "sort_equiv lt z x \<Longrightarrow>
   filter (sort_equiv lt z) (stable_insert lt x ys) =
   x # filter (sort_equiv lt z) ys"
proof (induction ys)
  case Nil
  then show ?case by simp
next
  case (Cons y ys)
  have "\<not> sort_equiv lt z y" if "lt y x"
    using that Cons.prems equiv_sym equiv_trans unfolding sort_equiv_def by blast
  with Cons show ?case by auto
qed

lemma filter_insert_other:
  "\<not> sort_equiv lt z x \<Longrightarrow>
   filter (sort_equiv lt z) (stable_insert lt x ys) = filter (sort_equiv lt z) ys"
  by (induction ys) auto

lemma stable_stable_sort:
  "filter (sort_equiv lt z) (stable_sort lt xs) = filter (sort_equiv lt z) xs"
  by (induction xs) (auto simp: filter_insert_equiv filter_insert_other)

text \<open>
  Two sorted lists with the same classes, each in the same order, are the same list: a stable
  sort has only one possible result.
\<close>

lemma sorted_stable_unique:
  assumes "sorted_wrt (\<lambda>a b. \<not> lt b a) ys" and "sorted_wrt (\<lambda>a b. \<not> lt b a) zs"
    and "\<And>c. filter (sort_equiv lt c) ys = filter (sort_equiv lt c) zs"
  shows "ys = zs"
  using assms
proof (induction ys arbitrary: zs)
  case Nil
  then have "filter (sort_equiv lt c) zs = []" for c by simp
  then show ?case using equiv_refl by (cases zs) (metis filter.simps(2) list.discI)+
next
  case (Cons y ys)
  have "y \<in> set (filter (sort_equiv lt y) zs)"
    using Cons.prems(3) [of y] equiv_refl [of y] by (metis filter.simps(2) list.set_intros(1))
  then have y_zs: "y \<in> set zs" by simp
  then obtain z zs' where zs: "zs = z # zs'" by (cases zs) auto
  have "z \<in> set (filter (sort_equiv lt z) (y # ys))"
    using Cons.prems(3) [of z] equiv_refl [of z] zs by (metis filter.simps(2) list.set_intros(1))
  then have z_ys: "z \<in> set (y # ys)" by (auto split: if_splits)
  have "sort_equiv lt y z"
    using y_zs z_ys zs Cons.prems(1,2) equiv_refl by (auto simp: sort_equiv_def)
  then have head: "y = z"
    using Cons.prems(3) [of y] equiv_refl [of y] zs by simp
  have "filter (sort_equiv lt c) ys = filter (sort_equiv lt c) zs'" for c
    using Cons.prems(3) [of c] zs head by (simp split: if_splits)
  with Cons.IH [of zs'] Cons.prems(1,2) zs head show ?case by simp
qed

lemma stable_sort_unique:
  assumes "sorted_wrt (\<lambda>a b. \<not> lt b a) ys"
    and "\<And>c. filter (sort_equiv lt c) ys = filter (sort_equiv lt c) xs"
  shows "ys = stable_sort lt xs"
  by (rule sorted_stable_unique) (simp_all add: assms sorted_stable_sort stable_stable_sort)

text \<open>Where equivalent elements are equal, the result does not depend on the input's order.\<close>

lemma stable_sort_mset_cong:
  assumes "mset xs = mset ys"
    and "\<And>a b. a \<in> set xs \<Longrightarrow> b \<in> set xs \<Longrightarrow> sort_equiv lt a b \<Longrightarrow> a = b"
  shows "stable_sort lt xs = stable_sort lt ys"
proof (rule stable_sort_unique [OF sorted_stable_sort])
  fix c
  have len: "length (filter (sort_equiv lt c) xs) = length (filter (sort_equiv lt c) ys)"
    using assms(1) by (metis mset_filter size_mset)
  have "set xs = set ys" using assms(1) by (metis set_mset_mset)
  then have same: "a = b"
    if "a \<in> set (filter (sort_equiv lt c) xs @ filter (sort_equiv lt c) ys)"
      and "b \<in> set (filter (sort_equiv lt c) xs @ filter (sort_equiv lt c) ys)" for a b
    using that assms(2) equiv_sym equiv_trans by (metis Un_iff filter_is_subset mem_Collect_eq set_append set_filter subsetD)
  have "filter (sort_equiv lt c) xs = filter (sort_equiv lt c) ys"
    by (rule nth_equalityI [OF len]) (rule same; simp add: len del: set_filter)
  then show "filter (sort_equiv lt c) (stable_sort lt xs) = filter (sort_equiv lt c) ys"
    by (simp add: stable_stable_sort)
qed

lemma stable_sort_idem: "stable_sort lt (stable_sort lt xs) = stable_sort lt xs"
  by (rule stable_sort_unique [symmetric]) (simp_all add: sorted_stable_sort)

end

text \<open>A comparator that compares a key in a linear order is a strict weak order.\<close>

lemma strict_weak_order_key:
  fixes key :: "'a \<Rightarrow> 'k::linorder"
  assumes "\<And>x y. lt x y \<longleftrightarrow> key x < key y"
  shows "strict_weak_order lt"
  by unfold_locales (auto simp: assms)

declare less_prod_simp [simp del]

text \<open>The lexicographic order on pairs, one component at a time.\<close>

lemma less_pair_iff:
  "((a, b) :: 'a::linorder \<times> 'b::linorder) < (c, d) \<longleftrightarrow> (if a \<noteq> c then a < c else b < d)"
  by (auto simp: less_prod_simp)

section \<open>Errors as values: running a fallible function over a list\<close>

primrec traverse :: "('a \<Rightarrow> 'e + 'b) \<Rightarrow> 'a list \<Rightarrow> 'e + 'b list" where
  "traverse f [] = Inr []"
| "traverse f (x # xs) =
     (case f x of
        Inl e \<Rightarrow> Inl e
      | Inr y \<Rightarrow> (case traverse f xs of Inl e \<Rightarrow> Inl e | Inr ys \<Rightarrow> Inr (y # ys)))"

lemma traverse_total: "(\<And>x. x \<in> set xs \<Longrightarrow> \<exists>y. f x = Inr y) \<Longrightarrow> \<exists>ys. traverse f xs = Inr ys"
proof (induction xs)
  case (Cons x xs)
  obtain y where "f x = Inr y" using Cons.prems [of x] by auto
  moreover obtain ys where "traverse f xs = Inr ys" using Cons.IH Cons.prems by auto
  ultimately show ?case by simp
qed simp

lemma traverse_map: "(\<And>x. x \<in> set xs \<Longrightarrow> f (g x) = Inr x) \<Longrightarrow> traverse f (map g xs) = Inr xs"
  by (induction xs) auto

section \<open>Appending without duplicates\<close>

text \<open>\<open>slices.Contains\<close> followed by \<open>append\<close>.\<close>

definition append_new :: "'a list \<Rightarrow> 'a \<Rightarrow> 'a list" where
  "append_new xs x = (if x \<in> set xs then xs else xs @ [x])"

lemma set_append_new [simp]: "set (append_new xs x) = insert x (set xs)"
  by (auto simp: append_new_def)

lemma distinct_append_new: "distinct xs \<Longrightarrow> distinct (append_new xs x)"
  by (simp add: append_new_def)

section \<open>Loops that may stop with an error\<close>

fun fold_sum :: "('a \<Rightarrow> 's \<Rightarrow> 'e + 's) \<Rightarrow> 'a list \<Rightarrow> 's \<Rightarrow> 'e + 's" where
  "fold_sum f [] s = Inr s"
| "fold_sum f (x # xs) s = (case f x s of Inl e \<Rightarrow> Inl e | Inr s' \<Rightarrow> fold_sum f xs s')"

text \<open>A loop whose steps succeed and keep an invariant succeeds and keeps it.\<close>

lemma fold_sum_total:
  assumes "\<And>x s. x \<in> set xs \<Longrightarrow> I s \<Longrightarrow> \<exists>s'. f x s = Inr s' \<and> I s'" and "I s"
  shows "\<exists>s'. fold_sum f xs s = Inr s' \<and> I s'"
  using assms
proof (induction xs arbitrary: s)
  case (Cons x xs)
  from Cons.prems(1) [of x s] Cons.prems(2) obtain s1 where "f x s = Inr s1" "I s1" by auto
  with Cons.IH [of s1] Cons.prems(1) show ?case by simp
qed simp

section \<open>Strings\<close>

definition replace_char :: "char \<Rightarrow> string \<Rightarrow> string \<Rightarrow> string" where
  "replace_char c r s = concat (map (\<lambda>x. if x = c then r else [x]) s)"

definition is_lower :: "char \<Rightarrow> bool" where
  "is_lower c \<longleftrightarrow> 97 \<le> (of_char c :: nat) \<and> (of_char c :: nat) \<le> 122"

definition is_upper :: "char \<Rightarrow> bool" where
  "is_upper c \<longleftrightarrow> 65 \<le> (of_char c :: nat) \<and> (of_char c :: nat) \<le> 90"

definition to_lower_char :: "char \<Rightarrow> char" where
  "to_lower_char c = (if is_upper c then char_of ((of_char c :: nat) + 32) else c)"

definition to_upper_char :: "char \<Rightarrow> char" where
  "to_upper_char c = (if is_lower c then char_of ((of_char c :: nat) - 32) else c)"

definition has_prefix :: "string \<Rightarrow> string \<Rightarrow> bool" where
  "has_prefix p s \<longleftrightarrow> take (length p) s = p"

definition to_lower :: "string \<Rightarrow> string" where
  "to_lower s = map to_lower_char s"

definition to_upper :: "string \<Rightarrow> string" where
  "to_upper s = map to_upper_char s"

lemma to_lower_not_upper: "\<not> is_upper (to_lower_char c)"
  by (auto simp: to_lower_char_def is_upper_def)

text \<open>\<open>strings.Split\<close> and \<open>strings.Join\<close> for a one-byte separator, \<open>strings.TrimSpace\<close> on ASCII.\<close>

fun split_on :: "char \<Rightarrow> string \<Rightarrow> string list" where
  "split_on c [] = [[]]"
| "split_on c (x # xs) =
     (if x = c then [] # split_on c xs
      else case split_on c xs of [] \<Rightarrow> [[x]] | h # t \<Rightarrow> (x # h) # t)"

fun join_with :: "string \<Rightarrow> string list \<Rightarrow> string" where
  "join_with sep [] = []"
| "join_with sep [x] = x"
| "join_with sep (x # y # ys) = x @ sep @ join_with sep (y # ys)"

definition is_space :: "char \<Rightarrow> bool" where
  "is_space c \<longleftrightarrow> of_char c \<in> {9, 10, 11, 12, 13, 32 :: nat}"

definition trim_space :: "string \<Rightarrow> string" where
  "trim_space s = rev (dropWhile is_space (rev (dropWhile is_space s)))"

lemma split_on_nonempty [simp]: "split_on c s \<noteq> []"
  by (cases s) (auto split: list.split)

lemma join_split_on: "join_with [c] (split_on c s) = s"
proof (induction s)
  case Nil
  then show ?case by simp
next
  case (Cons x s)
  show ?case
  proof (cases "split_on c s")
    case Nil
    then show ?thesis by simp
  next
    case (Cons h t)
    with Cons.IH show ?thesis by (cases t) auto
  qed
qed

text \<open>Splitting at the first separator.\<close>

lemma split_first:
  "c \<notin> set xs \<Longrightarrow> c \<notin> set ys \<Longrightarrow> xs @ c # r = ys @ c # r' \<longleftrightarrow> xs = ys \<and> r = r'"
proof (induction xs arbitrary: ys)
  case Nil
  then show ?case by (cases ys) auto
next
  case (Cons x xs)
  then show ?case by (cases ys) auto
qed

lemma split_head:
  assumes "c \<notin> set x" and "c \<notin> set y"
    and "t = [] \<or> (\<exists>r. t = c # r)" and "u = [] \<or> (\<exists>r. u = c # r)"
  shows "x @ t = y @ u \<longleftrightarrow> x = y \<and> t = u"
  using assms by (auto simp: split_first)

section \<open>Go maps as association lists\<close>

text \<open>
  A Go map is an association list with distinct keys, in insertion order: \<open>AList.update\<close> stores,
  \<open>map_of\<close> reads. Where the result of a loop over a map depends on Go's unspecified iteration
  order, the definition takes that order as an argument.
\<close>

lemma map_of_update [simp]: "map_of (AList.update k v m) = (map_of m)(k \<mapsto> v)"
  by (rule ext) (simp add: update_conv')

lemma keys_update [simp]: "set (map fst (AList.update k v m)) = insert k (set (map fst m))"
  by (induction m) auto

lemma distinct_keys_update: "distinct (map fst m) \<Longrightarrow> distinct (map fst (AList.update k v m))"
  by (rule distinct_update)

lemma vals_update: "snd ` set (AList.update k v m) \<subseteq> insert v (snd ` set m)"
  by (induction m) auto

lemma update_values:
  "list_all P m \<Longrightarrow> P (k, v) \<Longrightarrow> list_all P (AList.update k v m)"
  by (induction m) auto

lemma delete_values:
  "list_all P m \<Longrightarrow> list_all P (AList.delete k m)"
  by (induction m) auto

end
