(* ===== verification/Traffic_Policy.thy ===== *)
theory Traffic_Policy
  imports Ngrok_Prelude
begin

text \<open>
  \<^bold>\<open>internal/trafficpolicy/policy.go\<close>: the traffic policy document (rules for the three phases of a
  connection), its JSON decoding with the check for unknown keys, its encoding, and the operations
  the translator uses to assemble policies.

  A document of type \<open>[]byte\<close> or \<open>json.RawMessage\<close> is represented by what \<open>encoding/json\<close> parses it
  to: \<open>RawEmpty\<close> (no bytes), \<open>RawInvalid\<close> (a text with a syntax error) or \<open>RawDoc\<close> of a JSON tree (numbers are
  integers; no operation here looks into a number). The \<open>any\<close> values of the source (\<open>Rule.Name\<close>,
  \<open>Action.Config\<close>) are JSON trees, \<open>JNull\<close> being the nil interface. Slices are lists: nil and empty
  are not told apart.
\<close>

section \<open>JSON documents\<close>

datatype json =
    JNull
  | JBool bool
  | JNum int
  | JStr string
  | JArr "json list"
  | JObj "(string \<times> json) list"

datatype raw_json = RawEmpty | RawInvalid string | RawDoc json

text \<open>
  Struct fields are found by name as \<open>encoding/json\<close> does: case-insensitively, the last matching
  key of the object winning.
\<close>

definition json_field :: "string \<Rightarrow> (string \<times> json) list \<Rightarrow> json" where
  "json_field n kvs =
     (case find (\<lambda>(k, v). to_lower k = n) (rev kvs) of None \<Rightarrow> JNull | Some (k, v) \<Rightarrow> v)"

section \<open>Data\<close>

type_synonym ActionType = string

definition ActionTypes :: "ActionType list" where
  "ActionTypes =
     [''add-headers'', ''basic-auth'', ''circuit-breaker'', ''compress-response'',
      ''custom-response'', ''deny'', ''forward-internal'', ''jwt-validation'', ''log'',
      ''set-vars'', ''oauth'', ''openid-connect'', ''rate-limit'', ''redirect'',
      ''remove-headers'', ''restrict-ips'', ''terminate-tls'', ''url-rewrite'',
      ''verify-webhook'']"

abbreviation (input) ActionType_AddHeaders :: ActionType where
  "ActionType_AddHeaders \<equiv> ''add-headers''"

abbreviation (input) ActionType_CustomResponse :: ActionType where
  "ActionType_CustomResponse \<equiv> ''custom-response''"

abbreviation (input) ActionType_ForwardInternal :: ActionType where
  "ActionType_ForwardInternal \<equiv> ''forward-internal''"

abbreviation (input) ActionType_SetVars :: ActionType where
  "ActionType_SetVars \<equiv> ''set-vars''"

abbreviation (input) ActionType_RemoveHeaders :: ActionType where
  "ActionType_RemoveHeaders \<equiv> ''remove-headers''"

abbreviation (input) ActionType_TerminateTLS :: ActionType where
  "ActionType_TerminateTLS \<equiv> ''terminate-tls''"

abbreviation (input) ActionType_URLRewrite :: ActionType where
  "ActionType_URLRewrite \<equiv> ''url-rewrite''"

record Action =
  aType :: ActionType
  aConfig :: json

record Rule =
  rName :: json
  rExpressions :: "string list"
  rActions :: "Action list"

record TrafficPolicy =
  OnHTTPRequest :: "Rule list"
  OnHTTPResponse :: "Rule list"
  OnTCPConnect :: "Rule list"

datatype policy_error =
    UnmarshalError
  | UnknownKeys "string list"
  | ParseError

definition NewTrafficPolicy :: TrafficPolicy where
  "NewTrafficPolicy = \<lparr>OnHTTPRequest = [], OnHTTPResponse = [], OnTCPConnect = []\<rparr>"

definition validTrafficPolicyKeys :: "string \<Rightarrow> bool" where
  "validTrafficPolicyKeys k \<longleftrightarrow>
     k = ''on_http_request'' \<or> k = ''on_http_response'' \<or> k = ''on_tcp_connect''"

section \<open>Decoding\<close>

text \<open>\<open>json.Unmarshal\<close> into \<open>string\<close>, \<open>[]string\<close>, \<open>Action\<close>, \<open>Rule\<close> and \<open>TrafficPolicy\<close>; a JSON null
  leaves the zero value.\<close>

fun decode_string :: "json \<Rightarrow> policy_error + string" where
  "decode_string (JStr s) = Inr s"
| "decode_string JNull = Inr []"
| "decode_string _ = Inl ParseError"

fun decode_list :: "(json \<Rightarrow> policy_error + 'a) \<Rightarrow> json \<Rightarrow> policy_error + 'a list" where
  "decode_list f (JArr xs) = traverse f xs"
| "decode_list f JNull = Inr []"
| "decode_list f _ = Inl ParseError"

fun decode_action :: "json \<Rightarrow> policy_error + Action" where
  "decode_action (JObj kvs) =
     (case decode_string (json_field ''type'' kvs) of
        Inl e \<Rightarrow> Inl e
      | Inr t \<Rightarrow> Inr \<lparr>aType = t, aConfig = json_field ''config'' kvs\<rparr>)"
| "decode_action JNull = Inr \<lparr>aType = [], aConfig = JNull\<rparr>"
| "decode_action _ = Inl ParseError"

fun decode_rule :: "json \<Rightarrow> policy_error + Rule" where
  "decode_rule (JObj kvs) =
     (case decode_list decode_string (json_field ''expressions'' kvs) of
        Inl e \<Rightarrow> Inl e
      | Inr es \<Rightarrow>
          (case decode_list decode_action (json_field ''actions'' kvs) of
             Inl e \<Rightarrow> Inl e
           | Inr acts \<Rightarrow>
               Inr \<lparr>rName = json_field ''name'' kvs, rExpressions = es, rActions = acts\<rparr>))"
| "decode_rule JNull = Inr \<lparr>rName = JNull, rExpressions = [], rActions = []\<rparr>"
| "decode_rule _ = Inl ParseError"

fun decode_policy :: "json \<Rightarrow> policy_error + TrafficPolicy" where
  "decode_policy (JObj kvs) =
     (case decode_list decode_rule (json_field ''on_http_request'' kvs) of
        Inl e \<Rightarrow> Inl e
      | Inr req \<Rightarrow>
          (case decode_list decode_rule (json_field ''on_http_response'' kvs) of
             Inl e \<Rightarrow> Inl e
           | Inr res \<Rightarrow>
               (case decode_list decode_rule (json_field ''on_tcp_connect'' kvs) of
                  Inl e \<Rightarrow> Inl e
                | Inr tcp \<Rightarrow>
                    Inr \<lparr>OnHTTPRequest = req, OnHTTPResponse = res, OnTCPConnect = tcp\<rparr>)))"
| "decode_policy JNull = Inr NewTrafficPolicy"
| "decode_policy _ = Inl ParseError"

definition unknownKeys :: "(string \<times> json) list \<Rightarrow> string list" where
  "unknownKeys kvs = sort (remdups (filter (\<lambda>k. \<not> validTrafficPolicyKeys k) (map fst kvs)))"

fun NewTrafficPolicyFromJSON :: "raw_json \<Rightarrow> policy_error + TrafficPolicy" where
  "NewTrafficPolicyFromJSON RawEmpty = Inr NewTrafficPolicy"
| "NewTrafficPolicyFromJSON (RawInvalid _) = Inl UnmarshalError"
| "NewTrafficPolicyFromJSON (RawDoc (JObj kvs)) =
     (if unknownKeys kvs \<noteq> [] then Inl (UnknownKeys (unknownKeys kvs))
      else decode_policy (JObj kvs))"
| "NewTrafficPolicyFromJSON (RawDoc JNull) = decode_policy JNull"
| "NewTrafficPolicyFromJSON (RawDoc _) = Inl UnmarshalError"

section \<open>Encoding\<close>

text \<open>\<open>json.Marshal\<close> with the \<open>omitempty\<close> tags of the structs.\<close>

definition action_json :: "Action \<Rightarrow> json" where
  "action_json a = JObj [(''type'', JStr (aType a)), (''config'', aConfig a)]"

definition rule_json :: "Rule \<Rightarrow> json" where
  "rule_json r = JObj
     ((if rName r = JNull then [] else [(''name'', rName r)]) @
      (if rExpressions r = [] then [] else [(''expressions'', JArr (map JStr (rExpressions r)))]) @
      [(''actions'', JArr (map action_json (rActions r)))])"

definition policy_json :: "TrafficPolicy \<Rightarrow> json" where
  "policy_json tp = JObj
     ((if OnHTTPRequest tp = [] then []
       else [(''on_http_request'', JArr (map rule_json (OnHTTPRequest tp)))]) @
      (if OnHTTPResponse tp = [] then []
       else [(''on_http_response'', JArr (map rule_json (OnHTTPResponse tp)))]) @
      (if OnTCPConnect tp = [] then []
       else [(''on_tcp_connect'', JArr (map rule_json (OnTCPConnect tp)))]))"

section \<open>Operations\<close>

definition AddRuleOnHTTPRequest :: "TrafficPolicy \<Rightarrow> Rule \<Rightarrow> TrafficPolicy" where
  "AddRuleOnHTTPRequest tp r = tp\<lparr>OnHTTPRequest := OnHTTPRequest tp @ [r]\<rparr>"

definition AddRuleOnHTTPResponse :: "TrafficPolicy \<Rightarrow> Rule \<Rightarrow> TrafficPolicy" where
  "AddRuleOnHTTPResponse tp r = tp\<lparr>OnHTTPResponse := OnHTTPResponse tp @ [r]\<rparr>"

definition AddRuleOnTCPConnect :: "TrafficPolicy \<Rightarrow> Rule \<Rightarrow> TrafficPolicy" where
  "AddRuleOnTCPConnect tp r = tp\<lparr>OnTCPConnect := OnTCPConnect tp @ [r]\<rparr>"

fun rules_contain_action :: "ActionType \<Rightarrow> Rule list \<Rightarrow> bool" where
  "rules_contain_action t [] = False"
| "rules_contain_action t (r # rs) =
     (if list_ex (\<lambda>a. aType a = t) (rActions r) then True else rules_contain_action t rs)"

definition ContainsAction :: "TrafficPolicy \<Rightarrow> ActionType \<Rightarrow> bool" where
  "ContainsAction tp t =
     (if rules_contain_action t (OnHTTPRequest tp) then True
      else if rules_contain_action t (OnHTTPResponse tp) then True
      else rules_contain_action t (OnTCPConnect tp))"

definition IsEmpty :: "TrafficPolicy \<Rightarrow> bool" where
  "IsEmpty tp \<longleftrightarrow>
     length (OnHTTPRequest tp) = 0 \<and> length (OnHTTPResponse tp) = 0 \<and> length (OnTCPConnect tp) = 0"

definition Merge :: "TrafficPolicy \<Rightarrow> TrafficPolicy ptr \<Rightarrow> TrafficPolicy" where
  "Merge tp other =
     (case other of
        None \<Rightarrow> tp
      | Some oth \<Rightarrow>
          if IsEmpty oth then tp
          else \<lparr>OnHTTPRequest = OnHTTPRequest tp @ OnHTTPRequest oth,
                OnHTTPResponse = OnHTTPResponse tp @ OnHTTPResponse oth,
                OnTCPConnect = OnTCPConnect tp @ OnTCPConnect oth\<rparr>)"

definition DeepCopy :: "TrafficPolicy \<Rightarrow> policy_error + TrafficPolicy" where
  "DeepCopy tp = decode_policy (policy_json tp)"

section \<open>Lemmas\<close>

lemma json_field_simps [simp]:
  "json_field n [] = JNull"
  "json_field n (kvs @ [(k, v)]) = (if to_lower k = n then v else json_field n kvs)"
  by (simp_all add: json_field_def)

lemma decode_list_map:
  assumes "\<And>x. x \<in> set xs \<Longrightarrow> f (g x) = Inr x"
  shows "decode_list f (JArr (map g xs)) = Inr xs"
  using assms by (simp add: traverse_map)

text \<open>Field lookups in the objects the encoders build.\<close>

lemma json_field_action:
  "json_field ''type'' [(''type'', t), (''config'', c)] = t"
  "json_field ''config'' [(''type'', t), (''config'', c)] = c"
  by (simp_all add: json_field_def to_lower_def to_lower_char_def is_upper_def)

lemma decode_action_json [simp]: "decode_action (action_json a) = Inr a"
  by (simp add: action_json_def json_field_action)

lemma decode_rule_json [simp]: "decode_rule (rule_json r) = Inr r"
proof -
  have strs: "decode_list decode_string (JArr (map JStr es)) = Inr es" for es
    by (rule decode_list_map) simp
  have acts: "decode_list decode_action (JArr (map action_json xs)) = Inr xs" for xs
    by (rule decode_list_map) simp
  show ?thesis
    by (cases r)
       (simp add: rule_json_def json_field_def to_lower_def to_lower_char_def is_upper_def
          strs acts del: decode_list.simps(1))
qed

lemma decode_policy_json: "decode_policy (policy_json tp) = Inr tp"
proof -
  have rules: "decode_list decode_rule (JArr (map rule_json rs)) = Inr rs" for rs
    by (rule decode_list_map) simp
  show ?thesis
    by (cases tp)
       (simp add: policy_json_def json_field_def to_lower_def to_lower_char_def is_upper_def
          rules del: decode_list.simps(1))
qed

lemma traverse_error: "traverse f xs = Inl e \<Longrightarrow> \<exists>x\<in>set xs. f x = Inl e"
  by (induction xs) (auto split: sum.splits)

lemma decode_list_no_unknown:
  assumes "\<And>x. f x \<noteq> Inl (UnknownKeys ks)"
  shows "decode_list f j \<noteq> Inl (UnknownKeys ks)"
  using assms by (cases "(f, j)" rule: decode_list.cases) (auto dest: traverse_error)

lemma decode_string_no_unknown: "decode_string j \<noteq> Inl (UnknownKeys ks)"
  by (cases j) auto

lemma decode_action_no_unknown: "decode_action j \<noteq> Inl (UnknownKeys ks)"
  by (cases j) (auto simp: decode_string_no_unknown split: sum.splits)

lemma decode_rule_no_unknown: "decode_rule j \<noteq> Inl (UnknownKeys ks)"
  by (cases j)
     (auto simp: decode_list_no_unknown decode_string_no_unknown decode_action_no_unknown
        split: sum.splits)

lemma decode_policy_no_unknown: "decode_policy j \<noteq> Inl (UnknownKeys ks)"
  by (cases j) (auto simp: decode_list_no_unknown decode_rule_no_unknown split: sum.splits)

lemma set_unknownKeys:
  "set (unknownKeys kvs) = {k. k \<in> fst ` set kvs \<and> \<not> validTrafficPolicyKeys k}"
  by (auto simp: unknownKeys_def)

lemma unknownKeys_policy: "policy_json tp = JObj kvs \<Longrightarrow> unknownKeys kvs = []"
  by (auto simp: policy_json_def unknownKeys_def validTrafficPolicyKeys_def)

lemma Merge_phases [simp]:
  "OnHTTPRequest (Merge tp (Some o')) = OnHTTPRequest tp @ OnHTTPRequest o'"
  "OnHTTPResponse (Merge tp (Some o')) = OnHTTPResponse tp @ OnHTTPResponse o'"
  "OnTCPConnect (Merge tp (Some o')) = OnTCPConnect tp @ OnTCPConnect o'"
  by (simp_all add: Merge_def IsEmpty_def)

lemma Merge_None [simp]: "Merge tp None = tp"
  by (simp add: Merge_def)

lemma rules_contain_action_iff:
  "rules_contain_action t rs \<longleftrightarrow> (\<exists>r\<in>set rs. \<exists>a\<in>set (rActions r). aType a = t)"
  by (induction rs) (auto simp: list_ex_iff)

lemma ContainsAction_iff:
  "ContainsAction tp t \<longleftrightarrow>
     (\<exists>r\<in>set (OnHTTPRequest tp @ OnHTTPResponse tp @ OnTCPConnect tp).
        \<exists>a\<in>set (rActions r). aType a = t)"
  by (auto simp: ContainsAction_def rules_contain_action_iff)

lemma Merge_assoc: "Merge (Merge a (Some b)) (Some c) = Merge a (Some (Merge b (Some c)))"
  by (rule TrafficPolicy.equality) simp_all

lemma Merge_unit:
  "Merge a (Some NewTrafficPolicy) = a"
  "Merge NewTrafficPolicy (Some a) = a"
  by (rule TrafficPolicy.equality; simp add: NewTrafficPolicy_def)+

lemma ContainsAction_Merge:
  "ContainsAction (Merge a (Some b)) t \<longleftrightarrow> ContainsAction a t \<or> ContainsAction b t"
  unfolding ContainsAction_iff Merge_phases by (simp only: set_append bex_Un) blast

section \<open>Properties\<close>


text \<open>
  A document is accepted only if every top-level key is one of the three phases: an unknown
  key is never silently ignored. When one is present the error lists exactly the unknown keys,
  sorted and without repetition.
\<close>

theorem unknown_keys_refused:
  "(\<exists>k. k \<in> fst ` set kvs \<and> \<not> validTrafficPolicyKeys k) \<longleftrightarrow>
   (\<exists>ks. NewTrafficPolicyFromJSON (RawDoc (JObj kvs)) = Inl (UnknownKeys ks) \<and>
         set ks = {k. k \<in> fst ` set kvs \<and> \<not> validTrafficPolicyKeys k} \<and>
         sorted ks \<and> distinct ks)"
proof -
  have "(\<exists>k. k \<in> fst ` set kvs \<and> \<not> validTrafficPolicyKeys k) \<longleftrightarrow> unknownKeys kvs \<noteq> []"
    using set_unknownKeys [of kvs] by (metis (mono_tags, lifting) empty_Collect_eq set_empty)
  moreover have "NewTrafficPolicyFromJSON (RawDoc (JObj kvs)) \<noteq> Inl (UnknownKeys ks)"
    if "unknownKeys kvs = []" for ks
    using that decode_policy_no_unknown by (simp del: decode_policy.simps)
  ultimately show ?thesis
    using set_unknownKeys [of kvs] by (cases "unknownKeys kvs = []") (auto simp: unknownKeys_def)
qed

text \<open>
  Merging is concatenation phase by phase, in order, whatever the policies hold (the early
  return for an empty argument changes nothing), so it is associative with the empty policy as
  unit, and an action occurs in the result exactly if it occurs in one of the two.
\<close>

theorem Merge_monoid:
  "Merge (Merge a (Some b)) (Some c) = Merge a (Some (Merge b (Some c))) \<and>
   Merge a (Some NewTrafficPolicy) = a \<and> Merge NewTrafficPolicy (Some a) = a \<and>
   OnHTTPRequest (Merge a (Some b)) = OnHTTPRequest a @ OnHTTPRequest b \<and>
   OnHTTPResponse (Merge a (Some b)) = OnHTTPResponse a @ OnHTTPResponse b \<and>
   OnTCPConnect (Merge a (Some b)) = OnTCPConnect a @ OnTCPConnect b \<and>
   (ContainsAction (Merge a (Some b)) t \<longleftrightarrow> ContainsAction a t \<or> ContainsAction b t)"
  by (intro conjI Merge_assoc Merge_unit Merge_phases ContainsAction_Merge)

end
