(* ===== verification/Ngrok_IR.thy ===== *)
theory Ngrok_IR
  imports Traffic_Policy
begin

text \<open>
  \<^bold>\<open>internal/ir/ir.go\<close>: the intermediate representation between the Kubernetes resources and the
  generated endpoints. Structs are records, string enums with a \<open>default\<close> branch are datatypes with
  an \<open>Other\<close> constructor, pointers to scalars are options. \<open>int32\<close> ports are integers (the code only
  compares and prints them).

  Two kinds of pointers are shared and written through, so they are addresses into an explicit
  store \<open>ir_heap\<close>: \<open>*IRUpstream\<close> (the upstream cache hands one object to many destinations, and
  \<open>AddOwningResource\<close> updates it in place) and the \<open>*TrafficPolicy\<close> of a virtual host (the
  translator merges the generated rules into it in place).
\<close>

section \<open>Data\<close>

datatype IRProtocol =
    IRProtocol_HTTPS
  | IRProtocol_HTTP
  | IRProtocol_TCP
  | IRProtocol_TLS
  | IRProtocol_Other string

type_synonym IRHostname = string

record IRListener =
  lHostname :: IRHostname
  lPort :: int
  lProtocol :: IRProtocol

datatype IRMappingStrategy =
    IRMappingStrategy_EndpointsCollapsed
  | IRMappingStrategy_EndpointsVerbose
  | IRMappingStrategy_Edges

abbreviation IRMappingStrategy_EndpointsDefault :: IRMappingStrategy where
  "IRMappingStrategy_EndpointsDefault \<equiv> IRMappingStrategy_EndpointsCollapsed"

record IRTLSTermination =
  tlsExtendedOptions :: "(string \<times> string) list"
  tlsServerPrivateKey :: "string ptr"
  tlsServerCertificate :: "string ptr"
  tlsMutualTLSCertificateAuthorities :: "string list"

datatype IRPathMatchType =
    IRPathType_Prefix
  | IRPathType_Exact
  | IRPathType_Regex
  | IRPathType_Other string

type_synonym IRMethodMatch = string

type_synonym IRStringValueType = string

abbreviation IRStringValueType_Exact :: IRStringValueType where
  "IRStringValueType_Exact \<equiv> ''exact''"

abbreviation IRStringValueType_Regex :: IRStringValueType where
  "IRStringValueType_Regex \<equiv> ''regex''"

record IRHeaderMatch =
  hmName :: string
  hmValue :: string
  hmValueType :: IRStringValueType

record IRQueryParamMatch =
  qmName :: string
  qmValue :: string
  qmValueType :: IRStringValueType

record IRHTTPMatch =
  mPath :: "string ptr"
  mPathType :: "IRPathMatchType ptr"
  mHeaders :: "IRHeaderMatch list"
  mQueryParams :: "IRQueryParamMatch list"
  mMethod :: "IRMethodMatch ptr"

record IRObjectRef =
  refName :: string
  refNamespace :: string

type_synonym IRScheme = string

abbreviation IRScheme_HTTP :: IRScheme where "IRScheme_HTTP \<equiv> ''http://''"

abbreviation IRScheme_HTTPS :: IRScheme where "IRScheme_HTTPS \<equiv> ''https://''"

abbreviation IRScheme_TCP :: IRScheme where "IRScheme_TCP \<equiv> ''tcp://''"

abbreviation IRScheme_TLS :: IRScheme where "IRScheme_TLS \<equiv> ''tls://''"

record IRService =
  sUID :: string
  sNamespace :: string
  sName :: string
  sPort :: int
  sClientCertRefs :: "IRObjectRef list"
  sScheme :: IRScheme
  sProtocol :: "string ptr"

type_synonym IRServiceKey = string

record IRUpstream =
  uOwningResources :: "OwningResource list"
  uService :: IRService

type_synonym addr = nat

record IRDestination =
  dWeight :: "int ptr"
  dUpstream :: "addr ptr"
  dTrafficPolicies :: "TrafficPolicy list"

record IRRoute =
  rtHTTPMatchCriteria :: "IRHTTPMatch ptr"
  rtTrafficPolicies :: "TrafficPolicy list"
  rtDestinations :: "IRDestination list"

record IRVirtualHost =
  vhNamePrefix :: "string ptr"
  vhNamespace :: string
  vhListener :: IRListener
  vhEndpointPoolingEnabled :: "bool ptr"
  vhTrafficPolicy :: "addr ptr"
  vhTrafficPolicyObjRef :: "OwningResource ptr"
  vhRoutes :: "IRRoute list"
  vhDefaultDestination :: "IRDestination ptr"
  vhTLSTermination :: "IRTLSTermination ptr"
  vhClientCertRefs :: "IRObjectRef list"
  vhLabelsToAdd :: "(string \<times> string) list"
  vhAnnotationsToAdd :: "(string \<times> string) list"
  vhOwningResources :: "OwningResource list"
  vhMetadata :: raw_json
  vhDescription :: string
  vhBindings :: "string list"
  vhMappingStrategy :: IRMappingStrategy
  vhCollapseIntoServiceKey :: "IRServiceKey ptr"

text \<open>The store of the shared objects: an address is a position.\<close>

record ir_heap =
  hpUpstreams :: "IRUpstream list"
  hpPolicies :: "TrafficPolicy list"

definition upstream_service :: "ir_heap \<Rightarrow> addr \<Rightarrow> IRService" where
  "upstream_service hp a = uService (hpUpstreams hp ! a)"

text \<open>Every upstream a destination points to is allocated.\<close>

definition dest_ok :: "ir_heap \<Rightarrow> IRDestination \<Rightarrow> bool" where
  "dest_ok hp d \<longleftrightarrow> (case dUpstream d of None \<Rightarrow> True | Some a \<Rightarrow> a < length (hpUpstreams hp))"

definition vhost_ok :: "ir_heap \<Rightarrow> IRVirtualHost \<Rightarrow> bool" where
  "vhost_ok hp v \<longleftrightarrow>
     list_all (\<lambda>r. list_all (dest_ok hp) (rtDestinations r)) (vhRoutes v) \<and>
     (case vhDefaultDestination v of None \<Rightarrow> True | Some d \<Rightarrow> dest_ok hp d) \<and>
     (case vhTrafficPolicy v of None \<Rightarrow> True | Some a \<Rightarrow> a < length (hpPolicies hp))"

section \<open>Service keys\<close>

definition Key :: "IRService \<Rightarrow> IRServiceKey" where
  "Key s =
     sUID s @ ''/'' @ sNamespace s @ ''/'' @ sName s @ ''/'' @ itoa (sPort s) @
     (case sProtocol s of None \<Rightarrow> [] | Some p \<Rightarrow> ''/'' @ p) @
     concat (map (\<lambda>c. ''/'' @ refName c @ ''.'' @ refNamespace c) (sClientCertRefs s))"

text \<open>The upstream services of a virtual host: those of the routes, then the default destination's.\<close>

definition dest_keys :: "ir_heap \<Rightarrow> IRDestination list \<Rightarrow> IRServiceKey list" where
  "dest_keys hp ds = concat (map (\<lambda>d. case dUpstream d of None \<Rightarrow> [] | Some a \<Rightarrow> [Key (upstream_service hp a)]) ds)"

definition route_keys :: "ir_heap \<Rightarrow> IRVirtualHost \<Rightarrow> IRServiceKey list" where
  "route_keys hp v = concat (map (\<lambda>r. dest_keys hp (rtDestinations r)) (vhRoutes v))"

definition default_keys :: "ir_heap \<Rightarrow> IRVirtualHost \<Rightarrow> IRServiceKey list" where
  "default_keys hp v =
     (case vhDefaultDestination v of None \<Rightarrow> [] | Some d \<Rightarrow> dest_keys hp [d])"

definition UniqueServiceCount :: "ir_heap \<Rightarrow> IRVirtualHost \<Rightarrow> nat" where
  "UniqueServiceCount hp v = length (remdups (route_keys hp v @ default_keys hp v))"

section \<open>Sorting the routes of a virtual host\<close>

fun pathTypeOrder :: "IRPathMatchType \<Rightarrow> nat" where
  "pathTypeOrder IRPathType_Exact = 0"
| "pathTypeOrder IRPathType_Prefix = 1"
| "pathTypeOrder IRPathType_Regex = 2"
| "pathTypeOrder (IRPathType_Other _) = 3"

definition headerValueTypeOrder :: "IRStringValueType \<Rightarrow> nat" where
  "headerValueTypeOrder vt =
     (if vt = IRStringValueType_Exact then 0
      else if vt = IRStringValueType_Regex then 1
      else 2)"

definition header_less :: "IRHeaderMatch \<Rightarrow> IRHeaderMatch \<Rightarrow> bool" where
  "header_less a b =
     (if hmName a \<noteq> hmName b then hmName a < hmName b
      else if headerValueTypeOrder (hmValueType a) \<noteq> headerValueTypeOrder (hmValueType b)
      then headerValueTypeOrder (hmValueType a) < headerValueTypeOrder (hmValueType b)
      else hmValue a < hmValue b)"

definition headersToString :: "IRHeaderMatch list \<Rightarrow> string" where
  "headersToString headers =
     concat (map (\<lambda>h. hmName h @ '':'' @ hmValueType h @ '':'' @ hmValue h @ '';'')
       (stable_sort header_less headers))"

definition query_param_less :: "IRQueryParamMatch \<Rightarrow> IRQueryParamMatch \<Rightarrow> bool" where
  "query_param_less a b =
     (if qmName a \<noteq> qmName b then qmName a < qmName b
      else if headerValueTypeOrder (qmValueType a) \<noteq> headerValueTypeOrder (qmValueType b)
      then headerValueTypeOrder (qmValueType a) < headerValueTypeOrder (qmValueType b)
      else qmValue a < qmValue b)"

definition queryParamsToString :: "IRQueryParamMatch list \<Rightarrow> string" where
  "queryParamsToString qps =
     concat (map (\<lambda>q. qmName q @ '':'' @ qmValueType q @ '':'' @ qmValue q @ '';'')
       (stable_sort query_param_less qps))"

text \<open>
  The comparator of \<open>SortRoutes\<close>. It dereferences \<open>PathType\<close> whenever both routes have a path; the
  order given here to a nil path type is never used, because \<open>SortRoutes\<close> panics first.
\<close>

definition deref_path_order :: "IRHTTPMatch \<Rightarrow> nat" where
  "deref_path_order m = (case mPathType m of None \<Rightarrow> 3 | Some t \<Rightarrow> pathTypeOrder t)"

definition method_less :: "IRHTTPMatch \<Rightarrow> IRHTTPMatch \<Rightarrow> bool" where
  "method_less mi mj =
     (case (mMethod mi, mMethod mj) of
        (Some a, None) \<Rightarrow> True
      | (None, Some b) \<Rightarrow> False
      | (Some a, Some b) \<Rightarrow> (if a \<noteq> b then a < b else False)
      | (None, None) \<Rightarrow> False)"

definition query_params_then_method_less :: "IRHTTPMatch \<Rightarrow> IRHTTPMatch \<Rightarrow> bool" where
  "query_params_then_method_less mi mj =
     (if mQueryParams mi \<noteq> [] \<and> mQueryParams mj = [] then True
      else if mQueryParams mi = [] \<and> mQueryParams mj \<noteq> [] then False
      else if mQueryParams mi \<noteq> [] \<and> mQueryParams mj \<noteq> [] \<and>
              queryParamsToString (mQueryParams mi) \<noteq> queryParamsToString (mQueryParams mj)
      then queryParamsToString (mQueryParams mi) < queryParamsToString (mQueryParams mj)
      else method_less mi mj)"

definition headers_then_rest_less :: "IRHTTPMatch \<Rightarrow> IRHTTPMatch \<Rightarrow> bool" where
  "headers_then_rest_less mi mj =
     (if mHeaders mi \<noteq> [] \<and> mHeaders mj = [] then True
      else if mHeaders mi = [] \<and> mHeaders mj \<noteq> [] then False
      else if mHeaders mi \<noteq> [] \<and> mHeaders mj \<noteq> [] \<and>
              headersToString (mHeaders mi) \<noteq> headersToString (mHeaders mj)
      then headersToString (mHeaders mi) < headersToString (mHeaders mj)
      else query_params_then_method_less mi mj)"

definition match_less :: "IRHTTPMatch ptr \<Rightarrow> IRHTTPMatch ptr \<Rightarrow> bool" where
  "match_less oi oj =
     (case (oi, oj) of
        (None, None) \<Rightarrow> False
      | (None, Some _) \<Rightarrow> False
      | (Some _, None) \<Rightarrow> True
      | (Some mi, Some mj) \<Rightarrow>
          (case (mPath mi, mPath mj) of
             (Some _, None) \<Rightarrow> True
           | (None, Some _) \<Rightarrow> False
           | (Some p, Some q) \<Rightarrow>
               if deref_path_order mi \<noteq> deref_path_order mj
               then deref_path_order mi < deref_path_order mj
               else if length p \<noteq> length q then length p > length q
               else if p \<noteq> q then p < q
               else headers_then_rest_less mi mj
           | (None, None) \<Rightarrow> headers_then_rest_less mi mj))"

definition route_less :: "IRRoute \<Rightarrow> IRRoute \<Rightarrow> bool" where
  "route_less a b = match_less (rtHTTPMatchCriteria a) (rtHTTPMatchCriteria b)"

text \<open>
  A nil dereference happens exactly if two routes have a path and one of them no path type: routes
  with a path are adjacent in every sorted order, so a comparison sort has to compare that route
  with another one that has a path.
\<close>

definition has_path :: "IRRoute \<Rightarrow> bool" where
  "has_path r = (case rtHTTPMatchCriteria r of None \<Rightarrow> False | Some m \<Rightarrow> mPath m \<noteq> None)"

definition path_type_missing :: "IRRoute \<Rightarrow> bool" where
  "path_type_missing r =
     (case rtHTTPMatchCriteria r of None \<Rightarrow> False | Some m \<Rightarrow> mPath m \<noteq> None \<and> mPathType m = None)"

definition sort_panics :: "IRRoute list \<Rightarrow> bool" where
  "sort_panics rs \<longleftrightarrow> length (filter has_path rs) \<ge> 2 \<and> list_ex path_type_missing rs"

datatype panic = NilDereference

definition SortRoutes :: "IRVirtualHost \<Rightarrow> panic + IRVirtualHost" where
  "SortRoutes h =
     (if sort_panics (vhRoutes h) then Inl NilDereference
      else Inr (h\<lparr>vhRoutes := stable_sort route_less (vhRoutes h)\<rparr>))"

section \<open>Owning resources\<close>

definition AddOwningResource :: "IRVirtualHost \<Rightarrow> OwningResource \<Rightarrow> IRVirtualHost" where
  "AddOwningResource h new = h\<lparr>vhOwningResources := append_new (vhOwningResources h) new\<rparr>"

definition IRUpstream_AddOwningResource :: "IRUpstream \<Rightarrow> OwningResource \<Rightarrow> IRUpstream" where
  "IRUpstream_AddOwningResource u new = u\<lparr>uOwningResources := append_new (uOwningResources u) new\<rparr>"

section \<open>Metadata\<close>

text \<open>\<open>json.Unmarshal\<close> into \<open>map[string]any\<close>: an error for anything but an object or null.\<close>

fun unmarshal_map :: "raw_json \<Rightarrow> (string \<times> json) list option" where
  "unmarshal_map (RawDoc (JObj kvs)) = Some (fold (\<lambda>(k, v) m. AList.update k v m) kvs [])"
| "unmarshal_map (RawDoc JNull) = Some []"
| "unmarshal_map _ = None"

text \<open>\<open>json.Marshal\<close> of a map writes its keys in order.\<close>

definition marshal_map :: "(string \<times> json) list \<Rightarrow> raw_json" where
  "marshal_map m = RawDoc (JObj (sort_key fst m))"

definition MergeMetadata :: "raw_json \<Rightarrow> raw_json \<Rightarrow> raw_json" where
  "MergeMetadata base override =
     (if override = RawEmpty then base
      else
        let b = (case unmarshal_map base of None \<Rightarrow> [] | Some m \<Rightarrow> m)
        in case unmarshal_map override of
             None \<Rightarrow> base
           | Some o' \<Rightarrow> marshal_map (fold (\<lambda>(k, v) m. AList.update k v m) o' b))"

section \<open>The comparators are strict weak orders\<close>

text \<open>Each comparator is the order of a key, so the interface \<open>strict_weak_order\<close> holds for it.\<close>

definition header_key :: "IRHeaderMatch \<Rightarrow> string \<times> nat \<times> string" where
  "header_key h = (hmName h, headerValueTypeOrder (hmValueType h), hmValue h)"

definition query_param_key :: "IRQueryParamMatch \<Rightarrow> string \<times> nat \<times> string" where
  "query_param_key q = (qmName q, headerValueTypeOrder (qmValueType q), qmValue q)"

definition method_key :: "IRHTTPMatch \<Rightarrow> nat \<times> string" where
  "method_key m = (case mMethod m of None \<Rightarrow> (1, []) | Some s \<Rightarrow> (0, s))"

definition query_params_key :: "IRHTTPMatch \<Rightarrow> (nat \<times> string) \<times> nat \<times> string" where
  "query_params_key m =
     (if mQueryParams m = [] then (1, []) else (0, queryParamsToString (mQueryParams m)), method_key m)"

definition headers_key :: "IRHTTPMatch \<Rightarrow> (nat \<times> string) \<times> (nat \<times> string) \<times> nat \<times> string" where
  "headers_key m =
     (if mHeaders m = [] then (1, []) else (0, headersToString (mHeaders m)), query_params_key m)"

definition path_key :: "IRHTTPMatch \<Rightarrow> nat \<times> nat \<times> int \<times> string" where
  "path_key m =
     (case mPath m of
        None \<Rightarrow> (1, 0, 0, [])
      | Some p \<Rightarrow> (0, deref_path_order m, - int (length p), p))"

definition route_key ::
  "IRRoute \<Rightarrow> nat \<times> (nat \<times> nat \<times> int \<times> string) \<times>
     (nat \<times> string) \<times> (nat \<times> string) \<times> nat \<times> string" where
  "route_key r =
     (case rtHTTPMatchCriteria r of
        None \<Rightarrow> (1, (0, 0, 0, []), (0, []), (0, []), 0, [])
      | Some m \<Rightarrow> (0, path_key m, headers_key m))"

lemma header_less_key [swo_keys]: "header_less a b \<longleftrightarrow> header_key a < header_key b"
  by (simp add: header_less_def header_key_def less_pair_iff)

lemma query_param_less_key [swo_keys]:
  "query_param_less a b \<longleftrightarrow> query_param_key a < query_param_key b"
  by (simp add: query_param_less_def query_param_key_def less_pair_iff)

lemma method_less_key [swo_keys]: "method_less a b \<longleftrightarrow> method_key a < method_key b"
  by (auto simp: method_less_def method_key_def less_pair_iff split: option.split)

lemma query_params_less_key [swo_keys]:
  "query_params_then_method_less a b \<longleftrightarrow> query_params_key a < query_params_key b"
  by (simp add: query_params_then_method_less_def query_params_key_def less_pair_iff method_less_key)

lemma headers_less_key [swo_keys]: "headers_then_rest_less a b \<longleftrightarrow> headers_key a < headers_key b"
  by (simp add: headers_then_rest_less_def headers_key_def less_pair_iff query_params_less_key)

lemma route_less_key [swo_keys]: "route_less a b \<longleftrightarrow> route_key a < route_key b"
  by (auto simp: route_less_def match_less_def route_key_def path_key_def less_pair_iff
        headers_less_key split: option.split)

interpretation hdr: strict_weak_order header_less
  by (rule strict_weak_order_key) (rule header_less_key)

interpretation qp: strict_weak_order query_param_less
  by (rule strict_weak_order_key) (rule query_param_less_key)

interpretation rt: strict_weak_order route_less
  by (rule strict_weak_order_key) (rule route_less_key)

section \<open>Lemmas on keys and metadata\<close>

definition known_value_type :: "IRStringValueType \<Rightarrow> bool" where
  "known_value_type t \<longleftrightarrow> t = IRStringValueType_Exact \<or> t = IRStringValueType_Regex"

lemma headerValueTypeOrder_inj:
  "known_value_type a \<Longrightarrow> known_value_type b \<Longrightarrow>
   headerValueTypeOrder a = headerValueTypeOrder b \<longleftrightarrow> a = b"
  by (auto simp: known_value_type_def headerValueTypeOrder_def)

lemma header_equiv_eq:
  assumes "known_value_type (hmValueType a)" and "known_value_type (hmValueType b)"
    and "sort_equiv header_less a b"
  shows "a = b"
proof (rule IRHeaderMatch.equality)
  from assms(3) have "header_key a = header_key b"
    by (meson header_less_key linorder_neqE sort_equiv_def)
  with assms(1,2) show "hmName a = hmName b" "hmValueType a = hmValueType b" "hmValue a = hmValue b"
    by (simp_all add: header_key_def headerValueTypeOrder_inj)
qed simp

text \<open>What a Kubernetes service looks like: no separator of the key occurs in its parts.\<close>

definition service_ok :: "IRService \<Rightarrow> bool" where
  "service_ok s \<longleftrightarrow>
     CHR ''/'' \<notin> set (sUID s) \<and> CHR ''/'' \<notin> set (sNamespace s) \<and> CHR ''/'' \<notin> set (sName s) \<and>
     (case sProtocol s of None \<Rightarrow> True | Some p \<Rightarrow> CHR ''/'' \<notin> set p \<and> CHR ''.'' \<notin> set p) \<and>
     list_all (\<lambda>c. CHR ''/'' \<notin> set (refName c) \<and> CHR ''/'' \<notin> set (refNamespace c) \<and>
                   CHR ''.'' \<notin> set (refNamespace c)) (sClientCertRefs s)"

lemma slash_not_in_itoa: "CHR ''/'' \<notin> set (itoa i)"
  using itoa_chars [of "CHR ''/''" i] by (auto simp: is_digit_def)

text \<open>The last separator decides where a dotted reference splits.\<close>

lemma split_last:
  assumes "c \<notin> set b" and "c \<notin> set d"
  shows "a @ c # b = e @ c # d \<longleftrightarrow> a = e \<and> b = d"
proof -
  have "a @ c # b = e @ c # d \<longleftrightarrow> rev (a @ c # b) = rev (e @ c # d)"
    by (simp only: rev_is_rev_conv)
  also have "\<dots> \<longleftrightarrow> rev b @ c # rev a = rev d @ c # rev e"
    by simp
  also have "\<dots> \<longleftrightarrow> rev b = rev d \<and> rev a = rev e"
    using assms by (intro split_first) auto
  finally show ?thesis by auto
qed

definition cert_segment :: "IRObjectRef \<Rightarrow> string" where
  "cert_segment c = refName c @ ''.'' @ refNamespace c"

text \<open>A key is its segments joined by slashes.\<close>

definition slash_join :: "string list \<Rightarrow> string" where
  "slash_join xs = concat (map (\<lambda>s. CHR ''/'' # s) xs)"

lemma slash_join_head: "slash_join xs = [] \<or> (\<exists>r. slash_join xs = CHR ''/'' # r)"
  by (cases xs) (simp_all add: slash_join_def)

lemma slash_join_inj:
  assumes "\<And>s. s \<in> set xs \<union> set ys \<Longrightarrow> CHR ''/'' \<notin> set s"
  shows "slash_join xs = slash_join ys \<longleftrightarrow> xs = ys"
  using assms
proof (induction xs arbitrary: ys)
  case Nil
  then show ?case by (cases ys) (auto simp: slash_join_def)
next
  case (Cons x xs)
  show ?case
  proof (cases ys)
    case Nil
    then show ?thesis by (simp add: slash_join_def)
  next
    case (Cons y ys')
    have sl: "CHR ''/'' \<notin> set x" "CHR ''/'' \<notin> set y" using Cons.prems Cons by auto
    have split: "x @ slash_join xs = y @ slash_join ys' \<longleftrightarrow> x = y \<and> slash_join xs = slash_join ys'"
      using sl by (rule split_head) (auto simp: slash_join_head)
    have "slash_join xs = slash_join ys' \<longleftrightarrow> xs = ys'"
      using Cons.prems Cons by (intro Cons.IH) auto
    with split Cons show ?thesis by (simp add: slash_join_def)
  qed
qed

lemma cert_segment_inj:
  assumes "list_all (\<lambda>c. CHR ''.'' \<notin> set (refNamespace c)) cs"
    and "list_all (\<lambda>c. CHR ''.'' \<notin> set (refNamespace c)) ds"
    and "map cert_segment cs = map cert_segment ds"
  shows "cs = ds"
  using assms
proof (induction cs arbitrary: ds)
  case Nil
  then show ?case by simp
next
  case (Cons c cs)
  then obtain d ds' where ds: "ds = d # ds'" by (cases ds) auto
  with Cons.prems have "refName c = refName d \<and> refNamespace c = refNamespace d"
    by (simp add: cert_segment_def split_last)
  then have "c = d" by (intro IRObjectRef.equality) simp_all
  with Cons ds show ?case by simp
qed

lemma service_segments:
  "CHR ''/'' # Key s =
     slash_join ([sUID s, sNamespace s, sName s, itoa (sPort s)] @
       (case sProtocol s of None \<Rightarrow> [] | Some p \<Rightarrow> [p]) @ map cert_segment (sClientCertRefs s))"
  by (simp add: Key_def slash_join_def cert_segment_def comp_def split: option.split)

lemma map_of_fold_update:
  "map_of (fold (\<lambda>(k, v) m. AList.update k v m) kvs b) k =
     (case map_of (rev kvs) k of None \<Rightarrow> map_of b k | Some v \<Rightarrow> Some v)"
  by (induction kvs arbitrary: b) (auto simp: map_add_def split: option.split)

lemma distinct_fold_update:
  "distinct (map fst b) \<Longrightarrow> distinct (map fst (fold (\<lambda>(k, v) m. AList.update k v m) kvs b))"
  by (induction kvs arbitrary: b) (auto intro: distinct_keys_update)

lemma unmarshal_map_distinct: "unmarshal_map r = Some m \<Longrightarrow> distinct (map fst m)"
  by (cases r rule: unmarshal_map.cases) (auto intro: distinct_fold_update)

lemma map_of_rev_distinct: "distinct (map fst m) \<Longrightarrow> map_of (rev m) = map_of m"
  by (subst map_of_inject_set) (simp_all add: rev_map [symmetric])

lemma map_of_sort_key:
  assumes "distinct (map fst m)"
  shows "map_of (sort_key fst m) = map_of m"
proof -
  have "mset (map fst (sort_key fst m)) = mset (map fst m)" by simp
  with assms have "distinct (map fst (sort_key fst m))" by (metis mset_eq_imp_distinct_iff)
  with assms show ?thesis by (simp add: map_of_inject_set)
qed

lemma segments_no_slash:
  assumes "service_ok s"
    and "x \<in> set ([sUID s, sNamespace s, sName s, itoa (sPort s)] @
       (case sProtocol s of None \<Rightarrow> [] | Some p \<Rightarrow> [p]) @ map cert_segment (sClientCertRefs s))"
  shows "CHR ''/'' \<notin> set x"
  using assms
  by (auto simp: service_ok_def slash_not_in_itoa cert_segment_def list_all_iff split: option.splits)

text \<open>The optional protocol cannot be mistaken for a certificate reference: it has no dot.\<close>

lemma protocol_certs_inj:
  assumes "service_ok s" and "service_ok t"
    and "(case sProtocol s of None \<Rightarrow> [] | Some p \<Rightarrow> [p]) @ map cert_segment (sClientCertRefs s) =
         (case sProtocol t of None \<Rightarrow> [] | Some p \<Rightarrow> [p]) @ map cert_segment (sClientCertRefs t)"
  shows "sProtocol s = sProtocol t \<and> sClientCertRefs s = sClientCertRefs t"
proof -
  have dot: "CHR ''.'' \<in> set (cert_segment c)" for c by (simp add: cert_segment_def)
  have "sProtocol s = sProtocol t"
    using assms dot
    by (cases "sProtocol s"; cases "sProtocol t")
       (auto simp: service_ok_def Cons_eq_map_conv map_eq_Cons_conv)
  moreover from this assms(3) have "map cert_segment (sClientCertRefs s) = map cert_segment (sClientCertRefs t)"
    by simp
  moreover have "list_all (\<lambda>c. CHR ''.'' \<notin> set (refNamespace c)) (sClientCertRefs u)"
    if "service_ok u" for u using that by (auto simp: service_ok_def list_all_iff)
  ultimately show ?thesis using cert_segment_inj assms(1,2) by blast
qed

lemma not_route_less_cases:
  assumes "\<not> route_less b a"
  shows "rtHTTPMatchCriteria a = None \<longrightarrow> rtHTTPMatchCriteria b = None"
    and "rtHTTPMatchCriteria a = Some ma \<Longrightarrow> rtHTTPMatchCriteria b = Some mb \<Longrightarrow> mPath mb = Some q \<Longrightarrow>
         \<exists>p. mPath ma = Some p \<and>
           (deref_path_order ma < deref_path_order mb \<or>
            deref_path_order ma = deref_path_order mb \<and>
              (length p > length q \<or> length p = length q \<and> p \<le> q))"
  using assms
  by (auto simp: route_less_def match_less_def split: option.splits if_splits)

text \<open>The numbers of the path types stand for their order: exact, prefix, regular expression.\<close>

lemma path_order_types:
  assumes "deref_path_order ma \<le> deref_path_order mb"
  shows "mPathType mb = Some IRPathType_Exact \<Longrightarrow> mPathType ma = Some IRPathType_Exact"
    and "mPathType mb = Some IRPathType_Prefix \<Longrightarrow>
      mPathType ma = Some IRPathType_Exact \<or> mPathType ma = Some IRPathType_Prefix"
    and "mPathType mb = Some IRPathType_Regex \<Longrightarrow>
      mPathType ma = Some IRPathType_Exact \<or> mPathType ma = Some IRPathType_Prefix \<or>
      mPathType ma = Some IRPathType_Regex"
proof -
  have "mPathType ma \<in> {Some IRPathType_Exact, Some IRPathType_Prefix, Some IRPathType_Regex} \<or>
      deref_path_order ma = 3"
  proof (cases "mPathType ma")
    case (Some t)
    then show ?thesis by (cases t) (simp_all add: deref_path_order_def)
  qed (simp add: deref_path_order_def)
  then show "mPathType mb = Some IRPathType_Exact \<Longrightarrow> mPathType ma = Some IRPathType_Exact"
    and "mPathType mb = Some IRPathType_Prefix \<Longrightarrow>
      mPathType ma = Some IRPathType_Exact \<or> mPathType ma = Some IRPathType_Prefix"
    and "mPathType mb = Some IRPathType_Regex \<Longrightarrow>
      mPathType ma = Some IRPathType_Exact \<or> mPathType ma = Some IRPathType_Prefix \<or>
      mPathType ma = Some IRPathType_Regex"
    using assms by (auto simp: deref_path_order_def)
qed

section \<open>Properties\<close>

text \<open>
  \<open>SortRoutes\<close> returns the routes in the order of the comparator without losing or inventing
  one, keeps the original order of routes that tie, touches nothing else of the virtual host, and is
  the only list with these properties: it does not matter which stable algorithm sorts.
\<close>

theorem SortRoutes_stable_sorted:
  assumes "\<not> sort_panics (vhRoutes h)"
  shows "\<exists>rs. SortRoutes h = Inr (h\<lparr>vhRoutes := rs\<rparr>) \<and>
     mset rs = mset (vhRoutes h) \<and>
     sorted_wrt (\<lambda>a b. \<not> route_less b a) rs \<and>
     (\<forall>c. filter (sort_equiv route_less c) rs = filter (sort_equiv route_less c) (vhRoutes h)) \<and>
     (\<forall>ys. sorted_wrt (\<lambda>a b. \<not> route_less b a) ys \<and>
           (\<forall>c. filter (sort_equiv route_less c) ys = filter (sort_equiv route_less c) (vhRoutes h)) \<longrightarrow>
           ys = rs)"
  using assms rt.stable_sort_unique
  by (auto simp: SortRoutes_def rt.sorted_stable_sort rt.stable_stable_sort)


definition witness_routes :: "IRRoute list" where
  "witness_routes =
     [\<lparr>rtHTTPMatchCriteria = None, rtTrafficPolicies = [], rtDestinations = []\<rparr>,
      \<lparr>rtHTTPMatchCriteria = Some \<lparr>mPath = Some ''/a'', mPathType = Some IRPathType_Prefix,
         mHeaders = [], mQueryParams = [], mMethod = None\<rparr>, rtTrafficPolicies = [], rtDestinations = []\<rparr>,
      \<lparr>rtHTTPMatchCriteria = Some \<lparr>mPath = Some ''/long'', mPathType = Some IRPathType_Prefix,
         mHeaders = [], mQueryParams = [], mMethod = Some ''GET''\<rparr>, rtTrafficPolicies = [],
         rtDestinations = []\<rparr>]"

definition witness_vhost :: IRVirtualHost where
  "witness_vhost =
     \<lparr>vhNamePrefix = None, vhNamespace = ''default'',
      vhListener = \<lparr>lHostname = ''a.example.com'', lPort = 443, lProtocol = IRProtocol_HTTPS\<rparr>,
      vhEndpointPoolingEnabled = None, vhTrafficPolicy = None, vhTrafficPolicyObjRef = None,
      vhRoutes = witness_routes, vhDefaultDestination = None, vhTLSTermination = None,
      vhClientCertRefs = [], vhLabelsToAdd = [], vhAnnotationsToAdd = [], vhOwningResources = [],
      vhMetadata = RawEmpty, vhDescription = [], vhBindings = [],
      vhMappingStrategy = IRMappingStrategy_EndpointsCollapsed, vhCollapseIntoServiceKey = None\<rparr>"

lemma witness_no_panic: "\<not> sort_panics (vhRoutes witness_vhost)"
  by (simp add: sort_panics_def witness_vhost_def witness_routes_def path_type_missing_def)

lemma witness_SortRoutes:
  "SortRoutes witness_vhost =
     Inr (witness_vhost\<lparr>vhRoutes := [witness_routes ! 2, witness_routes ! 1, witness_routes ! 0]\<rparr>)"
  using witness_no_panic
  by (simp add: SortRoutes_def)
     (simp add: witness_vhost_def witness_routes_def route_less_def match_less_def
        deref_path_order_def)

theorem SortRoutes_stable_sorted_witness:
  "\<exists>rs. SortRoutes witness_vhost = Inr (witness_vhost\<lparr>vhRoutes := rs\<rparr>) \<and>
        mset rs = mset witness_routes \<and> sorted_wrt (\<lambda>a b. \<not> route_less b a) rs"
  using SortRoutes_stable_sorted [OF witness_no_panic] by (auto simp: witness_vhost_def)


text \<open>
  The normalised text of header matchers, which the comparator compares, does not depend on
  the order in which the matchers are listed (for the two value types the code defines).
\<close>

theorem headersToString_order_insensitive:
  assumes "mset hs = mset hs'" and "list_all (\<lambda>h. known_value_type (hmValueType h)) hs"
  shows "headersToString hs = headersToString hs'"
proof -
  have "stable_sort header_less hs = stable_sort header_less hs'"
    using assms by (intro hdr.stable_sort_mset_cong header_equiv_eq) (auto simp: list_all_iff)
  then show ?thesis by (simp add: headersToString_def)
qed

theorem headersToString_order_insensitive_witness:
  "headersToString [\<lparr>hmName = ''a'', hmValue = ''1'', hmValueType = ''exact''\<rparr>,
                    \<lparr>hmName = ''b'', hmValue = ''2'', hmValueType = ''regex''\<rparr>] =
   headersToString [\<lparr>hmName = ''b'', hmValue = ''2'', hmValueType = ''regex''\<rparr>,
                    \<lparr>hmName = ''a'', hmValue = ''1'', hmValueType = ''exact''\<rparr>]"
  by (rule headersToString_order_insensitive) (simp_all add: known_value_type_def)

lemma Key_eq_iff:
  assumes "service_ok s" and "service_ok t"
  shows "Key s = Key t \<longleftrightarrow> s\<lparr>sScheme := sScheme t\<rparr> = t"
proof
  assume "Key s = Key t"
  then have "CHR ''/'' # Key s = CHR ''/'' # Key t" by simp
  then have "[sUID s, sNamespace s, sName s, itoa (sPort s)] @
       (case sProtocol s of None \<Rightarrow> [] | Some p \<Rightarrow> [p]) @ map cert_segment (sClientCertRefs s) =
     [sUID t, sNamespace t, sName t, itoa (sPort t)] @
       (case sProtocol t of None \<Rightarrow> [] | Some p \<Rightarrow> [p]) @ map cert_segment (sClientCertRefs t)"
    unfolding service_segments using assms segments_no_slash
    by (subst (asm) slash_join_inj) (blast, simp)
  with protocol_certs_inj [OF assms] show "s\<lparr>sScheme := sScheme t\<rparr> = t"
    by (intro IRService.equality) simp_all
next
  assume "s\<lparr>sScheme := sScheme t\<rparr> = t"
  then have "Key t = Key (s\<lparr>sScheme := sScheme t\<rparr>)" by simp
  then show "Key s = Key t" by (simp add: Key_def)
qed

text \<open>
  The service key identifies an upstream: two services whose parts are free of the separators
  (as Kubernetes names are) have the same key exactly if they agree in everything but the scheme,
  which the key leaves out. An optional protocol and a list of certificate references cannot be
  confused with each other.
\<close>

theorem Key_injective:
  assumes "service_ok s" and "service_ok t"
  shows "Key s = Key t \<longleftrightarrow> s\<lparr>sScheme := sScheme t\<rparr> = t"
  by (rule Key_eq_iff [OF assms])

definition witness_service :: IRService where
  "witness_service = \<lparr>sUID = ''uid-1'', sNamespace = ''default'', sName = ''web'', sPort = 80,
     sClientCertRefs = [], sScheme = IRScheme_HTTP, sProtocol = Some ''http2''\<rparr>"

theorem Key_injective_witness:
  "Key witness_service \<noteq> Key (witness_service\<lparr>sPort := 8080\<rparr>) \<and>
   Key witness_service = Key (witness_service\<lparr>sScheme := IRScheme_HTTPS\<rparr>)"
  using Key_injective [of witness_service "witness_service\<lparr>sPort := 8080\<rparr>"]
    Key_injective [of witness_service "witness_service\<lparr>sScheme := IRScheme_HTTPS\<rparr>"]
  by (simp add: witness_service_def service_ok_def)

text \<open>
  \<open>MergeMetadata\<close> on every input: when the override is no JSON object the base is returned
  unchanged; otherwise the result is an object with sorted, distinct keys in which the override's
  value wins and the keys only the base has are kept (a base that is no object counts as empty).
\<close>

theorem MergeMetadata_override_wins:
  "case unmarshal_map override of
     None \<Rightarrow> MergeMetadata base override = base
   | Some o' \<Rightarrow>
       \<exists>kvs. MergeMetadata base override = RawDoc (JObj kvs) \<and>
         sorted (map fst kvs) \<and> distinct (map fst kvs) \<and>
         (\<forall>k. map_of kvs k =
            (case map_of o' k of
               Some v \<Rightarrow> Some v
             | None \<Rightarrow> map_of (case unmarshal_map base of None \<Rightarrow> [] | Some m \<Rightarrow> m) k))"
proof (cases "unmarshal_map override")
  case None
  then show ?thesis by (simp add: MergeMetadata_def)
next
  case (Some o')
  let ?b = "case unmarshal_map base of None \<Rightarrow> [] | Some m \<Rightarrow> m"
  let ?m = "fold (\<lambda>(k, v) m. AList.update k v m) o' ?b"
  have "distinct (map fst ?b)"
    by (auto dest: unmarshal_map_distinct split: option.split)
  then have dm: "distinct (map fst ?m)" by (rule distinct_fold_update)
  have "map_of (rev o') k = map_of o' k" for k
    using unmarshal_map_distinct [OF Some] by (simp add: map_of_rev_distinct)
  then have look: "map_of ?m k = (case map_of o' k of Some v \<Rightarrow> Some v | None \<Rightarrow> map_of ?b k)" for k
    by (simp add: map_of_fold_update split: option.split)
  have "mset (map fst (sort_key fst ?m)) = mset (map fst ?m)" by simp
  then have "distinct (map fst (sort_key fst ?m))" using dm by (metis mset_eq_imp_distinct_iff)
  moreover have "override \<noteq> RawEmpty" using Some by auto
  ultimately show ?thesis
    using Some look by (simp add: MergeMetadata_def marshal_map_def map_of_sort_key [OF dm])
qed

end
