(* ===== verification/Annotations.thy ===== *)
theory Annotations
  imports Ngrok_IR
begin

text \<open>
  \<^bold>\<open>internal/annotations/parser/parser.go\<close> and \<^bold>\<open>internal/annotations/annotations.go\<close>: reading the
  operator's annotations from an object, under the canonical prefix with the deprecated prefix as a
  fallback. An object is its annotations (\<open>map[string]string\<close>, an association list); a nil object
  and an object without annotations are both the empty list, as the code treats them alike.
  Strings are ASCII. \<open>parseFloat32\<close> and the URL helper, which no translation uses, are left out.
\<close>

section \<open>Errors and values\<close>

type_synonym annotations = "(string \<times> string) list"

datatype annotation_error =
    ErrMissingAnnotations
  | ErrInvalidAnnotationName
  | InvalidContent string string
  | MultipleNotSupported "string list"

definition IsMissingAnnotations :: "annotation_error \<Rightarrow> bool" where
  "IsMissingAnnotations e \<longleftrightarrow> e = ErrMissingAnnotations"

section \<open>parser.go\<close>

definition GetAnnotationWithPrefix :: "string \<Rightarrow> string" where
  "GetAnnotationWithPrefix suffix = ''ngrok.com/'' @ suffix"

definition legacy_annotation_key :: "string \<Rightarrow> string" where
  "legacy_annotation_key suffix = ''k8s.ngrok.com/'' @ suffix"

definition normalizeString :: "string \<Rightarrow> string" where
  "normalizeString input =
     join_with [CHR 0x0A] (map trim_space (split_on (CHR 0x0A) input))"

definition parseBool :: "annotations \<Rightarrow> string \<Rightarrow> annotation_error + bool" where
  "parseBool a name =
     (case map_of a name of
        None \<Rightarrow> Inl ErrMissingAnnotations
      | Some val \<Rightarrow>
          if val \<in> {''1'', ''t'', ''T'', ''TRUE'', ''true'', ''True''} then Inr True
          else if val \<in> {''0'', ''f'', ''F'', ''FALSE'', ''false'', ''False''} then Inr False
          else Inl (InvalidContent name val))"

definition parseString :: "annotations \<Rightarrow> string \<Rightarrow> annotation_error + string" where
  "parseString a name =
     (case map_of a name of
        None \<Rightarrow> Inl ErrMissingAnnotations
      | Some val \<Rightarrow>
          let s = normalizeString val
          in if length s = 0 then Inl (InvalidContent name val) else Inr s)"

definition parseStringSlice :: "annotations \<Rightarrow> string \<Rightarrow> annotation_error + string list" where
  "parseStringSlice a name =
     (case map_of a name of
        None \<Rightarrow> Inl ErrMissingAnnotations
      | Some val \<Rightarrow>
          let s = normalizeString val
          in if length s = 0 then Inl (InvalidContent name val)
             else Inr (map trim_space (split_on (CHR '','') s)))"

text \<open>\<open>strconv.Atoi\<close>: an optional sign, at least one digit, within \<open>int64\<close>.\<close>

definition atoi :: "string \<Rightarrow> int option" where
  "atoi s =
     (let neg = (case s of c # _ \<Rightarrow> c = CHR ''-'' | [] \<Rightarrow> False);
          ds = (case s of c # r \<Rightarrow> if c = CHR ''-'' \<or> c = CHR ''+'' then r else s | [] \<Rightarrow> s);
          n = (if neg then - int (dec_val ds) else int (dec_val ds))
      in if ds \<noteq> [] \<and> list_all is_digit ds \<and> - (2 ^ 63) \<le> n \<and> n < 2 ^ 63 then Some n else None)"

definition parseInt :: "annotations \<Rightarrow> string \<Rightarrow> annotation_error + int" where
  "parseInt a name =
     (case map_of a name of
        None \<Rightarrow> Inl ErrMissingAnnotations
      | Some val \<Rightarrow> (case atoi val of None \<Rightarrow> Inl (InvalidContent name val) | Some i \<Rightarrow> Inr i))"

definition checkAnnotation :: "string \<Rightarrow> annotations \<Rightarrow> annotation_error option" where
  "checkAnnotation name a =
     (if a = [] then Some ErrMissingAnnotations
      else if name = [] then Some ErrInvalidAnnotationName
      else None)"

definition annotationKeyFor :: "string \<Rightarrow> annotations \<Rightarrow> string" where
  "annotationKeyFor suffix anns =
     (let canonical = GetAnnotationWithPrefix suffix; legacy = legacy_annotation_key suffix
      in if map_of anns canonical \<noteq> None then canonical
         else if map_of anns legacy \<noteq> None then legacy
         else canonical)"

definition GetBoolAnnotation :: "string \<Rightarrow> annotations \<Rightarrow> annotation_error + bool" where
  "GetBoolAnnotation name a =
     (case checkAnnotation name a of
        Some e \<Rightarrow> Inl e
      | None \<Rightarrow> parseBool a (annotationKeyFor name a))"

definition GetStringAnnotation :: "string \<Rightarrow> annotations \<Rightarrow> annotation_error + string" where
  "GetStringAnnotation name a =
     (case checkAnnotation name a of
        Some e \<Rightarrow> Inl e
      | None \<Rightarrow> parseString a (annotationKeyFor name a))"

definition GetStringSliceAnnotation :: "string \<Rightarrow> annotations \<Rightarrow> annotation_error + string list" where
  "GetStringSliceAnnotation name a =
     (case checkAnnotation name a of
        Some e \<Rightarrow> Inl e
      | None \<Rightarrow> parseStringSlice a (annotationKeyFor name a))"

definition GetIntAnnotation :: "string \<Rightarrow> annotations \<Rightarrow> annotation_error + int" where
  "GetIntAnnotation name a =
     (case checkAnnotation name a of
        Some e \<Rightarrow> Inl e
      | None \<Rightarrow> parseInt a (annotationKeyFor name a))"

section \<open>annotations.go\<close>

definition ExtractNgrokTrafficPolicyFromAnnotations :: "annotations \<Rightarrow> annotation_error + string" where
  "ExtractNgrokTrafficPolicyFromAnnotations a =
     (case GetStringSliceAnnotation ''traffic-policy'' a of
        Inl e \<Rightarrow> Inl e
      | Inr policies \<Rightarrow>
          if length policies > 1 then Inl (MultipleNotSupported policies)
          else (case policies of p # _ \<Rightarrow> Inr p | [] \<Rightarrow> Inr []))"

definition ExtractUseEndpointPooling :: "annotations \<Rightarrow> annotation_error + bool ptr" where
  "ExtractUseEndpointPooling a =
     (case GetStringAnnotation ''pooling-enabled'' a of
        Inl e \<Rightarrow> if IsMissingAnnotations e then Inr None else Inl e
      | Inr val \<Rightarrow> Inr (Some (to_lower val = ''true'')))"

definition ExtractUseBindings :: "annotations \<Rightarrow> annotation_error + string list" where
  "ExtractUseBindings a =
     (case GetStringSliceAnnotation ''bindings'' a of
        Inl e \<Rightarrow> if IsMissingAnnotations e then Inr [] else Inl e
      | Inr bindings \<Rightarrow>
          if length bindings > 1 then Inl (MultipleNotSupported bindings)
          else if length bindings = 1 then Inr bindings
          else Inr [])"

definition ExtractURL :: "annotations \<Rightarrow> annotation_error + string" where
  "ExtractURL a = GetStringAnnotation ''url'' a"

definition ExtractComputedURL :: "annotations \<Rightarrow> annotation_error + string" where
  "ExtractComputedURL a =
     (if a = [] then Inl ErrMissingAnnotations
      else
        let try = (\<lambda>k. case map_of a k of Some v \<Rightarrow> if v \<noteq> [] then Some v else None | None \<Rightarrow> None)
        in case try ''ngrok.com/computed-url'' of
             Some v \<Rightarrow> Inr v
           | None \<Rightarrow>
               (case try ''k8s.ngrok.com/computed-url'' of
                  Some v \<Rightarrow> Inr v
                | None \<Rightarrow> Inl ErrMissingAnnotations))"

definition ExtractMetadata :: "annotations \<Rightarrow> annotation_error + string" where
  "ExtractMetadata a =
     (case GetStringAnnotation ''metadata'' a of
        Inl e \<Rightarrow> if IsMissingAnnotations e then Inr [] else Inl e
      | Inr val \<Rightarrow> Inr val)"

definition ExtractDescription :: "annotations \<Rightarrow> annotation_error + string" where
  "ExtractDescription a =
     (case GetStringAnnotation ''description'' a of
        Inl e \<Rightarrow> if IsMissingAnnotations e then Inr [] else Inl e
      | Inr val \<Rightarrow> Inr val)"

section \<open>Lemmas\<close>

lemma parseString_missing: "parseString a k = Inl ErrMissingAnnotations \<longleftrightarrow> map_of a k = None"
  by (auto simp: parseString_def Let_def split: option.splits)

lemma parseStringSlice_missing:
  "parseStringSlice a k = Inl ErrMissingAnnotations \<longleftrightarrow> map_of a k = None"
  by (auto simp: parseStringSlice_def Let_def split: option.splits)

lemma parseStringSlice_nonempty: "parseStringSlice a k = Inr vs \<Longrightarrow> vs \<noteq> []"
  by (auto simp: parseStringSlice_def Let_def split: option.splits if_splits)

text \<open>Whether an annotation is set, under either prefix.\<close>

definition annotation_present :: "string \<Rightarrow> annotations \<Rightarrow> bool" where
  "annotation_present n a \<longleftrightarrow>
     map_of a (GetAnnotationWithPrefix n) \<noteq> None \<or> map_of a (legacy_annotation_key n) \<noteq> None"

lemma annotationKeyFor_absent:
  "map_of a (annotationKeyFor n a) = None \<longleftrightarrow> \<not> annotation_present n a"
  by (auto simp: annotationKeyFor_def annotation_present_def Let_def)

lemma GetStringAnnotation_missing:
  "n \<noteq> [] \<Longrightarrow> GetStringAnnotation n a = Inl ErrMissingAnnotations \<longleftrightarrow> \<not> annotation_present n a"
  by (auto simp: GetStringAnnotation_def checkAnnotation_def parseString_missing
        annotationKeyFor_absent annotation_present_def)

lemma GetStringSliceAnnotation_missing:
  "n \<noteq> [] \<Longrightarrow>
   GetStringSliceAnnotation n a = Inl ErrMissingAnnotations \<longleftrightarrow> \<not> annotation_present n a"
  by (auto simp: GetStringSliceAnnotation_def checkAnnotation_def parseStringSlice_missing
        annotationKeyFor_absent annotation_present_def)

lemma GetStringSliceAnnotation_nonempty: "GetStringSliceAnnotation n a = Inr vs \<Longrightarrow> vs \<noteq> []"
  by (auto simp: GetStringSliceAnnotation_def dest: parseStringSlice_nonempty split: option.splits)

section \<open>Properties\<close>

text \<open>
  The canonical key wins on presence alone: when it is set, no value under the deprecated
  prefix can change what any of the readers returns, not even when the canonical value is invalid.
  The second list of annotations is the first one with the deprecated key set to any value \<open>v\<close>.
\<close>

theorem canonical_annotation_wins:
  assumes "map_of a (GetAnnotationWithPrefix n) = Some x"
    and "b = AList.update (legacy_annotation_key n) v a"
  shows "GetStringAnnotation n b = GetStringAnnotation n a \<and>
         GetStringSliceAnnotation n b = GetStringSliceAnnotation n a \<and>
         GetBoolAnnotation n b = GetBoolAnnotation n a \<and>
         GetIntAnnotation n b = GetIntAnnotation n a"
proof -
  have ne: "GetAnnotationWithPrefix n \<noteq> legacy_annotation_key n"
    by (simp add: GetAnnotationWithPrefix_def legacy_annotation_key_def)
  with assms have b: "map_of b (GetAnnotationWithPrefix n) = Some x" by simp
  have "a \<noteq> []" "b \<noteq> []" using assms(1) b by auto
  then have "checkAnnotation n b = checkAnnotation n a" by (simp add: checkAnnotation_def)
  moreover have "annotationKeyFor n a = GetAnnotationWithPrefix n"
    and "annotationKeyFor n b = GetAnnotationWithPrefix n"
    using assms(1) b by (simp_all add: annotationKeyFor_def)
  ultimately show ?thesis
    using assms(1) b
    by (simp add: GetStringAnnotation_def GetStringSliceAnnotation_def GetBoolAnnotation_def
          GetIntAnnotation_def parseString_def parseStringSlice_def parseBool_def parseInt_def
          split: option.split)
qed

theorem canonical_annotation_wins_witness:
  "GetStringAnnotation ''url''
     (AList.update ''k8s.ngrok.com/url'' ''tcp://b'' [(''ngrok.com/url'', ''tcp://a'')]) =
   GetStringAnnotation ''url'' [(''ngrok.com/url'', ''tcp://a'')]"
proof -
  have "map_of [(''ngrok.com/url'', ''tcp://a'')] (GetAnnotationWithPrefix ''url'') = Some ''tcp://a''"
    by (simp add: GetAnnotationWithPrefix_def)
  from canonical_annotation_wins [OF this refl, of "''tcp://b''"]
  show ?thesis by (simp add: legacy_annotation_key_def)
qed

text \<open>
  "Not configured" is told apart from every configured value: the extractors return their
  empty result (nil pooling, no bindings) without an error exactly if the annotation is set under
  neither prefix; a single binding is returned as it is and several bindings are an error.
\<close>

theorem extractors_report_absence:
  "(ExtractUseEndpointPooling a = Inr None \<longleftrightarrow> \<not> annotation_present ''pooling-enabled'' a) \<and>
   (ExtractUseBindings a = Inr [] \<longleftrightarrow> \<not> annotation_present ''bindings'' a) \<and>
   (\<forall>bs. ExtractUseBindings a = Inr bs \<longrightarrow> length bs \<le> 1) \<and>
   (ExtractNgrokTrafficPolicyFromAnnotations a = Inl ErrMissingAnnotations \<longleftrightarrow>
      \<not> annotation_present ''traffic-policy'' a)"
proof (intro conjI)
  show "ExtractUseEndpointPooling a = Inr None \<longleftrightarrow> \<not> annotation_present ''pooling-enabled'' a"
    using GetStringAnnotation_missing [of "''pooling-enabled''" a]
    by (auto simp: ExtractUseEndpointPooling_def IsMissingAnnotations_def split: sum.splits if_splits)
  show "ExtractUseBindings a = Inr [] \<longleftrightarrow> \<not> annotation_present ''bindings'' a"
    using GetStringSliceAnnotation_missing [of "''bindings''" a]
      GetStringSliceAnnotation_nonempty [of "''bindings''" a]
    by (auto simp: ExtractUseBindings_def IsMissingAnnotations_def not_less le_Suc_eq
          split: sum.splits if_splits)
  show "\<forall>bs. ExtractUseBindings a = Inr bs \<longrightarrow> length bs \<le> 1"
    by (auto simp: ExtractUseBindings_def split: sum.splits if_splits)
  show "ExtractNgrokTrafficPolicyFromAnnotations a = Inl ErrMissingAnnotations \<longleftrightarrow>
      \<not> annotation_present ''traffic-policy'' a"
    using GetStringSliceAnnotation_missing [of "''traffic-policy''" a]
    by (auto simp: ExtractNgrokTrafficPolicyFromAnnotations_def split: sum.splits list.splits if_splits)
qed

theorem extractors_report_absence_witness:
  "\<not> annotation_present ''bindings'' [(''ngrok.com/url'', ''x'')] \<and>
   ExtractUseBindings [(''ngrok.com/url'', ''x'')] = Inr []"
  using extractors_report_absence [of "[(''ngrok.com/url'', ''x'')]"]
  by (simp add: annotation_present_def GetAnnotationWithPrefix_def legacy_annotation_key_def)

end
