(* ===== verification/Endpoint_Naming.thy ===== *)
theory Endpoint_Naming
  imports Annotations
begin

text \<open>
  \<^bold>\<open>pkg/managerdriver/utils.go\<close>: names and URLs of the generated endpoints, sanitising of user
  supplied strings, and the small resolvers the translation uses.

  \<open>sha256hex\<close>, an argument of the definitions that need it, is the lowercase hexadecimal SHA-256
  digest of a string; the properties only use that it is 64 hexadecimal digits long
  (\<open>hex_digest\<close>). \<open>parse\<close> is \<open>encoding/json\<close>'s parser from a text to a document. Strings are ASCII.
  Of the Kubernetes types only the fields the code reads are kept.
\<close>

section \<open>Kubernetes services\<close>

record ServicePort =
  spName :: string
  spPort :: int
  spAppProtocol :: "string ptr"

record Service =
  svcUID :: string
  svcName :: string
  svcNamespace :: string
  svcAnnotations :: annotations
  svcPorts :: "ServicePort list"

record ServiceBackendPort =
  sbpName :: string
  sbpNumber :: int

section \<open>Sanitising\<close>

definition is_lower_alnum :: "char \<Rightarrow> bool" where
  "is_lower_alnum c \<longleftrightarrow> is_lower c \<or> is_digit c"

definition k8s_name_char :: "char \<Rightarrow> bool" where
  "k8s_name_char c \<longleftrightarrow> is_lower_alnum c \<or> c = CHR ''.'' \<or> c = CHR ''-''"

text \<open>\<open>ReplaceAllString\<close> of \<open>[^...]+\<close> by a dash: every maximal run of invalid characters.\<close>

function replace_runs :: "(char \<Rightarrow> bool) \<Rightarrow> string \<Rightarrow> string" where
  "replace_runs ok [] = []"
| "replace_runs ok (c # cs) =
     (if ok c then c # replace_runs ok cs
      else CHR ''-'' # replace_runs ok (dropWhile (\<lambda>x. \<not> ok x) cs))"
  by pat_completeness auto
termination
  by (relation "measure (\<lambda>(ok, s). length s)") (auto simp: le_imp_less_Suc length_dropWhile_le)

definition trim_right :: "(char \<Rightarrow> bool) \<Rightarrow> string \<Rightarrow> string" where
  "trim_right p s = rev (dropWhile p (rev s))"

text \<open>The steps of \<open>sanitizeStringForK8sName\<close> before the length limit.\<close>

definition sanitize_body :: "string \<Rightarrow> string" where
  "sanitize_body s0 =
     (let s1 = replace_char (CHR ''*'') ''wildcard'' s0;
          s2 = to_lower s1;
          s3 = replace_runs k8s_name_char s2;
          s4 = dropWhile (\<lambda>c. \<not> is_lower_alnum c) s3;
          s5 = trim_right (\<lambda>c. \<not> is_lower_alnum c) s4
      in if s5 = [] then ''default'' else s5)"

definition sanitizeStringForK8sName :: "(string \<Rightarrow> string) \<Rightarrow> string \<Rightarrow> string" where
  "sanitizeStringForK8sName sha256hex s0 =
     (let s = sanitize_body s0
      in if length s > 63 then
           let hash = take 8 (sha256hex s);
               truncateLength = 63 - int (length hash) - 1
           in if truncateLength > 0 then take (nat truncateLength) s @ ''-'' @ hash else hash
         else s)"

definition url_char :: "char \<Rightarrow> bool" where
  "url_char c \<longleftrightarrow> is_lower c \<or> is_upper c \<or> is_digit c \<or> c \<in> {CHR ''.'', CHR ''_'', CHR ''~'', CHR ''-''}"

definition sanitizeStringForURL :: "string \<Rightarrow> string" where
  "sanitizeStringForURL s =
     map (\<lambda>c. if url_char c then c else CHR ''-'') (replace_char (CHR ''*'') ''wildcard'' s)"

section \<open>Schemes and protocols\<close>

datatype scheme_error = UnknownProtocol string

fun protocolStringToIRScheme :: "IRProtocol \<Rightarrow> IRScheme \<times> scheme_error option" where
  "protocolStringToIRScheme IRProtocol_HTTP = (IRScheme_HTTP, None)"
| "protocolStringToIRScheme IRProtocol_HTTPS = (IRScheme_HTTPS, None)"
| "protocolStringToIRScheme IRProtocol_TCP = (IRScheme_TCP, None)"
| "protocolStringToIRScheme IRProtocol_TLS = (IRScheme_TLS, None)"
| "protocolStringToIRScheme (IRProtocol_Other p) = (IRScheme_HTTP, Some (UnknownProtocol p))"

definition DefaultClusterDomain :: string where
  "DefaultClusterDomain = ''svc.cluster.local''"

definition custom_domain :: "string \<Rightarrow> bool" where
  "custom_domain d \<longleftrightarrow> d \<noteq> DefaultClusterDomain \<and> d \<noteq> []"

section \<open>Names and URLs of agent endpoints\<close>

definition tls_suffix :: "(string \<Rightarrow> string) \<Rightarrow> IRObjectRef list \<Rightarrow> string" where
  "tls_suffix sha256hex refs =
     (if refs = [] then []
      else ''mtls-'' @ take 5 (sha256hex (concat (map (\<lambda>c. refName c @ ''.'' @ refNamespace c) refs))))"

definition internalAgentEndpointName ::
  "(string \<Rightarrow> string) \<Rightarrow> string \<Rightarrow> string \<Rightarrow> string \<Rightarrow> string \<Rightarrow> int \<Rightarrow> IRObjectRef list \<Rightarrow> string" where
  "internalAgentEndpointName sha256hex serviceUID serviceName namespace clusterDomain upstreamPort refs =
     (let tlsSuffix = tls_suffix sha256hex refs;
          r1 = take 5 (sha256hex serviceUID) @ ''-'' @ serviceName @ ''-'' @ namespace;
          r2 = (if tlsSuffix \<noteq> [] then r1 @ ''-'' @ tlsSuffix else r1);
          r3 = (if custom_domain clusterDomain then r2 @ ''-'' @ clusterDomain else r2)
      in sanitizeStringForK8sName sha256hex (r3 @ ''-'' @ itoa upstreamPort))"

definition buildInternalEndpointURL ::
  "(string \<Rightarrow> string) \<Rightarrow> IRProtocol \<Rightarrow> string \<Rightarrow> string \<Rightarrow> string \<Rightarrow> string \<Rightarrow> int \<Rightarrow> IRObjectRef list \<Rightarrow>
   scheme_error + string" where
  "buildInternalEndpointURL sha256hex protocol serviceUID serviceName namespace clusterDomain port refs =
     (case protocolStringToIRScheme protocol of
        (_, Some e) \<Rightarrow> Inl e
      | (scheme, None) \<Rightarrow>
          let tlsSuffix = tls_suffix sha256hex refs;
              r1 = scheme @ sanitizeStringForURL (take 5 (sha256hex serviceUID)) @ ''-'' @
                   sanitizeStringForURL serviceName @ ''-'' @ sanitizeStringForURL namespace;
              r2 = (if tlsSuffix \<noteq> [] then r1 @ ''-'' @ tlsSuffix else r1);
              r3 = (if custom_domain clusterDomain
                    then r2 @ ''-'' @ sanitizeStringForURL clusterDomain else r2);
              r4 = (if protocol = IRProtocol_HTTP \<or> protocol = IRProtocol_HTTPS
                    then r3 @ ''-'' @ itoa port else r3);
              r5 = replace_char (CHR ''.'') ''-'' r4;
              r6 = r5 @ ''.internal''
          in Inr (if protocol = IRProtocol_TCP \<or> protocol = IRProtocol_TLS
                  then r6 @ '':'' @ itoa port else r6))"

definition agentEndpointUpstreamURL :: "string \<Rightarrow> string \<Rightarrow> string \<Rightarrow> int \<Rightarrow> IRScheme \<Rightarrow> string" where
  "agentEndpointUpstreamURL serviceName namespace clusterDomain port scheme =
     (let r1 = scheme @ sanitizeStringForURL serviceName @ ''.'' @ sanitizeStringForURL namespace;
          r2 = (if custom_domain clusterDomain then r1 @ ''-'' @ clusterDomain else r1)
      in r2 @ '':'' @ itoa port)"

section \<open>Resolving service ports\<close>

definition knownApplicationProtocols :: "(string \<times> string) list" where
  "knownApplicationProtocols =
     [(''ngrok.com/http2'', ''http2''), (''k8s.ngrok.com/http2'', ''http2''),
      (''kubernetes.io/h2c'', ''http2''), (''http'', ''http1'')]"

definition getPortAppProtocol :: "ServicePort \<Rightarrow> string ptr" where
  "getPortAppProtocol port =
     (case spAppProtocol port of
        None \<Rightarrow> None
      | Some proto \<Rightarrow> map_of knownApplicationProtocols proto)"

definition findServicesPort :: "Service \<Rightarrow> ServiceBackendPort \<Rightarrow> ServicePort option" where
  "findServicesPort service backend =
     find (\<lambda>port. (sbpNumber backend > 0 \<and> spPort port = sbpNumber backend) \<or>
                  spName port = sbpName backend)
       (svcPorts service)"

text \<open>\<open>json.Unmarshal\<close> into \<open>map[string]string\<close>.\<close>

fun unmarshal_string_map :: "raw_json \<Rightarrow> (string \<times> string) list option" where
  "unmarshal_string_map (RawDoc (JObj kvs)) =
     (case traverse (\<lambda>(k, v). case decode_string v of Inl e \<Rightarrow> Inl e | Inr s \<Rightarrow> Inr (k, s)) kvs of
        Inl _ \<Rightarrow> None
      | Inr ps \<Rightarrow> Some (fold (\<lambda>(k, v) m. AList.update k v m) ps []))"
| "unmarshal_string_map (RawDoc JNull) = Some []"
| "unmarshal_string_map _ = None"

datatype proto_error = BadProtocolAnnotation string

definition getProtoForServicePort ::
  "(string \<Rightarrow> raw_json) \<Rightarrow> Service \<Rightarrow> string \<Rightarrow> IRProtocol \<Rightarrow> IRProtocol \<times> proto_error option" where
  "getProtoForServicePort parse service portName defaultProtocol =
     (let annotation =
            (case map_of (svcAnnotations service) ''ngrok.com/app-protocols'' of
               Some v \<Rightarrow> v
             | None \<Rightarrow>
                 (case map_of (svcAnnotations service) ''k8s.ngrok.com/app-protocols'' of
                    Some v \<Rightarrow> v
                  | None \<Rightarrow> []))
      in if annotation = [] then (defaultProtocol, None)
         else case unmarshal_string_map (parse annotation) of
             None \<Rightarrow> (defaultProtocol, Some (BadProtocolAnnotation annotation))
           | Some protocolMap \<Rightarrow>
               (case map_of protocolMap portName of
                  None \<Rightarrow> (defaultProtocol, None)
                | Some protocol \<Rightarrow>
                    let upperProto = to_upper protocol
                    in if upperProto = ''HTTP'' then (IRProtocol_HTTP, None)
                       else if upperProto = ''HTTPS'' then (IRProtocol_HTTPS, None)
                       else if upperProto = ''TCP'' then (IRProtocol_TCP, None)
                       else if upperProto = ''TLS'' then (IRProtocol_TLS, None)
                       else (defaultProtocol, None)))"

datatype PathType = PathTypePrefix | PathTypeImplementationSpecific | PathTypeExact | PathTypeUnknown string

fun netv1PathTypeToIR :: "PathType ptr \<Rightarrow> IRPathMatchType" where
  "netv1PathTypeToIR None = IRPathType_Prefix"
| "netv1PathTypeToIR (Some PathTypePrefix) = IRPathType_Prefix"
| "netv1PathTypeToIR (Some PathTypeImplementationSpecific) = IRPathType_Prefix"
| "netv1PathTypeToIR (Some PathTypeExact) = IRPathType_Exact"
| "netv1PathTypeToIR (Some (PathTypeUnknown _)) = IRPathType_Prefix"

definition appendStringUnique :: "string list \<Rightarrow> string list \<Rightarrow> string list" where
  "appendStringUnique existing newItems =
     existing @ filter (\<lambda>newItem. newItem \<notin> set existing) newItems"

text \<open>
  \<open>glob\<close> is the third-party matcher \<open>gobwas/glob\<close>: \<open>None\<close> when a pattern does not compile, otherwise
  whether the pattern (first argument) matches the text.
\<close>

definition doHostGlobsMatch ::
  "(string \<Rightarrow> string \<Rightarrow> bool option) \<Rightarrow> string \<Rightarrow> string \<Rightarrow> bool option" where
  "doHostGlobsMatch glob hostname1 hostname2 =
     (if CHR ''*'' \<in> set hostname1 then glob hostname1 hostname2
      else if CHR ''*'' \<in> set hostname2 then glob hostname2 hostname1
      else Some (hostname1 = hostname2))"

section \<open>Lemmas\<close>

definition hex_digest :: "(string \<Rightarrow> string) \<Rightarrow> bool" where
  "hex_digest f \<longleftrightarrow>
     (\<forall>s. length (f s) = 64 \<and>
          (\<forall>c. c \<in> set (f s) \<longrightarrow> is_digit c \<or> c \<in> {CHR ''a'', CHR ''b'', CHR ''c'', CHR ''d'', CHR ''e'', CHR ''f''}))"

lemma hex_digest_length: "hex_digest f \<Longrightarrow> length (f s) = 64"
  by (simp add: hex_digest_def)

lemma hex_digest_alnum: "hex_digest f \<Longrightarrow> c \<in> set (f s) \<Longrightarrow> is_lower_alnum c"
proof -
  assume "hex_digest f" "c \<in> set (f s)"
  then have "is_digit c \<or> c \<in> {CHR ''a'', CHR ''b'', CHR ''c'', CHR ''d'', CHR ''e'', CHR ''f''}"
    unfolding hex_digest_def by blast
  then show ?thesis by (auto simp: is_lower_alnum_def is_lower_def)
qed

lemma alnum_name_char: "is_lower_alnum c \<Longrightarrow> k8s_name_char c"
  by (simp add: k8s_name_char_def)

lemma replace_runs_ok: "ok (CHR ''-'') \<Longrightarrow> c \<in> set (replace_runs ok s) \<Longrightarrow> ok c"
  by (induction ok s rule: replace_runs.induct) (auto split: if_splits)

lemma replace_runs_id: "list_all ok s \<Longrightarrow> replace_runs ok s = s"
  by (induction s) auto

lemma set_dropWhile_subset: "set (dropWhile P s) \<subseteq> set s"
  by (meson set_dropWhileD subsetI)

lemma set_trim_right: "set (trim_right p s) \<subseteq> set s"
  using set_dropWhile_subset [of p "rev s"] by (simp add: trim_right_def)

lemma trim_right_Nil [simp]: "trim_right p [] = []"
  by (simp add: trim_right_def)

lemma trim_right_nonempty: "c \<in> set s \<Longrightarrow> \<not> p c \<Longrightarrow> trim_right p s \<noteq> []"
  by (auto simp: trim_right_def dropWhile_eq_Nil_conv)

lemma hd_trim_right: "s \<noteq> [] \<Longrightarrow> \<not> p (hd s) \<Longrightarrow> hd (trim_right p s) = hd s"
  unfolding trim_right_def
  by (cases s) (auto simp: dropWhile_append hd_append split: list.splits)

lemma last_trim_right: "trim_right p s \<noteq> [] \<Longrightarrow> \<not> p (last (trim_right p s))"
  unfolding trim_right_def by (metis hd_dropWhile last_rev rev_is_Nil_conv)

text \<open>What a sanitised name looks like.\<close>

definition k8s_name :: "string \<Rightarrow> bool" where
  "k8s_name s \<longleftrightarrow>
     s \<noteq> [] \<and> length s \<le> 63 \<and> list_all k8s_name_char s \<and>
     is_lower_alnum (hd s) \<and> is_lower_alnum (last s)"

lemma default_ok:
  "list_all k8s_name_char ''default''" "is_lower_alnum (hd ''default'')"
  "is_lower_alnum (last ''default'')"
  by (simp_all add: k8s_name_char_def is_lower_alnum_def is_lower_def)

lemma sanitize_body_ok:
  "sanitize_body s \<noteq> []" "list_all k8s_name_char (sanitize_body s)"
  "is_lower_alnum (hd (sanitize_body s))" "is_lower_alnum (last (sanitize_body s))"
proof -
  let ?s3 = "replace_runs k8s_name_char (to_lower (replace_char (CHR ''*'') ''wildcard'' s))"
  let ?s4 = "dropWhile (\<lambda>c. \<not> is_lower_alnum c) ?s3"
  let ?s5 = "trim_right (\<lambda>c. \<not> is_lower_alnum c) ?s4"
  have body: "sanitize_body s = (if ?s5 = [] then ''default'' else ?s5)"
    by (simp add: sanitize_body_def Let_def)
  have ok: "list_all k8s_name_char ?s5"
    using replace_runs_ok [of k8s_name_char] set_trim_right set_dropWhile_subset
    by (fastforce simp: list_all_iff k8s_name_char_def)
  have h: "is_lower_alnum (hd ?s5)" if "?s5 \<noteq> []"
  proof -
    have "?s4 \<noteq> []" using that by (metis trim_right_Nil)
    then have "is_lower_alnum (hd ?s4)" using hd_dropWhile [of _ ?s3] by blast
    with \<open>?s4 \<noteq> []\<close> show ?thesis by (subst hd_trim_right) simp_all
  qed
  have l: "is_lower_alnum (last ?s5)" if "?s5 \<noteq> []"
    using last_trim_right [OF that] by simp
  show "sanitize_body s \<noteq> []" "list_all k8s_name_char (sanitize_body s)"
    "is_lower_alnum (hd (sanitize_body s))" "is_lower_alnum (last (sanitize_body s))"
    using ok h l default_ok unfolding body by (simp_all only: if_split_asm split: if_split) auto
qed

lemma k8s_name_char_lower: "k8s_name_char c \<Longrightarrow> to_lower_char c = c"
  by (auto simp: k8s_name_char_def is_lower_alnum_def is_lower_def is_digit_def to_lower_char_def
        is_upper_def)

lemma replace_char_id: "c \<notin> set s \<Longrightarrow> replace_char c r s = s"
  by (induction s) (auto simp: replace_char_def)

lemma sanitize_body_id:
  assumes "k8s_name s"
  shows "sanitize_body s = s"
proof -
  have star: "CHR ''*'' \<notin> set s"
    using assms by (auto simp: k8s_name_def list_all_iff k8s_name_char_def is_lower_alnum_def
        is_lower_def is_digit_def)
  have low: "to_lower s = s"
    using assms by (auto simp: to_lower_def k8s_name_def list_all_iff k8s_name_char_lower
        intro: map_idI)
  have "dropWhile (\<lambda>c. \<not> is_lower_alnum c) s = s"
    using assms by (cases s) (auto simp: k8s_name_def)
  moreover have "trim_right (\<lambda>c. \<not> is_lower_alnum c) s = s"
    using assms by (cases s rule: rev_cases) (auto simp: k8s_name_def trim_right_def)
  moreover have "list_all k8s_name_char s" "s \<noteq> []" using assms by (auto simp: k8s_name_def)
  ultimately show ?thesis
    by (simp add: sanitize_body_def Let_def replace_char_id [OF star] low replace_runs_id)
qed

lemma replace_char_append: "replace_char c r (s @ t) = replace_char c r s @ replace_char c r t"
  by (simp add: replace_char_def)

lemma set_replace_char: "set (replace_char c r s) \<subseteq> (set s - {c}) \<union> set r"
  by (induction s) (auto simp: replace_char_def)

lemma scheme_no_dot: "protocolStringToIRScheme p = (scheme, e) \<Longrightarrow> CHR ''.'' \<notin> set scheme"
  by (cases p) auto

lemma sanitizeStringForURL_chars: "c \<in> set (sanitizeStringForURL s) \<Longrightarrow> url_char c"
  by (auto simp: sanitizeStringForURL_def url_char_def split: if_splits)

lemma tls_suffix_chars:
  assumes "hex_digest f" and "c \<in> set (tls_suffix f refs)"
  shows "url_char c"
proof -
  from assms(2) have "c \<in> set ''mtls-'' \<or> (\<exists>s. c \<in> set (f s))"
    by (auto simp: tls_suffix_def split: if_splits dest: in_set_takeD)
  then show ?thesis
  proof
    assume "c \<in> set ''mtls-''"
    moreover have "list_all url_char ''mtls-''" by (simp add: url_char_def is_lower_def)
    ultimately show ?thesis by (simp only: list_all_iff)
  next
    assume "\<exists>s. c \<in> set (f s)"
    then have "is_lower_alnum c" using hex_digest_alnum [OF assms(1)] by blast
    then show ?thesis by (auto simp: url_char_def is_lower_alnum_def)
  qed
qed

lemma itoa_url_char: "c \<in> set (itoa i) \<Longrightarrow> url_char c"
  using itoa_chars [of c i] by (auto simp: url_char_def)

section \<open>Properties\<close>


definition witness_digest :: "string \<Rightarrow> string" where
  "witness_digest s = replicate 64 (CHR ''0'')"

lemma witness_digest: "hex_digest witness_digest"
  by (simp add: hex_digest_def witness_digest_def is_digit_def)


text \<open>
  The URL of an internal endpoint is one host label under \<open>.internal\<close>: a scheme, a label made
  only of URL characters and without any dot, the suffix, and for TCP and TLS the port. A service
  name, namespace or cluster domain can therefore not introduce a sub-domain, a path or a port.
\<close>

theorem buildInternalEndpointURL_shape:
  assumes "hex_digest f" and "buildInternalEndpointURL f p uid name ns cd port refs = Inr url"
  shows "\<exists>scheme label. protocolStringToIRScheme p = (scheme, None) \<and>
     url = scheme @ label @ ''.internal'' @
       (if p = IRProtocol_TCP \<or> p = IRProtocol_TLS then '':'' @ itoa port else []) \<and>
     label \<noteq> [] \<and> CHR ''.'' \<notin> set label \<and> list_all url_char label"
proof -
  obtain scheme where scheme: "protocolStringToIRScheme p = (scheme, None)"
    using assms(2) by (auto simp: buildInternalEndpointURL_def split: prod.splits option.splits)
  define body where "body =
    sanitizeStringForURL (take 5 (f uid)) @ ''-'' @ sanitizeStringForURL name @ ''-'' @
    sanitizeStringForURL ns @
    (if tls_suffix f refs \<noteq> [] then ''-'' @ tls_suffix f refs else []) @
    (if custom_domain cd then ''-'' @ sanitizeStringForURL cd else []) @
    (if p = IRProtocol_HTTP \<or> p = IRProtocol_HTTPS then ''-'' @ itoa port else [])"
  let ?label = "replace_char (CHR ''.'') ''-'' body"
  have url: "url = scheme @ ?label @ ''.internal'' @
       (if p = IRProtocol_TCP \<or> p = IRProtocol_TLS then '':'' @ itoa port else [])"
    using assms(2) scheme replace_char_id [OF scheme_no_dot [OF scheme]]
    by (auto simp: buildInternalEndpointURL_def body_def replace_char_append Let_def)
  have chars: "url_char c" if "c \<in> set body" for c
  proof -
    have "url_char (CHR ''-'')" by (simp add: url_char_def)
    with that show ?thesis
      by (auto simp: body_def split: if_splits
            dest: sanitizeStringForURL_chars tls_suffix_chars [OF assms(1)] itoa_url_char)
  qed
  have sub: "set ?label \<subseteq> (set body - {CHR ''.''}) \<union> {CHR ''-''}"
    using set_replace_char [of "CHR ''.''" "''-''" body] by simp
  have "CHR ''-'' \<in> set ?label" by (simp add: body_def replace_char_append) (simp add: replace_char_def)
  moreover have "list_all url_char ?label"
    using chars sub by (force simp: list_all_iff url_char_def)
  ultimately show ?thesis using scheme url sub by auto
qed

theorem buildInternalEndpointURL_shape_witness:
  "\<exists>label. buildInternalEndpointURL witness_digest IRProtocol_TCP ''u'' ''web'' ''default''
       DefaultClusterDomain 5432 [] = Inr (''tcp://'' @ label @ ''.internal'' @ '':'' @ itoa 5432) \<and>
     CHR ''.'' \<notin> set label"
proof -
  obtain url where url: "buildInternalEndpointURL witness_digest IRProtocol_TCP ''u'' ''web''
      ''default'' DefaultClusterDomain 5432 [] = Inr url"
    by (simp add: buildInternalEndpointURL_def Let_def)
  from buildInternalEndpointURL_shape [OF witness_digest url] show ?thesis
    unfolding url by auto
qed

section \<open>Observations\<close>

text \<open>
  Three places where the helpers behave differently from their comments or from the rest of the
  code. A backend that asks for a port number is also satisfied by any port whose name equals the
  (empty) backend port name, so a service with one unnamed port serves every number; duplicates
  among the new items are all appended; and the upstream URL for a custom cluster domain joins the
  domain to the namespace by a dash, where the service and bound endpoint controllers use a dot.
\<close>

lemma findServicesPort_ignores_number:
  "findServicesPort
     \<lparr>svcUID = ''u'', svcName = ''web'', svcNamespace = ''default'', svcAnnotations = [],
      svcPorts = [\<lparr>spName = [], spPort = 80, spAppProtocol = None\<rparr>]\<rparr>
     \<lparr>sbpName = [], sbpNumber = 9999\<rparr> =
   Some \<lparr>spName = [], spPort = 80, spAppProtocol = None\<rparr>"
  by (simp add: findServicesPort_def)

lemma appendStringUnique_keeps_new_duplicates: "appendStringUnique [] [''a'', ''a''] = [''a'', ''a'']"
  by (simp add: appendStringUnique_def)

lemma agentEndpointUpstreamURL_custom_domain:
  "agentEndpointUpstreamURL ''web'' ''default'' ''svc.corp.local'' p IRScheme_HTTP =
   ''http://web.default-svc.corp.local:'' @ itoa p"
  by (simp add: agentEndpointUpstreamURL_def custom_domain_def DefaultClusterDomain_def
        sanitizeStringForURL_def replace_char_def url_char_def is_lower_def Let_def)

end
