(* ===== verification/Gateway_Objects.thy ===== *)
theory Gateway_Objects
  imports Endpoint_Naming
begin

text \<open>
  The Kubernetes and Gateway API objects that the operator reads when it translates gateways and
  routes: of each type the fields that the code reads. Pointers are \<open>ptr\<close>, string enumerations are
  strings, maps are association lists. A label selector is kept as written; evaluating it is the
  business of \<open>apimachinery\<close>.
\<close>

section \<open>Gateways\<close>

record GatewayAddress =
  gaType :: "string ptr"
  gaValue :: string

record LabelSelector =
  lsMatchLabels :: "(string \<times> string) list"
  lsMatchExpressions :: "(string \<times> string \<times> string list) list"

record RouteNamespaces =
  rnFrom :: "string ptr"
  rnSelector :: "LabelSelector ptr"

record AllowedRoutes =
  arNamespaces :: "RouteNamespaces ptr"
  arKinds :: "string list"

record SecretObjectReference =
  sorKind :: "string ptr"
  sorName :: string
  sorNamespace :: "string ptr"

record ObjectReference =
  orefKind :: string
  orefName :: string
  orefNamespace :: "string ptr"

record ListenerTLSConfig =
  ltMode :: "string ptr"
  ltCertificateRefs :: "SecretObjectReference list"
  ltOptions :: "(string \<times> string) list"

record Listener =
  liName :: string
  liHostname :: "string ptr"
  liPort :: int
  liProtocol :: string
  liTLS :: "ListenerTLSConfig ptr"
  liAllowedRoutes :: "AllowedRoutes ptr"

record GatewayBackendTLS =
  gbClientCertificateRef :: "SecretObjectReference ptr"

record FrontendTLSValidation =
  fvCACertificateRefs :: "ObjectReference list"

record FrontendTLSConfig =
  ftDefaultValidation :: "FrontendTLSValidation ptr"

record GatewayTLSConfig =
  gtBackend :: "GatewayBackendTLS ptr"
  gtFrontend :: "FrontendTLSConfig ptr"

record GatewayInfrastructure =
  giLabels :: "(string \<times> string) list"
  giAnnotations :: "(string \<times> string) list"

record Gateway =
  gwName :: string
  gwNamespace :: string
  gwClassName :: string
  gwAnnotations :: annotations
  gwListeners :: "Listener list"
  gwAddresses :: "GatewayAddress list"
  gwInfrastructure :: "GatewayInfrastructure ptr"
  gwTLS :: "GatewayTLSConfig ptr"

record GatewayClass =
  gcName :: string
  gcControllerName :: string

section \<open>Routes\<close>

record ParentReference =
  prNamespace :: "string ptr"
  prName :: string
  prSectionName :: "string ptr"
  prPort :: "int ptr"

record HTTPPathMatch =
  hpmType :: "string ptr"
  hpmValue :: "string ptr"

record HTTPHeaderMatch =
  hhmType :: "string ptr"
  hhmName :: string
  hhmValue :: string

record HTTPQueryParamMatch =
  hqmType :: "string ptr"
  hqmName :: string
  hqmValue :: string

record HTTPRouteMatch =
  hrmPath :: "HTTPPathMatch ptr"
  hrmHeaders :: "HTTPHeaderMatch list"
  hrmQueryParams :: "HTTPQueryParamMatch list"
  hrmMethod :: "string ptr"

record HTTPHeaderFilter =
  hhfSet :: "(string \<times> string) list"
  hhfAdd :: "(string \<times> string) list"
  hhfRemove :: "string list"

record HTTPPathModifier =
  pmType :: string
  pmReplaceFullPath :: "string ptr"
  pmReplacePrefixMatch :: "string ptr"

record HTTPRequestRedirectFilter =
  rrScheme :: "string ptr"
  rrHostname :: "string ptr"
  rrPath :: "HTTPPathModifier ptr"
  rrPort :: "int ptr"
  rrStatusCode :: "int ptr"

record HTTPURLRewriteFilter =
  urwHostname :: "string ptr"
  urwPath :: "HTTPPathModifier ptr"

record LocalObjectReference =
  loGroup :: string
  loKind :: string
  loName :: string

record HTTPRouteFilter =
  hfType :: string
  hfRequestHeaderModifier :: "HTTPHeaderFilter ptr"
  hfResponseHeaderModifier :: "HTTPHeaderFilter ptr"
  hfRequestRedirect :: "HTTPRequestRedirectFilter ptr"
  hfURLRewrite :: "HTTPURLRewriteFilter ptr"
  hfExtensionRef :: "LocalObjectReference ptr"

record BackendRef =
  brKind :: "string ptr"
  brName :: string
  brNamespace :: "string ptr"
  brPort :: "int ptr"
  brWeight :: "int ptr"

record HTTPBackendRef = BackendRef +
  brFilters :: "HTTPRouteFilter list"

record HTTPRouteRule =
  hruMatches :: "HTTPRouteMatch list"
  hruFilters :: "HTTPRouteFilter list"
  hruBackendRefs :: "HTTPBackendRef list"

record HTTPRoute =
  hroName :: string
  hroNamespace :: string
  hroParentRefs :: "ParentReference list"
  hroHostnames :: "string list"
  hroRules :: "HTTPRouteRule list"

record TCPRoute =
  troName :: string
  troNamespace :: string
  troParentRefs :: "ParentReference list"
  troRules :: "BackendRef list list"

record TLSRoute =
  tlroName :: string
  tlroNamespace :: string
  tlroParentRefs :: "ParentReference list"
  tlroHostnames :: "string list"
  tlroRules :: "BackendRef list list"

section \<open>What routes refer to\<close>

record ReferenceGrantFrom =
  rgfGroup :: string
  rgfKind :: string
  rgfNamespace :: string

record ReferenceGrantTo =
  rgtGroup :: string
  rgtKind :: string
  rgtName :: "string ptr"

record ReferenceGrant =
  rgName :: string
  rgNamespace :: string
  rgFrom :: "ReferenceGrantFrom list"
  rgTo :: "ReferenceGrantTo list"

record Secret =
  secName :: string
  secNamespace :: string
  secType :: string
  secData :: "(string \<times> string) list"

record ConfigMap =
  cmName :: string
  cmNamespace :: string
  cmData :: "(string \<times> string) list"

record Namespace =
  nsName :: string
  nsLabels :: "(string \<times> string) list"

end
