(* ===== verification/Resource_Store.thy ===== *)
theory Resource_Store
  imports Gateway_Objects
begin

text \<open>
  \<^bold>\<open>internal/store/store.go\<close> and \<^bold>\<open>internal/store/cachestores.go\<close>: the operator's cache of the
  Kubernetes objects it reads, its lookups and its listings filtered by class, with the errors of
  \<^bold>\<open>internal/errors/errors.go\<close> they return.

  A \<open>cache.Store\<close> of client-go is the map from keys to objects that its documentation describes
  (\<open>cache\<close>, an association list); the interface \<open>object_cache\<close> states what the operator relies on.
  Of each object the fields that the store and the translation read are kept; kinds that are only
  stored are opaque. The lock is not modelled: every operation holds it from start to end.
\<close>

section \<open>Objects\<close>

record IngressServiceBackend =
  isbName :: string
  isbPort :: ServiceBackendPort

record TypedLocalObjectReference =
  tlrAPIGroup :: "string ptr"
  tlrKind :: string
  tlrName :: string

record IngressBackend =
  ibService :: "IngressServiceBackend ptr"
  ibResource :: "TypedLocalObjectReference ptr"

record HTTPIngressPath =
  hipPath :: string
  hipPathType :: "PathType ptr"
  hipBackend :: IngressBackend

record IngressRule =
  iruHost :: string
  iruHTTP :: "HTTPIngressPath list ptr"

record Ingress =
  ingName :: string
  ingNamespace :: string
  ingAnnotations :: annotations
  ingClassName :: "string ptr"
  ingDefaultBackend :: "IngressBackend ptr"
  ingRules :: "IngressRule list"

record IngressClass =
  icName :: string
  icAnnotations :: annotations
  icController :: string

record NgrokTrafficPolicy =
  ntpName :: string
  ntpNamespace :: string
  ntpPolicy :: raw_json

record opaque_object =
  oName :: string
  oNamespace :: string
  oBody :: string

section \<open>Caches\<close>

type_synonym 'a cache = "(string \<times> 'a) list"

definition cache_add :: "('a \<Rightarrow> string) \<Rightarrow> 'a \<Rightarrow> 'a cache \<Rightarrow> 'a cache" where
  "cache_add key x c = AList.update (key x) x c"

definition cache_delete :: "('a \<Rightarrow> string) \<Rightarrow> 'a \<Rightarrow> 'a cache \<Rightarrow> 'a cache" where
  "cache_delete key x c = AList.delete (key x) c"

definition cache_items :: "'a cache \<Rightarrow> 'a list" where
  "cache_items c = map snd c"

definition getKey :: "string \<Rightarrow> string \<Rightarrow> string" where
  "getKey name namespace = namespace @ ''/'' @ name"

definition keyFunc :: "('a \<Rightarrow> string) \<Rightarrow> ('a \<Rightarrow> string) \<Rightarrow> 'a \<Rightarrow> string" where
  "keyFunc name namespace x = namespace x @ ''/'' @ name x"

definition clusterResourceKeyFunc :: "('a \<Rightarrow> string) \<Rightarrow> 'a \<Rightarrow> string" where
  "clusterResourceKeyFunc name x = name x"

record CacheStores =
  csIngressV1 :: "Ingress cache"
  csIngressClassV1 :: "IngressClass cache"
  csServiceV1 :: "Service cache"
  csSecretV1 :: "Secret cache"
  csConfigMapV1 :: "ConfigMap cache"
  csNamespaceV1 :: "Namespace cache"
  csGateway :: "Gateway cache"
  csGatewayClass :: "GatewayClass cache"
  csHTTPRoute :: "HTTPRoute cache"
  csTCPRoute :: "TCPRoute cache"
  csTLSRoute :: "TLSRoute cache"
  csReferenceGrant :: "ReferenceGrant cache"
  csDomainV1 :: "opaque_object cache"
  csNgrokTrafficPolicyV1 :: "NgrokTrafficPolicy cache"
  csAgentEndpointV1 :: "opaque_object cache"
  csCloudEndpointV1 :: "opaque_object cache"

definition NewCacheStores :: CacheStores where
  "NewCacheStores =
     \<lparr>csIngressV1 = [], csIngressClassV1 = [], csServiceV1 = [], csSecretV1 = [], csConfigMapV1 = [],
      csNamespaceV1 = [], csGateway = [], csGatewayClass = [], csHTTPRoute = [], csTCPRoute = [],
      csTLSRoute = [], csReferenceGrant = [], csDomainV1 = [], csNgrokTrafficPolicyV1 = [],
      csAgentEndpointV1 = [], csCloudEndpointV1 = []\<rparr>"

text \<open>The key functions the caches are created with: cluster-scoped or namespaced.\<close>

abbreviation ingress_key :: "Ingress \<Rightarrow> string" where
  "ingress_key \<equiv> keyFunc ingName ingNamespace"

abbreviation ingress_class_key :: "IngressClass \<Rightarrow> string" where
  "ingress_class_key \<equiv> clusterResourceKeyFunc icName"

abbreviation service_key :: "Service \<Rightarrow> string" where
  "service_key \<equiv> keyFunc svcName svcNamespace"

abbreviation opaque_key :: "opaque_object \<Rightarrow> string" where
  "opaque_key \<equiv> keyFunc oName oNamespace"

abbreviation namespace_key :: "Namespace \<Rightarrow> string" where
  "namespace_key \<equiv> clusterResourceKeyFunc nsName"

abbreviation secret_key :: "Secret \<Rightarrow> string" where
  "secret_key \<equiv> keyFunc secName secNamespace"

abbreviation config_map_key :: "ConfigMap \<Rightarrow> string" where
  "config_map_key \<equiv> keyFunc cmName cmNamespace"

abbreviation http_route_key :: "HTTPRoute \<Rightarrow> string" where
  "http_route_key \<equiv> keyFunc hroName hroNamespace"

abbreviation tcp_route_key :: "TCPRoute \<Rightarrow> string" where
  "tcp_route_key \<equiv> keyFunc troName troNamespace"

abbreviation tls_route_key :: "TLSRoute \<Rightarrow> string" where
  "tls_route_key \<equiv> keyFunc tlroName tlroNamespace"

abbreviation reference_grant_key :: "ReferenceGrant \<Rightarrow> string" where
  "reference_grant_key \<equiv> keyFunc rgName rgNamespace"

abbreviation gateway_key :: "Gateway \<Rightarrow> string" where
  "gateway_key \<equiv> keyFunc gwName gwNamespace"

abbreviation gateway_class_key :: "GatewayClass \<Rightarrow> string" where
  "gateway_class_key \<equiv> keyFunc gcName (\<lambda>_. [])"

abbreviation traffic_policy_key :: "NgrokTrafficPolicy \<Rightarrow> string" where
  "traffic_policy_key \<equiv> keyFunc ntpName ntpNamespace"

datatype k8s_object =
    ObjIngress Ingress
  | ObjIngressClass IngressClass
  | ObjService Service
  | ObjSecret Secret
  | ObjNamespace Namespace
  | ObjConfigMap ConfigMap
  | ObjHTTPRoute HTTPRoute
  | ObjTCPRoute TCPRoute
  | ObjTLSRoute TLSRoute
  | ObjGateway Gateway
  | ObjGatewayClass GatewayClass
  | ObjReferenceGrant ReferenceGrant
  | ObjDomain opaque_object
  | ObjNgrokTrafficPolicy NgrokTrafficPolicy
  | ObjAgentEndpoint opaque_object
  | ObjCloudEndpoint opaque_object
  | ObjUnsupported string

datatype store_error = UnsupportedObjectType string | NotFoundInStore string

fun CacheStores_Get :: "CacheStores \<Rightarrow> k8s_object \<Rightarrow> store_error + k8s_object option" where
  "CacheStores_Get c (ObjIngress x) = Inr (map_option ObjIngress (map_of (csIngressV1 c) (ingress_key x)))"
| "CacheStores_Get c (ObjIngressClass x) =
     Inr (map_option ObjIngressClass (map_of (csIngressClassV1 c) (ingress_class_key x)))"
| "CacheStores_Get c (ObjService x) = Inr (map_option ObjService (map_of (csServiceV1 c) (service_key x)))"
| "CacheStores_Get c (ObjSecret x) = Inr (map_option ObjSecret (map_of (csSecretV1 c) (secret_key x)))"
| "CacheStores_Get c (ObjNamespace x) = Inr (map_option ObjNamespace (map_of (csNamespaceV1 c) (namespace_key x)))"
| "CacheStores_Get c (ObjConfigMap x) = Inr (map_option ObjConfigMap (map_of (csConfigMapV1 c) (config_map_key x)))"
| "CacheStores_Get c (ObjHTTPRoute x) = Inr (map_option ObjHTTPRoute (map_of (csHTTPRoute c) (http_route_key x)))"
| "CacheStores_Get c (ObjTCPRoute x) = Inr (map_option ObjTCPRoute (map_of (csTCPRoute c) (tcp_route_key x)))"
| "CacheStores_Get c (ObjTLSRoute x) = Inr (map_option ObjTLSRoute (map_of (csTLSRoute c) (tls_route_key x)))"
| "CacheStores_Get c (ObjGateway x) = Inr (map_option ObjGateway (map_of (csGateway c) (gateway_key x)))"
| "CacheStores_Get c (ObjGatewayClass x) =
     Inr (map_option ObjGatewayClass (map_of (csGatewayClass c) (gateway_class_key x)))"
| "CacheStores_Get c (ObjReferenceGrant x) =
     Inr (map_option ObjReferenceGrant (map_of (csReferenceGrant c) (reference_grant_key x)))"
| "CacheStores_Get c (ObjDomain x) = Inr (map_option ObjDomain (map_of (csDomainV1 c) (opaque_key x)))"
| "CacheStores_Get c (ObjNgrokTrafficPolicy x) =
     Inr (map_option ObjNgrokTrafficPolicy (map_of (csNgrokTrafficPolicyV1 c) (traffic_policy_key x)))"
| "CacheStores_Get c (ObjAgentEndpoint x) =
     Inr (map_option ObjAgentEndpoint (map_of (csAgentEndpointV1 c) (opaque_key x)))"
| "CacheStores_Get c (ObjCloudEndpoint x) =
     Inr (map_option ObjCloudEndpoint (map_of (csCloudEndpointV1 c) (opaque_key x)))"
| "CacheStores_Get c (ObjUnsupported t) = Inl (UnsupportedObjectType t)"

fun CacheStores_Add :: "CacheStores \<Rightarrow> k8s_object \<Rightarrow> store_error + CacheStores" where
  "CacheStores_Add c (ObjIngress x) = Inr (c\<lparr>csIngressV1 := cache_add ingress_key x (csIngressV1 c)\<rparr>)"
| "CacheStores_Add c (ObjIngressClass x) =
     Inr (c\<lparr>csIngressClassV1 := cache_add ingress_class_key x (csIngressClassV1 c)\<rparr>)"
| "CacheStores_Add c (ObjService x) = Inr (c\<lparr>csServiceV1 := cache_add service_key x (csServiceV1 c)\<rparr>)"
| "CacheStores_Add c (ObjSecret x) = Inr (c\<lparr>csSecretV1 := cache_add secret_key x (csSecretV1 c)\<rparr>)"
| "CacheStores_Add c (ObjNamespace x) = Inr (c\<lparr>csNamespaceV1 := cache_add namespace_key x (csNamespaceV1 c)\<rparr>)"
| "CacheStores_Add c (ObjConfigMap x) = Inr (c\<lparr>csConfigMapV1 := cache_add config_map_key x (csConfigMapV1 c)\<rparr>)"
| "CacheStores_Add c (ObjHTTPRoute x) = Inr (c\<lparr>csHTTPRoute := cache_add http_route_key x (csHTTPRoute c)\<rparr>)"
| "CacheStores_Add c (ObjTCPRoute x) = Inr (c\<lparr>csTCPRoute := cache_add tcp_route_key x (csTCPRoute c)\<rparr>)"
| "CacheStores_Add c (ObjTLSRoute x) = Inr (c\<lparr>csTLSRoute := cache_add tls_route_key x (csTLSRoute c)\<rparr>)"
| "CacheStores_Add c (ObjGateway x) = Inr (c\<lparr>csGateway := cache_add gateway_key x (csGateway c)\<rparr>)"
| "CacheStores_Add c (ObjGatewayClass x) =
     Inr (c\<lparr>csGatewayClass := cache_add gateway_class_key x (csGatewayClass c)\<rparr>)"
| "CacheStores_Add c (ObjReferenceGrant x) =
     Inr (c\<lparr>csReferenceGrant := cache_add reference_grant_key x (csReferenceGrant c)\<rparr>)"
| "CacheStores_Add c (ObjDomain x) = Inr (c\<lparr>csDomainV1 := cache_add opaque_key x (csDomainV1 c)\<rparr>)"
| "CacheStores_Add c (ObjNgrokTrafficPolicy x) =
     Inr (c\<lparr>csNgrokTrafficPolicyV1 := cache_add traffic_policy_key x (csNgrokTrafficPolicyV1 c)\<rparr>)"
| "CacheStores_Add c (ObjAgentEndpoint x) =
     Inr (c\<lparr>csAgentEndpointV1 := cache_add opaque_key x (csAgentEndpointV1 c)\<rparr>)"
| "CacheStores_Add c (ObjCloudEndpoint x) =
     Inr (c\<lparr>csCloudEndpointV1 := cache_add opaque_key x (csCloudEndpointV1 c)\<rparr>)"
| "CacheStores_Add c (ObjUnsupported t) = Inl (UnsupportedObjectType t)"

fun CacheStores_Delete :: "CacheStores \<Rightarrow> k8s_object \<Rightarrow> store_error + CacheStores" where
  "CacheStores_Delete c (ObjIngress x) = Inr (c\<lparr>csIngressV1 := cache_delete ingress_key x (csIngressV1 c)\<rparr>)"
| "CacheStores_Delete c (ObjIngressClass x) =
     Inr (c\<lparr>csIngressClassV1 := cache_delete ingress_class_key x (csIngressClassV1 c)\<rparr>)"
| "CacheStores_Delete c (ObjService x) = Inr (c\<lparr>csServiceV1 := cache_delete service_key x (csServiceV1 c)\<rparr>)"
| "CacheStores_Delete c (ObjSecret x) = Inr (c\<lparr>csSecretV1 := cache_delete secret_key x (csSecretV1 c)\<rparr>)"
| "CacheStores_Delete c (ObjNamespace x) =
     Inr (c\<lparr>csNamespaceV1 := cache_delete namespace_key x (csNamespaceV1 c)\<rparr>)"
| "CacheStores_Delete c (ObjConfigMap x) = Inr (c\<lparr>csConfigMapV1 := cache_delete config_map_key x (csConfigMapV1 c)\<rparr>)"
| "CacheStores_Delete c (ObjHTTPRoute x) = Inr (c\<lparr>csHTTPRoute := cache_delete http_route_key x (csHTTPRoute c)\<rparr>)"
| "CacheStores_Delete c (ObjTCPRoute x) = Inr (c\<lparr>csTCPRoute := cache_delete tcp_route_key x (csTCPRoute c)\<rparr>)"
| "CacheStores_Delete c (ObjTLSRoute x) = Inr (c\<lparr>csTLSRoute := cache_delete tls_route_key x (csTLSRoute c)\<rparr>)"
| "CacheStores_Delete c (ObjGateway x) = Inr (c\<lparr>csGateway := cache_delete gateway_key x (csGateway c)\<rparr>)"
| "CacheStores_Delete c (ObjGatewayClass x) =
     Inr (c\<lparr>csGatewayClass := cache_delete gateway_class_key x (csGatewayClass c)\<rparr>)"
| "CacheStores_Delete c (ObjReferenceGrant x) =
     Inr (c\<lparr>csReferenceGrant := cache_delete reference_grant_key x (csReferenceGrant c)\<rparr>)"
| "CacheStores_Delete c (ObjDomain x) = Inr (c\<lparr>csDomainV1 := cache_delete opaque_key x (csDomainV1 c)\<rparr>)"
| "CacheStores_Delete c (ObjNgrokTrafficPolicy x) =
     Inr (c\<lparr>csNgrokTrafficPolicyV1 := cache_delete traffic_policy_key x (csNgrokTrafficPolicyV1 c)\<rparr>)"
| "CacheStores_Delete c (ObjAgentEndpoint x) =
     Inr (c\<lparr>csAgentEndpointV1 := cache_delete opaque_key x (csAgentEndpointV1 c)\<rparr>)"
| "CacheStores_Delete c (ObjCloudEndpoint x) =
     Inr (c\<lparr>csCloudEndpointV1 := cache_delete opaque_key x (csCloudEndpointV1 c)\<rparr>)"
| "CacheStores_Delete c (ObjUnsupported t) = Inl (UnsupportedObjectType t)"

section \<open>The store\<close>

record Store =
  stStores :: CacheStores
  stControllerName :: string
  stGatewayControllerName :: string

definition Store_Get :: "Store \<Rightarrow> k8s_object \<Rightarrow> store_error + k8s_object option" where
  "Store_Get s x = CacheStores_Get (stStores s) x"

definition Store_Add :: "Store \<Rightarrow> k8s_object \<Rightarrow> store_error + Store" where
  "Store_Add s x = map_sum id (\<lambda>c. s\<lparr>stStores := c\<rparr>) (CacheStores_Add (stStores s) x)"

definition Store_Update :: "Store \<Rightarrow> k8s_object \<Rightarrow> store_error + Store" where
  "Store_Update s x = map_sum id (\<lambda>c. s\<lparr>stStores := c\<rparr>) (CacheStores_Add (stStores s) x)"

definition Store_Delete :: "Store \<Rightarrow> k8s_object \<Rightarrow> store_error + Store" where
  "Store_Delete s x = map_sum id (\<lambda>c. s\<lparr>stStores := c\<rparr>) (CacheStores_Delete (stStores s) x)"

definition genericGetByKey :: "'a cache \<Rightarrow> string \<Rightarrow> store_error + 'a" where
  "genericGetByKey c key = (case map_of c key of None \<Rightarrow> Inl (NotFoundInStore key) | Some x \<Rightarrow> Inr x)"

definition GetIngressClassV1 :: "Store \<Rightarrow> string \<Rightarrow> store_error + IngressClass" where
  "GetIngressClassV1 s name = genericGetByKey (csIngressClassV1 (stStores s)) name"

definition GetIngressV1 :: "Store \<Rightarrow> string \<Rightarrow> string \<Rightarrow> store_error + Ingress" where
  "GetIngressV1 s name namespace = genericGetByKey (csIngressV1 (stStores s)) (getKey name namespace)"

definition GetServiceV1 :: "Store \<Rightarrow> string \<Rightarrow> string \<Rightarrow> store_error + Service" where
  "GetServiceV1 s name namespace = genericGetByKey (csServiceV1 (stStores s)) (getKey name namespace)"

definition GetNgrokTrafficPolicyV1 :: "Store \<Rightarrow> string \<Rightarrow> string \<Rightarrow> store_error + NgrokTrafficPolicy" where
  "GetNgrokTrafficPolicyV1 s name namespace =
     genericGetByKey (csNgrokTrafficPolicyV1 (stStores s)) (getKey name namespace)"

definition GetGateway :: "Store \<Rightarrow> string \<Rightarrow> string \<Rightarrow> store_error + Gateway" where
  "GetGateway s name namespace = genericGetByKey (csGateway (stStores s)) (getKey name namespace)"

definition GetGatewayClass :: "Store \<Rightarrow> string \<Rightarrow> store_error + GatewayClass" where
  "GetGatewayClass s name = genericGetByKey (csGatewayClass (stStores s)) name"

definition GetSecretV1 :: "Store \<Rightarrow> string \<Rightarrow> string \<Rightarrow> store_error + Secret" where
  "GetSecretV1 s name namespace = genericGetByKey (csSecretV1 (stStores s)) (getKey name namespace)"

definition GetConfigMapV1 :: "Store \<Rightarrow> string \<Rightarrow> string \<Rightarrow> store_error + ConfigMap" where
  "GetConfigMapV1 s name namespace = genericGetByKey (csConfigMapV1 (stStores s)) (getKey name namespace)"

definition GetHTTPRoute :: "Store \<Rightarrow> string \<Rightarrow> string \<Rightarrow> store_error + HTTPRoute" where
  "GetHTTPRoute s name namespace = genericGetByKey (csHTTPRoute (stStores s)) (getKey name namespace)"

definition GetTCPRoute :: "Store \<Rightarrow> string \<Rightarrow> string \<Rightarrow> store_error + TCPRoute" where
  "GetTCPRoute s name namespace = genericGetByKey (csTCPRoute (stStores s)) (getKey name namespace)"

definition GetTLSRoute :: "Store \<Rightarrow> string \<Rightarrow> string \<Rightarrow> store_error + TLSRoute" where
  "GetTLSRoute s name namespace = genericGetByKey (csTLSRoute (stStores s)) (getKey name namespace)"

definition GetReferenceGrant :: "Store \<Rightarrow> string \<Rightarrow> string \<Rightarrow> store_error + ReferenceGrant" where
  "GetReferenceGrant s name namespace = genericGetByKey (csReferenceGrant (stStores s)) (getKey name namespace)"

definition GetNamespaceV1 :: "Store \<Rightarrow> string \<Rightarrow> store_error + Namespace" where
  "GetNamespaceV1 s name = genericGetByKey (csNamespaceV1 (stStores s)) name"

text \<open>
  \<open>genericListSorted\<close>: the objects of a cache, whose order is that of a Go map, sorted by the text
  \<open>namespace/name\<close>.
\<close>

definition genericListSorted :: "('a \<Rightarrow> string) \<Rightarrow> ('a \<Rightarrow> string) \<Rightarrow> 'a cache \<Rightarrow> 'a list" where
  "genericListSorted name namespace c =
     stable_sort (\<lambda>x y. keyFunc name namespace x < keyFunc name namespace y) (cache_items c)"

definition ListIngressClassesV1 :: "Store \<Rightarrow> IngressClass list" where
  "ListIngressClassesV1 s = genericListSorted icName (\<lambda>_. []) (csIngressClassV1 (stStores s))"

definition defaultIngressControllerName :: string where
  "defaultIngressControllerName = ''ngrok.com/ingress-controller''"

definition legacyDefaultIngressControllerName :: string where
  "legacyDefaultIngressControllerName = ''k8s.ngrok.com/ingress-controller''"

definition accepted_controllers :: "string \<Rightarrow> string list" where
  "accepted_controllers controllerName =
     (if controllerName = defaultIngressControllerName \<or> controllerName = legacyDefaultIngressControllerName
      then [controllerName, defaultIngressControllerName, legacyDefaultIngressControllerName]
      else [controllerName])"

definition ListNgrokIngressClassesV1 :: "Store \<Rightarrow> IngressClass list" where
  "ListNgrokIngressClassesV1 s =
     filter (\<lambda>c. icController c \<in> set (accepted_controllers (stControllerName s))) (ListIngressClassesV1 s)"

definition listGateways :: "Store \<Rightarrow> Gateway list" where
  "listGateways s = genericListSorted gwName gwNamespace (csGateway (stStores s))"

definition ListGatewayClasses :: "Store \<Rightarrow> GatewayClass list" where
  "ListGatewayClasses s = genericListSorted gcName (\<lambda>_. []) (csGatewayClass (stStores s))"

definition ListNgrokGateways :: "Store \<Rightarrow> Gateway list" where
  "ListNgrokGateways s =
     (if stGatewayControllerName s = [] then []
      else
        let ngrokClassNames = map gcName (filter (\<lambda>gwc. gcControllerName gwc = stGatewayControllerName s)
              (ListGatewayClasses s))
        in filter (\<lambda>gw. gwClassName gw \<in> set ngrokClassNames) (listGateways s))"

text \<open>
  The unsorted listings have the order of the cache, which Go leaves open; here it is the order of
  the association list, and what is proved of a listing holds for each.
\<close>

definition ListHTTPRoutes :: "Store \<Rightarrow> HTTPRoute list" where
  "ListHTTPRoutes s = cache_items (csHTTPRoute (stStores s))"

definition ListTCPRoutes :: "Store \<Rightarrow> TCPRoute list" where
  "ListTCPRoutes s = cache_items (csTCPRoute (stStores s))"

definition ListTLSRoutes :: "Store \<Rightarrow> TLSRoute list" where
  "ListTLSRoutes s = cache_items (csTLSRoute (stStores s))"

definition ListReferenceGrants :: "Store \<Rightarrow> ReferenceGrant list" where
  "ListReferenceGrants s = genericListSorted rgName rgNamespace (csReferenceGrant (stStores s))"

definition ListNamespaces :: "Store \<Rightarrow> Namespace list" where
  "ListNamespaces s = genericListSorted nsName (\<lambda>_. []) (csNamespaceV1 (stStores s))"

definition ListDomainsV1 :: "Store \<Rightarrow> opaque_object list" where
  "ListDomainsV1 s = genericListSorted oName oNamespace (csDomainV1 (stStores s))"

datatype ingress_error =
    NoDefaultIngressClassFound
  | DifferentIngressClass "IngressClass list" "string ptr"
  | InvalidIngressSpec "string list"

definition rule_errors :: "IngressRule \<Rightarrow> string list" where
  "rule_errors r =
     (if iruHost r = [] then [''A host is required to be set for each rule''] else []) @
     (if iruHTTP r = None then [''HTTP rules are required for ingress''] else [])"

definition shouldHandleIngressIsValid :: "Ingress \<Rightarrow> bool \<times> ingress_error option" where
  "shouldHandleIngressIsValid ing =
     (let errs = (if ingRules ing = [] then [''At least one rule is required to be set'']
                  else concat (map rule_errors (ingRules ing)))
      in if errs \<noteq> [] then (False, Some (InvalidIngressSpec errs)) else (True, None))"

definition is_default_class :: "IngressClass \<Rightarrow> bool" where
  "is_default_class c \<longleftrightarrow>
     map_of (icAnnotations c) ''ingressclass.kubernetes.io/is-default-class'' = Some ''true''"

definition shouldHandleIngressCheckClass :: "Store \<Rightarrow> Ingress \<Rightarrow> bool \<times> ingress_error option" where
  "shouldHandleIngressCheckClass s ing =
     (let ngrokClasses = ListNgrokIngressClassesV1 s
      in if ngrokClasses = [] then (False, Some NoDefaultIngressClassFound)
         else (case ingClassName ing of
             Some cn \<Rightarrow>
               if list_ex (\<lambda>c. cn = icName c) ngrokClasses then (True, None)
               else (False, Some (DifferentIngressClass ngrokClasses (Some cn)))
           | None \<Rightarrow>
               if list_ex is_default_class ngrokClasses then (True, None)
               else (False, Some (DifferentIngressClass ngrokClasses None))))"

definition shouldHandleIngress :: "Store \<Rightarrow> Ingress \<Rightarrow> bool \<times> ingress_error option" where
  "shouldHandleIngress s ing =
     (case shouldHandleIngressIsValid ing of
        (ok, Some e) \<Rightarrow> (ok, Some e)
      | (_, None) \<Rightarrow> shouldHandleIngressCheckClass s ing)"

definition listIngressesV1 :: "Store \<Rightarrow> Ingress list" where
  "listIngressesV1 s = genericListSorted ingName ingNamespace (csIngressV1 (stStores s))"

definition ListNgrokIngressesV1 :: "Store \<Rightarrow> Ingress list" where
  "ListNgrokIngressesV1 s =
     filter (\<lambda>ing. case shouldHandleIngress s ing of (ok, err) \<Rightarrow> ok \<and> err = None) (listIngressesV1 s)"

text \<open>\<open>GetNgrokIngressV1\<close> returns nil without an error for an ingress that is not to be handled.\<close>

definition GetNgrokIngressV1 ::
  "Store \<Rightarrow> string \<Rightarrow> string \<Rightarrow> (store_error + ingress_error option) + Ingress" where
  "GetNgrokIngressV1 s name namespace =
     (case GetIngressV1 s name namespace of
        Inl e \<Rightarrow> Inl (Inl e)
      | Inr ing \<Rightarrow>
          (case shouldHandleIngress s ing of
             (ok, err) \<Rightarrow> if \<not> ok \<or> err \<noteq> None then Inl (Inr err) else Inr ing))"

section \<open>The interface of a cache\<close>

text \<open>
  What the operator relies on: a lookup by key sees the last object added under that key, a deleted
  key is gone, and the listing holds exactly the stored objects.
\<close>

locale object_cache =
  fixes key :: "'a \<Rightarrow> string"
    and empty :: 'c
    and add :: "'a \<Rightarrow> 'c \<Rightarrow> 'c"
    and delete :: "'a \<Rightarrow> 'c \<Rightarrow> 'c"
    and get_by_key :: "'c \<Rightarrow> string \<Rightarrow> 'a option"
    and items :: "'c \<Rightarrow> 'a list"
    and wf :: "'c \<Rightarrow> bool"
  assumes wf_empty: "wf empty"
    and wf_add: "wf c \<Longrightarrow> wf (add x c)"
    and wf_delete: "wf c \<Longrightarrow> wf (delete x c)"
    and get_empty: "get_by_key empty k = None"
    and get_add: "get_by_key (add x c) k = (if k = key x then Some x else get_by_key c k)"
    and get_delete: "get_by_key (delete x c) k = (if k = key x then None else get_by_key c k)"
    and get_key: "wf c \<Longrightarrow> get_by_key c k = Some x \<Longrightarrow> key x = k"
    and items_iff: "wf c \<Longrightarrow> x \<in> set (items c) \<longleftrightarrow> get_by_key c (key x) = Some x"
    and items_distinct: "wf c \<Longrightarrow> distinct (items c)"
begin

lemma items_inj: "wf c \<Longrightarrow> x \<in> set (items c) \<Longrightarrow> y \<in> set (items c) \<Longrightarrow> key x = key y \<Longrightarrow> x = y"
  by (simp add: items_iff)

lemma found_iff: "wf c \<Longrightarrow> get_by_key c k = Some x \<longleftrightarrow> x \<in> set (items c) \<and> key x = k"
  using get_key items_iff by blast

lemma items_add: "wf c \<Longrightarrow> set (items (add x c)) = insert x {y \<in> set (items c). key y \<noteq> key x}"
  by (auto simp: items_iff wf_add get_add split: if_splits)

lemma items_delete: "wf c \<Longrightarrow> set (items (delete x c)) = {y \<in> set (items c). key y \<noteq> key x}"
  by (auto simp: items_iff wf_delete get_delete split: if_splits)

text \<open>A listing sorted by a text that identifies the object does not depend on the map's order.\<close>

lemma sorted_listing_unique:
  assumes "wf c" "mset xs = mset (items c)"
    and "\<And>x y. path x = path y \<Longrightarrow> key x = key y"
  shows "stable_sort (\<lambda>x y. (path x :: string) < path y) xs = stable_sort (\<lambda>x y. path x < path y) (items c)"
proof (rule strict_weak_order.stable_sort_mset_cong [OF strict_weak_order_key assms(2)])
  fix a b assume ab: "a \<in> set xs" "b \<in> set xs" "sort_equiv (\<lambda>x y. path x < path y) a b"
  have "set xs = set (items c)" using assms(2) by (metis set_mset_mset)
  moreover have "path a = path b" using ab(3) by (meson linorder_neqE sort_equiv_def)
  ultimately show "a = b" using ab assms(1,3) items_inj by blast
qed simp

end

definition cache_wf :: "('a \<Rightarrow> string) \<Rightarrow> 'a cache \<Rightarrow> bool" where
  "cache_wf key c \<longleftrightarrow> distinct (map fst c) \<and> list_all (\<lambda>(k, x). key x = k) c"

lemma cache_wf_items:
  assumes "cache_wf key c"
  shows "x \<in> set (cache_items c) \<longleftrightarrow> map_of c (key x) = Some x"
proof -
  have "x \<in> set (cache_items c) \<longleftrightarrow> (key x, x) \<in> set c"
    using assms by (auto simp: cache_items_def cache_wf_def list_all_iff) force
  then show ?thesis using assms by (simp add: cache_wf_def)
qed

lemma object_cache_alist:
  "object_cache key [] (cache_add key) (cache_delete key) map_of cache_items (cache_wf key)"
proof
  show "cache_wf key (cache_add key x c)" if "cache_wf key c" for x c
    using that update_values [of "\<lambda>(k, x). key x = k" c "key x" x]
    by (auto simp: cache_wf_def cache_add_def intro: distinct_keys_update)
  show "cache_wf key (cache_delete key x c)" if "cache_wf key c" for x c
    using that by (simp add: cache_wf_def cache_delete_def AList.distinct_delete delete_values)
  show "key x = k" if "cache_wf key c" "map_of c k = Some x" for c k x
    using that map_of_SomeD by (fastforce simp: cache_wf_def list_all_iff)
  show "x \<in> set (cache_items c) \<longleftrightarrow> map_of c (key x) = Some x" if "cache_wf key c" for c x
    using that by (rule cache_wf_items)
  show "distinct (cache_items c)" if "cache_wf key c" for c
  proof -
    have "fst p = key (snd p)" if "p \<in> set c" for p
      using \<open>cache_wf key c\<close> that by (cases p) (auto simp: cache_wf_def list_all_iff)
    then have "inj_on snd (set c)"
      by (intro inj_onI prod_eqI) simp_all
    then show ?thesis
      using that by (simp add: cache_items_def distinct_map cache_wf_def)
  qed
qed (simp_all add: cache_wf_def cache_add_def cache_delete_def AList.delete_conv)

interpretation ingress_cache: object_cache ingress_key "[]" "cache_add ingress_key"
    "cache_delete ingress_key" map_of cache_items "cache_wf ingress_key"
  by (rule object_cache_alist)

interpretation ingress_class_cache: object_cache ingress_class_key "[]" "cache_add ingress_class_key"
    "cache_delete ingress_class_key" map_of cache_items "cache_wf ingress_class_key"
  by (rule object_cache_alist)

interpretation service_cache: object_cache service_key "[]" "cache_add service_key"
    "cache_delete service_key" map_of cache_items "cache_wf service_key"
  by (rule object_cache_alist)

interpretation traffic_policy_cache: object_cache traffic_policy_key "[]" "cache_add traffic_policy_key"
    "cache_delete traffic_policy_key" map_of cache_items "cache_wf traffic_policy_key"
  by (rule object_cache_alist)

interpretation gateway_cache: object_cache gateway_key "[]" "cache_add gateway_key"
    "cache_delete gateway_key" map_of cache_items "cache_wf gateway_key"
  by (rule object_cache_alist)

interpretation gateway_class_cache: object_cache gateway_class_key "[]" "cache_add gateway_class_key"
    "cache_delete gateway_class_key" map_of cache_items "cache_wf gateway_class_key"
  by (rule object_cache_alist)

interpretation opaque_cache: object_cache opaque_key "[]" "cache_add opaque_key"
    "cache_delete opaque_key" map_of cache_items "cache_wf opaque_key"
  by (rule object_cache_alist)

interpretation namespace_cache: object_cache namespace_key "[]" "cache_add namespace_key"
    "cache_delete namespace_key" map_of cache_items "cache_wf namespace_key"
  by (rule object_cache_alist)

interpretation secret_cache: object_cache secret_key "[]" "cache_add secret_key"
    "cache_delete secret_key" map_of cache_items "cache_wf secret_key"
  by (rule object_cache_alist)

interpretation config_map_cache: object_cache config_map_key "[]" "cache_add config_map_key"
    "cache_delete config_map_key" map_of cache_items "cache_wf config_map_key"
  by (rule object_cache_alist)

interpretation http_route_cache: object_cache http_route_key "[]" "cache_add http_route_key"
    "cache_delete http_route_key" map_of cache_items "cache_wf http_route_key"
  by (rule object_cache_alist)

interpretation tcp_route_cache: object_cache tcp_route_key "[]" "cache_add tcp_route_key"
    "cache_delete tcp_route_key" map_of cache_items "cache_wf tcp_route_key"
  by (rule object_cache_alist)

interpretation tls_route_cache: object_cache tls_route_key "[]" "cache_add tls_route_key"
    "cache_delete tls_route_key" map_of cache_items "cache_wf tls_route_key"
  by (rule object_cache_alist)

interpretation reference_grant_cache: object_cache reference_grant_key "[]" "cache_add reference_grant_key"
    "cache_delete reference_grant_key" map_of cache_items "cache_wf reference_grant_key"
  by (rule object_cache_alist)

section \<open>The store's invariant\<close>

definition stores_ok :: "CacheStores \<Rightarrow> bool" where
  "stores_ok c \<longleftrightarrow>
     cache_wf ingress_key (csIngressV1 c) \<and> cache_wf ingress_class_key (csIngressClassV1 c) \<and>
     cache_wf service_key (csServiceV1 c) \<and> cache_wf secret_key (csSecretV1 c) \<and>
     cache_wf config_map_key (csConfigMapV1 c) \<and> cache_wf namespace_key (csNamespaceV1 c) \<and>
     cache_wf gateway_key (csGateway c) \<and> cache_wf gateway_class_key (csGatewayClass c) \<and>
     cache_wf http_route_key (csHTTPRoute c) \<and> cache_wf tcp_route_key (csTCPRoute c) \<and>
     cache_wf tls_route_key (csTLSRoute c) \<and> cache_wf reference_grant_key (csReferenceGrant c) \<and>
     cache_wf opaque_key (csDomainV1 c) \<and> cache_wf traffic_policy_key (csNgrokTrafficPolicyV1 c) \<and>
     cache_wf opaque_key (csAgentEndpointV1 c) \<and> cache_wf opaque_key (csCloudEndpointV1 c)"

lemmas cache_wf_changes =
  ingress_cache.wf_add ingress_class_cache.wf_add service_cache.wf_add traffic_policy_cache.wf_add
  gateway_cache.wf_add gateway_class_cache.wf_add opaque_cache.wf_add namespace_cache.wf_add
  ingress_cache.wf_delete ingress_class_cache.wf_delete service_cache.wf_delete
  traffic_policy_cache.wf_delete gateway_cache.wf_delete gateway_class_cache.wf_delete
  opaque_cache.wf_delete namespace_cache.wf_delete
  secret_cache.wf_add config_map_cache.wf_add http_route_cache.wf_add
  tcp_route_cache.wf_add tls_route_cache.wf_add reference_grant_cache.wf_add
  secret_cache.wf_delete config_map_cache.wf_delete http_route_cache.wf_delete
  tcp_route_cache.wf_delete tls_route_cache.wf_delete reference_grant_cache.wf_delete

lemma stores_ok_New: "stores_ok NewCacheStores"
  by (simp add: stores_ok_def NewCacheStores_def cache_wf_def)

lemma stores_ok_Add: "stores_ok c \<Longrightarrow> CacheStores_Add c x = Inr c' \<Longrightarrow> stores_ok c'"
  by (cases x) (auto simp: stores_ok_def cache_wf_changes)

lemma stores_ok_Delete: "stores_ok c \<Longrightarrow> CacheStores_Delete c x = Inr c' \<Longrightarrow> stores_ok c'"
  by (cases x) (auto simp: stores_ok_def cache_wf_changes)

text \<open>Two objects share a place in the store: the same kind and the same key.\<close>

fun place :: "k8s_object \<Rightarrow> (string \<times> string) option" where
  "place (ObjIngress x) = Some (''Ingress'', ingress_key x)"
| "place (ObjIngressClass x) = Some (''IngressClass'', icName x)"
| "place (ObjService x) = Some (''Service'', service_key x)"
| "place (ObjSecret x) = Some (''Secret'', secret_key x)"
| "place (ObjNamespace x) = Some (''Namespace'', nsName x)"
| "place (ObjConfigMap x) = Some (''ConfigMap'', config_map_key x)"
| "place (ObjHTTPRoute x) = Some (''HTTPRoute'', http_route_key x)"
| "place (ObjTCPRoute x) = Some (''TCPRoute'', tcp_route_key x)"
| "place (ObjTLSRoute x) = Some (''TLSRoute'', tls_route_key x)"
| "place (ObjGateway x) = Some (''Gateway'', gateway_key x)"
| "place (ObjGatewayClass x) = Some (''GatewayClass'', gcName x)"
| "place (ObjReferenceGrant x) = Some (''ReferenceGrant'', reference_grant_key x)"
| "place (ObjDomain x) = Some (''Domain'', opaque_key x)"
| "place (ObjNgrokTrafficPolicy x) = Some (''NgrokTrafficPolicy'', traffic_policy_key x)"
| "place (ObjAgentEndpoint x) = Some (''AgentEndpoint'', opaque_key x)"
| "place (ObjCloudEndpoint x) = Some (''CloudEndpoint'', opaque_key x)"
| "place (ObjUnsupported _) = None"

definition same_place :: "k8s_object \<Rightarrow> k8s_object \<Rightarrow> bool" where
  "same_place x y \<longleftrightarrow> place x \<noteq> None \<and> place x = place y"

lemmas cache_lookups =
  ingress_cache.get_add ingress_class_cache.get_add service_cache.get_add traffic_policy_cache.get_add
  gateway_cache.get_add gateway_class_cache.get_add opaque_cache.get_add namespace_cache.get_add
  ingress_cache.get_delete ingress_class_cache.get_delete service_cache.get_delete
  traffic_policy_cache.get_delete gateway_cache.get_delete gateway_class_cache.get_delete
  opaque_cache.get_delete namespace_cache.get_delete
  secret_cache.get_add config_map_cache.get_add http_route_cache.get_add
  tcp_route_cache.get_add tls_route_cache.get_add reference_grant_cache.get_add
  secret_cache.get_delete config_map_cache.get_delete http_route_cache.get_delete
  tcp_route_cache.get_delete tls_route_cache.get_delete reference_grant_cache.get_delete

lemma CacheStores_Get_Add:
  "CacheStores_Add c x = Inr c' \<Longrightarrow>
   CacheStores_Get c' y = (if same_place x y then Inr (Some x) else CacheStores_Get c y)"
  by (cases x; cases y) (auto simp: cache_lookups same_place_def clusterResourceKeyFunc_def keyFunc_def)

lemma CacheStores_Get_Delete:
  "CacheStores_Delete c x = Inr c' \<Longrightarrow>
   CacheStores_Get c' y = (if same_place x y then Inr None else CacheStores_Get c y)"
  by (cases x; cases y) (auto simp: cache_lookups same_place_def clusterResourceKeyFunc_def keyFunc_def)

text \<open>The stores that a sequence of changes leads to.\<close>

inductive reachable_stores :: "CacheStores \<Rightarrow> bool" where
  start: "reachable_stores NewCacheStores"
| add: "reachable_stores c \<Longrightarrow> CacheStores_Add c x = Inr c' \<Longrightarrow> reachable_stores c'"
| delete: "reachable_stores c \<Longrightarrow> CacheStores_Delete c x = Inr c' \<Longrightarrow> reachable_stores c'"

lemma reachable_stores_ok: "reachable_stores c \<Longrightarrow> stores_ok c"
  by (induction rule: reachable_stores.induct) (auto intro: stores_ok_New stores_ok_Add stores_ok_Delete)

section \<open>Properties\<close>

text \<open>
  \<^bold>\<open>C32\<close>. Reading the store back. After an object has been added, a lookup in its place (same kind,
  same key) finds it, and every other lookup gives what it gave before; deleting empties the place
  and changes nothing else. Updating is adding.
\<close>

theorem store_change_then_get:
  "(\<forall>s'. Store_Add s x = Inr s' \<longrightarrow>
      Store_Get s' y = (if same_place x y then Inr (Some x) else Store_Get s y)) \<and>
   (\<forall>s'. Store_Delete s x = Inr s' \<longrightarrow>
      Store_Get s' y = (if same_place x y then Inr None else Store_Get s y)) \<and>
   Store_Update s x = Store_Add s x"
  using CacheStores_Get_Add [of "stStores s" x] CacheStores_Get_Delete [of "stStores s" x]
  by (cases "CacheStores_Add (stStores s) x"; cases "CacheStores_Delete (stStores s) x")
     (auto simp: Store_Add_def Store_Delete_def Store_Update_def Store_Get_def)

definition witness_ingress :: Ingress where
  "witness_ingress =
     \<lparr>ingName = ''web'', ingNamespace = ''default'', ingAnnotations = [], ingClassName = Some ''ngrok'',
      ingDefaultBackend = None,
      ingRules = [\<lparr>iruHost = ''a.example.com'', iruHTTP = Some [\<lparr>hipPath = ''/'', hipPathType = Some PathTypePrefix,
        hipBackend = \<lparr>ibService = Some \<lparr>isbName = ''web'', isbPort = \<lparr>sbpName = [], sbpNumber = 80\<rparr>\<rparr>,
          ibResource = None\<rparr>\<rparr>]\<rparr>]\<rparr>"

definition witness_class :: IngressClass where
  "witness_class = \<lparr>icName = ''ngrok'', icAnnotations = [], icController = defaultIngressControllerName\<rparr>"

definition witness_gateway_class :: GatewayClass where
  "witness_gateway_class = \<lparr>gcName = ''ngrok'', gcControllerName = ''ngrok.com/gateway-controller''\<rparr>"

definition witness_stores :: CacheStores where
  "witness_stores = NewCacheStores\<lparr>csIngressV1 := [(''default/web'', witness_ingress)],
     csIngressClassV1 := [(''ngrok'', witness_class)], csGatewayClass := [(''/ngrok'', witness_gateway_class)]\<rparr>"

definition witness_store :: Store where
  "witness_store = \<lparr>stStores = witness_stores, stControllerName = defaultIngressControllerName,
     stGatewayControllerName = ''ngrok.com/gateway-controller''\<rparr>"

lemma witness_reachable: "reachable_stores witness_stores"
proof -
  have "CacheStores_Add NewCacheStores (ObjIngress witness_ingress) =
      Inr (NewCacheStores\<lparr>csIngressV1 := [(''default/web'', witness_ingress)]\<rparr>)"
    by (simp add: NewCacheStores_def cache_add_def keyFunc_def witness_ingress_def)
  note s1 = reachable_stores.add [OF reachable_stores.start this]
  have "CacheStores_Add (NewCacheStores\<lparr>csIngressV1 := [(''default/web'', witness_ingress)]\<rparr>)
      (ObjIngressClass witness_class) =
      Inr (NewCacheStores\<lparr>csIngressV1 := [(''default/web'', witness_ingress)],
        csIngressClassV1 := [(''ngrok'', witness_class)]\<rparr>)"
    by (simp add: NewCacheStores_def cache_add_def clusterResourceKeyFunc_def witness_class_def)
  note s2 = reachable_stores.add [OF s1 this]
  have "CacheStores_Add (NewCacheStores\<lparr>csIngressV1 := [(''default/web'', witness_ingress)],
        csIngressClassV1 := [(''ngrok'', witness_class)]\<rparr>) (ObjGatewayClass witness_gateway_class) =
      Inr witness_stores"
    by (simp add: NewCacheStores_def witness_stores_def cache_add_def keyFunc_def witness_gateway_class_def)
  from reachable_stores.add [OF s2 this] show ?thesis .
qed

theorem store_change_then_get_witness:
  "\<exists>s'. Store_Add witness_store (ObjIngress witness_ingress) = Inr s' \<and>
     Store_Get s' (ObjIngress witness_ingress) = Inr (Some (ObjIngress witness_ingress))"
  using store_change_then_get [of witness_store "ObjIngress witness_ingress" "ObjIngress witness_ingress"]
  by (simp add: Store_Add_def same_place_def)

text \<open>The classes the operator serves, and the ingresses it serves, said without the code.\<close>

definition served_class :: "Store \<Rightarrow> IngressClass \<Rightarrow> bool" where
  "served_class s c \<longleftrightarrow>
     map_of (csIngressClassV1 (stStores s)) (icName c) = Some c \<and>
     (icController c = stControllerName s \<or>
      {icController c, stControllerName s} = {defaultIngressControllerName, legacyDefaultIngressControllerName})"

definition served_ingress :: "Store \<Rightarrow> Ingress \<Rightarrow> bool" where
  "served_ingress s ing \<longleftrightarrow>
     ingRules ing \<noteq> [] \<and> list_all (\<lambda>r. iruHost r \<noteq> [] \<and> iruHTTP r \<noteq> None) (ingRules ing) \<and>
     (\<exists>c. served_class s c \<and>
        (case ingClassName ing of Some cn \<Rightarrow> icName c = cn | None \<Rightarrow> is_default_class c))"

lemma set_genericListSorted [simp]: "set (genericListSorted n ns c) = set (cache_items c)"
  by (simp add: genericListSorted_def)

lemma set_ListNgrokIngressClassesV1:
  assumes "stores_ok (stStores s)"
  shows "c \<in> set (ListNgrokIngressClassesV1 s) \<longleftrightarrow> served_class s c"
proof -
  have "c \<in> set (ListIngressClassesV1 s) \<longleftrightarrow> map_of (csIngressClassV1 (stStores s)) (icName c) = Some c"
    using assms ingress_class_cache.items_iff [of "csIngressClassV1 (stStores s)" c]
    by (simp add: ListIngressClassesV1_def stores_ok_def clusterResourceKeyFunc_def)
  then show ?thesis
    by (auto simp: ListNgrokIngressClassesV1_def served_class_def accepted_controllers_def doubleton_eq_iff)
qed

lemma shouldHandleIngress_iff:
  assumes "stores_ok (stStores s)"
  shows "shouldHandleIngress s ing = (True, None) \<longleftrightarrow> served_ingress s ing"
proof -
  have valid: "shouldHandleIngressIsValid ing = (True, None) \<longleftrightarrow>
      ingRules ing \<noteq> [] \<and> list_all (\<lambda>r. iruHost r \<noteq> [] \<and> iruHTTP r \<noteq> None) (ingRules ing)"
    by (auto simp: shouldHandleIngressIsValid_def rule_errors_def list_all_iff Let_def)
  have invalid: "shouldHandleIngressIsValid ing = (False, Some e)" if
    "shouldHandleIngressIsValid ing = (ok, Some e)" for ok e
    using that by (auto simp: shouldHandleIngressIsValid_def Let_def split: if_splits)
  have none: "shouldHandleIngressIsValid ing = (True, None)" if "shouldHandleIngressIsValid ing = (ok, None)" for ok
    using that by (auto simp: shouldHandleIngressIsValid_def Let_def split: if_splits)
  have "shouldHandleIngressCheckClass s ing = (True, None) \<longleftrightarrow>
      (\<exists>c. served_class s c \<and> (case ingClassName ing of Some cn \<Rightarrow> icName c = cn | None \<Rightarrow> is_default_class c))"
    using set_ListNgrokIngressClassesV1 [OF assms]
    by (auto simp: shouldHandleIngressCheckClass_def Let_def list_ex_iff split: option.splits)
  then show ?thesis
    using valid invalid none
    by (auto simp: shouldHandleIngress_def served_ingress_def split: prod.splits option.splits)
qed

text \<open>
  \<^bold>\<open>C31\<close>. The ingresses handed to the translation are exactly the stored ones that are well formed
  (some rule, and a host and an HTTP section in each) and belong to the operator: their class, or
  a class marked as default when they name none, is stored and has the operator's controller name,
  where the two stock names stand for each other and a custom name for itself only. They come
  without duplicates.
\<close>

theorem ListNgrokIngressesV1_exact:
  assumes "reachable_stores (stStores s)"
  shows "(ing \<in> set (ListNgrokIngressesV1 s) \<longleftrightarrow>
      map_of (csIngressV1 (stStores s)) (ingress_key ing) = Some ing \<and> served_ingress s ing) \<and>
    distinct (ListNgrokIngressesV1 s)"
proof -
  note ok = reachable_stores_ok [OF assms]
  then have wf: "cache_wf ingress_key (csIngressV1 (stStores s))" by (simp add: stores_ok_def)
  have "(case shouldHandleIngress s ing of (ok, err) \<Rightarrow> ok \<and> err = None) \<longleftrightarrow> served_ingress s ing"
    using shouldHandleIngress_iff [OF ok, of ing] by (cases "shouldHandleIngress s ing") auto
  then have member: "ing \<in> set (ListNgrokIngressesV1 s) \<longleftrightarrow>
      map_of (csIngressV1 (stStores s)) (ingress_key ing) = Some ing \<and> served_ingress s ing"
    using ingress_cache.items_iff [OF wf, of ing]
    by (auto simp: ListNgrokIngressesV1_def listIngressesV1_def)
  have "distinct (listIngressesV1 s)"
    using ingress_cache.items_distinct [OF wf] mset_stable_sort
    by (metis (no_types, lifting) genericListSorted_def listIngressesV1_def mset_eq_imp_distinct_iff)
  then have "distinct (ListNgrokIngressesV1 s)" by (simp add: ListNgrokIngressesV1_def)
  with member show ?thesis by blast
qed

theorem ListNgrokIngressesV1_exact_witness:
  "witness_ingress \<in> set (ListNgrokIngressesV1 witness_store)"
proof -
  have r: "reachable_stores (stStores witness_store)"
    using witness_reachable by (simp add: witness_store_def)
  have "served_class witness_store witness_class"
    by (simp add: served_class_def witness_store_def witness_stores_def witness_class_def)
  then have "served_ingress witness_store witness_ingress"
    by (auto simp: served_ingress_def witness_ingress_def witness_class_def)
  then show ?thesis
    using ListNgrokIngressesV1_exact [OF r, of witness_ingress]
    by (simp add: witness_store_def witness_stores_def keyFunc_def witness_ingress_def)
qed

text \<open>
  The listing does not depend on the order in which Go ranges over the cache: sorting any
  permutation of the stored ingresses gives the same list, so translations are repeatable.
\<close>

theorem ingress_listing_deterministic:
  assumes "reachable_stores (stStores s)" "mset xs = mset (cache_items (csIngressV1 (stStores s)))"
  shows "stable_sort (\<lambda>x y. ingress_key x < ingress_key y) xs = listIngressesV1 s"
  unfolding listIngressesV1_def genericListSorted_def
  by (rule ingress_cache.sorted_listing_unique)
     (use assms reachable_stores_ok in \<open>simp_all add: stores_ok_def\<close>)

theorem ingress_listing_deterministic_witness:
  "stable_sort (\<lambda>x y. ingress_key x < ingress_key y) [witness_ingress] = listIngressesV1 witness_store"
  by (rule ingress_listing_deterministic)
     (use witness_reachable in \<open>simp_all add: witness_store_def witness_stores_def cache_items_def\<close>)

text \<open>
  \<open>GetGatewayClass\<close> never finds a class: the cache of GatewayClasses is keyed by
  \<open>namespace/name\<close> while the lookup uses the bare name, which holds no slash.
\<close>

theorem GetGatewayClass_never_found:
  assumes "reachable_stores (stStores s)" "CHR ''/'' \<notin> set name"
  shows "GetGatewayClass s name = Inl (NotFoundInStore name)"
proof -
  have wf: "cache_wf gateway_class_key (csGatewayClass (stStores s))"
    using reachable_stores_ok [OF assms(1)] by (simp add: stores_ok_def)
  have "map_of (csGatewayClass (stStores s)) name \<noteq> Some c" for c
    using gateway_class_cache.get_key [OF wf, of name c] assms(2) by (auto simp: keyFunc_def)
  then show ?thesis
    by (auto simp: GetGatewayClass_def genericGetByKey_def split: option.split)
qed

theorem GetGatewayClass_never_found_witness:
  "witness_gateway_class \<in> set (ListGatewayClasses witness_store) \<and>
   GetGatewayClass witness_store ''ngrok'' = Inl (NotFoundInStore ''ngrok'')"
proof
  show "witness_gateway_class \<in> set (ListGatewayClasses witness_store)"
    by (simp add: ListGatewayClasses_def witness_store_def witness_stores_def cache_items_def)
  show "GetGatewayClass witness_store ''ngrok'' = Inl (NotFoundInStore ''ngrok'')"
    by (rule GetGatewayClass_never_found) (use witness_reachable in \<open>simp_all add: witness_store_def\<close>)
qed

end
