(* ===== verification/Gateway_Filters.thy ===== *)
theory Gateway_Filters
  imports Resource_Store
begin

text \<open>
  \<^bold>\<open>pkg/managerdriver/translate_gatewayapi.go\<close>, the parts that look at one object at a time: the match
  criteria of an HTTPRoute rule and the translation of its filters into traffic policies.

  Maps inside an action's config (\<open>map[string]any\<close>) are JSON objects. \<open>EqualFold\<close> is equality of the
  lower-cased strings, which are ASCII.
\<close>

section \<open>Match criteria\<close>

definition EqualFold :: "string \<Rightarrow> string \<Rightarrow> bool" where
  "EqualFold s t \<longleftrightarrow> to_lower s = to_lower t"

text \<open>An unknown method leaves the zero value, the empty string.\<close>

definition known_methods :: "string list" where
  "known_methods = [''GET'', ''HEAD'', ''POST'', ''PUT'', ''DELETE'', ''CONNECT'', ''OPTIONS'', ''TRACE'', ''PATCH'']"

definition gatewayMethodToIR :: "string ptr \<Rightarrow> IRMethodMatch ptr" where
  "gatewayMethodToIR method =
     (case method of
        None \<Rightarrow> None
      | Some mth \<Rightarrow> Some (if mth \<in> set known_methods then mth else []))"

definition gateway_path :: "HTTPPathMatch ptr \<Rightarrow> string" where
  "gateway_path p =
     (case p of
        None \<Rightarrow> ''/''
      | Some pm \<Rightarrow> (case hpmValue pm of None \<Rightarrow> ''/'' | Some v \<Rightarrow> v))"

definition gateway_path_type :: "HTTPPathMatch ptr \<Rightarrow> IRPathMatchType" where
  "gateway_path_type p =
     (case p of
        None \<Rightarrow> IRPathType_Prefix
      | Some pm \<Rightarrow>
          (case hpmType pm of
             None \<Rightarrow> IRPathType_Prefix
           | Some t \<Rightarrow>
               if t = ''Exact'' then IRPathType_Exact
               else if t = ''RegularExpression'' then IRPathType_Regex
               else IRPathType_Prefix))"

definition value_type :: "string ptr \<Rightarrow> IRStringValueType" where
  "value_type t = (if t = Some ''RegularExpression'' then IRStringValueType_Regex else IRStringValueType_Exact)"

definition GatewayAPIHTTPMatchToIR :: "HTTPRouteMatch \<Rightarrow> IRHTTPMatch" where
  "GatewayAPIHTTPMatchToIR match =
     \<lparr>mPath = Some (gateway_path (hrmPath match)), mPathType = Some (gateway_path_type (hrmPath match)),
      mHeaders = map (\<lambda>h. \<lparr>hmName = hhmName h, hmValue = hhmValue h, hmValueType = value_type (hhmType h)\<rparr>)
        (hrmHeaders match),
      mQueryParams = map (\<lambda>q. \<lparr>qmName = hqmName q, qmValue = hqmValue q, qmValueType = value_type (hqmType q)\<rparr>)
        (hrmQueryParams match),
      mMethod = gatewayMethodToIR (hrmMethod match)\<rparr>"

section \<open>Header filters\<close>

datatype filter_error =
    NilFilterConfig string
  | NilPathReplacement string
  | EmptyRewrite
  | MirrorUnsupported
  | UnknownExtensionKind string
  | UnknownExtensionGroup string
  | ExtensionNotFound store_error
  | ExtensionPolicyError policy_error
  | ExtensionTCPRules
  | UnknownFilterType string

definition headers_to_remove :: "HTTPHeaderFilter \<Rightarrow> string list" where
  "headers_to_remove f = hhfRemove f @ map fst (hhfSet f)"

definition headers_to_add :: "HTTPHeaderFilter \<Rightarrow> (string \<times> string) list" where
  "headers_to_add f = fold (\<lambda>(k, v) hs. AList.update k v hs) (hhfAdd f @ hhfSet f) []"

definition header_rule :: "string \<Rightarrow> HTTPHeaderFilter \<Rightarrow> Rule" where
  "header_rule name f =
     \<lparr>rName = JStr name, rExpressions = [],
      rActions =
        [\<lparr>aType = ActionType_RemoveHeaders,
          aConfig = JObj [(''headers'', JArr (map JStr (headers_to_remove f)))]\<rparr>,
         \<lparr>aType = ActionType_AddHeaders,
          aConfig = JObj [(''headers'', JObj (map (\<lambda>(k, v). (k, JStr v)) (headers_to_add f)))]\<rparr>]\<rparr>"

definition gwapiRequestHeaderFilterToTrafficPolicy :: "HTTPRouteFilter \<Rightarrow> filter_error + TrafficPolicy" where
  "gwapiRequestHeaderFilterToTrafficPolicy f =
     (case hfRequestHeaderModifier f of
        None \<Rightarrow> Inl (NilFilterConfig ''RequestHeaderModifier'')
      | Some h \<Rightarrow>
          Inr (NewTrafficPolicy\<lparr>OnHTTPRequest := [header_rule ''GatewayAPI-Request-Header-Filter'' h]\<rparr>))"

definition gwapiResponseHeaderFilterToTrafficPolicy :: "HTTPRouteFilter \<Rightarrow> filter_error + TrafficPolicy" where
  "gwapiResponseHeaderFilterToTrafficPolicy f =
     (case hfResponseHeaderModifier f of
        None \<Rightarrow> Inl (NilFilterConfig ''ResponseHeaderModifier'')
      | Some h \<Rightarrow>
          Inr (NewTrafficPolicy\<lparr>OnHTTPResponse := [header_rule ''GatewayAPI-Response-Header-Filter'' h]\<rparr>))"

section \<open>Redirects and rewrites\<close>

abbreviation backslash :: char where
  "backslash \<equiv> CHR 0x5C"

definition escaped_prefix :: "IRHTTPMatch ptr \<Rightarrow> string" where
  "escaped_prefix matchCriteria =
     (case matchCriteria of
        None \<Rightarrow> []
      | Some mc \<Rightarrow>
          (case mPath mc of None \<Rightarrow> [] | Some p \<Rightarrow> replace_char (CHR ''/'') [backslash, CHR ''/''] p))"

definition from_pattern :: "string \<Rightarrow> string" where
  "from_pattern prefix =
     ''^(?P<scheme>[a-zA-Z][a-zA-Z0-9+'' @ [backslash] @ ''-.]*):'' @ [backslash] @ ''/'' @ [backslash] @
     ''/(?P<hostname>[^'' @ [backslash] @ ''/:]+)(?P<port>:'' @ [backslash] @ ''d+)?(?P<prefix>'' @ prefix @
     '')(?P<remaining>.*)$''"

text \<open>The prefix and the remaining path that a path modifier leaves.\<close>

definition modified_path :: "HTTPPathModifier ptr \<Rightarrow> filter_error + (string \<times> string)" where
  "modified_path pm =
     (case pm of
        None \<Rightarrow> Inr (''$4'', ''$5'')
      | Some pa \<Rightarrow>
          if pmType pa = ''ReplaceFullPath'' then
            (case pmReplaceFullPath pa of
               None \<Rightarrow> Inl (NilPathReplacement ''ReplaceFullPath'')
             | Some p \<Rightarrow> Inr ([], p))
          else if pmType pa = ''ReplacePrefixMatch'' then
            (case pmReplacePrefixMatch pa of
               None \<Rightarrow> Inl (NilPathReplacement ''ReplacePrefixMatch'')
             | Some p \<Rightarrow> Inr (p, ''$5''))
          else Inr (''$4'', ''$5''))"

definition redirect_port :: "HTTPRequestRedirectFilter \<Rightarrow> string" where
  "redirect_port redirect =
     (case rrPort redirect of
        None \<Rightarrow> ''$3''
      | Some portVal \<Rightarrow>
          let toPort = '':'' @ itoa portVal
          in case rrScheme redirect of
               None \<Rightarrow> toPort
             | Some scheme \<Rightarrow>
                 if scheme = [] then toPort
                 else if to_lower scheme = ''http'' then (if portVal = 80 then ''$3'' else toPort)
                 else if to_lower scheme = ''https'' then (if portVal \<noteq> 443 then ''$3'' else toPort)
                 else toPort)"

definition gwapiRedirectFilterToTrafficPolicy ::
  "HTTPRouteFilter \<Rightarrow> IRHTTPMatch ptr \<Rightarrow> filter_error + TrafficPolicy" where
  "gwapiRedirectFilterToTrafficPolicy f matchCriteria =
     (case hfRequestRedirect f of
        None \<Rightarrow> Inl (NilFilterConfig ''RequestRedirect'')
      | Some redirect \<Rightarrow>
          let toScheme = (case rrScheme redirect of None \<Rightarrow> ''$1://'' | Some s \<Rightarrow> s @ ''://'');
              toHostname = (case rrHostname redirect of None \<Rightarrow> ''$2'' | Some h \<Rightarrow> h);
              statusCode = (case rrStatusCode redirect of None \<Rightarrow> 302 | Some c \<Rightarrow> c)
          in case modified_path (rrPath redirect) of
               Inl e \<Rightarrow> Inl e
             | Inr (toPrefix, toRemainingPath) \<Rightarrow>
                 Inr (NewTrafficPolicy\<lparr>OnHTTPRequest :=
                   [\<lparr>rName = JStr ''GatewayAPI-Redirect-Filter'', rExpressions = [],
                     rActions = [\<lparr>aType = ''redirect'',
                       aConfig = JObj
                         [(''from'', JStr (from_pattern (escaped_prefix matchCriteria))),
                          (''to'', JStr (toScheme @ toHostname @ redirect_port redirect @ toPrefix @ toRemainingPath)),
                          (''status_code'', JNum statusCode)]\<rparr>]\<rparr>]\<rparr>))"

definition gwapiURLRewriteFilterToTrafficPolicy ::
  "HTTPRouteFilter \<Rightarrow> IRHTTPMatch ptr \<Rightarrow> filter_error + TrafficPolicy" where
  "gwapiURLRewriteFilterToTrafficPolicy f matchCriteria =
     (case hfURLRewrite f of
        None \<Rightarrow> Inl (NilFilterConfig ''URLRewrite'')
      | Some rewrite \<Rightarrow>
          if urwHostname rewrite = None \<and> urwPath rewrite = None then Inl EmptyRewrite
          else
            let toHostname = (case urwHostname rewrite of None \<Rightarrow> ''$2'' | Some h \<Rightarrow> h)
            in case modified_path (urwPath rewrite) of
                 Inl e \<Rightarrow> Inl e
               | Inr (toPrefix, toRemainingPath) \<Rightarrow>
                   Inr (NewTrafficPolicy\<lparr>OnHTTPRequest :=
                     [\<lparr>rName = JStr ''GatewayAPI-URL-Rewrite-Filter'', rExpressions = [],
                       rActions = [\<lparr>aType = ActionType_URLRewrite,
                         aConfig = JObj
                           [(''from'', JStr (from_pattern (escaped_prefix matchCriteria))),
                            (''to'', JStr (''$1://'' @ toHostname @ ''$3'' @ toPrefix @ toRemainingPath))]\<rparr>]\<rparr>]\<rparr>))"

section \<open>All filters\<close>

text \<open>\<open>json.Unmarshal\<close> of the policy of a referenced object: unlike the constructor, it ignores unknown keys.\<close>

fun unmarshal_policy :: "raw_json \<Rightarrow> policy_error + TrafficPolicy" where
  "unmarshal_policy RawEmpty = Inr NewTrafficPolicy"
| "unmarshal_policy (RawInvalid _) = Inl UnmarshalError"
| "unmarshal_policy (RawDoc j) = decode_policy j"

definition extension_policy :: "Store \<Rightarrow> string \<Rightarrow> LocalObjectReference \<Rightarrow> filter_error + TrafficPolicy" where
  "extension_policy store namespace ref =
     (if \<not> EqualFold (loKind ref) ''NgrokTrafficPolicy'' then Inl (UnknownExtensionKind (loKind ref))
      else if loGroup ref \<noteq> [] \<and> \<not> EqualFold (loGroup ref) ''ngrok.k8s.ngrok.com''
      then Inl (UnknownExtensionGroup (loGroup ref))
      else (case GetNgrokTrafficPolicyV1 store (loName ref) namespace of
          Inl e \<Rightarrow> Inl (ExtensionNotFound e)
        | Inr cfg \<Rightarrow>
            (case unmarshal_policy (ntpPolicy cfg) of
               Inl e \<Rightarrow> Inl (ExtensionPolicyError e)
             | Inr tp \<Rightarrow> if length (OnTCPConnect tp) \<noteq> 0 then Inl ExtensionTCPRules else Inr tp)))"

definition gatewayAPIFilterToTrafficPolicy ::
  "HTTPRouteFilter \<Rightarrow> string \<Rightarrow> Store \<Rightarrow> IRHTTPMatch ptr \<Rightarrow> filter_error + TrafficPolicy" where
  "gatewayAPIFilterToTrafficPolicy f namespace store matchCriteria =
     (if hfType f = ''RequestHeaderModifier'' then gwapiRequestHeaderFilterToTrafficPolicy f
      else if hfType f = ''ResponseHeaderModifier'' then gwapiResponseHeaderFilterToTrafficPolicy f
      else if hfType f = ''RequestRedirect'' then gwapiRedirectFilterToTrafficPolicy f matchCriteria
      else if hfType f = ''URLRewrite'' then gwapiURLRewriteFilterToTrafficPolicy f matchCriteria
      else if hfType f = ''RequestMirror'' then Inl MirrorUnsupported
      else if hfType f = ''ExtensionRef'' then
        (case hfExtensionRef f of
           None \<Rightarrow> Inl (NilFilterConfig ''ExtensionRef'')
         | Some ref \<Rightarrow> extension_policy store namespace ref)
      else Inl (UnknownFilterType (hfType f)))"

end
