(* ===== verification/Endpoint_Translator.thy ===== *)
theory Endpoint_Translator
  imports Endpoint_Naming
begin

text \<open>
  \<^bold>\<open>pkg/managerdriver/translator.go\<close>: from virtual hosts to CloudEndpoints and AgentEndpoints, with
  the endpoint types of \<^bold>\<open>api/ngrok/v1alpha1\<close>.

  State of the translation: the store \<open>ir_heap\<close> of the shared objects (the traffic policy of a
  virtual host is merged into in place), the cache of agent endpoints by service key and the map of
  cloud endpoints. A virtual host is identified by its position in the list, as the code identifies
  it by its pointer. The JSON that the code writes into an endpoint is kept as a document
  (\<open>policy_json\<close>); the marshalling of these documents cannot fail, so the branch for that error is
  not there. Log messages are left out.
\<close>

section \<open>Endpoint types\<close>

text \<open>
  Metadata in an endpoint's spec is JSON: a string (the legacy form, holding the text the user
  wrote), an object, or another JSON value. \<open>MetadataFromLegacyString\<close> writes the string form, nil
  for the empty text; \<open>MetadataAPIString\<close> is the text that the ngrok API receives.
\<close>

datatype crd_metadata =
    MdString raw_json
  | MdObject "(string \<times> json) list"
  | MdOther json

definition MetadataFromLegacyString :: "raw_json \<Rightarrow> crd_metadata ptr" where
  "MetadataFromLegacyString s = (if s = RawEmpty then None else Some (MdString s))"

definition MetadataFromMap :: "(string \<times> string) list \<Rightarrow> crd_metadata ptr" where
  "MetadataFromMap m =
     (if m = [] then None else Some (MdObject (sort_key fst (map (\<lambda>(k, v). (k, JStr v)) m))))"

definition allStringValues :: "(string \<times> json) list \<Rightarrow> bool" where
  "allStringValues m = list_all (\<lambda>(k, v). case v of JStr _ \<Rightarrow> True | _ \<Rightarrow> False) m"

fun MetadataAPIString :: "crd_metadata ptr \<Rightarrow> raw_json" where
  "MetadataAPIString None = RawEmpty"
| "MetadataAPIString (Some (MdOther JNull)) = RawEmpty"
| "MetadataAPIString (Some (MdString s)) = s"
| "MetadataAPIString (Some (MdObject kvs)) =
     (let mm = fold (\<lambda>(k, v) m. AList.update k v m) kvs []
      in if allStringValues mm then marshal_map mm else RawDoc (JObj kvs))"
| "MetadataAPIString (Some (MdOther j)) = RawDoc j"

record EndpointUpstream =
  euURL :: string
  euProtocol :: "string ptr"
  euProxyProtocolVersion :: "string ptr"

record TrafficPolicyCfg =
  tpcInline :: "json ptr"
  tpcReference :: "string ptr"

record EndpointMutualTLS =
  emClientCAsRef :: string
  emMode :: string

record EndpointTLSTermination =
  etServerCertificateRef :: string
  etMutualTLS :: "EndpointMutualTLS ptr"

record AgentEndpointSpec =
  aesURL :: string
  aesUpstream :: EndpointUpstream
  aesTrafficPolicy :: "TrafficPolicyCfg ptr"
  aesDescription :: string
  aesMetadata :: "crd_metadata ptr"
  aesBindings :: "string list"
  aesClientCertificateRefs :: "string list"
  aesTLSTermination :: "EndpointTLSTermination ptr"

record AgentEndpoint =
  aeName :: string
  aeNamespace :: string
  aeLabels :: "(string \<times> string) list"
  aeAnnotations :: "(string \<times> string) list"
  aeSpec :: AgentEndpointSpec

record CloudEndpointTrafficPolicyCfg =
  cpcInline :: "json ptr"
  cpcReference :: "string ptr"
  cpcPolicy :: "json ptr"

record CloudEndpointSpec =
  cesURL :: string
  cesTrafficPolicyName :: string
  cesPoolingEnabled :: "bool ptr"
  cesTrafficPolicy :: "CloudEndpointTrafficPolicyCfg ptr"
  cesDescription :: string
  cesMetadata :: "crd_metadata ptr"
  cesBindings :: "string list"

record CloudEndpoint =
  ceName :: string
  ceNamespace :: string
  ceLabels :: "(string \<times> string) list"
  ceAnnotations :: "(string \<times> string) list"
  ceSpec :: CloudEndpointSpec

text \<open>
  \<open>ToTrafficPolicyCfg\<close>: the deprecated \<open>policy\<close> field is read only when neither of the others is set.
\<close>

definition ToTrafficPolicyCfg :: "CloudEndpointTrafficPolicyCfg ptr \<Rightarrow> TrafficPolicyCfg ptr" where
  "ToTrafficPolicyCfg c =
     (case c of
        None \<Rightarrow> None
      | Some c \<Rightarrow>
          let inline = (if cpcInline c = None \<and> cpcReference c = None \<and> cpcPolicy c \<noteq> None
                        then cpcPolicy c else cpcInline c)
          in if inline = None \<and> cpcReference c = None then None
             else Some \<lparr>tpcInline = inline, tpcReference = cpcReference c\<rparr>)"

type_synonym agent_cache = "(IRServiceKey \<times> AgentEndpoint) list"

section \<open>Which virtual hosts collapse into an agent endpoint\<close>

definition vhost_keys :: "ir_heap \<Rightarrow> IRVirtualHost \<Rightarrow> IRServiceKey list" where
  "vhost_keys hp v = route_keys hp v @ default_keys hp v"

text \<open>The positions of the virtual hosts that route to a service.\<close>

definition virtualHostsForService :: "ir_heap \<Rightarrow> IRVirtualHost list \<Rightarrow> IRServiceKey \<Rightarrow> nat list" where
  "virtualHostsForService hp vs k = filter (\<lambda>i. k \<in> set (vhost_keys hp (vs ! i))) [0..<length vs]"

definition collapsableServices :: "ir_heap \<Rightarrow> IRVirtualHost list \<Rightarrow> IRServiceKey \<Rightarrow> bool" where
  "collapsableServices hp vs k =
     list_ex (\<lambda>i. length (virtualHostsForService hp vs k) = 1 \<and>
                  vhMappingStrategy (vs ! i) = IRMappingStrategy_EndpointsCollapsed)
       (virtualHostsForService hp vs k)"

text \<open>The loop over the routes overwrites the key at every collapsable service: the last one stays.\<close>

definition collapse_routes :: "ir_heap \<Rightarrow> (IRServiceKey \<Rightarrow> bool) \<Rightarrow> IRVirtualHost \<Rightarrow> IRVirtualHost" where
  "collapse_routes hp collapsable v =
     fold (\<lambda>k u. if collapsable k then u\<lparr>vhCollapseIntoServiceKey := Some k\<rparr> else u)
       (route_keys hp v) v"

text \<open>The loop over the virtual hosts; it ends when a default destination can be collapsed.\<close>

fun collapse_loop ::
  "ir_heap \<Rightarrow> (IRServiceKey \<Rightarrow> bool) \<Rightarrow> IRVirtualHost list \<Rightarrow> IRVirtualHost list" where
  "collapse_loop hp collapsable [] = []"
| "collapse_loop hp collapsable (v # vs) =
     (if vhMappingStrategy v \<noteq> IRMappingStrategy_EndpointsCollapsed
      then v # collapse_loop hp collapsable vs
      else if UniqueServiceCount hp v = 0 then v # collapse_loop hp collapsable vs
      else
        let v1 = collapse_routes hp collapsable v
        in case default_keys hp v of
             k # _ \<Rightarrow>
               if collapsable k then v1\<lparr>vhCollapseIntoServiceKey := Some k\<rparr> # vs
               else v1 # collapse_loop hp collapsable vs
           | [] \<Rightarrow> v1 # collapse_loop hp collapsable vs)"

definition validateMappingStrategies :: "ir_heap \<Rightarrow> IRVirtualHost list \<Rightarrow> IRVirtualHost list" where
  "validateMappingStrategies hp vs = collapse_loop hp (collapsableServices hp vs) vs"

section \<open>Rules\<close>

definition buildEndpointServiceRouteRule :: "string \<Rightarrow> string \<Rightarrow> Rule" where
  "buildEndpointServiceRouteRule name url =
     \<lparr>rName = JStr name, rExpressions = [],
      rActions = [\<lparr>aType = ActionType_ForwardInternal, aConfig = JObj [(''url'', JStr url)]\<rparr>]\<rparr>"

definition buildRouteLocallyVarRule :: "string \<Rightarrow> bool \<Rightarrow> Rule" where
  "buildRouteLocallyVarRule name value =
     \<lparr>rName = JStr name, rExpressions = [],
      rActions = [\<lparr>aType = ActionType_SetVars,
        aConfig = JObj [(''vars'', JArr [JObj [(''request_matched_local_svc'', JBool value)]])]\<rparr>]\<rparr>"

definition buildDefault404TPRule :: Rule where
  "buildDefault404TPRule =
     \<lparr>rName = JStr ''Fallback-404'', rExpressions = [],
      rActions = [\<lparr>aType = ActionType_CustomResponse,
        aConfig = JObj [(''status_code'', JNum 404),
          (''content'', JStr ''No route was found for this ngrok Endpoint''),
          (''headers'', JObj [(''content-type'', JStr ''text/plain'')])]\<rparr>]\<rparr>"

definition capture_rule :: Rule where
  "capture_rule =
     \<lparr>rName = JStr ''Capture-Original-Request-Data'', rExpressions = [],
      rActions = [\<lparr>aType = ActionType_SetVars,
        aConfig = JObj [(''vars'', JArr [
          JObj [(''original_path'', JStr ''${req.url.path}'')],
          JObj [(''original_headers'', JStr ''${req.headers.encodeJson()}'')],
          JObj [(''original_query_params'', JStr ''${req.url.query_params.encodeJson()}'')]])]\<rparr>]\<rparr>"

abbreviation not_matched_locally :: string where
  "not_matched_locally \<equiv> ''vars.request_matched_local_svc == false''"

definition is_http :: "IRProtocol \<Rightarrow> bool" where
  "is_http p \<longleftrightarrow> p = IRProtocol_HTTP \<or> p = IRProtocol_HTTPS"

definition is_tcp_or_tls :: "IRProtocol \<Rightarrow> bool" where
  "is_tcp_or_tls p \<longleftrightarrow> p = IRProtocol_TCP \<or> p = IRProtocol_TLS"

section \<open>Match expressions\<close>

definition quoted :: "string \<Rightarrow> string" where
  "quoted s = [CHR 0x27] @ s @ [CHR 0x27]"

definition path_expression :: "bool \<Rightarrow> IRPathMatchType \<Rightarrow> string \<Rightarrow> string" where
  "path_expression getRequestDataFromVar pathType path =
     (let subject = (if getRequestDataFromVar then ''vars.original_path'' else ''req.url.path'')
      in if pathType = IRPathType_Exact then subject @ '' == '' @ quoted path
         else subject @ ''.startsWith('' @ quoted path @ '')'')"

text \<open>The expression for a header or query parameter; a value type that is neither adds none.\<close>

definition value_expression :: "string \<Rightarrow> string \<Rightarrow> string \<Rightarrow> IRStringValueType \<Rightarrow> string list" where
  "value_expression subject name value valueType =
     (let found = subject @ ''.exists_one(x, x == '' @ quoted name @ '') && '' @
                  subject @ ''['' @ quoted name @ ''].join('' @ quoted '','' @ '')''
      in if valueType = IRStringValueType_Exact then [found @ '' == '' @ quoted value]
         else if valueType = IRStringValueType_Regex then [found @ ''.matches('' @ quoted value @ '')'']
         else [])"

definition headers_subject :: "bool \<Rightarrow> string" where
  "headers_subject getRequestDataFromVar =
     (if getRequestDataFromVar then ''vars.original_headers.decodeJson()'' else ''req.headers'')"

definition query_params_subject :: "bool \<Rightarrow> string" where
  "query_params_subject getRequestDataFromVar =
     (if getRequestDataFromVar then ''vars.original_query_params.decodeJson()''
      else ''req.url.query_params'')"

definition irMatchCriteriaToTPExpressions :: "IRHTTPMatch ptr \<Rightarrow> bool \<Rightarrow> string list" where
  "irMatchCriteriaToTPExpressions matchCriteria getRequestDataFromVar =
     (case matchCriteria of
        None \<Rightarrow> []
      | Some m \<Rightarrow>
          let e1 = (case mPath m of
                      None \<Rightarrow> []
                    | Some path \<Rightarrow>
                        let pathType = (case mPathType m of None \<Rightarrow> IRPathType_Prefix | Some t \<Rightarrow> t)
                        in appendStringUnique [] [path_expression getRequestDataFromVar pathType path]);
              e2 = fold (\<lambda>h es. appendStringUnique es
                     (value_expression (headers_subject getRequestDataFromVar)
                        (hmName h) (hmValue h) (hmValueType h))) (mHeaders m) e1;
              e3 = fold (\<lambda>q es. appendStringUnique es
                     (value_expression (query_params_subject getRequestDataFromVar)
                        (qmName q) (qmValue q) (qmValueType q))) (mQueryParams m) e2
          in case mMethod m of
               None \<Rightarrow> e3
             | Some method \<Rightarrow> appendStringUnique e3 [''req.method == '' @ quoted method])"

section \<open>Building endpoints\<close>

definition buildPublicURL :: "IRVirtualHost \<Rightarrow> scheme_error + string" where
  "buildPublicURL v =
     (case protocolStringToIRScheme (lProtocol (vhListener v)) of
        (_, Some e) \<Rightarrow> Inl e
      | (scheme, None) \<Rightarrow>
          let port = (case lProtocol (vhListener v) of
                        IRProtocol_HTTPS \<Rightarrow>
                          if lPort (vhListener v) \<noteq> 443 then Some (lPort (vhListener v)) else None
                      | IRProtocol_HTTP \<Rightarrow>
                          if lPort (vhListener v) \<noteq> 80 then Some (lPort (vhListener v)) else None
                      | IRProtocol_TCP \<Rightarrow> Some (lPort (vhListener v))
                      | IRProtocol_TLS \<Rightarrow> Some (lPort (vhListener v))
                      | IRProtocol_Other _ \<Rightarrow> None);
              url = scheme @ lHostname (vhListener v)
          in Inr (case port of None \<Rightarrow> url | Some p \<Rightarrow> url @ '':'' @ itoa p))"

definition cloud_endpoint_name :: "(string \<Rightarrow> string) \<Rightarrow> IRVirtualHost \<Rightarrow> string" where
  "cloud_endpoint_name sha v =
     sanitizeStringForK8sName sha
       ((case vhNamePrefix v of None \<Rightarrow> [] | Some p \<Rightarrow> p @ ''-'') @ lHostname (vhListener v))"

definition buildCloudEndpoint :: "(string \<Rightarrow> string) \<Rightarrow> IRVirtualHost \<Rightarrow> scheme_error + CloudEndpoint" where
  "buildCloudEndpoint sha v =
     (case buildPublicURL v of
        Inl e \<Rightarrow> Inl e
      | Inr publicURL \<Rightarrow>
          Inr \<lparr>ceName = cloud_endpoint_name sha v, ceNamespace = vhNamespace v,
               ceLabels = vhLabelsToAdd v, ceAnnotations = vhAnnotationsToAdd v,
               ceSpec = \<lparr>cesURL = publicURL, cesTrafficPolicyName = [],
                 cesPoolingEnabled = vhEndpointPoolingEnabled v, cesTrafficPolicy = None,
                 cesDescription = vhDescription v,
                 cesMetadata = MetadataFromLegacyString (vhMetadata v),
                 cesBindings = vhBindings v\<rparr>\<rparr>)"

definition collapses_into :: "IRVirtualHost \<Rightarrow> IRService \<Rightarrow> bool" where
  "collapses_into v s = (vhCollapseIntoServiceKey v = Some (Key s))"

definition buildAgentEndpoint ::
  "(string \<Rightarrow> string) \<Rightarrow> IRVirtualHost \<Rightarrow> IRService \<Rightarrow> string \<Rightarrow> raw_json \<Rightarrow> string \<Rightarrow>
   scheme_error + AgentEndpoint" where
  "buildAgentEndpoint sha v s clusterDomain metadata description =
     (case (if collapses_into v s then buildPublicURL v
            else buildInternalEndpointURL sha (lProtocol (vhListener v)) (sUID s) (sName s)
                   (sNamespace s) clusterDomain (sPort s) (sClientCertRefs s)) of
        Inl e \<Rightarrow> Inl e
      | Inr url \<Rightarrow>
          Inr \<lparr>aeName = internalAgentEndpointName sha (sUID s) (sName s) (sNamespace s) clusterDomain
                 (sPort s) (sClientCertRefs s),
               aeNamespace = sNamespace s, aeLabels = vhLabelsToAdd v,
               aeAnnotations = vhAnnotationsToAdd v,
               aeSpec = \<lparr>aesURL = url,
                 aesUpstream = \<lparr>euURL = agentEndpointUpstreamURL (sName s) (sNamespace s)
                   clusterDomain (sPort s) (sScheme s),
                   euProtocol = sProtocol s, euProxyProtocolVersion = None\<rparr>,
                 aesTrafficPolicy = None, aesDescription = description,
                 aesMetadata = MetadataFromLegacyString metadata,
                 aesBindings = (if collapses_into v s then vhBindings v else []),
                 aesClientCertificateRefs = map refName (sClientCertRefs s),
                 aesTLSTermination = None\<rparr>\<rparr>)"

text \<open>The lookup in the cache that both policy builders share: build and store when missing.\<close>

definition cached_agent_endpoint ::
  "(string \<Rightarrow> string) \<Rightarrow> string \<Rightarrow> IRVirtualHost \<Rightarrow> IRService \<Rightarrow> agent_cache \<Rightarrow>
   scheme_error + (AgentEndpoint \<times> agent_cache)" where
  "cached_agent_endpoint sha cd v s cache =
     (case map_of cache (Key s) of
        Some ae \<Rightarrow> Inr (ae, cache)
      | None \<Rightarrow>
          (case buildAgentEndpoint sha v s cd (vhMetadata v) (vhDescription v) of
             Inl e \<Rightarrow> Inl e
           | Inr ae \<Rightarrow> Inr (ae, AList.update (Key s) ae cache)))"

section \<open>The routing policy\<close>

definition actionModifiesRequest :: "Action \<Rightarrow> IRHTTPMatch ptr \<Rightarrow> bool" where
  "actionModifiesRequest action matchCriteria =
     (case matchCriteria of
        None \<Rightarrow> False
      | Some m \<Rightarrow>
          if aType action = ActionType_AddHeaders \<or> aType action = ActionType_RemoveHeaders
          then mHeaders m \<noteq> []
          else if aType action = ActionType_URLRewrite then mPath m \<noteq> None
          else False)"

definition policies_modify_request :: "TrafficPolicy list \<Rightarrow> IRHTTPMatch ptr \<Rightarrow> bool" where
  "policies_modify_request tps matchCriteria =
     list_ex (\<lambda>tp. list_ex (\<lambda>r. list_ex (\<lambda>a. actionModifiesRequest a matchCriteria) (rActions r))
       (OnHTTPRequest tp)) tps"

definition captureOriginalParams :: "IRRoute list \<Rightarrow> bool" where
  "captureOriginalParams routes =
     list_ex (\<lambda>r. policies_modify_request (rtTrafficPolicies r) (rtHTTPMatchCriteria r) \<or>
        list_ex (\<lambda>d. policies_modify_request (dTrafficPolicies d) (rtHTTPMatchCriteria r))
          (rtDestinations r)) routes"

definition add_expressions :: "string list \<Rightarrow> string ptr \<Rightarrow> Rule \<Rightarrow> Rule" where
  "add_expressions matchExpressions weighted r =
     (let r1 = r\<lparr>rExpressions := appendStringUnique (rExpressions r) matchExpressions\<rparr>
      in case weighted of
           None \<Rightarrow> r1
         | Some e \<Rightarrow> r1\<lparr>rExpressions := appendStringUnique (rExpressions r1) [e]\<rparr>)"

definition add_policy_rules ::
  "string list \<Rightarrow> string ptr \<Rightarrow> TrafficPolicy list \<Rightarrow> TrafficPolicy \<Rightarrow> TrafficPolicy" where
  "add_policy_rules matchExpressions weighted tps pol =
     fold (\<lambda>tp p.
       fold (\<lambda>r q. AddRuleOnHTTPResponse q (add_expressions matchExpressions weighted r))
         (OnHTTPResponse tp)
         (fold (\<lambda>r q. AddRuleOnHTTPRequest q (add_expressions matchExpressions weighted r))
           (OnHTTPRequest tp) p))
     tps pol"

definition weight_of :: "IRDestination \<Rightarrow> int" where
  "weight_of d = (case dWeight d of None \<Rightarrow> 1 | Some w \<Rightarrow> w)"

definition random_num_rule :: "string list \<Rightarrow> int \<Rightarrow> Rule" where
  "random_num_rule matchExpressions routeTotalWeight =
     \<lparr>rName = JStr ''Gen-Random-Number'', rExpressions = matchExpressions,
      rActions = [\<lparr>aType = ActionType_SetVars,
        aConfig = JObj [(''vars'', JArr [JObj [(''weighted_route_random_num'',
          JStr (''${rand.int(0,'' @ itoa (routeTotalWeight - 1) @ '')}''))]])]\<rparr>]\<rparr>"

text \<open>The test of the random number for a destination whose range starts at \<open>lower\<close>.\<close>

definition weighted_expression :: "int \<Rightarrow> int \<Rightarrow> string" where
  "weighted_expression lower weight =
     (if lower = 0 then ''int(vars.weighted_route_random_num) <= '' @ itoa (lower + weight - 1)
      else ''int(vars.weighted_route_random_num) >= '' @ itoa lower @
           '' && int(vars.weighted_route_random_num) <= '' @ itoa (lower + weight - 1))"

definition add_rule_for :: "IRVirtualHost \<Rightarrow> Rule \<Rightarrow> TrafficPolicy \<Rightarrow> TrafficPolicy" where
  "add_rule_for v r pol =
     (if is_http (lProtocol (vhListener v)) then AddRuleOnHTTPRequest pol r
      else if is_tcp_or_tls (lProtocol (vhListener v)) then AddRuleOnTCPConnect pol r
      else pol)"

text \<open>TCP and TLS endpoints need rules only when they balance between destinations.\<close>

definition balances :: "IRVirtualHost \<Rightarrow> bool" where
  "balances v = (case vhRoutes v of [r] \<Rightarrow> length (rtDestinations r) > 1 | _ \<Rightarrow> False)"

definition add_route_rule :: "IRVirtualHost \<Rightarrow> Rule \<Rightarrow> TrafficPolicy \<Rightarrow> TrafficPolicy" where
  "add_route_rule v r pol =
     (if is_http (lProtocol (vhListener v)) then AddRuleOnHTTPRequest pol r
      else if is_tcp_or_tls (lProtocol (vhListener v)) \<and> balances v then AddRuleOnTCPConnect pol r
      else pol)"

definition route_rule :: "IRVirtualHost \<Rightarrow> IRService \<Rightarrow> AgentEndpoint \<Rightarrow> Rule" where
  "route_rule v s ae =
     (if collapses_into v s then buildRouteLocallyVarRule ''Generated-Local-Service-Route'' True
      else buildEndpointServiceRouteRule ''Generated-Route'' (aesURL (aeSpec ae)))"

fun build_destinations ::
  "(string \<Rightarrow> string) \<Rightarrow> string \<Rightarrow> ir_heap \<Rightarrow> IRVirtualHost \<Rightarrow> string list \<Rightarrow> bool \<Rightarrow> int \<Rightarrow>
   IRDestination list \<Rightarrow> TrafficPolicy \<times> agent_cache \<Rightarrow> TrafficPolicy \<times> agent_cache" where
  "build_destinations sha cd hp v matchExpressions many lower [] st = st"
| "build_destinations sha cd hp v matchExpressions many lower (d # ds) (pol, cache) =
     (let weighted = (if many then Some (weighted_expression lower (weight_of d)) else None);
          lower' = (if many then lower + weight_of d else lower);
          pol1 = add_policy_rules matchExpressions weighted (dTrafficPolicies d) pol
      in case dUpstream d of
           None \<Rightarrow> build_destinations sha cd hp v matchExpressions many lower' ds (pol1, cache)
         | Some a \<Rightarrow>
             (case cached_agent_endpoint sha cd v (upstream_service hp a) cache of
                Inl _ \<Rightarrow> build_destinations sha cd hp v matchExpressions many lower' ds (pol1, cache)
              | Inr (ae, cache') \<Rightarrow>
                  let r = add_expressions matchExpressions weighted
                            (route_rule v (upstream_service hp a) ae)
                  in build_destinations sha cd hp v matchExpressions many lower' ds
                       (add_route_rule v r pol1, cache')))"

definition build_route ::
  "(string \<Rightarrow> string) \<Rightarrow> string \<Rightarrow> ir_heap \<Rightarrow> IRVirtualHost \<Rightarrow> bool \<Rightarrow> IRRoute \<Rightarrow>
   TrafficPolicy \<times> agent_cache \<Rightarrow> TrafficPolicy \<times> agent_cache" where
  "build_route sha cd hp v capture r st =
     (if rtDestinations r = [] \<and> rtTrafficPolicies r = [] then st
      else
        let e0 = irMatchCriteriaToTPExpressions (rtHTTPMatchCriteria r) capture;
            e = (if vhCollapseIntoServiceKey v \<noteq> None
                 then appendStringUnique e0 [not_matched_locally] else e0);
            pol1 = add_policy_rules e None (rtTrafficPolicies r) (fst st);
            many = (length (rtDestinations r) > 1);
            pol2 = (if many
                    then add_rule_for v (random_num_rule e (sum_list (map weight_of (rtDestinations r)))) pol1
                    else pol1)
        in build_destinations sha cd hp v e many 0 (rtDestinations r) (pol2, snd st))"

definition buildRoutingPolicy ::
  "(string \<Rightarrow> string) \<Rightarrow> string \<Rightarrow> ir_heap \<Rightarrow> IRVirtualHost \<Rightarrow> agent_cache \<Rightarrow>
   TrafficPolicy \<times> agent_cache" where
  "buildRoutingPolicy sha cd hp v cache =
     (let pol0 = NewTrafficPolicy;
          pol1 = (if vhCollapseIntoServiceKey v \<noteq> None
                  then add_route_rule v (buildRouteLocallyVarRule ''Initialize-Local-Service-Match'' False) pol0
                  else pol0);
          capture = captureOriginalParams (vhRoutes v);
          pol2 = (if capture then AddRuleOnHTTPRequest pol1 capture_rule else pol1)
      in fold (build_route sha cd hp v capture) (vhRoutes v) (pol2, cache))"

text \<open>
  The code appends an expression to copies of the default destination's rules and drops the copies:
  the rules are merged as they are.
\<close>

definition buildDefaultDestinationPolicy ::
  "(string \<Rightarrow> string) \<Rightarrow> string \<Rightarrow> ir_heap \<Rightarrow> IRVirtualHost \<Rightarrow> agent_cache \<Rightarrow>
   scheme_error + (TrafficPolicy \<times> agent_cache)" where
  "buildDefaultDestinationPolicy sha cd hp v cache =
     (case vhDefaultDestination v of
        None \<Rightarrow> Inr (NewTrafficPolicy, cache)
      | Some d \<Rightarrow>
          let pol = fold (\<lambda>tp p. Merge p (Some tp)) (dTrafficPolicies d) NewTrafficPolicy
          in case dUpstream d of
               None \<Rightarrow> Inr (pol, cache)
             | Some a \<Rightarrow>
                 (case cached_agent_endpoint sha cd v (upstream_service hp a) cache of
                    Inl e \<Rightarrow> Inl e
                  | Inr (ae, cache') \<Rightarrow>
                      let r0 = (if collapses_into v (upstream_service hp a)
                                then buildRouteLocallyVarRule ''Generated-Route-Default-Backend'' True
                                else buildEndpointServiceRouteRule ''Generated-Route-Default-Backend''
                                       (aesURL (aeSpec ae)));
                          r1 = (if vhCollapseIntoServiceKey v \<noteq> None
                                then r0\<lparr>rExpressions := appendStringUnique (rExpressions r0) [not_matched_locally]\<rparr>
                                else r0)
                      in Inr (AddRuleOnHTTPRequest pol r1, cache')))"

section \<open>From virtual hosts to endpoints\<close>

record translation_state =
  trHeap :: ir_heap
  trCache :: agent_cache
  trCloud :: "(NamespacedName \<times> CloudEndpoint) list"

definition tls_config :: "IRTLSTermination \<Rightarrow> (string \<times> json) list" where
  "tls_config cfg =
     (let c1 = (if tlsMutualTLSCertificateAuthorities cfg \<noteq> []
                then [(''mutual_tls_certificate_authorities'',
                       JArr (map JStr (tlsMutualTLSCertificateAuthorities cfg)))] else []);
          c2 = (case tlsServerCertificate cfg of
                  None \<Rightarrow> c1 | Some s \<Rightarrow> AList.update ''server_certificate'' (JStr s) c1);
          c3 = (case tlsServerPrivateKey cfg of
                  None \<Rightarrow> c2 | Some s \<Rightarrow> AList.update ''server_private_key'' (JStr s) c2)
      in fold (\<lambda>(k, v) m. AList.update k (JStr v) m) (tlsExtendedOptions cfg) c3)"

definition tls_rule :: "IRTLSTermination \<Rightarrow> Rule" where
  "tls_rule cfg =
     \<lparr>rName = JStr ''Gateway-TLS-Termination'', rExpressions = [],
      rActions = [\<lparr>aType = ActionType_TerminateTLS, aConfig = JObj (tls_config cfg)\<rparr>]\<rparr>"

text \<open>Reading and writing the virtual host's traffic policy through its pointer.\<close>

definition load_policy :: "ir_heap \<Rightarrow> IRVirtualHost \<Rightarrow> TrafficPolicy" where
  "load_policy hp v =
     (case vhTrafficPolicy v of None \<Rightarrow> NewTrafficPolicy | Some a \<Rightarrow> hpPolicies hp ! a)"

definition store_policy :: "ir_heap \<Rightarrow> IRVirtualHost \<Rightarrow> TrafficPolicy \<Rightarrow> ir_heap" where
  "store_policy hp v pol =
     (case vhTrafficPolicy v of
        None \<Rightarrow> hp
      | Some a \<Rightarrow> hp\<lparr>hpPolicies := (hpPolicies hp)[a := pol]\<rparr>)"

definition default404_for :: "IRVirtualHost \<Rightarrow> Rule" where
  "default404_for v =
     (if vhCollapseIntoServiceKey v \<noteq> None
      then buildDefault404TPRule\<lparr>rExpressions :=
             appendStringUnique (rExpressions buildDefault404TPRule) [not_matched_locally]\<rparr>
      else buildDefault404TPRule)"

definition with_tls :: "IRVirtualHost \<Rightarrow> TrafficPolicy \<Rightarrow> TrafficPolicy" where
  "with_tls v pol =
     (case vhTLSTermination v of
        None \<Rightarrow> pol
      | Some cfg \<Rightarrow> pol\<lparr>OnTCPConnect := [tls_rule cfg] @ OnTCPConnect pol\<rparr>)"

definition skipped :: "IRVirtualHost \<Rightarrow> bool" where
  "skipped v \<longleftrightarrow> vhTrafficPolicy v = None \<and> vhRoutes v = []"

text \<open>What is done with the finished policy: the collapsed agent endpoint gets it, or a new cloud endpoint.\<close>

definition publish ::
  "(string \<Rightarrow> string) \<Rightarrow> IRVirtualHost \<Rightarrow> TrafficPolicy \<Rightarrow> translation_state \<Rightarrow> translation_state" where
  "publish sha v pol st =
     (case vhCollapseIntoServiceKey v of
        Some k \<Rightarrow>
          if IsEmpty pol then st
          else (case map_of (trCache st) k of
                  None \<Rightarrow> st
                | Some ae \<Rightarrow>
                    st\<lparr>trCache := AList.update k
                        (ae\<lparr>aeSpec := (aeSpec ae)\<lparr>aesTrafficPolicy :=
                           Some \<lparr>tpcInline = Some (policy_json pol), tpcReference = None\<rparr>\<rparr>\<rparr>)
                        (trCache st)\<rparr>)
      | None \<Rightarrow>
          (case buildCloudEndpoint sha v of
             Inl _ \<Rightarrow> st
           | Inr ce \<Rightarrow>
               st\<lparr>trCloud := AList.update \<lparr>nnName = ceName ce, nnNamespace = ceNamespace ce\<rparr>
                    (ce\<lparr>ceSpec := (ceSpec ce)\<lparr>cesTrafficPolicy :=
                       Some \<lparr>cpcInline = Some (policy_json pol), cpcReference = None,
                             cpcPolicy = Some (policy_json pol)\<rparr>\<rparr>\<rparr>)
                    (trCloud st)\<rparr>))"

definition translate_vhost ::
  "(string \<Rightarrow> string) \<Rightarrow> string \<Rightarrow> IRVirtualHost \<Rightarrow> translation_state \<Rightarrow> translation_state" where
  "translate_vhost sha cd v st =
     (if skipped v then st
      else
        let pol1 = with_tls v (load_policy (trHeap st) v);
            (routing, cache1) = buildRoutingPolicy sha cd (trHeap st) v (trCache st);
            pol2 = Merge pol1 (Some routing);
            st1 = st\<lparr>trHeap := store_policy (trHeap st) v pol2, trCache := cache1\<rparr>
        in case buildDefaultDestinationPolicy sha cd (trHeap st) v cache1 of
             Inl _ \<Rightarrow> st1
           | Inr (defaultPolicy, cache2) \<Rightarrow>
               let pol3 = Merge pol2 (Some defaultPolicy);
                   pol4 = (if is_http (lProtocol (vhListener v))
                           then AddRuleOnHTTPRequest pol3 (default404_for v) else pol3)
               in publish sha v pol4
                    (st1\<lparr>trHeap := store_policy (trHeap st) v pol4, trCache := cache2\<rparr>))"

text \<open>
  \<open>order\<close> is the order in which Go ranges over the cache: the entries of the result are inserted in
  that order, the last one winning where two endpoints have the same name.
\<close>

definition IRToEndpoints ::
  "(string \<Rightarrow> string) \<Rightarrow> string \<Rightarrow> (agent_cache \<Rightarrow> agent_cache) \<Rightarrow> ir_heap \<Rightarrow> IRVirtualHost list \<Rightarrow>
   (NamespacedName \<times> CloudEndpoint) list \<times> (NamespacedName \<times> AgentEndpoint) list" where
  "IRToEndpoints sha cd order hp vs =
     (let st = fold (translate_vhost sha cd) (validateMappingStrategies hp vs)
                 \<lparr>trHeap = hp, trCache = [], trCloud = []\<rparr>
      in (trCloud st,
          fold (\<lambda>(_, ae) m. AList.update \<lparr>nnName = aeName ae, nnNamespace = aeNamespace ae\<rparr> ae m)
            (order (trCache st)) []))"

section \<open>The mapping strategy annotation\<close>

definition MappingStrategyAnnotationToIR ::
  "annotations \<Rightarrow> IRMappingStrategy \<times> annotation_error option" where
  "MappingStrategyAnnotationToIR a =
     (case GetStringAnnotation ''mapping-strategy'' a of
        Inl e \<Rightarrow>
          if IsMissingAnnotations e then (IRMappingStrategy_EndpointsDefault, None)
          else (IRMappingStrategy_EndpointsDefault, Some e)
      | Inr val \<Rightarrow>
          if val = ''endpoints'' \<or> val = ''endpoints-collapsed''
          then (IRMappingStrategy_EndpointsDefault, None)
          else if val = ''endpoints-verbose'' then (IRMappingStrategy_EndpointsVerbose, None)
          else (IRMappingStrategy_EndpointsDefault, Some (InvalidContent ''mapping-strategy'' val)))"

end
