(* ===== verification/Translation_Correctness.thy ===== *)
theory Translation_Correctness
  imports Endpoint_Translator
begin

text \<open>
  Correctness of \<^bold>\<open>pkg/managerdriver/translator.go\<close>: weighted destinations, collapsing, the rules of
  the generated policies and the endpoints that are produced.
\<close>

section \<open>Weighted destinations\<close>

text \<open>
  The generated tests of the random number are text in the traffic policy language. This is the
  part of that language they use: comparisons of the random number with a decimal constant, joined
  by the conjunction operator.
\<close>

definition random_num_var :: string where
  "random_num_var = ''int(vars.weighted_route_random_num)''"

definition decimal_value :: "string \<Rightarrow> int" where
  "decimal_value s =
     (case s of c # t \<Rightarrow> if c = CHR ''-'' then - int (dec_val t) else int (dec_val s) | [] \<Rightarrow> 0)"

definition comparison_holds :: "int \<Rightarrow> string \<Rightarrow> bool" where
  "comparison_holds r s =
     (let n = length random_num_var;
          operator = take 4 (drop n s);
          bound = decimal_value (drop 4 (drop n s))
      in take n s = random_num_var \<and>
         (if operator = '' <= '' then r \<le> bound
          else if operator = '' >= '' then bound \<le> r
          else False))"

function conjuncts :: "string \<Rightarrow> string list" where
  "conjuncts [] = [[]]"
| "conjuncts (c # s) =
     (if take 4 (c # s) = '' && '' then [] # conjuncts (drop 4 (c # s))
      else (case conjuncts s of [] \<Rightarrow> [[c]] | x # xs \<Rightarrow> (c # x) # xs))"
  by pat_completeness auto
termination by (relation "measure length") auto

definition weighted_holds :: "int \<Rightarrow> string \<Rightarrow> bool" where
  "weighted_holds r e = list_all (comparison_holds r) (conjuncts e)"

lemma decimal_value_itoa [simp]: "decimal_value (itoa i) = i"
proof (cases "i < 0")
  case True
  then show ?thesis by (simp add: decimal_value_def itoa_def)
next
  case False
  obtain c t where ct: "nat_dec (nat i) = c # t"
    by (cases "nat_dec (nat i)") auto
  moreover have "c \<noteq> CHR ''-''"
    using ct nat_dec_neq_minus by metis
  ultimately have "decimal_value (itoa i) = int (dec_val (nat_dec (nat i)))"
    using False by (simp add: decimal_value_def itoa_def)
  then show ?thesis using False by simp
qed

lemma comparison_holds_simps:
  "comparison_holds r (random_num_var @ '' <= '' @ itoa b) \<longleftrightarrow> r \<le> b"
  "comparison_holds r (random_num_var @ '' >= '' @ itoa b) \<longleftrightarrow> b \<le> r"
  by (simp_all add: comparison_holds_def)

lemma ampersand_free_conjunct:
  assumes "CHR ''&'' \<notin> set (c # s)"
  shows "take 4 (c # s @ '' && '' @ t) \<noteq> '' && ''"
  using assms by (cases s) auto

lemma conjuncts_single: "CHR ''&'' \<notin> set s \<Longrightarrow> conjuncts s = [s]"
proof (induction s)
  case (Cons c s)
  have "take 4 (c # s) \<noteq> '' && ''"
  proof
    assume "take 4 (c # s) = '' && ''"
    then have "CHR ''&'' \<in> set (take 4 (c # s))" by simp
    then show False using Cons.prems in_set_takeD by metis
  qed
  with Cons show ?case by simp
qed simp

lemma conjuncts_cons: "CHR ''&'' \<notin> set s \<Longrightarrow> conjuncts (s @ '' && '' @ t) = s # conjuncts t"
proof (induction s)
  case (Cons c s)
  then show ?case
    using ampersand_free_conjunct [OF Cons.prems, of t] by simp
qed simp

lemma no_ampersand:
  "CHR ''&'' \<notin> set (random_num_var @ '' <= '' @ itoa b)"
  "CHR ''&'' \<notin> set (random_num_var @ '' >= '' @ itoa b)"
proof -
  have "CHR ''&'' \<notin> set (itoa b)"
    using itoa_chars [of "CHR ''&''" b] by (auto simp: is_digit_def)
  then show "CHR ''&'' \<notin> set (random_num_var @ '' <= '' @ itoa b)"
    "CHR ''&'' \<notin> set (random_num_var @ '' >= '' @ itoa b)"
    by (simp_all add: random_num_var_def)
qed

lemma weighted_expression_parts:
  "weighted_expression lower w =
     (if lower = 0 then random_num_var @ '' <= '' @ itoa (lower + w - 1)
      else (random_num_var @ '' >= '' @ itoa lower) @ '' && '' @
           (random_num_var @ '' <= '' @ itoa (lower + w - 1)))"
  by (simp add: weighted_expression_def random_num_var_def)

lemma weighted_expression_holds:
  "weighted_holds r (weighted_expression lower w) \<longleftrightarrow>
     (lower = 0 \<or> lower \<le> r) \<and> r \<le> lower + w - 1"
proof -
  have upper: "conjuncts (random_num_var @ '' <= '' @ itoa b) = [random_num_var @ '' <= '' @ itoa b]" for b
    by (rule conjuncts_single [OF no_ampersand(1)])
  have both: "conjuncts ((random_num_var @ '' >= '' @ itoa a) @ '' && '' @ random_num_var @ '' <= '' @ itoa b) =
      [random_num_var @ '' >= '' @ itoa a, random_num_var @ '' <= '' @ itoa b]" for a b
    unfolding conjuncts_cons [OF no_ampersand(2)] upper ..
  show ?thesis
    unfolding weighted_expression_parts weighted_holds_def
    by (cases "lower = 0")
       (simp_all only: if_True if_False upper both list.pred_inject comparison_holds_simps simp_thms)
qed

text \<open>The range of the destination at a position starts where the weights before it end.\<close>

definition range_start :: "IRDestination list \<Rightarrow> nat \<Rightarrow> int" where
  "range_start ds i = sum_list (map weight_of (take i ds))"

definition destination_expression :: "int \<Rightarrow> IRDestination list \<Rightarrow> nat \<Rightarrow> string" where
  "destination_expression lower ds i =
     weighted_expression (lower + range_start ds i) (weight_of (ds ! i))"

definition total_weight :: "IRDestination list \<Rightarrow> int" where
  "total_weight ds = sum_list (map weight_of ds)"

lemma range_start_simps [simp]:
  "range_start ds 0 = 0"
  "range_start (d # ds) (Suc i) = weight_of d + range_start ds i"
  by (simp_all add: range_start_def)

lemma total_weight_simps [simp]:
  "total_weight [] = 0"
  "total_weight (d # ds) = weight_of d + total_weight ds"
  by (simp_all add: total_weight_def)

lemma range_start_nonneg: "list_all (\<lambda>d. 0 \<le> weight_of d) ds \<Longrightarrow> 0 \<le> range_start ds i"
proof (induction ds arbitrary: i)
  case (Cons d ds)
  then show ?case by (cases i) auto
qed (simp add: range_start_def)

lemma ranges_partition:
  assumes "list_all (\<lambda>d. 0 \<le> weight_of d) ds" "0 \<le> n" "n < total_weight ds"
  shows "\<exists>!i. i < length ds \<and> range_start ds i \<le> n \<and> n < range_start ds i + weight_of (ds ! i)"
  using assms
proof (induction ds arbitrary: n)
  case (Cons d ds)
  show ?case
  proof (cases "n < weight_of d")
    case True
    have "\<not> range_start (d # ds) (Suc j) \<le> n" for j
      using True range_start_nonneg [of ds j] Cons.prems by auto
    then have only: "i = 0" if "range_start (d # ds) i \<le> n" for i
      using that by (cases i) auto
    show ?thesis
      by (rule ex1I [of _ 0]) (use True Cons.prems only in auto)
  next
    case False
    then obtain i where i: "i < length ds" "range_start ds i \<le> n - weight_of d"
      "n - weight_of d < range_start ds i + weight_of (ds ! i)"
      and uniq: "\<And>j. j < length ds \<and> range_start ds j \<le> n - weight_of d \<and>
        n - weight_of d < range_start ds j + weight_of (ds ! j) \<Longrightarrow> j = i"
      using Cons.IH [of "n - weight_of d"] Cons.prems by auto
    have only: "j = Suc i" if "j < length (d # ds)" "range_start (d # ds) j \<le> n"
      "n < range_start (d # ds) j + weight_of ((d # ds) ! j)" for j
      using that False uniq by (cases j) auto
    show ?thesis
      by (rule ex1I [of _ "Suc i"]) (use i only in auto)
  qed
qed simp

lemma one_expression_holds:
  assumes "list_all (\<lambda>d. 0 \<le> weight_of d) ds" "0 \<le> n" "n < total_weight ds"
  shows "\<exists>!i. i < length ds \<and> weighted_holds n (destination_expression 0 ds i)"
proof -
  have "weighted_holds n (destination_expression 0 ds i) \<longleftrightarrow>
      range_start ds i \<le> n \<and> n < range_start ds i + weight_of (ds ! i)" for i
    using assms(2) by (auto simp: destination_expression_def weighted_expression_holds)
  then show ?thesis using ranges_partition [OF assms] by simp
qed

text \<open>What every operation of a route adds to a phase: rules at its end, all with the given test.\<close>

definition extends_with ::
  "(TrafficPolicy \<Rightarrow> Rule list) \<Rightarrow> TrafficPolicy \<Rightarrow> TrafficPolicy \<Rightarrow> (Rule \<Rightarrow> bool) \<Rightarrow> bool" where
  "extends_with phase p q P \<longleftrightarrow> (\<exists>rs. phase q = phase p @ rs \<and> list_all P rs)"

lemma extends_with_refl [simp]: "extends_with phase p p P"
  by (simp add: extends_with_def)

lemma extends_with_trans:
  "extends_with phase p q P \<Longrightarrow> extends_with phase q r P \<Longrightarrow> extends_with phase p r P"
  by (fastforce simp: extends_with_def)

lemma extends_with_mono:
  "extends_with phase p q P \<Longrightarrow> (\<And>r. P r \<Longrightarrow> Q r) \<Longrightarrow> extends_with phase p q Q"
  by (auto simp: extends_with_def list.pred_mono_strong)

lemma extends_with_fold:
  "(\<And>x p. x \<in> set xs \<Longrightarrow> extends_with phase p (f x p) P) \<Longrightarrow> extends_with phase p (fold f xs p) P"
proof (induction xs arbitrary: p)
  case (Cons x xs)
  have "extends_with phase p (f x p) P" "extends_with phase (f x p) (fold f xs (f x p)) P"
    using Cons by simp_all
  then show ?case by (simp add: extends_with_trans)
qed simp

definition phases :: "(TrafficPolicy \<Rightarrow> Rule list) list" where
  "phases = [OnHTTPRequest, OnHTTPResponse, OnTCPConnect]"

lemma extends_with_add:
  assumes "phase \<in> set phases" "P r"
  shows "extends_with phase p (AddRuleOnHTTPRequest p r) P"
    "extends_with phase p (AddRuleOnHTTPResponse p r) P"
    "extends_with phase p (AddRuleOnTCPConnect p r) P"
  using assms
  by (auto simp: phases_def extends_with_def AddRuleOnHTTPRequest_def AddRuleOnHTTPResponse_def
      AddRuleOnTCPConnect_def)

lemma extends_with_add_route_rule:
  "phase \<in> set phases \<Longrightarrow> P r \<Longrightarrow> extends_with phase p (add_route_rule v r p) P"
  by (simp add: add_route_rule_def extends_with_add)

lemma extends_with_add_policy_rules:
  assumes "phase \<in> set phases" "\<And>r. P (add_expressions e w r)"
  shows "extends_with phase p (add_policy_rules e w tps p) P"
  unfolding add_policy_rules_def
  by (intro extends_with_fold extends_with_trans [OF extends_with_fold extends_with_fold])
     (simp_all add: extends_with_add assms)

lemma add_expressions_weighted: "x \<in> set (rExpressions (add_expressions e (Some x) r))"
  by (simp add: add_expressions_def appendStringUnique_def Let_def)

text \<open>The part of a destination's work that concerns the policy.\<close>

lemma build_destinations_extends:
  assumes "phase \<in> set phases"
  shows "\<exists>rss. length rss = length ds \<and>
    phase (fst (build_destinations sha cd hp v e True lower ds st)) = phase (fst st) @ concat rss \<and>
    (\<forall>i<length ds. list_all (\<lambda>r. destination_expression lower ds i \<in> set (rExpressions r)) (rss ! i))"
proof (induction ds arbitrary: lower st)
  case (Cons d ds)
  obtain pol cache where st: "st = (pol, cache)" by fastforce
  let ?w = "weighted_expression lower (weight_of d)"
  let ?P = "\<lambda>r. ?w \<in> set (rExpressions r)"
  have pol1: "extends_with phase pol (add_policy_rules e (Some ?w) (dTrafficPolicies d) pol) ?P"
    by (intro extends_with_add_policy_rules assms add_expressions_weighted)
  have route: "extends_with phase q (add_route_rule v (add_expressions e (Some ?w) r) q) ?P" for q r
    by (intro extends_with_add_route_rule assms add_expressions_weighted)
  obtain pol' cache' where step:
    "build_destinations sha cd hp v e True lower (d # ds) st =
       build_destinations sha cd hp v e True (lower + weight_of d) ds (pol', cache')"
    and pol': "extends_with phase pol pol' ?P"
  proof (cases "dUpstream d")
    case None
    then show ?thesis using that [of _ cache] pol1 by (simp add: st Let_def)
  next
    case (Some a)
    show ?thesis
    proof (cases "cached_agent_endpoint sha cd v (upstream_service hp a) cache")
      case (Inl x)
      then show ?thesis using that [of _ cache] pol1 Some by (simp add: st Let_def)
    next
      case (Inr y)
      then show ?thesis
        using that [of _ "snd y"] extends_with_trans [OF pol1 route] Some
        by (cases y) (simp add: st Let_def)
    qed
  qed
  obtain rs where rs: "phase pol' = phase pol @ rs" "list_all ?P rs"
    using pol' by (auto simp: extends_with_def)
  obtain rss where rss: "length rss = length ds"
    "phase (fst (build_destinations sha cd hp v e True (lower + weight_of d) ds (pol', cache'))) =
       phase pol' @ concat rss"
    "\<forall>i<length ds. list_all (\<lambda>r. destination_expression (lower + weight_of d) ds i \<in> set (rExpressions r))
       (rss ! i)"
    using Cons.IH [of "lower + weight_of d" "(pol', cache')"] by auto
  have "destination_expression lower (d # ds) (Suc i) =
      destination_expression (lower + weight_of d) ds i" for i
    by (simp add: destination_expression_def algebra_simps)
  moreover have "destination_expression lower (d # ds) 0 = ?w"
    by (simp add: destination_expression_def)
  ultimately show ?case
    by (intro exI [of _ "rs # rss"]) (use step rs rss st in \<open>auto simp: less_Suc_eq_0_disj\<close>)
qed simp


lemma add_rule_for_http:
  "is_http (lProtocol (vhListener v)) \<Longrightarrow> OnHTTPRequest (add_rule_for v r p) = OnHTTPRequest p @ [r]"
  by (simp add: add_rule_for_def AddRuleOnHTTPRequest_def)



definition weighted_witness_route :: IRRoute where
  "weighted_witness_route =
     \<lparr>rtHTTPMatchCriteria = None, rtTrafficPolicies = [],
      rtDestinations = [\<lparr>dWeight = Some 3, dUpstream = None, dTrafficPolicies = []\<rparr>,
                        \<lparr>dWeight = None, dUpstream = None, dTrafficPolicies = []\<rparr>]\<rparr>"


section \<open>Collapsing\<close>

lemma collapse_routes_cases:
  "(\<nexists>k. k \<in> set (route_keys hp v) \<and> c k) \<and> collapse_routes hp c v = v \<or>
   (\<exists>k\<in>set (route_keys hp v). c k \<and> collapse_routes hp c v = v\<lparr>vhCollapseIntoServiceKey := Some k\<rparr>)"
proof -
  have "(\<nexists>k. k \<in> set ks \<and> c k) \<and> fold (\<lambda>k u. if c k then u\<lparr>vhCollapseIntoServiceKey := Some k\<rparr> else u) ks u = u \<or>
     (\<exists>k\<in>set ks. c k \<and> fold (\<lambda>k u. if c k then u\<lparr>vhCollapseIntoServiceKey := Some k\<rparr> else u) ks u =
        u\<lparr>vhCollapseIntoServiceKey := Some k\<rparr>)" for ks u
  proof (induction ks arbitrary: u)
    case (Cons k ks)
    show ?case
      using Cons.IH [of u] Cons.IH [of "u\<lparr>vhCollapseIntoServiceKey := Some k\<rparr>"] by (cases "c k") auto
  qed simp
  then show ?thesis by (simp add: collapse_routes_def)
qed

lemma default_key_cases: "default_keys hp v = [] \<or> (\<exists>k. default_keys hp v = [k])"
  by (auto simp: default_keys_def dest_keys_def split: option.splits)

definition collapsed_at :: "ir_heap \<Rightarrow> (IRServiceKey \<Rightarrow> bool) \<Rightarrow> IRVirtualHost \<Rightarrow> IRVirtualHost \<Rightarrow> bool" where
  "collapsed_at hp c v v' \<longleftrightarrow>
     (\<exists>k\<in>set (vhost_keys hp v). c k \<and> v' = v\<lparr>vhCollapseIntoServiceKey := Some k\<rparr> \<and>
        vhMappingStrategy v = IRMappingStrategy_EndpointsCollapsed)"

lemma collapse_loop_pointwise:
  "list_all2 (\<lambda>v v'. v' = v \<or> collapsed_at hp c v v') vs (collapse_loop hp c vs)"
proof (induction vs)
  case (Cons v vs)
  show ?case
  proof (cases "vhMappingStrategy v = IRMappingStrategy_EndpointsCollapsed \<and> UniqueServiceCount hp v \<noteq> 0")
    case True
    have same: "list_all2 (\<lambda>v v'. v' = v \<or> collapsed_at hp c v v') vs vs"
      by (simp add: list.rel_refl)
    have v1: "collapse_routes hp c v = v \<or> collapsed_at hp c v (collapse_routes hp c v)"
      using collapse_routes_cases [of hp v c] True by (auto simp: collapsed_at_def vhost_keys_def)
    have default: "collapsed_at hp c v ((collapse_routes hp c v)\<lparr>vhCollapseIntoServiceKey := Some k\<rparr>)"
      if "default_keys hp v = [k]" "c k" for k
      using collapse_routes_cases [of hp v c] that True
      by (auto simp: collapsed_at_def vhost_keys_def)
    show ?thesis
      using True Cons.IH same v1 default default_key_cases [of hp v] by (auto simp: Let_def)
  qed (use Cons.IH in auto)
qed simp

lemma collapse_loop_complete:
  assumes "\<And>v k. v \<in> set vs \<Longrightarrow> k \<in> set (default_keys hp v) \<Longrightarrow> \<not> c k"
    and "i < length vs" "vhMappingStrategy (vs ! i) = IRMappingStrategy_EndpointsCollapsed"
    and "k \<in> set (route_keys hp (vs ! i))" "c k"
  shows "vhCollapseIntoServiceKey (collapse_loop hp c vs ! i) \<noteq> None"
  using assms
proof (induction vs arbitrary: i)
  case (Cons v vs)
  have step: "\<exists>v'. collapse_loop hp c (v # vs) = v' # collapse_loop hp c vs \<and>
      (vhMappingStrategy v = IRMappingStrategy_EndpointsCollapsed \<and> UniqueServiceCount hp v \<noteq> 0 \<longrightarrow>
       v' = collapse_routes hp c v)"
    using Cons.prems(1) [of v] default_key_cases [of hp v] by (auto simp: Let_def)
  show ?case
  proof (cases i)
    case 0
    have "UniqueServiceCount hp v \<noteq> 0"
      using Cons.prems(4) 0 by (auto simp: UniqueServiceCount_def)
    then show ?thesis
      using 0 step Cons.prems collapse_routes_cases [of hp v c] by auto
  next
    case (Suc j)
    then have "vhCollapseIntoServiceKey (collapse_loop hp c vs ! j) \<noteq> None"
      using Cons.prems Cons.IH [of j] by auto
    then show ?thesis using step Suc by auto
  qed
qed simp

lemma collapsable_exclusive:
  assumes "collapsableServices hp vs k" "i < length vs" "k \<in> set (vhost_keys hp (vs ! i))"
    "j < length vs" "k \<in> set (vhost_keys hp (vs ! j))"
  shows "i = j"
proof -
  have "length (virtualHostsForService hp vs k) = 1"
    using assms(1) by (auto simp: collapsableServices_def list_ex_iff)
  then obtain n where "virtualHostsForService hp vs k = [n]"
    by (metis One_nat_def length_0_conv length_Suc_conv)
  moreover have "i \<in> set (virtualHostsForService hp vs k)" "j \<in> set (virtualHostsForService hp vs k)"
    using assms by (auto simp: virtualHostsForService_def)
  ultimately show ?thesis by simp
qed

lemma collapsableI:
  assumes "i < length vs" "k \<in> set (vhost_keys hp (vs ! i))"
    "vhMappingStrategy (vs ! i) = IRMappingStrategy_EndpointsCollapsed"
    "\<And>j. j < length vs \<Longrightarrow> k \<in> set (vhost_keys hp (vs ! j)) \<Longrightarrow> j = i"
  shows "collapsableServices hp vs k"
proof -
  have "n \<in> set (virtualHostsForService hp vs k) \<longleftrightarrow> n = i" for n
    using assms(1,2) assms(4) [of n] by (auto simp: virtualHostsForService_def)
  then have only: "set (virtualHostsForService hp vs k) = {i}" by blast
  have "distinct (virtualHostsForService hp vs k)"
    by (simp add: virtualHostsForService_def)
  then have "length (virtualHostsForService hp vs k) = 1"
    using distinct_card [of "virtualHostsForService hp vs k"] only by simp
  then show ?thesis
    using assms(3) only by (simp add: collapsableServices_def list_ex_iff)
qed

text \<open>
  \<^bold>\<open>C22\<close>. A virtual host is collapsed into a service's agent endpoint only if that is its mapping
  strategy, the service is one of its upstreams, and no other virtual host routes to the service
  (the endpoint becomes public, so another host's traffic must not need it). Nothing else about
  any virtual host changes.
\<close>

theorem collapse_only_exclusive_services:
  assumes "i < length vs" "vhCollapseIntoServiceKey (vs ! i) = None"
    "vhCollapseIntoServiceKey (validateMappingStrategies hp vs ! i) = Some k"
  shows "vhMappingStrategy (vs ! i) = IRMappingStrategy_EndpointsCollapsed \<and>
    k \<in> set (vhost_keys hp (vs ! i)) \<and>
    (\<forall>j<length vs. k \<in> set (vhost_keys hp (vs ! j)) \<longrightarrow> j = i) \<and>
    validateMappingStrategies hp vs ! i = (vs ! i)\<lparr>vhCollapseIntoServiceKey := Some k\<rparr>"
proof -
  let ?c = "collapsableServices hp vs"
  have "validateMappingStrategies hp vs ! i = vs ! i \<or>
      collapsed_at hp ?c (vs ! i) (validateMappingStrategies hp vs ! i)"
    using collapse_loop_pointwise [of hp ?c vs] assms(1)
    by (auto simp: validateMappingStrategies_def list_all2_conv_all_nth)
  with assms(2,3) have "collapsed_at hp ?c (vs ! i) (validateMappingStrategies hp vs ! i)" by auto
  then obtain k' where k': "k' \<in> set (vhost_keys hp (vs ! i))" "?c k'"
    "validateMappingStrategies hp vs ! i = (vs ! i)\<lparr>vhCollapseIntoServiceKey := Some k'\<rparr>"
    "vhMappingStrategy (vs ! i) = IRMappingStrategy_EndpointsCollapsed"
    by (auto simp: collapsed_at_def)
  moreover have "k' = k" using k'(3) assms(3) by simp
  moreover have "j = i" if "j < length vs" "k' \<in> set (vhost_keys hp (vs ! j))" for j
    by (rule collapsable_exclusive [OF k'(2) that assms(1) k'(1)])
  ultimately show ?thesis by blast
qed

text \<open>
  The converse, where no default destination can be collapsed: every virtual host with the
  collapsed strategy and a route to a service that no other virtual host uses is collapsed.
\<close>

theorem collapse_complete_without_default:
  assumes "list_all (\<lambda>v. list_all (\<lambda>k. \<not> collapsableServices hp vs k) (default_keys hp v)) vs"
    and "i < length vs" "vhMappingStrategy (vs ! i) = IRMappingStrategy_EndpointsCollapsed"
    and "k \<in> set (route_keys hp (vs ! i))"
    and "\<And>j. j < length vs \<Longrightarrow> k \<in> set (vhost_keys hp (vs ! j)) \<Longrightarrow> j = i"
  shows "\<exists>k'. vhCollapseIntoServiceKey (validateMappingStrategies hp vs ! i) = Some k'"
proof -
  have c: "collapsableServices hp vs k"
    by (rule collapsableI [OF assms(2) _ assms(3) assms(5)]) (use assms(4) in \<open>simp_all add: vhost_keys_def\<close>)
  have "vhCollapseIntoServiceKey (validateMappingStrategies hp vs ! i) \<noteq> None"
    unfolding validateMappingStrategies_def
    by (rule collapse_loop_complete [where c = "collapsableServices hp vs", OF _ assms(2-4) c]) (use assms(1) in \<open>auto simp: list_all_iff\<close>)
  then show ?thesis by simp
qed

text \<open>
  A virtual host whose default destination is collapsable ends the whole loop: the virtual
  hosts after it are left as they are, also those that could be collapsed.
\<close>

theorem collapse_stops_at_default:
  assumes "vhMappingStrategy v = IRMappingStrategy_EndpointsCollapsed"
    "k \<in> set (default_keys hp v)" "collapsableServices hp (v # vs) k"
  shows "validateMappingStrategies hp (v # vs) = v\<lparr>vhCollapseIntoServiceKey := Some k\<rparr> # vs"
proof -
  have k: "default_keys hp v = [k]" using assms(2) default_key_cases [of hp v] by auto
  then have "UniqueServiceCount hp v \<noteq> 0" by (auto simp: UniqueServiceCount_def)
  then show ?thesis
    using k assms collapse_routes_cases [of hp v "collapsableServices hp (v # vs)"]
    by (auto simp: validateMappingStrategies_def Let_def)
qed


text \<open>Two virtual hosts, one with a default destination and one with a route, to different services.\<close>

definition collapse_heap :: ir_heap where
  "collapse_heap =
     \<lparr>hpUpstreams = [\<lparr>uOwningResources = [], uService = witness_service\<rparr>,
        \<lparr>uOwningResources = [], uService = witness_service\<lparr>sUID := ''other''\<rparr>\<rparr>],
      hpPolicies = []\<rparr>"

definition collapse_default_vhost :: IRVirtualHost where
  "collapse_default_vhost =
     witness_vhost\<lparr>vhRoutes := [],
       vhDefaultDestination := Some \<lparr>dWeight = None, dUpstream = Some 0, dTrafficPolicies = []\<rparr>\<rparr>"

definition collapse_route_vhost :: IRVirtualHost where
  "collapse_route_vhost =
     witness_vhost\<lparr>vhRoutes := [\<lparr>rtHTTPMatchCriteria = None, rtTrafficPolicies = [],
       rtDestinations = [\<lparr>dWeight = None, dUpstream = Some 1, dTrafficPolicies = []\<rparr>]\<rparr>]\<rparr>"

abbreviation collapse_key :: "nat \<Rightarrow> IRServiceKey" where
  "collapse_key i \<equiv> Key (upstream_service collapse_heap i)"

lemma collapse_keys:
  "route_keys collapse_heap collapse_default_vhost = []"
  "default_keys collapse_heap collapse_default_vhost = [collapse_key 0]"
  "route_keys collapse_heap collapse_route_vhost = [collapse_key 1]"
  "default_keys collapse_heap collapse_route_vhost = []"
  "vhMappingStrategy collapse_default_vhost = IRMappingStrategy_EndpointsCollapsed"
  "vhMappingStrategy collapse_route_vhost = IRMappingStrategy_EndpointsCollapsed"
  "vhCollapseIntoServiceKey collapse_route_vhost = None"
  by (simp_all add: route_keys_def default_keys_def dest_keys_def collapse_default_vhost_def
      collapse_route_vhost_def witness_vhost_def)

lemma collapse_keys_distinct: "collapse_key 0 \<noteq> collapse_key 1"
  by (simp add: Key_def upstream_service_def collapse_heap_def witness_service_def)

lemma collapse_services:
  "collapsableServices collapse_heap [collapse_default_vhost, collapse_route_vhost] (collapse_key i)"
  if "i < 2"
  using that collapse_keys_distinct
  by (auto simp: collapsableServices_def virtualHostsForService_def vhost_keys_def collapse_keys less_2_cases_iff)


theorem collapse_only_exclusive_services_witness:
  "vhCollapseIntoServiceKey
     (validateMappingStrategies collapse_heap [collapse_route_vhost, collapse_default_vhost] ! 0) =
     Some (collapse_key 1) \<and>
   collapse_key 1 \<notin> set (vhost_keys collapse_heap collapse_default_vhost)"
proof -
  let ?vs = "[collapse_route_vhost, collapse_default_vhost]"
  have "collapsableServices collapse_heap ?vs (collapse_key 1)"
    using collapse_keys_distinct
    by (auto simp: collapsableServices_def virtualHostsForService_def vhost_keys_def collapse_keys)
  then have some: "vhCollapseIntoServiceKey (validateMappingStrategies collapse_heap ?vs ! 0) = Some (collapse_key 1)"
    by (simp add: validateMappingStrategies_def collapse_keys UniqueServiceCount_def collapse_routes_def
        Let_def)
  from collapse_only_exclusive_services [OF _ _ this]
  have "\<forall>j<2. collapse_key 1 \<in> set (vhost_keys collapse_heap (?vs ! j)) \<longrightarrow> j = 0"
    using collapse_keys by simp
  then show ?thesis using some by (auto dest: spec [of _ 1])
qed

theorem collapse_complete_without_default_witness:
  "\<exists>k. vhCollapseIntoServiceKey (validateMappingStrategies collapse_heap [collapse_route_vhost] ! 0) = Some k"
  by (rule collapse_complete_without_default [of collapse_heap "[collapse_route_vhost]" 0 "collapse_key 1"])
     (simp_all add: collapse_keys)

theorem collapse_stops_at_default_witness:
  "vhCollapseIntoServiceKey
     (validateMappingStrategies collapse_heap [collapse_default_vhost, collapse_route_vhost] ! 1) = None"
  using collapse_stops_at_default [OF _ _ collapse_services [of 0]] collapse_keys by simp


section \<open>Where the generated rules send traffic\<close>

definition known_protocol :: "IRVirtualHost \<Rightarrow> bool" where
  "known_protocol v \<longleftrightarrow> snd (protocolStringToIRScheme (lProtocol (vhListener v))) = None"

lemma buildPublicURL_error: "(\<exists>e. buildPublicURL v = Inl e) \<longleftrightarrow> \<not> known_protocol v"
  by (cases "lProtocol (vhListener v)") (simp_all add: buildPublicURL_def known_protocol_def Let_def)

lemma buildInternalEndpointURL_error:
  "(\<exists>e. buildInternalEndpointURL sha (lProtocol (vhListener v)) u n ns cd p refs = Inl e) \<longleftrightarrow>
     \<not> known_protocol v"
  by (cases "lProtocol (vhListener v)")
     (simp_all add: buildInternalEndpointURL_def known_protocol_def Let_def)

lemma buildAgentEndpoint_error:
  "(\<exists>e. buildAgentEndpoint sha v s cd md desc = Inl e) \<longleftrightarrow> \<not> known_protocol v"
  using buildPublicURL_error [of v]
    buildInternalEndpointURL_error [of sha v "sUID s" "sName s" "sNamespace s" cd "sPort s" "sClientCertRefs s"]
  by (auto simp: buildAgentEndpoint_def split: sum.splits if_splits)

lemma cached_agent_endpoint_ok:
  assumes "cached_agent_endpoint sha cd v s cache = Inr (ae, cache')"
  shows "map_of cache' (Key s) = Some ae" "map_of cache \<subseteq>\<^sub>m map_of cache'"
  using assms
  by (auto simp: cached_agent_endpoint_def map_le_def split: option.splits sum.splits)

lemma cached_agent_endpoint_error:
  "cached_agent_endpoint sha cd v s cache = Inl e \<Longrightarrow> \<not> known_protocol v"
  using buildAgentEndpoint_error [of sha v s cd "vhMetadata v" "vhDescription v"]
  by (auto simp: cached_agent_endpoint_def split: option.splits sum.splits)

text \<open>
  The three kinds of rules: setting variables, forwarding to the URL of a cached agent endpoint,
  and the user's own rules (only their expressions are extended).
\<close>

definition route_policies :: "IRVirtualHost \<Rightarrow> TrafficPolicy list" where
  "route_policies v =
     concat (map (\<lambda>r. rtTrafficPolicies r @ concat (map dTrafficPolicies (rtDestinations r))) (vhRoutes v))"

definition sets_variables :: "Rule \<Rightarrow> bool" where
  "sets_variables r = list_all (\<lambda>a. aType a = ActionType_SetVars) (rActions r)"

definition forwards_to :: "agent_cache \<Rightarrow> Rule \<Rightarrow> bool" where
  "forwards_to cache r \<longleftrightarrow>
     (\<exists>k ae. map_of cache k = Some ae \<and>
        rActions r = rActions (buildEndpointServiceRouteRule [] (aesURL (aeSpec ae))))"

definition user_rule :: "TrafficPolicy list \<Rightarrow> Rule \<Rightarrow> bool" where
  "user_rule tps r \<longleftrightarrow>
     (\<exists>tp\<in>set tps. \<exists>u\<in>set (OnHTTPRequest tp) \<union> set (OnHTTPResponse tp).
        rActions r = rActions u \<and> set (rExpressions u) \<subseteq> set (rExpressions r))"

definition expected_rule :: "TrafficPolicy list \<Rightarrow> agent_cache \<Rightarrow> Rule \<Rightarrow> bool" where
  "expected_rule tps cache r \<longleftrightarrow> sets_variables r \<or> forwards_to cache r \<or> user_rule tps r"

definition expected_policy :: "TrafficPolicy list \<Rightarrow> agent_cache \<Rightarrow> TrafficPolicy \<Rightarrow> bool" where
  "expected_policy tps cache pol \<longleftrightarrow>
     list_all (\<lambda>phase. list_all (expected_rule tps cache) (phase pol)) phases"

lemma expected_policy_cache_mono:
  "map_of c \<subseteq>\<^sub>m map_of c' \<Longrightarrow> expected_policy tps c pol \<Longrightarrow> expected_policy tps c' pol"
  by (auto simp: expected_policy_def expected_rule_def forwards_to_def list_all_iff map_le_def)
     (metis domI)+

lemma expected_policy_extends:
  assumes "expected_policy tps cache pol"
    "\<And>phase. phase \<in> set phases \<Longrightarrow> extends_with phase pol pol' (expected_rule tps cache)"
  shows "expected_policy tps cache pol'"
  unfolding expected_policy_def list_all_iff
proof (intro ballI)
  fix phase r assume "phase \<in> set phases" "r \<in> set (phase pol')"
  then show "expected_rule tps cache r"
    using assms by (fastforce simp: expected_policy_def extends_with_def list_all_iff)
qed

lemma rActions_add_expressions [simp]: "rActions (add_expressions e w r) = rActions r"
  by (simp add: add_expressions_def Let_def split: option.split)

lemma rExpressions_add_expressions: "set (rExpressions r) \<subseteq> set (rExpressions (add_expressions e w r))"
  by (auto simp: add_expressions_def appendStringUnique_def Let_def split: option.split)

lemma expected_add_policy_rules:
  assumes "expected_policy tps cache pol" "set tps' \<subseteq> set tps"
  shows "expected_policy tps cache (add_policy_rules e w tps' pol)"
proof (rule expected_policy_extends [OF assms(1)])
  fix phase assume phase: "phase \<in> set phases"
  have user: "expected_rule tps cache (add_expressions e w r)"
    if "tp \<in> set tps'" "r \<in> set (OnHTTPRequest tp) \<union> set (OnHTTPResponse tp)" for tp r
    using that assms(2) rExpressions_add_expressions [of r e w]
    unfolding expected_rule_def user_rule_def by auto
  show "extends_with phase pol (add_policy_rules e w tps' pol) (expected_rule tps cache)"
    unfolding add_policy_rules_def
    by (intro extends_with_fold extends_with_trans [OF extends_with_fold extends_with_fold])
       (auto intro!: extends_with_add phase user)
qed

lemma expected_add_rule:
  assumes "expected_policy tps cache pol" "expected_rule tps cache r"
  shows "expected_policy tps cache (add_route_rule v r pol)"
    "expected_policy tps cache (add_rule_for v r pol)"
    "expected_policy tps cache (AddRuleOnHTTPRequest pol r)"
  by (rule expected_policy_extends [OF assms(1)],
      simp add: add_route_rule_def add_rule_for_def extends_with_add assms(2))+

lemma expected_route_rule:
  "map_of cache (Key s) = Some ae \<Longrightarrow> expected_rule tps cache (add_expressions e w (route_rule v s ae))"
  by (auto simp: expected_rule_def route_rule_def sets_variables_def forwards_to_def
      buildRouteLocallyVarRule_def buildEndpointServiceRouteRule_def)

text \<open>What is kept along the destinations of a route and along the routes.\<close>

definition routing_inv ::
  "TrafficPolicy list \<Rightarrow> agent_cache \<Rightarrow> TrafficPolicy \<times> agent_cache \<Rightarrow> bool" where
  "routing_inv tps cache st \<longleftrightarrow> map_of cache \<subseteq>\<^sub>m map_of (snd st) \<and> expected_policy tps (snd st) (fst st)"

lemma destination_step_inv:
  assumes "routing_inv tps cache (pol, c)" "set (dTrafficPolicies d) \<subseteq> set tps"
  shows "\<exists>lower' st'. build_destinations sha cd hp v e many lower (d # ds) (pol, c) =
        build_destinations sha cd hp v e many lower' ds st' \<and>
      routing_inv tps cache st' \<and> map_of c \<subseteq>\<^sub>m map_of (snd st') \<and>
      (known_protocol v \<longrightarrow> set (dest_keys hp [d]) \<subseteq> dom (map_of (snd st')))"
proof -
  define w where "w = (if many then Some (weighted_expression lower (weight_of d)) else None)"
  define lower' where "lower' = (if many then lower + weight_of d else lower)"
  define pol1 where "pol1 = add_policy_rules e w (dTrafficPolicies d) pol"
  note folds = w_def [symmetric] lower'_def [symmetric] pol1_def [symmetric]
  have pol1: "routing_inv tps cache (pol1, c)"
    using assms by (simp add: routing_inv_def pol1_def expected_add_policy_rules)
  show ?thesis
  proof (cases "dUpstream d")
    case None
    then show ?thesis
      using pol1 by (intro exI [of _ lower'] exI [of _ "(pol1, c)"]) (simp add: folds dest_keys_def Let_def)
  next
    case (Some a)
    let ?s = "upstream_service hp a"
    show ?thesis
    proof (cases "cached_agent_endpoint sha cd v ?s c")
      case (Inl x)
      then show ?thesis
        using pol1 Some cached_agent_endpoint_error [OF Inl]
        by (intro exI [of _ lower'] exI [of _ "(pol1, c)"]) (simp add: folds Let_def)
    next
      case (Inr y)
      obtain ae c' where y: "y = (ae, c')" by fastforce
      note ok = cached_agent_endpoint_ok [OF Inr [unfolded y]]
      let ?st' = "(add_route_rule v (add_expressions e w (route_rule v ?s ae)) pol1, c')"
      have "expected_policy tps c' pol1"
        using pol1 ok(2) expected_policy_cache_mono by (auto simp: routing_inv_def)
      then have "routing_inv tps cache ?st'"
        using pol1 ok map_le_trans by (auto simp: routing_inv_def intro!: expected_add_rule expected_route_rule)
      then show ?thesis
        using Some Inr y ok
        by (intro exI [of _ lower'] exI [of _ ?st']) (auto simp: folds Let_def dest_keys_def)
    qed
  qed
qed

lemma build_destinations_inv:
  assumes "routing_inv tps cache st" "\<And>d. d \<in> set ds \<Longrightarrow> set (dTrafficPolicies d) \<subseteq> set tps"
  shows "routing_inv tps cache (build_destinations sha cd hp v e many lower ds st) \<and>
    map_of (snd st) \<subseteq>\<^sub>m map_of (snd (build_destinations sha cd hp v e many lower ds st)) \<and>
    (known_protocol v \<longrightarrow> set (dest_keys hp ds) \<subseteq>
       dom (map_of (snd (build_destinations sha cd hp v e many lower ds st))))"
  using assms
proof (induction ds arbitrary: lower st)
  case Nil
  then show ?case by (simp add: dest_keys_def)
next
  case (Cons d ds)
  obtain pol c where st: "st = (pol, c)" by fastforce
  obtain lower' st' where st': "build_destinations sha cd hp v e many lower (d # ds) st =
        build_destinations sha cd hp v e many lower' ds st'"
    "routing_inv tps cache st'" "map_of c \<subseteq>\<^sub>m map_of (snd st')"
    "known_protocol v \<longrightarrow> set (dest_keys hp [d]) \<subseteq> dom (map_of (snd st'))"
    using destination_step_inv [of tps cache pol c d sha cd hp v e many lower ds] Cons.prems st by auto
  let ?r = "build_destinations sha cd hp v e many lower' ds st'"
  have ih: "routing_inv tps cache ?r" "map_of (snd st') \<subseteq>\<^sub>m map_of (snd ?r)"
    "known_protocol v \<longrightarrow> set (dest_keys hp ds) \<subseteq> dom (map_of (snd ?r))"
    using Cons.IH [OF st'(2), of lower'] Cons.prems(2) by auto
  have keys: "set (dest_keys hp (d # ds)) = set (dest_keys hp [d]) \<union> set (dest_keys hp ds)"
    by (simp add: dest_keys_def)
  have "known_protocol v \<longrightarrow> set (dest_keys hp [d]) \<subseteq> dom (map_of (snd ?r))"
    using st'(4) map_le_implies_dom_le [OF ih(2)] by blast
  then show ?case
    unfolding st'(1) keys unfolding st snd_conv using ih map_le_trans [OF st'(3) ih(2)] by blast
qed

definition route_within :: "TrafficPolicy list \<Rightarrow> IRRoute \<Rightarrow> bool" where
  "route_within tps r \<longleftrightarrow>
     set (rtTrafficPolicies r @ concat (map dTrafficPolicies (rtDestinations r))) \<subseteq> set tps"

lemma build_route_inv:
  assumes "routing_inv tps cache st" "route_within tps r"
  shows "routing_inv tps cache (build_route sha cd hp v capture r st) \<and>
    map_of (snd st) \<subseteq>\<^sub>m map_of (snd (build_route sha cd hp v capture r st)) \<and>
    (known_protocol v \<longrightarrow> set (dest_keys hp (rtDestinations r)) \<subseteq>
       dom (map_of (snd (build_route sha cd hp v capture r st))))"
proof (cases "rtDestinations r = [] \<and> rtTrafficPolicies r = []")
  case True
  then show ?thesis using assms(1) by (simp add: build_route_def dest_keys_def)
next
  case False
  have random: "expected_rule tps c (random_num_rule e n)" for c e n
    by (simp add: expected_rule_def sets_variables_def random_num_rule_def)
  obtain e many pol where route: "build_route sha cd hp v capture r st =
      build_destinations sha cd hp v e many 0 (rtDestinations r) (pol, snd st)"
    and pol: "expected_policy tps (snd st) pol"
    using False assms
    by (auto simp: build_route_def Let_def routing_inv_def route_within_def expected_add_policy_rules expected_add_rule random)
  then have "routing_inv tps cache (pol, snd st)"
    using assms(1) by (simp add: routing_inv_def)
  moreover have "set (dTrafficPolicies d) \<subseteq> set tps" if "d \<in> set (rtDestinations r)" for d
    using assms(2) that by (auto simp: route_within_def)
  ultimately show ?thesis
    using build_destinations_inv [of tps cache "(pol, snd st)" "rtDestinations r" sha cd hp v e many 0] route
    by simp
qed

lemma build_routes_inv:
  assumes "routing_inv tps cache st" "list_all (route_within tps) rs"
  shows "routing_inv tps cache (fold (build_route sha cd hp v capture) rs st) \<and>
    map_of (snd st) \<subseteq>\<^sub>m map_of (snd (fold (build_route sha cd hp v capture) rs st)) \<and>
    (known_protocol v \<longrightarrow> (\<forall>r\<in>set rs. set (dest_keys hp (rtDestinations r)) \<subseteq>
       dom (map_of (snd (fold (build_route sha cd hp v capture) rs st)))))"
  using assms
proof (induction rs arbitrary: st)
  case (Cons r rs)
  let ?s = "build_route sha cd hp v capture r st"
  let ?t = "fold (build_route sha cd hp v capture) rs ?s"
  have step: "routing_inv tps cache ?s" "map_of (snd st) \<subseteq>\<^sub>m map_of (snd ?s)"
    "known_protocol v \<longrightarrow> set (dest_keys hp (rtDestinations r)) \<subseteq> dom (map_of (snd ?s))"
    using build_route_inv [OF Cons.prems(1), of r sha cd hp v capture] Cons.prems(2)
    by simp_all
  have ih: "routing_inv tps cache ?t" "map_of (snd ?s) \<subseteq>\<^sub>m map_of (snd ?t)"
    "known_protocol v \<longrightarrow> (\<forall>r\<in>set rs. set (dest_keys hp (rtDestinations r)) \<subseteq> dom (map_of (snd ?t)))"
    using Cons.IH [OF step(1)] Cons.prems(2) by simp_all
  have "known_protocol v \<longrightarrow> set (dest_keys hp (rtDestinations r)) \<subseteq> dom (map_of (snd ?t))"
    using step(3) map_le_implies_dom_le [OF ih(2)] by blast
  then show ?case
    using ih map_le_trans [OF step(2) ih(2)] by simp
qed simp

lemma buildRoutingPolicy_inv:
  assumes "buildRoutingPolicy sha cd hp v cache = (pol, cache')"
  shows "expected_policy (route_policies v) cache' pol \<and> map_of cache \<subseteq>\<^sub>m map_of cache' \<and>
    (known_protocol v \<longrightarrow> set (route_keys hp v) \<subseteq> dom (map_of cache'))"
proof -
  have new: "expected_policy tps cache NewTrafficPolicy" for tps
    by (simp add: expected_policy_def phases_def NewTrafficPolicy_def)
  have local: "expected_rule tps cache (buildRouteLocallyVarRule n b)" "expected_rule tps cache capture_rule"
    for tps n b
    by (simp_all add: expected_rule_def sets_variables_def buildRouteLocallyVarRule_def capture_rule_def)
  define pol1 where "pol1 = (if vhCollapseIntoServiceKey v \<noteq> None
    then add_route_rule v (buildRouteLocallyVarRule ''Initialize-Local-Service-Match'' False) NewTrafficPolicy
    else NewTrafficPolicy)"
  define capture where "capture = captureOriginalParams (vhRoutes v)"
  define pol0 where "pol0 = (if capture then AddRuleOnHTTPRequest pol1 capture_rule else pol1)"
  have run: "(pol, cache') = fold (build_route sha cd hp v capture) (vhRoutes v) (pol0, cache)"
    using assms [symmetric] unfolding buildRoutingPolicy_def Let_def capture_def pol0_def pol1_def .
  have pol0: "expected_policy (route_policies v) cache pol0"
    by (simp add: pol0_def pol1_def new local expected_add_rule)
  have "routing_inv (route_policies v) cache (pol0, cache)"
    using pol0 by (simp add: routing_inv_def)
  moreover have "list_all (route_within (route_policies v)) (vhRoutes v)"
    by (auto simp: route_within_def route_policies_def list_all_iff)
  ultimately show ?thesis
    using build_routes_inv [of "route_policies v" cache "(pol0, cache)" "vhRoutes v" sha cd hp v capture]
    unfolding run [symmetric] by (auto simp: routing_inv_def route_keys_def)
qed


lemma routing_policy_kept:
  "buildRoutingPolicy sha cd hp v cache = (pol, cache') \<Longrightarrow> map_of cache \<subseteq>\<^sub>m map_of cache'"
  using buildRoutingPolicy_inv by blast

text \<open>
  \<^bold>\<open>C20\<close>. Nothing dangles in a generated routing policy. Every rule of every phase either only sets
  variables, or forwards to the URL of an agent endpoint that the cache holds, or is one of the
  user's rules with the same actions and at least its own conditions. Endpoints already in the
  cache stay as they are, and for a known protocol every upstream service of the routes has its
  agent endpoint afterwards.
\<close>

theorem routing_policy_has_no_dangling_target:
  assumes "buildRoutingPolicy sha cd hp v cache = (pol, cache')"
  shows "expected_policy (route_policies v) cache' pol \<and> map_of cache \<subseteq>\<^sub>m map_of cache' \<and>
    (known_protocol v \<longrightarrow> set (route_keys hp v) \<subseteq> dom (map_of cache'))"
  by (rule buildRoutingPolicy_inv [OF assms])

theorem routing_policy_has_no_dangling_target_witness:
  "\<exists>pol cache. buildRoutingPolicy witness_digest [] collapse_heap collapse_route_vhost [] = (pol, cache) \<and>
     expected_policy [] cache pol \<and> {collapse_key 1} \<subseteq> dom (map_of cache)"
proof -
  obtain pol cache where run:
    "buildRoutingPolicy witness_digest [] collapse_heap collapse_route_vhost [] = (pol, cache)"
    by fastforce
  have "known_protocol collapse_route_vhost" "route_policies collapse_route_vhost = []"
    by (simp_all add: known_protocol_def route_policies_def collapse_route_vhost_def witness_vhost_def)
  with routing_policy_has_no_dangling_target [OF run] run collapse_keys(3) show ?thesis by auto
qed

section \<open>The endpoints\<close>

text \<open>The cache only grows, and only the policy of a cached endpoint is ever written.\<close>

definition endpoint_kept :: "agent_cache \<Rightarrow> agent_cache \<Rightarrow> bool" where
  "endpoint_kept c c' \<longleftrightarrow>
     (\<forall>k ae. map_of c k = Some ae \<longrightarrow>
        (\<exists>tp. map_of c' k = Some (ae\<lparr>aeSpec := (aeSpec ae)\<lparr>aesTrafficPolicy := tp\<rparr>\<rparr>)))"

lemma endpoint_kept_le: "map_of c \<subseteq>\<^sub>m map_of c' \<Longrightarrow> endpoint_kept c c'"
  unfolding endpoint_kept_def map_le_def
proof (intro allI impI)
  fix k ae assume le: "\<forall>a\<in>dom (map_of c). map_of c a = map_of c' a" and k: "map_of c k = Some ae"
  have "ae\<lparr>aeSpec := (aeSpec ae)\<lparr>aesTrafficPolicy := aesTrafficPolicy (aeSpec ae)\<rparr>\<rparr> = ae" by simp
  then show "\<exists>tp. map_of c' k = Some (ae\<lparr>aeSpec := (aeSpec ae)\<lparr>aesTrafficPolicy := tp\<rparr>\<rparr>)"
    using le k domI [of "map_of c" k ae] by metis
qed

lemma endpoint_kept_trans: "endpoint_kept a b \<Longrightarrow> endpoint_kept b c \<Longrightarrow> endpoint_kept a c"
  by (fastforce simp: endpoint_kept_def)

lemma endpoint_kept_publish: "endpoint_kept (trCache st) (trCache (publish sha v pol st))"
proof (cases "vhCollapseIntoServiceKey v")
  case None
  then show ?thesis
    by (simp add: publish_def endpoint_kept_le split: sum.split)
next
  case (Some k)
  have refl: "endpoint_kept (trCache st) (trCache st)" by (rule endpoint_kept_le) simp
  have upd: "endpoint_kept (trCache st)
      (AList.update k (ae\<lparr>aeSpec := (aeSpec ae)\<lparr>aesTrafficPolicy := tp\<rparr>\<rparr>) (trCache st))"
    if "map_of (trCache st) k = Some ae" for ae tp
    using that refl by (auto simp: endpoint_kept_def)
  show ?thesis
    using Some refl upd by (simp add: publish_def split: option.split)
qed

lemma buildDefaultDestinationPolicy_le:
  "buildDefaultDestinationPolicy sha cd hp v cache = Inr (pol, cache') \<Longrightarrow> map_of cache \<subseteq>\<^sub>m map_of cache'"
  using cached_agent_endpoint_ok(2)
  by (fastforce simp: buildDefaultDestinationPolicy_def Let_def split: option.splits sum.splits prod.splits)

lemma buildDefaultDestinationPolicy_total:
  "known_protocol v \<Longrightarrow> \<exists>pol cache'. buildDefaultDestinationPolicy sha cd hp v cache = Inr (pol, cache')"
  using cached_agent_endpoint_error
  by (fastforce simp: buildDefaultDestinationPolicy_def Let_def split: option.splits sum.splits)

text \<open>One virtual host: skipped, ended by an error, or published with its finished policy.\<close>

definition finished_policy :: "IRVirtualHost \<Rightarrow> TrafficPolicy \<Rightarrow> TrafficPolicy" where
  "finished_policy v pol =
     (if is_http (lProtocol (vhListener v)) then AddRuleOnHTTPRequest pol (default404_for v) else pol)"

lemma translate_vhost_cases:
  obtains (skip) "skipped v" "translate_vhost sha cd v st = st"
  | (error) c where "\<not> skipped v" "\<not> known_protocol v" "map_of (trCache st) \<subseteq>\<^sub>m map_of c"
      "\<exists>p. translate_vhost sha cd v st = st\<lparr>trHeap := store_policy (trHeap st) v p, trCache := c\<rparr>"
  | (published) pol c where "\<not> skipped v" "map_of (trCache st) \<subseteq>\<^sub>m map_of c"
      "translate_vhost sha cd v st =
         publish sha v (finished_policy v pol)
           (st\<lparr>trHeap := store_policy (trHeap st) v (finished_policy v pol), trCache := c\<rparr>)"
proof (cases "skipped v")
  case True
  then show thesis using skip by (simp add: translate_vhost_def)
next
  case False
  obtain routing c1 where r: "buildRoutingPolicy sha cd (trHeap st) v (trCache st) = (routing, c1)"
    by fastforce
  have le1: "map_of (trCache st) \<subseteq>\<^sub>m map_of c1"
    using routing_policy_kept r by blast
  show thesis
  proof (cases "buildDefaultDestinationPolicy sha cd (trHeap st) v c1")
    case (Inl e)
    then have "\<not> known_protocol v"
      using buildDefaultDestinationPolicy_total [of v sha cd "trHeap st" c1] by auto
    then show thesis
      using error [OF False _ le1] False r Inl by (auto simp: translate_vhost_def Let_def)
  next
    case (Inr y)
    then obtain d c2 where y: "y = (d, c2)" by fastforce
    have "map_of (trCache st) \<subseteq>\<^sub>m map_of c2"
      using le1 buildDefaultDestinationPolicy_le [OF Inr [unfolded y]] map_le_trans by blast
    then show thesis
      using False r Inr y by (intro published) (auto simp: translate_vhost_def Let_def finished_policy_def)
  qed
qed

lemma endpoint_kept_translate: "endpoint_kept (trCache st) (trCache (translate_vhost sha cd v st))"
proof (cases rule: translate_vhost_cases [of v sha cd st])
  case (error c)
  then show ?thesis using endpoint_kept_le by auto
next
  case (published pol c)
  then show ?thesis
    using endpoint_kept_trans [OF endpoint_kept_le endpoint_kept_publish] by simp
qed (simp add: endpoint_kept_le)


definition cloud_key :: "(string \<Rightarrow> string) \<Rightarrow> IRVirtualHost \<Rightarrow> NamespacedName" where
  "cloud_key sha v = \<lparr>nnName = cloud_endpoint_name sha v, nnNamespace = vhNamespace v\<rparr>"

text \<open>The virtual hosts that get a cloud endpoint, and what that endpoint looks like.\<close>

definition listens :: "IRVirtualHost \<Rightarrow> bool" where
  "listens v \<longleftrightarrow> \<not> skipped v \<and> vhCollapseIntoServiceKey v = None \<and> known_protocol v"

definition cloud_endpoint_for :: "(string \<Rightarrow> string) \<Rightarrow> IRVirtualHost \<Rightarrow> CloudEndpoint \<Rightarrow> bool" where
  "cloud_endpoint_for sha v ce \<longleftrightarrow>
     (\<exists>ce0 pol. buildCloudEndpoint sha v = Inr ce0 \<and>
        ce = ce0\<lparr>ceSpec := (ceSpec ce0)\<lparr>cesTrafficPolicy :=
          Some \<lparr>cpcInline = Some (policy_json pol), cpcReference = None, cpcPolicy = Some (policy_json pol)\<rparr>\<rparr>\<rparr> \<and>
        (is_http (lProtocol (vhListener v)) \<longrightarrow>
           (\<exists>rs. OnHTTPRequest pol = rs @ [buildDefault404TPRule])))"

lemma buildCloudEndpoint_cases:
  obtains (unknown) e where "\<not> known_protocol v" "buildCloudEndpoint sha v = Inl e"
  | (known) ce where "known_protocol v" "buildCloudEndpoint sha v = Inr ce"
      "\<lparr>nnName = ceName ce, nnNamespace = ceNamespace ce\<rparr> = cloud_key sha v"
proof (cases "buildPublicURL v")
  case (Inl e)
  then show thesis
    using unknown [of e] buildPublicURL_error [of v] by (auto simp: buildCloudEndpoint_def)
next
  case (Inr url)
  then have "known_protocol v" using buildPublicURL_error [of v] by auto
  then show thesis using known Inr by (simp add: buildCloudEndpoint_def cloud_key_def)
qed

lemma translate_vhost_cloud:
  "\<exists>ce. trCloud (translate_vhost sha cd v st) =
      (if listens v then AList.update (cloud_key sha v) ce (trCloud st) else trCloud st) \<and>
    (listens v \<longrightarrow> cloud_endpoint_for sha v ce)"
proof (cases rule: translate_vhost_cases [of v sha cd st])
  case (published pol c)
  show ?thesis
  proof (cases "vhCollapseIntoServiceKey v")
    case None
    then have last: "is_http (lProtocol (vhListener v)) \<longrightarrow>
        (\<exists>rs. OnHTTPRequest (finished_policy v pol) = rs @ [buildDefault404TPRule])"
      by (simp add: finished_policy_def default404_for_def AddRuleOnHTTPRequest_def)
    show ?thesis
    proof (cases rule: buildCloudEndpoint_cases [of v sha])
      case (unknown e)
      then show ?thesis using published None by (simp add: publish_def listens_def)
    next
      case (known ce)
      then show ?thesis
        using published None last by (auto simp: publish_def listens_def cloud_endpoint_for_def)
    qed
  next
    case (Some k)
    then show ?thesis
      using published by (auto simp: publish_def listens_def split: option.splits)
  qed
qed (auto simp: listens_def)

lemma translate_fold_cloud:
  shows "fst ` set (trCloud (fold (translate_vhost sha cd) vs st)) = fst ` set (trCloud st) \<union> cloud_key sha ` {v \<in> set vs. listens v}"
    and "set vs \<subseteq> W \<Longrightarrow>
      list_all (\<lambda>(k, ce). \<exists>v\<in>W. listens v \<and> k = cloud_key sha v \<and> cloud_endpoint_for sha v ce) (trCloud st) \<Longrightarrow>
      list_all (\<lambda>(k, ce). \<exists>v\<in>W. listens v \<and> k = cloud_key sha v \<and> cloud_endpoint_for sha v ce)
        (trCloud (fold (translate_vhost sha cd) vs st))"
proof -
  show "fst ` set (trCloud (fold (translate_vhost sha cd) vs st)) = fst ` set (trCloud st) \<union> cloud_key sha ` {v \<in> set vs. listens v}"
  proof (induction vs arbitrary: st)
    case (Cons v vs)
    obtain ce where "trCloud (translate_vhost sha cd v st) =
      (if listens v then AList.update (cloud_key sha v) ce (trCloud st) else trCloud st)"
      using translate_vhost_cloud [of sha cd v st] by blast
    then have "fst ` set (trCloud (translate_vhost sha cd v st)) =
        (if listens v then insert (cloud_key sha v) (fst ` set (trCloud st)) else fst ` set (trCloud st))"
      using keys_update [of "cloud_key sha v" ce "trCloud st"] by simp
    moreover have "{w \<in> set (v # vs). listens w} =
        (if listens v then insert v {w \<in> set vs. listens w} else {w \<in> set vs. listens w})" by auto
    ultimately show ?case
      using Cons.IH [of "translate_vhost sha cd v st"] by (cases "listens v") simp_all
  qed simp
next
  let ?P = "\<lambda>(k, ce). \<exists>v\<in>W. listens v \<and> k = cloud_key sha v \<and> cloud_endpoint_for sha v ce"
  show "set vs \<subseteq> W \<Longrightarrow> list_all ?P (trCloud st) \<Longrightarrow> list_all ?P (trCloud (fold (translate_vhost sha cd) vs st))"
  proof (induction vs arbitrary: st)
    case (Cons v vs)
    have "list_all ?P (trCloud (translate_vhost sha cd v st))"
      using translate_vhost_cloud [of sha cd v st] Cons.prems by (auto intro!: update_values)
    then show ?case using Cons by simp
  qed simp
qed



section \<open>The shared traffic policy objects\<close>

lemma trHeap_publish [simp]: "trHeap (publish sha v pol st) = trHeap st"
  by (simp add: publish_def split: option.split sum.split)

lemma translate_vhost_heap:
  obtains "trHeap (translate_vhost sha cd v st) = trHeap st"
  | p where "trHeap (translate_vhost sha cd v st) = store_policy (trHeap st) v p"
  by (cases rule: translate_vhost_cases [of v sha cd st]) auto

lemma load_store_other:
  "vhTrafficPolicy v \<noteq> vhTrafficPolicy w \<Longrightarrow> load_policy (store_policy hp v p) w = load_policy hp w"
  by (auto simp: load_policy_def store_policy_def nth_list_update split: option.splits)

lemma load_store_same:
  "vhTrafficPolicy v = Some a \<Longrightarrow> a < length (hpPolicies hp) \<Longrightarrow> vhTrafficPolicy w = Some a \<Longrightarrow>
   load_policy (store_policy hp v p) w = p"
  by (simp add: load_policy_def store_policy_def)

text \<open>
  Translating virtual hosts does not touch the policy of another one that has a policy object
  of its own: the user's policy that a virtual host starts from is the one it had before.
\<close>

theorem policies_independent:
  assumes "list_all (\<lambda>v. vhTrafficPolicy v \<noteq> vhTrafficPolicy w) vs"
  shows "load_policy (trHeap (fold (translate_vhost sha cd) vs st)) w = load_policy (trHeap st) w"
  using assms
proof (induction vs arbitrary: st)
  case (Cons v vs)
  have "load_policy (trHeap (translate_vhost sha cd v st)) w = load_policy (trHeap st) w"
    using Cons.prems by (cases rule: translate_vhost_heap [of sha cd v st]) (simp_all add: load_store_other)
  then show ?case using Cons by simp
qed simp

text \<open>
  Two virtual hosts that point to the same policy object are not independent: after an
  HTTP(S) virtual host has been translated, the object ends with that host's unconditional fallback
  404 answer, and the rules of the second virtual host are merged after it.
\<close>

theorem shared_policy_gets_the_404_first:
  assumes "\<not> skipped v" "known_protocol v" "is_http (lProtocol (vhListener v))"
    and "vhCollapseIntoServiceKey v = None"
    and "vhTrafficPolicy v = Some a" "vhTrafficPolicy w = Some a" "a < length (hpPolicies (trHeap st))"
  shows "\<exists>rs. OnHTTPRequest (load_policy (trHeap (translate_vhost sha cd v st)) w) = rs @ [buildDefault404TPRule]"
proof (cases rule: translate_vhost_cases [of v sha cd st])
  case (published pol c)
  then show ?thesis
    using assms load_store_same [of v a "trHeap st" w]
    by (simp add: finished_policy_def default404_for_def AddRuleOnHTTPRequest_def)
qed (use assms in auto)

definition shared_policy_state :: translation_state where
  "shared_policy_state =
     \<lparr>trHeap = \<lparr>hpUpstreams = [], hpPolicies = [NewTrafficPolicy, NewTrafficPolicy]\<rparr>, trCache = [], trCloud = []\<rparr>"

theorem policies_independent_witness:
  "load_policy (trHeap (fold (translate_vhost witness_digest []) [witness_vhost\<lparr>vhTrafficPolicy := Some 0\<rparr>]
     shared_policy_state)) (witness_vhost\<lparr>vhTrafficPolicy := Some 1\<rparr>) = NewTrafficPolicy"
  using policies_independent [of "witness_vhost\<lparr>vhTrafficPolicy := Some 1\<rparr>"
      "[witness_vhost\<lparr>vhTrafficPolicy := Some 0\<rparr>]" witness_digest "[]" shared_policy_state]
  by (simp add: load_policy_def shared_policy_state_def)

theorem shared_policy_gets_the_404_first_witness:
  "\<exists>rs. OnHTTPRequest (load_policy (trHeap (translate_vhost witness_digest []
       (witness_vhost\<lparr>vhTrafficPolicy := Some 0\<rparr>) shared_policy_state))
     (witness_vhost\<lparr>vhTrafficPolicy := Some 0, vhNamespace := ''other''\<rparr>)) = rs @ [buildDefault404TPRule]"
  by (rule shared_policy_gets_the_404_first [of _ 0])
     (simp_all add: skipped_def known_protocol_def is_http_def witness_vhost_def shared_policy_state_def)

end
