(* ===== verification/Ingress_Translation.thy ===== *)
theory Ingress_Translation
  imports Translation_Correctness Resource_Store
begin

text \<open>
  \<^bold>\<open>pkg/managerdriver/translate_ingresses.go\<close>: from the stored Ingress objects to virtual hosts, and
  the half of \<open>Translate\<close> of \<^bold>\<open>translator.go\<close> that sorts routes and generates the endpoints.

  State: the store \<open>ir_heap\<close> of shared objects, the virtual hosts by hostname and the upstreams by
  service key (as addresses). The annotations give metadata as a text; \<open>parse\<close> is the parser of
  \<open>encoding/json\<close>. \<open>reflect.DeepEqual\<close> on a destination compares what its upstream points to. Go
  ranges over the host cache in any order: \<open>order\<close>, an argument, is that order. Log messages are left
  out.
\<close>

section \<open>State and errors\<close>

record translator =
  tStore :: Store
  tManagedResourceLabels :: "(string \<times> string) list"
  tDefaultIngressMetadata :: string
  tDefaultGatewayMetadata :: string
  tClusterDomain :: string
  tDisableGatewayReferenceGrants :: bool

record ingress_state =
  isHeap :: ir_heap
  isHosts :: "(IRHostname \<times> IRVirtualHost) list"
  isUpstreams :: "(IRServiceKey \<times> addr) list"

datatype backend_error =
    UnsupportedBackendKind string
  | InvalidBackendGroup string
  | BackendNotFound store_error
  | BackendPolicyError policy_error
  | BackendTCPRules
  | InvalidBackend
  | ServicePortNotFound string

datatype annotation_policy_error =
    PolicyAnnotationError annotation_error
  | PolicyNotFound store_error
  | PolicyParseError policy_error

section \<open>Traffic policies from annotations\<close>

definition trafficPolicyFromAnnotation ::
  "Store \<Rightarrow> annotations \<Rightarrow> string \<Rightarrow> annotation_policy_error + (TrafficPolicy \<times> OwningResource) option" where
  "trafficPolicyFromAnnotation store anns namespace =
     (case ExtractNgrokTrafficPolicyFromAnnotations anns of
        Inl e \<Rightarrow> if IsMissingAnnotations e then Inr None else Inl (PolicyAnnotationError e)
      | Inr tpName \<Rightarrow>
          (case GetNgrokTrafficPolicyV1 store tpName namespace of
             Inl e \<Rightarrow> Inl (PolicyNotFound e)
           | Inr tpObj \<Rightarrow>
               (case NewTrafficPolicyFromJSON (ntpPolicy tpObj) of
                  Inl e \<Rightarrow> Inl (PolicyParseError e)
                | Inr cfg \<Rightarrow>
                    Inr (Some (cfg, \<lparr>orKind = ''NgrokTrafficPolicy'', orName = ntpName tpObj,
                      orNamespace = ntpNamespace tpObj\<rparr>)))))"

section \<open>Backends\<close>

definition ingress_owner :: "Ingress \<Rightarrow> OwningResource" where
  "ingress_owner ing = \<lparr>orKind = ''Ingress'', orName = ingName ing, orNamespace = ingNamespace ing\<rparr>"

text \<open>The upstream for a service: a new object, or the cached one with one more owner.\<close>

definition cached_upstream :: "IRService \<Rightarrow> OwningResource \<Rightarrow> ingress_state \<Rightarrow> addr \<times> ingress_state" where
  "cached_upstream s owner st =
     (let hp = isHeap st
      in case map_of (isUpstreams st) (Key s) of
           None \<Rightarrow>
             (length (hpUpstreams hp),
              st\<lparr>isHeap := hp\<lparr>hpUpstreams := hpUpstreams hp @ [\<lparr>uOwningResources = [owner], uService = s\<rparr>]\<rparr>,
                 isUpstreams := AList.update (Key s) (length (hpUpstreams hp)) (isUpstreams st)\<rparr>)
         | Some a \<Rightarrow>
             (a, st\<lparr>isHeap := hp\<lparr>hpUpstreams := (hpUpstreams hp)[a :=
                IRUpstream_AddOwningResource (hpUpstreams hp ! a) owner]\<rparr>\<rparr>))"

definition backend_policy :: "Store \<Rightarrow> Ingress \<Rightarrow> TypedLocalObjectReference \<Rightarrow> backend_error + TrafficPolicy" where
  "backend_policy store ing ref =
     (if to_lower (tlrKind ref) \<noteq> ''ngroktrafficpolicy'' then Inl (UnsupportedBackendKind (tlrKind ref))
      else if tlrAPIGroup ref \<noteq> None \<and> tlrAPIGroup ref \<noteq> Some ''ngrok.k8s.ngrok.com''
      then Inl (InvalidBackendGroup (the (tlrAPIGroup ref)))
      else (case GetNgrokTrafficPolicyV1 store (tlrName ref) (ingNamespace ing) of
          Inl e \<Rightarrow> Inl (BackendNotFound e)
        | Inr cfg \<Rightarrow>
            (case NewTrafficPolicyFromJSON (ntpPolicy cfg) of
               Inl e \<Rightarrow> Inl (BackendPolicyError e)
             | Inr tp \<Rightarrow> if length (OnTCPConnect tp) \<noteq> 0 then Inl BackendTCPRules else Inr tp)))"

definition backend_service ::
  "(string \<Rightarrow> raw_json) \<Rightarrow> Store \<Rightarrow> Ingress \<Rightarrow> IngressServiceBackend \<Rightarrow> backend_error + IRService" where
  "backend_service parse store ing b =
     (case GetServiceV1 store (isbName b) (ingNamespace ing) of
        Inl e \<Rightarrow> Inl (BackendNotFound e)
      | Inr service \<Rightarrow>
          (case findServicesPort service (isbPort b) of
             None \<Rightarrow> Inl (ServicePortNotFound (isbName b))
           | Some port \<Rightarrow>
               let portProto = fst (getProtoForServicePort parse service (spName port) IRProtocol_HTTP);
                   irScheme = fst (protocolStringToIRScheme portProto)
               in Inr \<lparr>sUID = svcUID service, sNamespace = ingNamespace ing, sName = isbName b,
                       sPort = spPort port, sClientCertRefs = [], sScheme = irScheme,
                       sProtocol = getPortAppProtocol port\<rparr>))"

definition ingressBackendToIR ::
  "(string \<Rightarrow> raw_json) \<Rightarrow> Store \<Rightarrow> Ingress \<Rightarrow> IngressBackend \<Rightarrow> ingress_state \<Rightarrow>
   (backend_error + IRDestination) \<times> ingress_state" where
  "ingressBackendToIR parse store ing backend st =
     (case ibResource backend of
        Some ref \<Rightarrow>
          (case backend_policy store ing ref of
             Inl e \<Rightarrow> (Inl e, st)
           | Inr tp \<Rightarrow> (Inr \<lparr>dWeight = None, dUpstream = None, dTrafficPolicies = [tp]\<rparr>, st))
      | None \<Rightarrow>
          (case ibService backend of
             None \<Rightarrow> (Inl InvalidBackend, st)
           | Some b \<Rightarrow>
               (case backend_service parse store ing b of
                  Inl e \<Rightarrow> (Inl e, st)
                | Inr s \<Rightarrow>
                    let (a, st') = cached_upstream s (ingress_owner ing) st
                    in (Inr \<lparr>dWeight = None, dUpstream = Some a, dTrafficPolicies = []\<rparr>, st'))))"

section \<open>Paths\<close>

fun ingressPathsToIR ::
  "(string \<Rightarrow> raw_json) \<Rightarrow> Store \<Rightarrow> Ingress \<Rightarrow> HTTPIngressPath list \<Rightarrow> ingress_state \<Rightarrow>
   IRRoute list \<times> ingress_state" where
  "ingressPathsToIR parse store ing [] st = ([], st)"
| "ingressPathsToIR parse store ing (p # ps) st =
     (case ingressBackendToIR parse store ing (hipBackend p) st of
        (Inl _, st') \<Rightarrow> ingressPathsToIR parse store ing ps st'
      | (Inr d, st') \<Rightarrow>
          let (rs, st'') = ingressPathsToIR parse store ing ps st'
          in (\<lparr>rtHTTPMatchCriteria = Some \<lparr>mPath = Some (hipPath p),
                 mPathType = Some (netv1PathTypeToIR (hipPathType p)),
                 mHeaders = [], mQueryParams = [], mMethod = None\<rparr>,
               rtTrafficPolicies = [], rtDestinations = [d]\<rparr> # rs, st''))"

section \<open>One ingress\<close>

text \<open>What was read from the ingress's annotations before its rules are looked at.\<close>

record ingress_config =
  icfDefaultDestination :: "IRDestination ptr"
  icfPooling :: "bool ptr"
  icfTrafficPolicy :: "TrafficPolicy ptr"
  icfTrafficPolicyRef :: "OwningResource ptr"
  icfBindings :: "string list"
  icfMappingStrategy :: IRMappingStrategy
  icfMetadata :: string
  icfDescription :: string

definition raw_text :: "(string \<Rightarrow> raw_json) \<Rightarrow> string \<Rightarrow> raw_json" where
  "raw_text parse s = (if s = [] then RawEmpty else parse s)"

definition dest_deep_equal :: "ir_heap \<Rightarrow> IRDestination \<Rightarrow> IRDestination \<Rightarrow> bool" where
  "dest_deep_equal hp d d' \<longleftrightarrow>
     dWeight d = dWeight d' \<and> dTrafficPolicies d = dTrafficPolicies d' \<and>
     (case (dUpstream d, dUpstream d') of
        (None, None) \<Rightarrow> True
      | (Some a, Some b) \<Rightarrow> a = b \<or> hpUpstreams hp ! a = hpUpstreams hp ! b
      | _ \<Rightarrow> False)"

definition default_deep_equal :: "ir_heap \<Rightarrow> IRDestination ptr \<Rightarrow> IRDestination ptr \<Rightarrow> bool" where
  "default_deep_equal hp x y =
     (case (x, y) of
        (None, None) \<Rightarrow> True
      | (Some d, Some d') \<Rightarrow> dest_deep_equal hp d d'
      | _ \<Rightarrow> False)"

definition host_conflict :: "ir_heap \<Rightarrow> Ingress \<Rightarrow> ingress_config \<Rightarrow> IRVirtualHost \<Rightarrow> bool" where
  "host_conflict hp ing cfg v \<longleftrightarrow>
     vhTrafficPolicyObjRef v \<noteq> icfTrafficPolicyRef cfg \<or>
     vhEndpointPoolingEnabled v \<noteq> icfPooling cfg \<or>
     vhNamespace v \<noteq> ingNamespace ing \<or>
     \<not> default_deep_equal hp (vhDefaultDestination v) (icfDefaultDestination cfg)"

text \<open>The copy of the annotation's policy for a new virtual host, as a new object.\<close>

definition copy_policy :: "TrafficPolicy ptr \<Rightarrow> ir_heap \<Rightarrow> policy_error + (addr ptr \<times> ir_heap)" where
  "copy_policy tp hp =
     (case tp of
        None \<Rightarrow> Inr (None, hp)
      | Some p \<Rightarrow>
          (case DeepCopy p of
             Inl e \<Rightarrow> Inl e
           | Inr p' \<Rightarrow> Inr (Some (length (hpPolicies hp)), hp\<lparr>hpPolicies := hpPolicies hp @ [p']\<rparr>)))"

definition new_ingress_vhost ::
  "(string \<Rightarrow> raw_json) \<Rightarrow> translator \<Rightarrow> Ingress \<Rightarrow> ingress_config \<Rightarrow> IRHostname \<Rightarrow> addr ptr \<Rightarrow> IRVirtualHost" where
  "new_ingress_vhost parse tr ing cfg host tp =
     \<lparr>vhNamePrefix = None, vhNamespace = ingNamespace ing,
      vhListener = \<lparr>lHostname = host, lPort = 443, lProtocol = IRProtocol_HTTPS\<rparr>,
      vhEndpointPoolingEnabled = icfPooling cfg, vhTrafficPolicy = tp,
      vhTrafficPolicyObjRef = icfTrafficPolicyRef cfg, vhRoutes = [],
      vhDefaultDestination = icfDefaultDestination cfg, vhTLSTermination = None, vhClientCertRefs = [],
      vhLabelsToAdd = tManagedResourceLabels tr, vhAnnotationsToAdd = [],
      vhOwningResources = [ingress_owner ing],
      vhMetadata = MergeMetadata (raw_text parse (tDefaultIngressMetadata tr)) (raw_text parse (icfMetadata cfg)),
      vhDescription = icfDescription cfg, vhBindings = icfBindings cfg,
      vhMappingStrategy = icfMappingStrategy cfg, vhCollapseIntoServiceKey = None\<rparr>"

text \<open>The virtual host of a rule's hostname: the cached one if nothing conflicts, or a new one.\<close>

definition rule_vhost ::
  "(string \<Rightarrow> raw_json) \<Rightarrow> translator \<Rightarrow> Ingress \<Rightarrow> ingress_config \<Rightarrow> IRHostname \<Rightarrow> ingress_state \<Rightarrow>
   (IRVirtualHost \<times> ingress_state) option" where
  "rule_vhost parse tr ing cfg host st =
     (case map_of (isHosts st) host of
        Some v \<Rightarrow>
          if host_conflict (isHeap st) ing cfg v then None
          else let v' = AddOwningResource v (ingress_owner ing)
               in Some (v', st\<lparr>isHosts := AList.update host v' (isHosts st)\<rparr>)
      | None \<Rightarrow>
          (case copy_policy (icfTrafficPolicy cfg) (isHeap st) of
             Inl _ \<Rightarrow> None
           | Inr (tp, hp) \<Rightarrow>
               let v = new_ingress_vhost parse tr ing cfg host tp
               in Some (v, st\<lparr>isHeap := hp, isHosts := AList.update host v (isHosts st)\<rparr>)))"

definition ingress_rule ::
  "(string \<Rightarrow> raw_json) \<Rightarrow> translator \<Rightarrow> Ingress \<Rightarrow> ingress_config \<Rightarrow> IngressRule \<Rightarrow> ingress_state \<Rightarrow>
   ingress_state" where
  "ingress_rule parse tr ing cfg rule st =
     (if iruHost rule = [] then st
      else
        case rule_vhost parse tr ing cfg (iruHost rule) st of
          None \<Rightarrow> st
        | Some (v, st') \<Rightarrow>
            (case iruHTTP rule of
               None \<Rightarrow> st'
             | Some paths \<Rightarrow>
                 let (routes, st'') = ingressPathsToIR parse (tStore tr) ing paths st'
                 in st''\<lparr>isHosts := AList.update (iruHost rule)
                      (v\<lparr>vhRoutes := vhRoutes v @ routes\<rparr>) (isHosts st'')\<rparr>))"

definition ingressToIR ::
  "(string \<Rightarrow> raw_json) \<Rightarrow> translator \<Rightarrow> Ingress \<Rightarrow> ingress_config \<Rightarrow> ingress_state \<Rightarrow> ingress_state" where
  "ingressToIR parse tr ing cfg st = fold (ingress_rule parse tr ing cfg) (ingRules ing) st"

section \<open>All ingresses\<close>

definition default_backend ::
  "(string \<Rightarrow> raw_json) \<Rightarrow> Store \<Rightarrow> Ingress \<Rightarrow> ingress_state \<Rightarrow>
   (backend_error + IRDestination ptr) \<times> ingress_state" where
  "default_backend parse store ing st =
     (case ingDefaultBackend ing of
        None \<Rightarrow> (Inr None, st)
      | Some b \<Rightarrow>
          (case ingressBackendToIR parse store ing b st of
             (Inl e, st') \<Rightarrow> (Inl e, st')
           | (Inr d, st') \<Rightarrow> (Inr (Some d), st')))"

definition or_empty :: "annotation_error + string \<Rightarrow> string" where
  "or_empty r = (case r of Inl _ \<Rightarrow> [] | Inr s \<Rightarrow> s)"

definition translate_ingress ::
  "(string \<Rightarrow> raw_json) \<Rightarrow> translator \<Rightarrow> Ingress \<Rightarrow> ingress_state \<Rightarrow> ingress_state" where
  "translate_ingress parse tr ing st =
     (let anns = ingAnnotations ing;
          mappingStrategy = fst (MappingStrategyAnnotationToIR anns);
          pooling = (case ExtractUseEndpointPooling anns of Inl _ \<Rightarrow> None | Inr p \<Rightarrow> p)
      in case trafficPolicyFromAnnotation (tStore tr) anns (ingNamespace ing) of
           Inl _ \<Rightarrow> st
         | Inr policy \<Rightarrow>
             (case default_backend parse (tStore tr) ing st of
                (Inl _, st') \<Rightarrow> st'
              | (Inr dd, st') \<Rightarrow>
                  (case ExtractUseBindings anns of
                     Inl _ \<Rightarrow> st'
                   | Inr bindings \<Rightarrow>
                       ingressToIR parse tr ing
                         \<lparr>icfDefaultDestination = dd, icfPooling = pooling,
                          icfTrafficPolicy = map_option fst policy,
                          icfTrafficPolicyRef = map_option snd policy, icfBindings = bindings,
                          icfMappingStrategy = mappingStrategy,
                          icfMetadata = or_empty (ExtractMetadata anns),
                          icfDescription = or_empty (ExtractDescription anns)\<rparr> st')))"

definition empty_ingress_state :: ingress_state where
  "empty_ingress_state =
     \<lparr>isHeap = \<lparr>hpUpstreams = [], hpPolicies = []\<rparr>, isHosts = [], isUpstreams = []\<rparr>"

definition ingresses_state :: "(string \<Rightarrow> raw_json) \<Rightarrow> translator \<Rightarrow> ingress_state" where
  "ingresses_state parse tr =
     fold (translate_ingress parse tr) (ListNgrokIngressesV1 (tStore tr)) empty_ingress_state"

definition ingressesToIR ::
  "(string \<Rightarrow> raw_json) \<Rightarrow> (IRVirtualHost list \<Rightarrow> IRVirtualHost list) \<Rightarrow> translator \<Rightarrow>
   IRVirtualHost list \<times> ir_heap" where
  "ingressesToIR parse order tr =
     (let st = ingresses_state parse tr in (order (map snd (isHosts st)), isHeap st))"

section \<open>From virtual hosts to endpoints\<close>

text \<open>
  The second half of \<open>Translate\<close>: the routes of each virtual host are sorted (a nil dereference ends
  the run), then the endpoints are generated.
\<close>

definition translate_vhosts ::
  "(string \<Rightarrow> string) \<Rightarrow> (agent_cache \<Rightarrow> agent_cache) \<Rightarrow> translator \<Rightarrow> ir_heap \<Rightarrow> IRVirtualHost list \<Rightarrow>
   panic + ((NamespacedName \<times> CloudEndpoint) list \<times> (NamespacedName \<times> AgentEndpoint) list)" where
  "translate_vhosts sha order tr hp vs =
     (case traverse SortRoutes vs of
        Inl p \<Rightarrow> Inl p
      | Inr vs' \<Rightarrow> Inr (IRToEndpoints sha (tClusterDomain tr) order hp vs'))"

section \<open>What the cluster guarantees\<close>

text \<open>Kubernetes names, namespaces and UIDs hold no slash.\<close>

definition no_slash :: "string \<Rightarrow> bool" where
  "no_slash s \<longleftrightarrow> CHR ''/'' \<notin> set s"

definition cluster_ok :: "Store \<Rightarrow> bool" where
  "cluster_ok s \<longleftrightarrow> reachable_stores (stStores s) \<and>
     list_all (\<lambda>(_, x). no_slash (svcName x) \<and> no_slash (svcNamespace x) \<and> no_slash (svcUID x))
       (csServiceV1 (stStores s)) \<and>
     list_all (\<lambda>(_, x). no_slash (ingNamespace x)) (csIngressV1 (stStores s))"

lemma known_protocol_values: "map_of knownApplicationProtocols p = Some q \<Longrightarrow> q = ''http1'' \<or> q = ''http2''"
  by (auto simp: knownApplicationProtocols_def split: if_splits)

lemma backend_service_ok:
  assumes "cluster_ok store" "no_slash (ingNamespace ing)" "backend_service parse store ing b = Inr s"
  shows "service_ok s \<and> sNamespace s = ingNamespace ing"
proof -
  obtain svc port where svc: "GetServiceV1 store (isbName b) (ingNamespace ing) = Inr svc"
    and s: "sUID s = svcUID svc" "sNamespace s = ingNamespace ing" "sName s = isbName b" "sClientCertRefs s = []"
      "sProtocol s = getPortAppProtocol port"
    using assms(3) by (auto simp: backend_service_def Let_def split: sum.splits option.splits)
  let ?c = "csServiceV1 (stStores store)"
  have found: "map_of ?c (getKey (isbName b) (ingNamespace ing)) = Some svc"
    using svc by (auto simp: GetServiceV1_def genericGetByKey_def split: option.splits)
  have wf: "cache_wf service_key ?c"
    using assms(1) reachable_stores_ok by (auto simp: cluster_ok_def stores_ok_def)
  have "service_key svc = getKey (isbName b) (ingNamespace ing)"
    by (rule service_cache.get_key [OF wf found])
  moreover have parts: "no_slash (svcName svc)" "no_slash (svcNamespace svc)" "no_slash (svcUID svc)"
    using assms(1) map_of_SomeD [OF found] by (auto simp: cluster_ok_def list_all_iff)
  ultimately have "isbName b = svcName svc"
    using assms(2) by (simp add: keyFunc_def getKey_def no_slash_def split_first)
  moreover have "getPortAppProtocol port = Some p \<Longrightarrow> p = ''http1'' \<or> p = ''http2''" for p
    using known_protocol_values by (auto simp: getPortAppProtocol_def split: option.splits)
  ultimately show ?thesis
    using s parts assms(2) by (auto simp: service_ok_def no_slash_def split: option.split)
qed

section \<open>The invariant of the translation\<close>

text \<open>The store only grows: services keep their address, policies are only added.\<close>

definition heap_le :: "ir_heap \<Rightarrow> ir_heap \<Rightarrow> bool" where
  "heap_le hp hp' \<longleftrightarrow>
     length (hpUpstreams hp) \<le> length (hpUpstreams hp') \<and> length (hpPolicies hp) \<le> length (hpPolicies hp') \<and>
     (\<forall>a<length (hpUpstreams hp). upstream_service hp' a = upstream_service hp a)"

lemma heap_le_refl [simp]: "heap_le hp hp"
  by (simp add: heap_le_def)

lemma heap_le_trans: "heap_le a b \<Longrightarrow> heap_le b c \<Longrightarrow> heap_le a c"
  by (auto simp: heap_le_def)

text \<open>A destination in a namespace: its upstream is allocated and its service is of that namespace.\<close>

definition dest_local :: "ir_heap \<Rightarrow> string \<Rightarrow> IRDestination \<Rightarrow> bool" where
  "dest_local hp ns d \<longleftrightarrow>
     (case dUpstream d of
        None \<Rightarrow> True
      | Some a \<Rightarrow> a < length (hpUpstreams hp) \<and> sNamespace (upstream_service hp a) = ns)"

definition route_local :: "ir_heap \<Rightarrow> string \<Rightarrow> IRRoute \<Rightarrow> bool" where
  "route_local hp ns r \<longleftrightarrow> \<not> path_type_missing r \<and> list_all (dest_local hp ns) (rtDestinations r)"

definition ingress_vhost_ok :: "ir_heap \<Rightarrow> IRHostname \<Rightarrow> IRVirtualHost \<Rightarrow> bool" where
  "ingress_vhost_ok hp host v \<longleftrightarrow>
     vhListener v = \<lparr>lHostname = host, lPort = 443, lProtocol = IRProtocol_HTTPS\<rparr> \<and>
     list_all (\<lambda>own. orNamespace own = vhNamespace v) (vhOwningResources v) \<and>
     list_all (route_local hp (vhNamespace v)) (vhRoutes v) \<and>
     (case vhDefaultDestination v of None \<Rightarrow> True | Some d \<Rightarrow> dest_local hp (vhNamespace v) d) \<and>
     (case vhTrafficPolicy v of None \<Rightarrow> True | Some a \<Rightarrow> a < length (hpPolicies hp))"

definition upstreams_ok :: "ingress_state \<Rightarrow> bool" where
  "upstreams_ok st \<longleftrightarrow>
     list_all (\<lambda>(k, a). a < length (hpUpstreams (isHeap st)) \<and>
        Key (upstream_service (isHeap st) a) = k \<and> service_ok (upstream_service (isHeap st) a)) (isUpstreams st)"

definition policy_addrs :: "(IRHostname \<times> IRVirtualHost) list \<Rightarrow> addr list" where
  "policy_addrs hosts = concat (map (\<lambda>(_, v). case vhTrafficPolicy v of None \<Rightarrow> [] | Some a \<Rightarrow> [a]) hosts)"

definition ingress_ok :: "ingress_state \<Rightarrow> bool" where
  "ingress_ok st \<longleftrightarrow>
     upstreams_ok st \<and> distinct (map fst (isHosts st)) \<and>
     list_all (\<lambda>(h, v). ingress_vhost_ok (isHeap st) h v) (isHosts st) \<and> distinct (policy_addrs (isHosts st))"

lemma dest_local_mono: "heap_le hp hp' \<Longrightarrow> dest_local hp ns d \<Longrightarrow> dest_local hp' ns d"
  by (auto simp: heap_le_def dest_local_def split: option.splits)

lemma route_local_mono: "heap_le hp hp' \<Longrightarrow> route_local hp ns r \<Longrightarrow> route_local hp' ns r"
  using dest_local_mono by (auto simp: route_local_def list_all_iff)

lemma ingress_vhost_ok_mono:
  assumes "heap_le hp hp'" "ingress_vhost_ok hp host v"
  shows "ingress_vhost_ok hp' host v"
proof -
  have "list_all (route_local hp' (vhNamespace v)) (vhRoutes v)"
    using assms route_local_mono by (auto simp: ingress_vhost_ok_def list_all_iff)
  moreover have "case vhDefaultDestination v of None \<Rightarrow> True | Some d \<Rightarrow> dest_local hp' (vhNamespace v) d"
    using assms dest_local_mono by (auto simp: ingress_vhost_ok_def split: option.splits)
  moreover have "case vhTrafficPolicy v of None \<Rightarrow> True | Some a \<Rightarrow> a < length (hpPolicies hp')"
    using assms by (auto simp: ingress_vhost_ok_def heap_le_def split: option.splits)
  ultimately show ?thesis using assms(2) by (simp add: ingress_vhost_ok_def)
qed

text \<open>Backends, paths and rules keep the invariant.\<close>

lemma cached_upstream_ok:
  assumes "ingress_ok st" "service_ok s" "cached_upstream s owner st = (a, st')"
  shows "ingress_ok st' \<and> heap_le (isHeap st) (isHeap st') \<and> isHosts st' = isHosts st \<and>
    a < length (hpUpstreams (isHeap st')) \<and> sNamespace (upstream_service (isHeap st') a) = sNamespace s"
proof -
  have ups: "upstreams_ok st" using assms(1) by (simp add: ingress_ok_def)
  have hosts: "isHosts st' = isHosts st" using assms(3)
    by (auto simp: cached_upstream_def Let_def split: option.splits)
  have "heap_le (isHeap st) (isHeap st') \<and> upstreams_ok st' \<and> a < length (hpUpstreams (isHeap st')) \<and>
      sNamespace (upstream_service (isHeap st') a) = sNamespace s"
  proof (cases "map_of (isUpstreams st) (Key s)")
    case None
    let ?hp = "isHeap st"
    have st': "a = length (hpUpstreams ?hp)"
      "isHeap st' = ?hp\<lparr>hpUpstreams := hpUpstreams ?hp @ [\<lparr>uOwningResources = [owner], uService = s\<rparr>]\<rparr>"
      "isUpstreams st' = AList.update (Key s) (length (hpUpstreams ?hp)) (isUpstreams st)"
      using None assms(3) by (auto simp: cached_upstream_def Let_def)
    have le: "heap_le ?hp (isHeap st')"
      by (simp add: st' heap_le_def upstream_service_def nth_append)
    have new: "upstream_service (isHeap st') a = s"
      by (simp add: st' upstream_service_def)
    have "upstreams_ok st'"
      unfolding upstreams_ok_def st'(3)
      using ups le new assms(2) st'(1,2)
      by (intro update_values) (auto simp: upstreams_ok_def heap_le_def list_all_iff)
    then show ?thesis using le new st' by simp
  next
    case (Some b)
    let ?hp = "isHeap st"
    have st': "a = b" "isUpstreams st' = isUpstreams st"
      "isHeap st' = ?hp\<lparr>hpUpstreams := (hpUpstreams ?hp)[b := IRUpstream_AddOwningResource (hpUpstreams ?hp ! b) owner]\<rparr>"
      using Some assms(3) by (auto simp: cached_upstream_def Let_def)
    have b: "b < length (hpUpstreams ?hp)" "Key (upstream_service ?hp b) = Key s" "service_ok (upstream_service ?hp b)"
      using ups map_of_SomeD [OF Some] by (auto simp: upstreams_ok_def list_all_iff)
    have same: "upstream_service (isHeap st') i = upstream_service ?hp i" for i
      using b(1) by (cases "i = b") (simp_all add: st' upstream_service_def IRUpstream_AddOwningResource_def)
    have "upstreams_ok st'"
      using ups same by (simp add: upstreams_ok_def st')
    moreover have "sNamespace (upstream_service ?hp b) = sNamespace s"
      using Key_eq_iff [OF b(3) assms(2)] b(2) by (metis IRService.simps(2) IRService.update_convs(6) IRService.surjective)
    ultimately show ?thesis
      using same b(1) by (simp add: heap_le_def st')
  qed
  then show ?thesis
    using assms(1) hosts ingress_vhost_ok_mono by (auto simp: ingress_ok_def list_all_iff)
qed

definition step_ok :: "ingress_state \<Rightarrow> ingress_state \<Rightarrow> bool" where
  "step_ok st st' \<longleftrightarrow> ingress_ok st' \<and> heap_le (isHeap st) (isHeap st') \<and> isHosts st' = isHosts st"

lemma step_ok_refl: "ingress_ok st \<Longrightarrow> step_ok st st"
  by (simp add: step_ok_def)

lemma step_ok_trans: "step_ok a b \<Longrightarrow> step_ok b c \<Longrightarrow> step_ok a c"
  using heap_le_trans by (auto simp: step_ok_def)

lemma ingressBackendToIR_ok:
  assumes "cluster_ok store" "no_slash (ingNamespace ing)" "ingress_ok st"
    "ingressBackendToIR parse store ing b st = (res, st')"
  shows "step_ok st st' \<and> (\<forall>d. res = Inr d \<longrightarrow> dest_local (isHeap st') (ingNamespace ing) d)"
proof (cases "ibResource b")
  case (Some ref)
  then show ?thesis
    using assms(3,4) by (auto simp: ingressBackendToIR_def dest_local_def step_ok_def split: sum.splits)
next
  case None
  show ?thesis
  proof (cases "ibService b")
    case None
    then show ?thesis
      using \<open>ibResource b = None\<close> assms(3,4) by (auto simp: ingressBackendToIR_def step_ok_def)
  next
    case (Some sb)
    show ?thesis
    proof (cases "backend_service parse store ing sb")
      case (Inl e)
      then show ?thesis
        using \<open>ibResource b = None\<close> Some assms(3,4) by (auto simp: ingressBackendToIR_def step_ok_def)
    next
      case (Inr s)
      obtain a st1 where c: "cached_upstream s (ingress_owner ing) st = (a, st1)" by fastforce
      have "service_ok s \<and> sNamespace s = ingNamespace ing"
        by (rule backend_service_ok [OF assms(1,2) Inr])
      moreover have "st' = st1" "res = Inr \<lparr>dWeight = None, dUpstream = Some a, dTrafficPolicies = []\<rparr>"
        using \<open>ibResource b = None\<close> Some Inr c assms(4) by (auto simp: ingressBackendToIR_def)
      ultimately show ?thesis
        using cached_upstream_ok [OF assms(3) _ c] by (auto simp: step_ok_def dest_local_def)
    qed
  qed
qed

lemma ingressPathsToIR_ok:
  assumes "cluster_ok store" "no_slash (ingNamespace ing)"
  shows "ingress_ok st \<Longrightarrow> ingressPathsToIR parse store ing ps st = (rs, st') \<Longrightarrow>
    step_ok st st' \<and> list_all (route_local (isHeap st') (ingNamespace ing)) rs"
proof (induction ps arbitrary: st rs st')
  case Nil
  then show ?case by (simp add: step_ok_refl)
next
  case (Cons p ps)
  obtain res st1 where b: "ingressBackendToIR parse store ing (hipBackend p) st = (res, st1)" by fastforce
  note ok = ingressBackendToIR_ok [OF assms Cons.prems(1) b]
  then have st1: "step_ok st st1" "ingress_ok st1" by (simp_all add: step_ok_def)
  obtain rs1 st2 where r: "ingressPathsToIR parse store ing ps st1 = (rs1, st2)" by fastforce
  note ih = Cons.IH [OF st1(2) r]
  show ?case
  proof (cases res)
    case (Inl e)
    then show ?thesis using Cons.prems(2) b r ih st1 step_ok_trans by auto
  next
    case (Inr d)
    have "dest_local (isHeap st2) (ingNamespace ing) d"
      using ok Inr ih dest_local_mono by (auto simp: step_ok_def)
    then show ?thesis
      using Cons.prems(2) b r ih st1 Inr step_ok_trans
      by (auto simp: Let_def route_local_def path_type_missing_def)
  qed
qed

lemma policy_addrs_update:
  assumes "map_of hosts h = Some v" "vhTrafficPolicy v' = vhTrafficPolicy v"
  shows "policy_addrs (AList.update h v' hosts) = policy_addrs hosts"
  using assms by (induction hosts) (auto simp: policy_addrs_def split: if_splits)

lemma policy_addrs_new:
  assumes "map_of hosts h = None"
  shows "policy_addrs (AList.update h v hosts) =
    policy_addrs hosts @ (case vhTrafficPolicy v of None \<Rightarrow> [] | Some a \<Rightarrow> [a])"
  using assms by (induction hosts) (auto simp: policy_addrs_def split: if_splits)

lemma policy_addrs_allocated:
  "list_all (\<lambda>(h, v). ingress_vhost_ok hp h v) hosts \<Longrightarrow> a \<in> set (policy_addrs hosts) \<Longrightarrow>
   a < length (hpPolicies hp)"
  by (induction hosts) (auto simp: policy_addrs_def ingress_vhost_ok_def split: option.splits)

text \<open>Replacing a virtual host by one of the same policy, and inserting a new one.\<close>

lemma ingress_ok_replace:
  assumes "ingress_ok st" "map_of (isHosts st) h = Some v" "ingress_vhost_ok (isHeap st) h v'"
    "vhTrafficPolicy v' = vhTrafficPolicy v"
  shows "ingress_ok (st\<lparr>isHosts := AList.update h v' (isHosts st)\<rparr>)"
  using assms
  by (simp add: ingress_ok_def upstreams_ok_def distinct_keys_update update_values policy_addrs_update)

lemma ingress_ok_insert:
  assumes "ingress_ok st" "map_of (isHosts st) h = None" "ingress_vhost_ok hp h v"
    "hpUpstreams hp = hpUpstreams (isHeap st)" "heap_le (isHeap st) hp"
    "\<And>a. vhTrafficPolicy v = Some a \<Longrightarrow> length (hpPolicies (isHeap st)) \<le> a"
  shows "ingress_ok (st\<lparr>isHeap := hp, isHosts := AList.update h v (isHosts st)\<rparr>)"
proof -
  have old: "list_all (\<lambda>(h, v). ingress_vhost_ok hp h v) (isHosts st)"
    using assms(1,5) ingress_vhost_ok_mono by (auto simp: ingress_ok_def list_all_iff)
  have "a \<notin> set (policy_addrs (isHosts st))" if "vhTrafficPolicy v = Some a" for a
    using assms(1) assms(6) [OF that] policy_addrs_allocated [of "isHeap st" "isHosts st" a]
    by (auto simp: ingress_ok_def)
  then have "distinct (policy_addrs (AList.update h v (isHosts st)))"
    using assms(1) by (simp add: policy_addrs_new [OF assms(2)] ingress_ok_def split: option.split)
  moreover have "upstreams_ok (st\<lparr>isHeap := hp, isHosts := AList.update h v (isHosts st)\<rparr>)"
    using assms(1,4) by (simp add: ingress_ok_def upstreams_ok_def upstream_service_def)
  ultimately show ?thesis
    using assms(1,3) old by (simp add: ingress_ok_def distinct_keys_update update_values)
qed

lemma copy_policy_ok:
  assumes "copy_policy tp hp = Inr (a, hp')"
  shows "hpUpstreams hp' = hpUpstreams hp \<and> heap_le hp hp' \<and>
    (\<forall>b. a = Some b \<longrightarrow> length (hpPolicies hp) \<le> b \<and> b < length (hpPolicies hp'))"
  using assms by (auto simp: copy_policy_def heap_le_def upstream_service_def split: option.splits sum.splits)

lemma rule_vhost_ok:
  assumes "ingress_ok st" "rule_vhost parse tr ing cfg host st = Some (v, st')"
    and "\<And>d. icfDefaultDestination cfg = Some d \<Longrightarrow> dest_local (isHeap st) (ingNamespace ing) d"
  shows "ingress_ok st' \<and> heap_le (isHeap st) (isHeap st') \<and> map_of (isHosts st') host = Some v \<and>
    vhNamespace v = ingNamespace ing"
proof (cases "map_of (isHosts st) host")
  case (Some w)
  have w: "ingress_vhost_ok (isHeap st) host w"
    using assms(1) map_of_SomeD [OF Some] by (auto simp: ingress_ok_def list_all_iff)
  have v: "v = AddOwningResource w (ingress_owner ing)" "st' = st\<lparr>isHosts := AList.update host v (isHosts st)\<rparr>"
    and ns: "vhNamespace w = ingNamespace ing"
    using Some assms(2) by (auto simp: rule_vhost_def Let_def host_conflict_def split: if_splits)
  have "ingress_vhost_ok (isHeap st) host v"
    using w ns by (auto simp: v(1) AddOwningResource_def ingress_vhost_ok_def ingress_owner_def list_all_iff
        split: option.splits)
  then have "ingress_ok st'"
    unfolding v(2) by (intro ingress_ok_replace [OF assms(1) Some]) (simp_all add: v(1) AddOwningResource_def)
  then show ?thesis using v ns by (simp add: AddOwningResource_def)
next
  case None
  obtain tp hp where c: "copy_policy (icfTrafficPolicy cfg) (isHeap st) = Inr (tp, hp)"
    and v: "v = new_ingress_vhost parse tr ing cfg host tp"
      "st' = st\<lparr>isHeap := hp, isHosts := AList.update host v (isHosts st)\<rparr>"
    using None assms(2) by (auto simp: rule_vhost_def Let_def split: sum.splits)
  note hp = copy_policy_ok [OF c]
  have "ingress_vhost_ok hp host v"
    using hp assms(3) dest_local_mono
    by (auto simp: v(1) new_ingress_vhost_def ingress_vhost_ok_def ingress_owner_def split: option.splits)
  then have "ingress_ok st'"
    unfolding v(2) by (intro ingress_ok_insert [OF assms(1) None]) (use hp in \<open>auto simp: v(1) new_ingress_vhost_def\<close>)
  then show ?thesis using v hp by (simp add: new_ingress_vhost_def)
qed

lemma ingress_rule_ok:
  assumes "cluster_ok (tStore tr)" "no_slash (ingNamespace ing)" "ingress_ok st"
    and dd: "\<And>d. icfDefaultDestination cfg = Some d \<Longrightarrow> dest_local (isHeap st) (ingNamespace ing) d"
  shows "ingress_ok (ingress_rule parse tr ing cfg rule st) \<and>
    heap_le (isHeap st) (isHeap (ingress_rule parse tr ing cfg rule st))"
proof (cases "iruHost rule = [] \<or> rule_vhost parse tr ing cfg (iruHost rule) st = None")
  case True
  then show ?thesis using assms(3) by (auto simp: ingress_rule_def)
next
  case False
  then obtain v st1 where rv: "rule_vhost parse tr ing cfg (iruHost rule) st = Some (v, st1)" by auto
  note st1 = rule_vhost_ok [OF assms(3) rv dd, simplified]
  show ?thesis
  proof (cases "iruHTTP rule")
    case None
    then show ?thesis using False rv st1 by (simp add: ingress_rule_def)
  next
    case (Some ps)
    obtain rs st2 where p: "ingressPathsToIR parse (tStore tr) ing ps st1 = (rs, st2)" by fastforce
    note st2 = ingressPathsToIR_ok [OF assms(1,2) _ p]
    then have st2: "ingress_ok st2" "heap_le (isHeap st1) (isHeap st2)" "isHosts st2 = isHosts st1"
      "list_all (route_local (isHeap st2) (ingNamespace ing)) rs"
      using st1 by (auto simp: step_ok_def)
    have v: "map_of (isHosts st2) (iruHost rule) = Some v" using st1 st2(3) by simp
    have "ingress_vhost_ok (isHeap st2) (iruHost rule) v"
      using st2(1) map_of_SomeD [OF v] by (auto simp: ingress_ok_def list_all_iff)
    then have "ingress_vhost_ok (isHeap st2) (iruHost rule) (v\<lparr>vhRoutes := vhRoutes v @ rs\<rparr>)"
      using st1 st2(4) by (simp add: ingress_vhost_ok_def split: option.splits)
    then have "ingress_ok (st2\<lparr>isHosts := AList.update (iruHost rule) (v\<lparr>vhRoutes := vhRoutes v @ rs\<rparr>) (isHosts st2)\<rparr>)"
      by (intro ingress_ok_replace [OF st2(1) v]) simp_all
    then show ?thesis
      using False rv Some p st1 st2(2) heap_le_trans by (auto simp: ingress_rule_def)
  qed
qed

lemma ingress_rules_ok:
  assumes "cluster_ok (tStore tr)" "no_slash (ingNamespace ing)"
  shows "ingress_ok st \<Longrightarrow>
    (\<And>d. icfDefaultDestination cfg = Some d \<Longrightarrow> dest_local (isHeap st) (ingNamespace ing) d) \<Longrightarrow>
    ingress_ok (fold (ingress_rule parse tr ing cfg) rules st)"
proof (induction rules arbitrary: st)
  case (Cons rule rules)
  note step = ingress_rule_ok [OF assms Cons.prems, of cfg parse rule]
  show ?case
    unfolding fold_simps
    by (rule Cons.IH) (use step Cons.prems(2) dest_local_mono in auto)
qed simp

lemma default_backend_ok:
  assumes "cluster_ok store" "no_slash (ingNamespace ing)" "ingress_ok st"
    "default_backend parse store ing st = (res, st')"
  shows "step_ok st st' \<and> (\<forall>d. res = Inr (Some d) \<longrightarrow> dest_local (isHeap st') (ingNamespace ing) d)"
proof (cases "ingDefaultBackend ing")
  case None
  then show ?thesis using assms(3,4) by (auto simp: default_backend_def step_ok_def)
next
  case (Some b)
  obtain r st1 where b: "ingressBackendToIR parse store ing b st = (r, st1)" by fastforce
  then show ?thesis
    using Some assms(4) ingressBackendToIR_ok [OF assms(1-3) b]
    by (auto simp: default_backend_def split: sum.splits)
qed

lemma translate_ingress_ok:
  assumes "cluster_ok (tStore tr)" "no_slash (ingNamespace ing)" "ingress_ok st"
  shows "ingress_ok (translate_ingress parse tr ing st)"
proof -
  obtain res st1 where d: "default_backend parse (tStore tr) ing st = (res, st1)" by fastforce
  note ok = default_backend_ok [OF assms d]
  have "ingress_ok st1" using ok by (simp add: step_ok_def)
  moreover have "ingress_ok (ingressToIR parse tr ing cfg st1)" if "res = Inr (icfDefaultDestination cfg)" for cfg
    unfolding ingressToIR_def
    by (rule ingress_rules_ok [OF assms(1,2)]) (use ok that in \<open>auto simp: step_ok_def\<close>)
  ultimately show ?thesis
    using assms(3) d by (auto simp: translate_ingress_def Let_def split: sum.split)
qed

lemma ingresses_state_ok:
  assumes "cluster_ok (tStore tr)"
  shows "ingress_ok (ingresses_state parse tr)"
proof -
  have wf: "cache_wf ingress_key (csIngressV1 (stStores (tStore tr)))"
    using assms reachable_stores_ok by (auto simp: cluster_ok_def stores_ok_def)
  have ns: "no_slash (ingNamespace ing)" if "ing \<in> set (ListNgrokIngressesV1 (tStore tr))" for ing
    using that assms by (auto simp: ListNgrokIngressesV1_def listIngressesV1_def cache_items_def
        cluster_ok_def list_all_iff)
  have "ingress_ok (fold (translate_ingress parse tr) ings st)"
    if "ingress_ok st" "set ings \<subseteq> set (ListNgrokIngressesV1 (tStore tr))" for ings st
    using that by (induction ings arbitrary: st) (simp_all add: translate_ingress_ok [OF assms ns])
  moreover have "ingress_ok empty_ingress_state"
    by (simp add: ingress_ok_def empty_ingress_state_def upstreams_ok_def policy_addrs_def)
  ultimately show ?thesis by (simp add: ingresses_state_def)
qed

section \<open>Properties\<close>

text \<open>
  \<^bold>\<open>C23\<close>. Tenant isolation of Ingress objects. However many ingresses name a hostname, its virtual
  host belongs to one namespace: every ingress that contributed to it and every service that its
  routes or its default backend reach are of that namespace. It listens on HTTPS, port 443, under
  that hostname, there is one virtual host per hostname, and every object it points to is
  allocated.
\<close>

theorem ingress_vhosts_stay_in_namespace:
  assumes "cluster_ok (tStore tr)"
  shows "distinct (map fst (isHosts (ingresses_state parse tr))) \<and>
    list_all (\<lambda>(host, v). ingress_vhost_ok (isHeap (ingresses_state parse tr)) host v)
      (isHosts (ingresses_state parse tr))"
  using ingresses_state_ok [OF assms, of parse] by (simp add: ingress_ok_def)


text \<open>Every route made from an ingress has its path type, so sorting it never dereferences nil.\<close>

lemma ingress_routes_typed:
  assumes "cluster_ok (tStore tr)" "mset (vorder (map snd (isHosts (ingresses_state parse tr)))) =
      mset (map snd (isHosts (ingresses_state parse tr)))"
    "v \<in> set (fst (ingressesToIR parse vorder tr))"
  shows "\<not> list_ex path_type_missing (vhRoutes v)"
proof -
  let ?hosts = "isHosts (ingresses_state parse tr)"
  have "v \<in> set (map snd ?hosts)"
    using assms(2,3) by (metis fst_conv ingressesToIR_def set_mset_mset)
  then show ?thesis
    using ingresses_state_ok [OF assms(1), of parse]
    by (fastforce simp: ingress_ok_def ingress_vhost_ok_def route_local_def list_all_iff list_ex_iff)
qed

lemma translate_vhosts_total:
  assumes "\<And>v. v \<in> set vs \<Longrightarrow> \<not> list_ex path_type_missing (vhRoutes v)"
  shows "\<exists>cloud agents. translate_vhosts sha order tr hp vs = Inr (cloud, agents)"
proof -
  have "\<exists>v'. SortRoutes v = Inr v'" if "v \<in> set vs" for v
    using assms [OF that] by (simp add: SortRoutes_def sort_panics_def)
  then have "\<exists>vs'. traverse SortRoutes vs = Inr vs'"
    by (rule traverse_total)
  then show ?thesis by (auto simp: translate_vhosts_def)
qed

section \<open>A concrete cluster\<close>

definition witness_translator :: translator where
  "witness_translator =
     \<lparr>tStore = witness_store, tManagedResourceLabels = [], tDefaultIngressMetadata = [],
      tDefaultGatewayMetadata = [], tClusterDomain = [], tDisableGatewayReferenceGrants = False\<rparr>"

lemma witness_cluster: "cluster_ok (tStore witness_translator)"
  using witness_reachable
  by (simp add: cluster_ok_def witness_translator_def witness_store_def witness_stores_def NewCacheStores_def
      no_slash_def witness_ingress_def)

theorem ingress_vhosts_stay_in_namespace_witness:
  "list_all (\<lambda>(host, v). ingress_vhost_ok (isHeap (ingresses_state RawInvalid witness_translator)) host v)
     (isHosts (ingresses_state RawInvalid witness_translator))"
  using ingress_vhosts_stay_in_namespace [OF witness_cluster, of RawInvalid] by blast


end
