(* ===== verification/Gateway_Matching.thy ===== *)
theory Gateway_Matching
  imports Gateway_Filters Ingress_Translation
begin

text \<open>
  \<^bold>\<open>pkg/managerdriver/translate_gatewayapi.go\<close>: which references across namespaces are allowed, which
  listeners of a gateway a route attaches to, and the TLS configuration of a listener.

  Third-party code is an argument: \<open>glob\<close> is the matcher \<open>gobwas/glob\<close> (as in \<open>doHostGlobsMatch\<close>) and
  \<open>selector\<close> is \<open>metav1.LabelSelectorAsSelector\<close>, \<open>None\<close> for a selector that is refused, otherwise the
  test of a set of labels.
\<close>

section \<open>net.ParseIP\<close>

text \<open>Whether \<open>net.ParseIP\<close> of the standard library accepts a text.\<close>

definition is_hex_digit :: "char \<Rightarrow> bool" where
  "is_hex_digit c \<longleftrightarrow> is_digit c \<or> c \<in> set ''abcdefABCDEF''"

definition ipv4_field :: "string \<Rightarrow> bool" where
  "ipv4_field f \<longleftrightarrow> f \<noteq> [] \<and> length f \<le> 3 \<and> list_all is_digit f \<and> (length f > 1 \<longrightarrow> hd f \<noteq> CHR ''0'') \<and>
     dec_val f \<le> 255"

definition is_ipv4 :: "string \<Rightarrow> bool" where
  "is_ipv4 s \<longleftrightarrow> length (split_on (CHR ''.'') s) = 4 \<and> list_all ipv4_field (split_on (CHR ''.'') s)"

text \<open>
  The groups of an IPv6 address: \<open>i\<close> counts the bytes that have been read, \<open>ellipsis\<close> tells whether a
  double colon was seen; the fuel is the number of groups left.
\<close>

fun ipv6_groups :: "nat \<Rightarrow> nat \<Rightarrow> bool \<Rightarrow> string \<Rightarrow> bool" where
  "ipv6_groups 0 i ellipsis s = (s = [] \<and> \<not> ellipsis)"
| "ipv6_groups (Suc n) i ellipsis s =
     (let group = takeWhile is_hex_digit s;
          rest = dropWhile is_hex_digit s
      in if group = [] \<or> length group > 4 then False
         else if rest \<noteq> [] \<and> hd rest = CHR ''.'' then
           (ellipsis \<or> i = 12) \<and> i + 4 \<le> 16 \<and> is_ipv4 s \<and> (i + 4 = 16 \<longrightarrow> \<not> ellipsis)
         else if rest = [] then (i + 2 = 16) \<noteq> ellipsis
         else if hd rest \<noteq> CHR '':'' \<or> length rest = 1 then False
         else if rest ! 1 = CHR '':'' then
           \<not> ellipsis \<and> (if length rest = 2 then i + 2 < 16 else ipv6_groups n (i + 2) True (drop 2 rest))
         else ipv6_groups n (i + 2) ellipsis (tl rest))"

definition is_ipv6 :: "string \<Rightarrow> bool" where
  "is_ipv6 s =
     (if take 2 s = ''::'' then s = ''::'' \<or> ipv6_groups 8 0 True (drop 2 s) else ipv6_groups 8 0 False s)"

definition ParseIP_ok :: "string \<Rightarrow> bool" where
  "ParseIP_ok s =
     (case find (\<lambda>c. c = CHR ''.'' \<or> c = CHR '':'' \<or> c = CHR ''%'') s of
        None \<Rightarrow> False
      | Some c \<Rightarrow> if c = CHR ''.'' then is_ipv4 s else if c = CHR '':'' then is_ipv6 s else False)"

section \<open>References across namespaces\<close>

definition grants_to :: "string \<Rightarrow> string \<Rightarrow> string \<Rightarrow> ReferenceGrantTo \<Rightarrow> bool" where
  "grants_to toName toGroup toKind grantTo \<longleftrightarrow>
     EqualFold (rgtGroup grantTo) toGroup \<and> EqualFold (rgtKind grantTo) toKind \<and>
     (case rgtName grantTo of None \<Rightarrow> True | Some n \<Rightarrow> EqualFold n toName)"

definition grants_from :: "string \<Rightarrow> string \<Rightarrow> string \<Rightarrow> ReferenceGrantFrom \<Rightarrow> bool" where
  "grants_from fromNamespace fromGroup fromKind grantFrom \<longleftrightarrow>
     EqualFold (rgfGroup grantFrom) fromGroup \<and> EqualFold (rgfKind grantFrom) fromKind \<and>
     EqualFold (rgfNamespace grantFrom) fromNamespace"

definition isRefToNamespaceAllowed ::
  "translator \<Rightarrow> string \<Rightarrow> string \<Rightarrow> string \<Rightarrow> string \<Rightarrow> string \<Rightarrow> string \<Rightarrow> string \<Rightarrow> bool" where
  "isRefToNamespaceAllowed tr fromNamespace fromGroup fromKind toName toNamespace toGroup toKind =
     (if fromNamespace = toNamespace \<or> tDisableGatewayReferenceGrants tr then True
      else list_ex (\<lambda>grant. rgNamespace grant = toNamespace \<and>
             list_ex (grants_to toName toGroup toKind) (rgTo grant) \<and>
             list_ex (grants_from fromNamespace fromGroup fromKind) (rgFrom grant))
           (ListReferenceGrants (tStore tr)))"

abbreviation gateway_group :: string where
  "gateway_group \<equiv> ''gateway.networking.k8s.io''"

section \<open>Listeners\<close>

type_synonym xRouteKind = string

abbreviation xRouteKind_HTTPRoute :: xRouteKind where "xRouteKind_HTTPRoute \<equiv> ''HTTPRoute''"

abbreviation xRouteKind_TCPRoute :: xRouteKind where "xRouteKind_TCPRoute \<equiv> ''TCPRoute''"

abbreviation xRouteKind_TLSRoute :: xRouteKind where "xRouteKind_TLSRoute \<equiv> ''TLSRoute''"

type_synonym label_selector = "LabelSelector \<Rightarrow> ((string \<times> string) list \<Rightarrow> bool) option"

definition kind_allowed :: "xRouteKind \<Rightarrow> string list \<Rightarrow> bool" where
  "kind_allowed routeKind kinds \<longleftrightarrow> kinds = [] \<or> list_ex (\<lambda>k. EqualFold k routeKind) kinds"

definition namespace_allowed ::
  "label_selector \<Rightarrow> Store \<Rightarrow> string \<Rightarrow> string \<Rightarrow> RouteNamespaces ptr \<Rightarrow> bool" where
  "namespace_allowed selector store gatewayNamespace routeNamespace namespaces =
     (let same = (gatewayNamespace = routeNamespace)
      in case namespaces of
           None \<Rightarrow> same
         | Some rn \<Rightarrow>
             (case rnFrom rn of
                None \<Rightarrow> same
              | Some nsPolicy \<Rightarrow>
                  if nsPolicy = ''All'' then True
                  else if nsPolicy = ''Selector'' then
                    (case rnSelector rn of
                       None \<Rightarrow> same
                     | Some ls \<Rightarrow>
                         (case selector ls of
                            None \<Rightarrow> False
                          | Some matches \<Rightarrow>
                              (case GetNamespaceV1 store routeNamespace of
                                 Inl _ \<Rightarrow> False
                               | Inr ns \<Rightarrow> matches (nsLabels ns))))
                  else same))"

definition listener_admits ::
  "label_selector \<Rightarrow> Store \<Rightarrow> Gateway \<Rightarrow> string \<Rightarrow> xRouteKind \<Rightarrow> string ptr \<Rightarrow> int ptr \<Rightarrow> Listener \<Rightarrow> bool" where
  "listener_admits selector store gw routeNamespace routeKind listenerName listenerPort l \<longleftrightarrow>
     (case listenerName of None \<Rightarrow> True | Some n \<Rightarrow> liName l = n) \<and>
     (case listenerPort of None \<Rightarrow> True | Some p \<Rightarrow> liPort l = p) \<and>
     (case liAllowedRoutes l of
        None \<Rightarrow> gwNamespace gw = routeNamespace
      | Some ar \<Rightarrow>
          kind_allowed routeKind (arKinds ar) \<and>
          namespace_allowed selector store (gwNamespace gw) routeNamespace (arNamespaces ar))"

text \<open>The hostname that addresses and routes are matched with; \<open>None\<close> when the listener is skipped.\<close>

definition listener_hostname :: "string list \<Rightarrow> Listener \<Rightarrow> string option" where
  "listener_hostname addresses l =
     (if addresses = [] \<and> (liHostname l = None \<or> liHostname l = Some ''*'' \<or> liHostname l = Some []) then None
      else Some (case liHostname l of None \<Rightarrow> ''*'' | Some h \<Rightarrow> if h = [] then ''*'' else h))"

text \<open>
  How often the loop over the hostnames of a route appends the listener: once for every hostname
  that matches, up to the first \<open>"*"\<close>.
\<close>

fun hostname_hits :: "(string \<Rightarrow> string \<Rightarrow> bool option) \<Rightarrow> string \<Rightarrow> string list \<Rightarrow> nat" where
  "hostname_hits glob lh [] = 0"
| "hostname_hits glob lh (h # hs) =
     (if h = ''*'' then 1
      else if doHostGlobsMatch glob lh h = Some True then Suc (hostname_hits glob lh hs)
      else hostname_hits glob lh hs)"

fun match_listeners ::
  "label_selector \<Rightarrow> (string \<Rightarrow> string \<Rightarrow> bool option) \<Rightarrow> Store \<Rightarrow> Gateway \<Rightarrow> string list \<Rightarrow> string \<Rightarrow> xRouteKind \<Rightarrow>
   string ptr \<Rightarrow> int ptr \<Rightarrow> string list \<Rightarrow> Listener list \<Rightarrow> Listener list \<Rightarrow> Listener list" where
  "match_listeners selector glob store gw addresses ns kind name port hosts acc [] = acc"
| "match_listeners selector glob store gw addresses ns kind name port hosts acc (l # ls) =
     (if \<not> listener_admits selector store gw ns kind name port l
      then match_listeners selector glob store gw addresses ns kind name port hosts acc ls
      else case listener_hostname addresses l of
          None \<Rightarrow> match_listeners selector glob store gw addresses ns kind name port hosts acc ls
        | Some lh \<Rightarrow>
            if list_ex (\<lambda>a. doHostGlobsMatch glob lh a \<noteq> Some True) addresses then []
            else match_listeners selector glob store gw addresses ns kind name port hosts
                   (acc @ replicate (if hosts = [] then 1 else hostname_hits glob lh hosts) l) ls)"

definition matchGatewayListenersToXRoute ::
  "label_selector \<Rightarrow> (string \<Rightarrow> string \<Rightarrow> bool option) \<Rightarrow> Store \<Rightarrow> Gateway \<Rightarrow> string list \<Rightarrow> string \<Rightarrow> xRouteKind \<Rightarrow>
   string ptr \<Rightarrow> int ptr \<Rightarrow> string list \<Rightarrow> Listener list" where
  "matchGatewayListenersToXRoute selector glob store gw addresses ns kind name port hosts =
     match_listeners selector glob store gw addresses ns kind name port hosts [] (gwListeners gw)"

section \<open>TLS termination\<close>

datatype tls_error =
    UnsupportedCertKind string
  | ReferenceNotAllowed string string
  | TLSObjectNotFound store_error
  | SecretNotTLS string
  | MissingTLSData string
  | ReservedOption string

definition TLSOptionKeyPrefix :: string where
  "TLSOptionKeyPrefix = ''ngrok.com/terminate-tls.''"

definition LegacyTLSOptionKeyPrefix :: string where
  "LegacyTLSOptionKeyPrefix = ''k8s.ngrok.com/terminate-tls.''"

definition TLSOptionKeyReservedKeys :: "string list" where
  "TLSOptionKeyReservedKeys =
     map ((@) TLSOptionKeyPrefix)
       [''server_private_key'', ''server_certificate'', ''mutual_tls_certificate_authorities''] @
     map ((@) LegacyTLSOptionKeyPrefix)
       [''server_private_key'', ''server_certificate'', ''mutual_tls_certificate_authorities'']"

definition server_certificate ::
  "translator \<Rightarrow> Gateway \<Rightarrow> SecretObjectReference \<Rightarrow> tls_error + (string \<times> string)" where
  "server_certificate tr gw ref =
     (let ns = (case sorNamespace ref of None \<Rightarrow> gwNamespace gw | Some n \<Rightarrow> n)
      in if (case sorKind ref of None \<Rightarrow> False | Some k \<Rightarrow> \<not> EqualFold k ''Secret'')
         then Inl (UnsupportedCertKind (the (sorKind ref)))
         else if sorNamespace ref \<noteq> None \<and>
             \<not> isRefToNamespaceAllowed tr (gwNamespace gw) gateway_group ''Gateway'' (sorName ref) ns [] ''Secret''
         then Inl (ReferenceNotAllowed (sorName ref) ns)
         else (case GetSecretV1 (tStore tr) (sorName ref) ns of
             Inl e \<Rightarrow> Inl (TLSObjectNotFound e)
           | Inr secret \<Rightarrow>
               if secType secret \<noteq> ''kubernetes.io/tls'' then Inl (SecretNotTLS (secType secret))
               else (case map_of (secData secret) ''tls.key'' of
                   None \<Rightarrow> Inl (MissingTLSData ''tls.key'')
                 | Some key \<Rightarrow>
                     (case map_of (secData secret) ''tls.crt'' of
                        None \<Rightarrow> Inl (MissingTLSData ''tls.crt'')
                      | Some cert \<Rightarrow> Inr (key, cert)))))"

definition certificate_authority :: "translator \<Rightarrow> Gateway \<Rightarrow> ObjectReference \<Rightarrow> tls_error + string" where
  "certificate_authority tr gw ref =
     (let ns = (case orefNamespace ref of None \<Rightarrow> gwNamespace gw | Some n \<Rightarrow> n)
      in if orefNamespace ref \<noteq> None \<and>
             \<not> isRefToNamespaceAllowed tr (gwNamespace gw) gateway_group ''Gateway'' (orefName ref) ns [] ''ConfigMap''
         then Inl (ReferenceNotAllowed (orefName ref) ns)
         else if \<not> EqualFold (orefKind ref) ''ConfigMap'' then Inl (UnsupportedCertKind (orefKind ref))
         else (case GetConfigMapV1 (tStore tr) (orefName ref) ns of
             Inl e \<Rightarrow> Inl (TLSObjectNotFound e)
           | Inr configMap \<Rightarrow>
               (case map_of (cmData configMap) ''ca.crt'' of
                  None \<Rightarrow> Inl (MissingTLSData ''ca.crt'')
                | Some ca \<Rightarrow> Inr ca)))"

definition frontend_authorities :: "Gateway \<Rightarrow> ObjectReference list" where
  "frontend_authorities gw =
     (case gwTLS gw of
        None \<Rightarrow> []
      | Some t \<Rightarrow>
          (case gtFrontend t of
             None \<Rightarrow> []
           | Some f \<Rightarrow>
               (case ftDefaultValidation f of None \<Rightarrow> [] | Some v \<Rightarrow> fvCACertificateRefs v)))"

text \<open>The suffix under which an option is stored; \<open>None\<close> for options that are passed over.\<close>

definition option_suffix :: "(string \<times> string) list \<Rightarrow> string \<Rightarrow> string option" where
  "option_suffix options key =
     (if has_prefix TLSOptionKeyPrefix key then Some (drop (length TLSOptionKeyPrefix) key)
      else if has_prefix LegacyTLSOptionKeyPrefix key then
        (let suffix = drop (length LegacyTLSOptionKeyPrefix) key
         in if list_ex (\<lambda>(k, _). k = TLSOptionKeyPrefix @ suffix) options then None else Some suffix)
      else None)"

fun extended_options ::
  "(string \<times> string) list \<Rightarrow> (string \<times> string) list \<Rightarrow> (string \<times> string) list \<Rightarrow>
   tls_error + (string \<times> string) list" where
  "extended_options options acc [] = Inr acc"
| "extended_options options acc ((key, val) # rest) =
     (case option_suffix options key of
        None \<Rightarrow> extended_options options acc rest
      | Some suffix \<Rightarrow>
          if key \<in> set TLSOptionKeyReservedKeys then Inl (ReservedOption key)
          else extended_options options (AList.update suffix val acc) rest)"

definition gatewayTLSTermConfigToIR ::
  "translator \<Rightarrow> ListenerTLSConfig ptr \<Rightarrow> Gateway \<Rightarrow> tls_error + IRTLSTermination ptr" where
  "gatewayTLSTermConfigToIR tr listenerTLS gw =
     (case listenerTLS of
        None \<Rightarrow> Inr None
      | Some tls \<Rightarrow>
          (case (case ltCertificateRefs tls of
                   [] \<Rightarrow> Inr None
                 | ref # _ \<Rightarrow> map_sum id Some (server_certificate tr gw ref)) of
             Inl e \<Rightarrow> Inl e
           | Inr pair \<Rightarrow>
               (case traverse (certificate_authority tr gw) (frontend_authorities gw) of
                  Inl e \<Rightarrow> Inl e
                | Inr cas \<Rightarrow>
                    (case extended_options (ltOptions tls) [] (ltOptions tls) of
                       Inl e \<Rightarrow> Inl e
                     | Inr opts \<Rightarrow>
                         Inr (Some \<lparr>tlsExtendedOptions = opts, tlsServerPrivateKey = map_option fst pair,
                           tlsServerCertificate = map_option snd pair,
                           tlsMutualTLSCertificateAuthorities = cas\<rparr>)))))"

end
