(* ===== verification/Gateway_Translation.thy ===== *)
theory Gateway_Translation
  imports Gateway_Matching
begin

text \<open>
  \<^bold>\<open>pkg/managerdriver/translate_gatewayapi.go\<close>: from the stored gateways and routes to virtual hosts, and
  \<open>Translate\<close> of \<^bold>\<open>translator.go\<close>, which merges them with those of the ingresses.

  A virtual host is a shared object: it is identified by its gateway and its listener, the keys of
  the map \<open>virtualHostsPerGateway\<close> that holds it. The upstreams and the traffic policies are objects of
  the store \<open>ir_heap\<close>. The map of labels is one object too: every virtual host's \<open>LabelsToAdd\<close> is the map
  \<open>managedResourceLabels\<close> of the translator, so it is a part of the state (\<open>gsLabels\<close>), and the virtual
  hosts get it when the translation is done. A nil pointer that is dereferenced is the error
  \<open>NilDereference\<close>.

  Arguments (\<open>gateway_env\<close>): the JSON parser, the glob matcher, the label selectors, and the order in
  which Go ranges over the set of the virtual hosts that match a route. Log messages are left out.
\<close>

section \<open>State\<close>

type_synonym vhost_id = "NamespacedName \<times> IRListener"

record gateway_env =
  geParse :: "string \<Rightarrow> raw_json"
  geGlob :: "string \<Rightarrow> string \<Rightarrow> bool option"
  geSelector :: label_selector
  geOrder :: "vhost_id list \<Rightarrow> vhost_id list"

record gateway_state =
  gsHeap :: ir_heap
  gsVHosts :: "(NamespacedName \<times> (IRListener \<times> IRVirtualHost) list) list"
  gsUpstreams :: "(IRServiceKey \<times> addr) list"
  gsLabels :: "(string \<times> string) list"

definition vhosts_of :: "gateway_state \<Rightarrow> NamespacedName \<Rightarrow> (IRListener \<times> IRVirtualHost) list" where
  "vhosts_of st gk = (case map_of (gsVHosts st) gk of None \<Rightarrow> [] | Some vs \<Rightarrow> vs)"

definition get_vhost :: "gateway_state \<Rightarrow> vhost_id \<Rightarrow> IRVirtualHost option" where
  "get_vhost st vid = map_of (vhosts_of st (fst vid)) (snd vid)"

definition put_vhost :: "vhost_id \<Rightarrow> IRVirtualHost \<Rightarrow> gateway_state \<Rightarrow> gateway_state" where
  "put_vhost vid v st =
     st\<lparr>gsVHosts := AList.update (fst vid) (AList.update (snd vid) v (vhosts_of st (fst vid))) (gsVHosts st)\<rparr>"

section \<open>Backends\<close>

datatype gateway_backend_error =
    BackendKindUnsupported string
  | BackendRefNotAllowed string string
  | BackendPortMissing string string
  | BackendServiceNotFound store_error
  | BackendPortNotFound string string

text \<open>The upstream of a service: the cached object, or a new one without owners.\<close>

definition gateway_upstream :: "IRService \<Rightarrow> gateway_state \<Rightarrow> addr \<times> gateway_state" where
  "gateway_upstream s st =
     (let hp = gsHeap st
      in case map_of (gsUpstreams st) (Key s) of
           Some a \<Rightarrow> (a, st)
         | None \<Rightarrow>
             (length (hpUpstreams hp),
              st\<lparr>gsHeap := hp\<lparr>hpUpstreams := hpUpstreams hp @ [\<lparr>uOwningResources = [], uService = s\<rparr>]\<rparr>,
                 gsUpstreams := AList.update (Key s) (length (hpUpstreams hp)) (gsUpstreams st)\<rparr>))"

text \<open>
  The service of a backend reference of a route. \<open>defaultProto\<close> is the protocol of a port without
  annotation; client certificates are used for upstreams of the scheme \<open>certScheme\<close>.
\<close>

definition backend_ref_service ::
  "(string \<Rightarrow> raw_json) \<Rightarrow> translator \<Rightarrow> string \<Rightarrow> xRouteKind \<Rightarrow> IRProtocol \<Rightarrow> IRScheme \<Rightarrow> IRObjectRef list \<Rightarrow>
   'a BackendRef_scheme \<Rightarrow> gateway_backend_error + IRService" where
  "backend_ref_service parse tr routeNamespace routeKind defaultProto certScheme certs ref =
     (let serviceName = brName ref;
          other = (case brNamespace ref of None \<Rightarrow> None | Some n \<Rightarrow> if n = [] then None else Some n);
          serviceNamespace = (case other of None \<Rightarrow> routeNamespace | Some n \<Rightarrow> n)
      in if other \<noteq> None \<and> \<not> isRefToNamespaceAllowed tr routeNamespace gateway_group routeKind serviceName
                               serviceNamespace [] ''Service''
         then Inl (BackendRefNotAllowed serviceName serviceNamespace)
         else (case brPort ref of
             None \<Rightarrow> Inl (BackendPortMissing serviceName serviceNamespace)
           | Some port \<Rightarrow>
               (case GetServiceV1 (tStore tr) serviceName serviceNamespace of
                  Inl e \<Rightarrow> Inl (BackendServiceNotFound e)
                | Inr service \<Rightarrow>
                    (case findServicesPort service \<lparr>sbpName = [], sbpNumber = port\<rparr> of
                       None \<Rightarrow> Inl (BackendPortNotFound serviceName serviceNamespace)
                     | Some servicePort \<Rightarrow>
                         let portProto = fst (getProtoForServicePort parse service (spName servicePort) defaultProto);
                             irScheme = fst (protocolStringToIRScheme portProto)
                         in Inr \<lparr>sUID = svcUID service, sNamespace = serviceNamespace, sName = serviceName,
                                 sPort = spPort servicePort,
                                 sClientCertRefs = (if irScheme = certScheme then certs else []),
                                 sScheme = irScheme, sProtocol = None\<rparr>))))"

text \<open>The destination of a backend reference, with the policies \<open>pols\<close> of its filters.\<close>

definition backend_destination ::
  "(string \<Rightarrow> raw_json) \<Rightarrow> translator \<Rightarrow> string \<Rightarrow> xRouteKind \<Rightarrow> IRProtocol \<Rightarrow> IRScheme \<Rightarrow> IRObjectRef list \<Rightarrow>
   TrafficPolicy list \<Rightarrow> 'a BackendRef_scheme \<Rightarrow> gateway_state \<Rightarrow>
   (gateway_backend_error + IRDestination) \<times> gateway_state" where
  "backend_destination parse tr routeNamespace routeKind defaultProto certScheme certs pols ref st =
     (let destination = \<lparr>dWeight = brWeight ref, dUpstream = None, dTrafficPolicies = pols\<rparr>
      in if (case brKind ref of None \<Rightarrow> False | Some k \<Rightarrow> \<not> EqualFold k ''Service'')
         then (Inl (BackendKindUnsupported routeKind), st)
         else if brName ref = [] then (Inr destination, st)
         else (case backend_ref_service parse tr routeNamespace routeKind defaultProto certScheme certs ref of
             Inl e \<Rightarrow> (Inl e, st)
           | Inr s \<Rightarrow>
               let (a, st') = gateway_upstream s st
               in (Inr (destination\<lparr>dUpstream := Some a\<rparr>), st')))"

definition filter_policies ::
  "translator \<Rightarrow> string \<Rightarrow> IRHTTPMatch ptr \<Rightarrow> HTTPRouteFilter list \<Rightarrow> TrafficPolicy list" where
  "filter_policies tr namespace matchCriteria fs =
     concat (map (\<lambda>f. case gatewayAPIFilterToTrafficPolicy f namespace (tStore tr) matchCriteria of
                        Inl _ \<Rightarrow> [] | Inr tp \<Rightarrow> [tp]) fs)"

definition httpRouteBackendToIR ::
  "(string \<Rightarrow> raw_json) \<Rightarrow> translator \<Rightarrow> HTTPRoute \<Rightarrow> IRHTTPMatch ptr \<Rightarrow> IRObjectRef list \<Rightarrow> HTTPBackendRef \<Rightarrow>
   gateway_state \<Rightarrow> (gateway_backend_error + IRDestination) \<times> gateway_state" where
  "httpRouteBackendToIR parse tr route matchCriteria certs ref st =
     backend_destination parse tr (hroNamespace route) xRouteKind_HTTPRoute IRProtocol_HTTP IRScheme_HTTPS certs
       (filter_policies tr (hroNamespace route) matchCriteria (brFilters ref)) ref st"

definition tcpBackendToIR ::
  "(string \<Rightarrow> raw_json) \<Rightarrow> translator \<Rightarrow> string \<Rightarrow> xRouteKind \<Rightarrow> IRObjectRef list \<Rightarrow> BackendRef \<Rightarrow>
   gateway_state \<Rightarrow> (gateway_backend_error + IRDestination) \<times> gateway_state" where
  "tcpBackendToIR parse tr routeNamespace routeKind certs ref st =
     backend_destination parse tr routeNamespace routeKind
       (if routeKind = xRouteKind_TLSRoute then IRProtocol_TLS else IRProtocol_TCP) IRScheme_TLS certs [] ref st"

text \<open>The loop over backend references: one that fails is logged and passed over.\<close>

fun backends ::
  "('r \<Rightarrow> gateway_state \<Rightarrow> (gateway_backend_error + IRDestination) \<times> gateway_state) \<Rightarrow> 'r list \<Rightarrow>
   gateway_state \<Rightarrow> IRDestination list \<times> gateway_state" where
  "backends toIR [] st = ([], st)"
| "backends toIR (ref # refs) st =
     (case toIR ref st of
        (Inl _, st') \<Rightarrow> backends toIR refs st'
      | (Inr d, st') \<Rightarrow> let (ds, st'') = backends toIR refs st' in (d # ds, st''))"

section \<open>Rules\<close>

definition tcpRouteRulesToIR ::
  "(string \<Rightarrow> raw_json) \<Rightarrow> translator \<Rightarrow> IRVirtualHost \<Rightarrow> TCPRoute \<Rightarrow> gateway_state \<Rightarrow> IRRoute list \<times> gateway_state" where
  "tcpRouteRulesToIR parse tr v route st =
     (let (ds, st') = backends (tcpBackendToIR parse tr (troNamespace route) xRouteKind_TCPRoute (vhClientCertRefs v))
                        (concat (troRules route)) st
      in (if ds = [] then []
          else [\<lparr>rtHTTPMatchCriteria = None, rtTrafficPolicies = [], rtDestinations = ds\<rparr>], st'))"

definition tlsRouteRulesToIR ::
  "(string \<Rightarrow> raw_json) \<Rightarrow> translator \<Rightarrow> IRVirtualHost \<Rightarrow> TLSRoute \<Rightarrow> gateway_state \<Rightarrow> IRRoute list \<times> gateway_state" where
  "tlsRouteRulesToIR parse tr v route st =
     (let (ds, st') = backends (tcpBackendToIR parse tr (tlroNamespace route) xRouteKind_TLSRoute (vhClientCertRefs v))
                        (concat (tlroRules route)) st
      in (if ds = [] then []
          else [\<lparr>rtHTTPMatchCriteria = None, rtTrafficPolicies = [], rtDestinations = ds\<rparr>], st'))"

text \<open>One route for each match of each rule.\<close>

definition http_match_route ::
  "(string \<Rightarrow> raw_json) \<Rightarrow> translator \<Rightarrow> IRVirtualHost \<Rightarrow> HTTPRoute \<Rightarrow> HTTPRouteRule \<Rightarrow> HTTPRouteMatch \<Rightarrow>
   gateway_state \<Rightarrow> IRRoute list \<times> gateway_state" where
  "http_match_route parse tr v route rule match st =
     (let mc = Some (GatewayAPIHTTPMatchToIR match);
          pols = filter_policies tr (hroNamespace route) mc (hruFilters rule);
          (ds, st') = backends (httpRouteBackendToIR parse tr route mc (vhClientCertRefs v)) (hruBackendRefs rule) st
      in (if pols = [] \<and> ds = [] then []
          else [\<lparr>rtHTTPMatchCriteria = mc, rtTrafficPolicies = pols, rtDestinations = ds\<rparr>], st'))"

fun routes_loop ::
  "('m \<Rightarrow> gateway_state \<Rightarrow> IRRoute list \<times> gateway_state) \<Rightarrow> 'm list \<Rightarrow> gateway_state \<Rightarrow>
   IRRoute list \<times> gateway_state" where
  "routes_loop f [] st = ([], st)"
| "routes_loop f (x # xs) st =
     (let (rs, st') = f x st; (rs', st'') = routes_loop f xs st' in (rs @ rs', st''))"

definition httpRouteRulesToIR ::
  "(string \<Rightarrow> raw_json) \<Rightarrow> translator \<Rightarrow> IRVirtualHost \<Rightarrow> HTTPRoute \<Rightarrow> gateway_state \<Rightarrow>
   IRRoute list \<times> gateway_state" where
  "httpRouteRulesToIR parse tr v route st =
     routes_loop (\<lambda>(rule, match). http_match_route parse tr v route rule match)
       (concat (map (\<lambda>rule. map (Pair rule) (hruMatches rule)) (hroRules route))) st"

section \<open>The virtual hosts of a route\<close>

definition gateway_address_hostnames :: "Gateway \<Rightarrow> string list" where
  "gateway_address_hostnames gw =
     foldl (\<lambda>hs a. if gaType a \<noteq> Some ''Hostname'' \<or> ParseIP_ok (gaValue a) then hs
                   else appendStringUnique hs [gaValue a]) [] (gwAddresses gw)"

text \<open>The reference to the client certificate; \<open>None\<close> when it is not allowed.\<close>

definition gateway_client_certs :: "translator \<Rightarrow> Gateway \<Rightarrow> IRObjectRef list option" where
  "gateway_client_certs tr gw =
     (case (case gwTLS gw of
              None \<Rightarrow> None
            | Some t \<Rightarrow> (case gtBackend t of None \<Rightarrow> None | Some b \<Rightarrow> gbClientCertificateRef b)) of
        None \<Rightarrow> Some []
      | Some ref \<Rightarrow>
          let ns = (case sorNamespace ref of None \<Rightarrow> gwNamespace gw | Some n \<Rightarrow> n)
          in if isRefToNamespaceAllowed tr (gwNamespace gw) gateway_group ''Gateway'' (sorName ref) ns [] ''Secret''
             then Some [\<lparr>refName = sorName ref, refNamespace = ns\<rparr>] else None)"

record gateway_config =
  gcfPooling :: "bool ptr"
  gcfTrafficPolicy :: "addr ptr"
  gcfTrafficPolicyRef :: "OwningResource ptr"
  gcfBindings :: "string list"
  gcfMetadata :: string
  gcfDescription :: string
  gcfClientCerts :: "IRObjectRef list"
  gcfMappingStrategy :: IRMappingStrategy

text \<open>
  What is read from the gateway before its listeners are looked at; the parsed traffic policy is a
  new object. \<open>None\<close> when the parent reference is passed over.
\<close>

definition gateway_settings :: "translator \<Rightarrow> Gateway \<Rightarrow> gateway_state \<Rightarrow> (gateway_config \<times> gateway_state) option" where
  "gateway_settings tr gw st =
     (let anns = gwAnnotations gw
      in case trafficPolicyFromAnnotation (tStore tr) anns (gwNamespace gw) of
           Inl _ \<Rightarrow> None
         | Inr policy \<Rightarrow>
             (case ExtractUseBindings anns of
                Inl _ \<Rightarrow> None
              | Inr bindings \<Rightarrow>
                  (case gateway_client_certs tr gw of
                     None \<Rightarrow> None
                   | Some certs \<Rightarrow>
                       let hp = gsHeap st;
                           (tp, hp') = (case policy of
                               None \<Rightarrow> (None, hp)
                             | Some (p, _) \<Rightarrow>
                                 (Some (length (hpPolicies hp)), hp\<lparr>hpPolicies := hpPolicies hp @ [p]\<rparr>))
                       in Some (\<lparr>gcfPooling = (case ExtractUseEndpointPooling anns of Inl _ \<Rightarrow> None | Inr p \<Rightarrow> p),
                            gcfTrafficPolicy = tp, gcfTrafficPolicyRef = map_option snd policy,
                            gcfBindings = bindings, gcfMetadata = or_empty (ExtractMetadata anns),
                            gcfDescription = or_empty (ExtractDescription anns), gcfClientCerts = certs,
                            gcfMappingStrategy = fst (MappingStrategyAnnotationToIR anns)\<rparr>,
                            st\<lparr>gsHeap := hp'\<rparr>))))"

text \<open>The TLS termination of a listener; \<open>None\<close> when the listener is passed over.\<close>

definition listener_termination :: "translator \<Rightarrow> Gateway \<Rightarrow> Listener \<Rightarrow> IRTLSTermination ptr option" where
  "listener_termination tr gw l =
     (if (case liTLS l of
            None \<Rightarrow> False
          | Some tls \<Rightarrow>
              liProtocol l = ''HTTPS'' \<and> ltMode tls = Some ''Passthrough'' \<or>
              liProtocol l = ''HTTP'' \<or> liProtocol l = ''TCP'')
      then None
      else if liProtocol l = ''TLS'' \<or> liProtocol l = ''HTTPS'' then
        (case gatewayTLSTermConfigToIR tr (liTLS l) gw of Inl _ \<Rightarrow> None | Inr t \<Rightarrow> Some t)
      else Some None)"

definition listener_protocol :: "string \<Rightarrow> IRProtocol option" where
  "listener_protocol p =
     (if p = ''HTTP'' then Some IRProtocol_HTTP
      else if p = ''HTTPS'' then Some IRProtocol_HTTPS
      else if p = ''TCP'' then Some IRProtocol_TCP
      else if p = ''TLS'' then Some IRProtocol_TLS
      else None)"

definition gateway_id :: "Gateway \<Rightarrow> NamespacedName" where
  "gateway_id gw = \<lparr>nnName = gwName gw, nnNamespace = gwNamespace gw\<rparr>"

definition gateway_owner :: "Gateway \<Rightarrow> OwningResource" where
  "gateway_owner gw = \<lparr>orKind = ''Gateway'', orName = gwName gw, orNamespace = gwNamespace gw\<rparr>"

definition name_prefix :: "Gateway \<Rightarrow> IRListener \<Rightarrow> string" where
  "name_prefix gw li =
     gwName gw @ ''.'' @ gwNamespace gw @
     (if lProtocol li = IRProtocol_TCP \<or> lProtocol li = IRProtocol_TLS then ''.'' @ itoa (lPort li) else [])"

definition new_gateway_vhost ::
  "(string \<Rightarrow> raw_json) \<Rightarrow> translator \<Rightarrow> Gateway \<Rightarrow> gateway_config \<Rightarrow> IRTLSTermination ptr \<Rightarrow> IRListener \<Rightarrow>
   IRVirtualHost" where
  "new_gateway_vhost parse tr gw cfg tls li =
     \<lparr>vhNamePrefix = Some (name_prefix gw li), vhNamespace = gwNamespace gw, vhListener = li,
      vhEndpointPoolingEnabled = gcfPooling cfg, vhTrafficPolicy = gcfTrafficPolicy cfg,
      vhTrafficPolicyObjRef = gcfTrafficPolicyRef cfg, vhRoutes = [], vhDefaultDestination = None,
      vhTLSTermination = tls, vhClientCertRefs = gcfClientCerts cfg, vhLabelsToAdd = [],
      vhAnnotationsToAdd = [], vhOwningResources = [],
      vhMetadata = MergeMetadata (raw_text parse (tDefaultGatewayMetadata tr)) (raw_text parse (gcfMetadata cfg)),
      vhDescription = gcfDescription cfg, vhBindings = gcfBindings cfg,
      vhMappingStrategy = gcfMappingStrategy cfg, vhCollapseIntoServiceKey = None\<rparr>"

definition add_all :: "(string \<times> string) list \<Rightarrow> (string \<times> string) list \<Rightarrow> (string \<times> string) list" where
  "add_all new m = fold (\<lambda>(k, v). AList.update k v) new m"

text \<open>The virtual host of a listener and a hostname, made or updated.\<close>

definition listener_vhost ::
  "(string \<Rightarrow> raw_json) \<Rightarrow> translator \<Rightarrow> Gateway \<Rightarrow> gateway_config \<Rightarrow> OwningResource \<Rightarrow> IRTLSTermination ptr \<Rightarrow>
   IRListener \<Rightarrow> gateway_state \<Rightarrow> gateway_state" where
  "listener_vhost parse tr gw cfg routeOwner tls li st =
     (let vid = (gateway_id gw, li);
          v0 = (case get_vhost st vid of Some v \<Rightarrow> v | None \<Rightarrow> new_gateway_vhost parse tr gw cfg tls li);
          v1 = AddOwningResource (AddOwningResource v0 (gateway_owner gw)) routeOwner
      in case gwInfrastructure gw of
           None \<Rightarrow> put_vhost vid v1 st
         | Some infra \<Rightarrow>
             put_vhost vid (v1\<lparr>vhAnnotationsToAdd := add_all (giAnnotations infra) (vhAnnotationsToAdd v1)\<rparr>)
               (st\<lparr>gsLabels := add_all (giLabels infra) (gsLabels st)\<rparr>))"

definition listener_hostnames :: "string list \<Rightarrow> Listener \<Rightarrow> panic + string list" where
  "listener_hostnames addresses l =
     (if addresses = [] then (case liHostname l of None \<Rightarrow> Inl NilDereference | Some h \<Rightarrow> Inr [h])
      else Inr addresses)"

type_synonym matched = "vhost_id list \<times> gateway_state"

fun hostname_vhosts ::
  "(string \<Rightarrow> raw_json) \<Rightarrow> translator \<Rightarrow> Gateway \<Rightarrow> gateway_config \<Rightarrow> OwningResource \<Rightarrow> IRTLSTermination ptr \<Rightarrow>
   Listener \<Rightarrow> string list \<Rightarrow> matched \<Rightarrow> matched" where
  "hostname_vhosts parse tr gw cfg routeOwner tls l [] acc = acc"
| "hostname_vhosts parse tr gw cfg routeOwner tls l (h # hs) (ids, st) =
     (case listener_protocol (liProtocol l) of
        None \<Rightarrow> hostname_vhosts parse tr gw cfg routeOwner tls l hs (ids, st)
      | Some proto \<Rightarrow>
          let li = \<lparr>lHostname = h, lPort = liPort l, lProtocol = proto\<rparr>
          in hostname_vhosts parse tr gw cfg routeOwner tls l hs
               (append_new ids (gateway_id gw, li), listener_vhost parse tr gw cfg routeOwner tls li st))"

definition listener_step ::
  "(string \<Rightarrow> raw_json) \<Rightarrow> translator \<Rightarrow> Gateway \<Rightarrow> gateway_config \<Rightarrow> OwningResource \<Rightarrow> string list \<Rightarrow> Listener \<Rightarrow>
   matched \<Rightarrow> panic + matched" where
  "listener_step parse tr gw cfg routeOwner addresses l acc =
     (case listener_termination tr gw l of
        None \<Rightarrow> Inr acc
      | Some tls \<Rightarrow>
          (case listener_hostnames addresses l of
             Inl p \<Rightarrow> Inl p
           | Inr hs \<Rightarrow> Inr (hostname_vhosts parse tr gw cfg routeOwner tls l hs acc)))"

text \<open>One parent reference of a route. \<open>gateways\<close> is the map of the operator's gateways.\<close>

definition parent_step ::
  "gateway_env \<Rightarrow> translator \<Rightarrow> (NamespacedName \<times> Gateway) list \<Rightarrow> OwningResource \<Rightarrow> string list \<Rightarrow>
   ParentReference \<Rightarrow> matched \<Rightarrow> panic + matched" where
  "parent_step env tr gateways routeOwner routeHostnames ref acc =
     (let refNamespace = (case prNamespace ref of None \<Rightarrow> orNamespace routeOwner | Some n \<Rightarrow> n)
      in case map_of gateways \<lparr>nnName = prName ref, nnNamespace = refNamespace\<rparr> of
           None \<Rightarrow> Inr acc
         | Some gw \<Rightarrow>
             (case gateway_settings tr gw (snd acc) of
                None \<Rightarrow> Inr acc
              | Some (cfg, st) \<Rightarrow>
                  let addresses = gateway_address_hostnames gw
                  in fold_sum (listener_step (geParse env) tr gw cfg routeOwner addresses)
                       (matchGatewayListenersToXRoute (geSelector env) (geGlob env) (tStore tr) gw addresses
                          (orNamespace routeOwner) (orKind routeOwner) (prSectionName ref) (prPort ref) routeHostnames)
                       (fst acc, st)))"

definition findMatchingVHostsForXRoute ::
  "gateway_env \<Rightarrow> translator \<Rightarrow> (NamespacedName \<times> Gateway) list \<Rightarrow> OwningResource \<Rightarrow> string list \<Rightarrow>
   ParentReference list \<Rightarrow> gateway_state \<Rightarrow> panic + matched" where
  "findMatchingVHostsForXRoute env tr gateways routeOwner routeHostnames refs st =
     fold_sum (parent_step env tr gateways routeOwner routeHostnames) refs ([], st)"

section \<open>Routes\<close>

text \<open>The upstream of a destination inherits the owners of the virtual host.\<close>

definition inherit_owners :: "IRVirtualHost \<Rightarrow> IRDestination \<Rightarrow> ir_heap \<Rightarrow> ir_heap" where
  "inherit_owners v d hp =
     (case dUpstream d of
        None \<Rightarrow> hp
      | Some a \<Rightarrow>
          hp\<lparr>hpUpstreams := (hpUpstreams hp)[a :=
            foldl IRUpstream_AddOwningResource (hpUpstreams hp ! a) (vhOwningResources v)]\<rparr>)"

text \<open>The routes that \<open>rules\<close> makes for a virtual host are appended to it.\<close>

definition attach_routes ::
  "(IRVirtualHost \<Rightarrow> gateway_state \<Rightarrow> IRRoute list \<times> gateway_state) \<Rightarrow> vhost_id \<Rightarrow> gateway_state \<Rightarrow> gateway_state" where
  "attach_routes rules vid st =
     (case get_vhost st vid of
        None \<Rightarrow> st
      | Some v \<Rightarrow>
          let (rs, st') = rules v st
          in put_vhost vid (v\<lparr>vhRoutes := vhRoutes v @ rs\<rparr>)
               (st'\<lparr>gsHeap := fold (\<lambda>r. fold (inherit_owners v) (rtDestinations r)) rs (gsHeap st')\<rparr>))"

text \<open>A route of any kind: its virtual hosts first, then its rules for each of them.\<close>

definition route_step ::
  "gateway_env \<Rightarrow> translator \<Rightarrow> (NamespacedName \<times> Gateway) list \<Rightarrow> OwningResource \<Rightarrow> string list \<Rightarrow>
   ParentReference list \<Rightarrow> (IRVirtualHost \<Rightarrow> gateway_state \<Rightarrow> IRRoute list \<times> gateway_state) \<Rightarrow>
   gateway_state \<Rightarrow> panic + gateway_state" where
  "route_step env tr gateways routeOwner hosts refs rules st =
     (case findMatchingVHostsForXRoute env tr gateways routeOwner hosts refs st of
        Inl p \<Rightarrow> Inl p
      | Inr (ids, st') \<Rightarrow> Inr (fold (attach_routes rules) (geOrder env ids) st'))"

definition HTTPRouteToIR ::
  "gateway_env \<Rightarrow> translator \<Rightarrow> (NamespacedName \<times> Gateway) list \<Rightarrow> HTTPRoute \<Rightarrow> gateway_state \<Rightarrow>
   panic + gateway_state" where
  "HTTPRouteToIR env tr gateways route st =
     route_step env tr gateways
       \<lparr>orKind = xRouteKind_HTTPRoute, orName = hroName route, orNamespace = hroNamespace route\<rparr>
       (hroHostnames route) (hroParentRefs route) (\<lambda>v. httpRouteRulesToIR (geParse env) tr v route) st"

definition TCPRouteToIR ::
  "gateway_env \<Rightarrow> translator \<Rightarrow> (NamespacedName \<times> Gateway) list \<Rightarrow> TCPRoute \<Rightarrow> gateway_state \<Rightarrow>
   panic + gateway_state" where
  "TCPRouteToIR env tr gateways route st =
     route_step env tr gateways
       \<lparr>orKind = xRouteKind_TCPRoute, orName = troName route, orNamespace = troNamespace route\<rparr>
       [] (troParentRefs route) (\<lambda>v. tcpRouteRulesToIR (geParse env) tr v route) st"

definition TLSRouteToIR ::
  "gateway_env \<Rightarrow> translator \<Rightarrow> (NamespacedName \<times> Gateway) list \<Rightarrow> TLSRoute \<Rightarrow> gateway_state \<Rightarrow>
   panic + gateway_state" where
  "TLSRouteToIR env tr gateways route st =
     route_step env tr gateways
       \<lparr>orKind = xRouteKind_TLSRoute, orName = tlroName route, orNamespace = tlroNamespace route\<rparr>
       (tlroHostnames route) (tlroParentRefs route) (\<lambda>v. tlsRouteRulesToIR (geParse env) tr v route) st"

section \<open>All gateways\<close>

definition gateway_map :: "translator \<Rightarrow> (NamespacedName \<times> Gateway) list" where
  "gateway_map tr = fold (\<lambda>gw. AList.update (gateway_id gw) gw) (ListNgrokGateways (tStore tr)) []"

definition start_state :: "translator \<Rightarrow> ir_heap \<Rightarrow> gateway_state" where
  "start_state tr hp =
     \<lparr>gsHeap = hp, gsVHosts = [], gsUpstreams = [], gsLabels = tManagedResourceLabels tr\<rparr>"

definition gateways_state :: "gateway_env \<Rightarrow> translator \<Rightarrow> ir_heap \<Rightarrow> panic + gateway_state" where
  "gateways_state env tr hp =
     (let gateways = gateway_map tr
      in case fold_sum (HTTPRouteToIR env tr gateways) (ListHTTPRoutes (tStore tr)) (start_state tr hp) of
           Inl p \<Rightarrow> Inl p
         | Inr st \<Rightarrow>
             (case fold_sum (TCPRouteToIR env tr gateways) (ListTCPRoutes (tStore tr)) st of
                Inl p \<Rightarrow> Inl p
              | Inr st' \<Rightarrow> fold_sum (TLSRouteToIR env tr gateways) (ListTLSRoutes (tStore tr)) st'))"

definition all_vhosts :: "gateway_state \<Rightarrow> IRVirtualHost list" where
  "all_vhosts st = concat (map (\<lambda>(_, vs). map snd vs) (gsVHosts st))"

definition gatewayAPIToIR ::
  "gateway_env \<Rightarrow> (IRVirtualHost list \<Rightarrow> IRVirtualHost list) \<Rightarrow> translator \<Rightarrow> ir_heap \<Rightarrow>
   panic + (IRVirtualHost list \<times> gateway_state)" where
  "gatewayAPIToIR env vorder tr hp =
     (case gateways_state env tr hp of
        Inl p \<Rightarrow> Inl p
      | Inr st \<Rightarrow> Inr (vorder (all_vhosts st), st))"

section \<open>Translate\<close>

text \<open>The labels of all virtual hosts, those of ingresses too, are the translator's one map.\<close>

definition with_labels :: "(string \<times> string) list \<Rightarrow> IRVirtualHost \<Rightarrow> IRVirtualHost" where
  "with_labels labels v = v\<lparr>vhLabelsToAdd := labels\<rparr>"

definition Translate ::
  "gateway_env \<Rightarrow> (string \<Rightarrow> string) \<Rightarrow> (agent_cache \<Rightarrow> agent_cache) \<Rightarrow>
   (IRVirtualHost list \<Rightarrow> IRVirtualHost list) \<Rightarrow> translator \<Rightarrow>
   panic + ((NamespacedName \<times> CloudEndpoint) list \<times> (NamespacedName \<times> AgentEndpoint) list)" where
  "Translate env sha order vorder tr =
     (let (ingressVirtualHosts, hp) = ingressesToIR (geParse env) vorder tr
      in case gatewayAPIToIR env vorder tr hp of
           Inl p \<Rightarrow> Inl p
         | Inr (gatewayVirtualHosts, st) \<Rightarrow>
             translate_vhosts sha order tr (gsHeap st)
               (map (with_labels (gsLabels st)) (ingressVirtualHosts @ gatewayVirtualHosts)))"

end
