(* ===== verification/Gateway_Correctness.thy ===== *)
theory Gateway_Correctness
  imports Gateway_Translation
begin

text \<open>
  Correctness of the translation of gateways: what the virtual hosts made from gateways and routes may
  refer to and who may attach to them, that nothing is dereferenced that may be nil, and what the
  filters and TLS options mean.
\<close>

section \<open>The map of virtual hosts\<close>

text \<open>
  The interface that the proofs use: a lookup sees the last change, and the listing holds exactly the
  virtual hosts that can be looked up.
\<close>

locale vhost_store =
  fixes get :: "'s \<Rightarrow> 'i \<Rightarrow> 'v option"
    and put :: "'i \<Rightarrow> 'v \<Rightarrow> 's \<Rightarrow> 's"
    and listing :: "'s \<Rightarrow> 'v list"
    and wf :: "'s \<Rightarrow> bool"
  assumes get_put: "get (put i v s) j = (if j = i then Some v else get s j)"
    and wf_put: "wf s \<Longrightarrow> wf (put i v s)"
    and listed: "wf s \<Longrightarrow> v \<in> set (listing s) \<Longrightarrow> \<exists>i. get s i = Some v"
begin

definition all_satisfy :: "('i \<Rightarrow> 'v \<Rightarrow> bool) \<Rightarrow> 's \<Rightarrow> bool" where
  "all_satisfy P s \<longleftrightarrow> wf s \<and> (\<forall>i v. get s i = Some v \<longrightarrow> P i v)"

lemma all_satisfy_put: "all_satisfy P s \<Longrightarrow> P i v \<Longrightarrow> all_satisfy P (put i v s)"
  by (simp add: all_satisfy_def get_put wf_put)

lemma all_satisfy_get: "all_satisfy P s \<Longrightarrow> get s i = Some v \<Longrightarrow> P i v"
  by (simp add: all_satisfy_def)

lemma all_satisfy_mono: "all_satisfy P s \<Longrightarrow> (\<And>i v. P i v \<Longrightarrow> Q i v) \<Longrightarrow> all_satisfy Q s"
  by (simp add: all_satisfy_def)

lemma all_satisfy_listed: "all_satisfy P s \<Longrightarrow> v \<in> set (listing s) \<Longrightarrow> \<exists>i. get s i = Some v \<and> P i v"
  using listed by (fastforce simp: all_satisfy_def)

end

definition vhosts_wf :: "gateway_state \<Rightarrow> bool" where
  "vhosts_wf st \<longleftrightarrow> distinct (map fst (gsVHosts st)) \<and> list_all (\<lambda>(_, vs). distinct (map fst vs)) (gsVHosts st)"

interpretation vhosts: vhost_store get_vhost put_vhost all_vhosts vhosts_wf
proof
  show "get_vhost (put_vhost i v s) j = (if j = i then Some v else get_vhost s j)" for i v s j
    by (cases i; cases j) (simp add: get_vhost_def put_vhost_def vhosts_of_def split: option.split)
  show "vhosts_wf (put_vhost i v s)" if "vhosts_wf s" for i v s
  proof -
    have "distinct (map fst (vhosts_of s (fst i)))"
      using that map_of_SomeD by (fastforce simp: vhosts_wf_def vhosts_of_def list_all_iff split: option.split)
    then show ?thesis
      using that by (auto simp: vhosts_wf_def put_vhost_def distinct_keys_update intro!: update_values)
  qed
  show "\<exists>i. get_vhost s i = Some v" if wf: "vhosts_wf s" and v: "v \<in> set (all_vhosts s)" for s v
  proof -
    obtain gk vs li where in_lists: "(gk, vs) \<in> set (gsVHosts s)" "(li, v) \<in> set vs"
      using v by (auto simp: all_vhosts_def)
    then have "map_of (gsVHosts s) gk = Some vs" "map_of vs li = Some v"
      using wf by (auto simp: vhosts_wf_def list_all_iff intro!: map_of_is_SomeI)
    then have "get_vhost s (gk, li) = Some v" by (simp add: get_vhost_def vhosts_of_def)
    then show ?thesis by blast
  qed
qed

lemma vhosts_unchanged:
  assumes "gsVHosts st' = gsVHosts st"
  shows "vhosts.all_satisfy P st' = vhosts.all_satisfy P st"
  using assms by (simp add: vhosts.all_satisfy_def get_vhost_def vhosts_of_def vhosts_wf_def)

section \<open>Allowed references\<close>

text \<open>
  A reference from a namespace to an object of another namespace is granted when both are the same,
  when grants are switched off, or by a stored ReferenceGrant of the target's namespace that names the
  source and the target.
\<close>

definition ref_granted :: "translator \<Rightarrow> string \<Rightarrow> string \<Rightarrow> string \<Rightarrow> string \<Rightarrow> string \<Rightarrow> bool" where
  "ref_granted tr ns kind toName toNs toKind \<longleftrightarrow>
     ns = toNs \<or> tDisableGatewayReferenceGrants tr \<or>
     (\<exists>grant. map_of (csReferenceGrant (stStores (tStore tr))) (reference_grant_key grant) = Some grant \<and>
        rgNamespace grant = toNs \<and>
        (\<exists>from \<in> set (rgFrom grant). to_lower (rgfGroup from) = gateway_group \<and>
           to_lower (rgfKind from) = to_lower kind \<and> to_lower (rgfNamespace from) = to_lower ns) \<and>
        (\<exists>to \<in> set (rgTo grant). rgtGroup to = [] \<and> to_lower (rgtKind to) = to_lower toKind \<and>
           (\<forall>n. rgtName to = Some n \<longrightarrow> to_lower n = to_lower toName)))"

lemma to_lower_eq_empty [simp]: "to_lower s = [] \<longleftrightarrow> s = []" "to_lower [] = []"
  by (simp_all add: to_lower_def)

lemma isRefToNamespaceAllowed_granted:
  assumes "reachable_stores (stStores (tStore tr))"
  shows "isRefToNamespaceAllowed tr ns gateway_group kind toName toNs [] toKind = ref_granted tr ns kind toName toNs toKind"
proof -
  have wf: "cache_wf reference_grant_key (csReferenceGrant (stStores (tStore tr)))"
    using reachable_stores_ok [OF assms] by (simp add: stores_ok_def)
  have group: "to_lower gateway_group = gateway_group" by code_simp
  have "g \<in> set (ListReferenceGrants (tStore tr)) \<longleftrightarrow>
      map_of (csReferenceGrant (stStores (tStore tr))) (reference_grant_key g) = Some g" for g
    by (simp add: ListReferenceGrants_def reference_grant_cache.items_iff [OF wf])
  then show ?thesis
    using group
    by (auto simp: isRefToNamespaceAllowed_def ref_granted_def list_ex_iff Bex_def grants_to_def grants_from_def
        EqualFold_def split: option.splits)
qed

section \<open>The invariant\<close>

text \<open>The services of the upstreams: their parts hold no slash, so that a key determines them.\<close>

definition plain_service :: "IRService \<Rightarrow> bool" where
  "plain_service s \<longleftrightarrow> no_slash (sUID s) \<and> no_slash (sNamespace s) \<and> no_slash (sName s)"

lemma Key_determines:
  assumes "plain_service s" "plain_service t" "Key s = Key t"
  shows "sNamespace s = sNamespace t \<and> sName s = sName t"
  using assms by (auto simp: plain_service_def no_slash_def Key_def split_first)

definition upstream_cache_ok :: "gateway_state \<Rightarrow> bool" where
  "upstream_cache_ok st \<longleftrightarrow>
     list_all (\<lambda>(k, a). a < length (hpUpstreams (gsHeap st)) \<and> Key (upstream_service (gsHeap st) a) = k \<and>
       plain_service (upstream_service (gsHeap st) a)) (gsUpstreams st)"

lemma upstream_cache_ok_mono:
  assumes "upstream_cache_ok st" "gsUpstreams st' = gsUpstreams st" "heap_le (gsHeap st) (gsHeap st')"
  shows "upstream_cache_ok st'"
  using assms by (auto simp: upstream_cache_ok_def list_all_iff heap_le_def)

text \<open>A destination that one of the owners may refer to.\<close>

definition dest_granted :: "translator \<Rightarrow> ir_heap \<Rightarrow> OwningResource set \<Rightarrow> IRDestination \<Rightarrow> bool" where
  "dest_granted tr hp owners d \<longleftrightarrow>
     (\<forall>a. dUpstream d = Some a \<longrightarrow>
        a < length (hpUpstreams hp) \<and>
        (\<exists>own \<in> owners. orKind own \<in> {xRouteKind_HTTPRoute, xRouteKind_TCPRoute, xRouteKind_TLSRoute} \<and>
           ref_granted tr (orNamespace own) (orKind own) (sName (upstream_service hp a))
             (sNamespace (upstream_service hp a)) ''Service''))"

definition gateway_route_ok :: "translator \<Rightarrow> ir_heap \<Rightarrow> OwningResource set \<Rightarrow> IRRoute \<Rightarrow> bool" where
  "gateway_route_ok tr hp owners r \<longleftrightarrow>
     \<not> path_type_missing r \<and> list_all (dest_granted tr hp owners) (rtDestinations r)"

lemma dest_granted_mono:
  assumes "dest_granted tr hp owners d" "heap_le hp hp'" "owners \<subseteq> owners'"
  shows "dest_granted tr hp' owners' d"
proof (cases "dUpstream d")
  case (Some a)
  then have "a < length (hpUpstreams hp)" using assms(1) by (simp add: dest_granted_def)
  then have "a < length (hpUpstreams hp')" "upstream_service hp' a = upstream_service hp a"
    using assms(2) by (auto simp: heap_le_def)
  then show ?thesis using assms(1,3) Some by (auto simp: dest_granted_def)
qed (simp add: dest_granted_def)

lemma gateway_route_ok_mono:
  "gateway_route_ok tr hp owners r \<Longrightarrow> heap_le hp hp' \<Longrightarrow> owners \<subseteq> owners' \<Longrightarrow> gateway_route_ok tr hp' owners' r"
  using dest_granted_mono by (fastforce simp: gateway_route_ok_def list_all_iff)

text \<open>
  Which owners a virtual host may have: its gateway, and the routes that a listener of this gateway
  with the virtual host's port, protocol and hostname admits.
\<close>

definition listener_serves :: "Gateway \<Rightarrow> Listener \<Rightarrow> IRListener \<Rightarrow> bool" where
  "listener_serves gw l li \<longleftrightarrow>
     l \<in> set (gwListeners gw) \<and> lPort li = liPort l \<and> listener_protocol (liProtocol l) = Some (lProtocol li) \<and>
     (if gateway_address_hostnames gw = [] then liHostname l = Some (lHostname li)
      else lHostname li \<in> set (gateway_address_hostnames gw))"

definition may_own :: "gateway_env \<Rightarrow> translator \<Rightarrow> vhost_id \<Rightarrow> OwningResource \<Rightarrow> bool" where
  "may_own env tr vid own \<longleftrightarrow>
     (\<exists>gw \<in> set (ListNgrokGateways (tStore tr)). gateway_id gw = fst vid \<and>
        (own = gateway_owner gw \<or>
         (\<exists>l. listener_serves gw l (snd vid) \<and>
            listener_admits (geSelector env) (tStore tr) gw (orNamespace own) (orKind own) None None l)))"

definition gateway_vhost_ok :: "gateway_env \<Rightarrow> translator \<Rightarrow> ir_heap \<Rightarrow> vhost_id \<Rightarrow> IRVirtualHost \<Rightarrow> bool" where
  "gateway_vhost_ok env tr hp vid v \<longleftrightarrow>
     vhListener v = snd vid \<and> vhNamespace v = nnNamespace (fst vid) \<and> vhDefaultDestination v = None \<and>
     (\<forall>a. vhTrafficPolicy v = Some a \<longrightarrow> a < length (hpPolicies hp)) \<and>
     (\<forall>own \<in> set (vhOwningResources v). may_own env tr vid own) \<and>
     list_all (gateway_route_ok tr hp (set (vhOwningResources v))) (vhRoutes v)"

lemma gateway_vhost_ok_mono:
  assumes "gateway_vhost_ok env tr hp vid v" "heap_le hp hp'"
  shows "gateway_vhost_ok env tr hp' vid v"
  using assms gateway_route_ok_mono [OF _ assms(2) order_refl]
  by (auto simp: gateway_vhost_ok_def list_all_iff heap_le_def less_le_trans)

definition gateway_inv :: "gateway_env \<Rightarrow> translator \<Rightarrow> gateway_state \<Rightarrow> bool" where
  "gateway_inv env tr st \<longleftrightarrow>
     upstream_cache_ok st \<and> vhosts.all_satisfy (gateway_vhost_ok env tr (gsHeap st)) st"

text \<open>Steps that leave the virtual hosts alone and only add to the store.\<close>

definition quiet_step :: "gateway_state \<Rightarrow> gateway_state \<Rightarrow> bool" where
  "quiet_step st st' \<longleftrightarrow>
     gsVHosts st' = gsVHosts st \<and> heap_le (gsHeap st) (gsHeap st') \<and> (upstream_cache_ok st \<longrightarrow> upstream_cache_ok st')"

lemma quiet_refl [simp]: "quiet_step st st"
  by (simp add: quiet_step_def)

lemma quiet_trans: "quiet_step a b \<Longrightarrow> quiet_step b c \<Longrightarrow> quiet_step a c"
  using heap_le_trans by (auto simp: quiet_step_def)

lemma quiet_inv:
  assumes "gateway_inv env tr st" "quiet_step st st'"
  shows "gateway_inv env tr st'"
proof -
  have hosts: "gsVHosts st' = gsVHosts st" and le: "heap_le (gsHeap st) (gsHeap st')"
    using assms(2) by (simp_all add: quiet_step_def)
  have "vhosts.all_satisfy (gateway_vhost_ok env tr (gsHeap st')) st"
    using assms(1) gateway_vhost_ok_mono [OF _ le] vhosts.all_satisfy_mono by (auto simp: gateway_inv_def)
  then show ?thesis
    using assms vhosts_unchanged [OF hosts] by (simp add: gateway_inv_def quiet_step_def)
qed

lemma put_vhost_heap [simp]: "gsHeap (put_vhost vid v st) = gsHeap st"
  by (simp add: put_vhost_def)

lemma gateway_inv_put:
  assumes "gateway_inv env tr st" "gateway_vhost_ok env tr (gsHeap st) vid v"
  shows "gateway_inv env tr (put_vhost vid v st)"
proof -
  have "vhosts.all_satisfy (gateway_vhost_ok env tr (gsHeap st)) (put_vhost vid v st)"
    by (rule vhosts.all_satisfy_put) (use assms in \<open>simp_all add: gateway_inv_def\<close>)
  moreover have "upstream_cache_ok (put_vhost vid v st)"
    by (rule upstream_cache_ok_mono [of st]) (use assms(1) in \<open>simp_all add: gateway_inv_def put_vhost_def\<close>)
  ultimately show ?thesis by (simp add: gateway_inv_def)
qed

section \<open>Backends\<close>

lemma gateway_upstream_ok:
  assumes "upstream_cache_ok st" "plain_service s" "gateway_upstream s st = (a, st')"
  shows "quiet_step st st' \<and> a < length (hpUpstreams (gsHeap st')) \<and>
    sNamespace (upstream_service (gsHeap st') a) = sNamespace s \<and> sName (upstream_service (gsHeap st') a) = sName s"
proof (cases "map_of (gsUpstreams st) (Key s)")
  case (Some b)
  have "st' = st" "a = b" using assms(3) Some by (auto simp: gateway_upstream_def Let_def)
  moreover have "b < length (hpUpstreams (gsHeap st))" "Key (upstream_service (gsHeap st) b) = Key s"
    "plain_service (upstream_service (gsHeap st) b)"
    using assms(1) map_of_SomeD [OF Some] by (auto simp: upstream_cache_ok_def list_all_iff)
  ultimately show ?thesis using Key_determines [of "upstream_service (gsHeap st) b" s] assms(2) by simp
next
  case None
  let ?hp = "gsHeap st"
  have st': "a = length (hpUpstreams ?hp)"
    "gsHeap st' = ?hp\<lparr>hpUpstreams := hpUpstreams ?hp @ [\<lparr>uOwningResources = [], uService = s\<rparr>]\<rparr>"
    "gsUpstreams st' = AList.update (Key s) a (gsUpstreams st)" "gsVHosts st' = gsVHosts st"
    using None assms(3) by (auto simp: gateway_upstream_def Let_def)
  have le: "heap_le ?hp (gsHeap st')"
    by (simp add: st'(2) heap_le_def upstream_service_def nth_append)
  have new: "upstream_service (gsHeap st') a = s" "a < length (hpUpstreams (gsHeap st'))"
    by (simp_all add: st' upstream_service_def)
  have old: "upstream_service (gsHeap st') b = upstream_service ?hp b" "b < length (hpUpstreams (gsHeap st'))"
    if "b < length (hpUpstreams ?hp)" for b
    using le that by (auto simp: heap_le_def)
  have "upstream_cache_ok st'"
    unfolding upstream_cache_ok_def st'(3)
    using assms(1,2) new old by (intro update_values) (auto simp: upstream_cache_ok_def list_all_iff)
  then show ?thesis using le new st'(4) by (simp add: quiet_step_def)
qed

lemma backend_ref_service_ok:
  assumes "cluster_ok (tStore tr)" "backend_ref_service parse tr ns kind proto cs certs ref = Inr s"
  shows "plain_service s \<and> ref_granted tr ns kind (sName s) (sNamespace s) ''Service''"
proof -
  have reach: "reachable_stores (stStores (tStore tr))" using assms(1) by (simp add: cluster_ok_def)
  obtain svc where found: "GetServiceV1 (tStore tr) (sName s) (sNamespace s) = Inr svc" and uid: "sUID s = svcUID svc"
    and allowed: "ns = sNamespace s \<or>
      isRefToNamespaceAllowed tr ns gateway_group kind (sName s) (sNamespace s) [] ''Service''"
    using assms(2)
    by (auto simp: backend_ref_service_def Let_def split: if_splits option.splits sum.splits)
  let ?c = "csServiceV1 (stStores (tStore tr))"
  have map: "map_of ?c (getKey (sName s) (sNamespace s)) = Some svc"
    using found by (auto simp: GetServiceV1_def genericGetByKey_def split: option.splits)
  have wf: "cache_wf service_key ?c" using reachable_stores_ok [OF reach] by (simp add: stores_ok_def)
  have key: "svcNamespace svc @ ''/'' @ svcName svc = sNamespace s @ ''/'' @ sName s"
    using service_cache.get_key [OF wf map] by (simp add: keyFunc_def getKey_def)
  have parts: "no_slash (svcName svc)" "no_slash (svcNamespace svc)" "no_slash (svcUID svc)"
    using assms(1) map_of_SomeD [OF map] by (auto simp: cluster_ok_def list_all_iff)
  have "count_list (sNamespace s @ ''/'' @ sName s) (CHR ''/'') = 1"
    unfolding key [symmetric] using parts by (simp add: no_slash_def count_list_0_iff)
  then have "plain_service s"
    using parts(3) by (simp add: plain_service_def no_slash_def uid count_list_0_iff)
  then show ?thesis
    using allowed isRefToNamespaceAllowed_granted [OF reach, of ns kind] by (auto simp: ref_granted_def)
qed

text \<open>The owner for which a destination was resolved.\<close>

definition route_owner :: "xRouteKind \<Rightarrow> string \<Rightarrow> OwningResource \<Rightarrow> bool" where
  "route_owner kind ns own \<longleftrightarrow> orKind own = kind \<and> orNamespace own = ns \<and>
     kind \<in> {xRouteKind_HTTPRoute, xRouteKind_TCPRoute, xRouteKind_TLSRoute}"

lemma backend_destination_ok:
  assumes "cluster_ok (tStore tr)" "upstream_cache_ok st" "own \<in> owners" "route_owner kind ns own"
    "backend_destination parse tr ns kind proto cs certs pols ref st = (res, st')"
  shows "quiet_step st st' \<and> (\<forall>d. res = Inr d \<longrightarrow> dest_granted tr (gsHeap st') owners d)"
proof (cases "(case brKind ref of None \<Rightarrow> False | Some k \<Rightarrow> \<not> EqualFold k ''Service'') \<or> brName ref = []")
  case True
  then show ?thesis
    using assms(5) by (auto simp: backend_destination_def dest_granted_def Let_def split: if_splits)
next
  case False
  show ?thesis
  proof (cases "backend_ref_service parse tr ns kind proto cs certs ref")
    case (Inl e)
    then show ?thesis using False assms(5) by (auto simp: backend_destination_def Let_def)
  next
    case (Inr s)
    obtain a st1 where up: "gateway_upstream s st = (a, st1)" by fastforce
    have "st' = st1" "res = Inr \<lparr>dWeight = brWeight ref, dUpstream = Some a, dTrafficPolicies = pols\<rparr>"
      using False Inr up assms(5) by (auto simp: backend_destination_def Let_def)
    moreover note svc = backend_ref_service_ok [OF assms(1) Inr]
    ultimately show ?thesis
      using gateway_upstream_ok [OF assms(2) _ up] assms(3,4) by (auto simp: dest_granted_def route_owner_def)
  qed
qed

section \<open>Rules\<close>

text \<open>What the rules of a route make for a virtual host with the given owners.\<close>

definition rules_ok ::
  "translator \<Rightarrow> OwningResource set \<Rightarrow> (gateway_state \<Rightarrow> IRRoute list \<times> gateway_state) \<Rightarrow> bool" where
  "rules_ok tr owners f \<longleftrightarrow>
     (\<forall>st rs st'. f st = (rs, st') \<longrightarrow> upstream_cache_ok st \<longrightarrow>
        quiet_step st st' \<and> list_all (gateway_route_ok tr (gsHeap st') owners) rs)"

lemma rules_okI:
  assumes "\<And>st rs st'. f st = (rs, st') \<Longrightarrow> upstream_cache_ok st \<Longrightarrow>
    quiet_step st st' \<and> list_all (gateway_route_ok tr (gsHeap st') owners) rs"
  shows "rules_ok tr owners f"
  using assms by (simp add: rules_ok_def)

lemma rules_okD:
  "rules_ok tr owners f \<Longrightarrow> f st = (rs, st') \<Longrightarrow> upstream_cache_ok st \<Longrightarrow>
   quiet_step st st' \<and> list_all (gateway_route_ok tr (gsHeap st') owners) rs"
  by (simp add: rules_ok_def)

lemma quiet_cache: "quiet_step st st' \<Longrightarrow> upstream_cache_ok st \<Longrightarrow> upstream_cache_ok st'"
  by (simp add: quiet_step_def)

lemma quiet_heap: "quiet_step st st' \<Longrightarrow> heap_le (gsHeap st) (gsHeap st')"
  by (simp add: quiet_step_def)

lemma backends_ok:
  assumes step: "\<And>ref st res st'. toIR ref st = (res, st') \<Longrightarrow> upstream_cache_ok st \<Longrightarrow>
    quiet_step st st' \<and> (\<forall>d. res = Inr d \<longrightarrow> dest_granted tr (gsHeap st') owners d)"
  shows "upstream_cache_ok st \<Longrightarrow> backends toIR refs st = (ds, st') \<Longrightarrow>
    quiet_step st st' \<and> list_all (dest_granted tr (gsHeap st') owners) ds"
proof (induction refs arbitrary: st ds st')
  case (Cons ref refs)
  obtain res st1 where r: "toIR ref st = (res, st1)" by fastforce
  obtain ds2 st2 where rest: "backends toIR refs st1 = (ds2, st2)" by fastforce
  note one = step [OF r Cons.prems(1)]
  then have q1: "quiet_step st st1" by blast
  note ih = Cons.IH [OF quiet_cache [OF q1 Cons.prems(1)] rest]
  then have q: "quiet_step st st2" using q1 quiet_trans by blast
  show ?case
  proof (cases res)
    case (Inl e)
    then show ?thesis using Cons.prems(2) r rest ih q by simp
  next
    case (Inr d)
    have "dest_granted tr (gsHeap st2) owners d"
      using one Inr ih dest_granted_mono [OF _ quiet_heap order_refl] by blast
    then show ?thesis using Cons.prems(2) r rest ih q Inr by auto
  qed
qed simp

lemma routes_loop_ok:
  assumes "\<And>x. x \<in> set xs \<Longrightarrow> rules_ok tr owners (f x)"
  shows "rules_ok tr owners (routes_loop f xs)"
  using assms
proof (induction xs)
  case Nil
  then show ?case by (auto intro: rules_okI)
next
  case (Cons x xs)
  show ?case
  proof (rule rules_okI)
    fix st rs st' assume st: "routes_loop f (x # xs) st = (rs, st')" "upstream_cache_ok st"
    obtain rs1 st1 where f: "f x st = (rs1, st1)" by fastforce
    obtain rs2 st2 where rest: "routes_loop f xs st1 = (rs2, st2)" by fastforce
    have one: "quiet_step st st1" "list_all (gateway_route_ok tr (gsHeap st1) owners) rs1"
      using rules_okD [of tr owners "f x" st rs1 st1] f st(2) Cons.prems by auto
    have two: "quiet_step st1 st2" "list_all (gateway_route_ok tr (gsHeap st2) owners) rs2"
      using rules_okD [of tr owners "routes_loop f xs" st1 rs2 st2] Cons.IH rest quiet_cache [OF one(1) st(2)]
        Cons.prems by auto
    have "list_all (gateway_route_ok tr (gsHeap st2) owners) rs1"
      using one(2) gateway_route_ok_mono [OF _ quiet_heap [OF two(1)] order_refl] by (auto simp: list_all_iff)
    then show "quiet_step st st' \<and> list_all (gateway_route_ok tr (gsHeap st') owners) rs"
      using st(1) f rest quiet_trans [OF one(1) two(1)] two(2) by auto
  qed
qed

lemma path_type_given: "\<not> path_type_missing \<lparr>rtHTTPMatchCriteria = Some (GatewayAPIHTTPMatchToIR m),
    rtTrafficPolicies = ps, rtDestinations = ds\<rparr>"
  by (simp add: path_type_missing_def GatewayAPIHTTPMatchToIR_def)

lemma no_criteria_no_path: "\<not> path_type_missing \<lparr>rtHTTPMatchCriteria = None, rtTrafficPolicies = ps, rtDestinations = ds\<rparr>"
  by (simp add: path_type_missing_def)

lemma http_match_route_ok:
  assumes "cluster_ok (tStore tr)" "own \<in> owners" "route_owner xRouteKind_HTTPRoute (hroNamespace route) own"
  shows "rules_ok tr owners (http_match_route parse tr v route rule match)"
proof (rule rules_okI)
  fix st rs st' assume st: "http_match_route parse tr v route rule match st = (rs, st')" "upstream_cache_ok st"
  let ?mc = "Some (GatewayAPIHTTPMatchToIR match)"
  obtain ds st1 where b: "backends (httpRouteBackendToIR parse tr route ?mc (vhClientCertRefs v))
      (hruBackendRefs rule) st = (ds, st1)" by fastforce
  have "quiet_step st st1 \<and> list_all (dest_granted tr (gsHeap st1) owners) ds"
    by (rule backends_ok [OF _ st(2) b])
       (use backend_destination_ok [OF assms(1) _ assms(2,3)] in \<open>unfold httpRouteBackendToIR_def, blast\<close>)
  then show "quiet_step st st' \<and> list_all (gateway_route_ok tr (gsHeap st') owners) rs"
    using st(1) b by (auto simp: http_match_route_def Let_def gateway_route_ok_def path_type_given split: if_splits)
qed

lemma httpRouteRulesToIR_ok:
  assumes "cluster_ok (tStore tr)" "own \<in> owners" "route_owner xRouteKind_HTTPRoute (hroNamespace route) own"
  shows "rules_ok tr owners (httpRouteRulesToIR parse tr v route)"
proof -
  have "httpRouteRulesToIR parse tr v route =
      routes_loop (\<lambda>(rule, match). http_match_route parse tr v route rule match)
        (concat (map (\<lambda>rule. map (Pair rule) (hruMatches rule)) (hroRules route)))"
    by (rule ext) (simp add: httpRouteRulesToIR_def)
  then show ?thesis
    using http_match_route_ok [OF assms] by (auto intro!: routes_loop_ok)
qed

lemma tcp_destinations_ok:
  assumes "cluster_ok (tStore tr)" "own \<in> owners" "route_owner kind ns own" "upstream_cache_ok st"
    "backends (tcpBackendToIR parse tr ns kind certs) refs st = (ds, st')"
  shows "quiet_step st st' \<and> list_all (dest_granted tr (gsHeap st') owners) ds"
  by (rule backends_ok [OF _ assms(4,5)])
     (use backend_destination_ok [OF assms(1) _ assms(2,3)] in \<open>unfold tcpBackendToIR_def, blast\<close>)

lemma tcpRouteRulesToIR_ok:
  assumes "cluster_ok (tStore tr)" "own \<in> owners" "route_owner xRouteKind_TCPRoute (troNamespace route) own"
  shows "rules_ok tr owners (tcpRouteRulesToIR parse tr v route)"
proof (rule rules_okI)
  fix st rs st' assume st: "tcpRouteRulesToIR parse tr v route st = (rs, st')" "upstream_cache_ok st"
  obtain ds st1 where b: "backends (tcpBackendToIR parse tr (troNamespace route) xRouteKind_TCPRoute
      (vhClientCertRefs v)) (concat (troRules route)) st = (ds, st1)" by fastforce
  from tcp_destinations_ok [OF assms st(2) b]
  show "quiet_step st st' \<and> list_all (gateway_route_ok tr (gsHeap st') owners) rs"
    using st(1) b
    by (auto simp: tcpRouteRulesToIR_def gateway_route_ok_def no_criteria_no_path split: if_splits)
qed

lemma tlsRouteRulesToIR_ok:
  assumes "cluster_ok (tStore tr)" "own \<in> owners" "route_owner xRouteKind_TLSRoute (tlroNamespace route) own"
  shows "rules_ok tr owners (tlsRouteRulesToIR parse tr v route)"
proof (rule rules_okI)
  fix st rs st' assume st: "tlsRouteRulesToIR parse tr v route st = (rs, st')" "upstream_cache_ok st"
  obtain ds st1 where b: "backends (tcpBackendToIR parse tr (tlroNamespace route) xRouteKind_TLSRoute
      (vhClientCertRefs v)) (concat (tlroRules route)) st = (ds, st1)" by fastforce
  from tcp_destinations_ok [OF assms st(2) b]
  show "quiet_step st st' \<and> list_all (gateway_route_ok tr (gsHeap st') owners) rs"
    using st(1) b
    by (auto simp: tlsRouteRulesToIR_def gateway_route_ok_def no_criteria_no_path split: if_splits)
qed

section \<open>Attaching routes\<close>

definition owned :: "gateway_state \<Rightarrow> OwningResource \<Rightarrow> vhost_id \<Rightarrow> bool" where
  "owned st own vid \<longleftrightarrow> (\<exists>v. get_vhost st vid = Some v \<and> own \<in> set (vhOwningResources v))"

lemma inherit_owners_services [simp]:
  "length (hpUpstreams (inherit_owners v d hp)) = length (hpUpstreams hp)"
  "hpPolicies (inherit_owners v d hp) = hpPolicies hp"
  "upstream_service (inherit_owners v d hp) a = upstream_service hp a"
proof -
  have "uService (foldl IRUpstream_AddOwningResource u owners) = uService u" for u owners
    by (induction owners arbitrary: u) (simp_all add: IRUpstream_AddOwningResource_def)
  then have "uService ((hpUpstreams hp)[b := foldl IRUpstream_AddOwningResource (hpUpstreams hp ! b) owners] ! a) =
      uService (hpUpstreams hp ! a)" for b owners
    by (cases "b < length (hpUpstreams hp)"; cases "a = b") (simp_all add: list_update_beyond)
  then show "upstream_service (inherit_owners v d hp) a = upstream_service hp a"
    by (simp add: inherit_owners_def upstream_service_def split: option.split)
qed (simp_all add: inherit_owners_def split: option.split)

lemma heap_le_inherit: "heap_le hp (fold (\<lambda>r. fold (inherit_owners v) (rtDestinations r)) rs hp)"
proof -
  have one: "heap_le hp (fold (inherit_owners v) ds hp)" for ds hp
  proof (induction ds arbitrary: hp)
    case (Cons d ds)
    have "heap_le hp (inherit_owners v d hp)" by (simp add: heap_le_def)
    then show ?case using Cons.IH heap_le_trans unfolding fold_simps by blast
  qed simp
  show ?thesis
  proof (induction rs arbitrary: hp)
    case (Cons r rs)
    then show ?case using one heap_le_trans unfolding fold_simps by blast
  qed simp
qed

lemma attach_routes_ok:
  assumes inv: "gateway_inv env tr st"
    and rules: "\<And>v. get_vhost st vid = Some v \<Longrightarrow> rules_ok tr (set (vhOwningResources v)) (rules v)"
  shows "gateway_inv env tr (attach_routes rules vid st)"
    and "owned st own i \<Longrightarrow> owned (attach_routes rules vid st) own i"
proof -
  have "gateway_inv env tr (attach_routes rules vid st) \<and> (owned st own i \<longrightarrow> owned (attach_routes rules vid st) own i)"
  proof (cases "get_vhost st vid")
    case None
    then show ?thesis using inv by (simp add: attach_routes_def)
  next
    case (Some v)
    obtain rs st1 where r: "rules v st = (rs, st1)" by fastforce
    let ?hp = "fold (\<lambda>r. fold (inherit_owners v) (rtDestinations r)) rs (gsHeap st1)"
    let ?st = "st1\<lparr>gsHeap := ?hp\<rparr>" and ?v = "v\<lparr>vhRoutes := vhRoutes v @ rs\<rparr>"
    have new: "attach_routes rules vid st = put_vhost vid ?v ?st" by (simp add: attach_routes_def Some r)
    have "upstream_cache_ok st" using inv by (simp add: gateway_inv_def)
    from rules_okD [OF rules [OF Some] r this]
    have q: "quiet_step st st1" and rs: "list_all (gateway_route_ok tr (gsHeap st1) (set (vhOwningResources v))) rs"
      by auto
    have "quiet_step st1 ?st"
      using heap_le_inherit [of "gsHeap st1" v rs] upstream_cache_ok_mono [of st1 ?st] by (simp add: quiet_step_def)
    then have q2: "quiet_step st ?st" using q quiet_trans by blast
    note inv2 = quiet_inv [OF inv q2]
    have same: "get_vhost ?st = get_vhost st"
      using q2 by (auto simp: quiet_step_def get_vhost_def vhosts_of_def)
    then have "gateway_vhost_ok env tr ?hp vid v"
      using vhosts.all_satisfy_get [of _ ?st vid v] inv2 Some by (auto simp: gateway_inv_def)
    moreover have "list_all (gateway_route_ok tr ?hp (set (vhOwningResources v))) rs"
      using rs gateway_route_ok_mono [OF _ heap_le_inherit [of "gsHeap st1" v rs] order_refl, of tr]
      by (simp add: list_all_iff)
    ultimately have "gateway_vhost_ok env tr ?hp vid ?v" by (simp add: gateway_vhost_ok_def)
    then have "gateway_inv env tr (put_vhost vid ?v ?st)"
      by (intro gateway_inv_put [OF inv2]) simp
    then show ?thesis
      using Some same new by (auto simp: owned_def vhosts.get_put)
  qed
  then show "gateway_inv env tr (attach_routes rules vid st)"
    and "owned st own i \<Longrightarrow> owned (attach_routes rules vid st) own i" by auto
qed

lemma attach_all_ok:
  assumes rules: "\<And>v. own \<in> set (vhOwningResources v) \<Longrightarrow> rules_ok tr (set (vhOwningResources v)) (rules v)"
  shows "gateway_inv env tr st \<Longrightarrow> \<forall>vid \<in> set ids. owned st own vid \<Longrightarrow>
    gateway_inv env tr (fold (attach_routes rules) ids st)"
proof (induction ids arbitrary: st)
  case (Cons vid ids)
  have ok: "rules_ok tr (set (vhOwningResources v)) (rules v)" if "get_vhost st vid = Some v" for v
    using that Cons.prems(2) rules by (auto simp: owned_def)
  note step = attach_routes_ok [OF Cons.prems(1) ok]
  show ?case
    unfolding fold_simps by (rule Cons.IH) (use step Cons.prems(2) in auto)
qed simp

section \<open>Finding virtual hosts\<close>

lemma match_listeners_sound:
  "l \<in> set (match_listeners sel glob store gw addrs ns kind name port hosts acc ls) \<Longrightarrow>
   l \<in> set acc \<or> l \<in> set ls \<and> listener_admits sel store gw ns kind name port l \<and> listener_hostname addrs l \<noteq> None"
proof (induction ls arbitrary: acc)
  case (Cons x ls)
  show ?case
  proof (cases "listener_admits sel store gw ns kind name port x \<and> listener_hostname addrs x \<noteq> None")
    case True
    then obtain lh where lh: "listener_hostname addrs x = Some lh" by blast
    show ?thesis
      using Cons.prems Cons.IH [of "acc @ replicate (if hosts = [] then 1 else hostname_hits glob lh hosts) x"]
        True lh by (auto split: if_splits)
  next
    case False
    then have "match_listeners sel glob store gw addrs ns kind name port hosts acc (x # ls) =
        match_listeners sel glob store gw addrs ns kind name port hosts acc ls" by auto
    then show ?thesis using Cons by auto
  qed
qed simp

lemma admits_without_name:
  "listener_admits sel store gw ns kind name port l \<Longrightarrow> listener_admits sel store gw ns kind None None l"
  by (simp add: listener_admits_def)

lemma matchGatewayListenersToXRoute_sound:
  assumes "l \<in> set (matchGatewayListenersToXRoute sel glob store gw addrs ns kind name port hosts)"
  shows "l \<in> set (gwListeners gw) \<and> listener_admits sel store gw ns kind None None l \<and> listener_hostname addrs l \<noteq> None"
  using match_listeners_sound [of l sel glob store gw addrs ns kind name port hosts "[]" "gwListeners gw"]
    admits_without_name [of sel store gw ns kind name port l] assms
  by (simp add: matchGatewayListenersToXRoute_def)

lemma listener_hostnames_total:
  assumes "listener_hostname addrs l \<noteq> None"
  shows "\<exists>hs. listener_hostnames addrs l = Inr hs"
  using assms by (cases "liHostname l") (auto simp: listener_hostname_def listener_hostnames_def split: if_splits)

lemma owned_put:
  "own \<in> set (vhOwningResources v) \<Longrightarrow> owned (put_vhost vid v st) own vid"
  by (simp add: owned_def vhosts.get_put)

lemma listener_vhost_ok:
  assumes inv: "gateway_inv env tr st" and gw: "gw \<in> set (ListNgrokGateways (tStore tr))"
    and l: "listener_serves gw l li" "listener_admits (geSelector env) (tStore tr) gw (orNamespace own) (orKind own) None None l"
    and cfg: "\<And>a. gcfTrafficPolicy cfg = Some a \<Longrightarrow> a < length (hpPolicies (gsHeap st))"
  shows "gateway_inv env tr (listener_vhost parse tr gw cfg own tls li st)"
    and "gsHeap (listener_vhost parse tr gw cfg own tls li st) = gsHeap st"
    and "owned (listener_vhost parse tr gw cfg own tls li st) own (gateway_id gw, li)"
    and "owned st own' vid \<Longrightarrow> owned (listener_vhost parse tr gw cfg own tls li st) own' vid"
proof -
  let ?vid = "(gateway_id gw, li)"
  define v0 where "v0 = (case get_vhost st ?vid of Some v \<Rightarrow> v | None \<Rightarrow> new_gateway_vhost parse tr gw cfg tls li)"
  define v1 where "v1 = AddOwningResource (AddOwningResource v0 (gateway_owner gw)) own"
  obtain anns labels where step: "listener_vhost parse tr gw cfg own tls li st =
      put_vhost ?vid (v1\<lparr>vhAnnotationsToAdd := anns\<rparr>) (st\<lparr>gsLabels := labels\<rparr>)"
  proof (cases "gwInfrastructure gw")
    case None
    then have "listener_vhost parse tr gw cfg own tls li st =
        put_vhost ?vid (v1\<lparr>vhAnnotationsToAdd := vhAnnotationsToAdd v1\<rparr>) (st\<lparr>gsLabels := gsLabels st\<rparr>)"
      by (simp add: listener_vhost_def v0_def v1_def Let_def)
    then show ?thesis by (rule that)
  next
    case (Some infra)
    then show ?thesis by (intro that) (simp add: listener_vhost_def v0_def v1_def Let_def)
  qed
  let ?v = "v1\<lparr>vhAnnotationsToAdd := anns\<rparr>" and ?st = "st\<lparr>gsLabels := labels\<rparr>"
  have owners: "set (vhOwningResources ?v) = insert own (insert (gateway_owner gw) (set (vhOwningResources v0)))"
    by (simp add: v1_def AddOwningResource_def)
  have may: "may_own env tr ?vid own" "may_own env tr ?vid (gateway_owner gw)"
    using gw l by (auto simp: may_own_def)
  have "gateway_vhost_ok env tr (gsHeap st) ?vid v0"
  proof (cases "get_vhost st ?vid")
    case None
    then show ?thesis
      using cfg by (simp add: v0_def new_gateway_vhost_def gateway_vhost_ok_def gateway_id_def)
  next
    case (Some v)
    then show ?thesis using inv vhosts.all_satisfy_get by (auto simp: v0_def gateway_inv_def)
  qed
  then have vok: "gateway_vhost_ok env tr (gsHeap st) ?vid ?v"
    using may owners gateway_route_ok_mono [OF _ heap_le_refl, of tr "gsHeap st" "set (vhOwningResources v0)" _
        "set (vhOwningResources ?v)"]
    by (auto simp: gateway_vhost_ok_def list_all_iff v1_def AddOwningResource_def)
  have "gateway_inv env tr ?st"
    using inv by (intro quiet_inv [OF inv]) (simp add: quiet_step_def upstream_cache_ok_def)
  then show "gateway_inv env tr (listener_vhost parse tr gw cfg own tls li st)"
    unfolding step by (rule gateway_inv_put) (simp add: vok)
  show "gsHeap (listener_vhost parse tr gw cfg own tls li st) = gsHeap st"
    by (simp add: step)
  show "owned (listener_vhost parse tr gw cfg own tls li st) own ?vid"
    unfolding step by (rule owned_put) (use owners in auto)
  have same: "get_vhost ?st = get_vhost st" by (rule ext) (simp add: get_vhost_def vhosts_of_def)
  show "owned (listener_vhost parse tr gw cfg own tls li st) own' vid" if ow: "owned st own' vid"
  proof -
    obtain w where w: "get_vhost st vid = Some w" "own' \<in> set (vhOwningResources w)"
      using ow by (auto simp: owned_def)
    show ?thesis
    proof (cases "vid = ?vid")
      case True
      then have "v0 = w" using w by (simp add: v0_def)
      then show ?thesis unfolding step True using w owners by (intro owned_put) auto
    next
      case False
      then show ?thesis using w same by (simp add: step owned_def vhosts.get_put)
    qed
  qed
qed

text \<open>What holds of the virtual hosts collected for the route \<open>own\<close>.\<close>

definition matched_ok :: "gateway_env \<Rightarrow> translator \<Rightarrow> OwningResource \<Rightarrow> matched \<Rightarrow> bool" where
  "matched_ok env tr own acc \<longleftrightarrow> gateway_inv env tr (snd acc) \<and> (\<forall>vid \<in> set (fst acc). owned (snd acc) own vid)"

lemma hostname_vhosts_ok:
  assumes gw: "gw \<in> set (ListNgrokGateways (tStore tr))" "l \<in> set (gwListeners gw)"
    and admits: "listener_admits (geSelector env) (tStore tr) gw (orNamespace own) (orKind own) None None l"
    and cfg: "\<And>a. gcfTrafficPolicy cfg = Some a \<Longrightarrow> a < length (hpPolicies hp)"
  shows "matched_ok env tr own acc \<Longrightarrow> gsHeap (snd acc) = hp \<Longrightarrow>
    (\<And>h. h \<in> set hs \<Longrightarrow>
       if gateway_address_hostnames gw = [] then liHostname l = Some h else h \<in> set (gateway_address_hostnames gw)) \<Longrightarrow>
    matched_ok env tr own (hostname_vhosts parse tr gw cfg own tls l hs acc) \<and>
    gsHeap (snd (hostname_vhosts parse tr gw cfg own tls l hs acc)) = hp"
proof (induction hs arbitrary: acc)
  case (Cons h hs)
  obtain ids st where acc: "acc = (ids, st)" by fastforce
  show ?case
  proof (cases "listener_protocol (liProtocol l)")
    case None
    then show ?thesis using Cons acc by simp
  next
    case (Some proto)
    let ?li = "\<lparr>lHostname = h, lPort = liPort l, lProtocol = proto\<rparr>"
    let ?acc = "(append_new ids (gateway_id gw, ?li), listener_vhost parse tr gw cfg own tls ?li st)"
    have serves: "listener_serves gw l ?li"
      using Cons.prems(3) [of h] gw(2) Some by (simp add: listener_serves_def)
    have inv: "gateway_inv env tr st" and heap: "gsHeap st = hp" and own: "\<forall>vid \<in> set ids. owned st own vid"
      using Cons.prems(1,2) acc by (simp_all add: matched_ok_def)
    note step = listener_vhost_ok [OF inv gw(1) serves admits, where cfg = cfg and parse = parse and tls = tls]
    have "matched_ok env tr own ?acc" "gsHeap (snd ?acc) = hp"
      using step cfg heap own by (auto simp: matched_ok_def)
    then show ?thesis
      using Cons.IH [of ?acc] Cons.prems(3) Some acc by (simp add: Let_def)
  qed
qed simp

lemma listener_step_ok:
  assumes gw: "gw \<in> set (ListNgrokGateways (tStore tr))"
    and l: "l \<in> set (matchGatewayListenersToXRoute (geSelector env) glob (tStore tr) gw
      (gateway_address_hostnames gw) (orNamespace own) (orKind own) name port hosts)"
    and cfg: "\<And>a. gcfTrafficPolicy cfg = Some a \<Longrightarrow> a < length (hpPolicies hp)"
    and acc: "matched_ok env tr own acc \<and> gsHeap (snd acc) = hp"
  shows "\<exists>acc'. listener_step parse tr gw cfg own (gateway_address_hostnames gw) l acc = Inr acc' \<and>
    matched_ok env tr own acc' \<and> gsHeap (snd acc') = hp"
proof (cases "listener_termination tr gw l")
  case None
  then show ?thesis using acc by (simp add: listener_step_def)
next
  case (Some tls)
  note sound = matchGatewayListenersToXRoute_sound [OF l]
  then obtain hs where hs: "listener_hostnames (gateway_address_hostnames gw) l = Inr hs"
    using listener_hostnames_total by blast
  have member: "if gateway_address_hostnames gw = [] then liHostname l = Some h
      else h \<in> set (gateway_address_hostnames gw)" if "h \<in> set hs" for h
    using hs that by (auto simp: listener_hostnames_def split: if_splits option.splits)
  show ?thesis
    using hostname_vhosts_ok [OF gw _ _ cfg, where l = l and env = env and own = own and acc = acc and hs = hs and
        parse = parse and tls = tls] sound acc member Some hs
    by (simp add: listener_step_def)
qed

lemma map_of_gateway_map:
  assumes "map_of (gateway_map tr) k = Some gw"
  shows "gw \<in> set (ListNgrokGateways (tStore tr))"
proof -
  have "map_of (fold (\<lambda>gw. AList.update (gateway_id gw) gw) gws m) k = Some gw \<Longrightarrow>
      gw \<in> set gws \<or> map_of m k = Some gw" for gws m
    by (induction gws arbitrary: m) (fastforce simp: update_conv split: if_splits)+
  from this [of "ListNgrokGateways (tStore tr)" "[]"] show ?thesis using assms by (simp add: gateway_map_def)
qed

lemma gateway_settings_ok:
  assumes "gateway_settings tr gw st = Some (cfg, st')"
  shows "quiet_step st st' \<and> (\<forall>a. gcfTrafficPolicy cfg = Some a \<longrightarrow> a < length (hpPolicies (gsHeap st')))"
proof -
  have st': "gsVHosts st' = gsVHosts st" "gsUpstreams st' = gsUpstreams st" "heap_le (gsHeap st) (gsHeap st')"
    and tp: "\<forall>a. gcfTrafficPolicy cfg = Some a \<longrightarrow> a < length (hpPolicies (gsHeap st'))"
    using assms
    by (auto simp: gateway_settings_def Let_def heap_le_def upstream_service_def split: sum.splits option.splits)
  have "quiet_step st st'"
    using st' upstream_cache_ok_mono [of st st'] by (simp add: quiet_step_def)
  then show ?thesis using tp by simp
qed

lemma parent_step_ok:
  assumes acc: "matched_ok env tr own acc"
  shows "\<exists>acc'. parent_step env tr (gateway_map tr) own hosts ref acc = Inr acc' \<and> matched_ok env tr own acc'"
proof (cases "map_of (gateway_map tr) \<lparr>nnName = prName ref,
    nnNamespace = case prNamespace ref of None \<Rightarrow> orNamespace own | Some n \<Rightarrow> n\<rparr>")
  case None
  then show ?thesis using acc by (simp add: parent_step_def Let_def)
next
  case (Some gw)
  note gw = map_of_gateway_map [OF Some]
  show ?thesis
  proof (cases "gateway_settings tr gw (snd acc)")
    case None
    then show ?thesis using acc Some by (simp add: parent_step_def Let_def)
  next
    case (Some p)
    obtain cfg st where p: "p = (cfg, st)" by fastforce
    have ok: "quiet_step (snd acc) st" "\<forall>a. gcfTrafficPolicy cfg = Some a \<longrightarrow> a < length (hpPolicies (gsHeap st))"
      using gateway_settings_ok [of tr gw "snd acc" cfg st] Some p by auto
    have "get_vhost st = get_vhost (snd acc)"
      using ok(1) by (auto simp: quiet_step_def get_vhost_def vhosts_of_def)
    then have start: "matched_ok env tr own (fst acc, st) \<and> gsHeap (snd (fst acc, st)) = gsHeap st"
      using acc quiet_inv [OF _ ok(1)] by (auto simp: matched_ok_def owned_def)
    let ?ls = "matchGatewayListenersToXRoute (geSelector env) (geGlob env) (tStore tr) gw (gateway_address_hostnames gw)
        (orNamespace own) (orKind own) (prSectionName ref) (prPort ref) hosts"
    have "\<exists>acc'. fold_sum (listener_step (geParse env) tr gw cfg own (gateway_address_hostnames gw)) ?ls (fst acc, st) =
        Inr acc' \<and> (matched_ok env tr own acc' \<and> gsHeap (snd acc') = gsHeap st)"
      by (rule fold_sum_total [where I = "\<lambda>acc'. matched_ok env tr own acc' \<and> gsHeap (snd acc') = gsHeap st", OF _ start],
          rule listener_step_ok [OF gw]) (use ok(2) in auto)
    then show ?thesis
      using \<open>map_of (gateway_map tr) _ = Some gw\<close> Some p by (auto simp: parent_step_def Let_def)
  qed
qed

lemma findMatchingVHostsForXRoute_ok:
  assumes "gateway_inv env tr st"
  shows "\<exists>acc. findMatchingVHostsForXRoute env tr (gateway_map tr) own hosts refs st = Inr acc \<and> matched_ok env tr own acc"
  unfolding findMatchingVHostsForXRoute_def
  by (rule fold_sum_total) (use parent_step_ok assms in \<open>auto simp: matched_ok_def\<close>)

section \<open>All routes\<close>

definition orders_only :: "('a list \<Rightarrow> 'a list) \<Rightarrow> bool" where
  "orders_only f \<longleftrightarrow> (\<forall>xs. mset (f xs) = mset xs)"

lemma orders_only_set: "orders_only f \<Longrightarrow> set (f xs) = set xs"
  by (metis orders_only_def set_mset_mset)

lemma route_step_ok:
  assumes "orders_only (geOrder env)" "gateway_inv env tr st"
    and rules: "\<And>v. own \<in> set (vhOwningResources v) \<Longrightarrow> rules_ok tr (set (vhOwningResources v)) (rules v)"
  shows "\<exists>st'. route_step env tr (gateway_map tr) own hosts refs rules st = Inr st' \<and> gateway_inv env tr st'"
proof -
  obtain ids st1 where found: "findMatchingVHostsForXRoute env tr (gateway_map tr) own hosts refs st = Inr (ids, st1)"
    "matched_ok env tr own (ids, st1)"
    using findMatchingVHostsForXRoute_ok [OF assms(2)] by fastforce
  have "gateway_inv env tr (fold (attach_routes rules) (geOrder env ids) st1)"
    by (rule attach_all_ok [OF rules]) (use found(2) orders_only_set [OF assms(1)] in \<open>auto simp: matched_ok_def\<close>)
  then show ?thesis by (simp add: route_step_def found(1))
qed

lemma gateway_inv_start: "gateway_inv env tr (start_state tr hp)"
  by (simp add: gateway_inv_def start_state_def upstream_cache_ok_def vhosts.all_satisfy_def vhosts_wf_def
      get_vhost_def vhosts_of_def)

lemma gateway_loop:
  assumes "\<And>r st. gateway_inv env tr st \<Longrightarrow> \<exists>st'. f r st = Inr st' \<and> gateway_inv env tr st'" "gateway_inv env tr st"
  shows "\<exists>st'. fold_sum f rs st = Inr st' \<and> gateway_inv env tr st'"
  by (rule fold_sum_total [where I = "gateway_inv env tr"]) (use assms in blast)+

lemma gateways_state_ok:
  assumes "cluster_ok (tStore tr)" "orders_only (geOrder env)"
  shows "\<exists>st. gateways_state env tr hp = Inr st \<and> gateway_inv env tr st"
proof -
  note step = route_step_ok [OF assms(2)]
  have http: "\<exists>st'. HTTPRouteToIR env tr (gateway_map tr) r st = Inr st' \<and> gateway_inv env tr st'"
    if "gateway_inv env tr st" for r st
    unfolding HTTPRouteToIR_def
    by (rule step [OF that]) (use httpRouteRulesToIR_ok [OF assms(1)] in \<open>auto simp: route_owner_def\<close>)
  have tcp: "\<exists>st'. TCPRouteToIR env tr (gateway_map tr) r st = Inr st' \<and> gateway_inv env tr st'"
    if "gateway_inv env tr st" for r st
    unfolding TCPRouteToIR_def
    by (rule step [OF that]) (use tcpRouteRulesToIR_ok [OF assms(1)] in \<open>auto simp: route_owner_def\<close>)
  have tls: "\<exists>st'. TLSRouteToIR env tr (gateway_map tr) r st = Inr st' \<and> gateway_inv env tr st'"
    if "gateway_inv env tr st" for r st
    unfolding TLSRouteToIR_def
    by (rule step [OF that]) (use tlsRouteRulesToIR_ok [OF assms(1)] in \<open>auto simp: route_owner_def\<close>)
  obtain st1 where st1: "fold_sum (HTTPRouteToIR env tr (gateway_map tr)) (ListHTTPRoutes (tStore tr)) (start_state tr hp) =
      Inr st1" "gateway_inv env tr st1"
    using gateway_loop [where f = "HTTPRouteToIR env tr (gateway_map tr)"] http gateway_inv_start by blast
  obtain st2 where st2: "fold_sum (TCPRouteToIR env tr (gateway_map tr)) (ListTCPRoutes (tStore tr)) st1 = Inr st2"
    "gateway_inv env tr st2"
    using gateway_loop [where f = "TCPRouteToIR env tr (gateway_map tr)"] tcp st1(2) by blast
  obtain st3 where "fold_sum (TLSRouteToIR env tr (gateway_map tr)) (ListTLSRoutes (tStore tr)) st2 = Inr st3"
    "gateway_inv env tr st3"
    using gateway_loop [where f = "TLSRouteToIR env tr (gateway_map tr)"] tls st2(2) by blast
  with st1(1) st2(1) show ?thesis by (simp add: gateways_state_def Let_def)
qed

lemma gatewayAPIToIR_vhost:
  assumes "cluster_ok (tStore tr)" "orders_only (geOrder env)" "orders_only vorder"
    "gatewayAPIToIR env vorder tr hp = Inr (vs, st)" "v \<in> set vs"
  shows "\<exists>vid. gateway_vhost_ok env tr (gsHeap st) vid v"
proof -
  obtain st' where "gateways_state env tr hp = Inr st'" "gateway_inv env tr st'"
    using gateways_state_ok [OF assms(1,2)] by blast
  then have "gateway_inv env tr st" "vs = vorder (all_vhosts st)"
    using assms(4) by (auto simp: gatewayAPIToIR_def)
  then show ?thesis
    using vhosts.all_satisfy_listed [of "gateway_vhost_ok env tr (gsHeap st)" st v] assms(5) orders_only_set [OF assms(3)]
    by (auto simp: gateway_inv_def)
qed

end
