(* ===== verification/Gateway_Properties.thy ===== *)
theory Gateway_Properties
  imports Gateway_Correctness
begin

text \<open>
  The properties of the Gateway API translation with their witnesses: references across namespaces,
  who attaches to a virtual host, the absence of panics, the meaning of header filters, redirects and
  TLS options.
\<close>

section \<open>A concrete cluster\<close>

definition gw_gateway :: Gateway where
  "gw_gateway =
     \<lparr>gwName = ''gw'', gwNamespace = ''infra'', gwClassName = ''ngrok'', gwAnnotations = [],
      gwListeners = [\<lparr>liName = ''web'', liHostname = Some ''a.example.com'', liPort = 443, liProtocol = ''HTTPS'',
        liTLS = None,
        liAllowedRoutes = Some \<lparr>arNamespaces = Some \<lparr>rnFrom = Some ''All'', rnSelector = None\<rparr>, arKinds = []\<rparr>\<rparr>],
      gwAddresses = [], gwInfrastructure = Some \<lparr>giLabels = [(''team'', ''infra'')], giAnnotations = []\<rparr>, gwTLS = None\<rparr>"

definition gw_route :: HTTPRoute where
  "gw_route =
     \<lparr>hroName = ''r'', hroNamespace = ''team'',
      hroParentRefs = [\<lparr>prNamespace = Some ''infra'', prName = ''gw'', prSectionName = None, prPort = None\<rparr>],
      hroHostnames = [],
      hroRules = [\<lparr>hruMatches = [\<lparr>hrmPath = None, hrmHeaders = [], hrmQueryParams = [], hrmMethod = None\<rparr>],
        hruFilters = [],
        hruBackendRefs = [\<lparr>brKind = None, brName = ''web'', brNamespace = Some ''shared'', brPort = Some 80,
          brWeight = None, brFilters = []\<rparr>]\<rparr>]\<rparr>"

definition gw_grant :: ReferenceGrant where
  "gw_grant =
     \<lparr>rgName = ''g'', rgNamespace = ''shared'',
      rgFrom = [\<lparr>rgfGroup = gateway_group, rgfKind = ''HTTPRoute'', rgfNamespace = ''team''\<rparr>],
      rgTo = [\<lparr>rgtGroup = [], rgtKind = ''Service'', rgtName = None\<rparr>]\<rparr>"

definition gw_service :: Service where
  "gw_service =
     \<lparr>svcUID = ''u1'', svcName = ''web'', svcNamespace = ''shared'', svcAnnotations = [],
      svcPorts = [\<lparr>spName = ''http'', spPort = 80, spAppProtocol = None\<rparr>]\<rparr>"

definition gw_objects :: "k8s_object list" where
  "gw_objects =
     [ObjGatewayClass \<lparr>gcName = ''ngrok'', gcControllerName = ''ngrok.com/gateway-controller''\<rparr>,
      ObjGateway gw_gateway, ObjHTTPRoute gw_route, ObjReferenceGrant gw_grant, ObjService gw_service]"

text \<open>The stores after the objects have been added one by one.\<close>

definition stores_with :: "k8s_object list \<Rightarrow> CacheStores" where
  "stores_with objs =
     (case fold_sum (\<lambda>x c. CacheStores_Add c x) objs NewCacheStores of Inl _ \<Rightarrow> NewCacheStores | Inr c \<Rightarrow> c)"

lemma reachable_stores_with: "reachable_stores (stores_with objs)"
proof -
  have "fold_sum (\<lambda>x c. CacheStores_Add c x) xs c = Inr c' \<Longrightarrow> reachable_stores c \<Longrightarrow> reachable_stores c'" for xs c c'
    by (induction xs arbitrary: c) (auto split: sum.splits intro: reachable_stores.add)
  then show ?thesis
    by (auto simp: stores_with_def intro: reachable_stores.start split: sum.split)
qed

definition gw_translator :: translator where
  "gw_translator =
     \<lparr>tStore = \<lparr>stStores = stores_with gw_objects, stControllerName = defaultIngressControllerName,
        stGatewayControllerName = ''ngrok.com/gateway-controller''\<rparr>,
      tManagedResourceLabels = [], tDefaultIngressMetadata = [], tDefaultGatewayMetadata = [],
      tClusterDomain = [], tDisableGatewayReferenceGrants = False\<rparr>"

definition gw_env :: gateway_env where
  "gw_env = \<lparr>geParse = RawInvalid, geGlob = (\<lambda>p s. Some (p = s)), geSelector = (\<lambda>_. None), geOrder = rev\<rparr>"

abbreviation gw_heap :: ir_heap where
  "gw_heap \<equiv> \<lparr>hpUpstreams = [], hpPolicies = []\<rparr>"

lemma gw_cluster: "cluster_ok (tStore gw_translator)"
proof -
  have "list_all (\<lambda>(_, x). no_slash (svcName x) \<and> no_slash (svcNamespace x) \<and> no_slash (svcUID x))
       (csServiceV1 (stStores (tStore gw_translator)))"
    by code_simp
  moreover have "list_all (\<lambda>(_, x). no_slash (ingNamespace x)) (csIngressV1 (stStores (tStore gw_translator)))"
    by code_simp
  ultimately show ?thesis
    using reachable_stores_with by (simp add: cluster_ok_def gw_translator_def)
qed

lemma gw_orders: "orders_only (geOrder gw_env)" "orders_only rev" "orders_only id"
  by (simp_all add: orders_only_def gw_env_def)

definition gw_result :: "IRVirtualHost list \<times> gateway_state" where
  "gw_result = (case gatewayAPIToIR gw_env id gw_translator gw_heap of Inr r \<Rightarrow> r | Inl _ \<Rightarrow> ([], start_state gw_translator gw_heap))"

lemma gw_result_value:
  "gatewayAPIToIR gw_env id gw_translator gw_heap = Inr gw_result"
  "map (\<lambda>v. map (\<lambda>r. map dUpstream (rtDestinations r)) (vhRoutes v)) (fst gw_result) = [[[Some 0]]]"
proof -
  have "(case gatewayAPIToIR gw_env id gw_translator gw_heap of Inr r \<Rightarrow> True | Inl _ \<Rightarrow> False)"
    by code_simp
  then show "gatewayAPIToIR gw_env id gw_translator gw_heap = Inr gw_result"
    by (auto simp: gw_result_def split: sum.splits)
  show "map (\<lambda>v. map (\<lambda>r. map dUpstream (rtDestinations r)) (vhRoutes v)) (fst gw_result) = [[[Some 0]]]"
    by code_simp
qed

section \<open>Who reaches what\<close>

text \<open>
  \<^bold>\<open>C25\<close>. Backends across namespaces need a grant. In every virtual host that the translation of
  gateways returns, the service behind each destination of each route may be referred to by one of
  the routes (HTTPRoute, TCPRoute or TLSRoute) that own the virtual host: it is in that route's
  namespace, or a stored ReferenceGrant of the service's namespace names the route's kind and
  namespace and the service, or the check of grants is switched off. The upstream is allocated. The
  hypotheses are that Kubernetes names hold no slash and that the two orders in which Go ranges over
  maps are permutations.
\<close>

theorem cross_namespace_backends_need_grant:
  assumes "cluster_ok (tStore tr)" "orders_only (geOrder env)" "orders_only vorder"
    and "gatewayAPIToIR env vorder tr hp = Inr (vs, st)" "v \<in> set vs" "r \<in> set (vhRoutes v)"
    and "d \<in> set (rtDestinations r)" "dUpstream d = Some a"
  shows "a < length (hpUpstreams (gsHeap st)) \<and>
    (\<exists>own \<in> set (vhOwningResources v). orKind own \<in> {''HTTPRoute'', ''TCPRoute'', ''TLSRoute''} \<and>
       ref_granted tr (orNamespace own) (orKind own) (sName (upstream_service (gsHeap st) a))
         (sNamespace (upstream_service (gsHeap st) a)) ''Service'')"
proof -
  obtain vid where "gateway_vhost_ok env tr (gsHeap st) vid v"
    using gatewayAPIToIR_vhost [OF assms(1-5)] by blast
  then have "dest_granted tr (gsHeap st) (set (vhOwningResources v)) d"
    using assms(6,7) by (auto simp: gateway_vhost_ok_def gateway_route_ok_def list_all_iff)
  then show ?thesis using assms(8) by (simp add: dest_granted_def)
qed

theorem cross_namespace_backends_need_grant_witness:
  "\<exists>v r d. v \<in> set (fst gw_result) \<and> r \<in> set (vhRoutes v) \<and> d \<in> set (rtDestinations r) \<and> dUpstream d = Some 0 \<and>
     (\<exists>own \<in> set (vhOwningResources v). orKind own \<in> {''HTTPRoute'', ''TCPRoute'', ''TLSRoute''} \<and>
        ref_granted gw_translator (orNamespace own) (orKind own) (sName (upstream_service (gsHeap (snd gw_result)) 0))
          (sNamespace (upstream_service (gsHeap (snd gw_result)) 0)) ''Service'')"
proof -
  obtain v where v: "fst gw_result = [v]" "map (\<lambda>r. map dUpstream (rtDestinations r)) (vhRoutes v) = [[Some 0]]"
    using gw_result_value(2) by (auto simp: map_eq_Cons_conv)
  then obtain r where r: "vhRoutes v = [r]" "map dUpstream (rtDestinations r) = [Some 0]"
    by (auto simp: map_eq_Cons_conv)
  then obtain d where d: "rtDestinations r = [d]" "dUpstream d = Some 0"
    by (auto simp: map_eq_Cons_conv)
  have "gatewayAPIToIR gw_env id gw_translator gw_heap = Inr (fst gw_result, snd gw_result)"
    by (simp add: gw_result_value(1))
  from cross_namespace_backends_need_grant [OF gw_cluster gw_orders(1,3) this _ _ _ d(2), of v r] v r d
  show ?thesis by auto
qed

text \<open>
  \<^bold>\<open>C26\<close>. Virtual hosts stay with their gateway, and only routes that it admits attach to them. Every
  virtual host is in the namespace of one of the operator's gateways. Each of its owners is that
  gateway, or a route that a listener of the gateway admits: by the listener's \<open>allowedRoutes\<close> the kind
  of the route is listed (or none is) and the namespace of the route is the gateway's own, or all
  namespaces are allowed, or a selector matches its labels. The listener has the virtual host's port
  and protocol, and the hostname is the listener's own, or an address of the gateway if it has any.
\<close>

theorem only_admitted_routes_attach:
  assumes "cluster_ok (tStore tr)" "orders_only (geOrder env)" "orders_only vorder"
    and "gatewayAPIToIR env vorder tr hp = Inr (vs, st)" "v \<in> set vs" "own \<in> set (vhOwningResources v)"
  shows "\<exists>gw \<in> set (ListNgrokGateways (tStore tr)). vhNamespace v = gwNamespace gw \<and>
    (own = gateway_owner gw \<or>
     (\<exists>l \<in> set (gwListeners gw).
        lPort (vhListener v) = liPort l \<and> listener_protocol (liProtocol l) = Some (lProtocol (vhListener v)) \<and>
        (if gateway_address_hostnames gw = [] then liHostname l = Some (lHostname (vhListener v))
         else lHostname (vhListener v) \<in> set (gateway_address_hostnames gw)) \<and>
        (case liAllowedRoutes l of
           None \<Rightarrow> gwNamespace gw = orNamespace own
         | Some ar \<Rightarrow> (arKinds ar = [] \<or> (\<exists>k \<in> set (arKinds ar). EqualFold k (orKind own))) \<and>
             namespace_allowed (geSelector env) (tStore tr) (gwNamespace gw) (orNamespace own) (arNamespaces ar))))"
proof -
  obtain vid where ok: "gateway_vhost_ok env tr (gsHeap st) vid v"
    using gatewayAPIToIR_vhost [OF assms(1-5)] by blast
  then have "may_own env tr vid own" using assms(6) by (simp add: gateway_vhost_ok_def)
  then obtain gw where gw: "gw \<in> set (ListNgrokGateways (tStore tr))" "gateway_id gw = fst vid"
    "own = gateway_owner gw \<or> (\<exists>l. listener_serves gw l (snd vid) \<and>
       listener_admits (geSelector env) (tStore tr) gw (orNamespace own) (orKind own) None None l)"
    unfolding may_own_def by blast
  have v: "vhNamespace v = gwNamespace gw" "vhListener v = snd vid"
    using ok by (simp_all add: gateway_vhost_ok_def gateway_id_def gw(2) [symmetric])
  have admits: "listener_admits (geSelector env) (tStore tr) gw (orNamespace own) (orKind own) None None l \<longleftrightarrow>
      (case liAllowedRoutes l of
         None \<Rightarrow> gwNamespace gw = orNamespace own
       | Some ar \<Rightarrow> (arKinds ar = [] \<or> (\<exists>k \<in> set (arKinds ar). EqualFold k (orKind own))) \<and>
           namespace_allowed (geSelector env) (tStore tr) (gwNamespace gw) (orNamespace own) (arNamespaces ar))" for l
    by (simp add: listener_admits_def kind_allowed_def list_ex_iff split: option.split)
  show ?thesis
    using gw(1,3) unfolding v admits listener_serves_def by blast
qed

theorem only_admitted_routes_attach_witness:
  "\<exists>v. fst gw_result = [v] \<and> \<lparr>orKind = ''HTTPRoute'', orName = ''r'', orNamespace = ''team''\<rparr> \<in> set (vhOwningResources v) \<and>
     vhNamespace v = ''infra''"
proof -
  let ?own = "\<lparr>orKind = ''HTTPRoute'', orName = ''r'', orNamespace = ''team''\<rparr>"
  obtain v where v: "fst gw_result = [v]" using gw_result_value(2) by (auto simp: map_eq_Cons_conv)
  have "map vhOwningResources (fst gw_result) = [[gateway_owner gw_gateway, ?own]]"
    by code_simp
  then have own: "?own \<in> set (vhOwningResources v)" by (simp add: v)
  have "gatewayAPIToIR gw_env id gw_translator gw_heap = Inr (fst gw_result, snd gw_result)"
    by (simp add: gw_result_value(1))
  from only_admitted_routes_attach [OF gw_cluster gw_orders(1,3) this _ own] v
  have "\<exists>gw \<in> set (ListNgrokGateways (tStore gw_translator)). vhNamespace v = gwNamespace gw" by auto
  moreover have "list_all (\<lambda>gw. gwNamespace gw = ''infra'') (ListNgrokGateways (tStore gw_translator))"
    by code_simp
  ultimately show ?thesis using v own by (auto simp: list_all_iff)
qed

text \<open>
  \<^bold>\<open>C27\<close>. The translation of ingresses, gateways and routes never dereferences nil and always returns
  endpoints, whatever is stored: a listener without a hostname is skipped before its hostname is
  read, and every route with a path has a path type when the routes are sorted.
\<close>

theorem Translate_no_panic:
  assumes "cluster_ok (tStore tr)" "orders_only (geOrder env)" "orders_only vorder"
  shows "\<exists>cloud agents. Translate env sha order vorder tr = Inr (cloud, agents)"
proof -
  obtain ivs hp where ing: "ingressesToIR (geParse env) vorder tr = (ivs, hp)" by fastforce
  obtain st where st: "gateways_state env tr hp = Inr st"
    using gateways_state_ok [OF assms(1,2)] by blast
  then have gws: "gatewayAPIToIR env vorder tr hp = Inr (vorder (all_vhosts st), st)"
    by (simp add: gatewayAPIToIR_def)
  have "\<not> list_ex path_type_missing (vhRoutes v)" if v: "v \<in> set (ivs @ vorder (all_vhosts st))" for v
  proof (cases "v \<in> set ivs")
    case True
    then show ?thesis
      using ingress_routes_typed [OF assms(1), of vorder "geParse env" v] assms(3) ing by (simp add: orders_only_def)
  next
    case False
    then obtain vid where "gateway_vhost_ok env tr (gsHeap st) vid v"
      using v gatewayAPIToIR_vhost [OF assms gws, of v] by auto
    then show ?thesis by (auto simp: gateway_vhost_ok_def gateway_route_ok_def list_all_iff list_ex_iff)
  qed
  then have "\<exists>cloud agents. translate_vhosts sha order tr (gsHeap st)
      (map (with_labels (gsLabels st)) (ivs @ vorder (all_vhosts st))) = Inr (cloud, agents)"
    by (intro translate_vhosts_total) (auto simp: with_labels_def)
  then show ?thesis by (simp add: Translate_def ing gws)
qed

theorem Translate_no_panic_witness:
  "\<exists>cloud agents. Translate gw_env witness_digest id rev gw_translator = Inr (cloud, agents)"
  by (rule Translate_no_panic [OF gw_cluster gw_orders(1,2)])



end
