(* ===== verification/Gateway_Filter_Properties.thy ===== *)
theory Gateway_Filter_Properties
  imports Gateway_Matching
begin

text \<open>
  What the generated traffic policies and TLS settings mean: header filters act as the Gateway API
  says, redirects to HTTPS lose their port, and canonical TLS options win over legacy ones.
\<close>

section \<open>Header filters\<close>

text \<open>
  The documented effect of the two header actions of a traffic policy on the headers of a message:
  \<open>remove-headers\<close> drops all headers of the listed names, \<open>add-headers\<close> appends; names are compared
  without regard to case.
\<close>

type_synonym headers = "(string \<times> string) list"

fun json_strings :: "json \<Rightarrow> string list" where
  "json_strings (JArr xs) = concat (map (\<lambda>x. case x of JStr s \<Rightarrow> [s] | _ \<Rightarrow> []) xs)"
| "json_strings _ = []"

fun json_string_pairs :: "json \<Rightarrow> headers" where
  "json_string_pairs (JObj kvs) = concat (map (\<lambda>(k, v). case v of JStr s \<Rightarrow> [(k, s)] | _ \<Rightarrow> []) kvs)"
| "json_string_pairs _ = []"

fun config_field :: "string \<Rightarrow> json \<Rightarrow> json" where
  "config_field n (JObj kvs) = json_field n kvs"
| "config_field n _ = JNull"

definition run_header_action :: "Action \<Rightarrow> headers \<Rightarrow> headers" where
  "run_header_action a hs =
     (if aType a = ''remove-headers'' then
        filter (\<lambda>(k, _). \<not> list_ex (EqualFold k) (json_strings (config_field ''headers'' (aConfig a)))) hs
      else if aType a = ''add-headers'' then hs @ json_string_pairs (config_field ''headers'' (aConfig a))
      else hs)"

definition run_header_rule :: "Rule \<Rightarrow> headers \<Rightarrow> headers" where
  "run_header_rule r hs = fold run_header_action (rActions r) hs"

definition header_values :: "string \<Rightarrow> headers \<Rightarrow> string list" where
  "header_values n hs = map snd (filter (\<lambda>(k, _). EqualFold k n) hs)"

lemma header_values_append [simp]: "header_values n (xs @ ys) = header_values n xs @ header_values n ys"
  by (simp add: header_values_def)

lemma json_strings_of: "json_strings (JArr (map JStr xs)) = xs"
  by (induction xs) simp_all

lemma json_pairs_of: "json_string_pairs (JObj (map (\<lambda>(k, v). (k, JStr v)) kvs)) = kvs"
  by (induction kvs) auto

lemma headers_field: "config_field ''headers'' (JObj [(''headers'', j)]) = j"
  by (simp add: json_field_def to_lower_def to_lower_char_def is_upper_def)

lemma fold_update_distinct:
  "distinct (map fst (acc @ kvs)) \<Longrightarrow> fold (\<lambda>(k, v) hs. AList.update k v hs) kvs acc = acc @ kvs"
proof (induction kvs arbitrary: acc)
  case (Cons kv kvs)
  obtain k v where kv: "kv = (k, v)" by fastforce
  have "AList.update k v acc = acc @ [(k, v)]" if "k \<notin> set (map fst acc)"
    using that by (induction acc) auto
  then show ?case using Cons.IH [of "acc @ [(k, v)]"] Cons.prems kv by simp
qed simp

lemma run_header_rule_eq:
  assumes "distinct (map (to_lower \<circ> fst) (hhfAdd h @ hhfSet h))"
  shows "run_header_rule (header_rule name h) hs =
    filter (\<lambda>(k, _). \<not> list_ex (EqualFold k) (hhfRemove h @ map fst (hhfSet h))) hs @ hhfAdd h @ hhfSet h"
proof -
  have "distinct (map to_lower (map fst (hhfAdd h @ hhfSet h)))" using assms by (simp add: comp_def)
  then have "distinct (map fst (hhfAdd h @ hhfSet h))" unfolding distinct_map by (rule conjunct1)
  then have "headers_to_add h = hhfAdd h @ hhfSet h"
    using fold_update_distinct [of "[]" "hhfAdd h @ hhfSet h"] by (simp add: headers_to_add_def)
  moreover have "run_header_rule (header_rule name h) hs =
      filter (\<lambda>(k, _). \<not> list_ex (EqualFold k) (headers_to_remove h)) hs @ headers_to_add h"
    by (simp add: run_header_rule_def header_rule_def run_header_action_def headers_field json_strings_of json_pairs_of
        del: config_field.simps json_strings.simps json_string_pairs.simps)
  ultimately show ?thesis by (simp add: headers_to_remove_def)
qed

lemma header_values_filter:
  "header_values n (filter (\<lambda>(k, _). \<not> list_ex (EqualFold k) rs) hs) =
     (if list_ex (EqualFold n) rs then [] else header_values n hs)"
proof -
  have "EqualFold k n \<Longrightarrow> list_ex (EqualFold k) rs = list_ex (EqualFold n) rs" for k
    by (simp add: EqualFold_def list_ex_iff)
  then have "filter (\<lambda>(k, _). EqualFold k n) (filter (\<lambda>(k, _). \<not> list_ex (EqualFold k) rs) hs) =
      filter (\<lambda>(k, _). EqualFold k n \<and> \<not> list_ex (EqualFold n) rs) hs"
    by (auto simp: filter_filter intro!: filter_cong)
  then show ?thesis by (simp add: header_values_def)
qed

text \<open>
  Header filters of HTTPRoutes mean what the Gateway API says. A request (or response) header
  filter is translated into one unconditional rule of the request (or response) phase. Run on any
  headers, it leaves a header that is set with exactly the given value, a header that is removed with
  none but the added ones, and any other header with its old values followed by the added one. This
  takes the API's rule that a header is named at most once among those to set and to add.
\<close>

theorem header_filter_meaning:
  assumes "distinct (map (to_lower \<circ> fst) (hhfAdd h @ hhfSet h))"
    and "hfRequestHeaderModifier f = Some h" "hfResponseHeaderModifier f = Some h"
  shows "\<exists>req res.
    gwapiRequestHeaderFilterToTrafficPolicy f = Inr (NewTrafficPolicy\<lparr>OnHTTPRequest := [req]\<rparr>) \<and>
    gwapiResponseHeaderFilterToTrafficPolicy f = Inr (NewTrafficPolicy\<lparr>OnHTTPResponse := [res]\<rparr>) \<and>
    (\<forall>r \<in> {req, res}. rExpressions r = [] \<and>
      (\<forall>n hs. header_values n (run_header_rule r hs) =
         (if list_ex (EqualFold n) (map fst (hhfSet h)) then header_values n (hhfSet h)
          else (if list_ex (EqualFold n) (hhfRemove h) then [] else header_values n hs) @ header_values n (hhfAdd h))))"
proof -
  have none: "header_values n kvs = []" if "\<not> list_ex (EqualFold n) (map fst kvs)" for n and kvs :: headers
    using that by (auto simp: header_values_def EqualFold_def list_ex_iff filter_empty_conv)
  have "header_values n (hhfAdd h) = []" if "list_ex (EqualFold n) (map fst (hhfSet h))" for n
  proof (rule none)
    show "\<not> list_ex (EqualFold n) (map fst (hhfAdd h))"
    proof
      assume "list_ex (EqualFold n) (map fst (hhfAdd h))"
      then have "to_lower n \<in> set (map (to_lower \<circ> fst) (hhfAdd h))" by (auto simp: list_ex_iff EqualFold_def)
      moreover have "to_lower n \<in> set (map (to_lower \<circ> fst) (hhfSet h))"
        using that by (auto simp: list_ex_iff EqualFold_def)
      ultimately show False using assms(1) unfolding map_append distinct_append by blast
    qed
  qed
  then have "header_values n (run_header_rule (header_rule name h) hs) =
      (if list_ex (EqualFold n) (map fst (hhfSet h)) then header_values n (hhfSet h)
       else (if list_ex (EqualFold n) (hhfRemove h) then [] else header_values n hs) @ header_values n (hhfAdd h))"
    for name n hs
    using none [of n "hhfSet h"]
    unfolding run_header_rule_eq [OF assms(1)] header_values_append header_values_filter by auto
  then show ?thesis
    using assms(2,3)
    by (intro exI [of _ "header_rule ''GatewayAPI-Request-Header-Filter'' h"]
          exI [of _ "header_rule ''GatewayAPI-Response-Header-Filter'' h"])
       (simp add: gwapiRequestHeaderFilterToTrafficPolicy_def gwapiResponseHeaderFilterToTrafficPolicy_def
          header_rule_def)
qed

definition witness_header_filter :: HTTPHeaderFilter where
  "witness_header_filter =
     \<lparr>hhfSet = [(''X-Set'', ''new'')], hhfAdd = [(''X-Add'', ''more'')], hhfRemove = [''X-Gone'']\<rparr>"

definition witness_filter :: HTTPRouteFilter where
  "witness_filter =
     \<lparr>hfType = ''RequestHeaderModifier'', hfRequestHeaderModifier = Some witness_header_filter,
      hfResponseHeaderModifier = Some witness_header_filter, hfRequestRedirect = None, hfURLRewrite = None,
      hfExtensionRef = None\<rparr>"

theorem header_filter_meaning_witness:
  "\<exists>req. gwapiRequestHeaderFilterToTrafficPolicy witness_filter = Inr (NewTrafficPolicy\<lparr>OnHTTPRequest := [req]\<rparr>) \<and>
     header_values ''x-set'' (run_header_rule req [(''X-Set'', ''old'')]) = [''new'']"
proof -
  have d: "distinct (map (to_lower \<circ> fst) (hhfAdd witness_header_filter @ hhfSet witness_header_filter))"
    by code_simp
  have v: "list_ex (EqualFold ''x-set'') (map fst (hhfSet witness_header_filter))"
    "header_values ''x-set'' (hhfSet witness_header_filter) = [''new'']"
    by code_simp+
  from header_filter_meaning [OF d, of witness_filter] v show ?thesis
    by (auto simp: witness_filter_def)
qed

section \<open>Redirects\<close>

text \<open>
  A redirect to HTTPS with a port other than 443 loses the port: the policy is the same as if
  no port were given, so clients are sent to the port they came from.
\<close>

theorem https_redirect_drops_port:
  assumes "hfRequestRedirect f = Some redirect" "rrScheme redirect = Some scheme" "to_lower scheme = ''https''"
    and "rrPort redirect = Some port" "port \<noteq> 443"
  shows "gwapiRedirectFilterToTrafficPolicy f mc =
    gwapiRedirectFilterToTrafficPolicy (f\<lparr>hfRequestRedirect := Some (redirect\<lparr>rrPort := None\<rparr>)\<rparr>) mc"
proof -
  have "scheme \<noteq> []" using assms(3) by (auto simp: to_lower_def)
  then have "redirect_port redirect = redirect_port (redirect\<lparr>rrPort := None\<rparr>)"
    using assms(2-5) by (simp add: redirect_port_def)
  then show ?thesis
    using assms(1) by (simp add: gwapiRedirectFilterToTrafficPolicy_def split: sum.split)
qed

definition witness_redirect :: HTTPRequestRedirectFilter where
  "witness_redirect =
     \<lparr>rrScheme = Some ''https'', rrHostname = None, rrPath = None, rrPort = Some 8443, rrStatusCode = None\<rparr>"

theorem https_redirect_drops_port_witness:
  "gwapiRedirectFilterToTrafficPolicy (witness_filter\<lparr>hfRequestRedirect := Some witness_redirect\<rparr>) None =
   gwapiRedirectFilterToTrafficPolicy
     (witness_filter\<lparr>hfRequestRedirect := Some witness_redirect,
        hfRequestRedirect := Some (witness_redirect\<lparr>rrPort := None\<rparr>)\<rparr>) None"
proof -
  have "to_lower ''https'' = ''https''" by code_simp
  then show ?thesis
    by (intro https_redirect_drops_port [where port = 8443]) (simp_all add: witness_redirect_def)
qed

section \<open>TLS options\<close>

lemma prefixes_differ [simp]:
  "TLSOptionKeyPrefix @ s \<noteq> LegacyTLSOptionKeyPrefix @ t" "LegacyTLSOptionKeyPrefix @ t \<noteq> TLSOptionKeyPrefix @ s"
  by (simp_all add: TLSOptionKeyPrefix_def LegacyTLSOptionKeyPrefix_def)

lemma has_prefix_iff: "has_prefix p s \<longleftrightarrow> (\<exists>t. s = p @ t)"
  by (metis append_eq_conv_conj append_take_drop_id has_prefix_def)

lemma has_prefix_append [simp]: "has_prefix p (p @ t)"
  by (simp add: has_prefix_def)

lemma no_canonical_prefix [simp]: "\<not> has_prefix TLSOptionKeyPrefix (LegacyTLSOptionKeyPrefix @ t)"
  by (simp add: has_prefix_iff)

lemma option_suffix_iff:
  "option_suffix options key = Some s \<longleftrightarrow>
     key = TLSOptionKeyPrefix @ s \<or>
     key = LegacyTLSOptionKeyPrefix @ s \<and> TLSOptionKeyPrefix @ s \<notin> set (map fst options)"
proof -
  consider t where "key = TLSOptionKeyPrefix @ t" | t where "key = LegacyTLSOptionKeyPrefix @ t"
    | "\<not> has_prefix TLSOptionKeyPrefix key" "\<not> has_prefix LegacyTLSOptionKeyPrefix key"
    by (auto simp: has_prefix_iff)
  then show ?thesis
  proof cases
    case (2 t)
    then show ?thesis by (force simp: option_suffix_def Let_def list_ex_iff)
  qed (auto simp: option_suffix_def has_prefix_iff)
qed

definition store_option ::
  "(string \<times> string) list \<Rightarrow> string \<times> string \<Rightarrow> (string \<times> string) list \<Rightarrow> (string \<times> string) list" where
  "store_option options kv acc =
     (case option_suffix options (fst kv) of None \<Rightarrow> acc | Some s \<Rightarrow> AList.update s (snd kv) acc)"

lemma extended_options_ok:
  "extended_options options acc rest = Inr res \<Longrightarrow> res = fold (store_option options) rest acc"
  by (induction options acc rest rule: extended_options.induct)
     (auto simp: store_option_def split: option.splits if_splits)

lemma stored_option_absent:
  "(\<And>k. k \<in> set (map fst rest) \<Longrightarrow> option_suffix options k \<noteq> Some s) \<Longrightarrow>
   map_of (fold (store_option options) rest acc) s = map_of acc s"
  by (induction rest arbitrary: acc) (auto simp: store_option_def update_conv split: option.split)

lemma stored_option_present:
  assumes "distinct (map fst options)" "set rest \<subseteq> set options" "distinct (map fst rest)" "(k, v) \<in> set rest"
    "option_suffix options k = Some s"
  shows "map_of (fold (store_option options) rest acc) s = Some v"
  using assms(2-)
proof (induction rest arbitrary: acc)
  case (Cons kv rest)
  show ?case
  proof (cases "kv = (k, v)")
    case True
    have "option_suffix options k' \<noteq> Some s" if k': "k' \<in> set (map fst rest)" for k'
    proof
      assume "option_suffix options k' = Some s"
      moreover have "(k, v) \<in> set options" "fst ` set rest \<subseteq> fst ` set options" using Cons.prems(1) True by auto
      then have "k' \<noteq> k" "k \<in> set (map fst options)" "k' \<in> set (map fst options)"
        using Cons.prems(2) True k' by force+
      ultimately show False using Cons.prems(4) unfolding option_suffix_iff by blast
    qed
    then have "map_of (fold (store_option options) rest (AList.update s v acc)) s = Some v"
      by (subst stored_option_absent) simp_all
    moreover have "store_option options kv acc = AList.update s v acc"
      using Cons.prems(4) True by (simp add: store_option_def)
    ultimately show ?thesis by simp
  next
    case False
    then show ?thesis using Cons by simp
  qed
qed simp

lemma reserved_keys:
  assumes "k \<in> set TLSOptionKeyReservedKeys"
  shows "\<exists>s. (k = TLSOptionKeyPrefix @ s \<or> k = LegacyTLSOptionKeyPrefix @ s) \<and>
    TLSOptionKeyPrefix @ s \<in> set TLSOptionKeyReservedKeys"
proof -
  let ?names = "set [''server_private_key'', ''server_certificate'', ''mutual_tls_certificate_authorities'']"
  have "set TLSOptionKeyReservedKeys = (@) TLSOptionKeyPrefix ` ?names \<union> (@) LegacyTLSOptionKeyPrefix ` ?names"
    by (simp only: TLSOptionKeyReservedKeys_def set_append set_map)
  then show ?thesis using assms by blast
qed

text \<open>
  The TLS options of a listener: when they are accepted, each option without its prefix has the
  value given under the canonical prefix, or if there is none, the value under the legacy prefix; other
  options are ignored, and the order of the map does not matter. They are refused exactly if a
  reserved key is among them.
\<close>

theorem tls_options_exact:
  assumes "distinct (map fst options)"
  shows "(\<forall>res. extended_options options [] options = Inr res \<longrightarrow>
      (\<forall>s. map_of res s =
         (case map_of options (TLSOptionKeyPrefix @ s) of
            Some v \<Rightarrow> Some v
          | None \<Rightarrow> map_of options (LegacyTLSOptionKeyPrefix @ s)))) \<and>
    ((\<exists>e. extended_options options [] options = Inl e) \<longleftrightarrow>
      set (map fst options) \<inter> set TLSOptionKeyReservedKeys \<noteq> {})"
proof (intro conjI allI impI)
  fix res s assume "extended_options options [] options = Inr res"
  then have res: "res = fold (store_option options) options []" by (rule extended_options_ok)
  note present = stored_option_present [OF assms order_refl assms]
  show "map_of res s = (case map_of options (TLSOptionKeyPrefix @ s) of Some v \<Rightarrow> Some v
      | None \<Rightarrow> map_of options (LegacyTLSOptionKeyPrefix @ s))"
  proof (cases "map_of options (TLSOptionKeyPrefix @ s)")
    case (Some v)
    then show ?thesis
      using present [OF map_of_SomeD [OF Some], of s] by (simp add: res option_suffix_iff)
  next
    case None
    then have no: "TLSOptionKeyPrefix @ s \<notin> set (map fst options)" by (simp add: map_of_eq_None_iff)
    show ?thesis
    proof (cases "map_of options (LegacyTLSOptionKeyPrefix @ s)")
      case (Some v)
      then show ?thesis
        using None present [OF map_of_SomeD [OF Some], of s] no by (simp add: res option_suffix_iff)
    next
      case none: None
      then have "LegacyTLSOptionKeyPrefix @ s \<notin> set (map fst options)" by (simp add: map_of_eq_None_iff)
      then have "option_suffix options k \<noteq> Some s" if "k \<in> set (map fst options)" for k
        using no that unfolding option_suffix_iff by blast
      from stored_option_absent [OF this] show ?thesis using None none by (simp add: res)
    qed
  qed
next
  have refused: "(\<exists>e. extended_options options acc rest = Inl e) \<longleftrightarrow>
      (\<exists>k \<in> set (map fst rest). k \<in> set TLSOptionKeyReservedKeys \<and> option_suffix options k \<noteq> None)" for acc rest
    by (induction options acc rest rule: extended_options.induct) (auto split: option.split)
  have "option_suffix options k \<noteq> None \<or> (\<exists>k' \<in> set (map fst options). k' \<in> set TLSOptionKeyReservedKeys \<and>
      option_suffix options k' \<noteq> None)" if k: "k \<in> set TLSOptionKeyReservedKeys" for k
  proof -
    obtain s where s: "k = TLSOptionKeyPrefix @ s \<or> k = LegacyTLSOptionKeyPrefix @ s"
      "TLSOptionKeyPrefix @ s \<in> set TLSOptionKeyReservedKeys"
      using reserved_keys [OF k] by blast
    show ?thesis
      using s option_suffix_iff [of options k s] option_suffix_iff [of options "TLSOptionKeyPrefix @ s" s]
      by (metis option.distinct(1))
  qed
  then show "(\<exists>e. extended_options options [] options = Inl e) \<longleftrightarrow>
      set (map fst options) \<inter> set TLSOptionKeyReservedKeys \<noteq> {}"
    unfolding refused by blast
qed

definition witness_options :: "(string \<times> string) list" where
  "witness_options =
     [(LegacyTLSOptionKeyPrefix @ ''min_version'', ''1.2''), (TLSOptionKeyPrefix @ ''min_version'', ''1.3'')]"

theorem tls_options_exact_witness:
  "\<exists>res. extended_options witness_options [] witness_options = Inr res \<and> map_of res ''min_version'' = Some ''1.3''"
proof -
  have d: "distinct (map fst witness_options)" and v: "map_of witness_options (TLSOptionKeyPrefix @ ''min_version'') = Some ''1.3''"
    and no: "set (map fst witness_options) \<inter> set TLSOptionKeyReservedKeys = {}"
    by code_simp+
  note exact = tls_options_exact [OF d]
  then obtain res where "extended_options witness_options [] witness_options = Inr res"
    using no by (cases "extended_options witness_options [] witness_options") auto
  then show ?thesis using exact v by auto
qed

end
