(* ===== verification/Port_Allocator.thy ===== *)
theory Port_Allocator
  imports Ngrok_Prelude "HOL-Library.Word"
begin

text \<open>
  \<^bold>\<open>internal/controller/bindings/port_allocator.go\<close>: ports for the bound endpoints, a bitmap that
  starts at the first port of the range. Ports are 16-bit words, so the offset arithmetic wraps as
  in Go.

  The bitmap itself is \<open>libnetwork/bitmap\<close> of docker: its operations are an argument (\<open>bitmap_ops\<close>),
  and the interface \<open>bitmap\<close> states what its documentation promises: bits below the size can be set
  once, \<open>SetAny\<close> finds a clear bit as long as there is one. Every operation of the allocator holds
  its lock from start to end, so operations are atomic steps.
\<close>

section \<open>The bitmap\<close>

datatype bitmap_error = BitOutOfRange | BitAllocated | NoBitAvailable

record 'b bitmap_ops =
  bmNew :: "nat \<Rightarrow> 'b"
  bmSet :: "'b \<Rightarrow> nat \<Rightarrow> bitmap_error + 'b"
  bmSetAny :: "'b \<Rightarrow> bool \<Rightarrow> bitmap_error + (nat \<times> 'b)"
  bmIsSet :: "'b \<Rightarrow> nat \<Rightarrow> bool"
  bmUnset :: "'b \<Rightarrow> nat \<Rightarrow> bitmap_error + 'b"
  bmUnselected :: "'b \<Rightarrow> nat"

section \<open>The allocator\<close>

type_synonym port = "16 word"

record 'b portBitmap =
  pbStart :: port
  pbPorts :: 'b

datatype port_error = PortBeforeStart port port | BitmapError bitmap_error

definition newPortBitmap :: "'b bitmap_ops \<Rightarrow> port \<Rightarrow> port \<Rightarrow> 'b portBitmap" where
  "newPortBitmap ops start stop = \<lparr>pbStart = start, pbPorts = bmNew ops (unat (stop - start))\<rparr>"

definition portBitmap_Set :: "'b bitmap_ops \<Rightarrow> 'b portBitmap \<Rightarrow> port \<Rightarrow> port_error + 'b portBitmap" where
  "portBitmap_Set ops pb port =
     (if port < pbStart pb then Inl (PortBeforeStart port (pbStart pb))
      else case bmSet ops (pbPorts pb) (unat (port - pbStart pb)) of
          Inl e \<Rightarrow> Inl (BitmapError e)
        | Inr b \<Rightarrow> Inr (pb\<lparr>pbPorts := b\<rparr>))"

definition portBitmap_SetAny :: "'b bitmap_ops \<Rightarrow> 'b portBitmap \<Rightarrow> port_error + (port \<times> 'b portBitmap)" where
  "portBitmap_SetAny ops pb =
     (case bmSetAny ops (pbPorts pb) True of
        Inl e \<Rightarrow> Inl (BitmapError e)
      | Inr (n, b) \<Rightarrow> Inr (of_nat n + pbStart pb, pb\<lparr>pbPorts := b\<rparr>))"

definition portBitmap_IsSet :: "'b bitmap_ops \<Rightarrow> 'b portBitmap \<Rightarrow> port \<Rightarrow> port_error + bool" where
  "portBitmap_IsSet ops pb port =
     (if port < pbStart pb then Inl (PortBeforeStart port (pbStart pb))
      else Inr (bmIsSet ops (pbPorts pb) (unat (port - pbStart pb))))"

definition portBitmap_Unset :: "'b bitmap_ops \<Rightarrow> 'b portBitmap \<Rightarrow> port \<Rightarrow> port_error + 'b portBitmap" where
  "portBitmap_Unset ops pb port =
     (if port < pbStart pb then Inl (PortBeforeStart port (pbStart pb))
      else case bmUnset ops (pbPorts pb) (unat (port - pbStart pb)) of
          Inl e \<Rightarrow> Inl (BitmapError e)
        | Inr b \<Rightarrow> Inr (pb\<lparr>pbPorts := b\<rparr>))"

definition portBitmap_NumFree :: "'b bitmap_ops \<Rightarrow> 'b portBitmap \<Rightarrow> nat" where
  "portBitmap_NumFree ops pb = bmUnselected ops (pbPorts pb)"

definition portBitmap_Replace :: "'b portBitmap \<Rightarrow> 'b portBitmap \<Rightarrow> 'b portBitmap" where
  "portBitmap_Replace pb other = pb\<lparr>pbPorts := pbPorts other\<rparr>"

section \<open>The interfaces\<close>

text \<open>What the allocator relies on.\<close>

locale bitmap =
  fixes ops :: "'b bitmap_ops"
    and bits :: "'b \<Rightarrow> nat set"
    and bm_size :: "'b \<Rightarrow> nat"
  assumes bits_lt: "n \<in> bits b \<Longrightarrow> n < bm_size b"
    and new_bits: "bits (bmNew ops k) = {}"
    and new_size: "bm_size (bmNew ops k) = k"
    and set_error: "bm_size b \<le> n \<or> n \<in> bits b \<Longrightarrow> \<exists>e. bmSet ops b n = Inl e"
    and set_ok: "n < bm_size b \<Longrightarrow> n \<notin> bits b \<Longrightarrow>
      \<exists>b'. bmSet ops b n = Inr b' \<and> bits b' = insert n (bits b) \<and> bm_size b' = bm_size b"
    and any_full: "bits b = {..<bm_size b} \<Longrightarrow> \<exists>e. bmSetAny ops b serial = Inl e"
    and any_ok: "bits b \<noteq> {..<bm_size b} \<Longrightarrow>
      \<exists>n b'. bmSetAny ops b serial = Inr (n, b') \<and> n < bm_size b \<and> n \<notin> bits b \<and>
        bits b' = insert n (bits b) \<and> bm_size b' = bm_size b"
    and is_set: "bmIsSet ops b n \<longleftrightarrow> n \<in> bits b"
    and unset_error: "bm_size b \<le> n \<Longrightarrow> \<exists>e. bmUnset ops b n = Inl e"
    and unset_ok: "n < bm_size b \<Longrightarrow>
      \<exists>b'. bmUnset ops b n = Inr b' \<and> bits b' = bits b - {n} \<and> bm_size b' = bm_size b"
    and unselected: "bmUnselected ops b = bm_size b - card (bits b)"

text \<open>What the allocator promises: a set of used ports within a range.\<close>

locale port_allocator =
  fixes range :: "port set"
    and inv :: "'s \<Rightarrow> bool"
    and used :: "'s \<Rightarrow> port set"
    and set_port :: "'s \<Rightarrow> port \<Rightarrow> port_error + 's"
    and set_any :: "'s \<Rightarrow> port_error + (port \<times> 's)"
    and unset :: "'s \<Rightarrow> port \<Rightarrow> port_error + 's"
  assumes used_range: "inv s \<Longrightarrow> used s \<subseteq> range"
    and set_port_ok: "inv s \<Longrightarrow> set_port s p = Inr s' \<Longrightarrow>
      inv s' \<and> p \<in> range \<and> p \<notin> used s \<and> used s' = insert p (used s)"
    and set_port_error: "inv s \<Longrightarrow> set_port s p = Inl e \<Longrightarrow> p \<notin> range \<or> p \<in> used s"
    and set_any_ok: "inv s \<Longrightarrow> set_any s = Inr (p, s') \<Longrightarrow>
      inv s' \<and> p \<in> range \<and> p \<notin> used s \<and> used s' = insert p (used s)"
    and set_any_error: "inv s \<Longrightarrow> set_any s = Inl e \<Longrightarrow> used s = range"
    and unset_ok: "inv s \<Longrightarrow> unset s p = Inr s' \<Longrightarrow> inv s' \<and> used s' = used s - {p}"
    and unset_error: "inv s \<Longrightarrow> unset s p = Inl e \<Longrightarrow> p \<notin> range"
begin

lemma set_any_possible: "inv s \<Longrightarrow> p \<in> range \<Longrightarrow> p \<notin> used s \<Longrightarrow> \<exists>q s'. set_any s = Inr (q, s')"
  using set_any_error by (cases "set_any s") auto

lemma release_then_reserve:
  assumes "inv s" "p \<in> used s" "unset s p = Inr s'" "set_port s' p = Inr s''"
  shows "used s'' = used s"
  using assms set_port_ok unset_ok by (metis insert_Diff)

text \<open>Allocating a port for each of a list of requests, as the creation of bindings does.\<close>

primrec allocate :: "nat \<Rightarrow> 's \<Rightarrow> port list \<times> 's" where
  "allocate 0 s = ([], s)"
| "allocate (Suc n) s =
     (case set_any s of
        Inl _ \<Rightarrow> ([], s)
      | Inr (p, s') \<Rightarrow> let (ps, s'') = allocate n s' in (p # ps, s''))"

lemma allocate_spec:
  "inv s \<Longrightarrow> allocate n s = (ps, s') \<Longrightarrow>
   inv s' \<and> distinct ps \<and> set ps \<inter> used s = {} \<and> used s' = used s \<union> set ps \<and>
   (length ps < n \<longrightarrow> used s' = range)"
proof (induction n arbitrary: s ps s')
  case (Suc n)
  show ?case
  proof (cases "set_any s")
    case (Inl e)
    then show ?thesis using Suc.prems set_any_error by auto
  next
    case (Inr x)
    obtain p s1 where x: "x = (p, s1)" by fastforce
    obtain qs s2 where q: "allocate n s1 = (qs, s2)" by fastforce
    note ok = set_any_ok [OF Suc.prems(1) Inr [unfolded x]]
    have "ps = p # qs" "s' = s2" using Suc.prems(2) Inr x q by auto
    then show ?thesis using Suc.IH [OF _ q] ok by auto
  qed
qed simp

end

text \<open>A bitmap whose size is that of the range gives such an allocator.\<close>

definition range_ports :: "port \<Rightarrow> port \<Rightarrow> port set" where
  "range_ports start stop = {p. start \<le> p \<and> p < stop}"

definition used_ports :: "('b \<Rightarrow> nat set) \<Rightarrow> 'b portBitmap \<Rightarrow> port set" where
  "used_ports bits pb = (\<lambda>n. of_nat n + pbStart pb) ` bits (pbPorts pb)"

definition ports_inv :: "('b \<Rightarrow> nat) \<Rightarrow> port \<Rightarrow> port \<Rightarrow> 'b portBitmap \<Rightarrow> bool" where
  "ports_inv bm_size start stop pb \<longleftrightarrow>
     pbStart pb = start \<and> bm_size (pbPorts pb) = unat (stop - start)"

lemma offset_unat:
  fixes start stop :: port
  assumes "start \<le> stop" "n < unat (stop - start)"
  shows "unat (of_nat n + start :: port) = n + unat start"
proof -
  have "unat (stop - start) = unat stop - unat start" using assms(1) by (rule unat_sub)
  then have "n + unat start < unat stop" using assms(2) by linarith
  moreover have "unat stop < 65536" using unsigned_less [of stop, where 'a = nat] by simp
  ultimately have "n + unat start < 65536" by linarith
  then show ?thesis
    by (simp add: unat_word_ariths unat_of_nat)
qed

lemma offset_in_range:
  fixes start stop :: port
  assumes "start \<le> stop"
  shows "n < unat (stop - start) \<Longrightarrow> of_nat n + start \<in> range_ports start stop"
    and "p \<in> range_ports start stop \<Longrightarrow> unat (p - start) < unat (stop - start) \<and> of_nat (unat (p - start)) + start = p"
    and "n < unat (stop - start) \<Longrightarrow> unat ((of_nat n + start) - start) = n"
proof -
  have sub: "unat (stop - start) = unat stop - unat start" using assms by (rule unat_sub)
  show "of_nat n + start \<in> range_ports start stop" if "n < unat (stop - start)"
    using offset_unat [OF assms that] that sub
    by (simp add: range_ports_def word_le_nat_alt word_less_nat_alt)
  show "unat (p - start) < unat (stop - start) \<and> of_nat (unat (p - start)) + start = p"
    if "p \<in> range_ports start stop"
    using that sub unat_sub [of start p]
    by (auto simp: range_ports_def word_le_nat_alt word_less_nat_alt)
  show "unat ((of_nat n + start) - start) = n" if "n < unat (stop - start)"
    using that unsigned_less [of "stop - start", where 'a = nat] by (simp add: unat_of_nat)
qed

locale port_range = bitmap +
  fixes start stop :: port
  assumes ordered: "start \<le> stop"
begin

lemma used_iff:
  assumes "ports_inv bm_size start stop pb" "p \<in> range_ports start stop"
  shows "p \<in> used_ports bits pb \<longleftrightarrow> unat (p - start) \<in> bits (pbPorts pb)"
proof
  assume "p \<in> used_ports bits pb"
  then obtain n where n: "n \<in> bits (pbPorts pb)" "p = of_nat n + start"
    using assms(1) by (auto simp: used_ports_def ports_inv_def)
  then have "n < unat (stop - start)" using bits_lt [OF n(1)] assms(1) by (simp add: ports_inv_def)
  then show "unat (p - start) \<in> bits (pbPorts pb)"
    using n offset_in_range(3) [OF ordered] by simp
next
  assume "unat (p - start) \<in> bits (pbPorts pb)"
  then show "p \<in> used_ports bits pb"
    using assms offset_in_range(2) [OF ordered assms(2)]
    unfolding used_ports_def ports_inv_def by (intro image_eqI [of _ _ "unat (p - start)"]) auto
qed

lemma used_subset: "ports_inv bm_size start stop pb \<Longrightarrow> used_ports bits pb \<subseteq> range_ports start stop"
  using bits_lt offset_in_range(1) [OF ordered] by (force simp: used_ports_def ports_inv_def)

lemma not_before_start: "p \<in> range_ports start stop \<Longrightarrow> \<not> p < start"
  by (auto simp: range_ports_def)

lemma offset_range_iff:
  assumes "\<not> p < start"
  shows "p \<in> range_ports start stop \<longleftrightarrow> unat (p - start) < unat (stop - start)"
proof -
  have "start \<le> p" using assms by simp
  then have "unat (p - start) = unat p - unat start" "unat start \<le> unat p"
    by (simp_all add: unat_sub word_le_nat_alt)
  moreover have "unat (stop - start) = unat stop - unat start" "unat start \<le> unat stop"
    using ordered by (simp_all add: unat_sub word_le_nat_alt)
  ultimately show ?thesis
    using \<open>start \<le> p\<close> by (auto simp: range_ports_def word_less_nat_alt)
qed

lemma used_eqI:
  assumes "ports_inv bm_size start stop pb" "X \<subseteq> range_ports start stop"
    and "\<And>q. q \<in> range_ports start stop \<Longrightarrow> q \<in> X \<longleftrightarrow> unat (q - start) \<in> bits (pbPorts pb)"
  shows "used_ports bits pb = X"
  using used_subset [OF assms(1)] used_iff [OF assms(1)] assms(2,3) by blast

lemma same_offset: "unat (q - start) = unat (p - start) \<longleftrightarrow> q = p" for p q :: port
  by (metis diff_add_cancel unsigned_word_eqI)

lemma portBitmap_Set_ok:
  assumes inv: "ports_inv bm_size start stop pb" and set: "portBitmap_Set ops pb p = Inr pb'"
  shows "ports_inv bm_size start stop pb' \<and> p \<in> range_ports start stop \<and> p \<notin> used_ports bits pb \<and>
    used_ports bits pb' = insert p (used_ports bits pb)"
proof -
  let ?n = "unat (p - start)"
  obtain b where b: "\<not> p < start" "bmSet ops (pbPorts pb) ?n = Inr b" "pb' = pb\<lparr>pbPorts := b\<rparr>"
    using inv set by (auto simp: portBitmap_Set_def ports_inv_def split: if_splits sum.splits)
  then have n: "?n < bm_size (pbPorts pb)" "?n \<notin> bits (pbPorts pb)"
    using set_error [of "pbPorts pb" ?n] by force+
  then have p: "p \<in> range_ports start stop" using offset_range_iff [OF b(1)] inv by (simp add: ports_inv_def)
  have b': "bits b = insert ?n (bits (pbPorts pb))" "bm_size b = bm_size (pbPorts pb)"
    using set_ok [OF n] b(2) by auto
  have inv': "ports_inv bm_size start stop pb'" using inv b(3) b'(2) by (simp add: ports_inv_def)
  moreover have "used_ports bits pb' = insert p (used_ports bits pb)"
    by (rule used_eqI [OF inv']) (use p used_subset [OF inv] used_iff [OF inv] b' b(3) same_offset in auto)
  ultimately show ?thesis using p n used_iff [OF inv p] by simp
qed

lemma portBitmap_SetAny_ok:
  assumes inv: "ports_inv bm_size start stop pb" and set: "portBitmap_SetAny ops pb = Inr (p, pb')"
  shows "ports_inv bm_size start stop pb' \<and> p \<in> range_ports start stop \<and> p \<notin> used_ports bits pb \<and>
    used_ports bits pb' = insert p (used_ports bits pb)"
proof -
  obtain n b where b: "bmSetAny ops (pbPorts pb) True = Inr (n, b)" "p = of_nat n + start"
    "pb' = pb\<lparr>pbPorts := b\<rparr>"
    using inv set by (auto simp: portBitmap_SetAny_def ports_inv_def split: sum.splits)
  then have n: "n < bm_size (pbPorts pb)" "n \<notin> bits (pbPorts pb)" "bits b = insert n (bits (pbPorts pb))"
    "bm_size b = bm_size (pbPorts pb)"
    using any_ok [of "pbPorts pb" True] any_full [of "pbPorts pb" True] by fastforce+
  have p: "p \<in> range_ports start stop" "n = unat (p - start)"
    using offset_in_range(1,3) [OF ordered] n(1) inv b(2) by (simp_all add: ports_inv_def)
  have inv': "ports_inv bm_size start stop pb'" using inv b(3) n(4) by (simp add: ports_inv_def)
  moreover have "used_ports bits pb' = insert p (used_ports bits pb)"
    by (rule used_eqI [OF inv']) (use p used_subset [OF inv] used_iff [OF inv] n(3) b(3) same_offset in auto)
  ultimately show ?thesis using p n used_iff [OF inv p(1)] by simp
qed

lemma portBitmap_Unset_ok:
  assumes inv: "ports_inv bm_size start stop pb" and unset: "portBitmap_Unset ops pb p = Inr pb'"
  shows "ports_inv bm_size start stop pb' \<and> used_ports bits pb' = used_ports bits pb - {p}"
proof -
  let ?n = "unat (p - start)"
  obtain b where b: "bmUnset ops (pbPorts pb) ?n = Inr b" "pb' = pb\<lparr>pbPorts := b\<rparr>"
    using inv unset by (auto simp: portBitmap_Unset_def ports_inv_def split: if_splits sum.splits)
  then have n: "?n < bm_size (pbPorts pb)" using unset_error [of "pbPorts pb" ?n] by force
  have b': "bits b = bits (pbPorts pb) - {?n}" "bm_size b = bm_size (pbPorts pb)"
    using unset_ok [OF n] b(1) by auto
  have inv': "ports_inv bm_size start stop pb'" using inv b(2) b'(2) by (simp add: ports_inv_def)
  moreover have "used_ports bits pb' = used_ports bits pb - {p}"
    by (rule used_eqI [OF inv']) (use used_subset [OF inv] used_iff [OF inv] b' b(2) same_offset in auto)
  ultimately show ?thesis by simp
qed

lemma portBitmap_full:
  assumes inv: "ports_inv bm_size start stop pb" and "portBitmap_SetAny ops pb = Inl e"
  shows "used_ports bits pb = range_ports start stop"
proof -
  have full: "bits (pbPorts pb) = {..<unat (stop - start)}"
    using assms any_ok [of "pbPorts pb" True] by (fastforce simp: portBitmap_SetAny_def ports_inv_def)
  have "p \<in> used_ports bits pb" if "p \<in> range_ports start stop" for p
    using used_iff [OF inv that] offset_in_range(2) [OF ordered that] full by simp
  then show ?thesis using used_subset [OF inv] by blast
qed

lemma portBitmap_errors:
  assumes inv: "ports_inv bm_size start stop pb"
  shows "portBitmap_Set ops pb p = Inl e \<Longrightarrow> p \<notin> range_ports start stop \<or> p \<in> used_ports bits pb"
    and "portBitmap_Unset ops pb p = Inl e \<Longrightarrow> p \<notin> range_ports start stop"
  using set_ok [of "unat (p - start)" "pbPorts pb"] unset_ok [of "unat (p - start)" "pbPorts pb"]
    not_before_start [of p] used_iff [OF inv, of p] offset_range_iff [of p] inv
  by (auto simp: portBitmap_Set_def portBitmap_Unset_def ports_inv_def split: if_splits sum.splits)

end

sublocale port_range \<subseteq> ports: port_allocator "range_ports start stop" "ports_inv bm_size start stop"
    "used_ports bits" "portBitmap_Set ops" "portBitmap_SetAny ops" "portBitmap_Unset ops"
  by unfold_locales
     (erule used_subset, erule (1) portBitmap_Set_ok, erule (1) portBitmap_errors,
      erule (1) portBitmap_SetAny_ok, erule (1) portBitmap_full, erule (1) portBitmap_Unset_ok,
      erule (1) portBitmap_errors)

section \<open>A bitmap as a list of bits\<close>

definition bit_list_ops :: "bool list bitmap_ops" where
  "bit_list_ops =
     \<lparr>bmNew = (\<lambda>n. replicate n False),
      bmSet = (\<lambda>b n. if n \<ge> length b then Inl BitOutOfRange else if b ! n then Inl BitAllocated else Inr (b[n := True])),
      bmSetAny = (\<lambda>b _. let n = length (takeWhile id b)
                        in if n < length b then Inr (n, b[n := True]) else Inl NoBitAvailable),
      bmIsSet = (\<lambda>b n. n < length b \<and> b ! n),
      bmUnset = (\<lambda>b n. if n \<ge> length b then Inl BitOutOfRange else Inr (b[n := False])),
      bmUnselected = (\<lambda>b. length (filter Not b))\<rparr>"

definition bit_list_bits :: "bool list \<Rightarrow> nat set" where
  "bit_list_bits b = {n. n < length b \<and> b ! n}"

lemma card_bit_list_bits: "length (filter Not b) = length b - card (bit_list_bits b)"
proof -
  have "card (bit_list_bits b) = length (filter id b)"
    by (simp add: bit_list_bits_def length_filter_conv_card)
  moreover have "length (filter id b) + length (filter Not b) = length b"
    using sum_length_filter_compl [of id b] by (simp add: comp_def id_def)
  ultimately show ?thesis by linarith
qed

lemma bit_list_any:
  assumes "bit_list_bits b \<noteq> {..<length b}"
  shows "length (takeWhile id b) < length b \<and> \<not> b ! length (takeWhile id b)"
proof -
  obtain n where "n < length b" "\<not> b ! n" using assms by (auto simp: bit_list_bits_def)
  then have "takeWhile id b \<noteq> b"
    by (auto simp: takeWhile_eq_all_conv all_set_conv_all_nth)
  moreover have "takeWhile id b = b" if eq: "length (takeWhile id b) = length b"
  proof -
    have "takeWhile id b = take (length (takeWhile id b)) b" by (rule takeWhile_eq_take)
    also have "\<dots> = b" using eq by simp
    finally show ?thesis .
  qed
  ultimately have "length (takeWhile id b) \<noteq> length b" by blast
  with length_takeWhile_le [of id b] have "length (takeWhile id b) < length b"
    by (rule le_neq_implies_less)
  then show ?thesis using nth_length_takeWhile [of id b] by simp
qed

interpretation bit_list: bitmap bit_list_ops bit_list_bits length
proof
  fix b :: "bool list" and n :: nat and serial :: bool
  show "\<exists>e. bmSetAny bit_list_ops b serial = Inl e" if full: "bit_list_bits b = {..<length b}"
  proof -
    have "i \<in> bit_list_bits b" if "i < length b" for i using full that by simp
    then have "\<forall>x\<in>set b. id x" by (simp add: bit_list_bits_def all_set_conv_all_nth)
    then have "takeWhile id b = b" by (simp only: takeWhile_eq_all_conv)
    then have "length (takeWhile id b) = length b" by (rule arg_cong)
    then show ?thesis by (simp add: bit_list_ops_def Let_def)
  qed
  show "\<exists>n b'. bmSetAny bit_list_ops b serial = Inr (n, b') \<and> n < length b \<and> n \<notin> bit_list_bits b \<and>
      bit_list_bits b' = insert n (bit_list_bits b) \<and> length b' = length b" if "bit_list_bits b \<noteq> {..<length b}"
    using bit_list_any [OF that] by (auto simp: bit_list_ops_def bit_list_bits_def nth_list_update Let_def)
  show "bmUnselected bit_list_ops b = length b - card (bit_list_bits b)"
    by (simp add: bit_list_ops_def card_bit_list_bits)
qed (auto simp: bit_list_ops_def bit_list_bits_def nth_list_update)

interpretation witness_ports: port_range bit_list_ops bit_list_bits length 40000 40010
  by unfold_locales (simp add: word_le_nat_alt)

section \<open>Histories of an allocator\<close>

inductive ports_reachable :: "'b bitmap_ops \<Rightarrow> port \<Rightarrow> port \<Rightarrow> 'b portBitmap \<Rightarrow> bool"
  for ops start stop where
  new: "ports_reachable ops start stop (newPortBitmap ops start stop)"
| set: "ports_reachable ops start stop pb \<Longrightarrow> portBitmap_Set ops pb p = Inr pb' \<Longrightarrow>
    ports_reachable ops start stop pb'"
| set_any: "ports_reachable ops start stop pb \<Longrightarrow> portBitmap_SetAny ops pb = Inr (p, pb') \<Longrightarrow>
    ports_reachable ops start stop pb'"
| unset: "ports_reachable ops start stop pb \<Longrightarrow> portBitmap_Unset ops pb p = Inr pb' \<Longrightarrow>
    ports_reachable ops start stop pb'"
| replace: "ports_reachable ops start stop pb \<Longrightarrow> ports_reachable ops start stop pb' \<Longrightarrow>
    ports_reachable ops start stop (portBitmap_Replace pb pb')"

lemma port_rangeI: "bitmap ops bits bm_size \<Longrightarrow> start \<le> stop \<Longrightarrow> port_range ops bits bm_size start stop"
  by (simp add: port_range_def port_range_axioms_def)

context port_range
begin

lemma reachable_inv: "ports_reachable ops start stop pb \<Longrightarrow> ports_inv bm_size start stop pb"
proof (induction rule: ports_reachable.induct)
  case new
  then show ?case by (simp add: ports_inv_def newPortBitmap_def new_size)
next
  case (replace pb pb')
  then show ?case by (simp add: ports_inv_def portBitmap_Replace_def)
qed (auto dest: ports.set_port_ok ports.set_any_ok ports.unset_ok)

lemma card_used: "ports_inv bm_size start stop pb \<Longrightarrow> card (used_ports bits pb) = card (bits (pbPorts pb))"
  unfolding used_ports_def
proof (rule card_image, rule inj_onI)
  fix m n assume inv: "ports_inv bm_size start stop pb" and "m \<in> bits (pbPorts pb)" "n \<in> bits (pbPorts pb)"
    and eq: "of_nat m + pbStart pb = of_nat n + pbStart pb"
  then have "m < unat (stop - start)" "n < unat (stop - start)" "pbStart pb = start"
    using bits_lt by (fastforce simp: ports_inv_def)+
  then show "m = n" using eq offset_in_range(3) [OF ordered] by metis
qed

lemma numfree:
  "ports_inv bm_size start stop pb \<Longrightarrow>
   portBitmap_NumFree ops pb = unat (stop - start) - card (used_ports bits pb)"
  using card_used by (simp add: portBitmap_NumFree_def unselected ports_inv_def)

lemma is_set_iff:
  "ports_inv bm_size start stop pb \<Longrightarrow> p \<in> range_ports start stop \<Longrightarrow>
   portBitmap_IsSet ops pb p = Inr (p \<in> used_ports bits pb)"
  using used_iff not_before_start by (auto simp: portBitmap_IsSet_def is_set ports_inv_def)

lemma set_iff:
  assumes "ports_inv bm_size start stop pb"
  shows "(\<exists>pb'. portBitmap_Set ops pb p = Inr pb') \<longleftrightarrow> p \<in> range_ports start stop \<and> p \<notin> used_ports bits pb"
  using ports.set_port_ok [OF assms] ports.set_port_error [OF assms]
  by (cases "portBitmap_Set ops pb p") auto

end

section \<open>Properties\<close>

text \<open>
  \<^bold>\<open>C33\<close>. After any history of operations the allocator is a set of used ports within
  \<open>start \<le> p < stop\<close>. \<open>SetAny\<close> returns a port of the range that was not in use and marks it, and
  fails only when every port is in use; \<open>Set\<close> succeeds exactly for a free port of the range; \<open>IsSet\<close>
  reads the set, \<open>Unset\<close> removes from it, \<open>NumFree\<close> counts what is left. The offset arithmetic on
  16-bit words does not wrap.
\<close>

theorem port_allocator_refines_set:
  assumes "bitmap ops bits bm_size" "start \<le> stop" "ports_reachable ops start stop pb"
  shows "used_ports bits pb \<subseteq> range_ports start stop \<and>
    (\<forall>p pb'. portBitmap_SetAny ops pb = Inr (p, pb') \<longrightarrow>
       p \<in> range_ports start stop \<and> p \<notin> used_ports bits pb \<and>
       used_ports bits pb' = insert p (used_ports bits pb)) \<and>
    ((\<exists>e. portBitmap_SetAny ops pb = Inl e) \<longrightarrow> used_ports bits pb = range_ports start stop) \<and>
    (\<forall>p. (\<exists>pb'. portBitmap_Set ops pb p = Inr pb') \<longleftrightarrow>
       p \<in> range_ports start stop \<and> p \<notin> used_ports bits pb) \<and>
    (\<forall>p\<in>range_ports start stop. portBitmap_IsSet ops pb p = Inr (p \<in> used_ports bits pb)) \<and>
    (\<forall>p pb'. portBitmap_Unset ops pb p = Inr pb' \<longrightarrow> used_ports bits pb' = used_ports bits pb - {p}) \<and>
    portBitmap_NumFree ops pb = unat (stop - start) - card (used_ports bits pb)"
proof -
  note range = port_rangeI [OF assms(1,2)]
  note inv = port_range.reachable_inv [OF range assms(3)]
  show ?thesis
    using port_range.used_subset [OF range inv] port_range.portBitmap_SetAny_ok [OF range inv]
      port_range.portBitmap_full [OF range inv] port_range.set_iff [OF range inv]
      port_range.is_set_iff [OF range inv] port_range.portBitmap_Unset_ok [OF range inv]
      port_range.numfree [OF range inv]
    by blast
qed

text \<open>
  The configured maximum is not part of the range: it can never be reserved and is never
  handed out.
\<close>

theorem max_port_never_allocated:
  assumes "bitmap ops bits bm_size" "lo \<le> hi" "ports_reachable ops lo hi pb"
  shows "(\<exists>e. portBitmap_Set ops pb hi = Inl e) \<and> (\<forall>pb'. portBitmap_SetAny ops pb \<noteq> Inr (hi, pb'))"
proof -
  note range = port_rangeI [OF assms(1,2)]
  note inv = port_range.reachable_inv [OF range assms(3)]
  have "hi \<notin> range_ports lo hi" by (simp add: range_ports_def)
  then show ?thesis
    using port_range.set_iff [OF range inv, of hi] port_range.portBitmap_SetAny_ok [OF range inv, of hi]
    by (cases "portBitmap_Set ops pb hi") auto
qed

theorem port_allocator_refines_set_witness:
  "\<exists>pb'. portBitmap_SetAny bit_list_ops (newPortBitmap bit_list_ops 40000 40010) = Inr (40000, pb') \<and>
     used_ports bit_list_bits pb' = {40000} \<and>
     portBitmap_NumFree bit_list_ops (newPortBitmap bit_list_ops 40000 40010) = 10"
proof -
  let ?pb = "newPortBitmap bit_list_ops 40000 40010"
  have le: "(40000 :: port) \<le> 40010" by (simp add: word_le_nat_alt)
  have empty: "used_ports bit_list_bits ?pb = {}"
    by (simp add: used_ports_def newPortBitmap_def bit_list.new_bits)
  obtain pb' where "portBitmap_SetAny bit_list_ops ?pb = Inr (40000, pb')"
    by (simp add: portBitmap_SetAny_def newPortBitmap_def bit_list_ops_def Let_def)
  then show ?thesis
    using port_allocator_refines_set [OF bit_list.bitmap_axioms le ports_reachable.new] empty by auto
qed

theorem max_port_never_allocated_witness:
  "\<exists>e. portBitmap_Set bit_list_ops (newPortBitmap bit_list_ops 40000 40010) 40010 = Inl e"
proof -
  have le: "(40000 :: port) \<le> 40010" by (simp add: word_le_nat_alt)
  show ?thesis
    using max_port_never_allocated [OF bit_list.bitmap_axioms le ports_reachable.new] by blast
qed

end
