(* ===== verification/Bound_Endpoint_Poller.thy ===== *)
theory Bound_Endpoint_Poller
  imports Port_Allocator
begin

text \<open>
  \<^bold>\<open>internal/controller/bindings/boundendpoint_poller.go\<close> with the BoundEndpoint types of
  \<^bold>\<open>api/bindings/v1alpha1/boundendpoint_types.go\<close>: from the endpoints that the ngrok API reports to
  create, update and delete actions on BoundEndpoint objects, and the actions themselves.

  The Kubernetes API is an argument (\<open>endpoint_client\<close>, operations on a cluster state of any type);
  the interface \<open>endpoint_api\<close> states its documented behaviour. \<open>uuid\<close> is the name-based UUID of a URL
  (\<open>google/uuid\<close>). The desired endpoints come as a map from URL to BoundEndpoint, as the aggregation
  of the API's answer returns it. An action is one atomic step; goroutines, tickers, events and log
  messages are left out.
\<close>

section \<open>Objects\<close>

record TargetMetadata =
  tmLabels :: "(string \<times> string) list"
  tmAnnotations :: "(string \<times> string) list"

record EndpointTarget =
  tgService :: string
  tgNamespace :: string
  tgProtocol :: string
  tgPort :: int
  tgMetadata :: TargetMetadata

record BoundEndpointSpec =
  bsEndpointURL :: string
  bsScheme :: string
  bsPort :: port
  bsTarget :: EndpointTarget

record BindingEndpoint =
  beID :: string
  beURI :: string

record condition =
  cdType :: string
  cdStatus :: string
  cdReason :: string
  cdMessage :: string

record BoundEndpointStatus =
  bstObservedGeneration :: int
  bstConditions :: "condition list"
  bstTargetServiceRef :: "NamespacedName ptr"
  bstUpstreamServiceRef :: "string ptr"
  bstEndpoints :: "BindingEndpoint list"
  bstHashedName :: string
  bstEndpointsSummary :: string

record BoundEndpoint =
  bndName :: string
  bndNamespace :: string
  bndSpec :: BoundEndpointSpec
  bndStatus :: BoundEndpointStatus

definition empty_status :: BoundEndpointStatus where
  "empty_status =
     \<lparr>bstObservedGeneration = 0, bstConditions = [], bstTargetServiceRef = None, bstUpstreamServiceRef = None,
      bstEndpoints = [], bstHashedName = [], bstEndpointsSummary = []\<rparr>"

definition endpoint_key :: "BoundEndpoint \<Rightarrow> NamespacedName" where
  "endpoint_key b = \<lparr>nnName = bndName b, nnNamespace = bndNamespace b\<rparr>"

section \<open>Helpers\<close>

definition hashURL :: "(string \<Rightarrow> string) \<Rightarrow> string \<Rightarrow> string" where
  "hashURL uuid url = ''ngrok-'' @ uuid url"

text \<open>\<open>maps.Equal\<close> of the standard library.\<close>

definition maps_Equal :: "(string \<times> string) list \<Rightarrow> (string \<times> string) list \<Rightarrow> bool" where
  "maps_Equal a b \<longleftrightarrow> length a = length b \<and> list_all (\<lambda>(k, v). map_of b k = Some v) a"

definition targetMetadataIsEqual :: "TargetMetadata \<Rightarrow> TargetMetadata \<Rightarrow> bool" where
  "targetMetadataIsEqual a b \<longleftrightarrow>
     maps_Equal (tmAnnotations a) (tmAnnotations b) \<and> maps_Equal (tmLabels a) (tmLabels b)"

definition computeEndpointsSummary :: "nat \<Rightarrow> string" where
  "computeEndpointsSummary n =
     (if n = 1 then ''1 endpoint'' else itoa (int n) @ '' endpoints'')"

definition boundEndpointNeedsUpdate :: "BoundEndpoint \<Rightarrow> BoundEndpoint \<Rightarrow> bool" where
  "boundEndpointNeedsUpdate existing desired =
     (let es = bndSpec existing; ds = bndSpec desired;
          hasSpecChanged =
            (bsScheme es \<noteq> bsScheme ds \<or> tgPort (bsTarget es) \<noteq> tgPort (bsTarget ds) \<or>
             tgProtocol (bsTarget es) \<noteq> tgProtocol (bsTarget ds) \<or>
             tgService (bsTarget es) \<noteq> tgService (bsTarget ds) \<or>
             tgNamespace (bsTarget es) \<noteq> tgNamespace (bsTarget ds) \<or>
             bsEndpointURL es \<noteq> bsEndpointURL ds \<or>
             \<not> targetMetadataIsEqual (tgMetadata (bsTarget es)) (tgMetadata (bsTarget ds)));
          ee = bstEndpoints (bndStatus existing); de = bstEndpoints (bndStatus desired)
      in if hasSpecChanged then True
         else if length ee \<noteq> length de then True
         else list_ex (\<lambda>d. beID d \<notin> set (map beID ee)) de)"

section \<open>Which actions are needed\<close>

fun filter_existing ::
  "(string \<Rightarrow> string) \<Rightarrow> BoundEndpoint list \<Rightarrow> (string \<times> BoundEndpoint) list \<Rightarrow>
   BoundEndpoint list \<times> BoundEndpoint list \<times> BoundEndpoint list \<times> (string \<times> BoundEndpoint) list" where
  "filter_existing uuid [] desired = ([], [], [], desired)"
| "filter_existing uuid (x # xs) desired =
     (let url = bsEndpointURL (bndSpec x);
          (cs, us, ds, rest) = filter_existing uuid xs (AList.delete url desired)
      in case map_of desired url of
           Some d \<Rightarrow>
             if bndName x = hashURL uuid (bsEndpointURL (bndSpec d)) then (cs, d # us, ds, rest)
             else (d # cs, us, x # ds, rest)
         | None \<Rightarrow> (cs, us, x # ds, rest))"

definition filterBoundEndpointActions ::
  "(string \<Rightarrow> string) \<Rightarrow> BoundEndpoint list \<Rightarrow> (string \<times> BoundEndpoint) list \<Rightarrow>
   BoundEndpoint list \<times> BoundEndpoint list \<times> BoundEndpoint list" where
  "filterBoundEndpointActions uuid existing desired =
     (let (cs, us, ds, rest) = filter_existing uuid existing desired
      in (cs @ map snd rest, us, ds))"

section \<open>The actions\<close>

datatype client_error = NotFound | AlreadyExists | Conflict | OtherError string

record 'k endpoint_client =
  ecGet :: "NamespacedName \<Rightarrow> 'k \<Rightarrow> client_error + BoundEndpoint"
  ecCreate :: "BoundEndpoint \<Rightarrow> 'k \<Rightarrow> (client_error + BoundEndpoint) \<times> 'k"
  ecUpdate :: "BoundEndpoint \<Rightarrow> 'k \<Rightarrow> (client_error + BoundEndpoint) \<times> 'k"
  ecDelete :: "BoundEndpoint \<Rightarrow> 'k \<Rightarrow> client_error option \<times> 'k"
  ecStatusUpdate :: "BoundEndpoint \<Rightarrow> 'k \<Rightarrow> (client_error + BoundEndpoint) \<times> 'k"

record poller_config =
  pcNamespace :: string
  pcTargetServiceAnnotations :: "(string \<times> string) list"
  pcTargetServiceLabels :: "(string \<times> string) list"
  pcMin :: port
  pcMax :: port

record ('b, 'k) poller_state =
  psPorts :: "'b portBitmap"
  psCluster :: 'k

datatype poller_error = ClientError client_error | AllocatorError port_error

definition updateBindingStatus ::
  "'k endpoint_client \<Rightarrow> BoundEndpoint \<Rightarrow> 'k \<Rightarrow> client_error option \<times> 'k" where
  "updateBindingStatus client desired k =
     (case ecGet client (endpoint_key desired) k of
        Inl e \<Rightarrow> (Some e, k)
      | Inr current \<Rightarrow>
          let current' = current\<lparr>bndStatus := (bndStatus current)\<lparr>
                bstEndpoints := bstEndpoints (bndStatus desired),
                bstEndpointsSummary := bstEndpointsSummary (bndStatus desired),
                bstHashedName := bstHashedName (bndStatus desired)\<rparr>\<rparr>
          in case ecStatusUpdate client current' k of
               (Inl e, k') \<Rightarrow> (Some e, k')
             | (Inr _, k') \<Rightarrow> (None, k'))"

text \<open>The status that the poller computes: the name, the references and their number.\<close>

definition poller_status :: "string \<Rightarrow> BindingEndpoint list \<Rightarrow> BoundEndpointStatus" where
  "poller_status name eps =
     empty_status\<lparr>bstHashedName := name, bstEndpoints := eps,
       bstEndpointsSummary := computeEndpointsSummary (length eps)\<rparr>"

definition new_binding :: "poller_config \<Rightarrow> string \<Rightarrow> port \<Rightarrow> BoundEndpoint \<Rightarrow> BoundEndpoint" where
  "new_binding cfg name port desired =
     (let ds = bndSpec desired; t = bsTarget ds
      in \<lparr>bndName = name, bndNamespace = pcNamespace cfg,
          bndSpec = \<lparr>bsEndpointURL = bsEndpointURL ds, bsScheme = bsScheme ds, bsPort = port,
            bsTarget = \<lparr>tgService = tgService t, tgNamespace = tgNamespace t, tgProtocol = tgProtocol t,
              tgPort = tgPort t, tgMetadata = \<lparr>tmLabels = pcTargetServiceLabels cfg,
                tmAnnotations = pcTargetServiceAnnotations cfg\<rparr>\<rparr>\<rparr>,
          bndStatus = empty_status\<rparr>)"

definition fill_status ::
  "'k endpoint_client \<Rightarrow> string \<Rightarrow> BoundEndpoint \<Rightarrow> BoundEndpoint \<Rightarrow> ('b, 'k) poller_state \<Rightarrow>
   poller_error option \<times> ('b, 'k) poller_state" where
  "fill_status client name desired obj st =
     (case updateBindingStatus client
             (obj\<lparr>bndStatus := poller_status name (bstEndpoints (bndStatus desired))\<rparr>) (psCluster st) of
        (err, k) \<Rightarrow> (map_option ClientError err, st\<lparr>psCluster := k\<rparr>))"

definition createBinding ::
  "'b bitmap_ops \<Rightarrow> 'k endpoint_client \<Rightarrow> (string \<Rightarrow> string) \<Rightarrow> poller_config \<Rightarrow> BoundEndpoint \<Rightarrow>
   ('b, 'k) poller_state \<Rightarrow> poller_error option \<times> ('b, 'k) poller_state" where
  "createBinding ops client uuid cfg desired st =
     (let name = hashURL uuid (bsEndpointURL (bndSpec desired))
      in case portBitmap_SetAny ops (psPorts st) of
           Inl e \<Rightarrow> (Some (AllocatorError e), st)
         | Inr (port, pb) \<Rightarrow>
             let toCreate = new_binding cfg name port desired;
                 st1 = st\<lparr>psPorts := pb\<rparr>
             in case ecCreate client toCreate (psCluster st1) of
                  (Inr created, k) \<Rightarrow> fill_status client name desired created (st1\<lparr>psCluster := k\<rparr>)
                | (Inl e, k) \<Rightarrow>
                    let st2 = st1\<lparr>psCluster := k\<rparr>
                    in if e \<noteq> AlreadyExists then (Some (ClientError e), st2)
                       else if bstHashedName (bndStatus toCreate) \<noteq> [] \<and> bstEndpoints (bndStatus toCreate) \<noteq> []
                       then (None, st2)
                       else (case ecGet client \<lparr>nnName = name, nnNamespace = pcNamespace cfg\<rparr> (psCluster st2) of
                           Inl _ \<Rightarrow> (None, st2)
                         | Inr existing \<Rightarrow> fill_status client name desired existing st2))"

definition updateBinding ::
  "'k endpoint_client \<Rightarrow> (string \<Rightarrow> string) \<Rightarrow> poller_config \<Rightarrow> BoundEndpoint \<Rightarrow>
   ('b, 'k) poller_state \<Rightarrow> poller_error option \<times> ('b, 'k) poller_state" where
  "updateBinding client uuid cfg desired0 st =
     (let name = hashURL uuid (bsEndpointURL (bndSpec desired0));
          target = (bsTarget (bndSpec desired0))\<lparr>tgMetadata :=
            \<lparr>tmLabels = pcTargetServiceLabels cfg, tmAnnotations = pcTargetServiceAnnotations cfg\<rparr>\<rparr>;
          desired = desired0\<lparr>bndSpec := (bndSpec desired0)\<lparr>bsTarget := target\<rparr>\<rparr>
      in case ecGet client \<lparr>nnName = name, nnNamespace = pcNamespace cfg\<rparr> (psCluster st) of
           Inl e \<Rightarrow> if e = NotFound then (None, st) else (Some (ClientError e), st)
         | Inr existing \<Rightarrow>
             if \<not> boundEndpointNeedsUpdate existing desired then (None, st)
             else
               let toUpdate = existing\<lparr>bndSpec := (bndSpec existing)\<lparr>
                     bsScheme := bsScheme (bndSpec desired), bsTarget := bsTarget (bndSpec desired),
                     bsEndpointURL := bsEndpointURL (bndSpec desired)\<rparr>\<rparr>
               in case ecUpdate client toUpdate (psCluster st) of
                    (Inl e, k) \<Rightarrow> (Some (ClientError e), st\<lparr>psCluster := k\<rparr>)
                  | (Inr updated, k) \<Rightarrow> fill_status client name desired updated (st\<lparr>psCluster := k\<rparr>))"

definition deleteBinding ::
  "'b bitmap_ops \<Rightarrow> 'k endpoint_client \<Rightarrow> BoundEndpoint \<Rightarrow> ('b, 'k) poller_state \<Rightarrow>
   poller_error option \<times> ('b, 'k) poller_state" where
  "deleteBinding ops client b st =
     (case ecDelete client b (psCluster st) of
        (Some e, k) \<Rightarrow> (Some (ClientError e), st\<lparr>psCluster := k\<rparr>)
      | (None, k) \<Rightarrow>
          (None, case portBitmap_Unset ops (psPorts st) (bsPort (bndSpec b)) of
                   Inl _ \<Rightarrow> st\<lparr>psCluster := k\<rparr>
                 | Inr pb \<Rightarrow> st\<lparr>psCluster := k, psPorts := pb\<rparr>))"

text \<open>One tick of the action loop: the endpoints whose action failed remain for the next tick.\<close>

fun action_tick ::
  "(BoundEndpoint \<Rightarrow> 's \<Rightarrow> poller_error option \<times> 's) \<Rightarrow> BoundEndpoint list \<Rightarrow> 's \<Rightarrow> BoundEndpoint list \<times> 's" where
  "action_tick action [] st = ([], st)"
| "action_tick action (b # bs) st =
     (case action b st of
        (err, st') \<Rightarrow>
          let (failed, st'') = action_tick action bs st'
          in (if err \<noteq> None then b # failed else failed, st''))"

definition action_ticks ::
  "(BoundEndpoint \<Rightarrow> 's \<Rightarrow> poller_error option \<times> 's) \<Rightarrow> nat \<Rightarrow> BoundEndpoint list \<Rightarrow> 's \<Rightarrow> BoundEndpoint list \<times> 's" where
  "action_ticks action n bs st = ((\<lambda>(bs, st). action_tick action bs st) ^^ n) (bs, st)"

section \<open>Refreshing the port allocations\<close>

fun set_ports :: "'b bitmap_ops \<Rightarrow> port list \<Rightarrow> 'b portBitmap \<Rightarrow> port_error + 'b portBitmap" where
  "set_ports ops [] pb = Inr pb"
| "set_ports ops (p # ps) pb =
     (case portBitmap_Set ops pb p of Inl e \<Rightarrow> Inl e | Inr pb' \<Rightarrow> set_ports ops ps pb')"

text \<open>
  The part of a poll after the API and the cluster have answered: the allocations are taken from
  the existing objects (an error ends the poll), then the actions are computed.
\<close>

definition reconcile_poll ::
  "'b bitmap_ops \<Rightarrow> (string \<Rightarrow> string) \<Rightarrow> poller_config \<Rightarrow> BoundEndpoint list \<Rightarrow> (string \<times> BoundEndpoint) list \<Rightarrow>
   'b portBitmap \<Rightarrow>
   port_error + ((BoundEndpoint list \<times> BoundEndpoint list \<times> BoundEndpoint list) \<times> 'b portBitmap)" where
  "reconcile_poll ops uuid cfg existing desired pb =
     (case set_ports ops (map (\<lambda>b. bsPort (bndSpec b)) existing) (newPortBitmap ops (pcMin cfg) (pcMax cfg)) of
        Inl e \<Rightarrow> Inl e
      | Inr current \<Rightarrow>
          Inr (filterBoundEndpointActions uuid existing desired, portBitmap_Replace pb current))"

section \<open>The interface of the Kubernetes API\<close>

text \<open>
  What the poller relies on: a read returns the stored object; a failed write changes nothing; a
  create stores a new object without its status (a subresource), an update keeps the stored
  status, a status update keeps everything else.
\<close>

locale endpoint_api =
  fixes client :: "'k endpoint_client"
    and objs :: "'k \<Rightarrow> NamespacedName \<Rightarrow> BoundEndpoint option"
  assumes get_ok: "ecGet client n k = Inr b \<Longrightarrow> objs k n = Some b \<and> endpoint_key b = n"
    and get_missing: "ecGet client n k = Inl NotFound \<Longrightarrow> objs k n = None"
    and create_ok: "ecCreate client b k = (Inr b', k') \<Longrightarrow>
      objs k (endpoint_key b) = None \<and> b' = b\<lparr>bndStatus := empty_status\<rparr> \<and>
      objs k' = (objs k)(endpoint_key b \<mapsto> b')"
    and create_error: "ecCreate client b k = (Inl e, k') \<Longrightarrow> objs k' = objs k"
    and create_exists: "ecCreate client b k = (Inl AlreadyExists, k') \<Longrightarrow> objs k (endpoint_key b) \<noteq> None"
    and update_ok: "ecUpdate client b k = (Inr b', k') \<Longrightarrow>
      \<exists>old. objs k (endpoint_key b) = Some old \<and> b' = b\<lparr>bndStatus := bndStatus old\<rparr> \<and>
        objs k' = (objs k)(endpoint_key b \<mapsto> b')"
    and update_error: "ecUpdate client b k = (Inl e, k') \<Longrightarrow> objs k' = objs k"
    and delete_ok: "ecDelete client b k = (None, k') \<Longrightarrow> objs k' = (objs k)(endpoint_key b := None)"
    and delete_error: "ecDelete client b k = (Some e, k') \<Longrightarrow> objs k' = objs k"
    and status_ok: "ecStatusUpdate client b k = (Inr b', k') \<Longrightarrow>
      \<exists>old. objs k (endpoint_key b) = Some old \<and> b' = old\<lparr>bndStatus := bndStatus b\<rparr> \<and>
        objs k' = (objs k)(endpoint_key b \<mapsto> b')"
    and status_error: "ecStatusUpdate client b k = (Inl e, k') \<Longrightarrow> objs k' = objs k"
begin

text \<open>The poller's three fields copied onto the current object.\<close>

lemma updateBindingStatus_spec:
  assumes "updateBindingStatus client desired k = (err, k')"
  shows "(err = None \<longrightarrow> (\<exists>cur. objs k (endpoint_key desired) = Some cur \<and>
      objs k' = (objs k)(endpoint_key desired \<mapsto> cur\<lparr>bndStatus := (bndStatus cur)\<lparr>
        bstEndpoints := bstEndpoints (bndStatus desired),
        bstEndpointsSummary := bstEndpointsSummary (bndStatus desired),
        bstHashedName := bstHashedName (bndStatus desired)\<rparr>\<rparr>))) \<and>
    (err \<noteq> None \<longrightarrow> objs k' = objs k)"
proof (cases "ecGet client (endpoint_key desired) k")
  case (Inl e)
  then show ?thesis using assms by (auto simp: updateBindingStatus_def)
next
  case (Inr cur)
  note cur = get_ok [OF Inr]
  define cur' where "cur' = cur\<lparr>bndStatus := (bndStatus cur)\<lparr>
        bstEndpoints := bstEndpoints (bndStatus desired),
        bstEndpointsSummary := bstEndpointsSummary (bndStatus desired),
        bstHashedName := bstHashedName (bndStatus desired)\<rparr>\<rparr>"
  have key: "endpoint_key cur' = endpoint_key desired"
    using cur by (simp add: cur'_def endpoint_key_def)
  have same: "cur\<lparr>bndStatus := bndStatus cur'\<rparr> = cur'" by (simp add: cur'_def)
  obtain res k1 where u: "ecStatusUpdate client cur' k = (res, k1)" by fastforce
  have run: "updateBindingStatus client desired k =
      (case ecStatusUpdate client cur' k of (Inl e, k') \<Rightarrow> (Some e, k') | (Inr _, k') \<Rightarrow> (None, k'))"
    by (simp add: updateBindingStatus_def Inr cur'_def Let_def)
  show ?thesis
  proof (cases res)
    case (Inl e)
    then show ?thesis using assms run u status_error [of cur' k e k1] by auto
  next
    case (Inr b)
    then have "objs k1 = (objs k)(endpoint_key desired \<mapsto> cur')"
      using status_ok [of cur' k b k1] u key cur same by auto
    then show ?thesis using assms run u Inr cur by (auto simp: cur'_def)
  qed
qed

end

text \<open>A cluster as a list of objects, whose only errors are missing and existing objects.\<close>

type_synonym endpoint_cluster = "(NamespacedName \<times> BoundEndpoint) list"

definition list_objs :: "endpoint_cluster \<Rightarrow> NamespacedName \<Rightarrow> BoundEndpoint option" where
  "list_objs k n = (case map_of k n of Some b \<Rightarrow> if endpoint_key b = n then Some b else None | None \<Rightarrow> None)"

definition list_client :: "endpoint_cluster endpoint_client" where
  "list_client =
     \<lparr>ecGet = (\<lambda>n k. case list_objs k n of Some b \<Rightarrow> Inr b | None \<Rightarrow> Inl NotFound),
      ecCreate = (\<lambda>b k. if list_objs k (endpoint_key b) \<noteq> None then (Inl AlreadyExists, k)
        else (Inr (b\<lparr>bndStatus := empty_status\<rparr>),
              AList.update (endpoint_key b) (b\<lparr>bndStatus := empty_status\<rparr>) k)),
      ecUpdate = (\<lambda>b k. case list_objs k (endpoint_key b) of
          None \<Rightarrow> (Inl NotFound, k)
        | Some old \<Rightarrow> (Inr (b\<lparr>bndStatus := bndStatus old\<rparr>),
            AList.update (endpoint_key b) (b\<lparr>bndStatus := bndStatus old\<rparr>) k)),
      ecDelete = (\<lambda>b k. case list_objs k (endpoint_key b) of
          None \<Rightarrow> (Some NotFound, k)
        | Some _ \<Rightarrow> (None, AList.delete (endpoint_key b) k)),
      ecStatusUpdate = (\<lambda>b k. case list_objs k (endpoint_key b) of
          None \<Rightarrow> (Inl NotFound, k)
        | Some old \<Rightarrow> (Inr (old\<lparr>bndStatus := bndStatus b\<rparr>),
            AList.update (endpoint_key b) (old\<lparr>bndStatus := bndStatus b\<rparr>) k))\<rparr>"

lemma endpoint_key_status [simp]: "endpoint_key (b\<lparr>bndStatus := s\<rparr>) = endpoint_key b"
  by (simp add: endpoint_key_def)

lemma list_objs_key: "list_objs k n = Some b \<Longrightarrow> endpoint_key b = n"
  by (auto simp: list_objs_def split: option.splits if_splits)

lemma list_objs_update: "endpoint_key b = n \<Longrightarrow> list_objs (AList.update n b k) = (list_objs k)(n \<mapsto> b)"
  by (auto simp: list_objs_def fun_eq_iff)

lemma list_objs_delete: "list_objs (AList.delete n k) = (list_objs k)(n := None)"
  by (auto simp: list_objs_def fun_eq_iff AList.delete_conv')

interpretation list_api: endpoint_api list_client list_objs
  by unfold_locales
     (auto simp: list_client_def list_objs_key list_objs_update list_objs_delete
        split: option.splits if_splits)

section \<open>Properties\<close>

text \<open>Deleting an entry from a map with distinct keys.\<close>

lemma mset_delete:
  "distinct (map fst m) \<Longrightarrow> map_of m k = Some v \<Longrightarrow> mset m = add_mset (k, v) (mset (AList.delete k m))"
proof (induction m)
  case (Cons x xs)
  show ?case
  proof (cases "fst x = k")
    case True
    then have "AList.delete k xs = xs" using Cons.prems(1) by (intro AList.delete_id) auto
    then show ?thesis using True Cons.prems(2) by (cases x) auto
  qed (use Cons in \<open>auto split: if_splits\<close>)
qed simp

lemma filter_existing_spec:
  assumes "distinct (map fst desired)" "list_all (\<lambda>(k, d). bsEndpointURL (bndSpec d) = k) desired"
    and "filter_existing uuid existing desired = (cs, us, ds, rest)"
  shows "mset (map snd desired) = mset cs + mset us + mset (map snd rest) \<and>
    (\<exists>kept. mset existing = mset kept + mset ds \<and>
      list_all2 (\<lambda>k u. bsEndpointURL (bndSpec k) = bsEndpointURL (bndSpec u) \<and>
        bndName k = hashURL uuid (bsEndpointURL (bndSpec u))) kept us)"
  using assms
proof (induction existing arbitrary: desired cs us ds rest)
  case (Cons x xs)
  let ?url = "bsEndpointURL (bndSpec x)"
  obtain cs1 us1 ds1 rest1 where f: "filter_existing uuid xs (AList.delete ?url desired) = (cs1, us1, ds1, rest1)"
    by (metis prod_cases4)
  have ih: "mset (map snd (AList.delete ?url desired)) = mset cs1 + mset us1 + mset (map snd rest1)"
    and "\<exists>kept. mset xs = mset kept + mset ds1 \<and>
      list_all2 (\<lambda>k u. bsEndpointURL (bndSpec k) = bsEndpointURL (bndSpec u) \<and>
        bndName k = hashURL uuid (bsEndpointURL (bndSpec u))) kept us1"
    using Cons.IH [OF _ _ f] Cons.prems(1,2) by (simp_all add: AList.distinct_delete delete_values)
  then obtain kept where kept: "mset xs = mset kept + mset ds1"
    "list_all2 (\<lambda>k u. bsEndpointURL (bndSpec k) = bsEndpointURL (bndSpec u) \<and>
        bndName k = hashURL uuid (bsEndpointURL (bndSpec u))) kept us1" by blast
  show ?case
  proof (cases "map_of desired ?url")
    case None
    then have "AList.delete ?url desired = desired"
      by (intro AList.delete_id) (simp add: map_of_eq_None_iff)
    then show ?thesis
      using Cons.prems(3) None f ih kept by (auto intro!: exI [of _ kept])
  next
    case (Some d)
    have m: "mset (map snd desired) = add_mset d (mset (map snd (AList.delete ?url desired)))"
      using mset_delete [OF Cons.prems(1) Some] by simp
    have url: "bsEndpointURL (bndSpec d) = ?url"
      using Cons.prems(2) map_of_SomeD [OF Some] by (auto simp: list_all_iff)
    show ?thesis
    proof (cases "bndName x = hashURL uuid (bsEndpointURL (bndSpec d))")
      case True
      then show ?thesis
        using Cons.prems(3) Some f ih kept m url by (auto intro!: exI [of _ "x # kept"])
    next
      case False
      then show ?thesis
        using Cons.prems(3) Some f ih kept m by (auto intro!: exI [of _ kept])
    qed
  qed
qed simp

text \<open>
  Every desired endpoint is created or updated, exactly one of the two, exactly once. The existing
  objects split into those that are deleted and those that are kept, and the kept ones match the
  updates one by one: same URL, and the name that the URL hashes to.
\<close>

lemma filterBoundEndpointActions_spec:
  assumes "distinct (map fst desired)" "list_all (\<lambda>(k, d). bsEndpointURL (bndSpec d) = k) desired"
    and "filterBoundEndpointActions uuid existing desired = (toCreate, toUpdate, toDelete)"
  shows "mset toCreate + mset toUpdate = mset (map snd desired) \<and>
    (\<exists>kept. mset existing = mset kept + mset toDelete \<and>
      list_all2 (\<lambda>k u. bsEndpointURL (bndSpec k) = bsEndpointURL (bndSpec u) \<and>
        bndName k = hashURL uuid (bsEndpointURL (bndSpec u))) kept toUpdate)"
proof -
  obtain cs us ds rest where f: "filter_existing uuid existing desired = (cs, us, ds, rest)"
    by (metis prod_cases4)
  then have "toCreate = cs @ map snd rest" "toUpdate = us" "toDelete = ds"
    using assms(3) by (auto simp: filterBoundEndpointActions_def)
  then show ?thesis using filter_existing_spec [OF assms(1,2) f] by auto
qed

definition witness_endpoint :: "string \<Rightarrow> string \<Rightarrow> port \<Rightarrow> BoundEndpoint" where
  "witness_endpoint name url port =
     \<lparr>bndName = name, bndNamespace = ''ngrok'',
      bndSpec = \<lparr>bsEndpointURL = url, bsScheme = ''tcp'', bsPort = port,
        bsTarget = \<lparr>tgService = ''a'', tgNamespace = ''b'', tgProtocol = ''TCP'', tgPort = 80,
          tgMetadata = \<lparr>tmLabels = [], tmAnnotations = []\<rparr>\<rparr>\<rparr>,
      bndStatus = empty_status\<lparr>bstEndpoints := [\<lparr>beID = ''ep_1'', beURI = []\<rparr>]\<rparr>\<rparr>"

text \<open>What an update would change in the spec: everything but the port.\<close>

definition same_desired_spec :: "BoundEndpoint \<Rightarrow> BoundEndpoint \<Rightarrow> bool" where
  "same_desired_spec x y \<longleftrightarrow>
     bsEndpointURL (bndSpec x) = bsEndpointURL (bndSpec y) \<and> bsScheme (bndSpec x) = bsScheme (bndSpec y) \<and>
     (bsTarget (bndSpec x))\<lparr>tgMetadata := tgMetadata (bsTarget (bndSpec y))\<rparr> = bsTarget (bndSpec y) \<and>
     targetMetadataIsEqual (tgMetadata (bsTarget (bndSpec x))) (tgMetadata (bsTarget (bndSpec y)))"

lemma same_target_iff:
  "x\<lparr>tgMetadata := tgMetadata y\<rparr> = y \<longleftrightarrow>
   tgService x = tgService y \<and> tgNamespace x = tgNamespace y \<and> tgProtocol x = tgProtocol y \<and> tgPort x = tgPort y"
  for x y :: EndpointTarget
  by (cases x; cases y) auto

lemma mset_eq_if_subset:
  assumes "distinct xs" "set xs \<subseteq> set ys" "length ys = length xs"
  shows "mset ys = mset xs"
proof -
  have "card (set xs) = length ys" using assms(1,3) distinct_card by fastforce
  moreover have "card (set xs) \<le> card (set ys)" using assms(2) by (simp add: card_mono)
  ultimately have "card (set ys) = length ys" using card_length [of ys] by linarith
  then have "distinct ys" by (simp add: card_distinct)
  moreover have "set xs = set ys"
    using assms(2) \<open>card (set xs) = length ys\<close> \<open>card (set ys) = length ys\<close>
    by (intro card_subset_eq) auto
  ultimately show ?thesis using assms(1) set_eq_iff_mset_eq_distinct by blast
qed

text \<open>
  Updates are neither missed nor repeated: where the desired endpoint lists no ID twice, no
  update is needed exactly if the spec agrees in everything but the port (the metadata compared as
  maps) and the two statuses list the same IDs.
\<close>

theorem boundEndpointNeedsUpdate_iff:
  assumes "distinct (map beID (bstEndpoints (bndStatus desired)))"
  shows "\<not> boundEndpointNeedsUpdate existing desired \<longleftrightarrow>
    same_desired_spec existing desired \<and>
    mset (map beID (bstEndpoints (bndStatus existing))) = mset (map beID (bstEndpoints (bndStatus desired)))"
proof -
  let ?e = "bstEndpoints (bndStatus existing)" and ?d = "bstEndpoints (bndStatus desired)"
  have ids: "length ?e = length ?d \<and> \<not> list_ex (\<lambda>d. beID d \<notin> set (map beID ?e)) ?d \<longleftrightarrow>
      mset (map beID ?e) = mset (map beID ?d)" (is "?l \<longleftrightarrow> ?r")
  proof
    assume ?l
    then show ?r
      using mset_eq_if_subset [OF assms, of "map beID ?e"] by (auto simp: list_ex_iff)
  next
    assume r: ?r
    then have "length (map beID ?e) = length (map beID ?d)" "set (map beID ?e) = set (map beID ?d)"
      by (metis size_mset, metis set_mset_mset)
    then show ?l by (auto simp: list_ex_iff)
  qed
  show ?thesis
    unfolding ids [symmetric]
    by (auto simp: boundEndpointNeedsUpdate_def same_desired_spec_def same_target_iff Let_def)
qed

theorem boundEndpointNeedsUpdate_iff_witness:
  "\<not> boundEndpointNeedsUpdate (witness_endpoint ''x'' ''u'' 1) (witness_endpoint [] ''u'' 0)"
  using boundEndpointNeedsUpdate_iff [of "witness_endpoint [] ''u'' 0" "witness_endpoint ''x'' ''u'' 1"]
  by (simp add: witness_endpoint_def same_desired_spec_def targetMetadataIsEqual_def maps_Equal_def)

text \<open>
  The poller and the controller share the status without overwriting each other: a successful
  write of the poller's status replaces the endpoints, their summary and the hashed name of the
  object that is stored at that moment and keeps its spec, its conditions, its service references
  and its observed generation; no other object changes. A failed write changes nothing.
\<close>

theorem updateBindingStatus_keeps_controller_fields:
  assumes "endpoint_api client objs" "updateBindingStatus client desired k = (err, k')"
  shows "(err = None \<longrightarrow> (\<exists>cur. objs k (endpoint_key desired) = Some cur \<and>
      objs k' = (objs k)(endpoint_key desired \<mapsto> cur\<lparr>bndStatus := (bndStatus cur)\<lparr>
        bstEndpoints := bstEndpoints (bndStatus desired),
        bstEndpointsSummary := bstEndpointsSummary (bndStatus desired),
        bstHashedName := bstHashedName (bndStatus desired)\<rparr>\<rparr>))) \<and>
    (err \<noteq> None \<longrightarrow> objs k' = objs k)"
  by (rule endpoint_api.updateBindingStatus_spec [OF assms])

theorem updateBindingStatus_keeps_controller_fields_witness:
  "\<exists>k'. updateBindingStatus list_client (witness_endpoint ''x'' ''u'' 1)
      [(\<lparr>nnName = ''x'', nnNamespace = ''ngrok''\<rparr>, witness_endpoint ''x'' ''u'' 1)] = (None, k') \<and>
    (\<exists>b. list_objs k' \<lparr>nnName = ''x'', nnNamespace = ''ngrok''\<rparr> = Some b \<and> bndSpec b = bndSpec (witness_endpoint ''x'' ''u'' 1))"
proof -
  let ?x = "witness_endpoint ''x'' ''u'' 1"
  let ?k = "[(endpoint_key ?x, ?x)]"
  have key: "endpoint_key ?x = \<lparr>nnName = ''x'', nnNamespace = ''ngrok''\<rparr>"
    by (simp add: endpoint_key_def witness_endpoint_def)
  obtain k' where run: "updateBindingStatus list_client ?x ?k = (None, k')"
    by (simp add: updateBindingStatus_def list_client_def list_objs_def Let_def endpoint_key_def)
  obtain b where "list_objs k' (endpoint_key ?x) = Some b" "bndSpec b = bndSpec ?x"
    using updateBindingStatus_keeps_controller_fields [OF list_api.endpoint_api_axioms run]
    by (auto dest: fun_cong [where x = "endpoint_key ?x"] simp: list_objs_def [of "[_]"])
  then show ?thesis using run key by auto
qed

text \<open>
  Creating a binding. If it succeeds for a name that was not taken, the cluster holds exactly
  one more object: under the hash of the URL, with the desired target, with the configured labels
  and annotations, with a port of the range that no other binding had, and with the endpoints in
  its status. The port is marked as used.
\<close>

theorem createBinding_new_object:
  assumes "bitmap ops bits bm_size" "start \<le> stop" "ports_reachable ops start stop (psPorts st)"
    and "endpoint_api client objs"
    and "createBinding ops client uuid cfg desired st = (None, st')"
    and "objs (psCluster st) \<lparr>nnName = hashURL uuid (bsEndpointURL (bndSpec desired)), nnNamespace = pcNamespace cfg\<rparr> = None"
  shows "\<exists>port. port \<in> range_ports start stop \<and> port \<notin> used_ports bits (psPorts st) \<and>
    used_ports bits (psPorts st') = insert port (used_ports bits (psPorts st)) \<and>
    objs (psCluster st') = (objs (psCluster st))
      (\<lparr>nnName = hashURL uuid (bsEndpointURL (bndSpec desired)), nnNamespace = pcNamespace cfg\<rparr> \<mapsto>
       (new_binding cfg (hashURL uuid (bsEndpointURL (bndSpec desired))) port desired)\<lparr>bndStatus :=
         poller_status (hashURL uuid (bsEndpointURL (bndSpec desired))) (bstEndpoints (bndStatus desired))\<rparr>)"
proof -
  let ?name = "hashURL uuid (bsEndpointURL (bndSpec desired))"
  let ?n = "\<lparr>nnName = ?name, nnNamespace = pcNamespace cfg\<rparr>"
  note range = port_rangeI [OF assms(1,2)]
  obtain port pb where any: "portBitmap_SetAny ops (psPorts st) = Inr (port, pb)"
    using assms(5) by (auto simp: createBinding_def Let_def split: sum.splits)
  note ports = port_range.portBitmap_SetAny_ok [OF range port_range.reachable_inv [OF range assms(3)] any]
  define new where "new = new_binding cfg ?name port desired"
  have key: "endpoint_key new = ?n" and fresh: "bndStatus new = empty_status"
    by (simp_all add: new_def new_binding_def endpoint_key_def Let_def)
  obtain res k where c: "ecCreate client new (psCluster st) = (res, k)" by fastforce
  have run: "createBinding ops client uuid cfg desired st =
      (case ecCreate client new (psCluster st) of
         (Inr created, k) \<Rightarrow> fill_status client ?name desired created (st\<lparr>psPorts := pb, psCluster := k\<rparr>)
       | (Inl e, k) \<Rightarrow> (let st2 = st\<lparr>psPorts := pb, psCluster := k\<rparr> in
           if e \<noteq> AlreadyExists then (Some (ClientError e), st2)
           else if bstHashedName (bndStatus new) \<noteq> [] \<and> bstEndpoints (bndStatus new) \<noteq> [] then (None, st2)
           else (case ecGet client ?n (psCluster st2) of
               Inl _ \<Rightarrow> (None, st2) | Inr existing \<Rightarrow> fill_status client ?name desired existing st2)))"
    unfolding createBinding_def any new_def Let_def by simp
  obtain created where res: "res = Inr created"
  proof (cases res)
    case (Inl e)
    then have "e = AlreadyExists" using assms(5) run c by (auto simp: Let_def split: if_splits)
    then show ?thesis
      using endpoint_api.create_exists [OF assms(4)] c Inl key assms(6) by metis
  qed
  note cr = endpoint_api.create_ok [OF assms(4) c [unfolded res]]
  have created: "created = new" using cr fresh by (metis BoundEndpoint.surjective BoundEndpoint.update_convs(4) BoundEndpoint.simps(4))
  define want where "want = new\<lparr>bndStatus := poller_status ?name (bstEndpoints (bndStatus desired))\<rparr>"
  have wkey: "endpoint_key want = ?n" using key by (simp add: want_def)
  obtain k' where u: "updateBindingStatus client want k = (None, k')"
    and st': "st' = st\<lparr>psPorts := pb, psCluster := k'\<rparr>"
    using assms(5) run c res created by (auto simp: fill_status_def want_def split: prod.splits)
  have "objs k ?n = Some new" using cr created key by simp
  moreover have "new\<lparr>bndStatus := (bndStatus new)\<lparr>bstEndpoints := bstEndpoints (bndStatus want),
      bstEndpointsSummary := bstEndpointsSummary (bndStatus want), bstHashedName := bstHashedName (bndStatus want)\<rparr>\<rparr> = want"
    by (simp add: fresh want_def poller_status_def empty_status_def)
  ultimately have "objs k' = (objs (psCluster st))(?n \<mapsto> want)"
    using endpoint_api.updateBindingStatus_spec [OF assms(4) u] wkey cr created key by auto
  then show ?thesis using ports st' by (auto simp: want_def new_def)
qed

text \<open>A range of ten ports, an empty cluster and the reversed URL in place of its UUID.\<close>

theorem createBinding_new_object_witness:
  "\<exists>st'. createBinding bit_list_ops list_client rev
      \<lparr>pcNamespace = ''ngrok'', pcTargetServiceAnnotations = [], pcTargetServiceLabels = [], pcMin = 40000, pcMax = 40010\<rparr>
      (witness_endpoint [] ''url'' 0)
      \<lparr>psPorts = newPortBitmap bit_list_ops 40000 40010, psCluster = []\<rparr> = (None, st') \<and>
    (\<exists>b. list_objs (psCluster st') \<lparr>nnName = ''ngrok-lru'', nnNamespace = ''ngrok''\<rparr> = Some b \<and>
       used_ports bit_list_bits (psPorts st') = {bsPort (bndSpec b)})"
proof -
  let ?cfg = "\<lparr>pcNamespace = ''ngrok'', pcTargetServiceAnnotations = [], pcTargetServiceLabels = [],
    pcMin = 40000, pcMax = 40010\<rparr> :: poller_config"
  let ?d = "witness_endpoint [] ''url'' 0"
  let ?st = "\<lparr>psPorts = newPortBitmap bit_list_ops 40000 40010, psCluster = []\<rparr>"
  have le: "(40000 :: port) \<le> 40010" by (simp add: word_le_nat_alt)
  have empty: "used_ports bit_list_bits (psPorts ?st) = {}"
    by (simp add: used_ports_def newPortBitmap_def bit_list.new_bits)
  obtain st' where run: "createBinding bit_list_ops list_client rev ?cfg ?d ?st = (None, st')"
    by (simp add: createBinding_def portBitmap_SetAny_def newPortBitmap_def bit_list_ops_def Let_def
        list_client_def list_objs_def fill_status_def updateBindingStatus_def new_binding_def endpoint_key_def)
  have name: "hashURL rev (bsEndpointURL (bndSpec ?d)) = ''ngrok-lru''"
    by (simp add: hashURL_def witness_endpoint_def)
  have "\<exists>b. list_objs (psCluster st') \<lparr>nnName = ''ngrok-lru'', nnNamespace = ''ngrok''\<rparr> = Some b \<and>
       used_ports bit_list_bits (psPorts st') = {bsPort (bndSpec b)}"
    using createBinding_new_object [OF bit_list.bitmap_axioms le _ list_api.endpoint_api_axioms run] empty name
    by (auto simp: ports_reachable.new new_binding_def list_objs_def [of "[]"] Let_def)
  then show ?thesis using run by blast
qed

end
