(* ===== verification/Bound_Endpoint_Actions.thy ===== *)
theory Bound_Endpoint_Actions
  imports Bound_Endpoint_Poller
begin

text \<open>
  What the poller's actions do over time: the refresh of the port allocations from the objects of
  the cluster, updates, and a create action that fails and is retried on every tick.
\<close>

section \<open>The refresh\<close>

context port_range
begin

lemma set_ports_ok:
  "ports_inv bm_size start stop pb \<Longrightarrow> set_ports ops ps pb = Inr pb' \<Longrightarrow>
   ports_inv bm_size start stop pb' \<and> distinct ps \<and> set ps \<subseteq> range_ports start stop \<and>
   set ps \<inter> used_ports bits pb = {} \<and> used_ports bits pb' = used_ports bits pb \<union> set ps"
proof (induction ps arbitrary: pb)
  case (Cons p ps)
  from Cons.prems(2) obtain pb1 where p: "portBitmap_Set ops pb p = Inr pb1" "set_ports ops ps pb1 = Inr pb'"
    by (auto split: sum.splits)
  note ok = ports.set_port_ok [OF Cons.prems(1) p(1)]
  show ?case using Cons.IH [OF _ p(2)] ok by auto
qed simp

lemma set_ports_total:
  "ports_inv bm_size start stop pb \<Longrightarrow> distinct ps \<Longrightarrow> set ps \<subseteq> range_ports start stop \<Longrightarrow>
   set ps \<inter> used_ports bits pb = {} \<Longrightarrow> \<exists>pb'. set_ports ops ps pb = Inr pb'"
proof (induction ps arbitrary: pb)
  case (Cons p ps)
  obtain pb1 where p: "portBitmap_Set ops pb p = Inr pb1"
    using set_iff [OF Cons.prems(1), of p] Cons.prems(3,4) by auto
  note ok = ports.set_port_ok [OF Cons.prems(1) p]
  then show ?case using Cons.IH [of pb1] Cons.prems p by auto
qed simp

lemma new_inv: "ports_inv bm_size start stop (newPortBitmap ops start stop)"
  by (simp add: ports_inv_def newPortBitmap_def new_size)

lemma new_used: "used_ports bits (newPortBitmap ops start stop) = {}"
  by (simp add: used_ports_def newPortBitmap_def new_bits)

lemma replace_used:
  "ports_inv bm_size start stop pb \<Longrightarrow> ports_inv bm_size start stop pb' \<Longrightarrow>
   used_ports bits (portBitmap_Replace pb pb') = used_ports bits pb'"
  by (simp add: used_ports_def portBitmap_Replace_def ports_inv_def)

lemma reconcile_poll_spec:
  fixes existing :: "BoundEndpoint list"
  assumes inv: "ports_inv bm_size start stop pb" and cfg: "pcMin cfg = start" "pcMax cfg = stop"
  defines "ps \<equiv> map (\<lambda>b. bsPort (bndSpec b)) existing"
  shows "(\<exists>r. reconcile_poll ops uuid cfg existing desired pb = Inr r) \<longleftrightarrow>
      distinct ps \<and> set ps \<subseteq> range_ports start stop"
    and "reconcile_poll ops uuid cfg existing desired pb = Inr (acts, pb') \<Longrightarrow>
      acts = filterBoundEndpointActions uuid existing desired \<and> used_ports bits pb' = set ps"
proof -
  note new = set_ports_ok [OF new_inv, of ps] set_ports_total [OF new_inv, of ps]
  show "(\<exists>r. reconcile_poll ops uuid cfg existing desired pb = Inr r) \<longleftrightarrow>
      distinct ps \<and> set ps \<subseteq> range_ports start stop"
    using new new_used by (cases "filterBoundEndpointActions uuid existing desired")
      (auto simp: reconcile_poll_def cfg ps_def split: sum.splits)
  show "acts = filterBoundEndpointActions uuid existing desired \<and> used_ports bits pb' = set ps"
    if "reconcile_poll ops uuid cfg existing desired pb = Inr (acts, pb')"
    using that new(1) new_used replace_used [OF inv]
    by (auto simp: reconcile_poll_def cfg ps_def split: sum.splits)
qed

end

section \<open>Retries\<close>

lemma createBinding_create_fails:
  assumes "ecCreate client (new_binding cfg (hashURL uuid (bsEndpointURL (bndSpec desired))) port desired)
      (psCluster st) = (Inl e, k)" "e \<noteq> AlreadyExists"
    and "portBitmap_SetAny ops (psPorts st) = Inr (port, pb)"
  shows "createBinding ops client uuid cfg desired st = (Some (ClientError e), st\<lparr>psPorts := pb, psCluster := k\<rparr>)"
  using assms by (simp add: createBinding_def Let_def)

lemma action_ticks_Suc:
  "action_ticks action (Suc n) bs st = (case action_ticks action n bs st of (bs', st') \<Rightarrow> action_tick action bs' st')"
  by (simp add: action_ticks_def)

context port_range
begin

lemma failing_create_tick:
  assumes inv: "ports_inv bm_size start stop (psPorts st)" and api: "endpoint_api client objs"
    and fails: "\<And>b k. \<exists>e k'. ecCreate client b k = (Inl e, k') \<and> e \<noteq> AlreadyExists"
    and tick: "action_tick (createBinding ops client uuid cfg) [desired] st = (rest, st')"
  shows "rest = [desired] \<and> objs (psCluster st') = objs (psCluster st) \<and>
    ports_inv bm_size start stop (psPorts st') \<and>
    card (used_ports bits (psPorts st')) =
      min (card (range_ports start stop)) (Suc (card (used_ports bits (psPorts st))))"
proof (cases "portBitmap_SetAny ops (psPorts st)")
  case (Inl e)
  then have "used_ports bits (psPorts st) = range_ports start stop" using ports.set_any_error [OF inv] by blast
  then show ?thesis using tick Inl inv by (simp add: createBinding_def Let_def split: prod.splits)
next
  case (Inr x)
  obtain port pb where x: "x = (port, pb)" by fastforce
  note ok = ports.set_any_ok [OF inv Inr [unfolded x]]
  let ?new = "new_binding cfg (hashURL uuid (bsEndpointURL (bndSpec desired))) port desired"
  obtain e k where c: "ecCreate client ?new (psCluster st) = (Inl e, k)" "e \<noteq> AlreadyExists"
    using fails [of ?new "psCluster st"] by blast
  have st': "rest = [desired]" "st' = st\<lparr>psPorts := pb, psCluster := k\<rparr>"
    using tick createBinding_create_fails [OF c Inr [unfolded x]] by auto
  have fin: "finite (range_ports start stop)" by simp
  have "card (insert port (used_ports bits (psPorts st))) \<le> card (range_ports start stop)"
    using ok ports.used_range [OF inv] by (intro card_mono [OF fin]) auto
  moreover have "card (insert port (used_ports bits (psPorts st))) = Suc (card (used_ports bits (psPorts st)))"
    using ok by simp
  ultimately show ?thesis using st' ok endpoint_api.create_error [OF api c(1)] by simp
qed

lemma failing_create_ticks:
  assumes inv: "ports_inv bm_size start stop (psPorts st)" and api: "endpoint_api client objs"
    and fails: "\<And>b k. \<exists>e k'. ecCreate client b k = (Inl e, k') \<and> e \<noteq> AlreadyExists"
  shows "action_ticks (createBinding ops client uuid cfg) n [desired] st = (rest, st') \<Longrightarrow>
    rest = [desired] \<and> objs (psCluster st') = objs (psCluster st) \<and>
    ports_inv bm_size start stop (psPorts st') \<and>
    card (used_ports bits (psPorts st')) =
      min (card (range_ports start stop)) (card (used_ports bits (psPorts st)) + n)"
proof (induction n arbitrary: rest st')
  case 0
  have "card (used_ports bits (psPorts st)) \<le> card (range_ports start stop)"
    by (intro card_mono ports.used_range [OF inv]) simp
  then show ?case using 0 inv by (simp add: action_ticks_def)
next
  case (Suc n)
  obtain r1 s1 where s1: "action_ticks (createBinding ops client uuid cfg) n [desired] st = (r1, s1)" by fastforce
  note ih = Suc.IH [OF s1]
  have "action_tick (createBinding ops client uuid cfg) [desired] s1 = (rest, st')"
    using Suc.prems s1 ih by (simp add: action_ticks_Suc)
  from failing_create_tick [OF _ api fails this] ih show ?case by auto
qed

end

section \<open>Updates\<close>

text \<open>The object that a completed update leaves in the cluster, from the one that was there.\<close>

definition updated_binding :: "poller_config \<Rightarrow> string \<Rightarrow> BoundEndpoint \<Rightarrow> BoundEndpoint \<Rightarrow> BoundEndpoint" where
  "updated_binding cfg name desired old =
     old\<lparr>bndSpec := \<lparr>bsEndpointURL = bsEndpointURL (bndSpec desired), bsScheme = bsScheme (bndSpec desired),
         bsPort = bsPort (bndSpec old),
         bsTarget = (bsTarget (bndSpec desired))\<lparr>tgMetadata :=
           \<lparr>tmLabels = pcTargetServiceLabels cfg, tmAnnotations = pcTargetServiceAnnotations cfg\<rparr>\<rparr>\<rparr>,
       bndStatus := (bndStatus old)\<lparr>bstEndpoints := bstEndpoints (bndStatus desired),
         bstEndpointsSummary := computeEndpointsSummary (length (bstEndpoints (bndStatus desired))),
         bstHashedName := name\<rparr>\<rparr>"

lemma endpoint_key_spec [simp]: "endpoint_key (b\<lparr>bndSpec := s\<rparr>) = endpoint_key b"
  by (simp add: endpoint_key_def)

context endpoint_api
begin

lemma updateBinding_spec:
  assumes run: "updateBinding client uuid cfg desired st = (None, st')"
  defines "name \<equiv> hashURL uuid (bsEndpointURL (bndSpec desired))"
  defines "n \<equiv> \<lparr>nnName = name, nnNamespace = pcNamespace cfg\<rparr>"
  shows "psPorts st' = psPorts st \<and>
    (psCluster st' = psCluster st \<or>
     (\<exists>old. objs (psCluster st) n = Some old \<and>
        objs (psCluster st') = (objs (psCluster st))(n \<mapsto> updated_binding cfg name desired old)))"
proof -
  let ?t = "(bsTarget (bndSpec desired))\<lparr>tgMetadata :=
    \<lparr>tmLabels = pcTargetServiceLabels cfg, tmAnnotations = pcTargetServiceAnnotations cfg\<rparr>\<rparr>"
  define d where "d = desired\<lparr>bndSpec := (bndSpec desired)\<lparr>bsTarget := ?t\<rparr>\<rparr>"
  show ?thesis
  proof (cases "ecGet client n (psCluster st)")
    case (Inl e)
    then show ?thesis using run by (auto simp: updateBinding_def n_def name_def Let_def split: if_splits)
  next
    case (Inr old)
    note old = get_ok [OF Inr]
    define u where "u = old\<lparr>bndSpec := (bndSpec old)\<lparr>bsScheme := bsScheme (bndSpec d),
      bsTarget := bsTarget (bndSpec d), bsEndpointURL := bsEndpointURL (bndSpec d)\<rparr>\<rparr>"
    have step: "updateBinding client uuid cfg desired st =
      (if \<not> boundEndpointNeedsUpdate old d then (None, st)
       else case ecUpdate client u (psCluster st) of
         (Inl e, k) \<Rightarrow> (Some (ClientError e), st\<lparr>psCluster := k\<rparr>)
       | (Inr updated, k) \<Rightarrow> fill_status client name d updated (st\<lparr>psCluster := k\<rparr>))"
      unfolding updateBinding_def Let_def u_def d_def name_def
      using Inr by (simp add: n_def name_def)
    show ?thesis
    proof (cases "boundEndpointNeedsUpdate old d")
      case False
      then show ?thesis using run step by simp
    next
      case True
      obtain b k where w: "ecUpdate client u (psCluster st) = (Inr b, k)"
        using run step True by (auto split: prod.splits sum.splits)
      have key: "endpoint_key u = n" using old by (simp add: u_def)
      have b: "b = u" and k: "objs k = (objs (psCluster st))(n \<mapsto> u)"
        using update_ok [OF w] key old by (auto simp: u_def)
      obtain k' where s: "updateBindingStatus client (u\<lparr>bndStatus := poller_status name (bstEndpoints (bndStatus d))\<rparr>) k = (None, k')"
        and st': "st' = st\<lparr>psCluster := k'\<rparr>"
        using run step True w b by (auto simp: fill_status_def split: prod.splits)
      have "objs k' = (objs (psCluster st))(n \<mapsto> updated_binding cfg name desired old)"
        using updateBindingStatus_spec [OF s] k key
        by (cases "bndSpec old") (simp add: updated_binding_def poller_status_def u_def d_def)
      then show ?thesis using st' old by auto
    qed
  qed
qed

end

section \<open>Properties\<close>

text \<open>
  The refresh at the start of a poll makes the allocator agree with the cluster: afterwards the
  used ports are exactly those of the existing objects. It succeeds exactly if their ports are
  distinct and within the range. One object outside it, or two with the same port, ends the poll
  before any action is computed.
\<close>

theorem port_refresh_exact:
  assumes "bitmap ops bits bm_size" "pcMin cfg \<le> pcMax cfg" "ports_reachable ops (pcMin cfg) (pcMax cfg) pb"
  shows "((\<exists>r. reconcile_poll ops uuid cfg existing desired pb = Inr r) \<longleftrightarrow>
      distinct (map (\<lambda>b. bsPort (bndSpec b)) existing) \<and>
      (\<lambda>b. bsPort (bndSpec b)) ` set existing \<subseteq> range_ports (pcMin cfg) (pcMax cfg)) \<and>
    (\<forall>acts pb'. reconcile_poll ops uuid cfg existing desired pb = Inr (acts, pb') \<longrightarrow>
      acts = filterBoundEndpointActions uuid existing desired \<and>
      used_ports bits pb' = (\<lambda>b. bsPort (bndSpec b)) ` set existing)"
proof -
  note range = port_rangeI [OF assms(1,2)]
  note inv = port_range.reachable_inv [OF range assms(3)]
  show ?thesis
    using port_range.reconcile_poll_spec [OF range inv refl refl] by (simp only: set_map) blast
qed

theorem port_refresh_exact_witness:
  "\<exists>acts pb'. reconcile_poll bit_list_ops id
      \<lparr>pcNamespace = ''ngrok'', pcTargetServiceAnnotations = [], pcTargetServiceLabels = [], pcMin = 40000, pcMax = 40010\<rparr>
      [witness_endpoint ''x'' ''u'' 40003] [] (newPortBitmap bit_list_ops 40000 40010) = Inr (acts, pb') \<and>
    used_ports bit_list_bits pb' = {40003}"
proof -
  let ?cfg = "\<lparr>pcNamespace = ''ngrok'', pcTargetServiceAnnotations = [], pcTargetServiceLabels = [],
    pcMin = 40000, pcMax = 40010\<rparr> :: poller_config"
  have le: "pcMin ?cfg \<le> pcMax ?cfg" by (simp add: word_le_nat_alt)
  have port: "bsPort (bndSpec (witness_endpoint ''x'' ''u'' 40003)) = 40003" by (simp add: witness_endpoint_def)
  have "(40003 :: port) \<in> range_ports 40000 40010"
    by (simp add: range_ports_def word_le_nat_alt word_less_nat_alt)
  then show ?thesis
    using port_refresh_exact [OF bit_list.bitmap_axioms le, of "newPortBitmap bit_list_ops 40000 40010" id
        "[witness_endpoint ''x'' ''u'' 40003]" "[]"] ports_reachable.new port
    by (fastforce simp: surj_pair)
qed

text \<open>
  An update never moves a binding to another port. A completed update leaves the port
  allocations alone and changes at most the object under the hash of the URL: it gets the desired
  URL, scheme and target (with the configured labels and annotations) and the poller's status
  fields, and keeps its name, its port and what the controller wrote in the status.
\<close>

theorem updateBinding_keeps_port:
  assumes "endpoint_api client objs" "updateBinding client uuid cfg desired st = (None, st')"
  shows "psPorts st' = psPorts st \<and>
    (psCluster st' = psCluster st \<or>
     (\<exists>old. objs (psCluster st) \<lparr>nnName = hashURL uuid (bsEndpointURL (bndSpec desired)), nnNamespace = pcNamespace cfg\<rparr> = Some old \<and>
        objs (psCluster st') = (objs (psCluster st))
          (\<lparr>nnName = hashURL uuid (bsEndpointURL (bndSpec desired)), nnNamespace = pcNamespace cfg\<rparr> \<mapsto>
           updated_binding cfg (hashURL uuid (bsEndpointURL (bndSpec desired))) desired old)))"
  by (rule endpoint_api.updateBinding_spec [OF assms])

theorem updateBinding_keeps_port_witness:
  "\<exists>st' old. updateBinding list_client id
      \<lparr>pcNamespace = ''ngrok'', pcTargetServiceAnnotations = [], pcTargetServiceLabels = [], pcMin = 40000, pcMax = 40010\<rparr>
      ((witness_endpoint [] ''u'' 0)\<lparr>bndStatus := empty_status\<rparr>)
      \<lparr>psPorts = newPortBitmap bit_list_ops 40000 40010,
       psCluster = [(\<lparr>nnName = ''ngrok-u'', nnNamespace = ''ngrok''\<rparr>, witness_endpoint ''ngrok-u'' ''u'' 40003)]\<rparr> = (None, st') \<and>
    psPorts st' = newPortBitmap bit_list_ops 40000 40010"
proof -
  let ?cfg = "\<lparr>pcNamespace = ''ngrok'', pcTargetServiceAnnotations = [], pcTargetServiceLabels = [],
    pcMin = 40000, pcMax = 40010\<rparr> :: poller_config"
  let ?d = "(witness_endpoint [] ''u'' 0)\<lparr>bndStatus := empty_status\<rparr>"
  let ?st = "\<lparr>psPorts = newPortBitmap bit_list_ops 40000 40010,
    psCluster = [(\<lparr>nnName = ''ngrok-u'', nnNamespace = ''ngrok''\<rparr>, witness_endpoint ''ngrok-u'' ''u'' 40003)]\<rparr>"
  obtain st' where run: "updateBinding list_client id ?cfg ?d ?st = (None, st')"
    by (simp add: updateBinding_def hashURL_def witness_endpoint_def list_client_def list_objs_def
        endpoint_key_def fill_status_def updateBindingStatus_def boundEndpointNeedsUpdate_def Let_def
        targetMetadataIsEqual_def maps_Equal_def empty_status_def)
  from updateBinding_keeps_port [OF list_api.endpoint_api_axioms run] run show ?thesis by auto
qed

text \<open>
  A create that the API server refuses loses its port, and it is retried on every tick. After
  \<open>n\<close> ticks the endpoint is still waiting, the cluster is as before, and \<open>n\<close> more ports are marked as
  used, until none is left (the next poll frees them again).
\<close>

theorem failing_create_leaks_ports:
  assumes "bitmap ops bits bm_size" "start \<le> stop" "ports_reachable ops start stop (psPorts st)"
    and "endpoint_api client objs"
    and "\<And>b k. \<exists>e k'. ecCreate client b k = (Inl e, k') \<and> e \<noteq> AlreadyExists"
    and "action_ticks (createBinding ops client uuid cfg) n [desired] st = (rest, st')"
  shows "rest = [desired] \<and> objs (psCluster st') = objs (psCluster st) \<and>
    card (used_ports bits (psPorts st')) =
      min (card (range_ports start stop)) (card (used_ports bits (psPorts st)) + n)"
proof -
  note range = port_rangeI [OF assms(1,2)]
  note inv = port_range.reachable_inv [OF range assms(3)]
  show ?thesis using port_range.failing_create_ticks [OF range inv assms(4,5,6)] by blast
qed

text \<open>A cluster that refuses every create.\<close>

definition refusing_client :: "endpoint_cluster endpoint_client" where
  "refusing_client = list_client\<lparr>ecCreate := (\<lambda>b k. (Inl Conflict, k))\<rparr>"

interpretation refusing_api: endpoint_api refusing_client list_objs
  by unfold_locales
     (auto simp: refusing_client_def list_client_def list_objs_key list_objs_update list_objs_delete
        split: option.splits if_splits)

theorem failing_create_leaks_ports_witness:
  "\<exists>st'. action_ticks (createBinding bit_list_ops refusing_client id
      \<lparr>pcNamespace = ''ngrok'', pcTargetServiceAnnotations = [], pcTargetServiceLabels = [], pcMin = 40000, pcMax = 40003\<rparr>)
      7 [witness_endpoint [] ''u'' 0] \<lparr>psPorts = newPortBitmap bit_list_ops 40000 40003, psCluster = []\<rparr> =
        ([witness_endpoint [] ''u'' 0], st') \<and>
    card (used_ports bit_list_bits (psPorts st')) = card (range_ports 40000 40003)"
proof -
  let ?cfg = "\<lparr>pcNamespace = ''ngrok'', pcTargetServiceAnnotations = [], pcTargetServiceLabels = [],
    pcMin = 40000, pcMax = 40003\<rparr> :: poller_config"
  let ?st = "\<lparr>psPorts = newPortBitmap bit_list_ops 40000 40003, psCluster = []\<rparr>"
  have le: "(40000 :: port) \<le> 40003" by (simp add: word_le_nat_alt)
  have fails: "\<exists>e k'. ecCreate refusing_client b k = (Inl e, k') \<and> e \<noteq> AlreadyExists" for b k
    by (simp add: refusing_client_def)
  obtain rest st' where run:
    "action_ticks (createBinding bit_list_ops refusing_client id ?cfg) 7 [witness_endpoint [] ''u'' 0] ?st = (rest, st')"
    by fastforce
  have "range_ports 40000 40003 \<subseteq> {40000, 40001, 40002}"
  proof
    fix p :: port assume "p \<in> range_ports 40000 40003"
    then have "unat p \<in> {40000, 40001, 40002}"
      by (auto simp: range_ports_def word_le_nat_alt word_less_nat_alt)
    then show "p \<in> {40000, 40001, 40002}"
      by (auto intro: unsigned_word_eqI)
  qed
  then have "card (range_ports 40000 40003) \<le> card {40000, 40001, 40002 :: port}" by (intro card_mono) auto
  also have "\<dots> \<le> 7" by (simp add: card_insert_if)
  finally show ?thesis
    using failing_create_leaks_ports [OF bit_list.bitmap_axioms le _ refusing_api.endpoint_api_axioms fails run] run
    by (auto simp: ports_reachable.new)
qed

end
