(* ===== verification/Binding_Aggregator.thy ===== *)
theory Binding_Aggregator
  imports Bound_Endpoint_Poller
begin

text \<open>
  \<^bold>\<open>internal/ngrokapi/bindingendpoint_aggregator.go\<close>: the endpoints that the ngrok API reports are
  grouped by the Kubernetes service they are projected to. The result is what the poller
  reconciles. The URL parser of the standard library is an argument (\<open>url_parse\<close>): it returns an
  error text or the scheme, the hostname and the port of a URL.
\<close>

section \<open>The aggregation\<close>

text \<open>\<open>ngrok.Endpoint\<close>, as far as it is read, and \<open>url.URL\<close>.\<close>

record api_endpoint =
  epID :: string
  epURI :: string
  epProto :: string
  epPublicURL :: string

record parsed_url =
  urScheme :: string
  urHostname :: string
  urPort :: string

record parsedHostport =
  phScheme :: string
  phServiceName :: string
  phNamespace :: string
  phPort :: int

datatype hostport_error =
    MissingPublicURL
  | UrlError string
  | UnparsableWithProto string
  | MismatchedScheme string string
  | InvalidHostname string
  | MissingTcpPort string
  | InvalidPort string

definition parsedHostport_String :: "parsedHostport \<Rightarrow> string" where
  "parsedHostport_String p =
     phScheme p @ ''://'' @ phServiceName p @ ''.'' @ phNamespace p @ '':'' @ itoa (phPort p)"

text \<open>\<open>strconv.Atoi\<close> on a 64-bit platform, and the conversion of an integer to \<open>int32\<close>.\<close>

definition Atoi :: "string \<Rightarrow> int option" where
  "Atoi s =
     (let (neg, ds) = (case s of c # cs \<Rightarrow> if c = CHR ''-'' then (True, cs) else if c = CHR ''+'' then (False, cs) else (False, s)
                       | [] \<Rightarrow> (False, []));
          n = (if neg then - int (dec_val ds) else int (dec_val ds))
      in if ds = [] \<or> \<not> list_all is_digit ds \<or> n < - (2 ^ 63) \<or> 2 ^ 63 \<le> n then None else Some n)"

definition int32_of :: "int \<Rightarrow> int" where
  "int32_of n = (n + 2 ^ 31) mod 2 ^ 32 - 2 ^ 31"

definition defaultScheme :: string where
  "defaultScheme = ''https''"

definition defaultPort :: "string \<Rightarrow> int" where
  "defaultPort scheme =
     (if scheme = ''http'' then 80 else if scheme = ''https'' then 443 else if scheme = ''tls'' then 443 else 0)"

text \<open>The URL with a scheme: the reported one, or the protocol put in front of it.\<close>

definition parse_with_proto ::
  "(string \<Rightarrow> string + parsed_url) \<Rightarrow> string \<Rightarrow> string \<Rightarrow> hostport_error + parsed_url" where
  "parse_with_proto url_parse proto publicURL =
     (case url_parse publicURL of
        Inl e \<Rightarrow> Inl (UrlError e)
      | Inr u \<Rightarrow>
          if urScheme u = [] then
            let fullUrl = (if proto = [] then defaultScheme else proto) @ ''://'' @ publicURL
            in case url_parse fullUrl of Inl _ \<Rightarrow> Inl (UnparsableWithProto fullUrl) | Inr u' \<Rightarrow> Inr u'
          else if proto \<noteq> [] \<and> urScheme u \<noteq> proto then Inl (MismatchedScheme proto publicURL)
          else Inr u)"

definition parseHostport ::
  "(string \<Rightarrow> string + parsed_url) \<Rightarrow> string \<Rightarrow> string \<Rightarrow> hostport_error + parsedHostport" where
  "parseHostport url_parse proto publicURL =
     (if publicURL = [] then Inl MissingPublicURL
      else case parse_with_proto url_parse proto publicURL of
        Inl e \<Rightarrow> Inl e
      | Inr u \<Rightarrow>
          case split_on (CHR ''.'') (urHostname u) of
            [serviceName, namespace] \<Rightarrow>
              if urScheme u = ''tcp'' \<and> urPort u = [] then Inl (MissingTcpPort publicURL)
              else if urPort u \<noteq> [] then
                (case Atoi (urPort u) of
                   None \<Rightarrow> Inl (InvalidPort (urPort u))
                 | Some n \<Rightarrow> Inr \<lparr>phScheme = urScheme u, phServiceName = serviceName, phNamespace = namespace,
                     phPort = int32_of n\<rparr>)
              else Inr \<lparr>phScheme = urScheme u, phServiceName = serviceName, phNamespace = namespace,
                phPort = defaultPort (urScheme u)\<rparr>
          | _ \<Rightarrow> Inl (InvalidHostname (urHostname u)))"

definition new_bound_endpoint :: "parsedHostport \<Rightarrow> BoundEndpoint" where
  "new_bound_endpoint p =
     \<lparr>bndName = [], bndNamespace = [],
      bndSpec = \<lparr>bsEndpointURL = parsedHostport_String p, bsScheme = phScheme p, bsPort = 0,
        bsTarget = \<lparr>tgService = phServiceName p, tgNamespace = phNamespace p, tgProtocol = ''TCP'',
          tgPort = phPort p, tgMetadata = \<lparr>tmLabels = [], tmAnnotations = []\<rparr>\<rparr>\<rparr>,
      bndStatus = empty_status\<rparr>"

definition endpoint_ref :: "api_endpoint \<Rightarrow> BindingEndpoint" where
  "endpoint_ref ep = \<lparr>beID = epID ep, beURI = epURI ep\<rparr>"

definition add_reference :: "BindingEndpoint \<Rightarrow> BoundEndpoint \<Rightarrow> BoundEndpoint" where
  "add_reference ref b =
     b\<lparr>bndStatus := (bndStatus b)\<lparr>bstEndpoints := bstEndpoints (bndStatus b) @ [ref]\<rparr>\<rparr>"

type_synonym AggregatedEndpoints = "(string \<times> BoundEndpoint) list"

definition aggregate_step ::
  "(string \<Rightarrow> string + parsed_url) \<Rightarrow> AggregatedEndpoints \<times> (string \<times> hostport_error) list \<Rightarrow> api_endpoint \<Rightarrow>
   AggregatedEndpoints \<times> (string \<times> hostport_error) list" where
  "aggregate_step url_parse acc ep =
     (let (aggregated, parseErrs) = acc
      in case parseHostport url_parse (epProto ep) (epPublicURL ep) of
           Inl e \<Rightarrow> (aggregated, parseErrs @ [(epID ep, e)])
         | Inr parsed \<Rightarrow>
             let endpointURL = parsedHostport_String parsed;
                 b = (case map_of aggregated endpointURL of Some val \<Rightarrow> val | None \<Rightarrow> new_bound_endpoint parsed)
             in (AList.update endpointURL (add_reference (endpoint_ref ep) b) aggregated, parseErrs))"

definition AggregateBindingEndpoints ::
  "(string \<Rightarrow> string + parsed_url) \<Rightarrow> api_endpoint list \<Rightarrow> AggregatedEndpoints \<times> (string \<times> hostport_error) list" where
  "AggregateBindingEndpoints url_parse endpoints = foldl (aggregate_step url_parse) ([], []) endpoints"

section \<open>Every endpoint is bound once\<close>

text \<open>The URL that a reported endpoint is filed under, if it can be parsed.\<close>

definition hostport_of :: "(string \<Rightarrow> string + parsed_url) \<Rightarrow> api_endpoint \<Rightarrow> string option" where
  "hostport_of url_parse ep =
     (case parseHostport url_parse (epProto ep) (epPublicURL ep) of
        Inl _ \<Rightarrow> None | Inr p \<Rightarrow> Some (parsedHostport_String p))"

lemma AggregateBindingEndpoints_snoc:
  "AggregateBindingEndpoints url_parse (eps @ [ep]) =
   aggregate_step url_parse (AggregateBindingEndpoints url_parse eps) ep"
  by (simp add: AggregateBindingEndpoints_def)

lemma add_reference_simps [simp]:
  "bndSpec (add_reference r b) = bndSpec b"
  "bstEndpoints (bndStatus (add_reference r b)) = bstEndpoints (bndStatus b) @ [r]"
  by (simp_all add: add_reference_def)

lemma new_bound_endpoint_simps [simp]:
  "bsEndpointURL (bndSpec (new_bound_endpoint p)) = parsedHostport_String p"
  "bstEndpoints (bndStatus (new_bound_endpoint p)) = []"
  by (simp_all add: new_bound_endpoint_def empty_status_def)

lemma aggregate_wf:
  "distinct (map fst (fst (AggregateBindingEndpoints url_parse eps))) \<and>
   list_all (\<lambda>(k, d). bsEndpointURL (bndSpec d) = k) (fst (AggregateBindingEndpoints url_parse eps))"
proof (induction eps rule: rev_induct)
  case Nil
  then show ?case by (simp add: AggregateBindingEndpoints_def)
next
  case (snoc ep eps)
  obtain agg errs where a: "AggregateBindingEndpoints url_parse eps = (agg, errs)" by fastforce
  have "bsEndpointURL (bndSpec b) = k" if "map_of agg k = Some b" for k b
    using snoc.IH map_of_SomeD [OF that] by (auto simp: a list_all_iff)
  then show ?case
    using snoc.IH unfolding AggregateBindingEndpoints_snoc a
    by (auto simp: aggregate_step_def distinct_update Let_def intro!: update_values split: sum.split option.split)
qed

text \<open>The references of all aggregated objects, with their multiplicity.\<close>

lemma mset_update:
  "distinct (map fst m) \<Longrightarrow> mset (AList.update k v m) = add_mset (k, v) (mset (AList.delete k m))"
proof (induction m)
  case (Cons x xs)
  show ?case
  proof (cases "fst x = k")
    case True
    then have "AList.delete k xs = xs" using Cons.prems by (intro AList.delete_id) auto
    then show ?thesis using True by (cases x) auto
  qed (use Cons in auto)
qed simp

definition all_references :: "BoundEndpoint list \<Rightarrow> BindingEndpoint multiset" where
  "all_references bs = (\<Sum>b\<in>#mset bs. mset (bstEndpoints (bndStatus b)))"

lemma all_references_update:
  assumes "distinct (map fst agg)"
  shows "all_references (map snd (AList.update url
      (add_reference r (case map_of agg url of Some b \<Rightarrow> b | None \<Rightarrow> new_bound_endpoint p)) agg)) =
    add_mset r (all_references (map snd agg))"
proof (cases "map_of agg url")
  case None
  then have "AList.delete url agg = agg" by (intro AList.delete_id) (simp add: map_of_eq_None_iff)
  then show ?thesis
    using mset_update [OF assms, of url] None by (simp add: all_references_def)
next
  case (Some b)
  then show ?thesis
    using mset_update [OF assms, of url] mset_delete [OF assms Some] by (simp add: all_references_def)
qed

lemma aggregate_references:
  "all_references (map snd (fst (AggregateBindingEndpoints url_parse eps))) =
   mset (map endpoint_ref (filter (\<lambda>ep. hostport_of url_parse ep \<noteq> None) eps))"
proof (induction eps rule: rev_induct)
  case Nil
  then show ?case by (simp add: AggregateBindingEndpoints_def all_references_def)
next
  case (snoc ep eps)
  obtain agg errs where a: "AggregateBindingEndpoints url_parse eps = (agg, errs)" by fastforce
  have d: "distinct (map fst agg)" using aggregate_wf [of url_parse eps] by (simp add: a)
  show ?case
  proof (cases "parseHostport url_parse (epProto ep) (epPublicURL ep)")
    case (Inl e)
    then have "hostport_of url_parse ep = None" by (simp add: hostport_of_def)
    then show ?thesis using snoc.IH Inl by (simp add: AggregateBindingEndpoints_snoc a aggregate_step_def)
  next
    case (Inr p)
    then have "hostport_of url_parse ep \<noteq> None" by (simp add: hostport_of_def)
    then show ?thesis
      using snoc.IH Inr all_references_update [OF d]
      by (simp add: AggregateBindingEndpoints_snoc a aggregate_step_def Let_def)
  qed
qed

section \<open>Properties\<close>

text \<open>
  \<^bold>\<open>C34\<close>. A poll reconciles the cluster with the API. Whatever the API reports and whatever objects
  exist, the objects to create and to update have distinct URLs and together list every reported
  endpoint that can be parsed exactly once. The existing objects split into those that are deleted
  and those that are kept, and the kept ones match the updates one by one: same URL, and the name
  that the URL hashes to.
\<close>

theorem poll_binds_every_endpoint_once:
  "case filterBoundEndpointActions uuid existing (fst (AggregateBindingEndpoints url_parse eps)) of
     (toCreate, toUpdate, toDelete) \<Rightarrow>
       distinct (map (\<lambda>b. bsEndpointURL (bndSpec b)) (toCreate @ toUpdate)) \<and>
       all_references (toCreate @ toUpdate) =
         mset (map endpoint_ref (filter (\<lambda>ep. hostport_of url_parse ep \<noteq> None) eps)) \<and>
       (\<exists>kept. mset existing = mset kept + mset toDelete \<and>
         list_all2 (\<lambda>k u. bsEndpointURL (bndSpec k) = bsEndpointURL (bndSpec u) \<and>
           bndName k = hashURL uuid (bsEndpointURL (bndSpec u))) kept toUpdate)"
proof -
  let ?agg = "fst (AggregateBindingEndpoints url_parse eps)"
  obtain cs us ds where f: "filterBoundEndpointActions uuid existing ?agg = (cs, us, ds)" by (metis prod_cases3)
  note wf = aggregate_wf [of url_parse eps]
  note spec = filterBoundEndpointActions_spec [OF conjunct1 [OF wf] conjunct2 [OF wf] f]
  then have eq: "mset (cs @ us) = mset (map snd ?agg)" by simp
  have urls: "map (\<lambda>b. bsEndpointURL (bndSpec b)) (map snd ?agg) = map fst ?agg"
    using wf by (auto simp: list_all_iff)
  have "mset (map (\<lambda>b. bsEndpointURL (bndSpec b)) (cs @ us)) = mset (map fst ?agg)"
    using eq urls by (metis mset_map)
  then have "distinct (map (\<lambda>b. bsEndpointURL (bndSpec b)) (cs @ us))"
    using wf by (metis mset_eq_imp_distinct_iff)
  moreover have "all_references (cs @ us) = all_references (map snd ?agg)"
    using eq unfolding all_references_def by simp
  ultimately show ?thesis using f spec aggregate_references by auto
qed

text \<open>
  The aggregation groups by URL: the object under a URL exists exactly if some reported endpoint
  is parsed to that URL; it has the service, namespace, scheme and port of the first of them and lists
  all of them in the order the API reports them.
\<close>

theorem AggregateBindingEndpoints_groups:
  "map_of (fst (AggregateBindingEndpoints url_parse eps)) url =
   (case filter (\<lambda>ep. hostport_of url_parse ep = Some url) eps of
      [] \<Rightarrow> None
    | ep # _ \<Rightarrow> (case parseHostport url_parse (epProto ep) (epPublicURL ep) of
        Inl _ \<Rightarrow> None
      | Inr p \<Rightarrow> Some ((new_bound_endpoint p)\<lparr>bndStatus := empty_status\<lparr>bstEndpoints :=
          map endpoint_ref (filter (\<lambda>ep. hostport_of url_parse ep = Some url) eps)\<rparr>\<rparr>)))"
proof (induction eps rule: rev_induct)
  case Nil
  then show ?case by (simp add: AggregateBindingEndpoints_def)
next
  case (snoc ep eps)
  obtain agg errs where a: "AggregateBindingEndpoints url_parse eps = (agg, errs)" by fastforce
  show ?case
  proof (cases "parseHostport url_parse (epProto ep) (epPublicURL ep)")
    case (Inl e)
    then have same: "filter (\<lambda>ep. hostport_of url_parse ep = Some url) (eps @ [ep]) =
        filter (\<lambda>ep. hostport_of url_parse ep = Some url) eps"
      by (simp add: hostport_of_def)
    show ?thesis
      unfolding same snoc.IH [symmetric] using Inl by (simp add: AggregateBindingEndpoints_snoc a aggregate_step_def)
  next
    case (Inr p)
    then have h: "hostport_of url_parse ep = Some (parsedHostport_String p)" by (simp add: hostport_of_def)
    show ?thesis
    proof (cases "filter (\<lambda>ep. hostport_of url_parse ep = Some url) eps")
      case Nil
      then show ?thesis using snoc.IH Inr h
        by (auto simp: AggregateBindingEndpoints_snoc a aggregate_step_def update_conv' Let_def
            new_bound_endpoint_def add_reference_def empty_status_def)
    next
      case (Cons e es)
      then obtain q where q: "parseHostport url_parse (epProto e) (epPublicURL e) = Inr q"
        by (auto simp: hostport_of_def filter_eq_Cons_iff split: sum.splits)
      then show ?thesis using snoc.IH Inr h Cons
        by (auto simp: AggregateBindingEndpoints_snoc a aggregate_step_def update_conv' Let_def
            new_bound_endpoint_def add_reference_def empty_status_def)
    qed
  qed
qed

end
