(* ===== verification/Kube_Objects.thy ===== *)
theory Kube_Objects
  imports Ngrok_Prelude
begin

text \<open>
  What the controllers share: object metadata, the finalizer helpers of \<^bold>\<open>internal/util/k8s.go\<close>,
  \<^bold>\<open>internal/controller/util.go\<close> and \<^bold>\<open>internal/controller/conditions/conditions.go\<close>.

  The finalizer operations of \<open>controllerutil\<close> and the condition operations of \<open>apimachinery/meta\<close>
  are arguments (\<open>kube_meta\<close>); the interface \<open>object_meta\<close> states their documented behaviour.
\<close>

section \<open>Objects\<close>

record ObjectMeta =
  omName :: string
  omNamespace :: string
  omGeneration :: int
  omFinalizers :: "string list"
  omDeleting :: bool

record 'b kube_object =
  obMeta :: ObjectMeta
  obBody :: 'b

record Condition =
  cnType :: string
  cnStatus :: string
  cnReason :: string
  cnMessage :: string
  cnObservedGeneration :: int

definition object_key :: "'b kube_object \<Rightarrow> NamespacedName" where
  "object_key ob = \<lparr>nnName = omName (obMeta ob), nnNamespace = omNamespace (obMeta ob)\<rparr>"

definition IsUpsert :: "'b kube_object \<Rightarrow> bool" where
  "IsUpsert ob \<longleftrightarrow> \<not> omDeleting (obMeta ob)"

definition IsDelete :: "'b kube_object \<Rightarrow> bool" where
  "IsDelete ob \<longleftrightarrow> omDeleting (obMeta ob)"

text \<open>Removing and adding report whether the list was changed.\<close>

record kube_meta =
  kmContainsFinalizer :: "string \<Rightarrow> string list \<Rightarrow> bool"
  kmAddFinalizer :: "string \<Rightarrow> string list \<Rightarrow> string list \<times> bool"
  kmRemoveFinalizer :: "string \<Rightarrow> string list \<Rightarrow> string list \<times> bool"
  kmSetStatusCondition :: "Condition \<Rightarrow> Condition list \<Rightarrow> Condition list"
  kmRemoveStatusCondition :: "string \<Rightarrow> Condition list \<Rightarrow> Condition list"
  kmFindStatusCondition :: "Condition list \<Rightarrow> string \<Rightarrow> Condition option"
  kmIsStatusConditionTrue :: "Condition list \<Rightarrow> string \<Rightarrow> bool"

section \<open>Finalizers\<close>

definition FinalizerName :: string where
  "FinalizerName = ''ngrok.com/finalizer''"

definition LegacyFinalizerName :: string where
  "LegacyFinalizerName = ''k8s.ngrok.com/finalizer''"

definition finalizers :: "'b kube_object \<Rightarrow> string list" where
  "finalizers ob = omFinalizers (obMeta ob)"

definition set_finalizers :: "string list \<Rightarrow> 'b kube_object \<Rightarrow> 'b kube_object" where
  "set_finalizers fs ob = ob\<lparr>obMeta := (obMeta ob)\<lparr>omFinalizers := fs\<rparr>\<rparr>"

definition HasFinalizer :: "kube_meta \<Rightarrow> 'b kube_object \<Rightarrow> bool" where
  "HasFinalizer km ob \<longleftrightarrow>
     kmContainsFinalizer km FinalizerName (finalizers ob) \<or> kmContainsFinalizer km LegacyFinalizerName (finalizers ob)"

definition AddFinalizer :: "kube_meta \<Rightarrow> 'b kube_object \<Rightarrow> 'b kube_object \<times> bool" where
  "AddFinalizer km ob =
     (let (fs, added) = kmAddFinalizer km LegacyFinalizerName (finalizers ob) in (set_finalizers fs ob, added))"

definition RemoveFinalizer :: "kube_meta \<Rightarrow> 'b kube_object \<Rightarrow> 'b kube_object \<times> bool" where
  "RemoveFinalizer km ob =
     (let (fs1, removedNew) = kmRemoveFinalizer km FinalizerName (finalizers ob);
          (fs2, removedLegacy) = kmRemoveFinalizer km LegacyFinalizerName fs1
      in (set_finalizers fs2 ob, removedNew \<or> removedLegacy))"

text \<open>
  A patch sends the difference between two versions of an object; its answer replaces the object.
  \<open>'e\<close> is the type of errors, \<open>'s\<close> the state of the world.
\<close>

type_synonym ('b, 'e, 's) patcher =
  "'b kube_object \<Rightarrow> 'b kube_object \<Rightarrow> 's \<Rightarrow> ('e option \<times> 'b kube_object) \<times> 's"

definition RegisterAndSyncFinalizer ::
  "kube_meta \<Rightarrow> ('b, 'e, 's) patcher \<Rightarrow> 'b kube_object \<Rightarrow> 's \<Rightarrow> ('e option \<times> 'b kube_object) \<times> 's" where
  "RegisterAndSyncFinalizer km patch ob s =
     (let (ob', added) = AddFinalizer km ob in if added then patch ob ob' s else ((None, ob'), s))"

definition RemoveAndSyncFinalizer ::
  "kube_meta \<Rightarrow> ('b, 'e, 's) patcher \<Rightarrow> 'b kube_object \<Rightarrow> 's \<Rightarrow> ('e option \<times> 'b kube_object) \<times> 's" where
  "RemoveAndSyncFinalizer km patch ob s =
     (let (ob', removed) = RemoveFinalizer km ob in if removed then patch ob ob' s else ((None, ob'), s))"

section \<open>Conditions\<close>

text \<open>\<open>conditions.Set\<close>.\<close>

definition Set_condition ::
  "kube_meta \<Rightarrow> int \<Rightarrow> string \<Rightarrow> bool \<Rightarrow> string \<Rightarrow> string \<Rightarrow> Condition list \<Rightarrow> Condition list" where
  "Set_condition km generation condType ok reason message cs =
     kmSetStatusCondition km
       \<lparr>cnType = condType, cnStatus = (if ok then ''True'' else ''False''), cnReason = reason,
        cnMessage = message, cnObservedGeneration = generation\<rparr> cs"

section \<open>The interface\<close>

locale object_meta =
  fixes km :: kube_meta
  assumes contains_iff: "kmContainsFinalizer km n fs \<longleftrightarrow> n \<in> set fs"
    and add_set: "set (fst (kmAddFinalizer km n fs)) = insert n (set fs)"
    and add_flag: "snd (kmAddFinalizer km n fs) \<longleftrightarrow> n \<notin> set fs"
    and remove_set: "set (fst (kmRemoveFinalizer km n fs)) = set fs - {n}"
    and remove_flag: "snd (kmRemoveFinalizer km n fs) \<longleftrightarrow> n \<in> set fs"
    and find_set: "kmFindStatusCondition km (kmSetStatusCondition km c cs) t =
      (if t = cnType c then Some c else kmFindStatusCondition km cs t)"
    and find_remove: "kmFindStatusCondition km (kmRemoveStatusCondition km t' cs) t =
      (if t = t' then None else kmFindStatusCondition km cs t)"
    and true_iff: "kmIsStatusConditionTrue km cs t \<longleftrightarrow>
      (\<exists>c. kmFindStatusCondition km cs t = Some c \<and> cnStatus c = ''True'')"
begin

lemma HasFinalizer_iff:
  "HasFinalizer km ob \<longleftrightarrow> FinalizerName \<in> set (finalizers ob) \<or> LegacyFinalizerName \<in> set (finalizers ob)"
  by (simp add: HasFinalizer_def contains_iff)

lemma finalizers_set [simp]: "finalizers (set_finalizers fs ob) = fs" for ob :: "'b kube_object"
  by (simp add: finalizers_def set_finalizers_def)

lemma RemoveFinalizer_spec:
  assumes "RemoveFinalizer km ob = (ob', removed)"
  shows "set (finalizers ob') = set (finalizers ob) - {FinalizerName, LegacyFinalizerName}"
    and "removed \<longleftrightarrow> HasFinalizer km ob"
    and "\<not> HasFinalizer km ob'"
    and "object_key ob' = object_key ob" "obBody ob' = obBody ob"
    and "omDeleting (obMeta ob') = omDeleting (obMeta ob)"
proof -
  let ?r1 = "kmRemoveFinalizer km FinalizerName (finalizers ob)"
  let ?r2 = "kmRemoveFinalizer km LegacyFinalizerName (fst ?r1)"
  have eq: "ob' = set_finalizers (fst ?r2) ob" "removed \<longleftrightarrow> snd ?r1 \<or> snd ?r2"
    using assms by (auto simp: RemoveFinalizer_def split: prod.splits)
  then show fs: "set (finalizers ob') = set (finalizers ob) - {FinalizerName, LegacyFinalizerName}"
    by (auto simp: remove_set)
  show "removed \<longleftrightarrow> HasFinalizer km ob"
    using eq by (auto simp: HasFinalizer_iff remove_flag remove_set FinalizerName_def LegacyFinalizerName_def)
  show "\<not> HasFinalizer km ob'" using fs by (auto simp: HasFinalizer_iff)
  show "object_key ob' = object_key ob" "obBody ob' = obBody ob" "omDeleting (obMeta ob') = omDeleting (obMeta ob)"
    using eq by (simp_all add: set_finalizers_def object_key_def)
qed

lemma AddFinalizer_spec:
  assumes "AddFinalizer km ob = (ob', added)"
  shows "set (finalizers ob') = insert LegacyFinalizerName (set (finalizers ob))"
    and "added \<longleftrightarrow> LegacyFinalizerName \<notin> set (finalizers ob)"
    and "HasFinalizer km ob'"
proof -
  let ?a = "kmAddFinalizer km LegacyFinalizerName (finalizers ob)"
  have eq: "ob' = set_finalizers (fst ?a) ob" "added = snd ?a"
    using assms by (auto simp: AddFinalizer_def split: prod.splits)
  show fs: "set (finalizers ob') = insert LegacyFinalizerName (set (finalizers ob))" using eq by (simp add: add_set)
  show "added \<longleftrightarrow> LegacyFinalizerName \<notin> set (finalizers ob)" using eq by (simp add: add_flag)
  show "HasFinalizer km ob'" by (simp add: HasFinalizer_iff fs)
qed

end

text \<open>The list implementation: a condition of a known type is replaced where it stands.\<close>

definition list_meta :: kube_meta where
  "list_meta =
     \<lparr>kmContainsFinalizer = (\<lambda>n fs. n \<in> set fs),
      kmAddFinalizer = (\<lambda>n fs. if n \<in> set fs then (fs, False) else (fs @ [n], True)),
      kmRemoveFinalizer = (\<lambda>n fs. (filter (\<lambda>f. f \<noteq> n) fs, n \<in> set fs)),
      kmSetStatusCondition = (\<lambda>c cs. if cnType c \<in> cnType ` set cs
        then map (\<lambda>d. if cnType d = cnType c then c else d) cs else cs @ [c]),
      kmRemoveStatusCondition = (\<lambda>t cs. filter (\<lambda>c. cnType c \<noteq> t) cs),
      kmFindStatusCondition = (\<lambda>cs t. find (\<lambda>c. cnType c = t) cs),
      kmIsStatusConditionTrue = (\<lambda>cs t. case find (\<lambda>c. cnType c = t) cs of
        Some c \<Rightarrow> cnStatus c = ''True'' | None \<Rightarrow> False)\<rparr>"

lemma find_snoc: "find P (xs @ [x]) = (case find P xs of Some y \<Rightarrow> Some y | None \<Rightarrow> if P x then Some x else None)"
  by (induction xs) auto

lemma find_replace:
  "cnType c \<in> cnType ` set cs \<Longrightarrow>
   find (\<lambda>d. cnType d = t) (map (\<lambda>d. if cnType d = cnType c then c else d) cs) =
   (if t = cnType c then Some c else find (\<lambda>d. cnType d = t) cs)"
proof (cases "t = cnType c")
  case True
  assume "cnType c \<in> cnType ` set cs"
  with True show ?thesis by (induction cs) auto
next
  case False
  then show ?thesis by (induction cs) auto
qed

lemma find_missing: "t \<notin> cnType ` set cs \<Longrightarrow> find (\<lambda>d. cnType d = t) cs = None"
  by (auto simp: find_None_iff)

lemma find_removed:
  "find (\<lambda>c. cnType c = t) (filter (\<lambda>c. cnType c \<noteq> t') cs) = (if t = t' then None else find (\<lambda>c. cnType c = t) cs)"
  by (induction cs) auto

interpretation list_meta: object_meta list_meta
proof
  show "kmFindStatusCondition list_meta (kmRemoveStatusCondition list_meta t' cs) t =
      (if t = t' then None else kmFindStatusCondition list_meta cs t)" for t' cs t
    by (simp add: list_meta_def find_removed)
  show "kmFindStatusCondition list_meta (kmSetStatusCondition list_meta c cs) t =
      (if t = cnType c then Some c else kmFindStatusCondition list_meta cs t)" for c cs t
    using find_replace [of c cs t] find_missing [of t cs]
    by (auto simp: list_meta_def find_snoc split: option.splits)
  show "kmIsStatusConditionTrue list_meta cs t \<longleftrightarrow>
      (\<exists>c. kmFindStatusCondition list_meta cs t = Some c \<and> cnStatus c = ''True'')" for cs t
    by (simp add: list_meta_def split: option.split)
qed (auto simp: list_meta_def)

end
