(* ===== verification/Base_Controller.thy ===== *)
theory Base_Controller
  imports Kube_Objects
begin

text \<open>
  \<^bold>\<open>internal/controller/base_controller.go\<close> and \<^bold>\<open>internal/ngrokapi/enriched_errors.go\<close>: the reconcile
  loop that all resource controllers share, and the mapping from errors to requeue decisions.

  The state of the world is a type variable; a callback takes the object and the state and returns
  an error, the object as it left it, and the new state. \<open>None\<close> as the result of a reconcile is a
  panic (a call of a function that was not provided). Events and log messages are left out, except
  where computing a log argument calls a function.
\<close>

section \<open>Errors\<close>

datatype kube_reason = KubeNotFound | KubeConflict | KubeNoMatch | KubeOther

datatype go_error =
    NgrokError (neStatusCode: int) (neErrorCode: string) (neMsg: string)
  | KubeError kube_reason string
  | StatusError "go_error option" go_error
  | WrappedError string go_error
  | SuffixedError go_error string
  | PlainError string

text \<open>\<open>errors.AsType[*ngrok.Error]\<close>: the chain of causes is searched.\<close>

fun as_ngrok_error :: "go_error \<Rightarrow> go_error option" where
  "as_ngrok_error (NgrokError sc ec msg) = Some (NgrokError sc ec msg)"
| "as_ngrok_error (StatusError err cause) = as_ngrok_error cause"
| "as_ngrok_error (WrappedError msg e) = as_ngrok_error e"
| "as_ngrok_error (SuffixedError e msg) = as_ngrok_error e"
| "as_ngrok_error (KubeError r msg) = None"
| "as_ngrok_error (PlainError msg) = None"

fun as_status_error :: "go_error \<Rightarrow> go_error option" where
  "as_status_error (StatusError err cause) = Some (StatusError err cause)"
| "as_status_error (WrappedError msg e) = as_status_error e"
| "as_status_error (SuffixedError e msg) = as_status_error e"
| "as_status_error (NgrokError sc ec msg) = None"
| "as_status_error (KubeError r msg) = None"
| "as_status_error (PlainError msg) = None"

fun kube_reason_of :: "go_error \<Rightarrow> kube_reason option" where
  "kube_reason_of (KubeError r msg) = Some r"
| "kube_reason_of (StatusError err cause) = kube_reason_of cause"
| "kube_reason_of (WrappedError msg e) = kube_reason_of e"
| "kube_reason_of (SuffixedError e msg) = kube_reason_of e"
| "kube_reason_of (NgrokError sc ec msg) = None"
| "kube_reason_of (PlainError msg) = None"

definition IgnoreNotFound :: "go_error \<Rightarrow> go_error option" where
  "IgnoreNotFound e = (if kube_reason_of e = Some KubeNotFound then None else Some e)"

text \<open>\<open>errors.Is\<close>: the error or one of its causes is the given one.\<close>

fun errors_Is :: "go_error \<Rightarrow> go_error \<Rightarrow> bool" where
  "errors_Is target (WrappedError msg e) = (target = WrappedError msg e \<or> errors_Is target e)"
| "errors_Is target (SuffixedError e msg) = (target = SuffixedError e msg \<or> errors_Is target e)"
| "errors_Is target (StatusError err cause) = (target = StatusError err cause \<or> errors_Is target cause)"
| "errors_Is target (NgrokError sc ec msg) = (target = NgrokError sc ec msg)"
| "errors_Is target (KubeError r msg) = (target = KubeError r msg)"
| "errors_Is target (PlainError msg) = (target = PlainError msg)"

text \<open>The texts of errors; that of an ngrok error is the client library's (\<open>ng\<close>).\<close>

fun error_text :: "(go_error \<Rightarrow> string) \<Rightarrow> go_error \<Rightarrow> string" where
  "error_text ng (NgrokError sc ec msg) = ng (NgrokError sc ec msg)"
| "error_text ng (KubeError r msg) = msg"
| "error_text ng (StatusError None cause) = error_text ng cause"
| "error_text ng (StatusError (Some e) cause) = error_text ng cause @ '': '' @ error_text ng e"
| "error_text ng (WrappedError msg e) = msg @ '': '' @ error_text ng e"
| "error_text ng (SuffixedError e msg) = error_text ng e @ '': '' @ msg"
| "error_text ng (PlainError msg) = msg"

record EnrichedError =
  eeName :: string
  eeCode :: int
  eeStatusCode :: int

definition NgrokOpErrFailedToCreateUpstreamService :: EnrichedError where
  "NgrokOpErrFailedToCreateUpstreamService = \<lparr>eeName = ''ERR_NGROK_20002'', eeCode = 20002, eeStatusCode = 503\<rparr>"

definition NgrokOpErrFailedToCreateTargetService :: EnrichedError where
  "NgrokOpErrFailedToCreateTargetService = \<lparr>eeName = ''ERR_NGROK_20003'', eeCode = 20003, eeStatusCode = 503\<rparr>"

definition NgrokOpErrEndpointDenied :: EnrichedError where
  "NgrokOpErrEndpointDenied = \<lparr>eeName = ''ERR_NGROK_20005'', eeCode = 20005, eeStatusCode = 403\<rparr>"

definition NgrokOpErrFailedToCreateCSR :: EnrichedError where
  "NgrokOpErrFailedToCreateCSR = \<lparr>eeName = ''ERR_NGROK_20006'', eeCode = 20006, eeStatusCode = 500\<rparr>"

text \<open>An error that already is an ngrok error keeps its message and loses its codes.\<close>

definition NewNgrokError :: "(go_error \<Rightarrow> string) \<Rightarrow> go_error \<Rightarrow> EnrichedError \<Rightarrow> string \<Rightarrow> go_error" where
  "NewNgrokError ng origErr ee msg =
     (case origErr of
        NgrokError sc ec m \<Rightarrow> NgrokError 0 [] m
      | _ \<Rightarrow> NgrokError (eeStatusCode ee) (eeName ee) (msg @ '': '' @ error_text ng origErr))"

section \<open>Requeue decisions\<close>

text \<open>The requeue delay is in seconds; 0 is no explicit delay.\<close>

record ctrl_result =
  RequeueAfter :: nat

definition no_result :: ctrl_result where
  "no_result = \<lparr>RequeueAfter = 0\<rparr>"

text \<open>The predicates of the ngrok client library.\<close>

record ngrok_errors =
  neIsNotFound :: "go_error \<Rightarrow> bool"
  neIsErrorCode :: "go_error \<Rightarrow> int list \<Rightarrow> bool"

definition CtrlResultForErr :: "ngrok_errors \<Rightarrow> go_error \<Rightarrow> ctrl_result \<times> go_error option" where
  "CtrlResultForErr ne err =
     (case as_ngrok_error err of
        Some nerr \<Rightarrow>
          if 500 \<le> neStatusCode nerr then (no_result, Some err)
          else if neStatusCode nerr = 429 then (\<lparr>RequeueAfter = 60\<rparr>, None)
          else if neStatusCode nerr = 404 then (no_result, Some err)
          else if neIsErrorCode ne nerr [eeCode NgrokOpErrFailedToCreateCSR] then (\<lparr>RequeueAfter = 30\<rparr>, Some nerr)
          else if neIsErrorCode ne nerr [eeCode NgrokOpErrFailedToCreateUpstreamService,
              eeCode NgrokOpErrFailedToCreateTargetService] then (\<lparr>RequeueAfter = 60\<rparr>, Some nerr)
          else if neIsErrorCode ne nerr [eeCode NgrokOpErrEndpointDenied] then (no_result, None)
          else (no_result, None)
      | None \<Rightarrow>
          (case as_status_error err of
             Some serr \<Rightarrow> (\<lparr>RequeueAfter = 10\<rparr>, Some serr)
           | None \<Rightarrow> (no_result, Some err)))"

section \<open>The base controller\<close>

datatype BaseControllerOp = CreateOp | UpdateOp | DeleteOp

type_synonym ('b, 's) callback = "'b kube_object \<Rightarrow> 's \<Rightarrow> (go_error option \<times> 'b kube_object) \<times> 's"

record ('b, 's) BaseController =
  bcGet :: "NamespacedName \<Rightarrow> 's \<Rightarrow> go_error + 'b kube_object"
  bcPatch :: "('b, go_error, 's) patcher"
  bcDrainState :: "('s \<Rightarrow> bool \<times> 's) option"
  bcStatusID :: "('b kube_object \<Rightarrow> string) option"
  bcCreate :: "('b, 's) callback option"
  bcUpdate :: "('b, 's) callback option"
  bcDelete :: "('b, 's) callback option"
  bcErrResult :: "(BaseControllerOp \<Rightarrow> 'b kube_object \<Rightarrow> go_error \<Rightarrow> ctrl_result \<times> go_error option) option"

text \<open>\<open>drain.IsDraining\<close>: no drain state means not draining.\<close>

definition IsDraining :: "('s \<Rightarrow> bool \<times> 's) option \<Rightarrow> 's \<Rightarrow> bool \<times> 's" where
  "IsDraining state s = (case state of None \<Rightarrow> (False, s) | Some f \<Rightarrow> f s)"

definition handleErr ::
  "ngrok_errors \<Rightarrow> ('b, 's) BaseController \<Rightarrow> BaseControllerOp \<Rightarrow> 'b kube_object \<Rightarrow> go_error \<Rightarrow> ctrl_result \<times> go_error option" where
  "handleErr ne bc op ob err =
     (case bcErrResult bc of Some f \<Rightarrow> f op ob err | None \<Rightarrow> CtrlResultForErr ne err)"

type_synonym reconcile_result = "(ctrl_result \<times> go_error option) option"

definition run_callback ::
  "ngrok_errors \<Rightarrow> ('b, 's) BaseController \<Rightarrow> BaseControllerOp \<Rightarrow> ('b, 's) callback option \<Rightarrow> 'b kube_object \<Rightarrow> 's \<Rightarrow>
   reconcile_result \<times> 's" where
  "run_callback ne bc op f ob s =
     (case f of
        None \<Rightarrow> (None, s)
      | Some g \<Rightarrow>
          (case g ob s of
             ((Some e, ob'), s') \<Rightarrow> (Some (handleErr ne bc op ob' e), s')
           | ((None, _), s') \<Rightarrow> (Some (no_result, None), s')))"

definition remove_finalizer ::
  "kube_meta \<Rightarrow> ('b, 's) BaseController \<Rightarrow> 'b kube_object \<Rightarrow> 's \<Rightarrow> reconcile_result \<times> 's" where
  "remove_finalizer km bc ob s =
     (case RemoveAndSyncFinalizer km (bcPatch bc) ob s of
        ((Some e, _), s') \<Rightarrow> (Some (no_result, Some e), s')
      | ((None, _), s') \<Rightarrow> (Some (no_result, None), s'))"

definition reconcile_upsert ::
  "kube_meta \<Rightarrow> ngrok_errors \<Rightarrow> ('b, 's) BaseController \<Rightarrow> ('b kube_object \<Rightarrow> string) \<Rightarrow> 'b kube_object \<Rightarrow> 's \<Rightarrow>
   reconcile_result \<times> 's" where
  "reconcile_upsert km ne bc statusID ob s =
     (case RegisterAndSyncFinalizer km (bcPatch bc) ob s of
        ((Some e, _), s') \<Rightarrow> (Some (no_result, Some e), s')
      | ((None, ob'), s') \<Rightarrow>
          if statusID ob' = [] then run_callback ne bc CreateOp (bcCreate bc) ob' s'
          else run_callback ne bc UpdateOp (bcUpdate bc) ob' s')"

definition reconcile_delete ::
  "kube_meta \<Rightarrow> ngrok_errors \<Rightarrow> ('b, 's) BaseController \<Rightarrow> ('b kube_object \<Rightarrow> string) \<Rightarrow> 'b kube_object \<Rightarrow> 's \<Rightarrow>
   reconcile_result \<times> 's" where
  "reconcile_delete km ne bc statusID ob s =
     (if statusID ob \<noteq> [] then
        (case bcDelete bc of
           None \<Rightarrow> (None, s)
         | Some del \<Rightarrow>
             (case del ob s of
                ((Some e, ob'), s') \<Rightarrow>
                  if \<not> neIsNotFound ne e then (Some (handleErr ne bc DeleteOp ob' e), s')
                  else remove_finalizer km bc ob' s'
              | ((None, ob'), s') \<Rightarrow> remove_finalizer km bc ob' s'))
      else remove_finalizer km bc ob s)"

definition Reconcile ::
  "kube_meta \<Rightarrow> ngrok_errors \<Rightarrow> ('b, 's) BaseController \<Rightarrow> NamespacedName \<Rightarrow> 's \<Rightarrow> reconcile_result \<times> 's" where
  "Reconcile km ne bc req s =
     (case bcGet bc req s of
        Inl e \<Rightarrow> (Some (no_result, IgnoreNotFound e), s)
      | Inr ob \<Rightarrow>
          (case bcStatusID bc of
             None \<Rightarrow> (None, s)
           | Some statusID \<Rightarrow>
               (case IsDraining (bcDrainState bc) s of
                  (draining, s1) \<Rightarrow>
                    if draining \<and> \<not> IsDelete ob then (Some (no_result, None), s1)
                    else if IsUpsert ob then reconcile_upsert km ne bc statusID ob s1
                    else if HasFinalizer km ob then reconcile_delete km ne bc statusID ob s1
                    else (Some (no_result, None), s1))))"

end
