(* ===== verification/Drain.thy ===== *)
theory Drain
  imports Base_Controller
begin

text \<open>
  The removal of the operator: \<^bold>\<open>internal/drain\<close> (state.go, drain.go, orchestrator.go), the drain
  helpers of \<^bold>\<open>api/ngrok/v1alpha1/kubernetesoperator_types.go\<close> and the delete path of
  \<^bold>\<open>internal/controller/ngrok/kubernetesoperator_controller.go\<close>.

  The Kubernetes client is an argument (\<open>drain_client\<close>, one operation per call, the kind of an object
  is its Go type); the interface \<open>drain_api\<close> states what is relied on. The state of the cluster may also
  change while the code sleeps, which is where the other controllers run. The number of polls that
  fit into the deadline of a wait is a field of the drainer; the ngrok API is one operation on its
  own state. Events and log messages are left out.
\<close>

section \<open>The KubernetesOperator resource\<close>

record KubernetesOperatorDrainStatus =
  kdDrainedResources :: int
  kdFailedResources :: int
  kdTotalResources :: int
  kdErrors :: "string list"

record KubernetesOperatorStatus =
  ksObservedGeneration :: int
  ksID :: string
  ksURI :: string
  ksConditions :: "Condition list"
  ksEnabledFeatures :: string
  ksBindingsIngressEndpoint :: string
  ksDrain :: "KubernetesOperatorDrainStatus ptr"

text \<open>The part of the spec that the removal reads is the drain policy.\<close>

record operator_body =
  kbDrainPolicy :: "string ptr"
  kbStatus :: KubernetesOperatorStatus

type_synonym KubernetesOperator = "operator_body kube_object"

definition ConditionReady :: string where "ConditionReady = ''Ready''"
definition ConditionRegistered :: string where "ConditionRegistered = ''Registered''"
definition ConditionDraining :: string where "ConditionDraining = ''Draining''"
definition ReasonDeregistered :: string where "ReasonDeregistered = ''Deregistered''"
definition ReasonDraining :: string where "ReasonDraining = ''Draining''"
definition ReasonDrainInProgress :: string where "ReasonDrainInProgress = ''DrainInProgress''"
definition ReasonDrainFailed :: string where "ReasonDrainFailed = ''DrainFailed''"
definition ReasonDrainCompleted :: string where "ReasonDrainCompleted = ''DrainCompleted''"
definition DrainPolicyDelete :: string where "DrainPolicyDelete = ''Delete''"
definition DrainPolicyRetain :: string where "DrainPolicyRetain = ''Retain''"

definition operator_status :: "KubernetesOperator \<Rightarrow> KubernetesOperatorStatus" where
  "operator_status ko = kbStatus (obBody ko)"

definition map_status ::
  "(KubernetesOperatorStatus \<Rightarrow> KubernetesOperatorStatus) \<Rightarrow> KubernetesOperator \<Rightarrow> KubernetesOperator" where
  "map_status f ko = ko\<lparr>obBody := (obBody ko)\<lparr>kbStatus := f (kbStatus (obBody ko))\<rparr>\<rparr>"

definition GetDrainPolicy :: "KubernetesOperator \<Rightarrow> string" where
  "GetDrainPolicy ko =
     (case kbDrainPolicy (obBody ko) of
        Some policy \<Rightarrow> if policy \<noteq> [] then policy else DrainPolicyRetain
      | None \<Rightarrow> DrainPolicyRetain)"

definition IsDrainComplete :: "kube_meta \<Rightarrow> KubernetesOperator \<Rightarrow> bool" where
  "IsDrainComplete km ko =
     (case kmFindStatusCondition km (ksConditions (operator_status ko)) ConditionDraining of
        None \<Rightarrow> False
      | Some c \<Rightarrow> cnStatus c = ''False'' \<and> cnReason c = ReasonDrainCompleted)"

definition SetObservedGeneration :: "int \<Rightarrow> KubernetesOperator \<Rightarrow> KubernetesOperator" where
  "SetObservedGeneration generation = map_status (\<lambda>st. st\<lparr>ksObservedGeneration := generation\<rparr>)"

definition set_operator_condition ::
  "kube_meta \<Rightarrow> string \<Rightarrow> bool \<Rightarrow> string \<Rightarrow> string \<Rightarrow> KubernetesOperator \<Rightarrow> KubernetesOperator" where
  "set_operator_condition km condType ok reason message ko =
     map_status (\<lambda>st. st\<lparr>ksConditions :=
       Set_condition km (omGeneration (obMeta ko)) condType ok reason message (ksConditions st)\<rparr>) ko"

definition setKubernetesOperatorRegisteredCondition ::
  "kube_meta \<Rightarrow> bool \<Rightarrow> string \<Rightarrow> string \<Rightarrow> KubernetesOperator \<Rightarrow> KubernetesOperator" where
  "setKubernetesOperatorRegisteredCondition km = set_operator_condition km ConditionRegistered"

definition setKubernetesOperatorReadyCondition ::
  "kube_meta \<Rightarrow> bool \<Rightarrow> string \<Rightarrow> string \<Rightarrow> KubernetesOperator \<Rightarrow> KubernetesOperator" where
  "setKubernetesOperatorReadyCondition km = set_operator_condition km ConditionReady"

definition setKubernetesOperatorDrainingCondition ::
  "kube_meta \<Rightarrow> bool \<Rightarrow> string \<Rightarrow> string \<Rightarrow> KubernetesOperator \<Rightarrow> KubernetesOperator" where
  "setKubernetesOperatorDrainingCondition km = set_operator_condition km ConditionDraining"

section \<open>The world\<close>

record 'k drain_client =
  dcList :: "string \<Rightarrow> 'k \<Rightarrow> go_error + unit kube_object list"
  dcPatch :: "string \<Rightarrow> (unit, go_error, 'k) patcher"
  dcDelete :: "string \<Rightarrow> unit kube_object \<Rightarrow> 'k \<Rightarrow> go_error option \<times> 'k"
  dcGet :: "string \<Rightarrow> NamespacedName \<Rightarrow> 'k \<Rightarrow> go_error + unit kube_object"
  dcSleep :: "nat \<Rightarrow> 'k \<Rightarrow> 'k"
  dcGetOperator :: "NamespacedName \<Rightarrow> 'k \<Rightarrow> go_error + KubernetesOperator"
  dcPatchOperator :: "(operator_body, go_error, 'k) patcher"
  dcUpdateOperatorStatus :: "KubernetesOperator \<Rightarrow> 'k \<Rightarrow> (go_error option \<times> KubernetesOperator) \<times> 'k"

text \<open>The in-memory flag of the state checker, the cluster and the ngrok API.\<close>

record ('k, 'n) drain_world =
  dwDraining :: bool
  dwCluster :: 'k
  dwNgrok :: 'n

section \<open>state.go\<close>

definition StateChecker_IsDraining ::
  "kube_meta \<Rightarrow> 'k drain_client \<Rightarrow> NamespacedName \<Rightarrow> ('k, 'n) drain_world \<Rightarrow> bool \<times> ('k, 'n) drain_world" where
  "StateChecker_IsDraining km client op w =
     (if dwDraining w then (True, w)
      else case dcGetOperator client op (dwCluster w) of
        Inl _ \<Rightarrow> (False, w)
      | Inr ko \<Rightarrow>
          let isDraining = kmIsStatusConditionTrue km (ksConditions (operator_status ko)) ConditionDraining
          in (isDraining, if isDraining then w\<lparr>dwDraining := True\<rparr> else w))"

definition SetDraining :: "('k, 'n) drain_world \<Rightarrow> ('k, 'n) drain_world" where
  "SetDraining w = w\<lparr>dwDraining := True\<rparr>"

section \<open>drain.go\<close>

record 'k Drainer =
  drClient :: "'k drain_client"
  drPolicy :: string
  drPolls :: nat

record DrainResult =
  drTotal :: int
  drCompleted :: int
  drFailed :: int
  drErrors :: "go_error list"

definition empty_result :: DrainResult where
  "empty_result = \<lparr>drTotal = 0, drCompleted = 0, drFailed = 0, drErrors = []\<rparr>"

definition Progress :: "DrainResult \<Rightarrow> string" where
  "Progress r = itoa (drCompleted r + drFailed r) @ ''/'' @ itoa (drTotal r)"

definition IsComplete :: "DrainResult \<Rightarrow> bool" where
  "IsComplete r \<longleftrightarrow> drCompleted r + drFailed r \<ge> drTotal r"

definition HasErrors :: "DrainResult \<Rightarrow> bool" where
  "HasErrors r \<longleftrightarrow> drErrors r \<noteq> []"

definition ErrorStrings :: "(go_error \<Rightarrow> string) \<Rightarrow> DrainResult \<Rightarrow> string list" where
  "ErrorStrings ng r = map (error_text ng) (drErrors r)"

definition full_name :: "'b kube_object \<Rightarrow> string" where
  "full_name ob = omNamespace (obMeta ob) @ ''/'' @ omName (obMeta ob)"

type_synonym 'k drain_func = "string \<Rightarrow> unit kube_object \<Rightarrow> 'k \<Rightarrow> go_error option \<times> 'k"

definition drainUserResource :: "kube_meta \<Rightarrow> 'k Drainer \<Rightarrow> 'k drain_func" where
  "drainUserResource km d kind ob k =
     (case RemoveAndSyncFinalizer km (dcPatch (drClient d) kind) ob k of
        ((Some e, _), k') \<Rightarrow> (Some (WrappedError (''failed to remove finalizer from '' @ full_name ob) e), k')
      | ((None, _), k') \<Rightarrow> (None, k'))"

text \<open>\<open>wait.PollUntilContextTimeout\<close> every 500 ms, at once for the first time.\<close>

fun waitForDeletion :: "'k drain_client \<Rightarrow> string \<Rightarrow> NamespacedName \<Rightarrow> nat \<Rightarrow> 'k \<Rightarrow> go_error option \<times> 'k" where
  "waitForDeletion client kind key 0 k = (Some (PlainError ''context deadline exceeded''), k)"
| "waitForDeletion client kind key (Suc n) k =
     (case dcGet client kind key k of
        Inl e \<Rightarrow> if kube_reason_of e = Some KubeNotFound then (None, k)
          else waitForDeletion client kind key n (dcSleep client 500 k)
      | Inr _ \<Rightarrow> waitForDeletion client kind key n (dcSleep client 500 k))"

definition drainOperatorResource :: "kube_meta \<Rightarrow> 'k Drainer \<Rightarrow> 'k drain_func" where
  "drainOperatorResource km d kind ob k =
     (if drPolicy d = DrainPolicyDelete then
        (case dcDelete (drClient d) kind ob k of
           (Some e, k') \<Rightarrow>
             if IgnoreNotFound e \<noteq> None then (Some (WrappedError (''failed to delete '' @ full_name ob) e), k')
             else (None, k')
         | (None, k') \<Rightarrow>
             (case waitForDeletion (drClient d) kind (object_key ob) (drPolls d) k' of
                (Some e, k'') \<Rightarrow> (Some (WrappedError (''failed waiting for deletion of '' @ full_name ob) e), k'')
              | (None, k'') \<Rightarrow> (None, k'')))
      else if drPolicy d = DrainPolicyRetain then
        (case RemoveAndSyncFinalizer km (dcPatch (drClient d) kind) ob k of
           ((Some e, _), k') \<Rightarrow> (Some (WrappedError (''failed to remove finalizer from '' @ full_name ob) e), k')
         | ((None, _), k') \<Rightarrow> (None, k'))
      else (None, k))"

text \<open>The loop of \<open>drainList\<close>: objects without the finalizer are not counted.\<close>

fun drain_items ::
  "kube_meta \<Rightarrow> (unit kube_object \<Rightarrow> 'k \<Rightarrow> go_error option \<times> 'k) \<Rightarrow> unit kube_object list \<Rightarrow> 'k \<Rightarrow> DrainResult \<times> 'k" where
  "drain_items km drainOne [] k = (empty_result, k)"
| "drain_items km drainOne (ob # obs) k =
     (if \<not> HasFinalizer km ob then drain_items km drainOne obs k
      else
        let (err, k1) = drainOne ob k;
            (r, k2) = drain_items km drainOne obs k1
        in case err of
             Some e \<Rightarrow> (r\<lparr>drTotal := drTotal r + 1, drFailed := drFailed r + 1, drErrors := e # drErrors r\<rparr>, k2)
           | None \<Rightarrow> (r\<lparr>drTotal := drTotal r + 1, drCompleted := drCompleted r + 1\<rparr>, k2))"

definition drainList ::
  "kube_meta \<Rightarrow> 'k Drainer \<Rightarrow> string \<Rightarrow> bool \<Rightarrow> 'k drain_func \<Rightarrow> 'k \<Rightarrow> DrainResult \<times> 'k" where
  "drainList km d kind skipNoMatch drainOne k =
     (case dcList (drClient d) kind k of
        Inl e \<Rightarrow>
          if skipNoMatch \<and> kube_reason_of e = Some KubeNoMatch then (empty_result, k)
          else (empty_result\<lparr>drErrors := [WrappedError (''failed to list '' @ kind) e]\<rparr>, k)
      | Inr obs \<Rightarrow> drain_items km (drainOne kind) obs k)"

record 'k resourceHandler =
  rhName :: string
  rhSkipNoMatch :: bool
  rhDrainFunc :: "'k drain_func"

definition drain_handlers :: "kube_meta \<Rightarrow> 'k Drainer \<Rightarrow> 'k resourceHandler list" where
  "drain_handlers km d =
     [\<lparr>rhName = ''HTTPRoute'', rhSkipNoMatch = True, rhDrainFunc = drainUserResource km d\<rparr>,
      \<lparr>rhName = ''TCPRoute'', rhSkipNoMatch = True, rhDrainFunc = drainUserResource km d\<rparr>,
      \<lparr>rhName = ''TLSRoute'', rhSkipNoMatch = True, rhDrainFunc = drainUserResource km d\<rparr>,
      \<lparr>rhName = ''Ingress'', rhSkipNoMatch = False, rhDrainFunc = drainUserResource km d\<rparr>,
      \<lparr>rhName = ''Service'', rhSkipNoMatch = False, rhDrainFunc = drainUserResource km d\<rparr>,
      \<lparr>rhName = ''Gateway'', rhSkipNoMatch = True, rhDrainFunc = drainUserResource km d\<rparr>,
      \<lparr>rhName = ''CloudEndpoint'', rhSkipNoMatch = False, rhDrainFunc = drainOperatorResource km d\<rparr>,
      \<lparr>rhName = ''AgentEndpoint'', rhSkipNoMatch = False, rhDrainFunc = drainOperatorResource km d\<rparr>,
      \<lparr>rhName = ''Domain'', rhSkipNoMatch = False, rhDrainFunc = drainOperatorResource km d\<rparr>,
      \<lparr>rhName = ''IPPolicy'', rhSkipNoMatch = False, rhDrainFunc = drainOperatorResource km d\<rparr>,
      \<lparr>rhName = ''BoundEndpoint'', rhSkipNoMatch = False, rhDrainFunc = drainOperatorResource km d\<rparr>]"

definition add_results :: "DrainResult \<Rightarrow> DrainResult \<Rightarrow> DrainResult" where
  "add_results r s =
     \<lparr>drTotal = drTotal r + drTotal s, drCompleted = drCompleted r + drCompleted s,
      drFailed = drFailed r + drFailed s, drErrors = drErrors r @ drErrors s\<rparr>"

fun drain_kinds ::
  "kube_meta \<Rightarrow> 'k Drainer \<Rightarrow> 'k resourceHandler list \<Rightarrow> DrainResult \<Rightarrow> 'k \<Rightarrow> DrainResult \<times> 'k" where
  "drain_kinds km d [] result k = (result, k)"
| "drain_kinds km d (h # hs) result k =
     (case drainList km d (rhName h) (rhSkipNoMatch h) (rhDrainFunc h) k of
        (r, k') \<Rightarrow> drain_kinds km d hs (add_results result r) k')"

definition DrainAll :: "kube_meta \<Rightarrow> 'k Drainer \<Rightarrow> 'k \<Rightarrow> (DrainResult \<times> go_error option) \<times> 'k" where
  "DrainAll km d k =
     (case drain_kinds km d (drain_handlers km d) empty_result k of (r, k') \<Rightarrow> ((r, None), k'))"

section \<open>orchestrator.go\<close>

definition maxDrainErrors :: nat where "maxDrainErrors = 20"
definition maxDrainErrorLength :: nat where "maxDrainErrorLength = 1024"

datatype Outcome = OutcomeRetry | OutcomeComplete | OutcomeFailed

definition boundedDrainErrors :: "string list \<Rightarrow> string list" where
  "boundedDrainErrors errors =
     (let errors' = (if length errors > maxDrainErrors then drop (length errors - maxDrainErrors) errors else errors)
      in map (\<lambda>m. if length m > maxDrainErrorLength then take maxDrainErrorLength m else m) errors')"

definition setDrainProgress :: "(go_error \<Rightarrow> string) \<Rightarrow> DrainResult \<Rightarrow> KubernetesOperator \<Rightarrow> KubernetesOperator" where
  "setDrainProgress ng r =
     map_status (\<lambda>st. st\<lparr>ksDrain := Some
       \<lparr>kdDrainedResources = drCompleted r, kdFailedResources = drFailed r, kdTotalResources = drTotal r,
        kdErrors = boundedDrainErrors (ErrorStrings ng r)\<rparr>\<rparr>)"

text \<open>\<open>updateStatus\<close>: the answer of the API replaces the object.\<close>

definition Orchestrator_updateStatus ::
  "'k drain_client \<Rightarrow> KubernetesOperator \<Rightarrow> ('k, 'n) drain_world \<Rightarrow>
   (go_error option \<times> KubernetesOperator) \<times> ('k, 'n) drain_world" where
  "Orchestrator_updateStatus client ko w =
     (case dcUpdateOperatorStatus client (SetObservedGeneration (omGeneration (obMeta ko)) ko) (dwCluster w) of
        (res, k) \<Rightarrow> (res, w\<lparr>dwCluster := k\<rparr>))"

definition set_drain_conditions ::
  "kube_meta \<Rightarrow> bool \<Rightarrow> string \<Rightarrow> string \<Rightarrow> KubernetesOperator \<Rightarrow> KubernetesOperator" where
  "set_drain_conditions km draining reason message ko =
     set_operator_condition km ConditionReady False reason message
       (set_operator_condition km ConditionDraining draining reason message ko)"

definition HandleDrain ::
  "kube_meta \<Rightarrow> (go_error \<Rightarrow> string) \<Rightarrow> 'k drain_client \<Rightarrow> nat \<Rightarrow> KubernetesOperator \<Rightarrow> ('k, 'n) drain_world \<Rightarrow>
   ((Outcome \<times> go_error option) \<times> KubernetesOperator) \<times> ('k, 'n) drain_world" where
  "HandleDrain km ng client polls ko w0 =
     (let w = SetDraining w0
      in if IsDrainComplete km ko then (((OutcomeComplete, None), ko), w)
         else
           let k1 = dcSleep client 2000 (dwCluster w);
               d = \<lparr>drClient = client, drPolicy = GetDrainPolicy ko, drPolls = polls\<rparr>
           in case DrainAll km d k1 of
                ((result, err), k2) \<Rightarrow>
                  let w2 = w\<lparr>dwCluster := k2\<rparr>;
                      ko1 = setDrainProgress ng result ko
                  in case err of
                       Some e \<Rightarrow>
                         let ko2 = set_drain_conditions km True ReasonDrainFailed (''Drain failed: '' @ error_text ng e) ko1;
                             ((_, ko3), w3) = Orchestrator_updateStatus client ko2 w2
                         in (((OutcomeFailed, Some e), ko3), w3)
                     | None \<Rightarrow>
                         if HasErrors result then
                           let ko2 = set_drain_conditions km True ReasonDrainFailed
                                 (''Drain encountered '' @ itoa (int (length (drErrors result))) @ '' errors, will retry'') ko1;
                               ((_, ko3), w3) = Orchestrator_updateStatus client ko2 w2
                           in (((OutcomeRetry, None), ko3), w3)
                         else
                           let ko2 = set_drain_conditions km False ReasonDrainCompleted ''Drain completed successfully'' ko1
                           in case Orchestrator_updateStatus client ko2 w2 of
                                ((Some e, ko3), w3) \<Rightarrow>
                                  (((OutcomeFailed, Some (WrappedError ''failed to update drain completed status'' e)), ko3), w3)
                              | ((None, ko3), w3) \<Rightarrow> (((OutcomeComplete, None), ko3), w3))"

section \<open>The delete path of the KubernetesOperator controller\<close>

record ('k, 'n) operator_env =
  oeMeta :: kube_meta
  oeErrors :: ngrok_errors
  oeErrorText :: "go_error \<Rightarrow> string"
  oeClient :: "'k drain_client"
  oePolls :: nat
  oeNgrokDelete :: "string \<Rightarrow> 'n \<Rightarrow> go_error option \<times> 'n"

definition start_drain ::
  "('k, 'n) operator_env \<Rightarrow> KubernetesOperator \<Rightarrow> ('k, 'n) drain_world \<Rightarrow>
   (go_error option \<times> KubernetesOperator) \<times> ('k, 'n) drain_world" where
  "start_drain env ko w =
     (let km = oeMeta env
      in if \<not> kmIsStatusConditionTrue km (ksConditions (operator_status ko)) ConditionDraining \<and> \<not> IsDrainComplete km ko
         then Orchestrator_updateStatus (oeClient env)
           (setKubernetesOperatorReadyCondition km False ReasonDraining ''KubernetesOperator is being deleted''
             (setKubernetesOperatorDrainingCondition km True ReasonDrainInProgress ''Drain initiated'' ko)) w
         else ((None, ko), w))"

definition run_drain ::
  "('k, 'n) operator_env \<Rightarrow> KubernetesOperator \<Rightarrow> ('k, 'n) drain_world \<Rightarrow>
   (go_error option \<times> KubernetesOperator) \<times> ('k, 'n) drain_world" where
  "run_drain env ko w =
     (if \<not> IsDrainComplete (oeMeta env) ko then
        (case HandleDrain (oeMeta env) (oeErrorText env) (oeClient env) (oePolls env) ko w of
           (((outcome, err), ko'), w') \<Rightarrow>
             (case err of
                Some e \<Rightarrow> ((Some e, ko'), w')
              | None \<Rightarrow>
                  (case outcome of
                     OutcomeRetry \<Rightarrow> ((Some (PlainError ''drain in progress, will retry''), ko'), w')
                   | OutcomeFailed \<Rightarrow> ((Some (PlainError ''drain failed, will retry''), ko'), w')
                   | OutcomeComplete \<Rightarrow> ((None, ko'), w'))))
      else ((None, ko), w))"

definition deregister ::
  "('k, 'n) operator_env \<Rightarrow> KubernetesOperator \<Rightarrow> ('k, 'n) drain_world \<Rightarrow>
   (go_error option \<times> KubernetesOperator) \<times> ('k, 'n) drain_world" where
  "deregister env ko w =
     (let (err, n) = (if ksID (operator_status ko) \<noteq> [] then oeNgrokDelete env (ksID (operator_status ko)) (dwNgrok w)
                      else (None, dwNgrok w));
          w' = w\<lparr>dwNgrok := n\<rparr>;
          finish = Orchestrator_updateStatus (oeClient env)
            (setKubernetesOperatorRegisteredCondition (oeMeta env) False ReasonDeregistered ''Deregistered from the ngrok API''
              (map_status (\<lambda>st. st\<lparr>ksID := [], ksURI := []\<rparr>) ko)) w'
      in case err of
           Some e \<Rightarrow> if \<not> neIsNotFound (oeErrors env) e then ((Some e, ko), w') else finish
         | None \<Rightarrow> finish)"

definition KubernetesOperator_delete ::
  "('k, 'n) operator_env \<Rightarrow> KubernetesOperator \<Rightarrow> ('k, 'n) drain_world \<Rightarrow>
   (go_error option \<times> KubernetesOperator) \<times> ('k, 'n) drain_world" where
  "KubernetesOperator_delete env ko w =
     (case start_drain env ko w of
        ((Some e, ko1), w1) \<Rightarrow> ((Some e, ko1), w1)
      | ((None, ko1), w1) \<Rightarrow>
          (case run_drain env ko1 w1 of
             ((Some e, ko2), w2) \<Rightarrow> ((Some e, ko2), w2)
           | ((None, ko2), w2) \<Rightarrow> deregister env ko2 w2))"

text \<open>The controller as it is set up; registration and update are arguments.\<close>

definition operator_controller ::
  "('k, 'n) operator_env \<Rightarrow> (operator_body, ('k, 'n) drain_world) callback \<Rightarrow>
   (operator_body, ('k, 'n) drain_world) callback \<Rightarrow> (operator_body, ('k, 'n) drain_world) BaseController" where
  "operator_controller env create update =
     \<lparr>bcGet = (\<lambda>n w. dcGetOperator (oeClient env) n (dwCluster w)),
      bcPatch = (\<lambda>old new w. case dcPatchOperator (oeClient env) old new (dwCluster w) of
        (res, k) \<Rightarrow> (res, w\<lparr>dwCluster := k\<rparr>)),
      bcDrainState = None,
      bcStatusID = Some (\<lambda>ko. ksID (operator_status ko)),
      bcCreate = Some create,
      bcUpdate = Some update,
      bcDelete = Some (KubernetesOperator_delete env),
      bcErrResult = None\<rparr>"

end
