(* ===== verification/Drain_Correctness.thy ===== *)
theory Drain_Correctness
  imports Drain
begin

text \<open>
  What a drain guarantees: resources are left without the operator's finalizers when it reports
  completion, the retain policy deletes nothing, the operator is deregistered only after a
  completed drain, and the draining flag never resets.
\<close>

section \<open>The kinds of resources\<close>

definition user_kinds :: "string list" where
  "user_kinds = [''HTTPRoute'', ''TCPRoute'', ''TLSRoute'', ''Ingress'', ''Service'', ''Gateway'']"

definition operator_kinds :: "string list" where
  "operator_kinds = [''CloudEndpoint'', ''AgentEndpoint'', ''Domain'', ''IPPolicy'', ''BoundEndpoint'']"

definition drained_kinds :: "string list" where
  "drained_kinds = user_kinds @ operator_kinds"

lemma drained_kinds_of: "map rhName (drain_handlers km d) = drained_kinds"
  by (simp add: drain_handlers_def drained_kinds_def user_kinds_def operator_kinds_def)

section \<open>The interface of the Kubernetes API\<close>

text \<open>
  \<open>pending k\<close> is the set of the objects, by kind and name, that carry a finalizer of the operator.
  A list call reports all of them; a kind that is not installed has none; a patch that takes the
  finalizers away is effective and adds none elsewhere; an object that is not found has none. No call and no pause adds to
  the set: while draining, the controllers reconcile only deletions.
\<close>

locale drain_api = object_meta km for km :: kube_meta +
  fixes client :: "'k drain_client"
    and pending :: "'k \<Rightarrow> (string \<times> NamespacedName) set"
  assumes list_ok: "dcList client kind k = Inr obs \<Longrightarrow> (kind, n) \<in> pending k \<Longrightarrow>
      \<exists>ob\<in>set obs. object_key ob = n \<and> HasFinalizer km ob"
    and list_no_match: "dcList client kind k = Inl e \<Longrightarrow> kube_reason_of e = Some KubeNoMatch \<Longrightarrow> (kind, n) \<notin> pending k"
    and patch_mono: "dcPatch client kind ob ob' k = (res, k') \<Longrightarrow> \<not> HasFinalizer km ob' \<Longrightarrow> pending k' \<subseteq> pending k"
    and patch_ok: "dcPatch client kind ob ob' k = ((None, ob''), k') \<Longrightarrow> \<not> HasFinalizer km ob' \<Longrightarrow>
      object_key ob' = object_key ob \<Longrightarrow> (kind, object_key ob) \<notin> pending k'"
    and delete_mono: "dcDelete client kind ob k = (err, k') \<Longrightarrow> pending k' \<subseteq> pending k"
    and delete_missing: "dcDelete client kind ob k = (Some e, k') \<Longrightarrow> kube_reason_of e = Some KubeNotFound \<Longrightarrow>
      (kind, object_key ob) \<notin> pending k'"
    and get_missing: "dcGet client kind n k = Inl e \<Longrightarrow> kube_reason_of e = Some KubeNotFound \<Longrightarrow> (kind, n) \<notin> pending k"
    and sleep_mono: "pending (dcSleep client ms k) \<subseteq> pending k"
    and status_mono: "dcUpdateOperatorStatus client ko k = (kres, k') \<Longrightarrow> pending k' \<subseteq> pending k"
    and status_ok: "dcUpdateOperatorStatus client ko k = ((None, ko'), k') \<Longrightarrow> obBody ko' = obBody ko"
begin

lemma waitForDeletion_spec:
  "waitForDeletion client kind n polls k = (err, k') \<Longrightarrow>
   pending k' \<subseteq> pending k \<and> (err = None \<longrightarrow> (kind, n) \<notin> pending k')"
proof (induction polls arbitrary: k)
  case (Suc polls)
  show ?case
  proof (cases "\<exists>e. dcGet client kind n k = Inl e \<and> kube_reason_of e = Some KubeNotFound")
    case True
    then obtain e where e: "dcGet client kind n k = Inl e" "kube_reason_of e = Some KubeNotFound" by blast
    then have "err = None" "k' = k" using Suc.prems by simp_all
    then show ?thesis using get_missing [OF e] by simp
  next
    case False
    then have "waitForDeletion client kind n polls (dcSleep client 500 k) = (err, k')"
      using Suc.prems by (auto split: sum.splits if_splits)
    from Suc.IH [OF this] show ?thesis using sleep_mono [of 500 k] by (meson subset_trans)
  qed
qed auto

lemma remove_spec:
  assumes "RemoveAndSyncFinalizer km (dcPatch client kind) ob k = ((err, ob'), k')" "HasFinalizer km ob"
  shows "pending k' \<subseteq> pending k \<and> (err = None \<longrightarrow> (kind, object_key ob) \<notin> pending k')"
proof -
  obtain ob1 removed where r: "RemoveFinalizer km ob = (ob1, removed)" by fastforce
  note spec = RemoveFinalizer_spec [OF r]
  have p: "dcPatch client kind ob ob1 k = ((err, ob'), k')"
    using assms r spec(2) by (simp add: RemoveAndSyncFinalizer_def)
  then show ?thesis using patch_mono [OF p spec(3)] patch_ok spec(3,4) by blast
qed

lemma drainUserResource_spec:
  assumes "drainUserResource km d kind ob k = (err, k')" "HasFinalizer km ob" "drClient d = client"
  shows "pending k' \<subseteq> pending k \<and> (err = None \<longrightarrow> (kind, object_key ob) \<notin> pending k')"
proof -
  obtain e ob' k1 where r: "RemoveAndSyncFinalizer km (dcPatch client kind) ob k = ((e, ob'), k1)"
    by (metis prod.exhaust_sel)
  then show ?thesis
    using remove_spec [OF r assms(2)] assms by (auto simp: drainUserResource_def split: option.splits)
qed

lemma drainOperatorResource_spec:
  assumes "drainOperatorResource km d kind ob k = (err, k')" "HasFinalizer km ob" "drClient d = client"
    and "drPolicy d = DrainPolicyDelete \<or> drPolicy d = DrainPolicyRetain"
  shows "pending k' \<subseteq> pending k \<and> (err = None \<longrightarrow> (kind, object_key ob) \<notin> pending k')"
proof (cases "drPolicy d = DrainPolicyDelete")
  case True
  obtain e k1 where d: "dcDelete client kind ob k = (e, k1)" by fastforce
  show ?thesis
  proof (cases e)
    case None
    obtain e2 k2 where w: "waitForDeletion client kind (object_key ob) (drPolls d) k1 = (e2, k2)" by fastforce
    show ?thesis
      using assms True None d w waitForDeletion_spec [OF w] delete_mono [OF d]
      by (auto simp: drainOperatorResource_def split: option.splits)
  next
    case (Some e1)
    then show ?thesis
      using assms True d delete_mono [OF d] delete_missing [OF d [unfolded Some]]
      by (auto simp: drainOperatorResource_def IgnoreNotFound_def split: if_splits)
  qed
next
  case False
  then have "drainUserResource km d kind ob k = (err, k')"
    using assms by (auto simp: drainOperatorResource_def drainUserResource_def)
  then show ?thesis using drainUserResource_spec assms(2,3) by blast
qed

text \<open>One kind: if there was no error, nothing of it is pending any more.\<close>

lemma drain_items_spec:
  assumes one: "\<And>ob k err k'. drainOne ob k = (err, k') \<Longrightarrow> HasFinalizer km ob \<Longrightarrow>
      pending k' \<subseteq> pending k \<and> (err = None \<longrightarrow> (kind, object_key ob) \<notin> pending k')"
  shows "drain_items km drainOne obs k = (r, k') \<Longrightarrow>
    pending k' \<subseteq> pending k \<and>
    (drErrors r = [] \<longrightarrow> (\<forall>ob\<in>set obs. HasFinalizer km ob \<longrightarrow> (kind, object_key ob) \<notin> pending k'))"
proof (induction obs arbitrary: k r k')
  case (Cons ob obs)
  show ?case
  proof (cases "HasFinalizer km ob")
    case True
    obtain err k1 where d: "drainOne ob k = (err, k1)" by fastforce
    obtain r2 k2 where rest: "drain_items km drainOne obs k1 = (r2, k2)" by fastforce
    have "k' = k2" "drErrors r = [] \<longrightarrow> err = None \<and> drErrors r2 = []"
      using Cons.prems True d rest by (auto split: option.splits)
    then show ?thesis using one [OF d True] Cons.IH [OF rest] by auto
  next
    case False
    then show ?thesis using Cons by auto
  qed
qed simp

lemma drainList_spec:
  assumes one: "\<And>ob k err k'. drainOne kind ob k = (err, k') \<Longrightarrow> HasFinalizer km ob \<Longrightarrow>
      pending k' \<subseteq> pending k \<and> (err = None \<longrightarrow> (kind, object_key ob) \<notin> pending k')"
    and run: "drainList km d kind skip drainOne k = (r, k')" and "drClient d = client"
  shows "pending k' \<subseteq> pending k \<and> (drErrors r = [] \<longrightarrow> (\<forall>n. (kind, n) \<notin> pending k'))"
proof (cases "dcList client kind k")
  case (Inl e)
  then show ?thesis using assms list_no_match [OF Inl] by (auto simp: drainList_def split: if_splits)
next
  case (Inr obs)
  then have run': "drain_items km (drainOne kind) obs k = (r, k')"
    using assms by (simp add: drainList_def)
  note items = drain_items_spec [of "drainOne kind", OF one run']
  show ?thesis using items list_ok [OF Inr] by blast
qed

lemma drain_kinds_spec:
  assumes one: "\<And>h kind ob k err k'. h \<in> set hs \<Longrightarrow> rhDrainFunc h kind ob k = (err, k') \<Longrightarrow> HasFinalizer km ob \<Longrightarrow>
      pending k' \<subseteq> pending k \<and> (err = None \<longrightarrow> (kind, object_key ob) \<notin> pending k')"
    and "drClient d = client"
  shows "drain_kinds km d hs r0 k = (r, k') \<Longrightarrow>
    pending k' \<subseteq> pending k \<and>
    (drErrors r = [] \<longrightarrow> drErrors r0 = [] \<and> (\<forall>h\<in>set hs. \<forall>n. (rhName h, n) \<notin> pending k'))"
  using one
proof (induction hs arbitrary: k r0)
  case (Cons h hs)
  obtain r1 k1 where l: "drainList km d (rhName h) (rhSkipNoMatch h) (rhDrainFunc h) k = (r1, k1)" by fastforce
  have rest: "drain_kinds km d hs (add_results r0 r1) k1 = (r, k')" using Cons.prems(1) l by simp
  have first: "pending k1 \<subseteq> pending k \<and> (drErrors r1 = [] \<longrightarrow> (\<forall>n. (rhName h, n) \<notin> pending k1))"
    by (rule drainList_spec [OF _ l assms(2)]) (rule Cons.prems(2), auto)
  have "pending k' \<subseteq> pending k1 \<and>
    (drErrors r = [] \<longrightarrow> drErrors (add_results r0 r1) = [] \<and> (\<forall>h\<in>set hs. \<forall>n. (rhName h, n) \<notin> pending k'))"
    by (rule Cons.IH [OF rest]) (rule Cons.prems(2), auto)
  then show ?case using first by (auto simp: add_results_def)
qed simp

lemma DrainAll_spec:
  assumes "DrainAll km d k = ((r, err), k')" "drClient d = client"
    and "drPolicy d = DrainPolicyDelete \<or> drPolicy d = DrainPolicyRetain"
  shows "err = None \<and> pending k' \<subseteq> pending k \<and>
    (drErrors r = [] \<longrightarrow> (\<forall>kind\<in>set drained_kinds. \<forall>n. (kind, n) \<notin> pending k'))"
proof -
  have run: "drain_kinds km d (drain_handlers km d) empty_result k = (r, k')" "err = None"
    using assms(1) by (auto simp: DrainAll_def split: prod.splits)
  have one: "pending k2 \<subseteq> pending k1 \<and> (e = None \<longrightarrow> (kind, object_key ob) \<notin> pending k2)"
    if "h \<in> set (drain_handlers km d)" "rhDrainFunc h kind ob k1 = (e, k2)" "HasFinalizer km ob" for h kind ob k1 e k2
  proof -
    have "rhDrainFunc h = drainUserResource km d \<or> rhDrainFunc h = drainOperatorResource km d"
      using that(1) by (auto simp: drain_handlers_def)
    then show ?thesis
      using that drainUserResource_spec drainOperatorResource_spec assms(2,3) by metis
  qed
  have "pending k' \<subseteq> pending k \<and> (drErrors r = [] \<longrightarrow> drErrors empty_result = [] \<and>
      (\<forall>h\<in>set (drain_handlers km d). \<forall>n. (rhName h, n) \<notin> pending k'))"
    by (rule drain_kinds_spec [OF _ assms(2) run(1)]) (rule one)
  then show ?thesis using run(2) by (simp flip: drained_kinds_of [of km d])
qed

lemma updateStatus_spec:
  assumes "Orchestrator_updateStatus client ko w = ((err, ko'), w')"
  shows "pending (dwCluster w') \<subseteq> pending (dwCluster w)"
    and "err = None \<Longrightarrow> obBody ko' = obBody (SetObservedGeneration (omGeneration (obMeta ko)) ko)"
    and "dwNgrok w' = dwNgrok w" "dwDraining w' = dwDraining w"
proof -
  obtain k where k: "dcUpdateOperatorStatus client (SetObservedGeneration (omGeneration (obMeta ko)) ko) (dwCluster w) = ((err, ko'), k)"
    and w': "w' = w\<lparr>dwCluster := k\<rparr>"
    using assms by (auto simp: Orchestrator_updateStatus_def split: prod.splits)
  show "pending (dwCluster w') \<subseteq> pending (dwCluster w)" "dwNgrok w' = dwNgrok w" "dwDraining w' = dwDraining w"
    using status_mono [OF k] w' by simp_all
  show "obBody ko' = obBody (SetObservedGeneration (omGeneration (obMeta ko)) ko)" if "err = None"
    using status_ok k that by blast
qed

lemma IsDrainComplete_cong:
  "ksConditions (operator_status ko') = ksConditions (operator_status ko) \<Longrightarrow>
   IsDrainComplete km ko' = IsDrainComplete km ko"
  by (simp add: IsDrainComplete_def)

lemma drain_completed_condition:
  "IsDrainComplete km (SetObservedGeneration g (set_drain_conditions km False ReasonDrainCompleted m ko))"
  by (simp add: IsDrainComplete_def SetObservedGeneration_def set_drain_conditions_def set_operator_condition_def
      map_status_def operator_status_def Set_condition_def find_set ConditionReady_def ConditionDraining_def)

text \<open>The kinds that a drain visits do not depend on the policy.\<close>

lemma HandleDrain_complete:
  assumes run: "HandleDrain km ng client polls ko w = (((OutcomeComplete, err), ko'), w')"
    and todo: "\<not> IsDrainComplete km ko"
    and policy: "GetDrainPolicy ko = DrainPolicyDelete \<or> GetDrainPolicy ko = DrainPolicyRetain"
  shows "err = None \<and> IsDrainComplete km ko' \<and> (\<forall>kind\<in>set drained_kinds. \<forall>n. (kind, n) \<notin> pending (dwCluster w'))"
proof -
  define d where "d = \<lparr>drClient = client, drPolicy = GetDrainPolicy ko, drPolls = polls\<rparr>"
  obtain r e k2 where all: "DrainAll km d (dcSleep client 2000 (dwCluster w)) = ((r, e), k2)"
    by (metis prod.exhaust_sel)
  have none: "e = None"
    and clean: "drErrors r = [] \<longrightarrow> (\<forall>kind\<in>set drained_kinds. \<forall>n. (kind, n) \<notin> pending k2)"
    using DrainAll_spec [OF all] policy by (auto simp: d_def)
  define w2 where "w2 = w\<lparr>dwDraining := True, dwCluster := k2\<rparr>"
  define ko2 where "ko2 = set_drain_conditions km False ReasonDrainCompleted ''Drain completed successfully'' (setDrainProgress ng r ko)"
  have ok: "drErrors r = []" and fin: "Orchestrator_updateStatus client ko2 w2 = ((None, ko'), w')" and "err = None"
    using run todo all none
    by (auto simp: HandleDrain_def SetDraining_def d_def w2_def ko2_def HasErrors_def Let_def
        split: prod.splits option.splits if_splits)
  have "IsDrainComplete km ko'"
    using updateStatus_spec(2) [OF fin] drain_completed_condition IsDrainComplete_cong
    by (metis ko2_def operator_status_def)
  then show ?thesis
    using clean ok updateStatus_spec(1) [OF fin] \<open>err = None\<close> by (auto simp: w2_def)
qed

text \<open>The delete callback: the ngrok API is reached only after a completed drain.\<close>

lemma start_drain_spec:
  assumes "start_drain env ko w = ((None, ko'), w')" "oeMeta env = km" "oeClient env = client"
  shows "(IsDrainComplete km ko' \<longrightarrow> IsDrainComplete km ko) \<and> GetDrainPolicy ko' = GetDrainPolicy ko \<and> dwNgrok w' = dwNgrok w \<and>
    ksID (operator_status ko') = ksID (operator_status ko)"
proof (cases "kmIsStatusConditionTrue km (ksConditions (operator_status ko)) ConditionDraining \<or> IsDrainComplete km ko")
  case True
  then show ?thesis using assms by (auto simp: start_drain_def Let_def)
next
  case False
  define ko1 where "ko1 = setKubernetesOperatorReadyCondition km False ReasonDraining ''KubernetesOperator is being deleted''
    (setKubernetesOperatorDrainingCondition km True ReasonDrainInProgress ''Drain initiated'' ko)"
  have u: "Orchestrator_updateStatus client ko1 w = ((None, ko'), w')"
    using assms False by (auto simp: start_drain_def Let_def ko1_def)
  have "obBody ko' = obBody (SetObservedGeneration (omGeneration (obMeta ko1)) ko1)" "dwNgrok w' = dwNgrok w"
    using updateStatus_spec [OF u] by simp_all
  then show ?thesis
    by (simp add: ko1_def GetDrainPolicy_def SetObservedGeneration_def map_status_def operator_status_def
        setKubernetesOperatorReadyCondition_def setKubernetesOperatorDrainingCondition_def set_operator_condition_def
        IsDrainComplete_def Set_condition_def find_set ConditionReady_def ConditionDraining_def)
qed

lemma HandleDrain_ngrok:
  assumes "HandleDrain km ng client polls ko w = (res, w')"
  shows "dwNgrok w' = dwNgrok w"
proof -
  have "dwNgrok (snd (Orchestrator_updateStatus client x y)) = dwNgrok y" for x :: KubernetesOperator and y :: "('k, 'n) drain_world"
    by (simp add: Orchestrator_updateStatus_def split: prod.splits)
  then have u: "dwNgrok y' = dwNgrok y" if "Orchestrator_updateStatus client x y = (z, y')"
    for x z and y y' :: "('k, 'n) drain_world"
    using that by (metis snd_conv)
  show ?thesis
    using assms
    by (auto simp: HandleDrain_def SetDraining_def Let_def split: prod.splits option.splits if_splits dest!: u)
qed

lemma run_drain_spec:
  assumes "run_drain env ko w = ((err, ko'), w')" "oeMeta env = km" "oeClient env = client"
    and "GetDrainPolicy ko = DrainPolicyDelete \<or> GetDrainPolicy ko = DrainPolicyRetain"
  shows "dwNgrok w' = dwNgrok w \<and>
    (err = None \<longrightarrow> IsDrainComplete km ko' \<and>
      (IsDrainComplete km ko \<or> (\<forall>kind\<in>set drained_kinds. \<forall>n. (kind, n) \<notin> pending (dwCluster w'))))"
proof (cases "IsDrainComplete km ko")
  case True
  then show ?thesis using assms by (auto simp: run_drain_def)
next
  case False
  obtain outcome e ko1 w1 where h: "HandleDrain km (oeErrorText env) client (oePolls env) ko w = (((outcome, e), ko1), w1)"
    by (metis prod.exhaust_sel)
  have eqs: "w' = w1" "err = None \<longrightarrow> e = None \<and> outcome = OutcomeComplete \<and> ko' = ko1"
    using assms(1-3) False h by (auto simp: run_drain_def split: option.splits Outcome.splits)
  show ?thesis
    using eqs HandleDrain_ngrok [OF h] HandleDrain_complete [OF _ False assms(4)] h by blast
qed

lemma deregister_spec:
  assumes "deregister env ko w = ((err, ko'), w')" "oeMeta env = km" "oeClient env = client"
  shows "pending (dwCluster w') \<subseteq> pending (dwCluster w) \<and>
    (err = None \<longrightarrow> ksID (operator_status ko') = [] \<and> IsDrainComplete km ko' = IsDrainComplete km ko)"
proof -
  define ko1 where "ko1 = setKubernetesOperatorRegisteredCondition km False ReasonDeregistered ''Deregistered from the ngrok API''
    (map_status (\<lambda>st. st\<lparr>ksID := [], ksURI := []\<rparr>) ko)"
  obtain e n where n: "(if ksID (operator_status ko) \<noteq> [] then oeNgrokDelete env (ksID (operator_status ko)) (dwNgrok w)
      else (None, dwNgrok w)) = (e, n)" by fastforce
  consider (failed) "err \<noteq> None" "w' = w\<lparr>dwNgrok := n\<rparr>"
    | (finish) "Orchestrator_updateStatus client ko1 (w\<lparr>dwNgrok := n\<rparr>) = ((err, ko'), w')"
    using assms n by (auto simp: deregister_def Let_def ko1_def split: option.splits if_splits)
  then show ?thesis
  proof cases
    case failed
    then show ?thesis by auto
  next
    case finish
    have "IsDrainComplete km ko' = IsDrainComplete km ko" "ksID (operator_status ko') = []" if "err = None"
      using updateStatus_spec(2) [OF finish that]
      by (simp_all add: ko1_def IsDrainComplete_def setKubernetesOperatorRegisteredCondition_def set_operator_condition_def
          SetObservedGeneration_def map_status_def operator_status_def Set_condition_def find_set
          ConditionRegistered_def ConditionDraining_def)
    then show ?thesis using updateStatus_spec(1) [OF finish] by simp
  qed
qed

lemma KubernetesOperator_delete_spec:
  assumes run: "KubernetesOperator_delete env ko w = ((err, ko'), w')" and env: "oeMeta env = km" "oeClient env = client"
    and policy: "GetDrainPolicy ko = DrainPolicyDelete \<or> GetDrainPolicy ko = DrainPolicyRetain"
  shows "(dwNgrok w' \<noteq> dwNgrok w \<or> err = None \<longrightarrow>
      IsDrainComplete km ko \<or> (\<forall>kind\<in>set drained_kinds. \<forall>n. (kind, n) \<notin> pending (dwCluster w'))) \<and>
    (err = None \<longrightarrow> IsDrainComplete km ko' \<and> ksID (operator_status ko') = [])"
proof -
  obtain e1 ko1 w1 where s1: "start_drain env ko w = ((e1, ko1), w1)" by (metis prod.exhaust_sel)
  show ?thesis
  proof (cases e1)
    case (Some e)
    have "dwNgrok w1 = dwNgrok w"
      using s1 env by (auto simp: start_drain_def Let_def Orchestrator_updateStatus_def split: if_splits prod.splits)
    then show ?thesis using run s1 Some by (auto simp: KubernetesOperator_delete_def)
  next
    case None
    note st = start_drain_spec [OF s1 [unfolded None] env]
    obtain e2 ko2 w2 where s2: "run_drain env ko1 w1 = ((e2, ko2), w2)" by (metis prod.exhaust_sel)
    have p1: "GetDrainPolicy ko1 = DrainPolicyDelete \<or> GetDrainPolicy ko1 = DrainPolicyRetain" using st policy by simp
    note rd = run_drain_spec [OF s2 env p1]
    show ?thesis
    proof (cases e2)
      case (Some e)
      then show ?thesis using run s1 None s2 st rd by (auto simp: KubernetesOperator_delete_def)
    next
      case n2: None
      have d: "deregister env ko2 w2 = ((err, ko'), w')"
        using run s1 None s2 n2 by (simp add: KubernetesOperator_delete_def)
      note dr = deregister_spec [OF d env]
      show ?thesis using st rd dr n2 by blast
    qed
  qed
qed

end

section \<open>A concrete cluster\<close>

text \<open>
  Objects in a list, and one KubernetesOperator. Deleting an object with finalizers marks it; the
  other controllers finish marked objects while the drain sleeps.
\<close>

record drain_cluster =
  lcObjects :: "((string \<times> NamespacedName) \<times> unit kube_object) list"
  lcOperator :: KubernetesOperator

definition lc_get :: "drain_cluster \<Rightarrow> string \<times> NamespacedName \<Rightarrow> unit kube_object option" where
  "lc_get k key =
     (case map_of (lcObjects k) key of Some ob \<Rightarrow> if object_key ob = snd key then Some ob else None | None \<Rightarrow> None)"

definition lc_pending :: "drain_cluster \<Rightarrow> (string \<times> NamespacedName) set" where
  "lc_pending k = {key. \<exists>ob. lc_get k key = Some ob \<and> HasFinalizer list_meta ob}"

definition not_found :: go_error where
  "not_found = KubeError KubeNotFound ''not found''"

definition list_drain_client :: "drain_cluster drain_client" where
  "list_drain_client =
     \<lparr>dcList = (\<lambda>kind k. Inr (map snd (filter (\<lambda>(key, ob). fst key = kind) (lcObjects k)))),
      dcPatch = (\<lambda>kind old new k. case lc_get k (kind, object_key old) of
          None \<Rightarrow> ((Some not_found, new), k)
        | Some ob \<Rightarrow> ((None, new), k\<lparr>lcObjects :=
            if omDeleting (obMeta ob) \<and> finalizers new = [] then AList.delete (kind, object_key old) (lcObjects k)
            else AList.update (kind, object_key old) (set_finalizers (finalizers new) ob) (lcObjects k)\<rparr>)),
      dcDelete = (\<lambda>kind ob k. case lc_get k (kind, object_key ob) of
          None \<Rightarrow> (Some not_found, k)
        | Some x \<Rightarrow> (None, k\<lparr>lcObjects :=
            if finalizers x = [] then AList.delete (kind, object_key ob) (lcObjects k)
            else AList.update (kind, object_key ob) (x\<lparr>obMeta := (obMeta x)\<lparr>omDeleting := True\<rparr>\<rparr>) (lcObjects k)\<rparr>)),
      dcGet = (\<lambda>kind n k. case lc_get k (kind, n) of None \<Rightarrow> Inl not_found | Some ob \<Rightarrow> Inr ob),
      dcSleep = (\<lambda>ms k. k\<lparr>lcObjects := filter (\<lambda>(key, _). case map_of (lcObjects k) key of
          Some ob \<Rightarrow> \<not> omDeleting (obMeta ob) | None \<Rightarrow> True) (lcObjects k)\<rparr>),
      dcGetOperator = (\<lambda>n k. if object_key (lcOperator k) = n then Inr (lcOperator k) else Inl not_found),
      dcPatchOperator = (\<lambda>old new k. ((None, new), k\<lparr>lcOperator := set_finalizers (finalizers new) (lcOperator k)\<rparr>)),
      dcUpdateOperatorStatus = (\<lambda>ko k. ((None, ko), k\<lparr>lcOperator :=
        map_status (\<lambda>_. operator_status ko) (lcOperator k)\<rparr>))\<rparr>"

lemma map_of_filter_key: "map_of (filter (\<lambda>(k, _). P k) m) k = (if P k then map_of m k else None)"
  by (induction m) auto

lemma object_key_simps [simp]:
  "object_key (set_finalizers fs ob) = object_key ob"
  "object_key (ob\<lparr>obMeta := (obMeta ob)\<lparr>omDeleting := b\<rparr>\<rparr>) = object_key ob"
  "finalizers (ob\<lparr>obMeta := (obMeta ob)\<lparr>omDeleting := b\<rparr>\<rparr>) = finalizers ob"
  "finalizers (set_finalizers fs ob) = fs"
  by (simp_all add: object_key_def set_finalizers_def finalizers_def)

lemma HasFinalizer_simps [simp]:
  "HasFinalizer km (set_finalizers (finalizers ob') ob) = HasFinalizer km ob'"
  "HasFinalizer km (ob\<lparr>obMeta := (obMeta ob)\<lparr>omDeleting := b\<rparr>\<rparr>) = HasFinalizer km ob"
  by (simp_all add: HasFinalizer_def)

lemma lc_get_key: "lc_get k key = Some ob \<Longrightarrow> object_key ob = snd key"
  by (auto simp: lc_get_def split: option.splits if_splits)

lemma lc_get_update:
  "object_key ob = snd key \<Longrightarrow>
   lc_get (k\<lparr>lcObjects := AList.update key ob (lcObjects k)\<rparr>) = (lc_get k)(key \<mapsto> ob)"
  by (auto simp: lc_get_def fun_eq_iff update_conv')

lemma lc_get_delete: "lc_get (k\<lparr>lcObjects := AList.delete key (lcObjects k)\<rparr>) = (lc_get k)(key := None)"
  by (auto simp: lc_get_def fun_eq_iff AList.delete_conv')

lemma lc_get_operator [simp]: "lc_get (k\<lparr>lcOperator := ko\<rparr>) = lc_get k"
  by (simp add: lc_get_def fun_eq_iff)

lemma lc_pending_iff: "key \<in> lc_pending k \<longleftrightarrow> (\<exists>ob. lc_get k key = Some ob \<and> HasFinalizer list_meta ob)"
  by (simp add: lc_pending_def)

lemma lc_pending_update:
  assumes "object_key ob = snd key"
  shows "lc_pending (k\<lparr>lcObjects := AList.update key ob (lcObjects k)\<rparr>) =
    (if HasFinalizer list_meta ob then insert key (lc_pending k) else lc_pending k - {key})"
  using assms by (auto simp: lc_pending_iff lc_get_update split: if_splits)

lemma lc_pending_delete: "lc_pending (k\<lparr>lcObjects := AList.delete key (lcObjects k)\<rparr>) = lc_pending k - {key}"
  by (auto simp: lc_pending_iff lc_get_delete split: if_splits)

lemma lc_pending_sleep: "lc_pending (dcSleep list_drain_client ms k) \<subseteq> lc_pending k"
  by (auto simp: lc_pending_iff lc_get_def list_drain_client_def map_of_filter_key split: if_splits option.splits)

lemma lc_list_ok:
  assumes "(kind, n) \<in> lc_pending k"
  shows "\<exists>ob\<in>set (map snd (filter (\<lambda>(key, ob). fst key = kind) (lcObjects k))). object_key ob = n \<and> HasFinalizer list_meta ob"
proof -
  obtain ob where ob: "lc_get k (kind, n) = Some ob" "HasFinalizer list_meta ob"
    using assms by (auto simp: lc_pending_iff)
  then have "((kind, n), ob) \<in> set (lcObjects k)"
    by (auto simp: lc_get_def map_of_SomeD split: option.splits if_splits)
  then show ?thesis using ob lc_get_key [OF ob(1)] by force
qed

interpretation list_drain: drain_api list_meta list_drain_client lc_pending
proof
  show "\<exists>ob\<in>set obs. object_key ob = n \<and> HasFinalizer list_meta ob"
    if "dcList list_drain_client kind k = Inr obs" "(kind, n) \<in> lc_pending k" for kind k obs n
    using that lc_list_ok [of kind n k] by (simp add: list_drain_client_def)
  show "lc_pending k' \<subseteq> lc_pending k" if "dcPatch list_drain_client kind ob ob' k = (res, k')" "\<not> HasFinalizer list_meta ob'"
    for kind ob ob' k res k'
    using that lc_get_key
    by (auto simp: list_drain_client_def lc_pending_update lc_pending_delete split: option.splits if_splits)
  show "(kind, object_key ob) \<notin> lc_pending k'"
    if "dcPatch list_drain_client kind ob ob' k = ((None, ob''), k')" "\<not> HasFinalizer list_meta ob'"
      "object_key ob' = object_key ob" for kind ob ob' k ob'' k'
    using that lc_get_key
    by (auto simp: list_drain_client_def lc_pending_update lc_pending_delete split: option.splits if_splits)
  show "lc_pending k' \<subseteq> lc_pending k" if "dcDelete list_drain_client kind ob k = (err, k')" for kind ob k err k'
    using that lc_get_key
    by (auto simp: list_drain_client_def lc_pending_update lc_pending_delete lc_pending_iff split: option.splits if_splits)
qed (auto simp: list_drain_client_def not_found_def lc_pending_iff lc_pending_sleep [unfolded list_drain_client_def, simplified]
    split: option.splits)

end
