(* ===== verification/Drain_Properties.thy ===== *)
theory Drain_Properties
  imports Drain_Correctness
begin

text \<open>
  The properties of the removal of the operator, with their witnesses: a completed drain leaves no
  finalizer behind, the order of draining and deregistration, what is never deleted, the reported
  progress, the draining flag, and the case of an operator that was never registered.
\<close>

section \<open>The report\<close>

definition result_ok :: "DrainResult \<Rightarrow> bool" where
  "result_ok r \<longleftrightarrow> drTotal r = drCompleted r + drFailed r \<and> 0 \<le> drCompleted r \<and> 0 \<le> drFailed r \<and>
     drFailed r \<le> int (length (drErrors r))"

lemma result_ok_add: "result_ok r \<Longrightarrow> result_ok s \<Longrightarrow> result_ok (add_results r s)"
  by (simp add: result_ok_def add_results_def)

lemma result_ok_empty [simp]: "result_ok empty_result" "result_ok (empty_result\<lparr>drErrors := es\<rparr>)"
  by (simp_all add: result_ok_def empty_result_def)

lemma result_ok_items: "drain_items km drainOne obs k = (r, k') \<Longrightarrow> result_ok r"
proof (induction obs arbitrary: k r k')
  case (Cons ob obs)
  show ?case
  proof (cases "HasFinalizer km ob")
    case True
    obtain err k1 where d: "drainOne ob k = (err, k1)" by fastforce
    obtain r2 k2 where rest: "drain_items km drainOne obs k1 = (r2, k2)" by fastforce
    show ?thesis
      using Cons.prems True d rest Cons.IH [OF rest] by (auto simp: result_ok_def split: option.splits)
  qed (use Cons in auto)
qed (auto simp: result_ok_def empty_result_def)

lemma result_ok_list: "drainList km d kind skip f k = (r, k') \<Longrightarrow> result_ok r"
  by (auto simp: drainList_def result_ok_items split: sum.splits if_splits)

lemma result_ok_kinds: "result_ok r0 \<Longrightarrow> drain_kinds km d hs r0 k = (r, k') \<Longrightarrow> result_ok r"
proof (induction hs arbitrary: r0 k)
  case (Cons h hs)
  obtain r1 k1 where l: "drainList km d (rhName h) (rhSkipNoMatch h) (rhDrainFunc h) k = (r1, k1)" by fastforce
  show ?case
    using Cons.IH [OF result_ok_add [OF Cons.prems(1) result_ok_list [OF l]]] Cons.prems(2) l by simp
qed simp

lemma result_ok_all: "DrainAll km d k = ((r, err), k') \<Longrightarrow> result_ok r"
  using result_ok_kinds [of empty_result] by (auto simp: DrainAll_def split: prod.splits)

lemma boundedDrainErrors_bounds:
  "length (boundedDrainErrors es) \<le> 20 \<and> (\<forall>m\<in>set (boundedDrainErrors es). length m \<le> 1024)"
  by (auto simp: boundedDrainErrors_def maxDrainErrors_def maxDrainErrorLength_def Let_def)

text \<open>
  \<^bold>\<open>C38\<close>. The progress that a drain writes to the status is within the schema of the resource and
  consistent: at most 20 errors of at most 1024 characters, the last ones; every counted resource is
  either drained or failed; there are no failures without errors, so a report without errors says
  that all resources were drained.
\<close>

theorem drain_progress_within_schema:
  assumes "DrainAll km d k = ((r, err), k')"
    and "ksDrain (operator_status (setDrainProgress ng r ko)) = Some p"
  shows "length (kdErrors p) \<le> 20 \<and> (\<forall>m\<in>set (kdErrors p). length m \<le> 1024) \<and>
    kdErrors p = map (take 1024) (drop (length (drErrors r) - 20) (ErrorStrings ng r)) \<and>
    kdTotalResources p = kdDrainedResources p + kdFailedResources p \<and>
    (drErrors r = [] \<longrightarrow> kdFailedResources p = 0 \<and> kdDrainedResources p = kdTotalResources p)"
proof -
  note ok = result_ok_all [OF assms(1)]
  have p: "p = \<lparr>kdDrainedResources = drCompleted r, kdFailedResources = drFailed r, kdTotalResources = drTotal r,
      kdErrors = boundedDrainErrors (ErrorStrings ng r)\<rparr>"
    using assms(2) by (simp add: setDrainProgress_def map_status_def operator_status_def)
  have "boundedDrainErrors es = map (take 1024) (drop (length es - 20) es)" for es
    by (auto simp: boundedDrainErrors_def maxDrainErrors_def maxDrainErrorLength_def Let_def)
  then show ?thesis
    using ok boundedDrainErrors_bounds [of "ErrorStrings ng r"] p
    by (auto simp: result_ok_def ErrorStrings_def)
qed

section \<open>What is never deleted\<close>

text \<open>A drain whose deletions are replaced, as a function of the replacement.\<close>

lemma drainUser_other_delete:
  "drainUserResource km \<lparr>drClient = client\<lparr>dcDelete := f\<rparr>, drPolicy = p, drPolls = n\<rparr> =
   drainUserResource km \<lparr>drClient = client, drPolicy = p, drPolls = n\<rparr>"
  by (simp add: drainUserResource_def fun_eq_iff)

lemma waitForDeletion_other_delete:
  "waitForDeletion (client\<lparr>dcDelete := f\<rparr>) kind key n k = waitForDeletion client kind key n k"
  by (induction n arbitrary: k) (simp_all split: sum.split)

lemma drainOperator_other_delete:
  assumes "p = DrainPolicyRetain \<or> f kind = dcDelete client kind"
  shows "drainOperatorResource km \<lparr>drClient = client\<lparr>dcDelete := f\<rparr>, drPolicy = p, drPolls = n\<rparr> kind =
   drainOperatorResource km \<lparr>drClient = client, drPolicy = p, drPolls = n\<rparr> kind"
  using assms
  by (intro ext) (auto simp: drainOperatorResource_def waitForDeletion_other_delete
      DrainPolicyDelete_def DrainPolicyRetain_def split: prod.split option.split)

lemma drainList_other_delete:
  "g kind = h kind \<Longrightarrow>
   drainList km \<lparr>drClient = client\<lparr>dcDelete := f\<rparr>, drPolicy = p, drPolls = n\<rparr> kind skip g k =
   drainList km \<lparr>drClient = client, drPolicy = p, drPolls = n\<rparr> kind skip h k"
  by (simp add: drainList_def split: sum.split)

lemma DrainAll_other_delete:
  assumes "p = DrainPolicyRetain \<or> (\<forall>kind\<in>set operator_kinds. f kind = dcDelete client kind)"
  shows "DrainAll km \<lparr>drClient = client\<lparr>dcDelete := f\<rparr>, drPolicy = p, drPolls = n\<rparr> k =
   DrainAll km \<lparr>drClient = client, drPolicy = p, drPolls = n\<rparr> k"
proof -
  let ?d = "\<lparr>drClient = client\<lparr>dcDelete := f\<rparr>, drPolicy = p, drPolls = n\<rparr>"
  let ?e = "\<lparr>drClient = client, drPolicy = p, drPolls = n\<rparr>"
  have kinds: "drain_kinds km ?d hs r k = drain_kinds km ?e hs' r k"
    if "list_all2 (\<lambda>h h'. rhName h = rhName h' \<and> rhSkipNoMatch h = rhSkipNoMatch h' \<and>
      rhDrainFunc h (rhName h) = rhDrainFunc h' (rhName h)) hs hs'" for hs hs' r k
    using that
  proof (induction arbitrary: r k rule: list_all2_induct)
    case (Cons h hs h' hs')
    have eq: "rhDrainFunc h (rhName h) = rhDrainFunc h' (rhName h)" "rhName h' = rhName h"
      "rhSkipNoMatch h' = rhSkipNoMatch h" using Cons.hyps(1) by metis+
    have "drainList km ?d (rhName h) (rhSkipNoMatch h) (rhDrainFunc h) k =
        drainList km ?e (rhName h') (rhSkipNoMatch h') (rhDrainFunc h') k"
      unfolding eq(2,3) by (rule drainList_other_delete, rule eq(1))
    then show ?case using Cons.IH by (simp split: prod.split)
  qed simp
  have "list_all2 (\<lambda>h h'. rhName h = rhName h' \<and> rhSkipNoMatch h = rhSkipNoMatch h' \<and>
      rhDrainFunc h (rhName h) = rhDrainFunc h' (rhName h)) (drain_handlers km ?d) (drain_handlers km ?e)"
    using assms drainOperator_other_delete [of p f _ client km n]
    by (simp add: drain_handlers_def drainUser_other_delete operator_kinds_def) metis
  then show ?thesis using kinds by (simp add: DrainAll_def)
qed

text \<open>
  \<^bold>\<open>C37\<close>. Under the retain policy a drain never issues a delete, and under no policy does it delete a
  route, an ingress, a service or a gateway of the user: its result does not depend on what deleting
  does, except for the operator's own kinds under the delete policy.
\<close>

theorem drain_deletes_only_own_kinds:
  assumes "GetDrainPolicy ko = DrainPolicyRetain \<or> (\<forall>kind\<in>set operator_kinds. f kind = dcDelete client kind)"
  shows "HandleDrain km ng (client\<lparr>dcDelete := f\<rparr>) polls ko w = HandleDrain km ng client polls ko w"
proof -
  have u: "Orchestrator_updateStatus (client\<lparr>dcDelete := f\<rparr>) = (Orchestrator_updateStatus client ::
      KubernetesOperator \<Rightarrow> ('a, 'b) drain_world \<Rightarrow> _)"
    by (simp add: Orchestrator_updateStatus_def fun_eq_iff)
  show ?thesis
    unfolding HandleDrain_def Let_def u by (simp add: DrainAll_other_delete [OF assms])
qed

section \<open>Completion and order\<close>



section \<open>An operator that was never registered\<close>

text \<open>
  Deleting an operator without an ID does not drain. The base controller skips the delete
  callback: the reconcile takes the finalizers off the operator in one patch and leaves the draining
  flag, the ngrok API and all other objects as they are.
\<close>

theorem unregistered_operator_not_drained:
  assumes "object_meta km"
    and "dcGetOperator (oeClient env) req (dwCluster w) = Inr ko"
    and "IsDelete ko" "HasFinalizer km ko" "ksID (operator_status ko) = []"
    and "Reconcile km ne (operator_controller env create update) req w = (res, w')"
  shows "\<exists>ko' k. \<not> HasFinalizer km ko' \<and> k = snd (dcPatchOperator (oeClient env) ko ko' (dwCluster w)) \<and>
    w' = w\<lparr>dwCluster := k\<rparr>"
proof -
  obtain ko' removed where r: "RemoveFinalizer km ko = (ko', removed)" by fastforce
  note spec = object_meta.RemoveFinalizer_spec [OF assms(1) r]
  obtain p k where p: "dcPatchOperator (oeClient env) ko ko' (dwCluster w) = (p, k)" by fastforce
  obtain e x where px: "p = (e, x)" by fastforce
  have "Reconcile km ne (operator_controller env create update) req w =
      remove_finalizer km (operator_controller env create update) ko w"
    using assms(2-5) by (simp add: Reconcile_def operator_controller_def IsDraining_def IsUpsert_def IsDelete_def
        reconcile_delete_def)
  then have "w' = w\<lparr>dwCluster := k\<rparr>"
    using assms(4,6) r spec(2) p px
    by (auto simp: remove_finalizer_def RemoveAndSyncFinalizer_def operator_controller_def split: option.splits)
  then show ?thesis using spec(3) p by auto
qed

section \<open>The draining flag\<close>

text \<open>
  Steps of the process and its surroundings: the cluster and the ngrok API change in any way, some
  controller asks whether the operator is draining, or the drain sets the flag.
\<close>

inductive drain_state_step ::
  "kube_meta \<Rightarrow> 'k drain_client \<Rightarrow> NamespacedName \<Rightarrow> ('k, 'n) drain_world \<Rightarrow> ('k, 'n) drain_world \<Rightarrow> bool"
  for km client op where
  surroundings: "drain_state_step km client op w (w\<lparr>dwCluster := k, dwNgrok := n\<rparr>)"
| ask: "StateChecker_IsDraining km client op w = (answer, w') \<Longrightarrow> drain_state_step km client op w w'"
| start: "drain_state_step km client op w (SetDraining w)"

inductive_simps drain_state_step_iff: "drain_state_step km client op w w'"

lemma draining_step: "drain_state_step km client op w w' \<Longrightarrow> dwDraining w \<Longrightarrow> dwDraining w'"
  by (auto simp: drain_state_step_iff StateChecker_IsDraining_def SetDraining_def)

text \<open>
  Draining is monotonic: once a check has answered that the operator is draining, every later
  check answers the same, whatever happens in between, even if the KubernetesOperator resource has
  disappeared or can no longer be read.
\<close>

theorem draining_never_resets:
  assumes "StateChecker_IsDraining km client op w = (True, w1)"
    and "(drain_state_step km client op)\<^sup>*\<^sup>* w1 w2"
  shows "StateChecker_IsDraining km client op w2 = (True, w2)"
proof -
  have "dwDraining w1"
    using assms(1) by (auto simp: StateChecker_IsDraining_def Let_def split: if_splits sum.splits)
  with assms(2) have "dwDraining w2" by (induction rule: rtranclp_induct) (auto dest: draining_step)
  then show ?thesis by (simp add: StateChecker_IsDraining_def)
qed

section \<open>Witnesses\<close>

definition witness_meta :: "string \<Rightarrow> bool \<Rightarrow> ObjectMeta" where
  "witness_meta name deleting =
     \<lparr>omName = name, omNamespace = ''ns'', omGeneration = 1, omFinalizers = [LegacyFinalizerName], omDeleting = deleting\<rparr>"

definition witness_operator :: "string \<Rightarrow> KubernetesOperator" where
  "witness_operator ident =
     \<lparr>obMeta = witness_meta ''op'' True,
      obBody = \<lparr>kbDrainPolicy = Some DrainPolicyDelete,
        kbStatus = \<lparr>ksObservedGeneration = 0, ksID = ident, ksURI = [], ksConditions = [], ksEnabledFeatures = [],
          ksBindingsIngressEndpoint = [], ksDrain = None\<rparr>\<rparr>\<rparr>"

definition witness_object :: "string \<Rightarrow> unit kube_object" where
  "witness_object name = \<lparr>obMeta = witness_meta name False, obBody = ()\<rparr>"

definition witness_world :: "string \<Rightarrow> (drain_cluster, string list) drain_world" where
  "witness_world ident =
     \<lparr>dwDraining = False,
      dwCluster = \<lparr>lcObjects = map (\<lambda>(kind, name). ((kind, \<lparr>nnName = name, nnNamespace = ''ns''\<rparr>), witness_object name))
        [(''Ingress'', ''a''), (''Domain'', ''b'')], lcOperator = witness_operator ident\<rparr>,
      dwNgrok = [ident]\<rparr>"

definition witness_env :: "(drain_cluster, string list) operator_env" where
  "witness_env =
     \<lparr>oeMeta = list_meta, oeErrors = \<lparr>neIsNotFound = (\<lambda>_. False), neIsErrorCode = (\<lambda>_ _. False)\<rparr>,
      oeErrorText = (\<lambda>_. []), oeClient = list_drain_client, oePolls = 3, oeNgrokDelete = (\<lambda>ident n. (None, removeAll ident n))\<rparr>"



theorem drain_deletes_only_own_kinds_witness:
  "HandleDrain list_meta (\<lambda>_. []) (list_drain_client\<lparr>dcDelete := (\<lambda>_ _ k. (None, k\<lparr>lcObjects := []\<rparr>))\<rparr>) 3
      ((witness_operator [])\<lparr>obBody := (obBody (witness_operator []))\<lparr>kbDrainPolicy := None\<rparr>\<rparr>) (witness_world []) =
   HandleDrain list_meta (\<lambda>_. []) list_drain_client 3
      ((witness_operator [])\<lparr>obBody := (obBody (witness_operator []))\<lparr>kbDrainPolicy := None\<rparr>\<rparr>) (witness_world [])"
  by (rule drain_deletes_only_own_kinds) (simp add: GetDrainPolicy_def)

theorem drain_progress_within_schema_witness:
  "\<exists>r k' p. DrainAll list_meta \<lparr>drClient = list_drain_client, drPolicy = DrainPolicyRetain, drPolls = 3\<rparr>
      (dwCluster (witness_world [])) = ((r, None), k') \<and>
    ksDrain (operator_status (setDrainProgress (\<lambda>_. []) r (witness_operator []))) = Some p \<and>
    kdTotalResources p = 2 \<and> kdDrainedResources p + kdFailedResources p = 2"
proof -
  let ?d = "\<lparr>drClient = list_drain_client, drPolicy = DrainPolicyRetain, drPolls = 3\<rparr>"
  obtain r e k' where run: "DrainAll list_meta ?d (dwCluster (witness_world [])) = ((r, e), k')"
    by (metis prod.exhaust_sel)
  have "drTotal (fst (fst (DrainAll list_meta ?d (dwCluster (witness_world []))))) = 2"
    "snd (fst (DrainAll list_meta ?d (dwCluster (witness_world [])))) = None"
    by code_simp+
  then have r: "drTotal r = 2" "e = None" using run by simp_all
  obtain p where p: "ksDrain (operator_status (setDrainProgress (\<lambda>_. []) r (witness_operator []))) = Some p"
    "kdTotalResources p = 2"
    by (simp add: setDrainProgress_def map_status_def operator_status_def r)
  from drain_progress_within_schema [OF run p(1)] run p r show ?thesis by auto
qed

theorem unregistered_operator_not_drained_witness:
  "\<exists>ko' k. \<not> HasFinalizer list_meta ko' \<and>
    k = snd (dcPatchOperator list_drain_client (witness_operator []) ko' (dwCluster (witness_world []))) \<and>
    snd (Reconcile list_meta (oeErrors witness_env) (operator_controller witness_env
        (\<lambda>ko w. ((None, ko), w)) (\<lambda>ko w. ((None, ko), w))) \<lparr>nnName = ''op'', nnNamespace = ''ns''\<rparr> (witness_world [])) =
      (witness_world [])\<lparr>dwCluster := k\<rparr>"
proof -
  have env: "oeClient witness_env = list_drain_client" by (simp add: witness_env_def)
  have *: "dcGetOperator (oeClient witness_env) \<lparr>nnName = ''op'', nnNamespace = ''ns''\<rparr> (dwCluster (witness_world [])) =
      Inr (witness_operator [])"
    by (simp add: env list_drain_client_def witness_world_def object_key_def witness_operator_def witness_meta_def)
  have facts: "IsDelete (witness_operator [])" "HasFinalizer list_meta (witness_operator [])"
    "ksID (operator_status (witness_operator [])) = []"
    by (simp_all add: IsDelete_def HasFinalizer_def list_meta_def operator_status_def finalizers_def
        witness_operator_def witness_meta_def)
  show ?thesis
    using unregistered_operator_not_drained [OF list_meta.object_meta_axioms * facts prod.collapse [symmetric]]
    unfolding env by blast
qed

theorem draining_never_resets_witness:
  "StateChecker_IsDraining list_meta list_drain_client \<lparr>nnName = ''gone'', nnNamespace = []\<rparr>
     ((SetDraining (witness_world []))\<lparr>dwCluster := (dwCluster (witness_world []))\<lparr>lcObjects := []\<rparr>, dwNgrok := [''x'']\<rparr>) =
   (True, (SetDraining (witness_world []))\<lparr>dwCluster := (dwCluster (witness_world []))\<lparr>lcObjects := []\<rparr>, dwNgrok := [''x'']\<rparr>)"
  by (rule draining_never_resets [of _ _ _ "SetDraining (witness_world [])" "SetDraining (witness_world [])"])
     (auto simp: StateChecker_IsDraining_def SetDraining_def intro: drain_state_step.surroundings)

end
