(* ===== verification/Controller_Labels.thy ===== *)
theory Controller_Labels
  imports Ngrok_Prelude
begin

text \<open>
  \<^bold>\<open>internal/controller/labels\<close>: the labels that say which operator instance manages a resource, under
  the prefix \<open>ngrok.com/\<close> and the legacy prefix \<open>k8s.ngrok.com/\<close>.

  The labels of an object are an association list; the empty list is the nil map, which is what the
  API machinery gives an object without labels. Reading a missing key of a Go map gives the empty
  string (\<open>label_get\<close>). A label selector asks for the keys to be present (\<open>matches_labels\<close>).
\<close>

type_synonym labels = "(string \<times> string) list"

definition label_get :: "labels \<Rightarrow> string \<Rightarrow> string" where
  "label_get m k = (case map_of m k of None \<Rightarrow> [] | Some v \<Rightarrow> v)"

definition label_prefix :: string where
  "label_prefix = ''ngrok.com/''"

definition legacyPrefix :: string where
  "legacyPrefix = ''k8s.ngrok.com/''"

definition ControllerName :: string where
  "ControllerName = label_prefix @ ''controller-name''"

definition ControllerNamespace :: string where
  "ControllerNamespace = label_prefix @ ''controller-namespace''"

definition LegacyControllerName :: string where
  "LegacyControllerName = legacyPrefix @ ''controller-name''"

definition LegacyControllerNamespace :: string where
  "LegacyControllerNamespace = legacyPrefix @ ''controller-namespace''"

lemmas label_keys = ControllerName_def ControllerNamespace_def LegacyControllerName_def LegacyControllerNamespace_def
  label_prefix_def legacyPrefix_def

definition ControllerLabels :: "string \<Rightarrow> string \<Rightarrow> labels" where
  "ControllerLabels controllerNamespace controllerName =
     [(ControllerNamespace, controllerNamespace), (ControllerName, controllerName),
      (LegacyControllerNamespace, controllerNamespace), (LegacyControllerName, controllerName)]"

definition HasControllerLabels :: "labels \<Rightarrow> string \<Rightarrow> string \<Rightarrow> bool" where
  "HasControllerLabels ls controllerNamespace controllerName =
     (if ls = [] then False
      else if label_get ls ControllerNamespace = controllerNamespace \<and> label_get ls ControllerName = controllerName then True
      else if label_get ls LegacyControllerNamespace = controllerNamespace \<and>
        label_get ls LegacyControllerName = controllerName then True
      else False)"

text \<open>Each of the four labels is written when it differs; the flag says whether any was.\<close>

definition ensure_label :: "string \<Rightarrow> string \<Rightarrow> labels \<times> bool \<Rightarrow> labels \<times> bool" where
  "ensure_label k v r =
     (let (ls, modified) = r in if label_get ls k \<noteq> v then (AList.update k v ls, True) else (ls, modified))"

definition EnsureControllerLabels :: "labels \<Rightarrow> string \<Rightarrow> string \<Rightarrow> labels \<times> bool" where
  "EnsureControllerLabels ls controllerNamespace controllerName =
     ensure_label LegacyControllerName controllerName
      (ensure_label LegacyControllerNamespace controllerNamespace
       (ensure_label ControllerName controllerName
        (ensure_label ControllerNamespace controllerNamespace (ls, False))))"

definition ControllerLabelSelector :: "string \<Rightarrow> string \<Rightarrow> labels" where
  "ControllerLabelSelector controllerNamespace controllerName =
     [(ControllerNamespace, controllerNamespace), (ControllerName, controllerName)]"

definition LegacyControllerLabelSelector :: "string \<Rightarrow> string \<Rightarrow> labels" where
  "LegacyControllerLabelSelector controllerNamespace controllerName =
     [(LegacyControllerNamespace, controllerNamespace), (LegacyControllerName, controllerName)]"

definition ControllerLabelSelectors :: "string \<Rightarrow> string \<Rightarrow> labels list" where
  "ControllerLabelSelectors controllerNamespace controllerName =
     [ControllerLabelSelector controllerNamespace controllerName,
      LegacyControllerLabelSelector controllerNamespace controllerName]"

record ControllerLabelValues =
  clvNamespace :: string
  clvName :: string

definition Labels :: "ControllerLabelValues \<Rightarrow> labels" where
  "Labels c = ControllerLabels (clvNamespace c) (clvName c)"

definition HasLabels :: "ControllerLabelValues \<Rightarrow> labels \<Rightarrow> bool" where
  "HasLabels c ls = HasControllerLabels ls (clvNamespace c) (clvName c)"

definition EnsureLabels :: "ControllerLabelValues \<Rightarrow> labels \<Rightarrow> labels \<times> bool" where
  "EnsureLabels c ls = EnsureControllerLabels ls (clvNamespace c) (clvName c)"

definition Selectors :: "ControllerLabelValues \<Rightarrow> labels list" where
  "Selectors c = ControllerLabelSelectors (clvNamespace c) (clvName c)"

definition ValidateControllerLabelValues :: "ControllerLabelValues \<Rightarrow> string option" where
  "ValidateControllerLabelValues clv =
     (if clvName clv = [] \<or> clvNamespace clv = [] then Some ''both controller name and namespace are required'' else None)"

text \<open>What a \<open>MatchingLabels\<close> selector selects.\<close>

definition matches_labels :: "labels \<Rightarrow> labels \<Rightarrow> bool" where
  "matches_labels sel ls \<longleftrightarrow> list_all (\<lambda>(k, v). map_of ls k = Some v) sel"

section \<open>Reading and writing agree\<close>

lemma label_get_Some: "v \<noteq> [] \<Longrightarrow> label_get ls k = v \<longleftrightarrow> map_of ls k = Some v"
  by (auto simp: label_get_def split: option.splits)

lemma label_get_update: "label_get (AList.update k v ls) k' = (if k' = k then v else label_get ls k')"
  by (simp add: label_get_def update_conv')

lemma ensure_label_get:
  "label_get (fst (ensure_label k v r)) k' = (if k' = k then v else label_get (fst r) k')"
  by (auto simp: ensure_label_def label_get_update split: prod.splits)

lemma ensure_label_flag: "snd (ensure_label k v r) \<longleftrightarrow> snd r \<or> label_get (fst r) k \<noteq> v"
  by (auto simp: ensure_label_def split: prod.splits)

lemma ensure_label_same: "label_get (fst r) k = v \<Longrightarrow> ensure_label k v r = r"
  by (auto simp: ensure_label_def split: prod.splits)

definition controller_keys :: "string list" where
  "controller_keys = [ControllerNamespace, ControllerName, LegacyControllerNamespace, LegacyControllerName]"

lemma EnsureControllerLabels_get:
  "label_get (fst (EnsureControllerLabels ls ns n)) k =
     (if k = ControllerNamespace \<or> k = LegacyControllerNamespace then ns
      else if k = ControllerName \<or> k = LegacyControllerName then n else label_get ls k)"
  by (auto simp: EnsureControllerLabels_def ensure_label_get label_keys)

lemma EnsureControllerLabels_flag:
  "snd (EnsureControllerLabels ls ns n) \<longleftrightarrow>
     label_get ls ControllerNamespace \<noteq> ns \<or> label_get ls ControllerName \<noteq> n \<or>
     label_get ls LegacyControllerNamespace \<noteq> ns \<or> label_get ls LegacyControllerName \<noteq> n"
  by (auto simp: EnsureControllerLabels_def ensure_label_get ensure_label_flag label_keys)

lemma EnsureControllerLabels_stable:
  "EnsureControllerLabels (fst (EnsureControllerLabels ls ns n)) ns n = (fst (EnsureControllerLabels ls ns n), False)"
proof -
  let ?ls = "fst (EnsureControllerLabels ls ns n)"
  have "label_get ?ls ControllerNamespace = ns" "label_get ?ls ControllerName = n"
    "label_get ?ls LegacyControllerNamespace = ns" "label_get ?ls LegacyControllerName = n"
    by (simp_all add: EnsureControllerLabels_get label_keys)
  then show ?thesis by (simp add: EnsureControllerLabels_def [of ?ls] ensure_label_same)
qed

lemma Has_iff_selected:
  assumes "ns \<noteq> []" "n \<noteq> []"
  shows "HasControllerLabels ls ns n \<longleftrightarrow> (\<exists>sel \<in> set (ControllerLabelSelectors ns n). matches_labels sel ls)"
  using assms
  by (auto simp: HasControllerLabels_def ControllerLabelSelectors_def ControllerLabelSelector_def
      LegacyControllerLabelSelector_def matches_labels_def label_get_Some)

lemma EnsureLabels_has: "ValidateControllerLabelValues clv = None \<Longrightarrow> HasLabels clv (fst (EnsureLabels clv ls))"
proof -
  let ?r = "fst (EnsureControllerLabels ls (clvNamespace clv) (clvName clv))"
  assume "ValidateControllerLabelValues clv = None"
  then have "label_get ?r ControllerName \<noteq> []"
    by (auto simp: ValidateControllerLabelValues_def EnsureControllerLabels_get label_keys split: if_splits)
  then have "?r \<noteq> []" by (auto simp: label_get_def)
  then show ?thesis
    by (simp add: HasLabels_def EnsureLabels_def HasControllerLabels_def EnsureControllerLabels_get) (simp add: label_keys)
qed

text \<open>
  Labelling is complete and stable: for a valid identity, after \<open>EnsureControllerLabels\<close> an
  object is found by both selectors and recognised by \<open>HasControllerLabels\<close>, no label other than the
  four is touched, and a second call changes nothing; and an object is recognised exactly if one of
  the selectors that the driver lists with selects it.
\<close>

theorem controller_labels_complete:
  assumes "ValidateControllerLabelValues clv = None"
  shows "(let (ls', modified) = EnsureLabels clv ls in
      HasLabels clv ls' \<and> (\<forall>sel \<in> set (Selectors clv). matches_labels sel ls') \<and>
      (\<forall>k. k \<notin> set controller_keys \<longrightarrow> map_of ls' k = map_of ls k) \<and>
      (\<not> modified \<longrightarrow> ls' = ls) \<and> EnsureLabels clv ls' = (ls', False)) \<and>
    (HasLabels clv ls \<longleftrightarrow> (\<exists>sel \<in> set (Selectors clv). matches_labels sel ls))"
proof -
  let ?ns = "clvNamespace clv" and ?n = "clvName clv"
  let ?r = "EnsureControllerLabels ls ?ns ?n"
  have ne: "?ns \<noteq> []" "?n \<noteq> []" using assms by (auto simp: ValidateControllerLabelValues_def split: if_splits)
  have get: "map_of (fst ?r) ControllerNamespace = Some ?ns" "map_of (fst ?r) ControllerName = Some ?n"
    "map_of (fst ?r) LegacyControllerNamespace = Some ?ns" "map_of (fst ?r) LegacyControllerName = Some ?n"
    using ne by (simp_all flip: label_get_Some add: EnsureControllerLabels_get) (simp_all add: label_keys)
  have sel: "\<forall>sel \<in> set (ControllerLabelSelectors ?ns ?n). matches_labels sel (fst ?r)"
    by (simp add: ControllerLabelSelectors_def ControllerLabelSelector_def LegacyControllerLabelSelector_def
        matches_labels_def get)
  have has: "HasControllerLabels (fst ?r) ?ns ?n"
    using sel Has_iff_selected [OF ne, of "fst ?r"] by (auto simp: ControllerLabelSelectors_def)
  have step: "map_of (fst (ensure_label k v r)) k' = (if k' = k \<and> label_get (fst r) k \<noteq> v then Some v else map_of (fst r) k')"
    for k v r k' by (auto simp: ensure_label_def update_conv' split: prod.splits)
  have other: "map_of (fst ?r) k = map_of ls k" if "k \<notin> set controller_keys" for k
    using that by (simp add: EnsureControllerLabels_def step controller_keys_def)
  have same: "fst ?r = ls" if "\<not> snd ?r"
    using that by (auto simp: EnsureControllerLabels_flag) (simp add: EnsureControllerLabels_def ensure_label_same)
  show ?thesis
    using sel has other same EnsureControllerLabels_stable [of ls ?ns ?n] Has_iff_selected [OF ne, of ls]
    by (cases ?r) (simp add: EnsureLabels_def HasLabels_def Selectors_def)
qed

theorem controller_labels_complete_witness:
  "let clv = \<lparr>clvNamespace = ''ngrok-operator'', clvName = ''operator''\<rparr>;
       ls' = fst (EnsureLabels clv [(''app'', ''web'')]) in
   HasLabels clv ls' \<and> map_of ls' ''app'' = Some ''web'' \<and> \<not> HasLabels clv [(''app'', ''web'')]"
proof -
  let ?clv = "\<lparr>clvNamespace = ''ngrok-operator'', clvName = ''operator''\<rparr>"
  have "ValidateControllerLabelValues ?clv = None" by (simp add: ValidateControllerLabelValues_def)
  note c = controller_labels_complete [OF this, of "[(''app'', ''web'')]", unfolded Let_def case_prod_beta]
  have "''app'' \<notin> set controller_keys" by (simp add: controller_keys_def label_keys)
  moreover have "\<not> HasLabels ?clv [(''app'', ''web'')]"
    by (simp add: HasLabels_def HasControllerLabels_def label_get_def label_keys)
  ultimately show ?thesis using c by (simp add: Let_def)
qed

end
