(* ===== verification/Driver_Endpoints.thy ===== *)
theory Driver_Endpoints
  imports Controller_Labels Base_Controller
begin

text \<open>
  How the driver brings the endpoints of the cluster in line with the translation:
  \<^bold>\<open>pkg/managerdriver/endpoints.go\<close> and \<^bold>\<open>controller_label_list.go\<close>.

  The two kinds of endpoints are treated alike, so the operations are polymorphic in the type of the
  specification. The Kubernetes client is an argument (\<open>managed_api\<close>) on a state of the world; the
  interface \<open>managed_client\<close> states the documented behaviour of its calls. A delete may remove an
  object or, when it carries finalizers, only mark it. \<open>reflect.DeepEqual\<close> on specifications is an
  argument too (\<open>deq\<close>): it also tells apart two renderings of the same JSON document. Go ranges over
  a map in any order (\<open>order\<close>). Log messages are left out.
\<close>

section \<open>Objects and the client\<close>

record 'sp managed =
  mgName :: string
  mgNamespace :: string
  mgUID :: string
  mgLabels :: labels
  mgAnnotations :: labels
  mgOwnerKinds :: "string list"
  mgDeleting :: bool
  mgSpec :: 'sp
  mgStatusID :: string

definition mg_key :: "'sp managed \<Rightarrow> NamespacedName" where
  "mg_key ob = \<lparr>nnName = mgName ob, nnNamespace = mgNamespace ob\<rparr>"

record ('sp, 'k) managed_api =
  eaList :: "labels \<Rightarrow> 'k \<Rightarrow> go_error + 'sp managed list"
  eaUpdate :: "'sp managed \<Rightarrow> 'k \<Rightarrow> go_error option \<times> 'k"
  eaDelete :: "'sp managed \<Rightarrow> 'k \<Rightarrow> go_error option \<times> 'k"
  eaCreate :: "'sp managed \<Rightarrow> 'k \<Rightarrow> go_error option \<times> 'k"

text \<open>\<open>reflect.DeepEqual\<close> on two string maps.\<close>

definition labels_equal :: "labels \<Rightarrow> labels \<Rightarrow> bool" where
  "labels_equal a b = list_all (\<lambda>(k, v). map_of a k = map_of b k) (a @ b)"

lemma labels_equal_iff: "labels_equal a b \<longleftrightarrow> map_of a = map_of b"
proof
  assume e: "labels_equal a b"
  have eq: "map_of a k = map_of b k" if "k \<in> fst ` set (a @ b)" for k
    using e that unfolding labels_equal_def list_all_iff by auto
  show "map_of a = map_of b"
  proof
    fix k show "map_of a k = map_of b k"
      using eq [of k] by (cases "k \<in> fst ` set (a @ b)") (simp_all add: image_Un, metis map_of_eq_None_iff)
  qed
qed (auto simp: labels_equal_def list_all_iff)

section \<open>Listing\<close>

fun dedupe_uid :: "string list \<Rightarrow> 'sp managed list \<Rightarrow> 'sp managed list \<Rightarrow> string list \<times> 'sp managed list" where
  "dedupe_uid seen out [] = (seen, out)"
| "dedupe_uid seen out (item # items) =
     (if mgUID item \<in> set seen then dedupe_uid seen out items
      else dedupe_uid (mgUID item # seen) (out @ [item]) items)"

fun list_selectors ::
  "('sp, 'k) managed_api \<Rightarrow> labels list \<Rightarrow> string list \<Rightarrow> 'sp managed list \<Rightarrow> 'k \<Rightarrow> go_error + 'sp managed list" where
  "list_selectors api [] seen out k = Inr out"
| "list_selectors api (sel # sels) seen out k =
     (case eaList api sel k of
        Inl e \<Rightarrow> Inl e
      | Inr items \<Rightarrow> (let (seen', out') = dedupe_uid seen out items in list_selectors api sels seen' out' k))"

definition listEndpointsForController ::
  "ControllerLabelValues \<Rightarrow> ('sp, 'k) managed_api \<Rightarrow> 'k \<Rightarrow> go_error + 'sp managed list" where
  "listEndpointsForController clv api k = list_selectors api (Selectors clv) [] [] k"

section \<open>Applying\<close>

definition shouldBeSkippedInApply :: "ControllerLabelValues \<Rightarrow> 'sp managed \<Rightarrow> bool" where
  "shouldBeSkippedInApply clv ob =
     (if \<not> HasLabels clv (mgLabels ob) then True else list_ex (\<lambda>kind. kind = ''Service'') (mgOwnerKinds ob))"

definition refresh :: "('sp \<Rightarrow> 'sp \<Rightarrow> bool) \<Rightarrow> 'sp managed \<Rightarrow> 'sp managed \<Rightarrow> 'sp managed \<times> bool" where
  "refresh deq desired cur =
     (let (c1, n1) = (if \<not> deq (mgSpec desired) (mgSpec cur) then (cur\<lparr>mgSpec := mgSpec desired\<rparr>, True) else (cur, False));
          (c2, n2) = (if \<not> labels_equal (mgLabels desired) (mgLabels c1)
                      then (c1\<lparr>mgLabels := mgLabels desired\<rparr>, True) else (c1, n1));
          (c3, n3) = (if \<not> labels_equal (mgAnnotations desired) (mgAnnotations c2)
                      then (c2\<lparr>mgAnnotations := mgAnnotations desired\<rparr>, True) else (c2, n2))
      in (c3, n3))"

type_synonym 'sp desired = "(NamespacedName \<times> 'sp managed) list"

fun apply_current ::
  "ControllerLabelValues \<Rightarrow> ('sp \<Rightarrow> 'sp \<Rightarrow> bool) \<Rightarrow> ('sp, 'k) managed_api \<Rightarrow> 'sp managed list \<Rightarrow> 'sp desired \<Rightarrow> 'k \<Rightarrow>
   (go_error option \<times> 'sp desired) \<times> 'k" where
  "apply_current clv deq api [] desired k = ((None, desired), k)"
| "apply_current clv deq api (cur # current) desired k =
     (if shouldBeSkippedInApply clv cur then apply_current clv deq api current desired k
      else
        case map_of desired (mg_key cur) of
          Some des \<Rightarrow>
            (let (cur', needsUpdate) = refresh deq des cur
             in if needsUpdate
                then (case eaUpdate api cur' k of
                        (Some e, k') \<Rightarrow> ((Some e, desired), k')
                      | (None, k') \<Rightarrow> apply_current clv deq api current (AList.delete (mg_key cur) desired) k')
                else apply_current clv deq api current (AList.delete (mg_key cur) desired) k)
        | None \<Rightarrow>
            (case eaDelete api cur k of
               (Some e, k') \<Rightarrow>
                 (if IgnoreNotFound e \<noteq> None then ((Some e, desired), k')
                  else apply_current clv deq api current desired k')
             | (None, k') \<Rightarrow> apply_current clv deq api current desired k'))"

fun create_desired :: "('sp, 'k) managed_api \<Rightarrow> 'sp managed list \<Rightarrow> 'k \<Rightarrow> go_error option \<times> 'k" where
  "create_desired api [] k = (None, k)"
| "create_desired api (ob # obs) k =
     (case eaCreate api ob k of
        (Some e, k') \<Rightarrow> (Some e, k')
      | (None, k') \<Rightarrow> create_desired api obs k')"

definition applyEndpoints ::
  "ControllerLabelValues \<Rightarrow> ('sp \<Rightarrow> 'sp \<Rightarrow> bool) \<Rightarrow> ('sp desired \<Rightarrow> 'sp desired) \<Rightarrow> ('sp, 'k) managed_api \<Rightarrow>
   'sp desired \<Rightarrow> 'sp managed list \<Rightarrow> 'k \<Rightarrow> go_error option \<times> 'k" where
  "applyEndpoints clv deq order api desired current k =
     (case apply_current clv deq api current desired k of
        ((Some e, _), k') \<Rightarrow> (Some e, k')
      | ((None, desired'), k') \<Rightarrow> create_desired api (map snd (order desired')) k')"

section \<open>What the client promises\<close>

definition meets :: "'sp managed \<Rightarrow> 'sp managed \<Rightarrow> bool" where
  "meets des ob \<longleftrightarrow> mgSpec ob = mgSpec des \<and> map_of (mgLabels ob) = map_of (mgLabels des) \<and>
     map_of (mgAnnotations ob) = map_of (mgAnnotations des)"

definition gone :: "'sp managed option \<Rightarrow> bool" where
  "gone ob = (case ob of None \<Rightarrow> True | Some o' \<Rightarrow> mgDeleting o')"

text \<open>The objects that an apply may touch.\<close>

definition managed_keys :: "ControllerLabelValues \<Rightarrow> 'sp managed list \<Rightarrow> NamespacedName set" where
  "managed_keys clv current = mg_key ` {cur \<in> set current. \<not> shouldBeSkippedInApply clv cur}"

lemma managed_keys_Cons:
  "managed_keys clv (cur # current) =
     (if shouldBeSkippedInApply clv cur then managed_keys clv current else insert (mg_key cur) (managed_keys clv current))"
  by (auto simp: managed_keys_def)

text \<open>A map whose keys are the keys of its objects, as the translation builds it.\<close>

definition keyed :: "'sp desired \<Rightarrow> bool" where
  "keyed desired \<longleftrightarrow> distinct (map fst desired) \<and> list_all (\<lambda>(key, ob). mg_key ob = key) desired"

lemma keyed_delete: "keyed ds \<Longrightarrow> keyed (AList.delete key ds)"
  by (auto simp: keyed_def list_all_iff AList.delete_eq distinct_map_filter)

lemma apply_current_keyed:
  "keyed ds \<Longrightarrow> apply_current clv deq api cs ds k = ((err, ds'), k') \<Longrightarrow> keyed ds'"
proof (induction clv deq api cs ds k rule: apply_current.induct)
  case (2 clv deq api cur current desired k)
  then show ?case
    by (auto simp: Let_def keyed_delete split: if_splits option.splits prod.splits)
qed simp

lemma dedupe_uid_spec:
  assumes "dedupe_uid seen out items = (seen', out')" "set seen = mgUID ` set out" "distinct (map mgUID out)"
    and "inj_on mgUID (set out \<union> set items)"
  shows "set seen' = mgUID ` set out'" "distinct (map mgUID out')" "set out' = set out \<union> set items"
proof -
  have "set seen' = mgUID ` set out' \<and> distinct (map mgUID out') \<and> set out' = set out \<union> set items"
    using assms
  proof (induction seen out items rule: dedupe_uid.induct)
    case (2 seen out item items)
    show ?case
    proof (cases "mgUID item \<in> set seen")
      case True
      then obtain x where "x \<in> set out" "mgUID x = mgUID item" using 2(4) by auto
      then have "item \<in> set out" using 2(6) inj_onD [of mgUID _ x item] by auto
      moreover have "dedupe_uid seen out items = (seen', out')" using 2(3) True by simp
      ultimately show ?thesis using 2(1) [OF True _ 2(4,5)] 2(6) by (simp add: insert_absorb)
    next
      case False
      have "dedupe_uid (mgUID item # seen) (out @ [item]) items = (seen', out')" using 2(3) False by simp
      moreover have "distinct (map mgUID (out @ [item]))" "set (mgUID item # seen) = mgUID ` set (out @ [item])"
        using 2(4,5) False by auto
      moreover have "set (out @ [item]) \<union> set items = set out \<union> set (item # items)" by auto
      ultimately show ?thesis using 2(2) [OF False] 2(6) by metis
    qed
  qed simp
  then show "set seen' = mgUID ` set out'" "distinct (map mgUID out')" "set out' = set out \<union> set items" by simp_all
qed

locale managed_client =
  fixes api :: "('sp, 'k) managed_api" and objs :: "'k \<Rightarrow> NamespacedName \<Rightarrow> 'sp managed option"
  assumes key_of: "objs k key = Some ob \<Longrightarrow> mg_key ob = key"
    and uid_of: "objs k a = Some x \<Longrightarrow> objs k b = Some y \<Longrightarrow> mgUID x = mgUID y \<Longrightarrow> a = b"
    and listed: "eaList api sel k = Inr obs \<Longrightarrow>
      set obs = {ob. objs k (mg_key ob) = Some ob \<and> matches_labels sel (mgLabels ob)}"
    and updated: "eaUpdate api ob k = (None, k') \<Longrightarrow>
      \<exists>old. objs k (mg_key ob) = Some old \<and> objs k' = (objs k)(mg_key ob \<mapsto>
        old\<lparr>mgLabels := mgLabels ob, mgAnnotations := mgAnnotations ob, mgOwnerKinds := mgOwnerKinds ob, mgSpec := mgSpec ob\<rparr>)"
    and deleted: "eaDelete api ob k = (None, k') \<Longrightarrow>
      \<exists>left. objs k' = (objs k)(mg_key ob := left) \<and> gone left"
    and not_found: "eaDelete api ob k = (Some e, k') \<Longrightarrow> IgnoreNotFound e = None \<Longrightarrow>
      objs k' = objs k \<and> objs k (mg_key ob) = None"
    and created: "eaCreate api ob k = (None, k') \<Longrightarrow> objs k (mg_key ob) = None \<and>
      (\<exists>new. objs k' = (objs k)(mg_key ob \<mapsto> new) \<and> meets ob new)"
begin

lemma updates_elsewhere: "eaUpdate api ob k = (None, k') \<Longrightarrow> key \<noteq> mg_key ob \<Longrightarrow> objs k' key = objs k key"
  using updated [of ob k k'] by auto

lemma create_desired_spec:
  assumes "create_desired api obs k = (None, k')" "distinct (map mg_key obs)"
  shows "(\<forall>ob \<in> set obs. objs k (mg_key ob) = None \<and> (\<exists>new. objs k' (mg_key ob) = Some new \<and> meets ob new)) \<and>
    (\<forall>key. key \<notin> mg_key ` set obs \<longrightarrow> objs k' key = objs k key)"
  using assms
proof (induction obs arbitrary: k)
  case (Cons ob obs)
  from Cons.prems(1) obtain k1 where c: "eaCreate api ob k = (None, k1)" and r: "create_desired api obs k1 = (None, k')"
    by (auto split: prod.splits option.splits)
  from created [OF c] obtain new where n: "objs k (mg_key ob) = None" "objs k1 = (objs k)(mg_key ob \<mapsto> new)" "meets ob new"
    by blast
  note ih = Cons.IH [OF r]
  have d: "distinct (map mg_key obs)" "mg_key ob \<notin> mg_key ` set obs" using Cons.prems(2) by auto
  have old: "objs k1 key = objs k key" if "key \<noteq> mg_key ob" for key using n(2) that by simp
  have "objs k (mg_key x) = None \<and> (\<exists>new. objs k' (mg_key x) = Some new \<and> meets x new)" if "x \<in> set (ob # obs)" for x
  proof (cases "x = ob")
    case True
    then show ?thesis using ih [OF d(1)] d(2) n by simp
  next
    case False
    then have x: "x \<in> set obs" using that by simp
    then have "mg_key x \<noteq> mg_key ob" using d(2) by (metis image_eqI)
    then have "objs k1 (mg_key x) = objs k (mg_key x)" by (rule old)
    then show ?thesis using ih [OF d(1)] x by (metis (no_types))
  qed
  moreover have "objs k' key = objs k key" if "key \<notin> mg_key ` set (ob # obs)" for key
    using ih [OF d(1)] old that by simp
  ultimately show ?case by blast
qed simp

lemma refresh_spec:
  assumes "refresh deq des cur = (ob, needsUpdate)" "\<And>x y. deq x y \<Longrightarrow> x = y"
  shows "mg_key ob = mg_key cur" "meets des ob" "\<not> needsUpdate \<Longrightarrow> ob = cur" "mgOwnerKinds ob = mgOwnerKinds cur"
proof -
  show "mg_key ob = mg_key cur" "meets des ob" "\<not> needsUpdate \<Longrightarrow> ob = cur" "mgOwnerKinds ob = mgOwnerKinds cur"
    using assms(1) assms(2) [of "mgSpec des" "mgSpec cur"]
    by (auto simp: refresh_def mg_key_def meets_def labels_equal_iff split: if_splits)
qed

lemma apply_current_spec:
  assumes "apply_current clv deq api current desired k = ((None, desired'), k')"
    and deq: "\<And>x y. deq x y \<Longrightarrow> x = y"
    and "distinct (map mg_key current)" "\<forall>cur \<in> set current. objs k (mg_key cur) = Some cur"
  shows "(\<forall>key. map_of desired' key = (if key \<in> managed_keys clv current then None else map_of desired key)) \<and>
    (\<forall>key \<in> managed_keys clv current. case map_of desired key of
        Some des \<Rightarrow> \<exists>ob. objs k' key = Some ob \<and> meets des ob | None \<Rightarrow> gone (objs k' key)) \<and>
    (\<forall>key. key \<notin> managed_keys clv current \<longrightarrow> objs k' key = objs k key)"
  using assms(1,3,4)
proof (induction current arbitrary: desired k)
  case Nil
  then show ?case by (simp add: managed_keys_def)
next
  case (Cons cur current)
  show ?case
  proof (cases "shouldBeSkippedInApply clv cur")
    case True
    with Cons.IH [of desired k] Cons.prems show ?thesis by (simp add: managed_keys_Cons)
  next
    case False
    let ?key = "mg_key cur"
    have d: "distinct (map mg_key current)" "?key \<notin> managed_keys clv current"
      using Cons.prems(2) by (auto simp: managed_keys_def)
    have main: ?thesis
      if rest: "apply_current clv deq api current desired1 k1 = ((None, desired'), k')"
        and elsewhere: "\<And>key. key \<noteq> ?key \<Longrightarrow> objs k1 key = objs k key"
        and des1: "\<And>key. map_of desired1 key = (if key = ?key then None else map_of desired key)"
        and here: "case map_of desired ?key of Some des \<Rightarrow> \<exists>ob. objs k1 ?key = Some ob \<and> meets des ob | None \<Rightarrow> gone (objs k1 ?key)"
      for desired1 k1
    proof -
      have "\<forall>c \<in> set current. objs k1 (mg_key c) = Some c"
        using Cons.prems(2,3) elsewhere by (metis distinct.simps(2) image_eqI list.set_intros(2) list.simps(9) set_map)
      note ih = Cons.IH [OF rest d(1) this]
      have "\<forall>key \<in> managed_keys clv current. map_of desired1 key = map_of desired key" using des1 d(2) by auto
      moreover have e: "objs k' ?key = objs k1 ?key" using ih d(2) by blast
      have "case map_of desired ?key of Some des \<Rightarrow> \<exists>ob. objs k' ?key = Some ob \<and> meets des ob
          | None \<Rightarrow> gone (objs k' ?key)" unfolding e by (rule here)
      ultimately show ?thesis using ih d(2) elsewhere des1 False by (simp add: managed_keys_Cons)
    qed
    show ?thesis
    proof (cases "map_of desired ?key")
      case None
      have nd: "map_of desired key = (if key = ?key then None else map_of desired key)" for key using None by simp
      obtain err k1 where del: "eaDelete api cur k = (err, k1)" by fastforce
      have rest: "apply_current clv deq api current desired k1 = ((None, desired'), k')"
        using Cons.prems(1) False None del by (auto split: option.splits if_splits)
      show ?thesis
      proof (cases err)
        case None
        with deleted [of cur k k1] del obtain left where l: "objs k1 = (objs k)(?key := left)" "gone left" by auto
        show ?thesis by (rule main [OF rest _ nd]) (use l \<open>map_of desired ?key = None\<close> in auto)
      next
        case (Some e)
        have "IgnoreNotFound e = None" using Cons.prems(1) False None del Some by (auto split: if_splits)
        with not_found [of cur k e k1] del Some have "objs k1 = objs k" "objs k ?key = None" by auto
        with Cons.prems(3) show ?thesis by simp
      qed
    next
      case (Some des)
      obtain ob needs where rf: "refresh deq des cur = (ob, needs)" by fastforce
      note r = refresh_spec [OF rf deq]
      have d1: "map_of (AList.delete ?key desired) key = (if key = ?key then None else map_of desired key)" for key
        by (simp add: delete_conv')
      show ?thesis
      proof (cases needs)
        case True
        obtain err k1 where up: "eaUpdate api ob k = (err, k1)" by fastforce
        have err: "err = None" and rest: "apply_current clv deq api current (AList.delete ?key desired) k1 = ((None, desired'), k')"
          using Cons.prems(1) False Some rf up True by (auto split: option.splits)
        from updated [of ob k k1] up err obtain old where
          o': "objs k1 = (objs k)(mg_key ob \<mapsto> old\<lparr>mgLabels := mgLabels ob, mgAnnotations := mgAnnotations ob,
            mgOwnerKinds := mgOwnerKinds ob, mgSpec := mgSpec ob\<rparr>)" by auto
        show ?thesis by (rule main [OF rest _ d1]) (use o' r Some in \<open>auto simp: meets_def\<close>)
      next
        case False
        have rest: "apply_current clv deq api current (AList.delete ?key desired) k = ((None, desired'), k')"
          using Cons.prems(1) \<open>\<not> shouldBeSkippedInApply clv cur\<close> Some rf False by simp
        show ?thesis by (rule main [OF rest _ d1]) (use r False Some Cons.prems(3) in auto)
      qed
    qed
  qed
qed

lemma applyEndpoints_spec:
  assumes ok: "applyEndpoints clv deq order api desired current k = (None, k')"
    and deq: "\<And>x y. deq x y \<Longrightarrow> x = y" and order: "\<And>xs. mset (order xs) = mset xs"
    and current: "distinct (map mg_key current)" "\<forall>cur \<in> set current. objs k (mg_key cur) = Some cur"
    and keyed: "keyed desired"
  shows "case map_of desired key of
      Some des \<Rightarrow> (\<exists>ob. objs k' key = Some ob \<and> meets des ob) \<and> (key \<in> managed_keys clv current \<or> objs k key = None)
    | None \<Rightarrow> if key \<in> managed_keys clv current then gone (objs k' key) else objs k' key = objs k key"
proof -
  obtain desired1 k1 where first: "apply_current clv deq api current desired k = ((None, desired1), k1)"
    and create: "create_desired api (map snd (order desired1)) k1 = (None, k')"
    using ok by (auto simp: applyEndpoints_def split: prod.splits option.splits)
  note f = apply_current_spec [OF first deq current]
  have sub: "keyed desired1" by (rule apply_current_keyed [OF keyed first])
  have ks: "map mg_key (map snd (order desired1)) = map fst (order desired1)"
    using sub mset_eq_setD [OF order, of desired1] by (auto simp: keyed_def list_all_iff)
  have "mset (map fst (order desired1)) = mset (map fst desired1)" by (simp add: order)
  then have dist: "distinct (map mg_key (map snd (order desired1)))"
    using sub mset_eq_imp_distinct_iff unfolding ks keyed_def by blast
  note c = create_desired_spec [OF create dist]
  have keys: "mg_key ` set (map snd (order desired1)) = fst ` set desired1"
    using ks mset_eq_setD [OF order, of desired1] by (metis list.set_map)
  show ?thesis
  proof (cases "map_of desired1 key")
    case None
    then have "key \<notin> fst ` set desired1" by (simp add: map_of_eq_None_iff)
    then have "objs k' key = objs k1 key" using c keys by auto
    moreover have "key \<in> managed_keys clv current \<or> map_of desired key = None" using f None by (metis option.distinct(1))
    ultimately show ?thesis using f by (cases "key \<in> managed_keys clv current") (auto split: option.splits)
  next
    case (Some des)
    then have "des \<in> set (map snd (order desired1))" "mg_key des = key"
      using sub mset_eq_setD [OF order, of desired1] by (auto dest!: map_of_SomeD simp: keyed_def list_all_iff intro!: rev_image_eqI [of "(key, des)"])
    then have "objs k1 key = None" "\<exists>new. objs k' key = Some new \<and> meets des new" using c by auto
    moreover have "key \<notin> managed_keys clv current" "map_of desired key = Some des" using f Some by (auto split: if_splits)
    ultimately show ?thesis using f by auto
  qed
qed

lemma uid_inj: "\<forall>ob \<in> S. objs k (mg_key ob) = Some ob \<Longrightarrow> inj_on mgUID S"
proof (rule inj_onI)
  fix x y assume "\<forall>ob \<in> S. objs k (mg_key ob) = Some ob" "x \<in> S" "y \<in> S" "mgUID x = mgUID y"
  with uid_of [of k "mg_key x" x "mg_key y" y] show "x = y" by (metis option.inject)
qed

lemma list_selectors_spec:
  assumes "list_selectors api sels seen out k = Inr obs"
    and "set seen = mgUID ` set out" "distinct (map mgUID out)" "\<forall>ob \<in> set out. objs k (mg_key ob) = Some ob"
  shows "set obs = set out \<union> {ob. objs k (mg_key ob) = Some ob \<and> (\<exists>sel \<in> set sels. matches_labels sel (mgLabels ob))} \<and>
    distinct (map mgUID obs)"
  using assms
proof (induction sels arbitrary: seen out)
  case (Cons sel sels)
  from Cons.prems(1) obtain items where items: "eaList api sel k = Inr items" by (auto split: sum.splits)
  obtain seen1 out1 where d: "dedupe_uid seen out items = (seen1, out1)" by fastforce
  have r: "list_selectors api sels seen1 out1 k = Inr obs" using Cons.prems(1) items d by simp
  note l = listed [OF items]
  have "\<forall>ob \<in> set items. objs k (mg_key ob) = Some ob" using l by auto
  then have s1: "set seen1 = mgUID ` set out1" "distinct (map mgUID out1)" "set out1 = set out \<union> set items"
    using dedupe_uid_spec [OF d Cons.prems(2,3)] uid_inj Cons.prems(4) by (metis Un_iff)+
  have "\<forall>ob \<in> set out1. objs k (mg_key ob) = Some ob" using s1(3) Cons.prems(4) l by auto
  from Cons.IH [OF r s1(1,2) this] show ?case using s1(3) l by auto
qed simp

lemma listEndpoints_spec:
  assumes "listEndpointsForController clv api k = Inr obs" "ValidateControllerLabelValues clv = None"
  shows "set obs = {ob. objs k (mg_key ob) = Some ob \<and> HasLabels clv (mgLabels ob)}" "distinct (map mg_key obs)"
proof -
  have ne: "clvNamespace clv \<noteq> []" "clvName clv \<noteq> []"
    using assms(2) by (auto simp: ValidateControllerLabelValues_def split: if_splits)
  note l = list_selectors_spec [OF assms(1) [unfolded listEndpointsForController_def]]
  then show eq: "set obs = {ob. objs k (mg_key ob) = Some ob \<and> HasLabels clv (mgLabels ob)}"
    by (simp add: HasLabels_def Selectors_def Has_iff_selected [OF ne])
  have d: "distinct (map mgUID obs)" using l by simp
  have "inj_on mg_key (set obs)" by (rule inj_onI) (use eq in auto)
  then show "distinct (map mg_key obs)" using d by (simp add: distinct_map)
qed

text \<open>Listing and then applying: what the cluster holds afterwards, key by key.\<close>

lemma list_apply_spec:
  assumes list: "listEndpointsForController clv api k0 = Inr current" "ValidateControllerLabelValues clv = None"
    and same: "objs k0 = objs k"
    and apply_ok: "applyEndpoints clv deq order api desired current k = (None, k')"
      "\<And>x y. deq x y \<Longrightarrow> x = y" "\<And>xs. mset (order xs) = mset xs"
    and keyed: "keyed desired"
  shows "case map_of desired key of
      Some des \<Rightarrow> (\<exists>ob. objs k' key = Some ob \<and> meets des ob) \<and>
        (case objs k key of None \<Rightarrow> True | Some old \<Rightarrow> \<not> shouldBeSkippedInApply clv old)
    | None \<Rightarrow> (case objs k key of
        None \<Rightarrow> objs k' key = None
      | Some old \<Rightarrow> if shouldBeSkippedInApply clv old then objs k' key = Some old else gone (objs k' key))"
proof -
  note l = listEndpoints_spec [OF list, unfolded same]
  have cur: "\<forall>cur \<in> set current. objs k (mg_key cur) = Some cur" using l(1) by auto
  have mk: "key \<in> managed_keys clv current \<longleftrightarrow> (\<exists>old. objs k key = Some old \<and> \<not> shouldBeSkippedInApply clv old)"
  proof
    assume "\<exists>old. objs k key = Some old \<and> \<not> shouldBeSkippedInApply clv old"
    then obtain old where old: "objs k key = Some old" "\<not> shouldBeSkippedInApply clv old" by blast
    then have "old \<in> set current" using key_of [OF old(1)] l(1) by (simp add: shouldBeSkippedInApply_def split: if_splits)
    with old key_of [OF old(1)] show "key \<in> managed_keys clv current" unfolding managed_keys_def by blast
  qed (use cur in \<open>auto simp: managed_keys_def\<close>)
  show ?thesis
    using applyEndpoints_spec [OF apply_ok l(2) cur keyed, of key] mk
    by (auto split: option.splits if_splits)
qed

end

section \<open>A reference cluster\<close>

text \<open>
  The interface can be met: a cluster as a list of objects, of which the first with a given key
  counts, and whose UID is made from its key.
\<close>

definition uid_for :: "NamespacedName \<Rightarrow> string" where
  "uid_for key = nat_dec (length (nnName key)) @ ''/'' @ nnName key @ nnNamespace key"

definition managed_objs :: "'sp managed list \<Rightarrow> NamespacedName \<Rightarrow> 'sp managed option" where
  "managed_objs k key = map_option (\<lambda>ob. ob\<lparr>mgUID := uid_for key\<rparr>) (find (\<lambda>ob. mg_key ob = key) k)"

definition managed_list_api :: "('sp, 'sp managed list) managed_api" where
  "managed_list_api =
     \<lparr>eaList = (\<lambda>sel k. Inr (filter (\<lambda>ob. matches_labels sel (mgLabels ob))
        (List.map_filter (managed_objs k) (remdups (map mg_key k))))),
      eaUpdate = (\<lambda>ob k. case managed_objs k (mg_key ob) of
          None \<Rightarrow> (Some (KubeError KubeNotFound ''not found''), k)
        | Some old \<Rightarrow> (None, old\<lparr>mgLabels := mgLabels ob, mgAnnotations := mgAnnotations ob,
            mgOwnerKinds := mgOwnerKinds ob, mgSpec := mgSpec ob\<rparr> # k)),
      eaDelete = (\<lambda>ob k. case managed_objs k (mg_key ob) of
          None \<Rightarrow> (Some (KubeError KubeNotFound ''not found''), k)
        | Some old \<Rightarrow> (None, filter (\<lambda>x. mg_key x \<noteq> mg_key ob) k)),
      eaCreate = (\<lambda>ob k. case managed_objs k (mg_key ob) of
          None \<Rightarrow> (None, ob # k)
        | Some old \<Rightarrow> (Some (KubeError KubeOther ''already exists''), k))\<rparr>"

lemma uid_for_inj: "uid_for a = uid_for b \<Longrightarrow> a = b"
proof -
  assume e: "uid_for a = uid_for b"
  have slash: "\<not> is_digit (CHR ''/'')" by (simp add: is_digit_def)
  have tw: "takeWhile is_digit (nat_dec n @ ''/'' @ s) = nat_dec n" for n s
    using nat_dec_digits slash by (simp add: takeWhile_append)
  have "nat_dec (length (nnName a)) = nat_dec (length (nnName b))"
    using e tw unfolding uid_for_def by metis
  then have "length (nnName a) = length (nnName b)" by simp
  with e show "a = b" by (simp add: uid_for_def)
qed

lemma find_SomeD: "find P xs = Some x \<Longrightarrow> P x \<and> x \<in> set xs"
  by (induction xs) (auto split: if_splits)

lemma mg_key_update [simp]:
  "mg_key (ob\<lparr>mgUID := u\<rparr>) = mg_key ob" "mg_key (ob\<lparr>mgLabels := ls\<rparr>) = mg_key ob"
  "mg_key (ob\<lparr>mgAnnotations := an\<rparr>) = mg_key ob" "mg_key (ob\<lparr>mgOwnerKinds := os\<rparr>) = mg_key ob"
  "mg_key (ob\<lparr>mgSpec := sp\<rparr>) = mg_key ob"
  by (simp_all add: mg_key_def)

lemma managed_objs_key: "managed_objs k key = Some ob \<Longrightarrow> mg_key ob = key \<and> mgUID ob = uid_for key"
  by (auto simp: managed_objs_def dest: find_SomeD)

lemma managed_objs_Cons: "managed_objs (ob # k) = (managed_objs k)(mg_key ob \<mapsto> ob\<lparr>mgUID := uid_for (mg_key ob)\<rparr>)"
  by (auto simp: managed_objs_def)

lemma find_filter_key:
  "find (\<lambda>x. mg_key x = key) (filter (\<lambda>x. mg_key x \<noteq> d) k) = (if key = d then None else find (\<lambda>x. mg_key x = key) k)"
  by (induction k) auto

lemma managed_objs_filter: "managed_objs (filter (\<lambda>x. mg_key x \<noteq> d) k) = (managed_objs k)(d := None)"
  by (auto simp: managed_objs_def find_filter_key)

lemma managed_objs_present: "managed_objs k key \<noteq> None \<longleftrightarrow> key \<in> mg_key ` set k"
  by (auto simp: managed_objs_def find_None_iff)

lemma set_map_filter_iff: "set (List.map_filter f xs) = {y. \<exists>x \<in> set xs. f x = Some y}"
  by (induction xs) (auto simp: List.map_filter_simps split: option.splits)

interpretation list_cluster: managed_client "managed_list_api :: ('sp, 'sp managed list) managed_api" managed_objs
proof
  fix k :: "'sp managed list" and a b x y
  show "mg_key x = a" if "managed_objs k a = Some x" using managed_objs_key [OF that] by simp
  show "a = b" if "managed_objs k a = Some x" "managed_objs k b = Some y" "mgUID x = mgUID y"
    using managed_objs_key [OF that(1)] managed_objs_key [OF that(2)] that(3) uid_for_inj by metis
next
  fix sel and k obs :: "'sp managed list" assume "eaList managed_list_api sel k = Inr obs"
  then have obs: "obs = filter (\<lambda>ob. matches_labels sel (mgLabels ob)) (List.map_filter (managed_objs k) (remdups (map mg_key k)))"
    by (simp add: managed_list_api_def)
  have "ob \<in> set (List.map_filter (managed_objs k) (remdups (map mg_key k))) \<longleftrightarrow> managed_objs k (mg_key ob) = Some ob" for ob
  proof
    assume "ob \<in> set (List.map_filter (managed_objs k) (remdups (map mg_key k)))"
    then obtain key where key: "managed_objs k key = Some ob" by (auto simp: set_map_filter_iff)
    with managed_objs_key [OF key] show "managed_objs k (mg_key ob) = Some ob" by simp
  next
    assume l: "managed_objs k (mg_key ob) = Some ob"
    then have "mg_key ob \<in> mg_key ` set k" using managed_objs_present [of k "mg_key ob"] by simp
    with l show "ob \<in> set (List.map_filter (managed_objs k) (remdups (map mg_key k)))"
      unfolding set_map_filter_iff by force
  qed
  then show "set obs = {ob. managed_objs k (mg_key ob) = Some ob \<and> matches_labels sel (mgLabels ob)}" by (auto simp: obs)
next
  fix ob and k k' :: "'sp managed list"
  {
    assume "eaUpdate managed_list_api ob k = (None, k')"
    then obtain old where old: "managed_objs k (mg_key ob) = Some old"
      and k': "k' = old\<lparr>mgLabels := mgLabels ob, mgAnnotations := mgAnnotations ob,
            mgOwnerKinds := mgOwnerKinds ob, mgSpec := mgSpec ob\<rparr> # k"
      by (auto simp: managed_list_api_def split: option.splits)
    then show "\<exists>old. managed_objs k (mg_key ob) = Some old \<and> managed_objs k' = (managed_objs k)(mg_key ob \<mapsto>
        old\<lparr>mgLabels := mgLabels ob, mgAnnotations := mgAnnotations ob, mgOwnerKinds := mgOwnerKinds ob, mgSpec := mgSpec ob\<rparr>)"
      using managed_objs_key [OF old] by (cases old) (auto simp: managed_objs_Cons mg_key_def)
  }
  show "\<exists>left. managed_objs k' = (managed_objs k)(mg_key ob := left) \<and> gone left" if "eaDelete managed_list_api ob k = (None, k')"
    using that by (intro exI [of _ None]) (auto simp: managed_list_api_def managed_objs_filter gone_def split: option.splits)
  show "managed_objs k' = managed_objs k \<and> managed_objs k (mg_key ob) = None"
    if "eaDelete managed_list_api ob k = (Some e, k')" "IgnoreNotFound e = None" for e
    using that by (auto simp: managed_list_api_def split: option.splits)
  show "managed_objs k (mg_key ob) = None \<and> (\<exists>new. managed_objs k' = (managed_objs k)(mg_key ob \<mapsto> new) \<and> meets ob new)"
    if "eaCreate managed_list_api ob k = (None, k')"
    using that by (auto simp: managed_list_api_def managed_objs_Cons meets_def split: option.splits)
qed

end
