(* ===== verification/Domain_Objects.thy ===== *)
theory Domain_Objects
  imports Endpoint_Translator Controller_Labels Base_Controller
begin

text \<open>
  The Domain resource of \<^bold>\<open>api/ingress/v1alpha1/domain_types.go\<close>, the internal-domain test of
  \<^bold>\<open>internal/util/endpoints.go\<close>, and \<open>ReconcileStatus\<close> of \<^bold>\<open>internal/controller/base_controller.go\<close>,
  which every resource controller ends with.

  A slice of resolving targets is a list of their values; where the code tells a nil slice from an
  empty one, it is a \<open>ptr\<close>. The labels of a Domain are part of its body. Times are the texts they are
  formatted to.
\<close>

section \<open>The resource\<close>

record DomainSpec =
  dsDescription :: string
  dsMetadata :: "crd_metadata ptr"
  dsDomain :: string
  dsResolvesTo :: "string list ptr"
  dsResolvesToLegacy :: "string list ptr"
  dsReclaimPolicy :: string

record ProvisioningJob =
  pjErrorCode :: string
  pjMessage :: string
  pjStartedAt :: "string ptr"
  pjRetriesAt :: "string ptr"

record CertificateManagementStatus =
  cmRenewsAt :: "string ptr"
  cmProvisioningJob :: "ProvisioningJob ptr"

record CertificateManagementPolicy =
  cmpAuthority :: string
  cmpPrivateKeyType :: string

record DomainStatus =
  dstObservedGeneration :: int
  dstID :: string
  dstDomain :: string
  dstResolvesTo :: "string list"
  dstCNAMETarget :: "string ptr"
  dstACMEChallengeCNAMETarget :: "string ptr"
  dstCertificate :: "string ptr"
  dstCertificateManagementPolicy :: "CertificateManagementPolicy ptr"
  dstCertificateManagementStatus :: "CertificateManagementStatus ptr"
  dstConditions :: "Condition list"

record domain_body =
  dmLabels :: labels
  dmSpec :: DomainSpec
  dmStatus :: DomainStatus

type_synonym Domain = "domain_body kube_object"

definition DomainReclaimPolicyDelete :: string where
  "DomainReclaimPolicyDelete = ''Delete''"

definition DomainReclaimPolicyRetain :: string where
  "DomainReclaimPolicyRetain = ''Retain''"

text \<open>The zero values of the structs.\<close>

definition empty_domain_spec :: DomainSpec where
  "empty_domain_spec = \<lparr>dsDescription = [], dsMetadata = None, dsDomain = [], dsResolvesTo = None,
     dsResolvesToLegacy = None, dsReclaimPolicy = []\<rparr>"

definition empty_domain_status :: DomainStatus where
  "empty_domain_status = \<lparr>dstObservedGeneration = 0, dstID = [], dstDomain = [], dstResolvesTo = [], dstCNAMETarget = None,
     dstACMEChallengeCNAMETarget = None, dstCertificate = None, dstCertificateManagementPolicy = None,
     dstCertificateManagementStatus = None, dstConditions = []\<rparr>"

definition new_domain :: "string \<Rightarrow> string \<Rightarrow> DomainSpec \<Rightarrow> Domain" where
  "new_domain name namespace spec =
     \<lparr>obMeta = \<lparr>omName = name, omNamespace = namespace, omGeneration = 0, omFinalizers = [], omDeleting = False\<rparr>,
      obBody = \<lparr>dmLabels = [], dmSpec = spec, dmStatus = empty_domain_status\<rparr>\<rparr>"

definition domain_spec :: "Domain \<Rightarrow> DomainSpec" where
  "domain_spec d = dmSpec (obBody d)"

definition domain_status :: "Domain \<Rightarrow> DomainStatus" where
  "domain_status d = dmStatus (obBody d)"

definition map_spec :: "(DomainSpec \<Rightarrow> DomainSpec) \<Rightarrow> Domain \<Rightarrow> Domain" where
  "map_spec f d = d\<lparr>obBody := (obBody d)\<lparr>dmSpec := f (domain_spec d)\<rparr>\<rparr>"

definition map_domain_status :: "(DomainStatus \<Rightarrow> DomainStatus) \<Rightarrow> Domain \<Rightarrow> Domain" where
  "map_domain_status f d = d\<lparr>obBody := (obBody d)\<lparr>dmStatus := f (domain_status d)\<rparr>\<rparr>"

definition map_domain_labels :: "(labels \<Rightarrow> labels) \<Rightarrow> Domain \<Rightarrow> Domain" where
  "map_domain_labels f d = d\<lparr>obBody := (obBody d)\<lparr>dmLabels := f (dmLabels (obBody d))\<rparr>\<rparr>"

lemma domain_updates [simp]:
  "domain_spec (map_spec f d) = f (domain_spec d)" "domain_status (map_spec f d) = domain_status d"
  "domain_status (map_domain_status g d) = g (domain_status d)" "domain_spec (map_domain_status g d) = domain_spec d"
  "domain_spec (map_domain_labels h d) = domain_spec d" "domain_status (map_domain_labels h d) = domain_status d"
  "dmLabels (obBody (map_spec f d)) = dmLabels (obBody d)" "dmLabels (obBody (map_domain_status g d)) = dmLabels (obBody d)"
  "dmLabels (obBody (map_domain_labels h d)) = h (dmLabels (obBody d))"
  "obMeta (map_spec f d) = obMeta d" "obMeta (map_domain_status g d) = obMeta d" "obMeta (map_domain_labels h d) = obMeta d"
  by (simp_all add: map_spec_def map_domain_status_def map_domain_labels_def domain_spec_def domain_status_def)

definition GetResolvesTo :: "DomainSpec \<Rightarrow> string list" where
  "GetResolvesTo s =
     (case dsResolvesTo s of
        Some xs \<Rightarrow> xs
      | None \<Rightarrow> (case dsResolvesToLegacy s of Some xs \<Rightarrow> xs | None \<Rightarrow> []))"

text \<open>Dots become hyphens and a star becomes the word \<open>wildcard\<close>.\<close>

definition HyphenatedDomainNameFromURL :: "string \<Rightarrow> string" where
  "HyphenatedDomainNameFromURL domain =
     concat (map (\<lambda>c. if c = CHR ''.'' then ''-'' else if c = CHR ''*'' then ''wildcard'' else [c]) domain)"

section \<open>Internal domains\<close>

definition has_suffix :: "string \<Rightarrow> string \<Rightarrow> bool" where
  "has_suffix suf s \<longleftrightarrow> length suf \<le> length s \<and> drop (length s - length suf) s = suf"

definition trim_suffix :: "string \<Rightarrow> string \<Rightarrow> string" where
  "trim_suffix suf s = (if has_suffix suf s then take (length s - length suf) s else s)"

definition trim_prefix :: "string \<Rightarrow> string \<Rightarrow> string" where
  "trim_prefix pre s = (if has_prefix pre s then drop (length pre) s else s)"

definition IsInternalDomain :: "string \<Rightarrow> bool" where
  "IsInternalDomain host = has_suffix ''.internal'' (to_lower (trim_suffix ''.'' (trim_space host)))"

section \<open>Status updates\<close>

text \<open>
  \<open>retry.RetryOnConflict\<close> calls a function again as long as it fails with a conflict, a bounded
  number of times: the result is that of the last call.
\<close>

inductive attempts :: "('x \<Rightarrow> go_error option \<times> 'x) \<Rightarrow> 'x \<Rightarrow> go_error option \<times> 'x \<Rightarrow> bool" for f where
  last_call: "attempts f s (f s)"
| call_again: "f s = (Some e, s') \<Longrightarrow> kube_reason_of e = Some KubeConflict \<Longrightarrow> attempts f s' r \<Longrightarrow> attempts f s r"

type_synonym 'x retrier = "('x \<Rightarrow> go_error option \<times> 'x) \<Rightarrow> 'x \<Rightarrow> go_error option \<times> 'x"

definition retries :: "'x retrier \<Rightarrow> bool" where
  "retries retry \<longleftrightarrow> (\<forall>f s. attempts f s (retry f s))"

text \<open>The documented behaviour with a given number of attempts.\<close>

fun retry_steps :: "nat \<Rightarrow> 'x retrier" where
  "retry_steps 0 f s = f s"
| "retry_steps (Suc n) f s =
     (case f s of
        (Some e, s') \<Rightarrow> if kube_reason_of e = Some KubeConflict then retry_steps n f s' else (Some e, s')
      | (None, s') \<Rightarrow> (None, s'))"

lemma retries_steps: "retries (retry_steps n)"
proof -
  have "attempts f s (retry_steps n f s)" for f :: "'a \<Rightarrow> go_error option \<times> 'a" and s
  proof (induction n arbitrary: s)
    case 0
    show ?case by (simp add: last_call)
  next
    case (Suc n)
    show ?case
    proof (cases "f s")
      case (Pair err s')
      show ?thesis
      proof (cases "\<exists>e. err = Some e \<and> kube_reason_of e = Some KubeConflict")
        case True
        then obtain e where e: "err = Some e" "kube_reason_of e = Some KubeConflict" by blast
        then have "attempts f s (retry_steps n f s')" using Pair Suc by (intro call_again [of f s e s']) simp_all
        then show ?thesis using Pair e by simp
      next
        case False
        then have "retry_steps (Suc n) f s = f s" using Pair by (auto split: option.splits)
        then show ?thesis using last_call [of f s] by simp
      qed
    qed
  qed
  then show ?thesis by (simp add: retries_def)
qed

lemma attempts_invariant:
  assumes "attempts f s r" "I s" "\<And>x. I x \<Longrightarrow> I (snd (f x))"
  shows "I (snd r)"
  using assms by (induction rule: attempts.induct) (auto, metis snd_conv)

text \<open>A success of the whole is a success of the last call, in a state that the failed ones led to.\<close>

lemma attempts_last:
  assumes "attempts f s r"
  shows "\<exists>x. r = f x \<and> (x = s \<or> (\<exists>y e. f y = (Some e, x) \<and> kube_reason_of e = Some KubeConflict))"
  using assms by (induction rule: attempts.induct) auto

record ('b, 's) status_client =
  scStatusUpdate :: "'b kube_object \<Rightarrow> 's \<Rightarrow> (go_error + 'b kube_object) \<times> 's"
  scLatestVersion :: "'b kube_object \<Rightarrow> 's \<Rightarrow> go_error + ('b kube_object \<Rightarrow> 'b kube_object)"

text \<open>
  The first operation answers with the object as the API server has stored it, which replaces the
  caller's. The second operation reads the object again and gives its resource version, as the update that
  \<open>SetResourceVersion\<close> is.
\<close>

definition status_attempt :: "('b, 's) status_client \<Rightarrow> 'b kube_object \<times> 's \<Rightarrow> go_error option \<times> 'b kube_object \<times> 's" where
  "status_attempt sc = (\<lambda>(ob, s).
     case scStatusUpdate sc ob s of
       (Inr ob', s') \<Rightarrow> (None, ob', s')
     | (Inl e, s') \<Rightarrow>
         if kube_reason_of e = Some KubeConflict then
           (case scLatestVersion sc ob s' of
              Inl getErr \<Rightarrow> (Some getErr, ob, s')
            | Inr setVersion \<Rightarrow> (Some e, setVersion ob, s'))
         else (Some e, ob, s'))"

definition ReconcileStatus ::
  "('b kube_object \<times> 's) retrier \<Rightarrow> ('b, 's) status_client \<Rightarrow> (int \<Rightarrow> 'b kube_object \<Rightarrow> 'b kube_object) option \<Rightarrow>
   'b kube_object \<Rightarrow> go_error option \<Rightarrow> 's \<Rightarrow> (go_error option \<times> 'b kube_object) \<times> 's" where
  "ReconcileStatus retry sc setObserved ob origErr s =
     (let ob1 = (case setObserved of Some f \<Rightarrow> f (omGeneration (obMeta ob)) ob | None \<Rightarrow> ob)
      in case retry (status_attempt sc) (ob1, s) of
           (Some retryErr, ob2, s') \<Rightarrow> ((Some (StatusError origErr retryErr), ob2), s')
         | (None, ob2, s') \<Rightarrow> ((origErr, ob2), s'))"

definition set_domain_observed :: "int \<Rightarrow> Domain \<Rightarrow> Domain" where
  "set_domain_observed generation = map_domain_status (dstObservedGeneration_update (\<lambda>_. generation))"

end
