(* ===== verification/Driver_Domains.thy ===== *)
theory Driver_Domains
  imports Domain_Objects Resource_Store
begin

text \<open>
  \<^bold>\<open>pkg/managerdriver/domains.go\<close> and the status computations of \<^bold>\<open>driver.go\<close> and \<^bold>\<open>utils.go\<close>: the
  Domains that the stored ingresses and gateways ask for, how they are applied, and the addresses
  that ingresses and gateways get from them.

  \<open>controllerutil.CreateOrPatch\<close> is an argument: it reads an object, or starts from the given one, and
  stores what the mutate function makes of it; the flag tells mutate whether the object is new (its
  creation timestamp is zero). An \<open>errgroup\<close> runs all its functions and returns the first error; the
  order in which they run is that of \<open>order\<close>.
\<close>

section \<open>The domains to reserve\<close>

type_synonym domain_map = "(string \<times> Domain) list"

definition endpoint_domain :: "(string \<Rightarrow> raw_json) \<Rightarrow> string \<Rightarrow> string \<Rightarrow> string \<Rightarrow> Domain" where
  "endpoint_domain parse namespace newDomainMetadata domainName =
     new_domain (HyphenatedDomainNameFromURL domainName) namespace
       (empty_domain_spec\<lparr>dsDomain := domainName, dsMetadata := MetadataFromLegacyString (parse newDomainMetadata)\<rparr>)"

definition ingressToDomains :: "(string \<Rightarrow> raw_json) \<Rightarrow> Ingress \<Rightarrow> string \<Rightarrow> domain_map \<Rightarrow> domain_map" where
  "ingressToDomains parse ing newDomainMetadata existingDomains =
     fold (\<lambda>rule endpointDomains.
         if iruHost rule = [] then endpointDomains
         else if IsInternalDomain (iruHost rule) then endpointDomains
         else if map_of existingDomains (iruHost rule) \<noteq> None then endpointDomains
         else AList.update (iruHost rule)
           (endpoint_domain parse (ingNamespace ing) newDomainMetadata (iruHost rule)) endpointDomains)
       (ingRules ing) []"

definition gatewayToDomains :: "(string \<Rightarrow> raw_json) \<Rightarrow> Gateway \<Rightarrow> string \<Rightarrow> domain_map \<Rightarrow> domain_map" where
  "gatewayToDomains parse gw newDomainMetadata existingDomains =
     fold (\<lambda>listener endpointDomains.
         case liHostname listener of
           None \<Rightarrow> endpointDomains
         | Some domainName \<Rightarrow>
             if domainName = [] then endpointDomains
             else if IsInternalDomain domainName then endpointDomains
             else if map_of existingDomains domainName \<noteq> None then endpointDomains
             else AList.update domainName (endpoint_domain parse (gwNamespace gw) newDomainMetadata domainName) endpointDomains)
       (gwListeners gw) []"

record domainSet =
  endpointIngressDomains :: domain_map
  endpointGatewayDomains :: domain_map
  totalDomains :: domain_map

definition add_domains :: "domain_map \<Rightarrow> domain_map \<Rightarrow> domain_map" where
  "add_domains new m = fold (\<lambda>(key, val) m. AList.update key val m) new m"

definition calculateDomainSet :: "(string \<Rightarrow> raw_json) \<Rightarrow> Store \<Rightarrow> string \<Rightarrow> string \<Rightarrow> domainSet" where
  "calculateDomainSet parse store ingressNgrokMetadata gatewayNgrokMetadata =
     (let ret1 = fold (\<lambda>ing ret.
              let endpointDomains = ingressToDomains parse ing ingressNgrokMetadata []
              in ret\<lparr>totalDomains := add_domains endpointDomains (totalDomains ret),
                     endpointIngressDomains := add_domains endpointDomains (endpointIngressDomains ret)\<rparr>)
            (ListNgrokIngressesV1 store)
            \<lparr>endpointIngressDomains = [], endpointGatewayDomains = [], totalDomains = []\<rparr>
      in fold (\<lambda>gw ret.
              let endpointDomains = gatewayToDomains parse gw gatewayNgrokMetadata (totalDomains ret)
              in ret\<lparr>totalDomains := add_domains endpointDomains (totalDomains ret),
                     endpointGatewayDomains := add_domains endpointDomains (endpointGatewayDomains ret)\<rparr>)
            (ListNgrokGateways store) ret1)"

section \<open>Applying the domains\<close>

record 'k domain_api =
  daCreateOrPatch :: "Domain \<Rightarrow> (bool \<Rightarrow> Domain \<Rightarrow> Domain) \<Rightarrow> 'k \<Rightarrow> go_error option \<times> 'k"

definition domain_mutate :: "ControllerLabelValues \<Rightarrow> string ptr \<Rightarrow> Domain \<Rightarrow> bool \<Rightarrow> Domain \<Rightarrow> Domain" where
  "domain_mutate clv defaultDomainReclaimPolicy desired isNew d =
     (let d1 = map_spec (dsDomain_update (\<lambda>_. dsDomain (domain_spec desired))) d;
          d2 = (case defaultDomainReclaimPolicy of
                  Some policy \<Rightarrow> if isNew then map_spec (dsReclaimPolicy_update (\<lambda>_. policy)) d1 else d1
                | None \<Rightarrow> d1)
      in map_domain_labels (\<lambda>ls. fst (EnsureLabels clv ls)) d2)"

definition first_error :: "'e option \<Rightarrow> 'e option \<Rightarrow> 'e option" where
  "first_error a b = (case a of Some e \<Rightarrow> Some e | None \<Rightarrow> b)"

definition apply_domain ::
  "ControllerLabelValues \<Rightarrow> string ptr \<Rightarrow> 'k domain_api \<Rightarrow> Domain \<Rightarrow> 'k \<Rightarrow> go_error option \<times> 'k" where
  "apply_domain clv policy api desired k =
     daCreateOrPatch api (new_domain (omName (obMeta desired)) (omNamespace (obMeta desired)) empty_domain_spec)
       (domain_mutate clv policy desired) k"

fun run_group :: "('a \<Rightarrow> 'k \<Rightarrow> go_error option \<times> 'k) \<Rightarrow> 'a list \<Rightarrow> 'k \<Rightarrow> go_error option \<times> 'k" where
  "run_group f [] k = (None, k)"
| "run_group f (x # xs) k =
     (let (err, k1) = f x k; (err', k2) = run_group f xs k1 in (first_error err err', k2))"

definition applyDomains ::
  "ControllerLabelValues \<Rightarrow> string ptr \<Rightarrow> (domain_map \<Rightarrow> domain_map) \<Rightarrow> 'k domain_api \<Rightarrow> domain_map \<Rightarrow> 'k \<Rightarrow>
   go_error option \<times> 'k" where
  "applyDomains clv policy order api desiredDomains k =
     run_group (apply_domain clv policy api) (map snd (order desiredDomains)) k"

section \<open>Addresses\<close>

definition address_of :: "(string \<Rightarrow> string) \<Rightarrow> Domain \<Rightarrow> string" where
  "address_of trim d =
     (case dstCNAMETarget (domain_status d) of Some t \<Rightarrow> t | None \<Rightarrow> trim (dstDomain (domain_status d)))"

text \<open>
  The hosts of an ingress are collected in a map, and the order in which it is ranged over does not
  matter because the result is sorted.
\<close>

definition calculateIngressLoadBalancerIPStatus :: "Ingress \<Rightarrow> domain_map \<Rightarrow> string list" where
  "calculateIngressLoadBalancerIPStatus ing domains =
     (let ingressHosts = remdups (map iruHost (ingRules ing));
          status = concat (map (\<lambda>host.
            case map_of domains host of
              None \<Rightarrow> []
            | Some d \<Rightarrow> (let hostname = address_of (trim_prefix ''*.'') d in if hostname \<noteq> [] then [hostname] else []))
            ingressHosts)
      in sort status)"

definition gateway_addresses :: "Gateway \<Rightarrow> domain_map \<Rightarrow> string list" where
  "gateway_addresses gw domains =
     sort (remdups (concat (map (\<lambda>listener.
       case liHostname listener of
         None \<Rightarrow> []
       | Some h \<Rightarrow>
           (case map_of domains h of
              None \<Rightarrow> []
            | Some d \<Rightarrow> (let hostname = address_of (trim_prefix ''.*'') d in if hostname \<noteq> [] then [hostname] else [])))
       (gwListeners gw))))"

section \<open>Properties\<close>

definition reservable :: "string \<Rightarrow> bool" where
  "reservable host \<longleftrightarrow> host \<noteq> [] \<and> \<not> IsInternalDomain host"

definition ingress_hosts :: "Ingress \<Rightarrow> string set" where
  "ingress_hosts ing = {iruHost r | r. r \<in> set (ingRules ing) \<and> reservable (iruHost r)}"

definition gateway_hosts :: "Gateway \<Rightarrow> string set" where
  "gateway_hosts gw = {h. \<exists>l \<in> set (gwListeners gw). liHostname l = Some h \<and> reservable h}"

lemma map_of_add_domains:
  "distinct (map fst new) \<Longrightarrow>
   map_of (add_domains new m) key = (case map_of new key of Some d \<Rightarrow> Some d | None \<Rightarrow> map_of m key)"
proof (induction new arbitrary: m)
  case (Cons kv new)
  obtain k v where kv: "kv = (k, v)" by (cases kv)
  have "map_of new k = None" using Cons.prems kv by (simp add: map_of_eq_None_iff)
  then show ?case using Cons.IH [of "AList.update k v m"] Cons.prems kv by (auto simp: add_domains_def update_conv' split: option.splits)
qed (simp add: add_domains_def)

lemma fold_domains_map_of:
  "map_of (fold (\<lambda>x m. case key x of None \<Rightarrow> m | Some k \<Rightarrow> AList.update k (val k) m) xs m) k =
   (if \<exists>x \<in> set xs. key x = Some k then Some (val k) else map_of m k)"
proof (induction xs arbitrary: m)
  case (Cons x xs)
  then show ?case by (auto simp: update_conv' split: option.splits)
qed simp

lemma fold_domains_distinct:
  "distinct (map fst m) \<Longrightarrow>
   distinct (map fst (fold (\<lambda>x m. case key x of None \<Rightarrow> m | Some k \<Rightarrow> AList.update k (val k) m) xs m))"
  by (induction xs arbitrary: m) (auto simp: distinct_update split: option.splits)

lemma ingressToDomains_fold:
  "ingressToDomains parse ing md ex =
   fold (\<lambda>r m. case (if reservable (iruHost r) \<and> map_of ex (iruHost r) = None then Some (iruHost r) else None) of
       None \<Rightarrow> m | Some k \<Rightarrow> AList.update k (endpoint_domain parse (ingNamespace ing) md k) m) (ingRules ing) []"
  unfolding ingressToDomains_def by (rule fold_cong) (auto simp: reservable_def)

lemma gatewayToDomains_fold:
  "gatewayToDomains parse gw md ex =
   fold (\<lambda>l m. case (case liHostname l of None \<Rightarrow> None
         | Some h \<Rightarrow> if reservable h \<and> map_of ex h = None then Some h else None) of
       None \<Rightarrow> m | Some k \<Rightarrow> AList.update k (endpoint_domain parse (gwNamespace gw) md k) m) (gwListeners gw) []"
  unfolding gatewayToDomains_def by (rule fold_cong) (auto simp: reservable_def split: option.splits)

lemma ingressToDomains_spec:
  "map_of (ingressToDomains parse ing md []) host =
     (if host \<in> ingress_hosts ing then Some (endpoint_domain parse (ingNamespace ing) md host) else None)"
  "distinct (map fst (ingressToDomains parse ing md ex))"
  unfolding ingressToDomains_fold
  by (auto simp: fold_domains_map_of ingress_hosts_def fold_domains_distinct)

lemma gatewayToDomains_spec:
  "map_of (gatewayToDomains parse gw md ex) host =
     (if host \<in> gateway_hosts gw \<and> map_of ex host = None then Some (endpoint_domain parse (gwNamespace gw) md host) else None)"
  "distinct (map fst (gatewayToDomains parse gw md ex))"
proof -
  have iff: "(case liHostname l of None \<Rightarrow> None | Some h \<Rightarrow> if reservable h \<and> map_of ex h = None then Some h else None) = Some k \<longleftrightarrow>
    liHostname l = Some k \<and> reservable k \<and> map_of ex k = None" for l k by (auto split: option.splits)
  show "map_of (gatewayToDomains parse gw md ex) host =
     (if host \<in> gateway_hosts gw \<and> map_of ex host = None then Some (endpoint_domain parse (gwNamespace gw) md host) else None)"
    unfolding gatewayToDomains_fold fold_domains_map_of iff by (auto simp: gateway_hosts_def)
  show "distinct (map fst (gatewayToDomains parse gw md ex))"
    unfolding gatewayToDomains_fold by (rule fold_domains_distinct) simp
qed

text \<open>Which resource a domain belongs to: the last ingress that names it, or else the first gateway.\<close>

definition owning_ingress :: "Ingress list \<Rightarrow> string \<Rightarrow> Ingress option" where
  "owning_ingress ings host = find (\<lambda>ing. host \<in> ingress_hosts ing) (rev ings)"

definition owning_gateway :: "Gateway list \<Rightarrow> string \<Rightarrow> Gateway option" where
  "owning_gateway gws host = find (\<lambda>gw. host \<in> gateway_hosts gw) gws"

lemma fold_ingress_domains:
  "map_of (totalDomains (fold (\<lambda>ing ret.
       let endpointDomains = ingressToDomains parse ing md []
       in ret\<lparr>totalDomains := add_domains endpointDomains (totalDomains ret),
              endpointIngressDomains := add_domains endpointDomains (endpointIngressDomains ret)\<rparr>) ings ret)) host =
   (case owning_ingress ings host of
      Some ing \<Rightarrow> Some (endpoint_domain parse (ingNamespace ing) md host)
    | None \<Rightarrow> map_of (totalDomains ret) host)"
proof (induction ings arbitrary: ret)
  case (Cons ing ings)
  show ?case
    using Cons.IH ingressToDomains_spec [of parse ing md]
    by (auto simp: Let_def owning_ingress_def find_snoc map_of_add_domains split: option.splits)
qed (simp add: owning_ingress_def)

lemma fold_gateway_domains:
  "map_of (totalDomains (fold (\<lambda>gw ret.
       let endpointDomains = gatewayToDomains parse gw md (totalDomains ret)
       in ret\<lparr>totalDomains := add_domains endpointDomains (totalDomains ret),
              endpointGatewayDomains := add_domains endpointDomains (endpointGatewayDomains ret)\<rparr>) gws ret)) host =
   (case map_of (totalDomains ret) host of
      Some d \<Rightarrow> Some d
    | None \<Rightarrow> map_option (\<lambda>gw. endpoint_domain parse (gwNamespace gw) md host) (owning_gateway gws host))"
proof (induction gws arbitrary: ret)
  case Nil
  then show ?case by (simp add: owning_gateway_def split: option.splits)
next
  case (Cons gw gws)
  show ?case
    using Cons.IH gatewayToDomains_spec [of parse gw md "totalDomains ret"]
    by (auto simp: Let_def owning_gateway_def map_of_add_domains split: option.splits)
qed

text \<open>
  \<^bold>\<open>C40\<close>. The Domains that a sync asks for are exactly the reservable hosts of the ngrok ingresses and
  of the listeners of ngrok gateways: one Domain per host, named after it, in the namespace of the
  last ingress with that host, or else of the first gateway, and never one for an internal or an
  empty host.
\<close>

theorem calculateDomainSet_exact:
  "map_of (totalDomains (calculateDomainSet parse store imd gmd)) host =
   (case owning_ingress (ListNgrokIngressesV1 store) host of
      Some ing \<Rightarrow> Some (endpoint_domain parse (ingNamespace ing) imd host)
    | None \<Rightarrow>
        map_option (\<lambda>gw. endpoint_domain parse (gwNamespace gw) gmd host) (owning_gateway (ListNgrokGateways store) host))"
  unfolding calculateDomainSet_def
  by (simp add: Let_def fold_gateway_domains [unfolded Let_def] fold_ingress_domains [unfolded Let_def] split: option.splits)

section \<open>What an apply does to the cluster\<close>

lemma domain_mutate_simps [simp]:
  "domain_spec (domain_mutate clv policy d isNew x) = (domain_spec x)\<lparr>dsDomain := dsDomain (domain_spec d),
     dsReclaimPolicy := (case policy of Some p \<Rightarrow> if isNew then p else dsReclaimPolicy (domain_spec x)
       | None \<Rightarrow> dsReclaimPolicy (domain_spec x))\<rparr>"
  "domain_status (domain_mutate clv policy d isNew x) = domain_status x"
  "dmLabels (obBody (domain_mutate clv policy d isNew x)) = fst (EnsureLabels clv (dmLabels (obBody x)))"
  by (simp_all add: domain_mutate_def Let_def split: option.splits)

lemma new_domain_simps [simp]:
  "domain_spec (new_domain name ns spec) = spec" "dmLabels (obBody (new_domain name ns spec)) = []"
  by (simp_all add: new_domain_def domain_spec_def)

lemma find_distinct_key:
  "d \<in> set ds \<Longrightarrow> distinct (map object_key ds) \<Longrightarrow> find (\<lambda>d'. object_key d' = object_key d) ds = Some d"
  by (induction ds) auto

locale domain_cluster =
  fixes api :: "'k domain_api" and domains :: "'k \<Rightarrow> NamespacedName \<Rightarrow> Domain option"
  assumes patched: "daCreateOrPatch api d f k = (None, k') \<Longrightarrow>
    domains k' = (domains k)(object_key d \<mapsto> (case domains k (object_key d) of Some old \<Rightarrow> f False old | None \<Rightarrow> f True d))"
begin

lemma object_key_new [simp]: "object_key (new_domain name ns spec) = \<lparr>nnName = name, nnNamespace = ns\<rparr>"
  by (simp add: object_key_def new_domain_def)

lemma apply_domain_spec:
  assumes "apply_domain clv policy api d k = (None, k')"
  shows "domains k' = (domains k)(object_key d \<mapsto> (case domains k (object_key d) of
      Some old \<Rightarrow> domain_mutate clv policy d False old
    | None \<Rightarrow> domain_mutate clv policy d True (new_domain (omName (obMeta d)) (omNamespace (obMeta d)) empty_domain_spec)))"
  using patched [OF assms [unfolded apply_domain_def]] by (simp add: object_key_def [of d])

lemma apply_domains_spec:
  assumes "run_group (apply_domain clv policy api) ds k = (None, k')" "distinct (map object_key ds)"
  shows "\<forall>key. domains k' key = (case find (\<lambda>d. object_key d = key) ds of
      None \<Rightarrow> domains k key
    | Some d \<Rightarrow> Some (case domains k key of
        Some old \<Rightarrow> domain_mutate clv policy d False old
      | None \<Rightarrow> domain_mutate clv policy d True (new_domain (omName (obMeta d)) (omNamespace (obMeta d)) empty_domain_spec)))"
  using assms
proof (induction ds arbitrary: k)
  case (Cons d ds)
  from Cons.prems(1) obtain k1 where one: "apply_domain clv policy api d k = (None, k1)"
    and rest: "run_group (apply_domain clv policy api) ds k1 = (None, k')"
    by (auto simp: first_error_def split: prod.splits option.splits)
  have "find (\<lambda>d'. object_key d' = object_key d) ds = None" using Cons.prems(2) unfolding find_None_iff
    by (metis distinct.simps(2) image_eqI list.simps(9) set_map)
  then show ?case
    using Cons.IH [OF rest] Cons.prems(2) by (auto simp: apply_domain_spec [OF one] split: option.splits)
qed simp

end

text \<open>A map of Domains as the cluster.\<close>

definition map_domain_api :: "(NamespacedName \<Rightarrow> Domain option) domain_api" where
  "map_domain_api = \<lparr>daCreateOrPatch = (\<lambda>d f k. (None, k(object_key d \<mapsto>
     (case k (object_key d) of Some old \<Rightarrow> f False old | None \<Rightarrow> f True d))))\<rparr>"

interpretation map_domains: domain_cluster map_domain_api "\<lambda>k. k"
  by unfold_locales (auto simp: map_domain_api_def)

text \<open>The Domains of a successful apply, one by one.\<close>

lemma applyDomains_result:
  assumes client: "domain_cluster api domains"
    and ok: "applyDomains clv policy order api desired k = (None, k')"
    and perm: "\<And>xs. mset (order xs) = mset xs"
    and names: "distinct (map (\<lambda>(_, d). object_key d) desired)"
  shows "(host, d) \<in> set desired \<Longrightarrow> domains k' (object_key d) = Some (case domains k (object_key d) of
      Some old \<Rightarrow> domain_mutate clv policy d False old
    | None \<Rightarrow> domain_mutate clv policy d True (new_domain (omName (obMeta d)) (omNamespace (obMeta d)) empty_domain_spec))"
    and "key \<notin> (\<lambda>(_, d). object_key d) ` set desired \<Longrightarrow> domains k' key = domains k key"
proof -
  let ?ds = "map snd (order desired)"
  have set: "set ?ds = snd ` set desired" using mset_eq_setD [OF perm, of desired] by simp
  have keys: "map object_key ?ds = map (\<lambda>(_, d). object_key d) (order desired)" by (simp add: case_prod_beta)
  have "mset (map (\<lambda>(_, d). object_key d) (order desired)) = mset (map (\<lambda>(_, d). object_key d) desired)"
    by (simp add: perm)
  then have dist: "distinct (map object_key ?ds)" unfolding keys using names mset_eq_imp_distinct_iff by blast
  note spec = domain_cluster.apply_domains_spec [OF client ok [unfolded applyDomains_def] dist]
  have found: "find (\<lambda>d'. object_key d' = object_key d) ?ds = Some d" if "d \<in> set ?ds" for d
    using that dist by (rule find_distinct_key)
  show "domains k' (object_key d) = Some (case domains k (object_key d) of
      Some old \<Rightarrow> domain_mutate clv policy d False old
    | None \<Rightarrow> domain_mutate clv policy d True (new_domain (omName (obMeta d)) (omNamespace (obMeta d)) empty_domain_spec))"
    if "(host, d) \<in> set desired"
  proof -
    have "d \<in> set ?ds" using that set by force
    then show ?thesis using spec [rule_format, of "object_key d"] found [of d] by simp
  qed
  show "domains k' key = domains k key" if "key \<notin> (\<lambda>(_, d). object_key d) ` set desired"
  proof -
    have "find (\<lambda>d'. object_key d' = key) ?ds = None" using that set by (force simp: find_None_iff)
    then show ?thesis using spec by simp
  qed
qed

text \<open>
  Applying the Domains never touches what is not asked for: after a successful apply each
  desired Domain exists with the host and both pairs of controller labels; a Domain that existed
  before keeps its reclaim policy, description, metadata and resolving targets; a new one has the
  default reclaim policy; and no other Domain changes. (Two hosts whose hyphenated names agree share
  a Domain, so the names are assumed to be distinct.)
\<close>

theorem applyDomains_keeps_existing:
  assumes client: "domain_cluster api domains"
    and ok: "applyDomains clv policy order api desired k = (None, k')"
    and perm: "\<And>xs. mset (order xs) = mset xs"
    and names: "distinct (map (\<lambda>(_, d). object_key d) desired)"
  shows "(\<forall>(host, d) \<in> set desired. \<exists>d'. domains k' (object_key d) = Some d' \<and>
        dsDomain (domain_spec d') = dsDomain (domain_spec d) \<and>
        dmLabels (obBody d') = fst (EnsureLabels clv (case domains k (object_key d) of None \<Rightarrow> [] | Some old \<Rightarrow> dmLabels (obBody old))) \<and>
        (case domains k (object_key d) of
           Some old \<Rightarrow> domain_spec d' = (domain_spec old)\<lparr>dsDomain := dsDomain (domain_spec d)\<rparr> \<and> domain_status d' = domain_status old
         | None \<Rightarrow> dsReclaimPolicy (domain_spec d') = (case policy of Some p \<Rightarrow> p | None \<Rightarrow> []))) \<and>
    (\<forall>key. key \<notin> (\<lambda>(_, d). object_key d) ` set desired \<longrightarrow> domains k' key = domains k key)"
proof -
  note res = applyDomains_result [OF client ok perm names]
  define Q where "Q d \<longleftrightarrow> (\<exists>d'. domains k' (object_key d) = Some d' \<and>
        dsDomain (domain_spec d') = dsDomain (domain_spec d) \<and>
        dmLabels (obBody d') = fst (EnsureLabels clv (case domains k (object_key d) of None \<Rightarrow> [] | Some old \<Rightarrow> dmLabels (obBody old))) \<and>
        (case domains k (object_key d) of
           Some old \<Rightarrow> domain_spec d' = (domain_spec old)\<lparr>dsDomain := dsDomain (domain_spec d)\<rparr> \<and> domain_status d' = domain_status old
         | None \<Rightarrow> dsReclaimPolicy (domain_spec d') = (case policy of Some p \<Rightarrow> p | None \<Rightarrow> [])))" for d
  have "Q d" if "(host, d) \<in> set desired" for host d
    using res(1) [OF that]
    by (cases "domains k (object_key d)"; cases policy) (simp_all add: Q_def empty_domain_spec_def)
  then have "\<forall>(host, d) \<in> set desired. Q d" by blast
  with res(2) show ?thesis unfolding Q_def by blast
qed

theorem applyDomains_keeps_existing_witness:
  "\<exists>k'. applyDomains \<lparr>clvNamespace = ''ngrok'', clvName = ''op''\<rparr> (Some ''Retain'') (\<lambda>ds. ds) map_domain_api
       [(''a.example.com'', endpoint_domain (\<lambda>s. RawEmpty) ''web'' [] ''a.example.com'')] Map.empty = (None, k') \<and>
     (\<exists>d'. k' \<lparr>nnName = ''a-example-com'', nnNamespace = ''web''\<rparr> = Some d' \<and> dsReclaimPolicy (domain_spec d') = ''Retain'')"
proof -
  let ?d = "endpoint_domain (\<lambda>s. RawEmpty) ''web'' [] ''a.example.com''"
  have key: "object_key ?d = \<lparr>nnName = ''a-example-com'', nnNamespace = ''web''\<rparr>" by code_simp
  obtain k' where run: "applyDomains \<lparr>clvNamespace = ''ngrok'', clvName = ''op''\<rparr> (Some ''Retain'') (\<lambda>ds. ds) map_domain_api
      [(''a.example.com'', ?d)] Map.empty = (None, k')"
    by (simp add: applyDomains_def apply_domain_def map_domain_api_def first_error_def)
  show ?thesis
    using run applyDomains_keeps_existing [OF map_domains.domain_cluster_axioms run] by (simp add: key) blast
qed

text \<open>
  Why distinct names are assumed: the Domain of a host is named by writing its dots as hyphens, so
  two hosts that differ only there share one object, and the one that is applied last takes it over.
\<close>

theorem hyphenated_names_clash:
  "case applyDomains \<lparr>clvNamespace = ''ngrok'', clvName = ''op''\<rparr> None (\<lambda>ds. ds) map_domain_api
       (map (\<lambda>host. (host, endpoint_domain (\<lambda>s. RawEmpty) ''web'' [] host)) [''a-b.example.com'', ''a.b.example.com'']) Map.empty of
     (err, k') \<Rightarrow> err = None \<and> object_key (endpoint_domain (\<lambda>s. RawEmpty) ''web'' [] ''a-b.example.com'') =
         object_key (endpoint_domain (\<lambda>s. RawEmpty) ''web'' [] ''a.b.example.com'') \<and>
       map_option (\<lambda>d. dsDomain (domain_spec d)) (k' \<lparr>nnName = ''a-b-example-com'', nnNamespace = ''web''\<rparr>) = Some ''a.b.example.com''"
  by code_simp

text \<open>
  The status of a gateway trims the prefix \<open>.*\<close> where that of an ingress trims \<open>*.\<close>, so a wildcard
  domain managed by ngrok appears with its asterisk in the addresses of a gateway.
\<close>

theorem gateway_address_keeps_wildcard:
  assumes "dstCNAMETarget (domain_status d) = None" "dstDomain (domain_status d) = ''*.example.ngrok.app''"
    and "liHostname l = Some host" "map_of domains host = Some d"
  shows "gateway_addresses (gw\<lparr>gwListeners := [l]\<rparr>) domains = [''*.example.ngrok.app'']"
    and "calculateIngressLoadBalancerIPStatus (ing\<lparr>ingRules := [\<lparr>iruHost = host, iruHTTP = http\<rparr>]\<rparr>) domains = [''example.ngrok.app'']"
  using assms
  by (simp_all add: gateway_addresses_def calculateIngressLoadBalancerIPStatus_def address_of_def trim_prefix_def has_prefix_def Let_def)

end
