(* ===== verification/Sync_Debouncer.thy ===== *)
theory Sync_Debouncer
  imports Base_Controller
begin

text \<open>
  The sync debouncer of \<^bold>\<open>pkg/managerdriver/driver.go\<close>: \<open>syncStart\<close>, \<open>syncDone\<close> and
  \<open>HandleSyncResult\<close>, with the channels that connect them.

  The bodies of \<open>syncStart\<close> and \<open>syncDone\<close> run under one mutex, so each is one step on the state. A
  channel of capacity 1 is an entry of a store of channels, and the faults of the channel operations
  (a send that blocks, a send on or a close of a closed channel) are values. The callers of
  \<open>Sync\<close> and \<open>SyncEndpoints\<close> interleave as a transition system: a call, the end of a sync body, a
  wait that is answered, a wait whose context is cancelled.
\<close>

section \<open>Channels\<close>

record channel =
  chBuffered :: nat
  chClosed :: bool

datatype chan_fault = SendOnClosed | SendBlocks | CloseOfClosed

definition new_chan :: channel where
  "new_chan = \<lparr>chBuffered = 0, chClosed = False\<rparr>"

definition chan_send :: "nat \<Rightarrow> channel list \<Rightarrow> chan_fault + channel list" where
  "chan_send ch cs =
     (if chClosed (cs ! ch) then Inl SendOnClosed
      else if 1 \<le> chBuffered (cs ! ch) then Inl SendBlocks
      else Inr (cs[ch := (cs ! ch)\<lparr>chBuffered := chBuffered (cs ! ch) + 1\<rparr>]))"

definition chan_close :: "nat \<Rightarrow> channel list \<Rightarrow> chan_fault + channel list" where
  "chan_close ch cs =
     (if chClosed (cs ! ch) then Inl CloseOfClosed else Inr (cs[ch := (cs ! ch)\<lparr>chClosed := True\<rparr>]))"

text \<open>A receive reports whether a value was sent; on an open and empty channel it waits (\<open>None\<close>).\<close>

definition chan_recv :: "nat \<Rightarrow> channel list \<Rightarrow> (bool \<times> channel list) option" where
  "chan_recv ch cs =
     (if 1 \<le> chBuffered (cs ! ch) then Some (True, cs[ch := (cs ! ch)\<lparr>chBuffered := chBuffered (cs ! ch) - 1\<rparr>])
      else if chClosed (cs ! ch) then Some (False, cs) else None)"

section \<open>The debouncer\<close>

record sync_state =
  syncRunning :: bool
  syncFullCh :: "nat ptr"
  syncPartialCh :: "nat ptr"
  syncChans :: "channel list"

text \<open>The two functions that \<open>syncStart\<close> may return, and what a caller ends with.\<close>

datatype sync_wait = WaitNil | WaitOn nat

datatype sync_answer = AnsSynced | AnsNil | AnsRequeue | AnsCtxErr

definition close_slot :: "nat ptr \<Rightarrow> channel list \<Rightarrow> chan_fault + channel list" where
  "close_slot slot cs = (case slot of None \<Rightarrow> Inr cs | Some ch \<Rightarrow> chan_close ch cs)"

definition signal_slot :: "nat ptr \<Rightarrow> channel list \<Rightarrow> chan_fault + channel list" where
  "signal_slot slot cs =
     (case slot of None \<Rightarrow> Inr cs
      | Some ch \<Rightarrow> (case chan_send ch cs of Inl e \<Rightarrow> Inl e | Inr cs' \<Rightarrow> chan_close ch cs'))"

definition syncStart :: "bool \<Rightarrow> sync_state \<Rightarrow> chan_fault + sync_wait option \<times> sync_state" where
  "syncStart partial s =
     (if \<not> syncRunning s then Inr (None, s\<lparr>syncRunning := True\<rparr>)
      else if syncFullCh s \<noteq> None \<and> partial then Inr (Some WaitNil, s)
      else
        (case close_slot (syncFullCh s) (syncChans s) of
           Inl e \<Rightarrow> Inl e
         | Inr cs1 \<Rightarrow>
             (case close_slot (syncPartialCh s) cs1 of
                Inl e \<Rightarrow> Inl e
              | Inr cs2 \<Rightarrow>
                  let ch = length cs2 in
                  Inr (Some (WaitOn ch),
                    s\<lparr>syncFullCh := (if partial then None else Some ch),
                      syncPartialCh := (if partial then Some ch else None),
                      syncChans := cs2 @ [new_chan]\<rparr>))))"

definition syncDone :: "sync_state \<Rightarrow> chan_fault + sync_state" where
  "syncDone s =
     (case signal_slot (syncFullCh s) (syncChans s) of
        Inl e \<Rightarrow> Inl e
      | Inr cs1 \<Rightarrow>
          (case signal_slot (syncPartialCh s) cs1 of
             Inl e \<Rightarrow> Inl e
           | Inr cs2 \<Rightarrow>
               Inr (s\<lparr>syncRunning := False, syncFullCh := None, syncPartialCh := None, syncChans := cs2\<rparr>)))"

definition wait_poll :: "sync_wait \<Rightarrow> sync_state \<Rightarrow> (sync_answer \<times> sync_state) option" where
  "wait_poll w s =
     (case w of
        WaitNil \<Rightarrow> Some (AnsNil, s)
      | WaitOn ch \<Rightarrow>
          (case chan_recv ch (syncChans s) of
             None \<Rightarrow> None
           | Some (sent, cs) \<Rightarrow> Some (if sent then AnsRequeue else AnsNil, s\<lparr>syncChans := cs\<rparr>)))"

text \<open>The requeue delay of \<open>HandleSyncResult\<close> is in milliseconds.\<close>

datatype sync_error = ErrSyncRequeue | SyncFailed go_error

definition syncRequeueDelay :: nat where
  "syncRequeueDelay = 100"

definition HandleSyncResult :: "sync_error option \<Rightarrow> nat \<times> go_error option" where
  "HandleSyncResult err =
     (case err of
        Some ErrSyncRequeue \<Rightarrow> (syncRequeueDelay, None)
      | Some (SyncFailed e) \<Rightarrow> (0, Some e)
      | None \<Rightarrow> (0, None))"

section \<open>Concurrent callers\<close>

text \<open>
  A caller carries the number of the sync run during which it arrived; the number is not part of the
  code's state.
\<close>

datatype caller_phase = Syncing | Waiting sync_wait | Finished sync_answer

record caller =
  clRun :: nat
  clPhase :: caller_phase

record debouncer =
  dbState :: sync_state
  dbRuns :: nat
  dbCallers :: "caller list"

datatype db_event = Call bool | Done nat | Wake nat | Cancel nat

definition db_init :: debouncer where
  "db_init =
     \<lparr>dbState = \<lparr>syncRunning = False, syncFullCh = None, syncPartialCh = None, syncChans = []\<rparr>,
      dbRuns = 0, dbCallers = []\<rparr>"

definition phase_of :: "debouncer \<Rightarrow> nat \<Rightarrow> caller_phase option" where
  "phase_of d i = (if i < length (dbCallers d) then Some (clPhase (dbCallers d ! i)) else None)"

definition set_phase :: "nat \<Rightarrow> caller_phase \<Rightarrow> debouncer \<Rightarrow> debouncer" where
  "set_phase i p d = d\<lparr>dbCallers := (dbCallers d)[i := (dbCallers d ! i)\<lparr>clPhase := p\<rparr>]\<rparr>"

definition db_call :: "bool \<Rightarrow> debouncer \<Rightarrow> debouncer option" where
  "db_call partial d =
     (case syncStart partial (dbState d) of
        Inl e \<Rightarrow> None
      | Inr (w, s) \<Rightarrow>
          Some (d\<lparr>dbState := s, dbCallers := dbCallers d @
            [\<lparr>clRun = dbRuns d, clPhase = (case w of None \<Rightarrow> Syncing | Some w' \<Rightarrow> Waiting w')\<rparr>]\<rparr>))"

definition db_done :: "nat \<Rightarrow> debouncer \<Rightarrow> debouncer option" where
  "db_done i d =
     (case phase_of d i of
        Some Syncing \<Rightarrow>
          (case syncDone (dbState d) of
             Inl e \<Rightarrow> None
           | Inr s \<Rightarrow> Some ((set_phase i (Finished AnsSynced) d)\<lparr>dbState := s, dbRuns := dbRuns d + 1\<rparr>))
      | _ \<Rightarrow> None)"

definition db_wake :: "nat \<Rightarrow> debouncer \<Rightarrow> debouncer option" where
  "db_wake i d =
     (case phase_of d i of
        Some (Waiting w) \<Rightarrow>
          (case wait_poll w (dbState d) of
             None \<Rightarrow> None
           | Some (ans, s) \<Rightarrow> Some ((set_phase i (Finished ans) d)\<lparr>dbState := s\<rparr>))
      | _ \<Rightarrow> None)"

definition db_cancel :: "nat \<Rightarrow> debouncer \<Rightarrow> debouncer option" where
  "db_cancel i d =
     (case phase_of d i of
        Some (Waiting (WaitOn ch)) \<Rightarrow> Some (set_phase i (Finished AnsCtxErr) d)
      | _ \<Rightarrow> None)"

primrec db_step :: "db_event \<Rightarrow> debouncer \<Rightarrow> debouncer option" where
  "db_step (Call partial) d = db_call partial d"
| "db_step (Done i) d = db_done i d"
| "db_step (Wake i) d = db_wake i d"
| "db_step (Cancel i) d = db_cancel i d"

inductive db_reachable :: "debouncer \<Rightarrow> bool" where
  start: "db_reachable db_init"
| step: "db_reachable d \<Longrightarrow> db_step ev d = Some d' \<Longrightarrow> db_reachable d'"

fun db_trace :: "db_event list \<Rightarrow> debouncer \<Rightarrow> debouncer option" where
  "db_trace [] d = Some d"
| "db_trace (ev # evs) d = (case db_step ev d of None \<Rightarrow> None | Some d' \<Rightarrow> db_trace evs d')"

lemma db_trace_reachable: "db_reachable d \<Longrightarrow> db_trace evs d = Some d' \<Longrightarrow> db_reachable d'"
  by (induction evs arbitrary: d) (auto split: option.splits intro: db_reachable.step)

lemma db_trace_from_init: "db_trace evs db_init = Some d \<Longrightarrow> db_reachable d"
  by (rule db_trace_reachable [OF db_reachable.start])

section \<open>The state of the debouncer\<close>

text \<open>At most one channel is open: that of the waiter that the end of the sync will requeue.\<close>

definition sync_slot :: "sync_state \<Rightarrow> nat option" where
  "sync_slot s = (case syncFullCh s of Some ch \<Rightarrow> Some ch | None \<Rightarrow> syncPartialCh s)"

lemma sync_slot_running [simp]: "sync_slot (s\<lparr>syncRunning := b\<rparr>) = sync_slot s"
  by (simp add: sync_slot_def split: option.splits)

definition chans_ok :: "nat option \<Rightarrow> channel list \<Rightarrow> bool" where
  "chans_ok sl cs \<longleftrightarrow>
     (\<forall>ch < length cs. (chClosed (cs ! ch) \<longleftrightarrow> sl \<noteq> Some ch) \<and> chBuffered (cs ! ch) \<le> 1 \<and>
        (\<not> chClosed (cs ! ch) \<longrightarrow> chBuffered (cs ! ch) = 0)) \<and>
     (\<forall>ch. sl = Some ch \<longrightarrow> ch < length cs)"

definition sync_ok :: "sync_state \<Rightarrow> bool" where
  "sync_ok s \<longleftrightarrow>
     (syncFullCh s = None \<or> syncPartialCh s = None) \<and>
     (\<not> syncRunning s \<longrightarrow> sync_slot s = None) \<and> chans_ok (sync_slot s) (syncChans s)"

definition retire :: "nat \<Rightarrow> nat option \<Rightarrow> channel list \<Rightarrow> channel list" where
  "retire n sl cs = (case sl of None \<Rightarrow> cs | Some ch \<Rightarrow> cs[ch := \<lparr>chBuffered = n, chClosed = True\<rparr>])"

lemma retire_ok: "chans_ok sl cs \<Longrightarrow> n \<le> 1 \<Longrightarrow> chans_ok None (retire n sl cs)"
  by (auto simp: chans_ok_def retire_def nth_list_update split: option.splits)

lemma length_retire [simp]: "length (retire n sl cs) = length cs"
  by (simp add: retire_def split: option.splits)

lemma append_chan_ok: "chans_ok None cs \<Longrightarrow> chans_ok (Some (length cs)) (cs @ [new_chan])"
  by (auto simp: chans_ok_def nth_append new_chan_def less_Suc_eq)

lemma close_retires:
  "chans_ok (Some ch) cs \<Longrightarrow> chan_close ch cs = Inr (retire 0 (Some ch) cs)"
  by (auto simp: chans_ok_def chan_close_def retire_def intro!: arg_cong [where f = "list_update cs ch"])

lemma signal_retires:
  "chans_ok (Some ch) cs \<Longrightarrow>
   (case chan_send ch cs of Inl e \<Rightarrow> Inl e | Inr cs' \<Rightarrow> chan_close ch cs') = Inr (retire 1 (Some ch) cs)"
  by (auto simp: chans_ok_def chan_send_def chan_close_def retire_def intro!: arg_cong [where f = "list_update cs ch"])

lemma syncStart_idle: "\<not> syncRunning s \<Longrightarrow> syncStart partial s = Inr (None, s\<lparr>syncRunning := True\<rparr>)"
  by (simp add: syncStart_def)

lemma syncStart_ignored:
  "syncRunning s \<Longrightarrow> partial \<Longrightarrow> syncFullCh s \<noteq> None \<Longrightarrow> syncStart partial s = Inr (Some WaitNil, s)"
  by (simp add: syncStart_def)

lemma syncStart_wait:
  assumes "sync_ok s" "syncRunning s" "\<not> (syncFullCh s \<noteq> None \<and> partial)"
  shows "syncStart partial s = Inr (Some (WaitOn (length (syncChans s))),
    \<lparr>syncRunning = True, syncFullCh = (if partial then None else Some (length (syncChans s))),
     syncPartialCh = (if partial then Some (length (syncChans s)) else None),
     syncChans = retire 0 (sync_slot s) (syncChans s) @ [new_chan]\<rparr>)"
  using assms close_retires [of _ "syncChans s"]
  by (cases "syncFullCh s"; cases "syncPartialCh s")
    (auto simp: syncStart_def sync_ok_def sync_slot_def close_slot_def Let_def retire_def [of _ None])

lemma syncDone_ok:
  assumes "sync_ok s"
  shows "syncDone s = Inr \<lparr>syncRunning = False, syncFullCh = None, syncPartialCh = None,
    syncChans = retire 1 (sync_slot s) (syncChans s)\<rparr>"
  using assms signal_retires [of _ "syncChans s"]
  by (cases "syncFullCh s"; cases "syncPartialCh s")
    (auto simp: syncDone_def sync_ok_def sync_slot_def signal_slot_def retire_def [of _ None])

section \<open>The roles of the callers\<close>

text \<open>
  A caller that did not run a sync is the owner of its run (it was or will be told to requeue), or
  dismissed (it was or will be told that nothing is left to do), or gone (its context was cancelled).
\<close>

datatype caller_role = Runner | Owner | Dismissed | Gone

fun role_of :: "channel list \<Rightarrow> caller_phase \<Rightarrow> caller_role" where
  "role_of cs Syncing = Runner"
| "role_of cs (Waiting WaitNil) = Dismissed"
| "role_of cs (Waiting (WaitOn ch)) = (if chClosed (cs ! ch) \<and> chBuffered (cs ! ch) = 0 then Dismissed else Owner)"
| "role_of cs (Finished AnsSynced) = Runner"
| "role_of cs (Finished AnsNil) = Dismissed"
| "role_of cs (Finished AnsRequeue) = Owner"
| "role_of cs (Finished AnsCtxErr) = Gone"

abbreviation callers :: "debouncer \<Rightarrow> nat" where
  "callers d \<equiv> length (dbCallers d)"

definition run_at :: "debouncer \<Rightarrow> nat \<Rightarrow> nat" where
  "run_at d i = clRun (dbCallers d ! i)"

definition phase_at :: "debouncer \<Rightarrow> nat \<Rightarrow> caller_phase" where
  "phase_at d i = clPhase (dbCallers d ! i)"

definition role_at :: "debouncer \<Rightarrow> nat \<Rightarrow> caller_role" where
  "role_at d i = role_of (syncChans (dbState d)) (phase_at d i)"

definition slot_of :: "debouncer \<Rightarrow> nat option" where
  "slot_of d = sync_slot (dbState d)"

definition mutex_inv :: "debouncer \<Rightarrow> bool" where
  "mutex_inv d \<longleftrightarrow>
     (syncRunning (dbState d) \<longleftrightarrow> (\<exists>i < callers d. phase_at d i = Syncing)) \<and>
     (\<forall>i < callers d. \<forall>j < callers d. phase_at d i = Syncing \<longrightarrow> phase_at d j = Syncing \<longrightarrow> i = j)"

definition waiter_inv :: "debouncer \<Rightarrow> bool" where
  "waiter_inv d \<longleftrightarrow>
     (\<forall>i < callers d. \<forall>ch. phase_at d i = Waiting (WaitOn ch) \<longrightarrow>
        ch < length (syncChans (dbState d)) \<and> (slot_of d = Some ch \<longrightarrow> run_at d i = dbRuns d) \<and>
        (\<forall>j < callers d. phase_at d j = Waiting (WaitOn ch) \<longrightarrow> i = j))"

definition run_inv :: "debouncer \<Rightarrow> bool" where
  "run_inv d \<longleftrightarrow>
     (\<forall>i < callers d. run_at d i \<le> dbRuns d) \<and>
     (slot_of d = None \<longrightarrow> (\<forall>i < callers d. role_at d i \<noteq> Runner \<longrightarrow> run_at d i < dbRuns d)) \<and>
     (\<forall>ch. slot_of d = Some ch \<longrightarrow>
        (\<exists>i < callers d. run_at d i = dbRuns d \<and> (phase_at d i = Waiting (WaitOn ch) \<or> role_at d i = Gone)))"

definition owner_inv :: "debouncer \<Rightarrow> bool" where
  "owner_inv d \<longleftrightarrow>
     (\<forall>i < callers d. \<forall>j < callers d.
        role_at d i = Owner \<longrightarrow> role_at d j = Owner \<longrightarrow> run_at d i = run_at d j \<longrightarrow> i = j) \<and>
     (\<forall>j < callers d. role_at d j \<noteq> Runner \<longrightarrow>
        (\<exists>i < callers d. run_at d i = run_at d j \<and> (role_at d i = Owner \<or> role_at d i = Gone))) \<and>
     (\<forall>i < callers d. role_at d i = Owner \<longrightarrow> run_at d i = dbRuns d \<longrightarrow>
        (\<exists>ch. phase_at d i = Waiting (WaitOn ch) \<and> slot_of d = Some ch))"

definition db_inv :: "debouncer \<Rightarrow> bool" where
  "db_inv d \<longleftrightarrow> sync_ok (dbState d) \<and> mutex_inv d \<and> waiter_inv d \<and> run_inv d \<and> owner_inv d"

lemma db_inv_init: "db_inv db_init"
  by (simp add: db_inv_def db_init_def sync_ok_def sync_slot_def chans_ok_def mutex_inv_def waiter_inv_def run_inv_def
      owner_inv_def slot_of_def)

text \<open>What the invariant gives, fact by fact.\<close>

lemma waiting_bound:
  "db_inv d \<Longrightarrow> i < callers d \<Longrightarrow> phase_at d i = Waiting (WaitOn ch) \<Longrightarrow> ch < length (syncChans (dbState d))"
  by (simp add: db_inv_def waiter_inv_def)

lemma waiting_slot_run:
  "db_inv d \<Longrightarrow> i < callers d \<Longrightarrow> phase_at d i = Waiting (WaitOn ch) \<Longrightarrow> slot_of d = Some ch \<Longrightarrow> run_at d i = dbRuns d"
  by (simp add: db_inv_def waiter_inv_def)

lemma waiting_unique:
  "db_inv d \<Longrightarrow> i < callers d \<Longrightarrow> j < callers d \<Longrightarrow> phase_at d i = Waiting (WaitOn ch) \<Longrightarrow>
   phase_at d j = Waiting (WaitOn ch) \<Longrightarrow> i = j"
  by (simp add: db_inv_def waiter_inv_def)

lemma owner_unique:
  "db_inv d \<Longrightarrow> i < callers d \<Longrightarrow> j < callers d \<Longrightarrow> role_at d i = Owner \<Longrightarrow> role_at d j = Owner \<Longrightarrow>
   run_at d i = run_at d j \<Longrightarrow> i = j"
  by (simp add: db_inv_def owner_inv_def)

lemma owner_exists:
  "db_inv d \<Longrightarrow> j < callers d \<Longrightarrow> role_at d j \<noteq> Runner \<Longrightarrow>
   \<exists>i < callers d. run_at d i = run_at d j \<and> (role_at d i = Owner \<or> role_at d i = Gone)"
  by (simp add: db_inv_def owner_inv_def)

lemma owner_slot:
  "db_inv d \<Longrightarrow> i < callers d \<Longrightarrow> role_at d i = Owner \<Longrightarrow> run_at d i = dbRuns d \<Longrightarrow>
   \<exists>ch. phase_at d i = Waiting (WaitOn ch) \<and> slot_of d = Some ch"
  by (simp add: db_inv_def owner_inv_def)

lemma slot_holder:
  "db_inv d \<Longrightarrow> slot_of d = Some ch \<Longrightarrow>
   \<exists>i < callers d. run_at d i = dbRuns d \<and> (phase_at d i = Waiting (WaitOn ch) \<or> role_at d i = Gone)"
  by (simp add: db_inv_def run_inv_def)

lemma inv_chans_ok: "db_inv d \<Longrightarrow> chans_ok (slot_of d) (syncChans (dbState d))"
  by (simp add: db_inv_def sync_ok_def slot_of_def)

subsection \<open>Calls\<close>

definition add_caller :: "caller_phase \<Rightarrow> sync_state \<Rightarrow> debouncer \<Rightarrow> debouncer" where
  "add_caller p s d = d\<lparr>dbState := s, dbCallers := dbCallers d @ [\<lparr>clRun = dbRuns d, clPhase = p\<rparr>]\<rparr>"

lemma add_caller_simps [simp]:
  "callers (add_caller p s d) = Suc (callers d)" "dbRuns (add_caller p s d) = dbRuns d"
  "dbState (add_caller p s d) = s" "slot_of (add_caller p s d) = sync_slot s"
  by (simp_all add: add_caller_def slot_of_def)

lemma add_caller_at [simp]:
  "i < callers d \<Longrightarrow> run_at (add_caller p s d) i = run_at d i"
  "i < callers d \<Longrightarrow> phase_at (add_caller p s d) i = phase_at d i"
  "run_at (add_caller p s d) (callers d) = dbRuns d"
  "phase_at (add_caller p s d) (callers d) = p"
  by (simp_all add: add_caller_def run_at_def phase_at_def nth_append)

lemma role_at_add_caller [simp]:
  "i < callers d \<Longrightarrow> role_at (add_caller p s d) i = role_of (syncChans s) (phase_at d i)"
  "role_at (add_caller p s d) (callers d) = role_of (syncChans s) p"
  by (simp_all add: role_at_def)

lemmas caller_bounds = All_less_Suc Ex_less_Suc

lemma call_idle_inv:
  assumes inv: "db_inv d" and idle: "\<not> syncRunning (dbState d)"
  shows "db_inv (add_caller Syncing ((dbState d)\<lparr>syncRunning := True\<rparr>) d)"
proof -
  let ?s = "(dbState d)\<lparr>syncRunning := True\<rparr>"
  have slot: "sync_slot ?s = None" "slot_of d = None" "sync_slot (dbState d) = None" and ok: "sync_ok ?s"
    using inv idle by (auto simp: db_inv_def sync_ok_def slot_of_def)
  have role: "role_of (syncChans (dbState d)) (phase_at d i) = role_at d i" for i by (simp add: role_at_def)
  show ?thesis
    unfolding db_inv_def
  proof (intro conjI)
    show "mutex_inv (add_caller Syncing ?s d)"
      using inv idle by (auto simp: db_inv_def mutex_inv_def less_Suc_eq)
    show "waiter_inv (add_caller Syncing ?s d)"
      using inv by (simp add: db_inv_def waiter_inv_def caller_bounds slot)
    show "run_inv (add_caller Syncing ?s d)"
      using inv by (simp add: db_inv_def run_inv_def caller_bounds slot role cong: conj_cong)
    show "owner_inv (add_caller Syncing ?s d)"
      using inv by (simp add: db_inv_def owner_inv_def caller_bounds slot role cong: conj_cong)
  qed (use ok in simp)
qed

lemma call_ignored_inv:
  assumes inv: "db_inv d" and full: "syncFullCh (dbState d) \<noteq> None"
  shows "db_inv (add_caller (Waiting WaitNil) (dbState d) d)"
proof -
  obtain ch where slot: "sync_slot (dbState d) = Some ch" "slot_of d = Some ch"
    using full by (auto simp: sync_slot_def slot_of_def)
  have role: "role_of (syncChans (dbState d)) (phase_at d i) = role_at d i" for i by (simp add: role_at_def)
  have owner: "\<exists>i < callers d. run_at d i = dbRuns d \<and> (role_at d i = Owner \<or> role_at d i = Gone)"
  proof -
    obtain i where i: "i < callers d" "run_at d i = dbRuns d" "phase_at d i = Waiting (WaitOn ch) \<or> role_at d i = Gone"
      using slot_holder [OF inv slot(2)] by blast
    have "\<not> chClosed (syncChans (dbState d) ! ch)"
      using inv slot by (auto simp: db_inv_def sync_ok_def chans_ok_def)
    with i show ?thesis by (auto simp: role_at_def)
  qed
  show ?thesis
    unfolding db_inv_def
  proof (intro conjI)
    show "sync_ok (dbState (add_caller (Waiting WaitNil) (dbState d) d))" using inv by (simp add: db_inv_def)
    show "mutex_inv (add_caller (Waiting WaitNil) (dbState d) d)"
      using inv by (auto simp: db_inv_def mutex_inv_def less_Suc_eq)
    show "waiter_inv (add_caller (Waiting WaitNil) (dbState d) d)"
      using inv by (simp add: db_inv_def waiter_inv_def caller_bounds slot)
    show "run_inv (add_caller (Waiting WaitNil) (dbState d) d)"
      using inv by (simp add: db_inv_def run_inv_def caller_bounds slot role cong: conj_cong)
    show "owner_inv (add_caller (Waiting WaitNil) (dbState d) d)"
      using inv owner by (simp add: db_inv_def owner_inv_def caller_bounds slot role cong: conj_cong)
  qed
qed

text \<open>A waiting call retires the channel of the waiter it overtakes; the roles of all others stay.\<close>

lemma role_of_retire:
  assumes "chans_ok sl cs" "\<And>ch. p = Waiting (WaitOn ch) \<Longrightarrow> ch < length cs"
  shows "role_of (retire 0 sl cs @ xs) p =
    (if \<exists>ch. sl = Some ch \<and> p = Waiting (WaitOn ch) then Dismissed else role_of cs p)"
    and "role_of (retire 1 sl cs) p = role_of cs p"
  using assms
  by (cases "(cs, p)" rule: role_of.cases; auto simp: chans_ok_def retire_def nth_append nth_list_update split: option.splits)+

lemma call_wait_inv:
  assumes inv: "db_inv d" and run: "syncRunning (dbState d)"
    and s: "syncRunning s" "syncFullCh s = None \<or> syncPartialCh s = None" "sync_slot s = Some (length (syncChans (dbState d)))"
      "syncChans s = retire 0 (slot_of d) (syncChans (dbState d)) @ [new_chan]"
  shows "db_inv (add_caller (Waiting (WaitOn (length (syncChans (dbState d))))) s d)"
proof -
  let ?n = "length (syncChans (dbState d))"
  let ?d = "add_caller (Waiting (WaitOn ?n)) s d"
  have ok: "chans_ok (slot_of d) (syncChans (dbState d))" by (rule inv_chans_ok [OF inv])
  have chans: "chans_ok (Some ?n) (syncChans s)" using append_chan_ok [OF retire_ok [OF ok, of 0]] by (simp add: s)
  have bound: "ch < ?n" if "i < callers d" "phase_at d i = Waiting (WaitOn ch)" for i ch
    by (rule waiting_bound [OF inv that])
  have role: "role_of (syncChans s) (phase_at d i) =
      (if \<exists>ch. slot_of d = Some ch \<and> phase_at d i = Waiting (WaitOn ch) then Dismissed else role_at d i)"
    if "i < callers d" for i
    unfolding s(4) role_at_def by (rule role_of_retire(1) [OF ok bound [OF that]])
  have new: "role_of (syncChans s) (Waiting (WaitOn ?n)) = Owner" by (simp add: s nth_append new_chan_def)
  have cur: "\<exists>ch. slot_of d = Some ch \<and> phase_at d i = Waiting (WaitOn ch)"
    if "i < callers d" "role_at d i = Owner" "run_at d i = dbRuns d" for i
    using owner_slot [OF inv that] by blast
  have cur': "run_at d i = dbRuns d" if "i < callers d" "slot_of d = Some ch" "phase_at d i = Waiting (WaitOn ch)" for i ch
    by (rule waiting_slot_run [OF inv that(1,3,2)])
  show ?thesis
    unfolding db_inv_def
  proof (intro conjI)
    show "sync_ok (dbState ?d)" using s chans by (simp add: sync_ok_def)
    show "mutex_inv ?d" using inv run s(1) by (simp add: db_inv_def mutex_inv_def caller_bounds cong: conj_cong)
    show "waiter_inv ?d"
      using inv bound unfolding db_inv_def waiter_inv_def caller_bounds
      by (auto simp: s less_Suc_eq dest: bound)
    show "run_inv ?d"
      using inv by (simp add: db_inv_def run_inv_def caller_bounds s cong: conj_cong)
    show "owner_inv ?d"
      unfolding owner_inv_def
    proof (intro conjI allI impI)
      fix i j assume ij: "i < callers ?d" "j < callers ?d" "role_at ?d i = Owner" "role_at ?d j = Owner" "run_at ?d i = run_at ?d j"
      have old: "role_at d k = Owner \<and> run_at d k \<noteq> dbRuns d" if "k < callers d" "role_at ?d k = Owner" for k
        using that role [of k] cur [of k] by (auto split: if_splits)
      show "i = j"
        using ij old [of i] old [of j] owner_unique [OF inv, of i j]
        by (cases "i < callers d"; cases "j < callers d") (auto simp: less_Suc_eq)
    next
      fix j assume j: "j < callers ?d" "role_at ?d j \<noteq> Runner"
      show "\<exists>i < callers ?d. run_at ?d i = run_at ?d j \<and> (role_at ?d i = Owner \<or> role_at ?d i = Gone)"
      proof (cases "run_at ?d j = dbRuns d")
        case True
        then show ?thesis by (intro exI [of _ "callers d"]) (simp add: new del: role_of.simps)
      next
        case False
        then have j': "j < callers d" "run_at ?d j = run_at d j" using j by (auto simp: less_Suc_eq)
        have "role_at d j \<noteq> Runner" using j j' role [of j] by (auto simp: role_at_def split: if_splits)
        then obtain i where i: "i < callers d" "run_at d i = run_at d j" "role_at d i = Owner \<or> role_at d i = Gone"
          using owner_exists [OF inv j'(1)] by blast
        then have "role_at ?d i = role_at d i" using role [of i] cur' [of i] False j' by auto
        with i j' show ?thesis by (intro exI [of _ i]) simp
      qed
    next
      fix i assume i: "i < callers ?d" "role_at ?d i = Owner" "run_at ?d i = dbRuns ?d"
      show "\<exists>ch. phase_at ?d i = Waiting (WaitOn ch) \<and> slot_of ?d = Some ch"
        using i role [of i] cur [of i] by (cases "i < callers d") (auto simp: less_Suc_eq s split: if_splits)
    qed
  qed
qed

lemma db_call_inv: "db_inv d \<Longrightarrow> db_call partial d = Some d' \<Longrightarrow> db_inv d'"
proof (cases "syncRunning (dbState d)")
  case False
  assume "db_inv d" "db_call partial d = Some d'"
  with False call_idle_inv [of d] show ?thesis by (simp add: db_call_def syncStart_idle add_caller_def)
next
  case True
  assume inv: "db_inv d" and step: "db_call partial d = Some d'"
  show ?thesis
  proof (cases "syncFullCh (dbState d) \<noteq> None \<and> partial")
    case ign: True
    with True step call_ignored_inv [OF inv] show ?thesis by (simp add: db_call_def syncStart_ignored add_caller_def)
  next
    case False
    have ok: "sync_ok (dbState d)" using inv by (simp add: db_inv_def)
    let ?n = "length (syncChans (dbState d))"
    let ?s = "\<lparr>syncRunning = True, syncFullCh = if partial then None else Some ?n,
      syncPartialCh = if partial then Some ?n else None,
      syncChans = retire 0 (sync_slot (dbState d)) (syncChans (dbState d)) @ [new_chan]\<rparr>"
    have "d' = add_caller (Waiting (WaitOn ?n)) ?s d"
      using step by (simp add: db_call_def syncStart_wait [OF ok True False] add_caller_def)
    moreover have "sync_slot ?s = Some ?n" by (simp add: sync_slot_def)
    ultimately show ?thesis using call_wait_inv [OF inv True, of ?s] by (simp add: slot_of_def)
  qed
qed

subsection \<open>The end of a sync, answers and cancellations\<close>

definition move_caller :: "nat \<Rightarrow> caller_phase \<Rightarrow> sync_state \<Rightarrow> nat \<Rightarrow> debouncer \<Rightarrow> debouncer" where
  "move_caller i p s n d = (set_phase i p d)\<lparr>dbState := s, dbRuns := n\<rparr>"

lemma move_caller_simps [simp]:
  "callers (move_caller i p s n d) = callers d" "dbRuns (move_caller i p s n d) = n"
  "dbState (move_caller i p s n d) = s" "slot_of (move_caller i p s n d) = sync_slot s"
  by (simp_all add: move_caller_def set_phase_def slot_of_def)

lemma move_caller_at [simp]:
  "j < callers d \<Longrightarrow> run_at (move_caller i p s n d) j = run_at d j"
  "j < callers d \<Longrightarrow> phase_at (move_caller i p s n d) j = (if j = i then p else phase_at d j)"
  by (cases "i = j"; simp add: move_caller_def set_phase_def run_at_def phase_at_def)+

lemma role_at_move_caller [simp]:
  "j < callers d \<Longrightarrow> role_at (move_caller i p s n d) j = role_of (syncChans s) (if j = i then p else phase_at d j)"
  by (simp add: role_at_def)

lemma done_inv:
  assumes inv: "db_inv d" and i: "i < callers d" "phase_at d i = Syncing"
    and s: "\<not> syncRunning s" "sync_slot s = None" "syncFullCh s = None"
      "syncChans s = retire 1 (slot_of d) (syncChans (dbState d))"
  shows "db_inv (move_caller i (Finished AnsSynced) s (Suc (dbRuns d)) d)" (is "db_inv ?d")
proof -
  have ok: "chans_ok (slot_of d) (syncChans (dbState d))" by (rule inv_chans_ok [OF inv])
  have bound: "ch < length (syncChans (dbState d))" if "j < callers d" "phase_at d j = Waiting (WaitOn ch)" for j ch
    by (rule waiting_bound [OF inv that])
  have role: "role_at ?d j = role_at d j" if "j < callers d" for j
    using role_of_retire(2) [OF ok bound [OF that]] that i by (simp add: role_at_def s)
  have le: "run_at d j < Suc (dbRuns d)" if "j < callers d" for j
    using inv that unfolding db_inv_def run_inv_def by (simp add: le_imp_less_Suc)
  show ?thesis
    unfolding db_inv_def
  proof (intro conjI)
    show "sync_ok (dbState ?d)" using s retire_ok [OF ok, of 1] by (simp add: sync_ok_def)
    show "mutex_inv ?d" using inv i s(1) unfolding db_inv_def mutex_inv_def by (auto split: if_splits)
    show "waiter_inv ?d"
      using inv unfolding db_inv_def waiter_inv_def by (auto simp: s split: if_splits)
    show "run_inv ?d" using le by (auto simp: run_inv_def s less_imp_le)
    show "owner_inv ?d"
      using inv le [THEN less_imp_neq]
      by (simp add: db_inv_def owner_inv_def role del: role_at_move_caller cong: conj_cong)
  qed
qed

text \<open>Every other step of caller \<open>i\<close> keeps the roles of the others, and its own unless it is cancelled.\<close>

lemma answer_inv:
  assumes inv: "db_inv d" and i: "i < callers d" "phase_at d i = Waiting w"
    and ok: "sync_ok s" and s: "sync_slot s = slot_of d" "syncRunning s = syncRunning (dbState d)"
      "length (syncChans s) = length (syncChans (dbState d))"
    and role: "\<And>j. j < callers d \<Longrightarrow> role_at (move_caller i (Finished a) s (dbRuns d) d) j =
      (if j = i \<and> a = AnsCtxErr then Gone else role_at d j)"
    and open_slot: "a \<noteq> AnsCtxErr \<Longrightarrow> \<forall>ch. w = WaitOn ch \<longrightarrow> slot_of d \<noteq> Some ch"
    and a: "a \<noteq> AnsSynced"
  shows "db_inv (move_caller i (Finished a) s (dbRuns d) d)" (is "db_inv ?d")
proof -
  have gone: "role_at ?d i = Gone" if "a = AnsCtxErr" using role [OF i(1)] that by simp
  have kept: "role_at ?d j = role_at d j" if "j < callers d" "j \<noteq> i \<or> a \<noteq> AnsCtxErr" for j
    using role [OF that(1)] that(2) by auto
  have nr: "role_at d i \<noteq> Runner" using i by (cases w) (auto simp: role_at_def)
  show ?thesis
    unfolding db_inv_def
  proof (intro conjI)
    show "sync_ok (dbState ?d)" using ok by simp
    have "phase_at ?d j = Syncing \<longleftrightarrow> phase_at d j = Syncing" if "j < callers d" for j using i that by simp
    then show "mutex_inv ?d"
      using inv s(2) by (simp add: db_inv_def mutex_inv_def del: move_caller_at(2) cong: conj_cong)
    show "waiter_inv ?d" using inv s unfolding db_inv_def waiter_inv_def by (auto split: if_splits)
    show "run_inv ?d"
      unfolding run_inv_def
    proof (intro conjI allI impI)
      fix j assume j: "j < callers ?d"
      then show "run_at ?d j \<le> dbRuns ?d" using inv by (simp add: db_inv_def run_inv_def)
      assume "slot_of ?d = None" "role_at ?d j \<noteq> Runner"
      moreover have "role_at d j \<noteq> Runner" using nr kept [of j] j calculation by (cases "j = i") auto
      ultimately show "run_at ?d j < dbRuns ?d" using inv j s(1) unfolding db_inv_def run_inv_def by simp
    next
      fix ch assume "slot_of ?d = Some ch"
      then obtain j where j: "j < callers d" "run_at d j = dbRuns d"
          "phase_at d j = Waiting (WaitOn ch) \<or> role_at d j = Gone"
        using slot_holder [OF inv] s(1) by auto
      have "phase_at ?d j = Waiting (WaitOn ch) \<or> role_at ?d j = Gone"
      proof (cases "j = i")
        case True
        then show ?thesis
          using j i gone open_slot kept [of i] \<open>slot_of ?d = Some ch\<close> s(1)
          by (cases "a = AnsCtxErr") (auto simp del: role_at_move_caller)
      next
        case False
        then show ?thesis using j kept [of j] by (auto simp del: role_at_move_caller)
      qed
      with j show "\<exists>j < callers ?d. run_at ?d j = dbRuns ?d \<and> (phase_at ?d j = Waiting (WaitOn ch) \<or> role_at ?d j = Gone)"
        by (intro exI [of _ j]) (simp del: role_at_move_caller move_caller_at(2))
    qed
    show "owner_inv ?d"
      unfolding owner_inv_def
    proof (intro conjI allI impI)
      have own: "role_at d j = Owner" if "j < callers d" "role_at ?d j = Owner" for j
        using role [of j] that by (auto split: if_splits)
      fix j assume j: "j < callers ?d"
      {
        fix k assume "k < callers ?d" "role_at ?d j = Owner" "role_at ?d k = Owner" "run_at ?d j = run_at ?d k"
        then show "j = k" using j own [of j] own [of k] owner_unique [OF inv, of j k] by simp
      }
      {
        assume "role_at ?d j \<noteq> Runner"
        then have "role_at d j \<noteq> Runner" using nr kept [of j] j by (cases "j = i") auto
        then obtain k where "k < callers d" "run_at d k = run_at d j" "role_at d k = Owner \<or> role_at d k = Gone"
          using owner_exists [OF inv, of j] j by auto
        then show "\<exists>k < callers ?d. run_at ?d k = run_at ?d j \<and> (role_at ?d k = Owner \<or> role_at ?d k = Gone)"
          using j role [of k] by (intro exI [of _ k]) (auto simp del: role_at_move_caller)
      }
      assume jo: "role_at ?d j = Owner" "run_at ?d j = dbRuns ?d"
      then obtain ch where ch: "phase_at d j = Waiting (WaitOn ch)" "slot_of d = Some ch"
        using owner_slot [OF inv, of j] j own [of j] by auto
      have "j \<noteq> i"
      proof
        assume "j = i"
        then have "a \<noteq> AnsCtxErr" using jo gone by auto
        then show False using open_slot ch i \<open>j = i\<close> by auto
      qed
      then show "\<exists>ch. phase_at ?d j = Waiting (WaitOn ch) \<and> slot_of ?d = Some ch" using ch j s(1) by simp
    qed
  qed
qed

lemma phase_of_Some: "phase_of d i = Some p \<longleftrightarrow> i < callers d \<and> phase_at d i = p"
  by (auto simp: phase_of_def phase_at_def)

lemma db_done_inv: "db_inv d \<Longrightarrow> db_done i d = Some d' \<Longrightarrow> db_inv d'"
proof -
  assume inv: "db_inv d" and step: "db_done i d = Some d'"
  have ok: "sync_ok (dbState d)" using inv by (simp add: db_inv_def)
  let ?s = "\<lparr>syncRunning = False, syncFullCh = None, syncPartialCh = None,
    syncChans = retire 1 (sync_slot (dbState d)) (syncChans (dbState d))\<rparr>"
  have "phase_of d i = Some Syncing" "d' = move_caller i (Finished AnsSynced) ?s (Suc (dbRuns d)) d"
    using step by (auto simp: db_done_def syncDone_ok [OF ok] move_caller_def split: option.splits caller_phase.splits)
  then show ?thesis using done_inv [OF inv, of i ?s] by (simp add: phase_of_Some slot_of_def sync_slot_def)
qed

lemma sync_slot_chans [simp]: "sync_slot (s\<lparr>syncChans := cs\<rparr>) = sync_slot s"
  by (simp add: sync_slot_def split: option.splits)

lemma chan_recv_ok:
  assumes "chans_ok sl cs" "ch < length cs" "chan_recv ch cs = Some (sent, cs')"
  shows "sl \<noteq> Some ch" "chans_ok sl cs'" "length cs' = length cs"
    "\<And>ch'. ch' \<noteq> ch \<Longrightarrow> cs' ! ch' = cs ! ch'"
    "chBuffered (cs ! ch) = (if sent then 1 else 0)" "chClosed (cs ! ch)"
  using assms
  by (auto simp: chans_ok_def chan_recv_def nth_list_update split: if_splits dest: spec [of _ ch])

lemma db_wake_inv: "db_inv d \<Longrightarrow> db_wake i d = Some d' \<Longrightarrow> db_inv d'"
proof -
  assume inv: "db_inv d" and step: "db_wake i d = Some d'"
  obtain w a s where w: "i < callers d" "phase_at d i = Waiting w" and poll: "wait_poll w (dbState d) = Some (a, s)"
    and d': "d' = move_caller i (Finished a) s (dbRuns d) d"
    using step by (auto simp: db_wake_def phase_of_Some move_caller_def set_phase_def split: option.splits caller_phase.splits)
  have ok: "sync_ok (dbState d)" using inv by (simp add: db_inv_def)
  show ?thesis
  proof (cases w)
    case WaitNil
    then have a: "a = AnsNil" "s = dbState d" using poll by (simp_all add: wait_poll_def)
    show ?thesis
      unfolding d' by (rule answer_inv [OF inv w]) (use a w WaitNil ok in \<open>auto simp: slot_of_def role_at_def\<close>)
  next
    case (WaitOn ch)
    then obtain sent cs where r: "chan_recv ch (syncChans (dbState d)) = Some (sent, cs)"
        "a = (if sent then AnsRequeue else AnsNil)" "s = (dbState d)\<lparr>syncChans := cs\<rparr>"
      using poll by (auto simp: wait_poll_def split: option.splits)
    note rc = chan_recv_ok [OF inv_chans_ok [OF inv] waiting_bound [OF inv w(1) w(2) [unfolded WaitOn]] r(1)]
    have role: "role_of cs (phase_at d j) = role_at d j" if "j < callers d" "j \<noteq> i" for j
    proof -
      have "phase_at d j \<noteq> Waiting (WaitOn ch)" using waiting_unique [OF inv w(1) that(1)] w(2) WaitOn that(2) by auto
      then show ?thesis unfolding role_at_def by (cases "(cs, phase_at d j)" rule: role_of.cases) (auto simp: rc(4))
    qed
    show ?thesis
      unfolding d'
    proof (rule answer_inv [OF inv w])
      show "sync_ok s" using ok rc(2) by (simp add: r sync_ok_def slot_of_def)
      fix j assume "j < callers d"
      then show "role_at (move_caller i (Finished a) s (dbRuns d) d) j = (if j = i \<and> a = AnsCtxErr then Gone else role_at d j)"
        using role [of j] rc(5,6) w(2) WaitOn by (cases "j = i") (auto simp: r role_at_def)
    qed (use rc WaitOn in \<open>auto simp: r slot_of_def\<close>)
  qed
qed

lemma db_cancel_inv: "db_inv d \<Longrightarrow> db_cancel i d = Some d' \<Longrightarrow> db_inv d'"
proof -
  assume inv: "db_inv d" and step: "db_cancel i d = Some d'"
  obtain ch where w: "i < callers d" "phase_at d i = Waiting (WaitOn ch)"
    and d': "d' = move_caller i (Finished AnsCtxErr) (dbState d) (dbRuns d) d"
    using step by (auto simp: db_cancel_def phase_of_Some move_caller_def set_phase_def
        split: option.splits caller_phase.splits sync_wait.splits)
  have "sync_ok (dbState d)" using inv by (simp add: db_inv_def)
  then show ?thesis unfolding d' by (intro answer_inv [OF inv w]) (auto simp: slot_of_def role_at_def)
qed

lemma db_step_inv: "db_inv d \<Longrightarrow> db_step ev d = Some d' \<Longrightarrow> db_inv d'"
  by (cases ev) (auto intro: db_call_inv db_done_inv db_wake_inv db_cancel_inv)

lemma db_reachable_inv: "db_reachable d \<Longrightarrow> db_inv d"
  by (induction rule: db_reachable.induct) (auto intro: db_inv_init db_step_inv)

section \<open>Progress\<close>

definition finished :: "caller \<Rightarrow> bool" where
  "finished c = (case clPhase c of Finished a \<Rightarrow> True | _ \<Rightarrow> False)"

definition unfinished :: "debouncer \<Rightarrow> nat" where
  "unfinished d = length (filter (\<lambda>c. \<not> finished c) (dbCallers d))"

primrec is_call :: "db_event \<Rightarrow> bool" where
  "is_call (Call partial) = True"
| "is_call (Done i) = False"
| "is_call (Wake i) = False"
| "is_call (Cancel i) = False"

lemma filter_length_update:
  "i < length xs \<Longrightarrow> P (xs ! i) \<Longrightarrow> \<not> P x \<Longrightarrow>
   Suc (length (filter P (xs[i := x]))) = length (filter P xs)"
  by (induction xs arbitrary: i) (auto simp: nth_Cons list_update.simps split: nat.splits)

lemma finish_one:
  assumes "i < callers d" "\<forall>a. phase_at d i \<noteq> Finished a"
  shows "Suc (unfinished (set_phase i (Finished a) d)) = unfinished d"
  using assms filter_length_update [of i "dbCallers d" "\<lambda>c. \<not> finished c"]
  by (simp add: unfinished_def set_phase_def finished_def phase_at_def split: caller_phase.splits)

lemma unfinished_update [simp]:
  "unfinished (d\<lparr>dbState := s\<rparr>) = unfinished d" "unfinished (d\<lparr>dbState := s, dbRuns := n\<rparr>) = unfinished d"
  by (simp_all add: unfinished_def)

lemma step_finishes_one:
  assumes "db_step ev d = Some d'" "\<not> is_call ev"
  shows "Suc (unfinished d') = unfinished d"
  using assms
  by (cases ev) (auto simp: db_done_def db_wake_def db_cancel_def phase_of_Some finish_one
      split: option.splits caller_phase.splits sum.splits sync_wait.splits)

lemma unfinished_index:
  "0 < unfinished d \<Longrightarrow> \<exists>i < callers d. phase_at d i = Syncing \<or> (\<exists>w. phase_at d i = Waiting w)"
proof -
  assume "0 < unfinished d"
  then obtain c where "c \<in> set (dbCallers d)" "\<not> finished c" by (auto simp: unfinished_def filter_empty_conv)
  then obtain i where i: "i < callers d" "\<not> finished (dbCallers d ! i)" by (auto simp: in_set_conv_nth)
  then have "phase_at d i = Syncing \<or> (\<exists>w. phase_at d i = Waiting w)"
    by (auto simp: phase_at_def finished_def split: caller_phase.splits)
  with i show ?thesis by blast
qed

lemma progress:
  assumes inv: "db_inv d" and left: "0 < unfinished d"
  shows "\<exists>i. db_step (Done i) d \<noteq> None \<or> db_step (Wake i) d \<noteq> None"
proof (cases "syncRunning (dbState d)")
  case True
  then obtain i where "i < callers d" "phase_at d i = Syncing" using inv by (auto simp: db_inv_def mutex_inv_def)
  moreover have "sync_ok (dbState d)" using inv by (simp add: db_inv_def)
  ultimately have "db_step (Done i) d \<noteq> None" by (simp add: db_done_def phase_of_def phase_at_def syncDone_ok)
  then show ?thesis by blast
next
  case False
  then have idle: "slot_of d = None" and none: "\<forall>i < callers d. phase_at d i \<noteq> Syncing"
    using inv by (auto simp: db_inv_def sync_ok_def slot_of_def mutex_inv_def)
  then obtain i w where w: "i < callers d" "phase_at d i = Waiting w" using unfinished_index [OF left] by blast
  have "wait_poll w (dbState d) \<noteq> None"
  proof (cases w)
    case (WaitOn ch)
    then have "chClosed (syncChans (dbState d) ! ch)"
      using inv_chans_ok [OF inv] waiting_bound [OF inv w(1)] w(2) idle by (auto simp: chans_ok_def)
    with WaitOn show ?thesis by (auto simp: wait_poll_def chan_recv_def)
  qed (simp add: wait_poll_def)
  then have "db_step (Wake i) d \<noteq> None" using w by (auto simp: db_wake_def phase_of_def phase_at_def)
  then show ?thesis by blast
qed

lemma trace_finishes:
  "db_trace evs d = Some d' \<Longrightarrow> list_all (\<lambda>ev. \<not> is_call ev) evs \<Longrightarrow> length evs + unfinished d' = unfinished d"
  by (induction evs arbitrary: d) (auto split: option.splits dest: step_finishes_one)

lemma count_unique:
  assumes "i < length xs" "P (xs ! i)" "\<And>j. j < length xs \<Longrightarrow> P (xs ! j) \<Longrightarrow> j = i"
  shows "length (filter P xs) = 1"
proof -
  have "{j. j < length xs \<and> P (xs ! j)} = {i}" using assms by blast
  then show ?thesis by (simp add: length_filter_conv_card)
qed

section \<open>Properties\<close>

text \<open>
  \<^bold>\<open>C39\<close>. Whatever the interleaving of the callers, at most one of them runs a sync, \<open>syncRunning\<close> says
  whether one does, and no channel operation of \<open>syncStart\<close> or \<open>syncDone\<close> panics or blocks while the
  mutex is held.
\<close>

theorem debouncer_exclusive:
  assumes "db_reachable d"
  shows "length (filter (\<lambda>c. clPhase c = Syncing) (dbCallers d)) = (if syncRunning (dbState d) then 1 else 0) \<and>
    (\<exists>r. syncStart partial (dbState d) = Inr r) \<and> (\<exists>s. syncDone (dbState d) = Inr s)"
proof (intro conjI)
  have inv: "db_inv d" by (rule db_reachable_inv [OF assms])
  then have ok: "sync_ok (dbState d)" and mutex: "mutex_inv d" by (simp_all add: db_inv_def)
  show "length (filter (\<lambda>c. clPhase c = Syncing) (dbCallers d)) = (if syncRunning (dbState d) then 1 else 0)"
  proof (cases "syncRunning (dbState d)")
    case True
    then obtain i where "i < callers d" "clPhase (dbCallers d ! i) = Syncing"
      using mutex by (auto simp: mutex_inv_def phase_at_def)
    then have "length (filter (\<lambda>c. clPhase c = Syncing) (dbCallers d)) = 1"
      using mutex by (intro count_unique) (auto simp: mutex_inv_def phase_at_def)
    with True show ?thesis by simp
  next
    case False
    then show ?thesis using mutex by (auto simp: mutex_inv_def phase_at_def filter_empty_conv in_set_conv_nth)
  qed
  show "\<exists>r. syncStart partial (dbState d) = Inr r"
    using syncStart_wait [OF ok, of partial]
    by (cases "syncRunning (dbState d)"; cases "syncFullCh (dbState d) \<noteq> None \<and> partial")
      (auto simp: syncStart_idle syncStart_ignored)
  show "\<exists>s. syncDone (dbState d) = Inr s" by (simp add: syncDone_ok [OF ok])
qed

text \<open>
  \<^bold>\<open>C3\<close>. Every caller is answered: once no new calls arrive, each further step answers exactly one
  caller, and as long as a caller is unanswered some sync can end or some wait can return, without
  any context being cancelled. So every execution without new calls is finite, and one that goes on
  as long as it can answers everybody.
\<close>

theorem every_caller_is_answered:
  assumes "db_reachable d" "db_trace evs d = Some d'" "list_all (\<lambda>ev. \<not> is_call ev) evs"
  shows "length evs + unfinished d' = unfinished d \<and>
    (unfinished d' = 0 \<or> (\<exists>i. db_step (Done i) d' \<noteq> None \<or> db_step (Wake i) d' \<noteq> None))"
  using trace_finishes [OF assms(2,3)] progress [OF db_reachable_inv [OF db_trace_reachable [OF assms(1,2)]]]
  by blast

text \<open>
  Of the callers that arrive while a sync runs, exactly one is told to requeue, so that its
  changes of the store are picked up by a later sync, and the others return success; this holds for
  every run during which somebody waited and nobody's context was cancelled, and whatever the mix of
  full and partial syncs.
\<close>

theorem debounced_run_requeues_once:
  assumes "db_reachable d"
    and "\<forall>c \<in> set (dbCallers d). clRun c = r \<longrightarrow> clPhase c \<in> {Finished AnsSynced, Finished AnsNil, Finished AnsRequeue}"
    and "\<exists>c \<in> set (dbCallers d). clRun c = r \<and> clPhase c \<noteq> Finished AnsSynced"
  shows "length (filter (\<lambda>c. clRun c = r \<and> clPhase c = Finished AnsRequeue) (dbCallers d)) = 1"
proof -
  have inv: "db_inv d" by (rule db_reachable_inv [OF assms(1)])
  have fin: "phase_at d i \<in> {Finished AnsSynced, Finished AnsNil, Finished AnsRequeue}"
    if "i < callers d" "run_at d i = r" for i
    using assms(2) that by (auto simp: phase_at_def run_at_def)
  then have owner: "role_at d i = Owner \<longleftrightarrow> phase_at d i = Finished AnsRequeue" "role_at d i \<noteq> Gone"
    if "i < callers d" "run_at d i = r" for i
    using that by (fastforce simp: role_at_def)+
  obtain j where "j < callers d" "run_at d j = r" "phase_at d j \<noteq> Finished AnsSynced"
    using assms(3) by (auto simp: in_set_conv_nth phase_at_def run_at_def)
  moreover from this fin [of j] have "role_at d j \<noteq> Runner" by (auto simp: role_at_def)
  ultimately obtain i where i: "i < callers d" "run_at d i = r" "role_at d i = Owner"
    using owner_exists [OF inv, of j] owner(2) by auto
  show ?thesis
  proof (rule count_unique [OF i(1)])
    show "clRun (dbCallers d ! i) = r \<and> clPhase (dbCallers d ! i) = Finished AnsRequeue"
      using i owner(1) [OF i(1,2)] by (simp add: run_at_def phase_at_def)
    fix k assume "k < callers d" "clRun (dbCallers d ! k) = r \<and> clPhase (dbCallers d ! k) = Finished AnsRequeue"
    then show "k = i"
      using i owner(1) [of k] owner_unique [OF inv, of k i] by (simp add: run_at_def phase_at_def)
  qed
qed

subsection \<open>Concrete executions\<close>

text \<open>A sync during which a partial, a full and another partial call arrive.\<close>

definition busy_trace :: "db_event list" where
  "busy_trace = [Call False, Call True, Call False, Call True]"

definition busy :: debouncer where
  "busy = the (db_trace busy_trace db_init)"

definition answered :: debouncer where
  "answered = the (db_trace [Done 0, Wake 1, Wake 2, Wake 3] busy)"

lemmas db_defs = db_init_def db_call_def db_done_def db_wake_def db_cancel_def phase_of_def set_phase_def syncStart_def
  syncDone_def wait_poll_def close_slot_def signal_slot_def chan_send_def chan_close_def chan_recv_def new_chan_def Let_def

lemma busy_eq: "db_trace busy_trace db_init = Some busy"
  by (simp add: busy_def busy_trace_def db_defs)

lemma busy_reachable: "db_reachable busy"
  by (rule db_trace_from_init [OF busy_eq])

lemma busy_value:
  "busy = \<lparr>dbState = \<lparr>syncRunning = True, syncFullCh = Some 1, syncPartialCh = None,
       syncChans = [\<lparr>chBuffered = 0, chClosed = True\<rparr>, \<lparr>chBuffered = 0, chClosed = False\<rparr>]\<rparr>, dbRuns = 0,
     dbCallers = [\<lparr>clRun = 0, clPhase = Syncing\<rparr>, \<lparr>clRun = 0, clPhase = Waiting (WaitOn 0)\<rparr>,
       \<lparr>clRun = 0, clPhase = Waiting (WaitOn 1)\<rparr>, \<lparr>clRun = 0, clPhase = Waiting WaitNil\<rparr>]\<rparr>"
  by (simp add: busy_def busy_trace_def db_defs)

lemma answered_eq: "db_trace [Done 0, Wake 1, Wake 2, Wake 3] busy = Some answered"
  by (simp add: answered_def busy_value db_defs)

lemma answered_callers:
  "dbCallers answered = [\<lparr>clRun = 0, clPhase = Finished AnsSynced\<rparr>, \<lparr>clRun = 0, clPhase = Finished AnsNil\<rparr>,
     \<lparr>clRun = 0, clPhase = Finished AnsRequeue\<rparr>, \<lparr>clRun = 0, clPhase = Finished AnsNil\<rparr>]"
  by (simp add: answered_def busy_value db_defs)

lemma answered_reachable: "db_reachable answered"
  by (rule db_trace_reachable [OF busy_reachable answered_eq])

theorem debouncer_exclusive_witness:
  "length (filter (\<lambda>c. clPhase c = Syncing) (dbCallers busy)) = 1 \<and> (\<exists>s. syncDone (dbState busy) = Inr s)"
  using debouncer_exclusive [OF busy_reachable] by (simp add: busy_value)

theorem every_caller_is_answered_witness: "unfinished busy = 4 \<and> unfinished answered = 0"
  using every_caller_is_answered [OF busy_reachable answered_eq]
  by (simp add: unfinished_def finished_def busy_value answered_callers)

theorem debounced_run_requeues_once_witness:
  "length (filter (\<lambda>c. clRun c = 0 \<and> clPhase c = Finished AnsRequeue) (dbCallers answered)) = 1"
  by (rule debounced_run_requeues_once [OF answered_reachable]) (simp_all add: answered_callers)

text \<open>
  The hypothesis on cancelled contexts is needed. A full waiter whose context is cancelled keeps its
  place in \<open>syncFullCh\<close>; a partial call that arrives behind it returns success at once, and nobody is
  told to requeue.
\<close>

theorem cancelled_waiter_absorbs_partial:
  "\<exists>d. db_trace [Call False, Call False, Cancel 1, Call True, Wake 2, Done 0] db_init = Some d \<and>
     map clPhase (dbCallers d) = [Finished AnsSynced, Finished AnsCtxErr, Finished AnsNil]"
  by (simp add: db_defs)

end
