(* ===== verification/Driver.thy ===== *)
theory Driver
  imports Driver_Endpoints Driver_Domains Sync_Debouncer Gateway_Translation
begin

text \<open>
  The driver of \<^bold>\<open>pkg/managerdriver/driver.go\<close>, \<^bold>\<open>endpoints.go\<close> and \<^bold>\<open>controller-handler.go\<close>: its
  construction, the operations that keep its store up to date, the status updates and the two sync
  functions.

  The cluster is the state \<open>'k\<close> of the client; the client's calls are arguments (\<open>driver_client\<close>). The
  objects of the store carry no status in the model, so the statuses of stored ingresses and
  gateways are fields of the driver; a nil slice is \<open>None\<close>. A sync body runs here without
  interruption: how callers interleave is the subject of the debouncer's theory. The goroutines of an
  \<open>errgroup\<close> run one after the other. Log messages are left out.
\<close>

section \<open>State\<close>

record GatewayStatus =
  gstAddresses :: "string list ptr"
  gstConditions :: "Condition list"
  gstListeners :: "Condition list list"

record 'k Driver =
  drStore :: Store
  drIngressStatus :: "(NamespacedName \<times> string list) list"
  drGatewayStatus :: "(NamespacedName \<times> (int \<times> GatewayStatus)) list"
  drIngressNgrokMetadata :: string
  drGatewayNgrokMetadata :: string
  drControllerLabels :: ControllerLabelValues
  drClusterDomain :: string
  drSync :: sync_state
  drSyncAllowConcurrent :: bool
  drGatewayEnabled :: bool
  drGatewayTCPRouteEnabled :: bool
  drGatewayTLSRouteEnabled :: bool
  drDisableGatewayReferenceGrants :: bool
  drGatewayControllerName :: string
  drDefaultDomainReclaimPolicy :: "string ptr"
  drHasRecorder :: bool
  drDrainState :: "('k \<Rightarrow> bool \<times> 'k) option"

text \<open>The options of \<open>NewDriver\<close>; each sets one field.\<close>

type_synonym 'k DriverOpt = "'k Driver \<Rightarrow> 'k Driver"

definition WithGatewayEnabled :: "bool \<Rightarrow> 'k DriverOpt" where
  "WithGatewayEnabled enabled d = d\<lparr>drGatewayEnabled := enabled\<rparr>"

definition WithGatewayControllerName :: "string \<Rightarrow> 'k DriverOpt" where
  "WithGatewayControllerName name d = d\<lparr>drGatewayControllerName := name\<rparr>"

definition WithDisableGatewayReferenceGrants :: "bool \<Rightarrow> 'k DriverOpt" where
  "WithDisableGatewayReferenceGrants disable d = d\<lparr>drDisableGatewayReferenceGrants := disable\<rparr>"

definition WithSyncAllowConcurrent :: "bool \<Rightarrow> 'k DriverOpt" where
  "WithSyncAllowConcurrent allowed d = d\<lparr>drSyncAllowConcurrent := allowed\<rparr>"

definition WithClusterDomain :: "string \<Rightarrow> 'k DriverOpt" where
  "WithClusterDomain domain d = d\<lparr>drClusterDomain := domain\<rparr>"

definition WithGatewayTCPRouteEnabled :: "bool \<Rightarrow> 'k DriverOpt" where
  "WithGatewayTCPRouteEnabled enabled d = d\<lparr>drGatewayTCPRouteEnabled := enabled\<rparr>"

definition WithGatewayTLSRouteEnabled :: "bool \<Rightarrow> 'k DriverOpt" where
  "WithGatewayTLSRouteEnabled enabled d = d\<lparr>drGatewayTLSRouteEnabled := enabled\<rparr>"

definition WithDefaultDomainReclaimPolicy :: "string \<Rightarrow> 'k DriverOpt" where
  "WithDefaultDomainReclaimPolicy policy d = d\<lparr>drDefaultDomainReclaimPolicy := Some policy\<rparr>"

definition WithEventRecorder :: "'k DriverOpt" where
  "WithEventRecorder d = d\<lparr>drHasRecorder := True\<rparr>"

definition WithDrainState :: "('k \<Rightarrow> bool \<times> 'k) \<Rightarrow> 'k DriverOpt" where
  "WithDrainState state d = d\<lparr>drDrainState := Some state\<rparr>"

definition NewDriver :: "string \<Rightarrow> NamespacedName \<Rightarrow> 'k DriverOpt list \<Rightarrow> 'k Driver" where
  "NewDriver controllerName managerName opts =
     (let d0 = \<lparr>drStore = \<lparr>stStores = NewCacheStores, stControllerName = [], stGatewayControllerName = []\<rparr>,
            drIngressStatus = [], drGatewayStatus = [], drIngressNgrokMetadata = [], drGatewayNgrokMetadata = [],
            drControllerLabels = \<lparr>clvNamespace = nnNamespace managerName, clvName = nnName managerName\<rparr>,
            drClusterDomain = ''svc.cluster.local'',
            drSync = \<lparr>syncRunning = False, syncFullCh = None, syncPartialCh = None, syncChans = []\<rparr>,
            drSyncAllowConcurrent = False, drGatewayEnabled = False, drGatewayTCPRouteEnabled = False,
            drGatewayTLSRouteEnabled = False, drDisableGatewayReferenceGrants = False, drGatewayControllerName = [],
            drDefaultDomainReclaimPolicy = None, drHasRecorder = False, drDrainState = None\<rparr>;
          d = fold (\<lambda>opt d. opt d) opts d0
      in d\<lparr>drStore := \<lparr>stStores = NewCacheStores, stControllerName = controllerName,
          stGatewayControllerName = drGatewayControllerName d\<rparr>\<rparr>)"

text \<open>\<open>json.Marshal\<close> on a string map, which never fails, is \<open>marshal\<close>.\<close>

definition setNgrokMetadataOwner :: "((string \<times> string) list \<Rightarrow> string) \<Rightarrow> string \<Rightarrow> (string \<times> string) list \<Rightarrow> string" where
  "setNgrokMetadataOwner marshal owner customNgrokMetadata =
     (let metaData = fold (\<lambda>(k, v) m. AList.update k v m) customNgrokMetadata []
      in marshal (if map_of metaData ''owned-by'' = None then AList.update ''owned-by'' owner metaData else metaData))"

definition WithNgrokMetadata :: "((string \<times> string) list \<Rightarrow> string) \<Rightarrow> (string \<times> string) list \<Rightarrow> 'k Driver \<Rightarrow> 'k Driver" where
  "WithNgrokMetadata marshal customNgrokMetadata d =
     (let d1 = d\<lparr>drIngressNgrokMetadata := setNgrokMetadataOwner marshal ''ngrok-operator'' customNgrokMetadata\<rparr>
      in if drGatewayEnabled d1
         then d1\<lparr>drGatewayNgrokMetadata := setNgrokMetadataOwner marshal ''kubernetes-gateway-api'' customNgrokMetadata\<rparr>
         else d1)"

section \<open>Keeping the store up to date\<close>

datatype seed_type =
    SeedIngress | SeedIngressClass | SeedService | SeedSecret | SeedNamespace | SeedConfigMap | SeedDomain
  | SeedNgrokTrafficPolicy | SeedAgentEndpoint | SeedCloudEndpoint | SeedGateway | SeedGatewayClass | SeedHTTPRoute
  | SeedReferenceGrant | SeedTCPRoute | SeedTLSRoute

text \<open>The cluster-scoped types are listed without the options.\<close>

definition listObjectsForType ::
  "(seed_type \<Rightarrow> 'o list \<Rightarrow> 'k \<Rightarrow> go_error + k8s_object list) \<Rightarrow> 'o list \<Rightarrow> seed_type \<Rightarrow> 'k \<Rightarrow> go_error + k8s_object list" where
  "listObjectsForType lister listOpts t k =
     lister t (if t \<in> {SeedNamespace, SeedIngressClass, SeedGatewayClass} then [] else listOpts) k"

definition typesToSeed :: "'k Driver \<Rightarrow> seed_type list" where
  "typesToSeed d =
     [SeedIngress, SeedIngressClass, SeedService, SeedSecret, SeedNamespace, SeedConfigMap, SeedDomain,
      SeedNgrokTrafficPolicy, SeedAgentEndpoint, SeedCloudEndpoint] @
     (if drGatewayEnabled d
      then [SeedGateway, SeedGatewayClass, SeedHTTPRoute, SeedReferenceGrant] @
        (if drGatewayTCPRouteEnabled d then [SeedTCPRoute] else []) @
        (if drGatewayTLSRouteEnabled d then [SeedTLSRoute] else [])
      else [])"

datatype seed_error = SeedList go_error | SeedStore store_error

fun store_all :: "k8s_object list \<Rightarrow> Store \<Rightarrow> seed_error option \<times> Store" where
  "store_all [] st = (None, st)"
| "store_all (ob # obs) st =
     (case Store_Update st ob of Inl e \<Rightarrow> (Some (SeedStore e), st) | Inr st' \<Rightarrow> store_all obs st')"

fun seed_types ::
  "(seed_type \<Rightarrow> 'o list \<Rightarrow> 'k \<Rightarrow> go_error + k8s_object list) \<Rightarrow> 'o list \<Rightarrow> seed_type list \<Rightarrow> 'k \<Rightarrow> Store \<Rightarrow>
   seed_error option \<times> Store" where
  "seed_types lister listOpts [] k st = (None, st)"
| "seed_types lister listOpts (t # ts) k st =
     (case listObjectsForType lister listOpts t k of
        Inl e \<Rightarrow> (Some (SeedList e), st)
      | Inr obs \<Rightarrow>
          (case store_all obs st of
             (Some e, st') \<Rightarrow> (Some e, st')
           | (None, st') \<Rightarrow> seed_types lister listOpts ts k st'))"

definition Seed ::
  "(seed_type \<Rightarrow> 'o list \<Rightarrow> 'k \<Rightarrow> go_error + k8s_object list) \<Rightarrow> 'o list \<Rightarrow> 'k \<Rightarrow> 'k Driver \<Rightarrow> seed_error option \<times> 'k Driver" where
  "Seed lister listOpts k d =
     (let (err, st) = seed_types lister listOpts (typesToSeed d) k (drStore d) in (err, d\<lparr>drStore := st\<rparr>))"

text \<open>
  The updates store an object and read it back; \<open>upd\<close> is the common part. Deleting goes to the same
  caches, whether through the store or through \<open>cacheStores\<close>.
\<close>

definition upd :: "k8s_object \<Rightarrow> 'k Driver \<Rightarrow> store_error + 'k Driver" where
  "upd ob d = (case Store_Update (drStore d) ob of Inl e \<Rightarrow> Inl e | Inr st \<Rightarrow> Inr (d\<lparr>drStore := st\<rparr>))"

definition del :: "k8s_object \<Rightarrow> 'k Driver \<Rightarrow> store_error + 'k Driver" where
  "del ob d = (case Store_Delete (drStore d) ob of Inl e \<Rightarrow> Inl e | Inr st \<Rightarrow> Inr (d\<lparr>drStore := st\<rparr>))"

definition UpdateIngress ::
  "Ingress \<Rightarrow> 'k Driver \<Rightarrow> store_error + ((store_error + ingress_error option) + Ingress) \<times> 'k Driver" where
  "UpdateIngress ing d =
     (case upd (ObjIngress ing) d of
        Inl e \<Rightarrow> Inl e | Inr d' \<Rightarrow> Inr (GetNgrokIngressV1 (drStore d') (ingName ing) (ingNamespace ing), d'))"

definition UpdateGateway :: "Gateway \<Rightarrow> 'k Driver \<Rightarrow> store_error + (store_error + Gateway) \<times> 'k Driver" where
  "UpdateGateway gw d =
     (case upd (ObjGateway gw) d of
        Inl e \<Rightarrow> Inl e | Inr d' \<Rightarrow> Inr (GetGateway (drStore d') (gwName gw) (gwNamespace gw), d'))"

definition UpdateHTTPRoute :: "HTTPRoute \<Rightarrow> 'k Driver \<Rightarrow> store_error + (store_error + HTTPRoute) \<times> 'k Driver" where
  "UpdateHTTPRoute r d =
     (case upd (ObjHTTPRoute r) d of
        Inl e \<Rightarrow> Inl e | Inr d' \<Rightarrow> Inr (GetHTTPRoute (drStore d') (hroName r) (hroNamespace r), d'))"

definition UpdateTCPRoute :: "TCPRoute \<Rightarrow> 'k Driver \<Rightarrow> store_error + (store_error + TCPRoute) \<times> 'k Driver" where
  "UpdateTCPRoute r d =
     (case upd (ObjTCPRoute r) d of
        Inl e \<Rightarrow> Inl e | Inr d' \<Rightarrow> Inr (GetTCPRoute (drStore d') (troName r) (troNamespace r), d'))"

definition UpdateTLSRoute :: "TLSRoute \<Rightarrow> 'k Driver \<Rightarrow> store_error + (store_error + TLSRoute) \<times> 'k Driver" where
  "UpdateTLSRoute r d =
     (case upd (ObjTLSRoute r) d of
        Inl e \<Rightarrow> Inl e | Inr d' \<Rightarrow> Inr (GetTLSRoute (drStore d') (tlroName r) (tlroNamespace r), d'))"

definition UpdateReferenceGrant ::
  "ReferenceGrant \<Rightarrow> 'k Driver \<Rightarrow> store_error + (store_error + ReferenceGrant) \<times> 'k Driver" where
  "UpdateReferenceGrant g d =
     (case upd (ObjReferenceGrant g) d of
        Inl e \<Rightarrow> Inl e | Inr d' \<Rightarrow> Inr (GetReferenceGrant (drStore d') (rgName g) (rgNamespace g), d'))"

definition UpdateNamespace :: "Namespace \<Rightarrow> 'k Driver \<Rightarrow> store_error + (store_error + Namespace) \<times> 'k Driver" where
  "UpdateNamespace n d =
     (case upd (ObjNamespace n) d of
        Inl e \<Rightarrow> Inl e | Inr d' \<Rightarrow> Inr (GetNamespaceV1 (drStore d') (nsName n), d'))"

definition DeleteIngress :: "Ingress \<Rightarrow> 'k Driver \<Rightarrow> store_error + 'k Driver" where
  "DeleteIngress ing d = del (ObjIngress ing) d"

definition DeleteGateway :: "Gateway \<Rightarrow> 'k Driver \<Rightarrow> store_error + 'k Driver" where
  "DeleteGateway gw d = del (ObjGateway gw) d"

definition DeleteHTTPRoute :: "HTTPRoute \<Rightarrow> 'k Driver \<Rightarrow> store_error + 'k Driver" where
  "DeleteHTTPRoute r d = del (ObjHTTPRoute r) d"

definition DeleteTCPRoute :: "TCPRoute \<Rightarrow> 'k Driver \<Rightarrow> store_error + 'k Driver" where
  "DeleteTCPRoute r d = del (ObjTCPRoute r) d"

definition DeleteTLSRoute :: "TLSRoute \<Rightarrow> 'k Driver \<Rightarrow> store_error + 'k Driver" where
  "DeleteTLSRoute r d = del (ObjTLSRoute r) d"

definition DeleteNamedIngress :: "NamespacedName \<Rightarrow> 'k Driver \<Rightarrow> store_error + 'k Driver" where
  "DeleteNamedIngress n d =
     del (ObjIngress \<lparr>ingName = nnName n, ingNamespace = nnNamespace n, ingAnnotations = [], ingClassName = None,
       ingDefaultBackend = None, ingRules = []\<rparr>) d"

definition DeleteNamedGateway :: "NamespacedName \<Rightarrow> 'k Driver \<Rightarrow> store_error + 'k Driver" where
  "DeleteNamedGateway n d =
     del (ObjGateway \<lparr>gwName = nnName n, gwNamespace = nnNamespace n, gwClassName = [], gwAnnotations = [],
       gwListeners = [], gwAddresses = [], gwInfrastructure = None, gwTLS = None\<rparr>) d"

definition DeleteNamedHTTPRoute :: "NamespacedName \<Rightarrow> 'k Driver \<Rightarrow> store_error + 'k Driver" where
  "DeleteNamedHTTPRoute n d =
     del (ObjHTTPRoute \<lparr>hroName = nnName n, hroNamespace = nnNamespace n, hroParentRefs = [], hroHostnames = [],
       hroRules = []\<rparr>) d"

definition DeleteNamedTCPRoute :: "NamespacedName \<Rightarrow> 'k Driver \<Rightarrow> store_error + 'k Driver" where
  "DeleteNamedTCPRoute n d =
     del (ObjTCPRoute \<lparr>troName = nnName n, troNamespace = nnNamespace n, troParentRefs = [], troRules = []\<rparr>) d"

definition DeleteNamedTLSRoute :: "NamespacedName \<Rightarrow> 'k Driver \<Rightarrow> store_error + 'k Driver" where
  "DeleteNamedTLSRoute n d =
     del (ObjTLSRoute \<lparr>tlroName = nnName n, tlroNamespace = nnNamespace n, tlroParentRefs = [], tlroHostnames = [],
       tlroRules = []\<rparr>) d"

definition DeleteReferenceGrant :: "NamespacedName \<Rightarrow> 'k Driver \<Rightarrow> store_error + 'k Driver" where
  "DeleteReferenceGrant n d =
     del (ObjReferenceGrant \<lparr>rgName = nnName n, rgNamespace = nnNamespace n, rgFrom = [], rgTo = []\<rparr>) d"

definition DeleteNamespace :: "string \<Rightarrow> 'k Driver \<Rightarrow> store_error + 'k Driver" where
  "DeleteNamespace name d = del (ObjNamespace \<lparr>nsName = name, nsLabels = []\<rparr>) d"

end
