(* ===== verification/Driver_Sync.thy ===== *)
theory Driver_Sync
  imports Driver
begin

text \<open>
  The status updates and the sync functions of the driver: \<open>updateStatuses\<close>, \<open>Sync\<close> and
  \<open>SyncEndpoints\<close> of \<^bold>\<open>pkg/managerdriver/driver.go\<close> and \<^bold>\<open>endpoints.go\<close>, and the event handler of
  \<^bold>\<open>controller-handler.go\<close>.
\<close>

section \<open>The client and the environment\<close>

record 'k driver_client =
  dcAgents :: "(AgentEndpointSpec, 'k) managed_api"
  dcClouds :: "(CloudEndpointSpec, 'k) managed_api"
  dcDomains :: "'k domain_api"
  dcListDomains :: "'k \<Rightarrow> go_error + Domain list"
  dcGetIngressStatus :: "NamespacedName \<Rightarrow> 'k \<Rightarrow> go_error + string list ptr"
  dcUpdateIngressStatus :: "NamespacedName \<Rightarrow> string list \<Rightarrow> 'k \<Rightarrow> go_error option \<times> 'k"
  dcGetGatewayStatus :: "NamespacedName \<Rightarrow> 'k \<Rightarrow> go_error + GatewayStatus"
  dcUpdateGatewayStatus :: "NamespacedName \<Rightarrow> GatewayStatus \<Rightarrow> 'k \<Rightarrow> go_error option \<times> 'k"
  dcRetryOnConflict :: "'k retrier"
  dcEvent :: "NamespacedName \<Rightarrow> string \<Rightarrow> string \<Rightarrow> 'k \<Rightarrow> 'k"

text \<open>What the translation depends on, the comparisons of specifications, and the orders of maps.\<close>

record driver_env =
  deGateway :: gateway_env
  deSha :: "string \<Rightarrow> string"
  deCacheOrder :: "agent_cache \<Rightarrow> agent_cache"
  deVHostOrder :: "IRVirtualHost list \<Rightarrow> IRVirtualHost list"
  deAgentEq :: "AgentEndpointSpec \<Rightarrow> AgentEndpointSpec \<Rightarrow> bool"
  deCloudEq :: "CloudEndpointSpec \<Rightarrow> CloudEndpointSpec \<Rightarrow> bool"
  deAgentOrder :: "AgentEndpointSpec desired \<Rightarrow> AgentEndpointSpec desired"
  deCloudOrder :: "CloudEndpointSpec desired \<Rightarrow> CloudEndpointSpec desired"
  deDomainOrder :: "domain_map \<Rightarrow> domain_map"
  deMeta :: kube_meta

section \<open>Statuses\<close>

definition getDomainsByDomain :: "'k driver_client \<Rightarrow> 'k \<Rightarrow> go_error + domain_map" where
  "getDomainsByDomain c k =
     (case dcListDomains c k of
        Inl e \<Rightarrow> Inl e
      | Inr domains \<Rightarrow> Inr (fold (\<lambda>d m. AList.update (dsDomain (domain_spec d)) d m) domains []))"

definition ingress_nn :: "Ingress \<Rightarrow> NamespacedName" where
  "ingress_nn ing = \<lparr>nnName = ingName ing, nnNamespace = ingNamespace ing\<rparr>"

definition recordDomainEventsForIngress ::
  "kube_meta \<Rightarrow> 'k Driver \<Rightarrow> 'k driver_client \<Rightarrow> Ingress \<Rightarrow> domain_map \<Rightarrow> 'k \<Rightarrow> 'k" where
  "recordDomainEventsForIngress km d c ing domains k =
     (if \<not> drHasRecorder d then k
      else fold (\<lambda>rule k.
          case map_of domains (iruHost rule) of
            None \<Rightarrow> k
          | Some dmn \<Rightarrow>
              (case kmFindStatusCondition km (dstConditions (domain_status dmn)) ''Ready'' of
                 None \<Rightarrow> k
               | Some ready \<Rightarrow>
                   if cnStatus ready = ''False''
                   then dcEvent c (ingress_nn ing) (iruHost rule) (cnMessage ready) k
                   else k))
        (ingRules ing) k)"

definition gateway_nn :: "Gateway \<Rightarrow> NamespacedName" where
  "gateway_nn gw = \<lparr>nnName = gwName gw, nnNamespace = gwNamespace gw\<rparr>"

text \<open>The computed status is never nil, so a stored nil status always differs from it.\<close>

definition ingress_needs_update :: "'k Driver \<Rightarrow> domain_map \<Rightarrow> Ingress \<Rightarrow> (NamespacedName \<times> string list) option" where
  "ingress_needs_update d domains ing =
     (let newLBIPStatus = calculateIngressLoadBalancerIPStatus ing domains
      in if map_of (drIngressStatus d) (ingress_nn ing) = Some newLBIPStatus then None
         else Some (ingress_nn ing, newLBIPStatus))"

definition write_ingress_status :: "'k driver_client \<Rightarrow> NamespacedName \<times> string list \<Rightarrow> 'k \<Rightarrow> go_error option \<times> 'k" where
  "write_ingress_status c change k =
     (let (key, status) = change in
      case dcRetryOnConflict c (\<lambda>k.
          case dcGetIngressStatus c key k of
            Inl e \<Rightarrow> if kube_reason_of e = Some KubeNotFound then (None, k) else (Some e, k)
          | Inr current \<Rightarrow> if current = Some status then (None, k) else dcUpdateIngressStatus c key status k) k of
        (Some e, k') \<Rightarrow>
          (Some (WrappedError (''update ingress status '' @ nnNamespace key @ ''/'' @ nnName key) e), k')
      | (None, k') \<Rightarrow> (None, k'))"

definition updateIngressStatuses :: "kube_meta \<Rightarrow> 'k Driver \<Rightarrow> 'k driver_client \<Rightarrow> 'k \<Rightarrow> go_error option \<times> 'k" where
  "updateIngressStatuses km d c k =
     (case getDomainsByDomain c k of
        Inl e \<Rightarrow> (Some e, k)
      | Inr domains \<Rightarrow>
          let ings = ListNgrokIngressesV1 (drStore d);
              k1 = fold (\<lambda>ing k. recordDomainEventsForIngress km d c ing domains k) ings k;
              needsUpdate = List.map_filter (ingress_needs_update d domains) ings
          in run_group (write_ingress_status c) needsUpdate k1)"

definition IsStatusConditionFalse :: "kube_meta \<Rightarrow> Condition list \<Rightarrow> string \<Rightarrow> bool" where
  "IsStatusConditionFalse km cs t =
     (case kmFindStatusCondition km cs t of Some c \<Rightarrow> cnStatus c = ''False'' | None \<Rightarrow> False)"

definition programmed :: "int \<Rightarrow> Condition" where
  "programmed generation = \<lparr>cnType = ''Programmed'', cnStatus = ''True'', cnReason = ''Programmed'', cnMessage = [],
     cnObservedGeneration = generation\<rparr>"

definition new_gateway_status :: "kube_meta \<Rightarrow> Gateway \<Rightarrow> domain_map \<Rightarrow> int \<times> GatewayStatus \<Rightarrow> GatewayStatus" where
  "new_gateway_status km gw domains old =
     (let (generation, st) = old;
          accepted = (\<lambda>cs. \<not> IsStatusConditionFalse km cs ''Accepted'')
      in st\<lparr>gstAddresses := Some (gateway_addresses gw domains),
            gstListeners := map (\<lambda>cs. if accepted cs then kmSetStatusCondition km (programmed generation) cs else cs) (gstListeners st),
            gstConditions := fold (\<lambda>cs conds. if accepted cs then kmSetStatusCondition km (programmed generation) conds else conds)
              (gstListeners st) (gstConditions st)\<rparr>)"

text \<open>
  The comparison of the stored status with the new one compares a struct with a pointer and is
  false, so the status of every gateway is replaced in the store and looked at in the cluster.
\<close>

definition write_gateway_status ::
  "'k driver_client \<Rightarrow> NamespacedName \<times> GatewayStatus \<Rightarrow> 'k \<Rightarrow> go_error option \<times> 'k" where
  "write_gateway_status c change k =
     (let (key, status) = change in
      dcRetryOnConflict c (\<lambda>k.
        case dcGetGatewayStatus c key k of
          Inl e \<Rightarrow> if kube_reason_of e = Some KubeNotFound then (None, k) else (Some e, k)
        | Inr current \<Rightarrow> if current = status then (None, k) else dcUpdateGatewayStatus c key status k) k)"

definition no_gateway_status :: "int \<times> GatewayStatus" where
  "no_gateway_status = (0, \<lparr>gstAddresses = None, gstConditions = [], gstListeners = []\<rparr>)"

definition stored_gateway_status :: "'k Driver \<Rightarrow> Gateway \<Rightarrow> int \<times> GatewayStatus" where
  "stored_gateway_status d gw =
     (case map_of (drGatewayStatus d) (gateway_nn gw) of Some s \<Rightarrow> s | None \<Rightarrow> no_gateway_status)"

definition updateGatewayStatuses ::
  "kube_meta \<Rightarrow> 'k Driver \<Rightarrow> 'k driver_client \<Rightarrow> 'k \<Rightarrow> (go_error option \<times> 'k Driver) \<times> 'k" where
  "updateGatewayStatuses km d c k =
     (case getDomainsByDomain c k of
        Inl e \<Rightarrow> ((Some e, d), k)
      | Inr domains \<Rightarrow>
          let gws = ListNgrokGateways (drStore d);
              needsUpdate = map (\<lambda>gw. (gateway_nn gw, new_gateway_status km gw domains (stored_gateway_status d gw))) gws;
              d' = d\<lparr>drGatewayStatus := fold (\<lambda>gw m. AList.update (gateway_nn gw)
                (fst (stored_gateway_status d gw), new_gateway_status km gw domains (stored_gateway_status d gw)) m)
                gws (drGatewayStatus d)\<rparr>
          in if needsUpdate = [] then ((None, d'), k)
             else (case run_group (write_gateway_status c) needsUpdate k of (err, k') \<Rightarrow> ((err, d'), k')))"

definition updateHTTPRouteStatuses :: "'k \<Rightarrow> go_error option \<times> 'k" where
  "updateHTTPRouteStatuses k = (None, k)"

definition updateStatuses ::
  "kube_meta \<Rightarrow> 'k Driver \<Rightarrow> 'k driver_client \<Rightarrow> 'k \<Rightarrow> (go_error option \<times> 'k Driver) \<times> 'k" where
  "updateStatuses km d c k =
     (let (err1, k1) = updateIngressStatuses km d c k
      in if drGatewayEnabled d then
           (case updateHTTPRouteStatuses k1 of
              (Some e, k2) \<Rightarrow> ((first_error err1 (Some e), d), k2)
            | (None, k2) \<Rightarrow>
                (case updateGatewayStatuses km d c k2 of ((err2, d'), k3) \<Rightarrow> ((first_error err1 err2, d'), k3)))
         else ((err1, d), k1))"

section \<open>Syncing\<close>

text \<open>An endpoint of the translation as the object to create.\<close>

definition agent_object :: "AgentEndpoint \<Rightarrow> AgentEndpointSpec managed" where
  "agent_object ae = \<lparr>mgName = aeName ae, mgNamespace = aeNamespace ae, mgUID = [], mgLabels = aeLabels ae,
     mgAnnotations = aeAnnotations ae, mgOwnerKinds = [], mgDeleting = False, mgSpec = aeSpec ae, mgStatusID = []\<rparr>"

definition cloud_object :: "CloudEndpoint \<Rightarrow> CloudEndpointSpec managed" where
  "cloud_object ce = \<lparr>mgName = ceName ce, mgNamespace = ceNamespace ce, mgUID = [], mgLabels = ceLabels ce,
     mgAnnotations = ceAnnotations ce, mgOwnerKinds = [], mgDeleting = False, mgSpec = ceSpec ce, mgStatusID = []\<rparr>"

definition NewTranslator :: "'k Driver \<Rightarrow> translator" where
  "NewTranslator d =
     \<lparr>tStore = drStore d, tManagedResourceLabels = Labels (drControllerLabels d),
      tDefaultIngressMetadata = drIngressNgrokMetadata d, tDefaultGatewayMetadata = drGatewayNgrokMetadata d,
      tClusterDomain = drClusterDomain d, tDisableGatewayReferenceGrants = drDisableGatewayReferenceGrants d\<rparr>"

definition driver_translate ::
  "driver_env \<Rightarrow> 'k Driver \<Rightarrow> panic + (NamespacedName \<times> CloudEndpoint) list \<times> (NamespacedName \<times> AgentEndpoint) list" where
  "driver_translate env d =
     Translate (deGateway env) (deSha env) (deCacheOrder env) (deVHostOrder env) (NewTranslator d)"

definition desired_agents :: "(NamespacedName \<times> AgentEndpoint) list \<Rightarrow> AgentEndpointSpec desired" where
  "desired_agents agents = map (\<lambda>(key, ae). (key, agent_object ae)) agents"

definition desired_clouds :: "(NamespacedName \<times> CloudEndpoint) list \<Rightarrow> CloudEndpointSpec desired" where
  "desired_clouds clouds = map (\<lambda>(key, ce). (key, cloud_object ce)) clouds"

definition applyAgentEndpoints ::
  "driver_env \<Rightarrow> 'k Driver \<Rightarrow> 'k driver_client \<Rightarrow> (NamespacedName \<times> AgentEndpoint) list \<Rightarrow> AgentEndpointSpec managed list \<Rightarrow> 'k \<Rightarrow>
   go_error option \<times> 'k" where
  "applyAgentEndpoints env d c agents current k =
     applyEndpoints (drControllerLabels d) (deAgentEq env) (deAgentOrder env) (dcAgents c) (desired_agents agents) current k"

definition applyCloudEndpoints ::
  "driver_env \<Rightarrow> 'k Driver \<Rightarrow> 'k driver_client \<Rightarrow> (NamespacedName \<times> CloudEndpoint) list \<Rightarrow> CloudEndpointSpec managed list \<Rightarrow> 'k \<Rightarrow>
   go_error option \<times> 'k" where
  "applyCloudEndpoints env d c clouds current k =
     applyEndpoints (drControllerLabels d) (deCloudEq env) (deCloudOrder env) (dcClouds c) (desired_clouds clouds) current k"

text \<open>The bodies of the two functions; a panic of the translation is passed on.\<close>

definition sync_endpoints_body ::
  "driver_env \<Rightarrow> 'k Driver \<Rightarrow> 'k driver_client \<Rightarrow> 'k \<Rightarrow> panic + go_error option \<times> 'k" where
  "sync_endpoints_body env d c k =
     (case driver_translate env d of
        Inl p \<Rightarrow> Inl p
      | Inr (clouds, agents) \<Rightarrow> Inr (
          case listEndpointsForController (drControllerLabels d) (dcAgents c) k of
            Inl e \<Rightarrow> (Some e, k)
          | Inr currentAgents \<Rightarrow>
              (case listEndpointsForController (drControllerLabels d) (dcClouds c) k of
                 Inl e \<Rightarrow> (Some e, k)
               | Inr currentClouds \<Rightarrow>
                   (case applyAgentEndpoints env d c agents currentAgents k of
                      (Some e, k1) \<Rightarrow> (Some e, k1)
                    | (None, k1) \<Rightarrow> applyCloudEndpoints env d c clouds currentClouds k1))))"

definition sync_body ::
  "driver_env \<Rightarrow> 'k Driver \<Rightarrow> 'k driver_client \<Rightarrow> 'k \<Rightarrow> panic + (go_error option \<times> 'k Driver) \<times> 'k" where
  "sync_body env d c k =
     (let domains = calculateDomainSet (geParse (deGateway env)) (drStore d) (drIngressNgrokMetadata d) (drGatewayNgrokMetadata d)
      in case driver_translate env d of
        Inl p \<Rightarrow> Inl p
      | Inr (clouds, agents) \<Rightarrow> Inr (
          case listEndpointsForController (drControllerLabels d) (dcAgents c) k of
            Inl e \<Rightarrow> ((Some e, d), k)
          | Inr currAgents \<Rightarrow>
              (case listEndpointsForController (drControllerLabels d) (dcClouds c) k of
                 Inl e \<Rightarrow> ((Some e, d), k)
               | Inr currClouds \<Rightarrow>
                   (case applyDomains (drControllerLabels d) (drDefaultDomainReclaimPolicy d) (deDomainOrder env) (dcDomains c)
                       (totalDomains domains) k of
                      (Some e, k1) \<Rightarrow> ((Some e, d), k1)
                    | (None, k1) \<Rightarrow>
                        (case applyAgentEndpoints env d c agents currAgents k1 of
                           (Some e, k2) \<Rightarrow> ((Some e, d), k2)
                         | (None, k2) \<Rightarrow>
                             (case applyCloudEndpoints env d c clouds currClouds k2 of
                                (Some e, k3) \<Rightarrow> ((Some e, d), k3)
                              | (None, k3) \<Rightarrow> updateStatuses (deMeta env) d c k3))))))"

text \<open>
  What a call comes to: it returns, it has to wait for the sync that is running, or it panics. A
  caller that proceeds runs \<open>syncDone\<close> when its body is through, also when the body panics.
\<close>

datatype 'k sync_outcome =
    SyncReturns "go_error option" "'k Driver" 'k
  | SyncWaits sync_wait "'k Driver" 'k
  | SyncPanics

definition debounced ::
  "bool \<Rightarrow> ('k Driver \<Rightarrow> 'k \<Rightarrow> panic + (go_error option \<times> 'k Driver) \<times> 'k) \<Rightarrow> 'k Driver \<Rightarrow> 'k \<Rightarrow> 'k sync_outcome" where
  "debounced partial body d k =
     (if drSyncAllowConcurrent d then
        (case body d k of Inl p \<Rightarrow> SyncPanics | Inr ((err, d'), k') \<Rightarrow> SyncReturns err d' k')
      else
        case syncStart partial (drSync d) of
          Inl f \<Rightarrow> SyncPanics
        | Inr (Some w, s) \<Rightarrow> SyncWaits w (d\<lparr>drSync := s\<rparr>) k
        | Inr (None, s) \<Rightarrow>
            (case body (d\<lparr>drSync := s\<rparr>) k of
               Inl p \<Rightarrow> SyncPanics
             | Inr ((err, d'), k') \<Rightarrow>
                 (case syncDone (drSync d') of
                    Inl f \<Rightarrow> SyncPanics
                  | Inr s' \<Rightarrow> SyncReturns err (d'\<lparr>drSync := s'\<rparr>) k')))"

definition Sync :: "driver_env \<Rightarrow> 'k driver_client \<Rightarrow> 'k Driver \<Rightarrow> 'k \<Rightarrow> 'k sync_outcome" where
  "Sync env c d k =
     (case IsDraining (drDrainState d) k of
        (True, k1) \<Rightarrow> SyncReturns None d k1
      | (False, k1) \<Rightarrow> debounced False (\<lambda>d k. sync_body env d c k) d k1)"

definition SyncEndpoints :: "driver_env \<Rightarrow> 'k driver_client \<Rightarrow> 'k Driver \<Rightarrow> 'k \<Rightarrow> 'k sync_outcome" where
  "SyncEndpoints env c d k =
     debounced True (\<lambda>d k. case sync_endpoints_body env d c k of Inl p \<Rightarrow> Inl p | Inr (err, k') \<Rightarrow> Inr ((err, d), k')) d k"

section \<open>The event handler\<close>

datatype store_event = CreateEvent k8s_object | UpdateEvent k8s_object | DeleteEvent k8s_object | GenericEvent k8s_object

text \<open>Errors are logged; only an update also refreshes the statuses.\<close>

definition handle_event :: "kube_meta \<Rightarrow> 'k driver_client \<Rightarrow> store_event \<Rightarrow> 'k Driver \<Rightarrow> 'k \<Rightarrow> 'k Driver \<times> 'k" where
  "handle_event km c ev d k =
     (case ev of
        CreateEvent ob \<Rightarrow> (case upd ob d of Inl e \<Rightarrow> (d, k) | Inr d' \<Rightarrow> (d', k))
      | UpdateEvent ob \<Rightarrow>
          (case upd ob d of
             Inl e \<Rightarrow> (d, k)
           | Inr d' \<Rightarrow> (case updateStatuses km d' c k of ((err, d''), k') \<Rightarrow> (d'', k')))
      | DeleteEvent ob \<Rightarrow> (case del ob d of Inl e \<Rightarrow> (d, k) | Inr d' \<Rightarrow> (d', k))
      | GenericEvent ob \<Rightarrow> (case upd ob d of Inl e \<Rightarrow> (d, k) | Inr d' \<Rightarrow> (d', k)))"

end
