(* ===== verification/Driver_Properties.thy ===== *)
theory Driver_Properties
  imports Driver_Sync
begin

text \<open>
  What a sync achieves: the endpoints of the cluster become those of the translation, and nothing
  else is touched. The two kinds of endpoints live in one cluster; the interface
  \<open>managed_clients\<close> adds to the laws of the two clients that neither touches the other's objects.
\<close>

section \<open>The translation as a desired state\<close>

definition name_keyed :: "('a \<Rightarrow> string) \<Rightarrow> ('a \<Rightarrow> string) \<Rightarrow> (NamespacedName \<times> 'a) list \<Rightarrow> bool" where
  "name_keyed name namespace m \<longleftrightarrow> distinct (map fst m) \<and>
     list_all (\<lambda>(key, x). key = \<lparr>nnName = name x, nnNamespace = namespace x\<rparr>) m"

lemma name_keyed_update:
  assumes "name_keyed name namespace m" "key = \<lparr>nnName = name x, nnNamespace = namespace x\<rparr>"
  shows "name_keyed name namespace (AList.update key x m)"
  using assms update_values [of "\<lambda>(key, x). key = \<lparr>nnName = name x, nnNamespace = namespace x\<rparr>" m key x]
  by (auto simp: name_keyed_def distinct_update)

lemma publish_keyed:
  "name_keyed ceName ceNamespace (trCloud st) \<Longrightarrow> name_keyed ceName ceNamespace (trCloud (publish sha v pol st))"
  by (auto simp: publish_def intro!: name_keyed_update split: option.splits sum.splits)

lemma translate_vhost_keyed:
  "name_keyed ceName ceNamespace (trCloud st) \<Longrightarrow> name_keyed ceName ceNamespace (trCloud (translate_vhost sha cd v st))"
  by (auto simp: translate_vhost_def Let_def intro!: publish_keyed split: prod.splits sum.splits)

lemma fold_keyed:
  assumes "\<And>x m. P m \<Longrightarrow> P (f x m)" "P m"
  shows "P (fold f xs m)"
  using assms(2) by (induction xs arbitrary: m) (auto intro: assms(1))

lemma IRToEndpoints_keyed:
  "name_keyed ceName ceNamespace (fst (IRToEndpoints sha cd order hp vs))"
  "name_keyed aeName aeNamespace (snd (IRToEndpoints sha cd order hp vs))"
proof -
  show "name_keyed ceName ceNamespace (fst (IRToEndpoints sha cd order hp vs))"
    unfolding IRToEndpoints_def Let_def fst_conv
    by (rule fold_keyed [where P = "\<lambda>st. name_keyed ceName ceNamespace (trCloud st)"])
      (simp_all add: translate_vhost_keyed, simp add: name_keyed_def)
  show "name_keyed aeName aeNamespace (snd (IRToEndpoints sha cd order hp vs))"
    unfolding IRToEndpoints_def Let_def snd_conv
    by (rule fold_keyed [where P = "name_keyed aeName aeNamespace"])
      (auto intro: name_keyed_update, simp add: name_keyed_def)
qed

lemma Translate_keyed:
  assumes "Translate env sha order vorder tr = Inr (clouds, agents)"
  shows "name_keyed ceName ceNamespace clouds" "name_keyed aeName aeNamespace agents"
proof -
  obtain hp vs where r: "IRToEndpoints sha (tClusterDomain tr) order hp vs = (clouds, agents)"
    using assms by (auto simp: Translate_def translate_vhosts_def split: prod.splits sum.splits)
  show "name_keyed ceName ceNamespace clouds" "name_keyed aeName aeNamespace agents"
    using IRToEndpoints_keyed [of sha "tClusterDomain tr" order hp vs] by (simp_all add: r)
qed

lemma desired_keyed:
  "name_keyed aeName aeNamespace agents \<Longrightarrow> keyed (desired_agents agents)"
  "name_keyed ceName ceNamespace clouds \<Longrightarrow> keyed (desired_clouds clouds)"
  by (auto simp: name_keyed_def keyed_def desired_agents_def desired_clouds_def list_all_iff mg_key_def agent_object_def
      cloud_object_def comp_def case_prod_beta)

lemma map_of_desired:
  "map_of (desired_agents agents) key = map_option agent_object (map_of agents key)"
  "map_of (desired_clouds clouds) key = map_option cloud_object (map_of clouds key)"
  by (simp_all add: desired_agents_def desired_clouds_def map_of_map)

section \<open>Two kinds of endpoints in one cluster\<close>

text \<open>What the operations of a client may change of a view of the cluster.\<close>

definition leaves :: "('sp, 'k) managed_api \<Rightarrow> ('k \<Rightarrow> 'v) \<Rightarrow> bool" where
  "leaves api view \<longleftrightarrow> (\<forall>ob k. view (snd (eaUpdate api ob k)) = view k \<and> view (snd (eaDelete api ob k)) = view k \<and>
     view (snd (eaCreate api ob k)) = view k)"

lemma leavesD:
  "leaves api view \<Longrightarrow> eaUpdate api ob k = (err, k') \<Longrightarrow> view k' = view k"
  "leaves api view \<Longrightarrow> eaDelete api ob k = (err, k') \<Longrightarrow> view k' = view k"
  "leaves api view \<Longrightarrow> eaCreate api ob k = (err, k') \<Longrightarrow> view k' = view k"
  unfolding leaves_def by (metis snd_conv)+

lemma apply_current_leaves:
  "leaves api view \<Longrightarrow> apply_current clv deq api current desired k = (r, k') \<Longrightarrow> view k' = view k"
proof (induction clv deq api current desired k arbitrary: r k' rule: apply_current.induct)
  case (2 clv deq api cur current desired k)
  then show ?case
    by (auto simp: Let_def split: if_splits option.splits prod.splits dest: leavesD)
qed simp

lemma create_desired_leaves:
  "leaves api view \<Longrightarrow> create_desired api obs k = (err, k') \<Longrightarrow> view k' = view k"
  by (induction obs arbitrary: k) (auto split: prod.splits option.splits dest: leavesD)

lemma applyEndpoints_leaves:
  "leaves api view \<Longrightarrow> applyEndpoints clv deq order api desired current k = (err, k') \<Longrightarrow> view k' = view k"
proof -
  assume lv: "leaves api view" and ap: "applyEndpoints clv deq order api desired current k = (err, k')"
  obtain e ds k1 where first: "apply_current clv deq api current desired k = ((e, ds), k1)" by (metis surj_pair)
  have "view k1 = view k" by (rule apply_current_leaves [OF lv first])
  moreover have "view k' = view k1"
    using ap first create_desired_leaves [OF lv, of "map snd (order ds)" k1 err k']
    by (cases e) (auto simp: applyEndpoints_def)
  ultimately show ?thesis by simp
qed

text \<open>
  The objects that a sync must leave alone: those that neither selector of this operator selects,
  because users or another operator made them, and those owned by a Service.
\<close>

definition foreign :: "ControllerLabelValues \<Rightarrow> 'sp managed \<Rightarrow> bool" where
  "foreign clv ob \<longleftrightarrow>
     (\<forall>sel \<in> set (Selectors clv). \<not> matches_labels sel (mgLabels ob)) \<or> ''Service'' \<in> set (mgOwnerKinds ob)"

lemma skipped_iff_foreign:
  assumes "ValidateControllerLabelValues clv = None"
  shows "shouldBeSkippedInApply clv ob \<longleftrightarrow> foreign clv ob"
proof -
  have "clvNamespace clv \<noteq> []" "clvName clv \<noteq> []"
    using assms by (auto simp: ValidateControllerLabelValues_def split: if_splits)
  then show ?thesis
    by (auto simp: shouldBeSkippedInApply_def foreign_def HasLabels_def Selectors_def Has_iff_selected list_ex_iff)
qed

text \<open>
  \<open>settled clv ds old new\<close>: every desired object is there, with its specification, labels and
  annotations; it replaces nothing that the driver must leave alone; of the other objects those that
  the driver manages are gone or being deleted, and the rest is as it was.
\<close>

definition settled ::
  "ControllerLabelValues \<Rightarrow> 'sp desired \<Rightarrow> (NamespacedName \<Rightarrow> 'sp managed option) \<Rightarrow> (NamespacedName \<Rightarrow> 'sp managed option) \<Rightarrow> bool" where
  "settled clv ds old new \<longleftrightarrow> (\<forall>key.
     case map_of ds key of
       Some des \<Rightarrow> (\<exists>ob. new key = Some ob \<and> meets des ob) \<and>
         (case old key of None \<Rightarrow> True | Some ob \<Rightarrow> \<not> foreign clv ob)
     | None \<Rightarrow>
         (case old key of
            None \<Rightarrow> new key = None
          | Some ob \<Rightarrow> if foreign clv ob then new key = Some ob else gone (new key)))"

locale managed_clients =
  agents: managed_client aapi aobjs + clouds: managed_client capi cobjs
  for aapi :: "(AgentEndpointSpec, 'k) managed_api" and aobjs
    and capi :: "(CloudEndpointSpec, 'k) managed_api" and cobjs +
  assumes agents_leave: "leaves aapi cobjs" and clouds_leave: "leaves capi aobjs"
begin

text \<open>The two applies of a sync, each for its own kind.\<close>

lemma apply_both:
  assumes "ValidateControllerLabelValues clv = None"
    and lists: "listEndpointsForController clv aapi k = Inr currentAgents" "listEndpointsForController clv capi k = Inr currentClouds"
    and apply_agents: "applyEndpoints clv adeq aorder aapi ads currentAgents k = (None, k1)"
    and apply_clouds: "applyEndpoints clv cdeq corder capi cds currentClouds k1 = (None, k2)"
    and eq: "\<And>x y. adeq x y \<Longrightarrow> x = y" "\<And>x y. cdeq x y \<Longrightarrow> x = y"
    and perm: "\<And>xs. mset (aorder xs) = mset xs" "\<And>xs. mset (corder xs) = mset xs"
    and ks: "keyed ads" "keyed cds"
  shows "settled clv ads (aobjs k) (aobjs k2)" "settled clv cds (cobjs k) (cobjs k2)"
proof -
  have a: "aobjs k2 = aobjs k1" by (rule applyEndpoints_leaves [OF clouds_leave apply_clouds])
  have c: "cobjs k1 = cobjs k" by (rule applyEndpoints_leaves [OF agents_leave apply_agents])
  show "settled clv ads (aobjs k) (aobjs k2)"
    unfolding a settled_def skipped_iff_foreign [OF assms(1), symmetric]
    using agents.list_apply_spec [OF lists(1) assms(1) refl apply_agents eq(1) perm(1) ks(1)] by blast
  show "settled clv cds (cobjs k) (cobjs k2)"
    unfolding settled_def c [symmetric] skipped_iff_foreign [OF assms(1), symmetric]
    using clouds.list_apply_spec [OF lists(2) assms(1) c [symmetric] apply_clouds eq(2) perm(2) ks(2)] by blast
qed

end

section \<open>Syncing endpoints\<close>

lemma driver_translate_sync [simp]: "driver_translate env (d\<lparr>drSync := s\<rparr>) = driver_translate env d"
  by (simp add: driver_translate_def NewTranslator_def)

lemma sync_endpoints_body_sync [simp]: "sync_endpoints_body env (d\<lparr>drSync := s\<rparr>) c k = sync_endpoints_body env d c k"
proof -
  have "applyAgentEndpoints env (d\<lparr>drSync := s\<rparr>) = applyAgentEndpoints env d"
    "applyCloudEndpoints env (d\<lparr>drSync := s\<rparr>) = applyCloudEndpoints env d"
    by (intro ext, simp add: applyAgentEndpoints_def applyCloudEndpoints_def)+
  moreover have "drControllerLabels (d\<lparr>drSync := s\<rparr>) = drControllerLabels d" by simp
  ultimately show ?thesis unfolding sync_endpoints_body_def driver_translate_sync by (simp only:)
qed

lemma SyncEndpoints_body:
  assumes "SyncEndpoints env c d k = SyncReturns err d' k'"
  shows "sync_endpoints_body env d c k = Inr (err, k')"
  using assms by (auto simp: SyncEndpoints_def debounced_def split: if_splits sum.splits prod.splits option.splits)

lemma sync_endpoints_body_ok:
  assumes "sync_endpoints_body env d c k = Inr (None, k')"
  obtains clouds agents currentAgents currentClouds k1 where
    "driver_translate env d = Inr (clouds, agents)"
    "listEndpointsForController (drControllerLabels d) (dcAgents c) k = Inr currentAgents"
    "listEndpointsForController (drControllerLabels d) (dcClouds c) k = Inr currentClouds"
    "applyAgentEndpoints env d c agents currentAgents k = (None, k1)"
    "applyCloudEndpoints env d c clouds currentClouds k1 = (None, k')"
  using assms by (auto simp: sync_endpoints_body_def split: sum.splits prod.splits option.splits)

text \<open>
  A sync of the endpoints that returns without an error has brought the cluster to the state
  that the translation asks for. Every endpoint of the translation exists with its specification,
  labels and annotations; every other endpoint that carries this operator's labels and is not owned
  by a Service is deleted; and endpoints made by users, by another operator instance or by the
  service controller are exactly as they were.
\<close>

theorem SyncEndpoints_converges:
  assumes "managed_clients (dcAgents c) aobjs (dcClouds c) cobjs"
    and "ValidateControllerLabelValues (drControllerLabels d) = None"
    and "\<And>x y. deAgentEq env x y \<Longrightarrow> x = y" "\<And>x y. deCloudEq env x y \<Longrightarrow> x = y"
    and "\<And>xs. mset (deAgentOrder env xs) = mset xs" "\<And>xs. mset (deCloudOrder env xs) = mset xs"
    and ok: "SyncEndpoints env c d k = SyncReturns None d' k'"
  shows "\<exists>clouds agents. driver_translate env d = Inr (clouds, agents) \<and>
    settled (drControllerLabels d) (desired_agents agents) (aobjs k) (aobjs k') \<and>
    settled (drControllerLabels d) (desired_clouds clouds) (cobjs k) (cobjs k')"
proof -
  obtain clouds agents currentAgents currentClouds k1 where
    tr: "driver_translate env d = Inr (clouds, agents)"
    and lists: "listEndpointsForController (drControllerLabels d) (dcAgents c) k = Inr currentAgents"
      "listEndpointsForController (drControllerLabels d) (dcClouds c) k = Inr currentClouds"
    and applies: "applyAgentEndpoints env d c agents currentAgents k = (None, k1)"
      "applyCloudEndpoints env d c clouds currentClouds k1 = (None, k')"
    by (rule sync_endpoints_body_ok [OF SyncEndpoints_body [OF ok]])
  have ks: "keyed (desired_agents agents)" "keyed (desired_clouds clouds)"
    using Translate_keyed [OF tr [unfolded driver_translate_def]] by (simp_all add: desired_keyed)
  show ?thesis
    using tr managed_clients.apply_both [OF assms(1,2) lists applies [unfolded applyAgentEndpoints_def applyCloudEndpoints_def]
        assms(3-6) ks] by blast
qed

section \<open>A full sync\<close>

text \<open>A view of the cluster that neither the status updates nor the events change.\<close>

definition quiet :: "'k driver_client \<Rightarrow> ('k \<Rightarrow> 'v) \<Rightarrow> bool" where
  "quiet c view \<longleftrightarrow> retries (dcRetryOnConflict c) \<and>
     (\<forall>key st k. view (snd (dcUpdateIngressStatus c key st k)) = view k) \<and>
     (\<forall>key st k. view (snd (dcUpdateGatewayStatus c key st k)) = view k) \<and>
     (\<forall>key h m k. view (dcEvent c key h m k) = view k)"

lemma run_group_view:
  assumes "\<And>x k. view (snd (f x k)) = view k"
  shows "view (snd (run_group f xs k)) = view k"
proof (induction xs arbitrary: k)
  case (Cons x xs)
  obtain e1 k1 where f: "f x k = (e1, k1)" by fastforce
  obtain e2 k2 where r: "run_group f xs k1 = (e2, k2)" by fastforce
  show ?case using f r assms [of x k] Cons.IH [of k1] by simp
qed simp

lemma retry_view:
  assumes "retries retry" "\<And>k. view (snd (f k)) = view k"
  shows "view (snd (retry f k)) = view k"
  using attempts_invariant [of f k "retry f k" "\<lambda>x. view x = view k"] assms by (simp add: retries_def)

lemma write_ingress_status_quiet: "quiet c view \<Longrightarrow> view (snd (write_ingress_status c u k)) = view k"
proof -
  assume q: "quiet c view"
  obtain key status where u: "u = (key, status)" by (cases u)
  let ?f = "\<lambda>k. case dcGetIngressStatus c key k of
      Inl e \<Rightarrow> if kube_reason_of e = Some KubeNotFound then (None, k) else (Some e, k)
    | Inr current \<Rightarrow> if current = Some status then (None, k) else dcUpdateIngressStatus c key status k"
  have "view (snd (dcRetryOnConflict c ?f k)) = view k"
    by (rule retry_view) (use q in \<open>auto simp: quiet_def split: sum.splits\<close>)
  then show ?thesis by (auto simp: write_ingress_status_def u split: prod.splits option.splits)
qed

lemma write_gateway_status_quiet: "quiet c view \<Longrightarrow> view (snd (write_gateway_status c u k)) = view k"
proof -
  assume q: "quiet c view"
  obtain key status where u: "u = (key, status)" by (cases u)
  let ?f = "\<lambda>k. case dcGetGatewayStatus c key k of
      Inl e \<Rightarrow> if kube_reason_of e = Some KubeNotFound then (None, k) else (Some e, k)
    | Inr current \<Rightarrow> if current = status then (None, k) else dcUpdateGatewayStatus c key status k"
  have "view (snd (dcRetryOnConflict c ?f k)) = view k"
    by (rule retry_view) (use q in \<open>auto simp: quiet_def split: sum.splits\<close>)
  then show ?thesis by (simp add: write_gateway_status_def u)
qed

lemma record_events_quiet: "quiet c view \<Longrightarrow> view (recordDomainEventsForIngress km d c ing domains k) = view k"
proof (cases "drHasRecorder d")
  case True
  assume q: "quiet c view"
  have *: "recordDomainEventsForIngress km d c ing domains k =
      fold (\<lambda>rule k. case map_of domains (iruHost rule) of
            None \<Rightarrow> k
          | Some dmn \<Rightarrow>
              (case kmFindStatusCondition km (dstConditions (domain_status dmn)) ''Ready'' of
                 None \<Rightarrow> k
               | Some ready \<Rightarrow>
                   if cnStatus ready = ''False'' then dcEvent c (ingress_nn ing) (iruHost rule) (cnMessage ready) k
                   else k)) (ingRules ing) k"
    using True by (simp add: recordDomainEventsForIngress_def)
  show ?thesis
    unfolding * by (rule fold_keyed [where P = "\<lambda>x. view x = view k"]) (use q in \<open>auto simp: quiet_def split: option.splits\<close>)
qed (simp add: recordDomainEventsForIngress_def)

lemma updateIngressStatuses_quiet:
  assumes q: "quiet c view" and r: "updateIngressStatuses km d c k = (err, k')"
  shows "view k' = view k"
proof (cases "getDomainsByDomain c k")
  case (Inl e)
  then show ?thesis using r by (simp add: updateIngressStatuses_def)
next
  case (Inr domains)
  let ?k1 = "fold (\<lambda>ing k. recordDomainEventsForIngress km d c ing domains k) (ListNgrokIngressesV1 (drStore d)) k"
  have "view ?k1 = view k"
    by (rule fold_keyed [where P = "\<lambda>x. view x = view k"]) (simp_all add: record_events_quiet [OF q])
  moreover have "view k' = view ?k1"
    using r Inr run_group_view [of view "write_ingress_status c" _ ?k1, OF write_ingress_status_quiet [OF q]]
    by (simp add: updateIngressStatuses_def Let_def) (metis snd_conv)
  ultimately show ?thesis by simp
qed

lemma updateGatewayStatuses_quiet:
  assumes q: "quiet c view" and r: "updateGatewayStatuses km d c k = ((err, d'), k')"
  shows "view k' = view k"
  using r run_group_view [of view "write_gateway_status c" _ k, OF write_gateway_status_quiet [OF q]]
  by (auto simp: updateGatewayStatuses_def Let_def split: sum.splits if_splits prod.splits) (metis snd_conv)

lemma updateStatuses_quiet:
  assumes q: "quiet c view" and r: "updateStatuses km d c k = ((err, d'), k')"
  shows "view k' = view k"
proof -
  obtain e1 k1 where i: "updateIngressStatuses km d c k = (e1, k1)" by fastforce
  obtain e2 d2 k2 where g: "updateGatewayStatuses km d c k1 = ((e2, d2), k2)" by (metis surj_pair)
  show ?thesis
    using r i g updateIngressStatuses_quiet [OF q i] updateGatewayStatuses_quiet [OF q g]
    by (auto simp: updateStatuses_def updateHTTPRouteStatuses_def split: if_splits)
qed

text \<open>One cluster with endpoints, Domains and statuses: each operation leaves the other kinds alone.\<close>

locale driver_cluster =
  endpoints: managed_clients "dcAgents c" aobjs "dcClouds c" cobjs + doms: domain_cluster "dcDomains c" domains
  for c :: "'k driver_client" and aobjs cobjs domains +
  assumes endpoints_leave_domains: "leaves (dcAgents c) domains" "leaves (dcClouds c) domains"
    and domains_leave_endpoints: "aobjs (snd (daCreateOrPatch (dcDomains c) d f k)) = aobjs k"
      "cobjs (snd (daCreateOrPatch (dcDomains c) d f k)) = cobjs k"
    and statuses_quiet: "quiet c aobjs" "quiet c cobjs" "quiet c domains"
begin

lemma applyDomains_leaves:
  assumes "applyDomains clv policy order (dcDomains c) ds k = (err, k')"
  shows "aobjs k' = aobjs k" "cobjs k' = cobjs k"
proof -
  have "aobjs (snd (run_group (apply_domain clv policy (dcDomains c)) xs k)) = aobjs k"
    "cobjs (snd (run_group (apply_domain clv policy (dcDomains c)) xs k)) = cobjs k" for xs
    by (rule run_group_view; simp add: apply_domain_def domains_leave_endpoints)+
  with assms show "aobjs k' = aobjs k" "cobjs k' = cobjs k" unfolding applyDomains_def by (metis snd_conv)+
qed

lemma sync_steps:
  assumes valid: "ValidateControllerLabelValues clv = None"
    and lists: "listEndpointsForController clv (dcAgents c) k = Inr currAgents"
      "listEndpointsForController clv (dcClouds c) k = Inr currClouds"
    and dom: "applyDomains clv policy dorder (dcDomains c) ds k = (None, k1)"
    and agents: "applyEndpoints clv adeq aorder (dcAgents c) ads currAgents k1 = (None, k2)"
    and clouds: "applyEndpoints clv cdeq corder (dcClouds c) cds currClouds k2 = (None, k3)"
    and statuses: "updateStatuses km d c k3 = ((err, d'), k4)"
    and eq: "\<And>x y. adeq x y \<Longrightarrow> x = y" "\<And>x y. cdeq x y \<Longrightarrow> x = y"
    and perm: "\<And>xs. mset (aorder xs) = mset xs" "\<And>xs. mset (corder xs) = mset xs"
    and ks: "keyed ads" "keyed cds"
  shows "settled clv ads (aobjs k) (aobjs k4)" "settled clv cds (cobjs k) (cobjs k4)" "domains k4 = domains k1"
proof -
  note s = statuses_quiet [THEN updateStatuses_quiet, OF statuses]
  note l = applyDomains_leaves [OF dom]
  have a: "aobjs k4 = aobjs k2" using s(1) applyEndpoints_leaves [OF endpoints.clouds_leave clouds] by simp
  have cc: "cobjs k2 = cobjs k" using l(2) applyEndpoints_leaves [OF endpoints.agents_leave agents] by simp
  show "settled clv ads (aobjs k) (aobjs k4)"
    unfolding a settled_def l(1) [symmetric] skipped_iff_foreign [OF valid, symmetric]
    using endpoints.agents.list_apply_spec [OF lists(1) valid l(1) [symmetric] agents eq(1) perm(1) ks(1)] by blast
  show "settled clv cds (cobjs k) (cobjs k4)"
    unfolding s(2) settled_def cc [symmetric] skipped_iff_foreign [OF valid, symmetric]
    using endpoints.clouds.list_apply_spec [OF lists(2) valid cc [symmetric] clouds eq(2) perm(2) ks(2)] by blast
  show "domains k4 = domains k1"
    using s(3) applyEndpoints_leaves [OF endpoints_leave_domains(2) clouds]
      applyEndpoints_leaves [OF endpoints_leave_domains(1) agents] by simp
qed

end

lemma Sync_body:
  assumes "Sync env c d k = SyncReturns err d' k'" "IsDraining (drDrainState d) k = (False, k1)"
  obtains s d'' where "sync_body env (d\<lparr>drSync := s\<rparr>) c k1 = Inr ((err, d''), k')"
proof -
  have "d = d\<lparr>drSync := drSync d\<rparr>" by simp
  then show thesis
    using assms that [of "drSync d"] that
    by (auto simp: Sync_def debounced_def split: if_splits sum.splits prod.splits option.splits)
qed

definition driver_domains :: "driver_env \<Rightarrow> 'k Driver \<Rightarrow> domain_map" where
  "driver_domains env d =
     totalDomains (calculateDomainSet (geParse (deGateway env)) (drStore d) (drIngressNgrokMetadata d) (drGatewayNgrokMetadata d))"

lemma sync_body_ok:
  assumes "sync_body env (d\<lparr>drSync := s\<rparr>) c k = Inr ((None, d'), k')"
  obtains clouds agents currAgents currClouds k1 k2 k3 d0 where
    "driver_translate env d = Inr (clouds, agents)"
    "listEndpointsForController (drControllerLabels d) (dcAgents c) k = Inr currAgents"
    "listEndpointsForController (drControllerLabels d) (dcClouds c) k = Inr currClouds"
    "applyDomains (drControllerLabels d) (drDefaultDomainReclaimPolicy d) (deDomainOrder env) (dcDomains c) (driver_domains env d) k = (None, k1)"
    "applyEndpoints (drControllerLabels d) (deAgentEq env) (deAgentOrder env) (dcAgents c) (desired_agents agents) currAgents k1 = (None, k2)"
    "applyEndpoints (drControllerLabels d) (deCloudEq env) (deCloudOrder env) (dcClouds c) (desired_clouds clouds) currClouds k2 = (None, k3)"
    "updateStatuses (deMeta env) d0 c k3 = ((None, d'), k')"
  using assms
  by (auto simp: sync_body_def driver_domains_def applyAgentEndpoints_def applyCloudEndpoints_def Let_def
      split: sum.splits prod.splits option.splits)


section \<open>A reference cluster\<close>

definition lift_api ::
  "('w \<Rightarrow> 'k) \<Rightarrow> ('k \<Rightarrow> 'w \<Rightarrow> 'w) \<Rightarrow> ('sp, 'k) managed_api \<Rightarrow> ('sp, 'w) managed_api" where
  "lift_api get put api =
     \<lparr>eaList = (\<lambda>sel w. eaList api sel (get w)),
      eaUpdate = (\<lambda>ob w. case eaUpdate api ob (get w) of (e, k) \<Rightarrow> (e, put k w)),
      eaDelete = (\<lambda>ob w. case eaDelete api ob (get w) of (e, k) \<Rightarrow> (e, put k w)),
      eaCreate = (\<lambda>ob w. case eaCreate api ob (get w) of (e, k) \<Rightarrow> (e, put k w))\<rparr>"

lemma lift_client:
  assumes client: "managed_client api objs" and lens: "\<And>k w. get (put k w) = k"
  shows "managed_client (lift_api get put api) (\<lambda>w. objs (get w))"
proof
  note laws = managed_client.key_of [OF client] managed_client.uid_of [OF client] managed_client.listed [OF client]
    managed_client.updated [OF client] managed_client.deleted [OF client] managed_client.not_found [OF client]
    managed_client.created [OF client]
  fix ob w w' sel obs e x y a b key
  show "objs (get w) key = Some ob \<Longrightarrow> mg_key ob = key" by (rule laws(1))
  show "objs (get w) a = Some x \<Longrightarrow> objs (get w) b = Some y \<Longrightarrow> mgUID x = mgUID y \<Longrightarrow> a = b" by (rule laws(2))
  show "eaList (lift_api get put api) sel w = Inr obs \<Longrightarrow>
      set obs = {ob. objs (get w) (mg_key ob) = Some ob \<and> matches_labels sel (mgLabels ob)}"
    by (rule laws(3)) (simp add: lift_api_def)
  show "eaUpdate (lift_api get put api) ob w = (None, w') \<Longrightarrow>
      \<exists>old. objs (get w) (mg_key ob) = Some old \<and> objs (get w') = (objs (get w))(mg_key ob \<mapsto>
        old\<lparr>mgLabels := mgLabels ob, mgAnnotations := mgAnnotations ob, mgOwnerKinds := mgOwnerKinds ob, mgSpec := mgSpec ob\<rparr>)"
    using laws(4) [of ob "get w"] by (auto simp: lift_api_def lens split: prod.splits)
  show "eaDelete (lift_api get put api) ob w = (None, w') \<Longrightarrow>
      \<exists>left. objs (get w') = (objs (get w))(mg_key ob := left) \<and> gone left"
    using laws(5) [of ob "get w"] by (auto simp: lift_api_def lens split: prod.splits)
  show "eaDelete (lift_api get put api) ob w = (Some e, w') \<Longrightarrow> IgnoreNotFound e = None \<Longrightarrow>
      objs (get w') = objs (get w) \<and> objs (get w) (mg_key ob) = None"
    using laws(6) [of ob "get w"] by (auto simp: lift_api_def lens split: prod.splits)
  show "eaCreate (lift_api get put api) ob w = (None, w') \<Longrightarrow> objs (get w) (mg_key ob) = None \<and>
      (\<exists>new. objs (get w') = (objs (get w))(mg_key ob \<mapsto> new) \<and> meets ob new)"
    using laws(7) [of ob "get w"] by (auto simp: lift_api_def lens split: prod.splits)
qed

lemma lift_leaves: "(\<And>k w. view (put k w) = view w) \<Longrightarrow> leaves (lift_api get put api) view"
  by (simp add: leaves_def lift_api_def split: prod.splits)

record ref_cluster =
  rcAgents :: "AgentEndpointSpec managed list"
  rcClouds :: "CloudEndpointSpec managed list"
  rcDomains :: "(NamespacedName \<times> Domain) list"
  rcIngresses :: "(NamespacedName \<times> string list ptr) list"
  rcGateways :: "(NamespacedName \<times> GatewayStatus) list"

definition not_found_error :: go_error where
  "not_found_error = KubeError KubeNotFound ''not found''"

definition ref_client :: "ref_cluster driver_client" where
  "ref_client =
     \<lparr>dcAgents = lift_api rcAgents (\<lambda>k w. w\<lparr>rcAgents := k\<rparr>) managed_list_api,
      dcClouds = lift_api rcClouds (\<lambda>k w. w\<lparr>rcClouds := k\<rparr>) managed_list_api,
      dcDomains = \<lparr>daCreateOrPatch = (\<lambda>d f w. (None, w\<lparr>rcDomains := AList.update (object_key d)
        (case map_of (rcDomains w) (object_key d) of Some old \<Rightarrow> f False old | None \<Rightarrow> f True d) (rcDomains w)\<rparr>))\<rparr>,
      dcListDomains = (\<lambda>w. Inr (map snd (rcDomains w))),
      dcGetIngressStatus = (\<lambda>key w. case map_of (rcIngresses w) key of None \<Rightarrow> Inl not_found_error | Some st \<Rightarrow> Inr st),
      dcUpdateIngressStatus = (\<lambda>key st w. (None, w\<lparr>rcIngresses := AList.update key (Some st) (rcIngresses w)\<rparr>)),
      dcGetGatewayStatus = (\<lambda>key w. case map_of (rcGateways w) key of None \<Rightarrow> Inl not_found_error | Some st \<Rightarrow> Inr st),
      dcUpdateGatewayStatus = (\<lambda>key st w. (None, w\<lparr>rcGateways := AList.update key st (rcGateways w)\<rparr>)),
      dcRetryOnConflict = retry_steps 4,
      dcEvent = (\<lambda>key h m w. w)\<rparr>"

interpretation ref_cluster: driver_cluster ref_client "\<lambda>w. managed_objs (rcAgents w)" "\<lambda>w. managed_objs (rcClouds w)"
    "\<lambda>w. map_of (rcDomains w)"
proof (intro driver_cluster.intro managed_clients.intro)
  show "managed_client (dcAgents ref_client) (\<lambda>w. managed_objs (rcAgents w))"
    unfolding ref_client_def driver_client.simps
    by (rule lift_client [OF list_cluster.managed_client_axioms]) simp
  show "managed_client (dcClouds ref_client) (\<lambda>w. managed_objs (rcClouds w))"
    unfolding ref_client_def driver_client.simps
    by (rule lift_client [OF list_cluster.managed_client_axioms]) simp
  show "managed_clients_axioms (dcAgents ref_client) (\<lambda>w. managed_objs (rcAgents w)) (dcClouds ref_client) (\<lambda>w. managed_objs (rcClouds w))"
    unfolding ref_client_def driver_client.simps by unfold_locales (auto intro!: lift_leaves)
  show "domain_cluster (dcDomains ref_client) (\<lambda>w. map_of (rcDomains w))"
    by unfold_locales (auto simp: ref_client_def update_conv')
  show "driver_cluster_axioms ref_client (\<lambda>w. managed_objs (rcAgents w)) (\<lambda>w. managed_objs (rcClouds w)) (\<lambda>w. map_of (rcDomains w))"
    by unfold_locales (auto simp: ref_client_def quiet_def retries_steps intro!: lift_leaves)
qed

section \<open>Witnesses\<close>

text \<open>
  An ingress with one host and its Service in the store; in the cluster an agent endpoint that this
  operator once made and one that a user made.
\<close>

definition sync_witness_env :: driver_env where
  "sync_witness_env =
     \<lparr>deGateway = \<lparr>geParse = (\<lambda>s. RawEmpty), geGlob = (\<lambda>p s. None), geSelector = (\<lambda>sel. None), geOrder = (\<lambda>xs. xs)\<rparr>,
      deSha = (\<lambda>s. s), deCacheOrder = (\<lambda>xs. xs), deVHostOrder = (\<lambda>xs. xs), deAgentEq = (=), deCloudEq = (=),
      deAgentOrder = (\<lambda>xs. xs), deCloudOrder = (\<lambda>xs. xs), deDomainOrder = (\<lambda>xs. xs), deMeta = list_meta\<rparr>"

definition sync_witness_service :: Service where
  "sync_witness_service = \<lparr>svcUID = ''u1'', svcName = ''web'', svcNamespace = ''default'', svcAnnotations = [],
     svcPorts = [\<lparr>spName = ''http'', spPort = 80, spAppProtocol = None\<rparr>]\<rparr>"

definition witness_driver :: "ref_cluster Driver" where
  "witness_driver = (NewDriver ''ngrok.com/ingress-controller'' \<lparr>nnName = ''op'', nnNamespace = ''ngrok''\<rparr> [])
     \<lparr>drStore := witness_store\<lparr>stStores := witness_stores\<lparr>csServiceV1 := [(''default/web'', sync_witness_service)]\<rparr>\<rparr>\<rparr>"

definition witness_agent :: "string \<Rightarrow> labels \<Rightarrow> AgentEndpointSpec managed" where
  "witness_agent name ls = \<lparr>mgName = name, mgNamespace = ''web'', mgUID = [], mgLabels = ls, mgAnnotations = [], mgOwnerKinds = [],
     mgDeleting = False, mgSpec = \<lparr>aesURL = ''https://app.example.com'',
       aesUpstream = \<lparr>euURL = ''http://app.web'', euProtocol = None, euProxyProtocolVersion = None\<rparr>,
       aesTrafficPolicy = None, aesDescription = [], aesMetadata = None, aesBindings = [], aesClientCertificateRefs = [],
       aesTLSTermination = None\<rparr>, mgStatusID = []\<rparr>"

definition witness_ref_cluster :: ref_cluster where
  "witness_ref_cluster =
     \<lparr>rcAgents = [witness_agent ''stale'' (ControllerLabels ''ngrok'' ''op''), witness_agent ''users'' [(''app'', ''web'')]],
      rcClouds = [], rcDomains = [], rcIngresses = [], rcGateways = []\<rparr>"

lemma sync_witness_env_simps:
  "deAgentEq sync_witness_env x y \<Longrightarrow> x = y" "deCloudEq sync_witness_env x' y' \<Longrightarrow> x' = y'"
  "mset (deAgentOrder sync_witness_env as) = mset as" "mset (deCloudOrder sync_witness_env cs) = mset cs"
  "mset (deDomainOrder sync_witness_env ds) = mset ds"
  by (simp_all add: sync_witness_env_def)

lemma witness_labels_valid: "ValidateControllerLabelValues (drControllerLabels witness_driver) = None"
  by code_simp

lemma witness_sync_endpoints:
  "\<exists>d' k'. SyncEndpoints sync_witness_env ref_client witness_driver witness_ref_cluster = SyncReturns None d' k' \<and>
     map mgName (rcAgents k') = [''u1-web-default-80'', ''users'']"
proof -
  have "case SyncEndpoints sync_witness_env ref_client witness_driver witness_ref_cluster of
      SyncReturns None d' k' \<Rightarrow> map mgName (rcAgents k') = [''u1-web-default-80'', ''users''] | _ \<Rightarrow> False"
    by code_simp
  then show ?thesis by (auto split: sync_outcome.splits option.splits)
qed

lemma witness_sync:
  "\<exists>d' k'. Sync sync_witness_env ref_client witness_driver witness_ref_cluster = SyncReturns None d' k' \<and>
     map mgName (rcAgents k') = [''u1-web-default-80'', ''users''] \<and> map (nnName \<circ> fst) (rcDomains k') = [''a-example-com'']"
proof -
  have "case Sync sync_witness_env ref_client witness_driver witness_ref_cluster of
      SyncReturns None d' k' \<Rightarrow> map mgName (rcAgents k') = [''u1-web-default-80'', ''users''] \<and>
        map (nnName \<circ> fst) (rcDomains k') = [''a-example-com'']
    | _ \<Rightarrow> False"
    by code_simp
  then show ?thesis by (auto split: sync_outcome.splits option.splits)
qed

theorem SyncEndpoints_converges_witness:
  "\<exists>d' k'. SyncEndpoints sync_witness_env ref_client witness_driver witness_ref_cluster = SyncReturns None d' k' \<and>
     map mgName (rcAgents k') = [''u1-web-default-80'', ''users''] \<and>
     (\<exists>clouds agents. driver_translate sync_witness_env witness_driver = Inr (clouds, agents) \<and>
        settled (drControllerLabels witness_driver) (desired_agents agents) (managed_objs (rcAgents witness_ref_cluster))
          (managed_objs (rcAgents k')))"
proof -
  obtain d' k' where run: "SyncEndpoints sync_witness_env ref_client witness_driver witness_ref_cluster = SyncReturns None d' k'"
    and names: "map mgName (rcAgents k') = [''u1-web-default-80'', ''users'']"
    using witness_sync_endpoints by (elim exE conjE) (rule that)
  have "\<exists>clouds agents. driver_translate sync_witness_env witness_driver = Inr (clouds, agents) \<and>
      settled (drControllerLabels witness_driver) (desired_agents agents) (managed_objs (rcAgents witness_ref_cluster))
        (managed_objs (rcAgents k')) \<and>
      settled (drControllerLabels witness_driver) (desired_clouds clouds) (managed_objs (rcClouds witness_ref_cluster))
        (managed_objs (rcClouds k'))"
    by (rule SyncEndpoints_converges [OF ref_cluster.endpoints.managed_clients_axioms witness_labels_valid _ _ _ _ run])
      (erule sync_witness_env_simps(1,2) | rule sync_witness_env_simps(3,4))+
  with run names show ?thesis by (elim exE conjE) (intro exI conjI)
qed


end
