(* ===== verification/Controller_Laws.thy ===== *)
theory Controller_Laws
  imports Domain_Objects
begin

text \<open>
  What the resource controllers share: an interface for the writing of statuses at the end of a
  callback (\<open>ReconcileStatus\<close>), and a rule for what a whole \<open>Reconcile\<close> can do to the world, given what
  its callbacks and patches can do.
\<close>

section \<open>Writing a status\<close>

text \<open>
  What writing a status may change: in the world nothing of the view, and in the object nothing of
  its status. A written status returns the original error.
\<close>

locale status_writer =
  fixes retry :: "('b kube_object \<times> 's) retrier" and sc :: "('b, 's) status_client"
    and status :: "'b \<Rightarrow> 'st" and view :: "'s \<Rightarrow> 'v"
  assumes retrying: "retries retry"
    and status_view: "scStatusUpdate sc ob s = (r, s') \<Longrightarrow> view s' = view s"
    and status_kept: "scStatusUpdate sc ob s = (Inr ob', s') \<Longrightarrow> status (obBody ob') = status (obBody ob) \<and> object_key ob' = object_key ob"
    and version_only: "scLatestVersion sc ob s = Inr f \<Longrightarrow> obBody (f ob') = obBody ob' \<and> object_key (f ob') = object_key ob'"
begin

lemma ReconcileStatus_spec:
  assumes "ReconcileStatus retry sc setObserved ob origErr s = ((err, ob'), s')"
  shows "view s' = view s"
    "status (obBody ob') = status (obBody (case setObserved of Some f \<Rightarrow> f (omGeneration (obMeta ob)) ob | None \<Rightarrow> ob))"
    "err = origErr \<or> (\<exists>e. err = Some (StatusError origErr e))"
proof -
  let ?ob = "case setObserved of Some f \<Rightarrow> f (omGeneration (obMeta ob)) ob | None \<Rightarrow> ob"
  let ?I = "\<lambda>x. view (snd x) = view s \<and> status (obBody (fst x)) = status (obBody ?ob)"
  obtain e ob2 s2 where r: "retry (status_attempt sc) (?ob, s) = (e, ob2, s2)" by (metis surj_pair)
  have step: "?I (snd (status_attempt sc x))" if "?I x" for x
    using that status_view status_kept version_only
    by (auto simp: status_attempt_def split: prod.splits option.splits sum.splits)
  have "?I (ob2, s2)"
    using attempts_invariant [of "status_attempt sc" "(?ob, s)" "(e, ob2, s2)" ?I] retrying step r
    by (simp add: retries_def) (metis r)
  then show "view s' = view s" "status (obBody ob') = status (obBody ?ob)"
    "err = origErr \<or> (\<exists>e. err = Some (StatusError origErr e))"
    using assms r by (auto simp: ReconcileStatus_def Let_def split: option.splits)
qed

end

section \<open>A reconcile as a sequence of steps\<close>

locale reconcile_steps =
  fixes R :: "'s \<Rightarrow> 's \<Rightarrow> bool" and bc :: "('b, 's) BaseController" and d :: "'b kube_object"
  assumes steps_refl: "R s s" and steps_trans: "R s1 s2 \<Longrightarrow> R s2 s3 \<Longrightarrow> R s1 s3"
    and drain_step: "bcDrainState bc = Some f \<Longrightarrow> f s = (b, s') \<Longrightarrow> R s s'"
    and patch_step: "bcPatch bc old new s = (p, s') \<Longrightarrow> R s s'"
    and create_step: "IsUpsert d \<Longrightarrow> bcCreate bc = Some g \<Longrightarrow> g ob s = (r, s') \<Longrightarrow> R s s'"
    and update_step: "IsUpsert d \<Longrightarrow> bcUpdate bc = Some g \<Longrightarrow> g ob s = (r, s') \<Longrightarrow> R s s'"
    and delete_step: "IsDelete d \<Longrightarrow> bcDelete bc = Some g \<Longrightarrow> g d s = (r, s') \<Longrightarrow> R s s'"
begin

lemma remove_finalizer_step: "remove_finalizer km bc ob s = (r, s') \<Longrightarrow> R s s'"
  by (auto simp: remove_finalizer_def RemoveAndSyncFinalizer_def Let_def steps_refl split: prod.splits option.splits if_splits
      dest: patch_step)

lemma run_create_step: "IsUpsert d \<Longrightarrow> run_callback ne bc op (bcCreate bc) ob s = (r, s') \<Longrightarrow> R s s'"
  by (auto simp: run_callback_def steps_refl split: option.splits prod.splits dest: create_step)

lemma run_update_step: "IsUpsert d \<Longrightarrow> run_callback ne bc op (bcUpdate bc) ob s = (r, s') \<Longrightarrow> R s s'"
  by (auto simp: run_callback_def steps_refl split: option.splits prod.splits dest: update_step)

lemma upsert_step:
  assumes "IsUpsert d" "reconcile_upsert km ne bc statusID ob s = (r, s')"
  shows "R s s'"
proof -
  obtain err ob1 s1 where reg: "RegisterAndSyncFinalizer km (bcPatch bc) ob s = ((err, ob1), s1)" by (metis surj_pair)
  have "R s s1"
    using reg by (auto simp: RegisterAndSyncFinalizer_def Let_def steps_refl split: prod.splits if_splits dest: patch_step)
  moreover have "R s1 s'"
    using assms(2) reg run_create_step [OF assms(1)] run_update_step [OF assms(1)]
    by (auto simp: reconcile_upsert_def steps_refl split: option.splits if_splits)
  ultimately show ?thesis by (rule steps_trans)
qed

lemma delete_steps:
  assumes "IsDelete d" "reconcile_delete km ne bc statusID d s = (r, s')"
  shows "R s s'"
proof (cases "statusID d \<noteq> [] \<and> bcDelete bc \<noteq> None")
  case True
  then obtain g where g: "bcDelete bc = Some g" by blast
  obtain err d1 s1 where run: "g d s = ((err, d1), s1)" by (metis surj_pair)
  have "R s1 s'"
    using assms(2) True g run by (auto simp: reconcile_delete_def steps_refl split: option.splits if_splits dest: remove_finalizer_step)
  with delete_step [OF assms(1) g run] show ?thesis by (rule steps_trans)
next
  case False
  then show ?thesis
    using assms(2) by (auto simp: reconcile_delete_def steps_refl split: option.splits if_splits dest: remove_finalizer_step)
qed

lemma Reconcile_step:
  assumes "Reconcile km ne bc req s = (r, s')" "bcGet bc req s = Inr d"
  shows "R s s'"
proof -
  obtain draining s1 where dr: "IsDraining (bcDrainState bc) s = (draining, s1)" by fastforce
  have "R s s1" using dr by (auto simp: IsDraining_def steps_refl split: option.splits dest: drain_step)
  moreover have "R s1 s' \<or> s' = s"
    using assms dr upsert_step delete_steps
    by (auto simp: Reconcile_def steps_refl IsUpsert_def IsDelete_def split: option.splits if_splits)
  ultimately show ?thesis using steps_trans steps_refl by blast
qed

end

end
