(* ===== verification/Domain_Controller.thy ===== *)
theory Domain_Controller
  imports Controller_Laws
begin

text \<open>
  \<^bold>\<open>internal/controller/ingress/domain_controller.go\<close> and \<^bold>\<open>domain_conditions.go\<close>: a Domain resource is
  brought to the ngrok API as a reserved domain, and its conditions say whether it can be used.

  The ngrok API client, the Kubernetes client, the retry loop and the parser of time stamps are
  arguments (\<open>domain_env\<close>); the interface \<open>domain_service\<close> states what is assumed of them. A listing
  gives the domains in the order of the pages and the error that ended it.
\<close>

section \<open>The API's domains\<close>

record ReservedDomainCertJob =
  cjErrorCode :: "string ptr"
  cjMsg :: string
  cjStartedAt :: string
  cjRetriesAt :: "string ptr"

record ReservedDomainCertStatus =
  csRenewsAt :: "string ptr"
  csProvisioningJob :: "ReservedDomainCertJob ptr"

record ReservedDomain =
  rdID :: string
  rdDomain :: string
  rdDescription :: string
  rdMetadata :: string
  rdResolvesTo :: "string list ptr"
  rdCNAMETarget :: "string ptr"
  rdACMEChallengeCNAMETarget :: "string ptr"
  rdCertificate :: "string ptr"
  rdCertificateManagementPolicy :: "CertificateManagementPolicy ptr"
  rdCertificateManagementStatus :: "ReservedDomainCertStatus ptr"

record ReservedDomainCreate =
  rcDomain :: string
  rcDescription :: string
  rcMetadata :: string
  rcResolvesTo :: "string list ptr"

record ReservedDomainUpdate =
  ruID :: string
  ruDescription :: string
  ruMetadata :: string
  ruResolvesTo :: "string list ptr"

record 's domain_env =
  dvMeta :: kube_meta
  dvErrors :: ngrok_errors
  dvErrorText :: "go_error \<Rightarrow> string"
  dvParseTime :: "string \<Rightarrow> string option"
  dvMetadataText :: "raw_json \<Rightarrow> string"
  dvRetry :: "(Domain \<times> 's) retrier"
  dvStatus :: "(domain_body, 's) status_client"
  dvGet :: "NamespacedName \<Rightarrow> 's \<Rightarrow> go_error + Domain"
  dvPatch :: "(domain_body, go_error, 's) patcher"
  dvDrainState :: "('s \<Rightarrow> bool \<times> 's) option"
  dvListDomains :: "'s \<Rightarrow> ReservedDomain list \<times> go_error option"
  dvCreateDomain :: "ReservedDomainCreate \<Rightarrow> 's \<Rightarrow> (ReservedDomain ptr \<times> go_error option) \<times> 's"
  dvGetDomain :: "string \<Rightarrow> 's \<Rightarrow> go_error + ReservedDomain"
  dvUpdateDomain :: "ReservedDomainUpdate \<Rightarrow> 's \<Rightarrow> (ReservedDomain ptr \<times> go_error option) \<times> 's"
  dvDeleteDomain :: "string \<Rightarrow> 's \<Rightarrow> go_error option \<times> 's"

section \<open>Statuses\<close>

definition buildResolvesToStatus :: "string list ptr \<Rightarrow> string list" where
  "buildResolvesToStatus resolvesTo = (case resolvesTo of None \<Rightarrow> [] | Some xs \<Rightarrow> xs)"

definition buildResolvesToRequest :: "string list \<Rightarrow> string list ptr" where
  "buildResolvesToRequest resolvesTo = (if resolvesTo = [] then None else Some resolvesTo)"

definition buildCertificateInfo :: "string ptr \<Rightarrow> string ptr" where
  "buildCertificateInfo certificate = (case certificate of None \<Rightarrow> None | Some cid \<Rightarrow> if cid = [] then None else Some cid)"

definition buildCertificateManagementPolicy :: "CertificateManagementPolicy ptr \<Rightarrow> CertificateManagementPolicy ptr" where
  "buildCertificateManagementPolicy policy =
     (case policy of None \<Rightarrow> None
      | Some p \<Rightarrow> Some \<lparr>cmpAuthority = cmpAuthority p, cmpPrivateKeyType = cmpPrivateKeyType p\<rparr>)"

definition parseRFC3339String :: "(string \<Rightarrow> string option) \<Rightarrow> string \<Rightarrow> string ptr" where
  "parseRFC3339String parse value = (if value = [] then None else parse value)"

definition parseRFC3339Pointer :: "(string \<Rightarrow> string option) \<Rightarrow> string ptr \<Rightarrow> string ptr" where
  "parseRFC3339Pointer parse value = (case value of None \<Rightarrow> None | Some v \<Rightarrow> parseRFC3339String parse v)"

definition buildProvisioningJob :: "(string \<Rightarrow> string option) \<Rightarrow> ReservedDomainCertJob ptr \<Rightarrow> ProvisioningJob ptr" where
  "buildProvisioningJob parse job =
     (case job of None \<Rightarrow> None
      | Some j \<Rightarrow> Some
          \<lparr>pjErrorCode = (case cjErrorCode j of Some c \<Rightarrow> c | None \<Rightarrow> []), pjMessage = cjMsg j,
           pjStartedAt = parseRFC3339String parse (cjStartedAt j), pjRetriesAt = parseRFC3339Pointer parse (cjRetriesAt j)\<rparr>)"

definition buildCertificateManagementStatus ::
  "(string \<Rightarrow> string option) \<Rightarrow> ReservedDomainCertStatus ptr \<Rightarrow> CertificateManagementStatus ptr" where
  "buildCertificateManagementStatus parse status =
     (case status of None \<Rightarrow> None
      | Some st \<Rightarrow> Some \<lparr>cmRenewsAt = parseRFC3339Pointer parse (csRenewsAt st),
          cmProvisioningJob = buildProvisioningJob parse (csProvisioningJob st)\<rparr>)"

section \<open>Conditions\<close>

text \<open>\<open>SanitizeErrorMessage\<close>: runs of white space become one space. The regular expression does not
  count the vertical tab as white space.\<close>

definition regex_space :: "char \<Rightarrow> bool" where
  "regex_space c \<longleftrightarrow> of_char c \<in> {9, 10, 12, 13, 32 :: nat}"

fun squeeze_spaces :: "string \<Rightarrow> string" where
  "squeeze_spaces [] = []"
| "squeeze_spaces (c # cs) =
     (if regex_space c
      then (case cs of d # _ \<Rightarrow> if regex_space d then squeeze_spaces cs else CHR '' '' # squeeze_spaces cs | [] \<Rightarrow> [CHR '' ''])
      else c # squeeze_spaces cs)"

definition SanitizeErrorMessage :: "string \<Rightarrow> string" where
  "SanitizeErrorMessage msg = trim_space (squeeze_spaces msg)"

definition ConditionDomainReady :: string where "ConditionDomainReady = ''Ready''"
definition ConditionDomainCreated :: string where "ConditionDomainCreated = ''DomainCreated''"
definition ConditionCertificateReady :: string where "ConditionCertificateReady = ''CertificateReady''"
definition ConditionDNSConfigured :: string where "ConditionDNSConfigured = ''DNSConfigured''"

definition set_domain_condition :: "kube_meta \<Rightarrow> string \<Rightarrow> bool \<Rightarrow> string \<Rightarrow> string \<Rightarrow> Domain \<Rightarrow> Domain" where
  "set_domain_condition km condType ok reason message d =
     map_domain_status (dstConditions_update (Set_condition km (omGeneration (obMeta d)) condType ok reason message)) d"

definition setDomainReadyCondition :: "kube_meta \<Rightarrow> bool \<Rightarrow> string \<Rightarrow> string \<Rightarrow> Domain \<Rightarrow> Domain" where
  "setDomainReadyCondition km = set_domain_condition km ConditionDomainReady"

definition setDomainCreatedCondition :: "kube_meta \<Rightarrow> bool \<Rightarrow> string \<Rightarrow> string \<Rightarrow> Domain \<Rightarrow> Domain" where
  "setDomainCreatedCondition km = set_domain_condition km ConditionDomainCreated"

definition setCertificateReadyCondition :: "kube_meta \<Rightarrow> bool \<Rightarrow> string \<Rightarrow> string \<Rightarrow> Domain \<Rightarrow> Domain" where
  "setCertificateReadyCondition km = set_domain_condition km ConditionCertificateReady"

definition setDNSConfiguredCondition :: "kube_meta \<Rightarrow> bool \<Rightarrow> string \<Rightarrow> string \<Rightarrow> Domain \<Rightarrow> Domain" where
  "setDNSConfiguredCondition km = set_domain_condition km ConditionDNSConfigured"

definition isNgrokManagedDomain :: "ReservedDomain ptr \<Rightarrow> bool" where
  "isNgrokManagedDomain ngrokDomain =
     (case ngrokDomain of None \<Rightarrow> False | Some rd \<Rightarrow> rdCertificateManagementPolicy rd = None)"

definition currentProvisioningJob :: "CertificateManagementStatus ptr \<Rightarrow> ProvisioningJob ptr" where
  "currentProvisioningJob status = (case status of None \<Rightarrow> None | Some st \<Rightarrow> cmProvisioningJob st)"

definition provisioning_message :: "ProvisioningJob ptr \<Rightarrow> string" where
  "provisioning_message job =
     (case job of
        None \<Rightarrow> ''Certificate provisioning in progress''
      | Some j \<Rightarrow>
          (if pjErrorCode j \<noteq> [] then pjErrorCode j @ '' '' @ pjMessage j else pjMessage j) @
          (case pjStartedAt j of Some t \<Rightarrow> '' Started at '' @ t | None \<Rightarrow> []) @
          (case pjRetriesAt j of Some t \<Rightarrow> '' Retries at '' @ t | None \<Rightarrow> []))"

definition updateDomainConditions ::
  "kube_meta \<Rightarrow> (go_error \<Rightarrow> string) \<Rightarrow> Domain \<Rightarrow> ReservedDomain ptr \<Rightarrow> go_error option \<Rightarrow> Domain" where
  "updateDomainConditions km ng d ngrokDomain createErr =
     (case createErr of
        Some e \<Rightarrow>
          (let message = SanitizeErrorMessage (error_text ng e); reason = ''DomainCreationFailed''
           in setDomainReadyCondition km False reason message
                (setDNSConfiguredCondition km False reason ''Domain creation failed''
                  (setCertificateReadyCondition km False reason ''Domain creation failed''
                    (setDomainCreatedCondition km False reason message d))))
      | None \<Rightarrow>
          if dstID (domain_status d) = [] then
            (let message = ''Domain could not be reserved''; reason = ''DomainInvalid''
             in setDomainReadyCondition km False reason message
                  (setDNSConfiguredCondition km False reason message
                    (setCertificateReadyCondition km False reason message
                      (setDomainCreatedCondition km False reason message d))))
          else
            (let d1 = setDomainCreatedCondition km True ''DomainCreated'' ''Domain successfully reserved'' d
             in if isNgrokManagedDomain ngrokDomain then
                  setDomainReadyCondition km True ''DomainActive'' ''Domain ready for use''
                    (setDNSConfiguredCondition km True ''NgrokManaged'' ''DNS managed by ngrok''
                      (setCertificateReadyCondition km True ''NgrokManaged'' ''Certificate managed by ngrok'' d1))
                else if dstCertificate (domain_status d1) \<noteq> None then
                  setDomainReadyCondition km True ''DomainActive'' ''Domain ready for use''
                    (setDNSConfiguredCondition km True ''DomainCreated'' ''DNS records configured''
                      (setCertificateReadyCondition km True ''CertificateReady'' ''Certificate provisioned successfully'' d1))
                else
                  (let message = provisioning_message (currentProvisioningJob (dstCertificateManagementStatus (domain_status d1)));
                       reason = ''ProvisioningError''
                   in setDomainReadyCondition km False reason message
                        (setDNSConfiguredCondition km False reason message
                          (setCertificateReadyCondition km False reason message d1)))))"

definition IsDomainReady :: "kube_meta \<Rightarrow> Domain \<Rightarrow> bool" where
  "IsDomainReady km d =
     (if dstID (domain_status d) = [] then False
      else case kmFindStatusCondition km (dstConditions (domain_status d)) ConditionDomainReady of
             None \<Rightarrow> False
           | Some c \<Rightarrow> cnStatus c = ''True'')"

section \<open>The controller\<close>

definition copy_reserved :: "(string \<Rightarrow> string option) \<Rightarrow> ReservedDomain \<Rightarrow> DomainStatus \<Rightarrow> DomainStatus" where
  "copy_reserved parse rd st = st
     \<lparr>dstID := rdID rd, dstDomain := rdDomain rd, dstCNAMETarget := rdCNAMETarget rd,
      dstACMEChallengeCNAMETarget := rdACMEChallengeCNAMETarget rd, dstResolvesTo := buildResolvesToStatus (rdResolvesTo rd),
      dstCertificate := buildCertificateInfo (rdCertificate rd),
      dstCertificateManagementPolicy := buildCertificateManagementPolicy (rdCertificateManagementPolicy rd),
      dstCertificateManagementStatus := buildCertificateManagementStatus parse (rdCertificateManagementStatus rd)\<rparr>"

definition domain_ReconcileStatus ::
  "'s domain_env \<Rightarrow> Domain \<Rightarrow> go_error option \<Rightarrow> 's \<Rightarrow> (go_error option \<times> Domain) \<times> 's" where
  "domain_ReconcileStatus env d err s = ReconcileStatus (dvRetry env) (dvStatus env) (Some set_domain_observed) d err s"

definition domain_updateStatus ::
  "'s domain_env \<Rightarrow> Domain \<Rightarrow> ReservedDomain ptr \<Rightarrow> go_error option \<Rightarrow> 's \<Rightarrow> (go_error option \<times> Domain) \<times> 's" where
  "domain_updateStatus env d ngrokDomain createErr s =
     (let d1 = (case ngrokDomain of None \<Rightarrow> d | Some rd \<Rightarrow> map_domain_status (copy_reserved (dvParseTime env) rd) d)
      in domain_ReconcileStatus env (updateDomainConditions (dvMeta env) (dvErrorText env) d1 ngrokDomain createErr) createErr s)"

definition findReservedDomainByHostname :: "'s domain_env \<Rightarrow> string \<Rightarrow> 's \<Rightarrow> go_error + ReservedDomain ptr" where
  "findReservedDomainByHostname env domainName s =
     (case dvListDomains env s of
        (items, err) \<Rightarrow>
          (case find (\<lambda>rd. rdDomain rd = domainName) items of
             Some rd \<Rightarrow> Inr (Some rd)
           | None \<Rightarrow> (case err of Some e \<Rightarrow> Inl e | None \<Rightarrow> Inr None)))"

definition domain_create :: "'s domain_env \<Rightarrow> (domain_body, 's) callback" where
  "domain_create env d s =
     (case findReservedDomainByHostname env (dsDomain (domain_spec d)) s of
        Inl e \<Rightarrow> domain_updateStatus env d None (Some e) s
      | Inr (Some rd) \<Rightarrow> domain_updateStatus env d (Some rd) None s
      | Inr None \<Rightarrow>
          (case dvCreateDomain env
              \<lparr>rcDomain = dsDomain (domain_spec d), rcDescription = dsDescription (domain_spec d),
               rcMetadata = dvMetadataText env (MetadataAPIString (dsMetadata (domain_spec d))),
               rcResolvesTo = buildResolvesToRequest (GetResolvesTo (domain_spec d))\<rparr> s of
             ((resp, Some e), s') \<Rightarrow> domain_updateStatus env d resp (Some e) s'
           | ((resp, None), s') \<Rightarrow> domain_updateStatus env d resp None s'))"

definition domain_update :: "'s domain_env \<Rightarrow> (domain_body, 's) callback" where
  "domain_update env d s =
     (case dvGetDomain env (dstID (domain_status d)) s of
        Inl e \<Rightarrow>
          if neIsNotFound (dvErrors env) e
          then domain_ReconcileStatus env (map_domain_status (\<lambda>_. empty_domain_status) d) (Some e) s
          else domain_updateStatus env d None (Some e) s
      | Inr resp \<Rightarrow>
          (let specResolvesTo = buildResolvesToRequest (GetResolvesTo (domain_spec d));
               specMetadata = dvMetadataText env (MetadataAPIString (dsMetadata (domain_spec d)))
           in if dsDescription (domain_spec d) = rdDescription resp \<and> specMetadata = rdMetadata resp \<and>
                 specResolvesTo = rdResolvesTo resp
              then domain_updateStatus env d (Some resp) None s
              else
                (case dvUpdateDomain env \<lparr>ruID = dstID (domain_status d), ruDescription = dsDescription (domain_spec d),
                    ruMetadata = specMetadata, ruResolvesTo = specResolvesTo\<rparr> s of
                   ((resp', err), s') \<Rightarrow> domain_updateStatus env d resp' err s')))"

definition domain_delete :: "'s domain_env \<Rightarrow> (domain_body, 's) callback" where
  "domain_delete env d s =
     (if dsReclaimPolicy (domain_spec d) \<noteq> DomainReclaimPolicyDelete then ((None, d), s)
      else
        case dvDeleteDomain env (dstID (domain_status d)) s of
          (err, s') \<Rightarrow>
            if (case err of None \<Rightarrow> True | Some e \<Rightarrow> neIsNotFound (dvErrors env) e)
            then ((err, map_domain_status (dstID_update (\<lambda>_. [])) d), s') else ((err, d), s'))"

definition domain_ErrResult :: "'s domain_env \<Rightarrow> BaseControllerOp \<Rightarrow> Domain \<Rightarrow> go_error \<Rightarrow> ctrl_result \<times> go_error option" where
  "domain_ErrResult env op d err =
     (if neIsErrorCode (dvErrors env) err [446, 511] then (no_result, Some err) else CtrlResultForErr (dvErrors env) err)"

definition domain_base_controller :: "'s domain_env \<Rightarrow> (domain_body, 's) BaseController" where
  "domain_base_controller env =
     \<lparr>bcGet = dvGet env, bcPatch = dvPatch env, bcDrainState = dvDrainState env,
      bcStatusID = Some (\<lambda>d. dstID (domain_status d)), bcCreate = Some (domain_create env),
      bcUpdate = Some (domain_update env), bcDelete = Some (domain_delete env), bcErrResult = Some (domain_ErrResult env)\<rparr>"

text \<open>The result of a reconcile; the flag is \<open>Requeue\<close>, which defers to the rate limiter.\<close>

type_synonym domain_result = "((ctrl_result \<times> bool) \<times> go_error option) option"

definition internal_domain_error :: go_error where
  "internal_domain_error =
     PlainError ''.internal domains do not need to be reserved. You can safely delete this Domain CR if you wish''"

definition domain_reconcile :: "'s domain_env \<Rightarrow> NamespacedName \<Rightarrow> 's \<Rightarrow> domain_result \<times> 's" where
  "domain_reconcile env req s =
     (case dvGet env req s of
        Inl e \<Rightarrow> (Some ((no_result, False), IgnoreNotFound e), s)
      | Inr d \<Rightarrow>
          if IsInternalDomain (dsDomain (domain_spec d)) then
            (case (if HasFinalizer (dvMeta env) d then RemoveAndSyncFinalizer (dvMeta env) (dvPatch env) d s else ((None, d), s)) of
               ((Some e, _), s') \<Rightarrow> (Some ((no_result, False), Some e), s')
             | ((None, d'), s') \<Rightarrow>
                 (case domain_ReconcileStatus env
                     (updateDomainConditions (dvMeta env) (dvErrorText env) d' None (Some internal_domain_error)) None s' of
                    ((err, _), s'') \<Rightarrow> (Some ((no_result, False), err), s'')))
          else
            (case Reconcile (dvMeta env) (dvErrors env) (domain_base_controller env) req s of
               (None, s') \<Rightarrow> (None, s')
             | (Some (result, Some e), s') \<Rightarrow> (Some ((result, False), Some e), s')
             | (Some (result, None), s') \<Rightarrow>
                 (case dvGet env req s' of
                    Inl e \<Rightarrow> (Some ((result, False), IgnoreNotFound e), s')
                  | Inr d' \<Rightarrow>
                      if \<not> IsDomainReady (dvMeta env) d' then (Some ((no_result, True), None), s')
                      else (Some ((result, False), None), s'))))"

section \<open>What the conditions say\<close>

lemma set_domain_condition_simps [simp]:
  "domain_spec (set_domain_condition km t ok r m d) = domain_spec d"
  "dstID (domain_status (set_domain_condition km t ok r m d)) = dstID (domain_status d)"
  "dstCertificate (domain_status (set_domain_condition km t ok r m d)) = dstCertificate (domain_status d)"
  "dstConditions (domain_status (set_domain_condition km t ok r m d)) =
     Set_condition km (omGeneration (obMeta d)) t ok r m (dstConditions (domain_status d))"
  "obMeta (set_domain_condition km t ok r m d) = obMeta d"
  "dmLabels (obBody (set_domain_condition km t ok r m d)) = dmLabels (obBody d)"
  by (simp_all add: set_domain_condition_def)

lemmas domain_condition_defs =
  setDomainReadyCondition_def setDomainCreatedCondition_def setCertificateReadyCondition_def setDNSConfiguredCondition_def

lemma updateDomainConditions_simps [simp]:
  "domain_spec (updateDomainConditions km ng d rd err) = domain_spec d"
  "dstID (domain_status (updateDomainConditions km ng d rd err)) = dstID (domain_status d)"
  "obMeta (updateDomainConditions km ng d rd err) = obMeta d"
  by (simp_all add: updateDomainConditions_def Let_def domain_condition_defs split: option.split)

definition domain_conditions :: "string list" where
  "domain_conditions = [ConditionDomainCreated, ConditionCertificateReady, ConditionDNSConfigured, ConditionDomainReady]"

definition usable :: "Domain \<Rightarrow> ReservedDomain ptr \<Rightarrow> go_error option \<Rightarrow> bool" where
  "usable d ngrokDomain err \<longleftrightarrow> err = None \<and> dstID (domain_status d) \<noteq> [] \<and>
     ((\<exists>rd. ngrokDomain = Some rd \<and> rdCertificateManagementPolicy rd = None) \<or> dstCertificate (domain_status d) \<noteq> None)"

context object_meta begin

lemma find_set_condition [simp]:
  "kmFindStatusCondition km (Set_condition km g t ok r m cs) t' =
     (if t' = t then Some \<lparr>cnType = t, cnStatus = (if ok then ''True'' else ''False''), cnReason = r, cnMessage = m,
        cnObservedGeneration = g\<rparr> else kmFindStatusCondition km cs t')"
  by (simp add: Set_condition_def find_set)

lemma updateDomainConditions_find:
  assumes "t \<in> set domain_conditions"
  shows "\<exists>c. kmFindStatusCondition km (dstConditions (domain_status (updateDomainConditions km ng d rd err))) t = Some c \<and>
     cnObservedGeneration c = omGeneration (obMeta d) \<and>
     cnStatus c = (if (if t = ConditionDomainCreated then err = None \<and> dstID (domain_status d) \<noteq> [] else usable d rd err)
       then ''True'' else ''False'')"
proof -
  have types: "ConditionDomainReady \<noteq> ConditionDomainCreated" "ConditionDomainReady \<noteq> ConditionCertificateReady"
    "ConditionDomainReady \<noteq> ConditionDNSConfigured" "ConditionDomainCreated \<noteq> ConditionCertificateReady"
    "ConditionDomainCreated \<noteq> ConditionDNSConfigured" "ConditionCertificateReady \<noteq> ConditionDNSConfigured"
    by (simp_all add: ConditionDomainReady_def ConditionDomainCreated_def ConditionCertificateReady_def ConditionDNSConfigured_def)
  have managed: "isNgrokManagedDomain rd \<longleftrightarrow> (\<exists>x. rd = Some x \<and> rdCertificateManagementPolicy x = None)"
    by (simp add: isNgrokManagedDomain_def split: option.split)
  consider "t = ConditionDomainCreated" | "t = ConditionCertificateReady" | "t = ConditionDNSConfigured" | "t = ConditionDomainReady"
    using assms by (auto simp: domain_conditions_def)
  then show ?thesis
    by cases (simp_all add: updateDomainConditions_def usable_def managed domain_condition_defs Let_def types types [symmetric]
        split: option.split)
qed

end

text \<open>
  The conditions of a Domain tell the truth. After they are updated, the Domain counts as ready
  exactly if there was no error, the API gave it an ID, and its certificate is managed by ngrok or
  provisioned; \<open>CertificateReady\<close> and \<open>DNSConfigured\<close> agree with \<open>Ready\<close>, \<open>DomainCreated\<close> says whether it
  was reserved, and all four are of the current generation.
\<close>

theorem updateDomainConditions_exact:
  assumes "object_meta km"
  shows "(IsDomainReady km (updateDomainConditions km ng d rd err) \<longleftrightarrow> usable d rd err) \<and>
    (\<forall>t \<in> set domain_conditions. \<exists>c.
       kmFindStatusCondition km (dstConditions (domain_status (updateDomainConditions km ng d rd err))) t = Some c \<and>
       cnObservedGeneration c = omGeneration (obMeta d) \<and>
       (cnStatus c = ''True'' \<longleftrightarrow>
          (if t = ConditionDomainCreated then err = None \<and> dstID (domain_status d) \<noteq> [] else usable d rd err)))"
proof -
  note find = object_meta.updateDomainConditions_find [OF assms, of _ ng d rd err]
  have "ConditionDomainReady \<in> set domain_conditions" and ne: "ConditionDomainReady \<noteq> ConditionDomainCreated"
    by (simp_all add: domain_conditions_def ConditionDomainReady_def ConditionDomainCreated_def)
  from find [OF this(1)] ne obtain c where
    "kmFindStatusCondition km (dstConditions (domain_status (updateDomainConditions km ng d rd err))) ConditionDomainReady = Some c"
    "cnStatus c = (if usable d rd err then ''True'' else ''False'')" by auto
  then have "IsDomainReady km (updateDomainConditions km ng d rd err) \<longleftrightarrow> usable d rd err"
    by (auto simp: IsDomainReady_def usable_def)
  moreover have "\<exists>c. kmFindStatusCondition km (dstConditions (domain_status (updateDomainConditions km ng d rd err))) t = Some c \<and>
       cnObservedGeneration c = omGeneration (obMeta d) \<and>
       (cnStatus c = ''True'' \<longleftrightarrow>
          (if t = ConditionDomainCreated then err = None \<and> dstID (domain_status d) \<noteq> [] else usable d rd err))"
    if "t \<in> set domain_conditions" for t
    using find [OF that] by auto
  ultimately show ?thesis by blast
qed

section \<open>The world of the controller\<close>

text \<open>
  \<open>reserved\<close> is the account's reserved domains by ID. A listing without an error gives all of them;
  a create adds one with the requested host; a failed call may have reached the API; only a delete
  takes one away, and the operations on Kubernetes do not touch them.
\<close>

definition given_up :: "Domain \<Rightarrow> string set" where
  "given_up d = (if IsDelete d \<and> dsReclaimPolicy (domain_spec d) = DomainReclaimPolicyDelete then {dstID (domain_status d)} else {})"

locale domain_service =
  meta: object_meta "dvMeta env" + writer: status_writer "dvRetry env" "dvStatus env" dmStatus reserved
  for env :: "'s domain_env" and reserved :: "'s \<Rightarrow> string \<Rightarrow> ReservedDomain option" +
  assumes listed: "dvListDomains env s = (rds, err) \<Longrightarrow> rd \<in> set rds \<Longrightarrow> reserved s (rdID rd) = Some rd"
    and listed_all: "dvListDomains env s = (rds, None) \<Longrightarrow> reserved s rid = Some rd \<Longrightarrow> rd \<in> set rds"
    and created: "dvCreateDomain env req s = ((resp, None), s') \<Longrightarrow> \<exists>rd. resp = Some rd \<and> rdID rd \<noteq> [] \<and>
      rdDomain rd = rcDomain req \<and> reserved s (rdID rd) = None \<and> reserved s' = (reserved s)(rdID rd \<mapsto> rd)"
    and create_kept: "dvCreateDomain env req s = (r, s') \<Longrightarrow> dom (reserved s) \<subseteq> dom (reserved s')"
    and update_kept: "dvUpdateDomain env ureq s = (r, s') \<Longrightarrow> dom (reserved s') = dom (reserved s)"
    and deleted: "dvDeleteDomain env rid s = (derr, s') \<Longrightarrow> dom (reserved s) - {rid} \<subseteq> dom (reserved s')"
    and patch_view: "dvPatch env a b s = (pr, s') \<Longrightarrow> reserved s' = reserved s"
    and drain_view: "dvDrainState env = Some f \<Longrightarrow> f s = (b', s') \<Longrightarrow> reserved s' = reserved s"
begin

lemma domain_updateStatus_spec:
  assumes "domain_updateStatus env d rd err s = ((err', d'), s')"
  shows "reserved s' = reserved s" "dstID (domain_status d') = (case rd of Some x \<Rightarrow> rdID x | None \<Rightarrow> dstID (domain_status d))"
    "err' = err \<or> (\<exists>e. err' = Some (StatusError err e))"
proof -
  note r = assms [unfolded domain_updateStatus_def Let_def domain_ReconcileStatus_def]
  show "reserved s' = reserved s" "err' = err \<or> (\<exists>e. err' = Some (StatusError err e))"
    using writer.ReconcileStatus_spec(1,3) [OF r] by blast+
  show "dstID (domain_status d') = (case rd of Some x \<Rightarrow> rdID x | None \<Rightarrow> dstID (domain_status d))"
    using writer.ReconcileStatus_spec(2) [OF r]
    by (simp add: domain_status_def [of d'] set_domain_observed_def) (simp add: domain_status_def [symmetric] copy_reserved_def split: option.split)
qed

lemma updateStatus_view: "domain_updateStatus env d rd err s = (r, s') \<Longrightarrow> reserved s' = reserved s"
  using domain_updateStatus_spec(1) by (cases r) blast

lemma ReconcileStatus_view: "domain_ReconcileStatus env d err s = (r, s') \<Longrightarrow> reserved s' = reserved s"
  using writer.ReconcileStatus_spec(1) by (cases r) (auto simp: domain_ReconcileStatus_def)

lemma create_view: "domain_create env d s = (r, s') \<Longrightarrow> dom (reserved s) \<subseteq> dom (reserved s')"
  by (auto simp: domain_create_def split: sum.splits option.splits prod.splits
      dest!: updateStatus_view dest: create_kept [THEN subsetD])

lemma update_view: "domain_update env d s = (r, s') \<Longrightarrow> dom (reserved s) \<subseteq> dom (reserved s')"
  by (simp add: domain_update_def Let_def split: sum.splits prod.splits if_splits)
    (auto dest!: updateStatus_view ReconcileStatus_view dest: update_kept [THEN equalityD2, THEN subsetD])

lemma delete_view:
  "domain_delete env d s = (r, s') \<Longrightarrow> dom (reserved s) - (if dsReclaimPolicy (domain_spec d) = DomainReclaimPolicyDelete
     then {dstID (domain_status d)} else {}) \<subseteq> dom (reserved s')"
  using deleted by (fastforce simp: domain_delete_def split: prod.splits if_splits)

lemma reconcile_steps: "reconcile_steps (\<lambda>s s'. dom (reserved s) - given_up d \<subseteq> dom (reserved s')) (domain_base_controller env) d"
  unfolding domain_base_controller_def given_up_def
  by unfold_locales (auto dest: drain_view patch_view create_view [THEN subsetD] update_view [THEN subsetD]
      delete_view [THEN subsetD] | blast)+

lemma Reconcile_view:
  assumes "Reconcile (dvMeta env) (dvErrors env) (domain_base_controller env) req s = (r, s')" "dvGet env req s = Inr d"
  shows "dom (reserved s) - given_up d \<subseteq> dom (reserved s')"
  using reconcile_steps.Reconcile_step [OF reconcile_steps assms(1)] assms(2) by (simp add: domain_base_controller_def)

lemma reconcile_view:
  assumes run: "domain_reconcile env req s = (r, s')" and get: "dvGet env req s = Inr d"
  shows "dom (reserved s) - (if IsInternalDomain (dsDomain (domain_spec d)) then {} else given_up d) \<subseteq> dom (reserved s')"
    and "IsInternalDomain (dsDomain (domain_spec d)) \<Longrightarrow> reserved s' = reserved s"
proof -
  show internal: "reserved s' = reserved s" if "IsInternalDomain (dsDomain (domain_spec d))"
    using run get that
    by (auto simp: domain_reconcile_def RemoveAndSyncFinalizer_def Let_def split: if_splits prod.splits option.splits
        dest!: ReconcileStatus_view patch_view)
  show "dom (reserved s) - (if IsInternalDomain (dsDomain (domain_spec d)) then {} else given_up d) \<subseteq> dom (reserved s')"
  proof (cases "IsInternalDomain (dsDomain (domain_spec d))")
    case False
    obtain r1 s1 where rec: "Reconcile (dvMeta env) (dvErrors env) (domain_base_controller env) req s = (r1, s1)" by fastforce
    then have "s' = s1"
      using run get False by (auto simp: domain_reconcile_def split: option.splits prod.splits sum.splits if_splits)
    with Reconcile_view [OF rec get] False show ?thesis by simp
  qed (use internal in auto)
qed

lemma create_result:
  assumes run: "domain_create env d s = ((None, d'), s')"
  shows "\<exists>rd. dstID (domain_status d') = rdID rd \<and> rdDomain rd = dsDomain (domain_spec d) \<and> reserved s' (rdID rd) = Some rd \<and>
    (reserved s' = reserved s \<or> reserved s' = (reserved s)(rdID rd \<mapsto> rd) \<and>
       (\<forall>rid x. reserved s rid = Some x \<longrightarrow> rdDomain x \<noteq> dsDomain (domain_spec d)))"
proof -
  let ?host = "dsDomain (domain_spec d)"
  obtain rds err where ls: "dvListDomains env s = (rds, err)" by fastforce
  show ?thesis
  proof (cases "find (\<lambda>rd. rdDomain rd = ?host) rds")
    case (Some rd)
    then have rd: "rd \<in> set rds" "rdDomain rd = ?host" by (auto simp: find_Some_iff in_set_conv_nth)
    have "domain_updateStatus env d (Some rd) None s = ((None, d'), s')"
      using run ls Some by (simp add: domain_create_def findReservedDomainByHostname_def)
    from domain_updateStatus_spec(1,2) [OF this] rd listed [OF ls rd(1)] show ?thesis by auto
  next
    case None
    have err: "err = None"
    proof (cases err)
      case (Some e)
      then have "domain_updateStatus env d None (Some e) s = ((None, d'), s')"
        using run ls None by (simp add: domain_create_def findReservedDomainByHostname_def)
      from domain_updateStatus_spec(3) [OF this] show ?thesis by simp
    qed
    obtain resp err1 s1 where cr: "dvCreateDomain env \<lparr>rcDomain = ?host, rcDescription = dsDescription (domain_spec d),
        rcMetadata = dvMetadataText env (MetadataAPIString (dsMetadata (domain_spec d))),
        rcResolvesTo = buildResolvesToRequest (GetResolvesTo (domain_spec d))\<rparr> s = ((resp, err1), s1)" by (metis surj_pair)
    have up: "domain_updateStatus env d resp err1 s1 = ((None, d'), s')"
      using run ls None err cr by (cases err1) (simp_all add: domain_create_def findReservedDomainByHostname_def)
    have "err1 = None" using domain_updateStatus_spec(3) [OF up] by auto
    with created cr obtain rd where rd: "resp = Some rd" "rdDomain rd = ?host" "reserved s1 = (reserved s)(rdID rd \<mapsto> rd)"
      by (metis ReservedDomainCreate.select_convs(1))
    have "rdDomain x \<noteq> ?host" if "reserved s rid = Some x" for rid x
      using None listed_all [OF ls [unfolded err] that] by (auto simp: find_None_iff)
    then show ?thesis using domain_updateStatus_spec(1,2) [OF up] rd by auto
  qed
qed

end

text \<open>
  \<^bold>\<open>C14\<close>. Reserved domains are not lost. A reconcile of a Domain gives up a reservation only if the
  Domain is being deleted and its reclaim policy is \<open>Delete\<close>, and then only the one in its status;
  for a host under \<open>.internal\<close> it does not change the reservations at all.
\<close>

theorem domain_reservations_kept:
  assumes "domain_service env reserved" "dvGet env req s = Inr d" "domain_reconcile env req s = (r, s')"
    and "reserved s rid \<noteq> None" "reserved s' rid = None"
  shows "IsDelete d \<and> dsReclaimPolicy (domain_spec d) = DomainReclaimPolicyDelete \<and> rid = dstID (domain_status d) \<and>
    \<not> IsInternalDomain (dsDomain (domain_spec d))"
  using domain_service.reconcile_view [OF assms(1,3,2)] assms(4,5) by (auto simp: given_up_def split: if_splits)

text \<open>
  Creating reserves a host once. A create without an error leaves the Domain with the ID of a
  reserved domain of its host; if the account already had one it is adopted and nothing is reserved,
  and otherwise exactly one is added.
\<close>

theorem domain_create_reserves_once:
  assumes "domain_service env reserved" "domain_create env d s = ((None, d'), s')"
  shows "\<exists>rd. dstID (domain_status d') = rdID rd \<and> rdDomain rd = dsDomain (domain_spec d) \<and> reserved s' (rdID rd) = Some rd \<and>
    (reserved s' = reserved s \<or> reserved s' = (reserved s)(rdID rd \<mapsto> rd) \<and>
       (\<forall>rid x. reserved s rid = Some x \<longrightarrow> rdDomain x \<noteq> dsDomain (domain_spec d)))"
  by (rule domain_service.create_result [OF assms])

section \<open>A reference account\<close>

record domain_world =
  dwDomains :: "(NamespacedName \<times> Domain) list"
  dwReserved :: "ReservedDomain list"

definition find_reserved :: "domain_world \<Rightarrow> string \<Rightarrow> ReservedDomain option" where
  "find_reserved w rid = find (\<lambda>rd. rdID rd = rid) (dwReserved w)"

definition put_domain :: "Domain \<Rightarrow> domain_world \<Rightarrow> domain_world" where
  "put_domain d w = w\<lparr>dwDomains := AList.update (object_key d) d (dwDomains w)\<rparr>"

definition reserve :: "ReservedDomainCreate \<Rightarrow> domain_world \<Rightarrow> ReservedDomain" where
  "reserve req w = \<lparr>rdID = ''rd_'' @ concat (map rdID (dwReserved w)), rdDomain = rcDomain req, rdDescription = rcDescription req,
     rdMetadata = rcMetadata req, rdResolvesTo = rcResolvesTo req, rdCNAMETarget = None, rdACMEChallengeCNAMETarget = None,
     rdCertificate = None, rdCertificateManagementPolicy = None, rdCertificateManagementStatus = None\<rparr>"

definition ref_domain_env :: "domain_world domain_env" where
  "ref_domain_env =
     \<lparr>dvMeta = list_meta, dvErrors = \<lparr>neIsNotFound = (\<lambda>e. False), neIsErrorCode = (\<lambda>e codes. False)\<rparr>, dvErrorText = (\<lambda>e. []),
      dvParseTime = (\<lambda>t. Some t), dvMetadataText = (\<lambda>m. []), dvRetry = retry_steps 4,
      dvStatus = \<lparr>scStatusUpdate = (\<lambda>d w. (Inr d, put_domain d w)), scLatestVersion = (\<lambda>d w. Inr (\<lambda>x. x))\<rparr>,
      dvGet = (\<lambda>key w. case map_of (dwDomains w) key of Some d \<Rightarrow> Inr d | None \<Rightarrow> Inl (KubeError KubeNotFound ''not found'')),
      dvPatch = (\<lambda>old new w. ((None, new), put_domain new w)), dvDrainState = None,
      dvListDomains = (\<lambda>w. (filter (\<lambda>rd. find_reserved w (rdID rd) = Some rd) (dwReserved w), None)),
      dvCreateDomain = (\<lambda>req w. ((Some (reserve req w), None), w\<lparr>dwReserved := reserve req w # dwReserved w\<rparr>)),
      dvGetDomain = (\<lambda>rid w. case find_reserved w rid of Some rd \<Rightarrow> Inr rd | None \<Rightarrow> Inl (PlainError ''not found'')),
      dvUpdateDomain = (\<lambda>req w. ((None, Some (PlainError ''refused'')), w)),
      dvDeleteDomain = (\<lambda>rid w. (None, w\<lparr>dwReserved := filter (\<lambda>rd. rdID rd \<noteq> rid) (dwReserved w)\<rparr>))\<rparr>"

lemma find_filter_other:
  "x \<noteq> rid \<Longrightarrow> find (\<lambda>rd. rdID rd = x) (filter (\<lambda>rd. rdID rd \<noteq> rid) rds) = find (\<lambda>rd. rdID rd = x) rds"
  by (induction rds) auto

lemma reserve_fresh: "find (\<lambda>rd. rdID rd = rdID (reserve req w)) (dwReserved w) = None"
proof -
  have "length (rdID rd) \<le> length (concat (map rdID rds))" if "rd \<in> set rds" for rd rds
    using that by (induction rds) auto
  then show ?thesis by (fastforce simp: find_None_iff reserve_def)
qed

lemma find_reserved_in: "find_reserved w rid = Some rd \<Longrightarrow> rd \<in> set (dwReserved w) \<and> rdID rd = rid"
  by (auto simp: find_reserved_def find_Some_iff)

lemma find_reserved_simps [simp]:
  "find_reserved (put_domain d w) = find_reserved w"
  "find_reserved (w\<lparr>dwReserved := reserve req w # dwReserved w\<rparr>) = (find_reserved w)(rdID (reserve req w) \<mapsto> reserve req w)"
  "find_reserved w (rdID (reserve req w)) = None"
  by (auto simp: find_reserved_def put_domain_def reserve_fresh fun_eq_iff)

lemma reserve_simps [simp]: "rdID (reserve req w) \<noteq> []" "rdDomain (reserve req w) = rcDomain req"
  by (simp_all add: reserve_def)

interpretation ref_domain_writer: status_writer "dvRetry ref_domain_env" "dvStatus ref_domain_env" dmStatus find_reserved
  by unfold_locales (auto simp: ref_domain_env_def retries_steps)

interpretation ref_domains: domain_service ref_domain_env find_reserved
proof (intro domain_service.intro domain_service_axioms.intro)
  show "object_meta (dvMeta ref_domain_env)" by (simp add: ref_domain_env_def list_meta.object_meta_axioms)
  show "status_writer (dvRetry ref_domain_env) (dvStatus ref_domain_env) dmStatus find_reserved" by (rule ref_domain_writer.status_writer_axioms)
  fix rid derr s s'
  assume "dvDeleteDomain ref_domain_env rid s = (derr, s')"
  then show "dom (find_reserved s) - {rid} \<subseteq> dom (find_reserved s')"
    by (auto simp: ref_domain_env_def find_reserved_def find_filter_other)
next
  fix s rds rid rd
  assume "dvListDomains ref_domain_env s = (rds, None)" "find_reserved s rid = Some rd"
  then show "rd \<in> set rds" using find_reserved_in [of s rid rd] by (auto simp: ref_domain_env_def)
qed (auto simp: ref_domain_env_def)

interpretation ref_domain_steps: reconcile_steps "\<lambda>s s'. dom (find_reserved s) - given_up d \<subseteq> dom (find_reserved s')"
    "domain_base_controller ref_domain_env" d for d
  by (rule ref_domains.reconcile_steps)

text \<open>A Domain that is being deleted under the policy \<open>Delete\<close>, and one that is new.\<close>

definition witness_domain :: "string \<Rightarrow> bool \<Rightarrow> string \<Rightarrow> Domain" where
  "witness_domain host deleting rid =
     \<lparr>obMeta = \<lparr>omName = ''app'', omNamespace = ''web'', omGeneration = 2, omFinalizers = [FinalizerName], omDeleting = deleting\<rparr>,
      obBody = \<lparr>dmLabels = [], dmSpec = empty_domain_spec\<lparr>dsDomain := host, dsReclaimPolicy := DomainReclaimPolicyDelete\<rparr>,
        dmStatus = empty_domain_status\<lparr>dstID := rid\<rparr>\<rparr>\<rparr>"

definition witness_account :: "Domain \<Rightarrow> domain_world" where
  "witness_account d =
     \<lparr>dwDomains = [(object_key d, d)], dwReserved =
       [\<lparr>rdID = ''rd_1'', rdDomain = ''app.example.com'', rdDescription = [], rdMetadata = [], rdResolvesTo = None,
         rdCNAMETarget = None, rdACMEChallengeCNAMETarget = None, rdCertificate = None, rdCertificateManagementPolicy = None,
         rdCertificateManagementStatus = None\<rparr>]\<rparr>"

theorem updateDomainConditions_exact_witness:
  "IsDomainReady list_meta (updateDomainConditions list_meta (\<lambda>e. []) (witness_domain ''app.example.com'' False ''rd_1'')
     (Some (reserve \<lparr>rcDomain = ''app.example.com'', rcDescription = [], rcMetadata = [], rcResolvesTo = None\<rparr> (witness_account
       (witness_domain ''app.example.com'' False [])))) None)"
  using updateDomainConditions_exact [OF list_meta.object_meta_axioms]
  by (auto simp: usable_def witness_domain_def domain_status_def reserve_def)

theorem domain_reservations_kept_witness:
  "let d = witness_domain ''app.example.com'' True ''rd_1''; w = witness_account d;
       w' = snd (domain_reconcile ref_domain_env (object_key d) w) in
   find_reserved w ''rd_1'' \<noteq> None \<and> find_reserved w' ''rd_1'' = None \<and> IsDelete d \<and> \<not> IsInternalDomain (dsDomain (domain_spec d))"
proof -
  let ?d = "witness_domain ''app.example.com'' True ''rd_1''"
  let ?w = "witness_account ?d"
  let ?r = "domain_reconcile ref_domain_env (object_key ?d) ?w"
  have get: "dvGet ref_domain_env (object_key ?d) ?w = Inr ?d" by code_simp
  have before: "find_reserved ?w ''rd_1'' \<noteq> None" by code_simp
  have after: "find_reserved (snd ?r) ''rd_1'' = None" by code_simp
  have run: "?r = (fst ?r, snd ?r)" by simp
  note kept = domain_reservations_kept [where reserved = find_reserved, OF ref_domains.domain_service_axioms get run before after]
  show ?thesis unfolding Let_def by (intro conjI before after) (use kept in blast)+
qed

theorem domain_create_reserves_once_witness:
  "\<exists>d' w'. domain_create ref_domain_env (witness_domain ''app.example.com'' False []) (witness_account (witness_domain ''app.example.com'' False [])) =
     ((None, d'), w') \<and> dstID (domain_status d') = ''rd_1'' \<and> find_reserved w' ''rd_1'' \<noteq> None"
proof -
  let ?d = "witness_domain ''app.example.com'' False []"
  let ?r = "domain_create ref_domain_env ?d (witness_account ?d)"
  have ok: "fst (fst ?r) = None" "dstID (domain_status (snd (fst ?r))) = ''rd_1''" by code_simp+
  then have run: "?r = ((None, snd (fst ?r)), snd ?r)" by (metis prod.collapse)
  have "find_reserved (snd ?r) ''rd_1'' \<noteq> None"
    using domain_create_reserves_once [OF ref_domains.domain_service_axioms run] ok(2) by auto
  with run ok show ?thesis by blast
qed

end
