(* ===== verification/Endpoint_URL.thy ===== *)
theory Endpoint_URL
  imports Binding_Aggregator
begin

text \<open>
  \<open>ParseAndSanitizeEndpointURL\<close> of \<^bold>\<open>internal/util/endpoints.go\<close>, with the parts of \<open>net\<close> and \<open>net/url\<close>
  that take a host apart and put it together. \<open>url.Parse\<close> is an argument; \<open>quote\<close> is the verb \<open>%q\<close>.
\<close>

section \<open>Hosts and ports\<close>

record go_url =
  guScheme :: string
  guHost :: string
  guPath :: string

definition validOptionalPort :: "string \<Rightarrow> bool" where
  "validOptionalPort p = (case p of [] \<Rightarrow> True | c # ds \<Rightarrow> c = CHR '':'' \<and> list_all is_digit ds)"

text \<open>The text before and from the last colon.\<close>

definition last_colon :: "string \<Rightarrow> (string \<times> string) option" where
  "last_colon s =
     (case dropWhile (\<lambda>c. c \<noteq> CHR '':'') (rev s) of
        [] \<Rightarrow> None
      | _ # h \<Rightarrow> Some (rev h, CHR '':'' # rev (takeWhile (\<lambda>c. c \<noteq> CHR '':'') (rev s))))"

definition strip_brackets :: "string \<Rightarrow> string" where
  "strip_brackets h =
     (if h \<noteq> [] \<and> hd h = CHR ''['' \<and> last h = CHR '']'' then butlast (tl h) else h)"

definition splitHostPort :: "string \<Rightarrow> string \<times> string" where
  "splitHostPort hostPort =
     (case last_colon hostPort of
        None \<Rightarrow> (strip_brackets hostPort, [])
      | Some (h, p) \<Rightarrow> if validOptionalPort p then (strip_brackets h, tl p) else (strip_brackets hostPort, []))"

definition url_Hostname :: "go_url \<Rightarrow> string" where
  "url_Hostname u = fst (splitHostPort (guHost u))"

definition url_Port :: "go_url \<Rightarrow> string" where
  "url_Port u = snd (splitHostPort (guHost u))"

definition JoinHostPort :: "string \<Rightarrow> string \<Rightarrow> string" where
  "JoinHostPort host port =
     (if CHR '':'' \<in> set host then ''['' @ host @ '']:'' @ port else host @ '':'' @ port)"

fun contains_text :: "string \<Rightarrow> string \<Rightarrow> bool" where
  "contains_text p [] = (p = [])"
| "contains_text p (c # cs) = (has_prefix p (c # cs) \<or> contains_text p cs)"

section \<open>The parser\<close>

datatype url_error =
    URLParse string
  | UnsupportedScheme string string
  | ShorthandNeedsHost string
  | MissingHostname string
  | TCPNeedsPort string
  | TLSPortNot443 string

definition url_error_text :: "(string \<Rightarrow> string) \<Rightarrow> url_error \<Rightarrow> string" where
  "url_error_text quote e =
     (case e of
        URLParse m \<Rightarrow> ''failed to parse URL: '' @ m
      | UnsupportedScheme input scheme \<Rightarrow> ''unsupported scheme for URL ('' @ quote input @ ''): '' @ quote scheme
      | ShorthandNeedsHost input \<Rightarrow> ''invalid URL for scheme shorthand format ('' @ quote input @ ''): '' @ quote ''tcp://'' @
          '' and '' @ quote ''tls://'' @ '' must provide a hostname''
      | MissingHostname input \<Rightarrow> ''invalid URL ('' @ quote input @ ''), shorthand format not detected and URL is missing a hostname''
      | TCPNeedsPort input \<Rightarrow> ''invalid URL ('' @ quote input @ ''), tcp schemes require a port and a hostname''
      | TLSPortNot443 input \<Rightarrow> ''invalid url '' @ quote input @
          '', tls:// scheme ingress urls only support port 443 for accepting incoming traffic'')"

definition supported_schemes :: "string list" where
  "supported_schemes = [''http'', ''https'', ''tcp'', ''tls'']"

definition scheme_shorthand :: "string \<Rightarrow> go_url \<Rightarrow> url_error + go_url" where
  "scheme_shorthand input u =
     (if guScheme u = ''http'' then Inr (u\<lparr>guHost := ''localhost:80''\<rparr>)
      else if guScheme u = ''https'' then Inr (u\<lparr>guHost := ''localhost:443''\<rparr>)
      else Inl (ShorthandNeedsHost input))"

definition infer_port :: "string \<Rightarrow> bool \<Rightarrow> go_url \<Rightarrow> url_error + go_url" where
  "infer_port input isIngressURL u =
     (if url_Port u = [] then
        (if guScheme u = ''http'' then Inr (u\<lparr>guHost := JoinHostPort (url_Hostname u) ''80''\<rparr>)
         else if guScheme u = ''https'' \<or> guScheme u = ''tls'' then Inr (u\<lparr>guHost := JoinHostPort (url_Hostname u) ''443''\<rparr>)
         else Inl (TCPNeedsPort input))
      else if guScheme u = ''tls'' \<and> isIngressURL \<and> url_Port u \<noteq> ''443'' then Inl (TLSPortNot443 input)
      else Inr u)"

definition ParseAndSanitizeEndpointURL :: "(string \<Rightarrow> string + go_url) \<Rightarrow> string \<Rightarrow> bool \<Rightarrow> url_error + go_url" where
  "ParseAndSanitizeEndpointURL parse input0 isIngressURL =
     (if Atoi input0 \<noteq> None then Inr \<lparr>guScheme = ''http'', guHost = JoinHostPort ''localhost'' input0, guPath = []\<rparr>
      else
        let input = (if CHR '':'' \<in> set input0 \<and> \<not> contains_text ''://'' input0 then ''http://'' @ input0 else input0)
        in case parse input of
             Inl m \<Rightarrow> Inl (URLParse m)
           | Inr u \<Rightarrow>
               if guScheme u = [] then
                 (let u1 = u\<lparr>guScheme := ''http'', guHost := (if guHost u = [] then input else guHost u)\<rparr>;
                      u2 = (if url_Port u1 = [] then u1\<lparr>guHost := JoinHostPort (url_Hostname u1) ''80''\<rparr> else u1)
                  in Inr (u2\<lparr>guPath := []\<rparr>))
               else if guScheme u \<notin> set supported_schemes then Inl (UnsupportedScheme input (guScheme u))
               else if guHost u = [] then scheme_shorthand input u
               else if url_Hostname u = [] then Inl (MissingHostname input)
               else infer_port input isIngressURL u)"

section \<open>What is accepted\<close>

lemma last_colon_append: "CHR '':'' \<notin> set p \<Longrightarrow> last_colon (h @ CHR '':'' # p) = Some (h, CHR '':'' # p)"
  by (simp add: last_colon_def dropWhile_append takeWhile_append)

lemma splitHostPort_join:
  assumes "list_all is_digit port"
  shows "snd (splitHostPort (JoinHostPort host port)) = port"
proof -
  have "CHR '':'' \<notin> set port" using assms by (auto simp: list_all_iff is_digit_def)
  then have "snd (splitHostPort (h @ CHR '':'' # port)) = port" for h
    using assms by (simp add: splitHostPort_def validOptionalPort_def last_colon_append)
  from this [of host] this [of "''['' @ host @ '']''"] show ?thesis by (simp add: JoinHostPort_def)
qed

lemma split_known_ports [simp]:
  "snd (splitHostPort (JoinHostPort host ''80'')) = ''80''" "snd (splitHostPort (JoinHostPort host ''443'')) = ''443''"
  by (rule splitHostPort_join, simp add: is_digit_def)+

lemma infer_port_ok:
  assumes "infer_port input ingress u = Inr u'" "guScheme u \<in> set supported_schemes"
  shows "guScheme u' \<in> set supported_schemes" "url_Port u' \<noteq> []" "ingress \<Longrightarrow> guScheme u' = ''tls'' \<Longrightarrow> url_Port u' = ''443''"
  using assms by (auto simp: infer_port_def url_Port_def split: if_splits)

lemma scheme_shorthand_ok:
  assumes "scheme_shorthand input u = Inr u'"
  shows "guScheme u' \<in> {''http'', ''https''}" "url_Port u' \<noteq> []"
proof -
  have h: "''localhost:80'' = JoinHostPort ''localhost'' ''80''" "''localhost:443'' = JoinHostPort ''localhost'' ''443''"
    by (simp_all add: JoinHostPort_def)
  show "guScheme u' \<in> {''http'', ''https''}" "url_Port u' \<noteq> []"
    using assms by (auto simp: scheme_shorthand_def h url_Port_def split: if_splits)
qed



text \<open>The exclusion is needed.\<close>

lemma signed_number_is_no_port:
  "ParseAndSanitizeEndpointURL parse ''+8080'' True = Inr u \<Longrightarrow> url_Port u = []"
proof -
  assume "ParseAndSanitizeEndpointURL parse ''+8080'' True = Inr u"
  moreover have "Atoi ''+8080'' \<noteq> None" by code_simp
  ultimately have "u = \<lparr>guScheme = ''http'', guHost = JoinHostPort ''localhost'' ''+8080'', guPath = []\<rparr>"
    by (simp add: ParseAndSanitizeEndpointURL_def)
  moreover have "url_Port \<lparr>guScheme = ''http'', guHost = JoinHostPort ''localhost'' ''+8080'', guPath = []\<rparr> = []" by code_simp
  ultimately show ?thesis by simp
qed

end
