(* ===== verification/Domain_Manager.thy ===== *)
theory Domain_Manager
  imports Domain_Controller Endpoint_URL
begin

text \<open>
  \<^bold>\<open>internal/domain/manager.go\<close>: before an endpoint is created its host needs a Domain; the manager
  finds or creates it and reports on the endpoint whether it is ready.

  The interface \<open>EndpointWithDomain\<close> of the code, which cloud and agent endpoints implement, is a
  record of accessors of an endpoint's body. Besides an error the operations return the endpoint
  they have changed and the new state of the cluster.
\<close>

section \<open>Endpoints with a domain\<close>

record K8sObjectRefOptionalNamespace =
  krName :: string
  krNamespace :: "string ptr"

definition ref_Matches :: "K8sObjectRefOptionalNamespace ptr \<Rightarrow> NamespacedName \<Rightarrow> bool" where
  "ref_Matches ref key =
     (case ref of
        None \<Rightarrow> False
      | Some r \<Rightarrow>
          if krName r \<noteq> nnName key then False
          else (let ns = (case krNamespace r of Some n \<Rightarrow> n | None \<Rightarrow> []) in ns = [] \<or> ns = nnNamespace key))"

record 'b EndpointWithDomain =
  ewURL :: "'b \<Rightarrow> string"
  ewBindings :: "'b \<Rightarrow> string list"
  ewConditions :: "'b \<Rightarrow> Condition list"
  ewPutConditions :: "Condition list \<Rightarrow> 'b \<Rightarrow> 'b"
  ewDomainRef :: "'b \<Rightarrow> K8sObjectRefOptionalNamespace ptr"
  ewPutDomainRef :: "K8sObjectRefOptionalNamespace ptr \<Rightarrow> 'b \<Rightarrow> 'b"

record DomainResult =
  drDomain :: "Domain ptr"
  drIsReady :: bool
  drReadyReason :: string
  drReadyMessage :: string

definition ErrDomainNotReady :: go_error where
  "ErrDomainNotReady = PlainError ''domain is not ready yet''"

definition RequeueError :: "DomainResult \<Rightarrow> go_error option" where
  "RequeueError r = (if \<not> drIsReady r then Some ErrDomainNotReady else None)"

definition ConditionEndpointDomainReady :: string where
  "ConditionEndpointDomainReady = ''DomainReady''"

text \<open>The client: a write answers with the object as it was stored.\<close>

record 's domain_kube =
  dkMeta :: kube_meta
  dkGet :: "NamespacedName \<Rightarrow> 's \<Rightarrow> go_error + Domain"
  dkCreate :: "Domain \<Rightarrow> 's \<Rightarrow> (go_error + Domain) \<times> 's"
  dkUpdate :: "Domain \<Rightarrow> 's \<Rightarrow> (go_error + Domain) \<times> 's"
  dkDelete :: "NamespacedName \<Rightarrow> 's \<Rightarrow> go_error option \<times> 's"
  dkRetry :: "(Domain \<times> 's) retrier"
  dkParse :: "string \<Rightarrow> string + go_url"
  dkQuote :: "string \<Rightarrow> string"
  dkErrorText :: "go_error \<Rightarrow> string"

record Manager =
  mgReclaimPolicy :: "string ptr"
  mgControllerLabels :: "ControllerLabelValues ptr"

type_synonym ManagerOption = "Manager \<Rightarrow> Manager"

definition WithManagerReclaimPolicy :: "string \<Rightarrow> ManagerOption" where
  "WithManagerReclaimPolicy policy m = m\<lparr>mgReclaimPolicy := Some policy\<rparr>"

definition WithControllerLabels :: "ControllerLabelValues \<Rightarrow> ManagerOption" where
  "WithControllerLabels clv m = m\<lparr>mgControllerLabels := Some clv\<rparr>"

definition NewManager :: "ManagerOption list \<Rightarrow> string + Manager" where
  "NewManager opts =
     (let m = fold (\<lambda>opt m. opt m) opts \<lparr>mgReclaimPolicy = None, mgControllerLabels = None\<rparr>
      in case mgControllerLabels m of
           None \<Rightarrow> Inr m
         | Some clv \<Rightarrow> (case ValidateControllerLabelValues clv of Some e \<Rightarrow> Inl e | None \<Rightarrow> Inr m))"

section \<open>Conditions and references\<close>

definition setDomainCondition ::
  "kube_meta \<Rightarrow> 'b EndpointWithDomain \<Rightarrow> bool \<Rightarrow> string \<Rightarrow> string \<Rightarrow> 'b kube_object \<Rightarrow> 'b kube_object" where
  "setDomainCondition km acc ready reason message ep =
     ep\<lparr>obBody := ewPutConditions acc (kmSetStatusCondition km
       \<lparr>cnType = ConditionEndpointDomainReady, cnStatus = (if \<not> ready then ''False'' else ''True''), cnReason = reason,
        cnMessage = message, cnObservedGeneration = omGeneration (obMeta ep)\<rparr> (ewConditions acc (obBody ep))) (obBody ep)\<rparr>"

definition set_domain_ref ::
  "'b EndpointWithDomain \<Rightarrow> K8sObjectRefOptionalNamespace ptr \<Rightarrow> 'b kube_object \<Rightarrow> 'b kube_object" where
  "set_domain_ref acc ref ep = ep\<lparr>obBody := ewPutDomainRef acc ref (obBody ep)\<rparr>"

type_synonym ('b, 's) ensure_result = "((DomainResult ptr \<times> go_error option) \<times> 'b kube_object) \<times> 's"

section \<open>Endpoints that need no domain\<close>

definition deleteStaleBindingDomain ::
  "'s domain_kube \<Rightarrow> 'b EndpointWithDomain \<Rightarrow> 'b kube_object \<Rightarrow> 's \<Rightarrow> go_error option \<times> 's" where
  "deleteStaleBindingDomain k acc ep s =
     (case ewDomainRef acc (obBody ep) of
        None \<Rightarrow> (None, s)
      | Some ref \<Rightarrow>
          (case dkDelete k \<lparr>nnName = krName ref, nnNamespace = omNamespace (obMeta ep)\<rparr> s of
             (Some e, s') \<Rightarrow> (IgnoreNotFound e, s')
           | (None, s') \<Rightarrow> (None, s')))"

definition skip_domain ::
  "'s domain_kube \<Rightarrow> 'b EndpointWithDomain \<Rightarrow> string \<Rightarrow> 'b kube_object \<Rightarrow> 's \<Rightarrow> ('b, 's) ensure_result option" where
  "skip_domain k acc msg ep s =
     Some (((Some \<lparr>drDomain = None, drIsReady = True, drReadyReason = ''DomainReady'', drReadyMessage = msg\<rparr>, None),
       set_domain_ref acc None (setDomainCondition (dkMeta k) acc True ''DomainReady'' msg ep)), s)"

definition checkSkippedDomains ::
  "'s domain_kube \<Rightarrow> 'b EndpointWithDomain \<Rightarrow> go_url \<Rightarrow> 'b kube_object \<Rightarrow> 's \<Rightarrow> ('b, 's) ensure_result option" where
  "checkSkippedDomains k acc parsedURL ep s =
     (if ''kubernetes'' \<in> set (ewBindings acc (obBody ep)) then
        (case deleteStaleBindingDomain k acc ep s of
           (Some e, s') \<Rightarrow> Some (((None, Some e), ep), s')
         | (None, s') \<Rightarrow> skip_domain k acc ''Domain ready (Kubernetes binding - no domain reservation needed)'' ep s')
      else if ''internal'' \<in> set (ewBindings acc (obBody ep)) then
        skip_domain k acc ''Domain ready (internal binding - no domain reservation needed)'' ep s
      else if guScheme parsedURL = ''tcp'' then
        skip_domain k acc ''Domain ready (TCP ngrok URL - no domain reservation needed)'' ep s
      else if IsInternalDomain (url_Hostname parsedURL) then
        skip_domain k acc ''Domain ready (internal domain - no domain reservation needed)'' ep s
      else None)"

section \<open>Finding or creating the domain\<close>

definition ensure_labels_attempt ::
  "'s domain_kube \<Rightarrow> ControllerLabelValues \<Rightarrow> Domain \<times> 's \<Rightarrow> go_error option \<times> Domain \<times> 's" where
  "ensure_labels_attempt k clv = (\<lambda>(d, s).
     case dkGet k (object_key d) s of
       Inl e \<Rightarrow> (Some e, d, s)
     | Inr d1 \<Rightarrow>
         (let (ls, modified) = EnsureLabels clv (dmLabels (obBody d1))
          in if \<not> modified then (None, d1, s)
             else (case dkUpdate k (map_domain_labels (\<lambda>_. ls) d1) s of
                     (Inl e, s') \<Rightarrow> (Some e, map_domain_labels (\<lambda>_. ls) d1, s')
                   | (Inr d2, s') \<Rightarrow> (None, d2, s'))))"

definition ensureControllerLabels :: "'s domain_kube \<Rightarrow> Manager \<Rightarrow> Domain \<Rightarrow> 's \<Rightarrow> (go_error option \<times> Domain) \<times> 's" where
  "ensureControllerLabels k m d s =
     (case mgControllerLabels m of
        None \<Rightarrow> ((None, d), s)
      | Some clv \<Rightarrow>
          if \<not> snd (EnsureLabels clv (dmLabels (obBody d))) then ((None, d), s)
          else (case dkRetry k (ensure_labels_attempt k clv) (d, s) of (err, d', s') \<Rightarrow> ((err, d'), s')))"

definition domain_ref_to :: "Domain \<Rightarrow> K8sObjectRefOptionalNamespace" where
  "domain_ref_to d = \<lparr>krName = omName (obMeta d), krNamespace = Some (omNamespace (obMeta d))\<rparr>"

definition checkExistingDomain ::
  "kube_meta \<Rightarrow> 'b EndpointWithDomain \<Rightarrow> Domain \<Rightarrow> 'b kube_object \<Rightarrow> DomainResult \<times> 'b kube_object" where
  "checkExistingDomain km acc d ep =
     (let ep1 = set_domain_ref acc (Some (domain_ref_to d)) ep;
          (readyReason, readyMessage) =
            (case kmFindStatusCondition km (dstConditions (domain_status d)) ConditionDomainReady of
               Some c \<Rightarrow> (cnReason c, cnMessage c)
             | None \<Rightarrow> (''DomainCreating'', ''Domain is being created''));
          isReady = IsDomainReady km d
      in (\<lparr>drDomain = Some d, drIsReady = isReady, drReadyReason = readyReason, drReadyMessage = readyMessage\<rparr>,
          setDomainCondition km acc isReady readyReason readyMessage ep1))"

definition new_endpoint_domain :: "Manager \<Rightarrow> string \<Rightarrow> string \<Rightarrow> Domain" where
  "new_endpoint_domain m namespace domain =
     (let d0 = new_domain (HyphenatedDomainNameFromURL domain) namespace (empty_domain_spec\<lparr>dsDomain := domain\<rparr>);
          d1 = (case mgControllerLabels m of Some clv \<Rightarrow> map_domain_labels (\<lambda>ls. fst (EnsureLabels clv ls)) d0 | None \<Rightarrow> d0)
      in case mgReclaimPolicy m of Some policy \<Rightarrow> map_spec (dsReclaimPolicy_update (\<lambda>_. policy)) d1 | None \<Rightarrow> d1)"

definition createNewDomain ::
  "'s domain_kube \<Rightarrow> Manager \<Rightarrow> 'b EndpointWithDomain \<Rightarrow> string \<Rightarrow> 'b kube_object \<Rightarrow> 's \<Rightarrow> ('b, 's) ensure_result" where
  "createNewDomain k m acc domain ep s =
     (case dkCreate k (new_endpoint_domain m (omNamespace (obMeta ep)) domain) s of
        (Inl e, s') \<Rightarrow>
          (((None, Some e), setDomainCondition (dkMeta k) acc False ''NgrokAPIError'' (error_text (dkErrorText k) e) ep), s')
      | (Inr d, s') \<Rightarrow>
          (((Some \<lparr>drDomain = Some d, drIsReady = False, drReadyReason = ''DomainCreating'',
              drReadyMessage = ''Domain is being created''\<rparr>, None),
            setDomainCondition (dkMeta k) acc False ''DomainCreating'' ''Domain is being created''
              (set_domain_ref acc (Some (domain_ref_to d)) ep)), s'))"

definition getOrCreateDomain ::
  "'s domain_kube \<Rightarrow> Manager \<Rightarrow> 'b EndpointWithDomain \<Rightarrow> string \<Rightarrow> 'b kube_object \<Rightarrow> 's \<Rightarrow> ('b, 's) ensure_result" where
  "getOrCreateDomain k m acc domain ep s =
     (case dkGet k \<lparr>nnName = HyphenatedDomainNameFromURL domain, nnNamespace = omNamespace (obMeta ep)\<rparr> s of
        Inr d \<Rightarrow>
          (case ensureControllerLabels k m d s of
             ((Some e, _), s') \<Rightarrow> (((None, Some e), ep), s')
           | ((None, d'), s') \<Rightarrow>
               (case checkExistingDomain (dkMeta k) acc d' ep of (r, ep') \<Rightarrow> (((Some r, None), ep'), s')))
      | Inl e \<Rightarrow>
          if IgnoreNotFound e \<noteq> None
          then (((None, Some e), setDomainCondition (dkMeta k) acc False ''NgrokAPIError'' (error_text (dkErrorText k) e) ep), s)
          else createNewDomain k m acc domain ep s)"

definition EnsureDomainExists ::
  "'s domain_kube \<Rightarrow> Manager \<Rightarrow> 'b EndpointWithDomain \<Rightarrow> 'b kube_object \<Rightarrow> 's \<Rightarrow> ('b, 's) ensure_result" where
  "EnsureDomainExists k m acc ep s =
     (case ParseAndSanitizeEndpointURL (dkParse k) (ewURL acc (obBody ep)) True of
        Inl e \<Rightarrow>
          (let text = url_error_text (dkQuote k) e
           in (((None, Some (WrappedError (''failed to parse URL '' @ dkQuote k (ewURL acc (obBody ep))) (PlainError text))),
                setDomainCondition (dkMeta k) acc False ''NgrokAPIError'' text ep), s))
      | Inr parsedURL \<Rightarrow>
          (case checkSkippedDomains k acc parsedURL ep s of
             Some r \<Rightarrow> r
           | None \<Rightarrow> getOrCreateDomain k m acc (url_Hostname parsedURL) ep s))"

section \<open>What the manager achieves\<close>

text \<open>The accessors of an endpoint behave like fields, and conditions and reference are apart.\<close>

locale endpoint_access =
  fixes acc :: "'b EndpointWithDomain"
  assumes conditions_put [simp]: "ewConditions acc (ewPutConditions acc cs b) = cs"
    and conditions_ref [simp]: "ewConditions acc (ewPutDomainRef acc ref b) = ewConditions acc b"
    and ref_put [simp]: "ewDomainRef acc (ewPutDomainRef acc ref b) = ref"
    and ref_conditions [simp]: "ewDomainRef acc (ewPutConditions acc cs b) = ewDomainRef acc b"

text \<open>
  The Domains of the cluster by name: what was written is stored, with the status the object had,
  and nothing else changes; an object that cannot be found is not there.
\<close>

locale domain_objects = object_meta "dkMeta k" for k :: "'s domain_kube" +
  fixes doms :: "'s \<Rightarrow> NamespacedName \<Rightarrow> Domain option"
  assumes got: "dkGet k key s = Inr d \<Longrightarrow> doms s key = Some d \<and> object_key d = key"
    and not_there: "dkGet k key s = Inl e \<Longrightarrow> IgnoreNotFound e = None \<Longrightarrow> doms s key = None"
    and created: "dkCreate k d s = (Inr d', s') \<Longrightarrow> doms s (object_key d) = None \<and> doms s' = (doms s)(object_key d \<mapsto> d') \<and>
      object_key d' = object_key d \<and> dmLabels (obBody d') = dmLabels (obBody d) \<and> domain_spec d' = domain_spec d \<and>
      domain_status d' = empty_domain_status"
    and updated: "dkUpdate k d s = (Inr d', s') \<Longrightarrow> doms s' = (doms s)(object_key d \<mapsto> d') \<and>
      object_key d' = object_key d \<and> dmLabels (obBody d') = dmLabels (obBody d) \<and> domain_spec d' = domain_spec d"
    and update_failed: "dkUpdate k d s = (Inl e, s') \<Longrightarrow> \<forall>key. key \<noteq> object_key d \<longrightarrow> doms s' key = doms s key"
    and deleted: "dkDelete k key s = (derr, s') \<Longrightarrow> key' \<noteq> key \<Longrightarrow> doms s' key' = doms s key'"
    and retrying: "retries (dkRetry k)"
begin

lemma labels_attempt:
  assumes "ensure_labels_attempt k clv (d, s) = (err, d', s')"
  shows "object_key d' = object_key d \<and> (\<forall>key. key \<noteq> object_key d \<longrightarrow> doms s' key = doms s key) \<and>
    (err = None \<longrightarrow> doms s' (object_key d) = Some d' \<and> \<not> snd (EnsureLabels clv (dmLabels (obBody d'))))"
proof (cases "dkGet k (object_key d) s")
  case (Inl e)
  then show ?thesis using assms by (auto simp: ensure_labels_attempt_def)
next
  case (Inr d1)
  note g = got [OF Inr]
  obtain ls modified where e: "EnsureLabels clv (dmLabels (obBody d1)) = (ls, modified)" by fastforce
  have stable: "\<not> snd (EnsureLabels clv ls)"
    using e EnsureControllerLabels_stable [of "dmLabels (obBody d1)" "clvNamespace clv" "clvName clv"] by (simp add: EnsureLabels_def)
  have key: "object_key (map_domain_labels (\<lambda>_. ls) d1) = object_key d" using g by (simp add: object_key_def)
  show ?thesis
    using assms Inr g e stable key updated [of "map_domain_labels (\<lambda>_. ls) d1" s] update_failed [of "map_domain_labels (\<lambda>_. ls) d1" s]
    by (auto simp: ensure_labels_attempt_def split: if_splits prod.splits sum.splits)
qed

lemma ensureControllerLabels_spec:
  assumes run: "ensureControllerLabels k m d s = ((None, d'), s')" and here: "doms s (object_key d) = Some d"
  shows "object_key d' = object_key d" "doms s' (object_key d) = Some d'" "key \<noteq> object_key d \<Longrightarrow> doms s' key = doms s key"
    "mgControllerLabels m = Some clv \<Longrightarrow> \<not> snd (EnsureLabels clv (dmLabels (obBody d')))"
proof -
  have "object_key d' = object_key d \<and> doms s' (object_key d) = Some d' \<and> (\<forall>key. key \<noteq> object_key d \<longrightarrow> doms s' key = doms s key) \<and>
    (\<forall>clv. mgControllerLabels m = Some clv \<longrightarrow> \<not> snd (EnsureLabels clv (dmLabels (obBody d'))))"
  proof (cases "\<exists>clv. mgControllerLabels m = Some clv \<and> snd (EnsureLabels clv (dmLabels (obBody d)))")
    case True
    then obtain clv where clv: "mgControllerLabels m = Some clv" "snd (EnsureLabels clv (dmLabels (obBody d)))" by blast
    have r: "dkRetry k (ensure_labels_attempt k clv) (d, s) = (None, d', s')"
      using run clv by (auto simp: ensureControllerLabels_def split: prod.splits)
    let ?I = "\<lambda>x. object_key (fst x) = object_key d \<and> (\<forall>key. key \<noteq> object_key d \<longrightarrow> doms (snd x) key = doms s key)"
    have at: "attempts (ensure_labels_attempt k clv) (d, s) (None, d', s')" using retrying r unfolding retries_def by metis
    have step: "?I (snd (ensure_labels_attempt k clv x))" if "?I x" for x
    proof -
      obtain d0 s0 err d1 s1 where x: "x = (d0, s0)" "ensure_labels_attempt k clv (d0, s0) = (err, d1, s1)" by (metis surj_pair)
      from labels_attempt [OF x(2)] that x show ?thesis by auto
    qed
    obtain y where y: "(None, d', s') = ensure_labels_attempt k clv y"
      "y = (d, s) \<or> (\<exists>z e. ensure_labels_attempt k clv z = (Some e, y) \<and> kube_reason_of e = Some KubeConflict)"
      using attempts_last [OF at] by blast
    have I: "?I (d', s')" using attempts_invariant [OF at, of ?I] step by simp
    obtain d0 s0 where yy: "y = (d0, s0)" by (cases y)
    from labels_attempt [of clv d0 s0 None d' s'] y(1) yy
    have fin: "object_key d' = object_key d0" "doms s' (object_key d0) = Some d'" "\<not> snd (EnsureLabels clv (dmLabels (obBody d')))"
      by simp_all
    with I clv(1) show ?thesis by auto
  next
    case False
    then show ?thesis using run here by (auto simp: ensureControllerLabels_def split: option.splits)
  qed
  then show "object_key d' = object_key d" "doms s' (object_key d) = Some d'" "key \<noteq> object_key d \<Longrightarrow> doms s' key = doms s key"
    "mgControllerLabels m = Some clv \<Longrightarrow> \<not> snd (EnsureLabels clv (dmLabels (obBody d')))" by blast+
qed

lemma new_domain_key [simp]:
  "object_key (new_endpoint_domain m ns host) = \<lparr>nnName = HyphenatedDomainNameFromURL host, nnNamespace = ns\<rparr>"
  by (simp add: new_endpoint_domain_def object_key_def new_domain_def [of "HyphenatedDomainNameFromURL host"] Let_def split: option.split)

lemma new_domain_host [simp]: "dsDomain (domain_spec (new_endpoint_domain m ns host)) = host"
  by (simp add: new_endpoint_domain_def Let_def split: option.split) (simp add: new_domain_def domain_spec_def)

lemma new_domain_labels:
  "mgControllerLabels m = Some clv \<Longrightarrow> \<not> snd (EnsureLabels clv (dmLabels (obBody (new_endpoint_domain m ns host))))"
  using EnsureControllerLabels_stable [of "[]" "clvNamespace clv" "clvName clv"]
  by (auto simp: new_endpoint_domain_def Let_def new_domain_def EnsureLabels_def split: option.split)

end

text \<open>What an answer with a result promises of the endpoint and the Domains.\<close>

definition condition_says :: "kube_meta \<Rightarrow> 'b EndpointWithDomain \<Rightarrow> 'b kube_object \<Rightarrow> bool \<Rightarrow> bool" where
  "condition_says km acc ep ready \<longleftrightarrow>
     (\<exists>c. kmFindStatusCondition km (ewConditions acc (obBody ep)) ConditionEndpointDomainReady = Some c \<and>
        cnStatus c = (if ready then ''True'' else ''False'') \<and> cnObservedGeneration c = omGeneration (obMeta ep))"

definition labelled_by :: "Manager \<Rightarrow> Domain \<Rightarrow> bool" where
  "labelled_by m d \<longleftrightarrow> (\<forall>clv. mgControllerLabels m = Some clv \<longrightarrow> \<not> snd (EnsureLabels clv (dmLabels (obBody d))))"

definition domain_found ::
  "'s domain_kube \<Rightarrow> Manager \<Rightarrow> 'b EndpointWithDomain \<Rightarrow> ('s \<Rightarrow> NamespacedName \<Rightarrow> Domain option) \<Rightarrow> string \<Rightarrow> 'b kube_object \<Rightarrow> 's \<Rightarrow>
   DomainResult \<Rightarrow> 'b kube_object \<Rightarrow> 's \<Rightarrow> bool" where
  "domain_found k m acc doms host ep s r ep' s' \<longleftrightarrow>
     (let key = \<lparr>nnName = HyphenatedDomainNameFromURL host, nnNamespace = omNamespace (obMeta ep)\<rparr>
      in \<exists>d. drDomain r = Some d \<and> object_key d = key \<and> doms s' key = Some d \<and> labelled_by m d \<and>
           (drIsReady r \<longleftrightarrow> IsDomainReady (dkMeta k) d) \<and> ewDomainRef acc (obBody ep') = Some (domain_ref_to d) \<and>
           (doms s key = None \<longrightarrow> dsDomain (domain_spec d) = host) \<and> (\<forall>key'. key' \<noteq> key \<longrightarrow> doms s' key' = doms s key'))"

definition domain_skipped ::
  "'b EndpointWithDomain \<Rightarrow> ('s \<Rightarrow> NamespacedName \<Rightarrow> Domain option) \<Rightarrow> 'b kube_object \<Rightarrow> 's \<Rightarrow> DomainResult \<Rightarrow> 'b kube_object \<Rightarrow> 's \<Rightarrow> bool" where
  "domain_skipped acc doms ep s r ep' s' \<longleftrightarrow> drDomain r = None \<and> drIsReady r \<and> ewDomainRef acc (obBody ep') = None \<and>
     (\<forall>key. (\<forall>ref. ewDomainRef acc (obBody ep) = Some ref \<longrightarrow>
         key \<noteq> \<lparr>nnName = krName ref, nnNamespace = omNamespace (obMeta ep)\<rparr> \<or> ''kubernetes'' \<notin> set (ewBindings acc (obBody ep))) \<longrightarrow>
       doms s' key = doms s key)"

definition needs_no_domain :: "'b EndpointWithDomain \<Rightarrow> go_url \<Rightarrow> 'b kube_object \<Rightarrow> bool" where
  "needs_no_domain acc u ep \<longleftrightarrow> ''kubernetes'' \<in> set (ewBindings acc (obBody ep)) \<or> ''internal'' \<in> set (ewBindings acc (obBody ep)) \<or>
     guScheme u = ''tcp'' \<or> IsInternalDomain (url_Hostname u)"

locale domain_managing = domain_objects k doms + endpoint_access acc
  for k :: "'s domain_kube" and doms and acc :: "'b EndpointWithDomain"
begin

lemma set_condition_facts [simp]:
  "obMeta (setDomainCondition km' acc ready reason msg ep) = obMeta ep"
  "obMeta (set_domain_ref acc ref ep) = obMeta ep"
  "ewDomainRef acc (obBody (setDomainCondition km' acc ready reason msg ep)) = ewDomainRef acc (obBody ep)"
  "ewDomainRef acc (obBody (set_domain_ref acc ref ep)) = ref"
  "condition_says km' acc (set_domain_ref acc ref ep) b \<longleftrightarrow> condition_says km' acc ep b"
  "condition_says (dkMeta k) acc (setDomainCondition (dkMeta k) acc ready reason msg ep) ready"
  by (simp_all add: setDomainCondition_def set_domain_ref_def condition_says_def find_set)

lemma skipped_ok:
  assumes "checkSkippedDomains k acc u ep s = Some (((Some r, err), ep'), s')"
  shows "err = None \<and> condition_says (dkMeta k) acc ep' (drIsReady r) \<and> domain_skipped acc doms ep s r ep' s'"
proof -
  have del: "\<forall>key. (\<forall>ref. ewDomainRef acc (obBody ep) = Some ref \<longrightarrow>
      key \<noteq> \<lparr>nnName = krName ref, nnNamespace = omNamespace (obMeta ep)\<rparr>) \<longrightarrow> doms s1 key = doms s key"
    if "deleteStaleBindingDomain k acc ep s = (e, s1)" for e s1
    using that deleted by (auto simp: deleteStaleBindingDomain_def split: option.splits prod.splits)
  show ?thesis
    using assms del by (auto simp: checkSkippedDomains_def skip_domain_def domain_skipped_def split: if_splits prod.splits option.splits)
qed

lemma skipped_iff: "checkSkippedDomains k acc u ep s = None \<longleftrightarrow> \<not> needs_no_domain acc u ep"
  by (auto simp: checkSkippedDomains_def skip_domain_def needs_no_domain_def split: prod.split option.split)

lemma getOrCreate_ok:
  assumes run: "getOrCreateDomain k m acc host ep s = (((Some r, err), ep'), s')"
  shows "err = None \<and> condition_says (dkMeta k) acc ep' (drIsReady r) \<and> domain_found k m acc doms host ep s r ep' s'"
proof -
  let ?key = "\<lparr>nnName = HyphenatedDomainNameFromURL host, nnNamespace = omNamespace (obMeta ep)\<rparr>"
  show ?thesis
  proof (cases "dkGet k ?key s")
    case (Inr d)
    note g = got [OF Inr]
    obtain d' where lab: "ensureControllerLabels k m d s = ((None, d'), s')"
      and check: "checkExistingDomain (dkMeta k) acc d' ep = (r, ep')" and err: "err = None"
      using run Inr by (auto simp: getOrCreateDomain_def split: prod.splits option.splits)
    have here: "doms s (object_key d) = Some d" using g by simp
    note spec = ensureControllerLabels_spec [OF lab here]
    have lb: "labelled_by m d'" using spec(4) by (simp add: labelled_by_def)
    have r: "drDomain r = Some d'" "drIsReady r = IsDomainReady (dkMeta k) d'" "ewDomainRef acc (obBody ep') = Some (domain_ref_to d')"
      "condition_says (dkMeta k) acc ep' (drIsReady r)"
      using check by (auto simp: checkExistingDomain_def Let_def split: prod.splits option.splits)
    show ?thesis using err g spec(1-3) lb r by (simp add: domain_found_def)
  next
    case (Inl e)
    then have ign: "IgnoreNotFound e = None" using run by (auto simp: getOrCreateDomain_def split: if_splits)
    obtain d where cr: "dkCreate k (new_endpoint_domain m (omNamespace (obMeta ep)) host) s = (Inr d, s')"
      and r: "r = \<lparr>drDomain = Some d, drIsReady = False, drReadyReason = ''DomainCreating'', drReadyMessage = ''Domain is being created''\<rparr>"
      and ep': "ep' = setDomainCondition (dkMeta k) acc False ''DomainCreating'' ''Domain is being created'' (set_domain_ref acc (Some (domain_ref_to d)) ep)"
      and err: "err = None"
      using run Inl ign by (auto simp: getOrCreateDomain_def createNewDomain_def split: sum.splits prod.splits)
    note c = created [OF cr]
    have "labelled_by m d" using c new_domain_labels by (simp add: labelled_by_def)
    moreover have "\<not> IsDomainReady (dkMeta k) d" using c by (simp add: IsDomainReady_def empty_domain_status_def)
    ultimately show ?thesis using c err by (simp add: r ep' domain_found_def)
  qed
qed

end


section \<open>What the manager leaves alone\<close>

lemma EnsureDomainExists_keeps:
  assumes run: "EnsureDomainExists k m acc ep s = ((r, ep'), s')"
    and "\<And>cs b. f (ewPutConditions acc cs b) = f b" "\<And>ref b. f (ewPutDomainRef acc ref b) = f b"
  shows "f (obBody ep') = f (obBody ep)" "obMeta ep' = obMeta ep"
  using assms
  by (auto simp: EnsureDomainExists_def checkSkippedDomains_def skip_domain_def getOrCreateDomain_def createNewDomain_def
      checkExistingDomain_def setDomainCondition_def set_domain_ref_def Let_def
      split: sum.splits option.splits prod.splits if_splits)

lemma EnsureDomainExists_result:
  "EnsureDomainExists k m acc ep s = (((res, None), ep'), s') \<Longrightarrow> res \<noteq> None"
  by (auto simp: EnsureDomainExists_def checkSkippedDomains_def skip_domain_def getOrCreateDomain_def createNewDomain_def
      checkExistingDomain_def Let_def split: sum.splits option.splits prod.splits if_splits)

text \<open>What the operations on Domains do not change is not changed by the manager.\<close>

locale domain_frame =
  fixes k :: "'s domain_kube" and view :: "'s \<Rightarrow> 'v"
  assumes create_view: "dkCreate k d s = (cr, s') \<Longrightarrow> view s' = view s"
    and update_view: "dkUpdate k d s = (ur, s') \<Longrightarrow> view s' = view s"
    and delete_view: "dkDelete k key s = (dr, s') \<Longrightarrow> view s' = view s"
    and retrying_frame: "retries (dkRetry k)"
begin

lemma ensureControllerLabels_view:
  assumes "ensureControllerLabels k m d s = ((err, d'), s')"
  shows "view s' = view s"
proof (cases "\<exists>clv. mgControllerLabels m = Some clv \<and> snd (EnsureLabels clv (dmLabels (obBody d)))")
  case True
  then obtain clv where r: "dkRetry k (ensure_labels_attempt k clv) (d, s) = (err, d', s')"
    using assms by (auto simp: ensureControllerLabels_def split: prod.splits)
  have at: "attempts (ensure_labels_attempt k clv) (d, s) (err, d', s')" using retrying_frame r unfolding retries_def by metis
  have step: "view (snd (snd (ensure_labels_attempt k clv x))) = view (snd x)" for x
    by (auto simp: ensure_labels_attempt_def split: prod.splits sum.splits dest: update_view)
  show ?thesis using attempts_invariant [OF at, of "\<lambda>x. view (snd x) = view s"] step by simp
next
  case False
  then show ?thesis using assms by (auto simp: ensureControllerLabels_def split: option.splits if_splits)
qed

lemma getOrCreateDomain_view: "getOrCreateDomain k m acc host ep s = (r, s') \<Longrightarrow> view s' = view s"
  by (auto simp: getOrCreateDomain_def createNewDomain_def split: sum.splits prod.splits option.splits if_splits
      dest: create_view ensureControllerLabels_view)

lemma checkSkippedDomains_view: "checkSkippedDomains k acc u ep s = Some (r, s') \<Longrightarrow> view s' = view s"
  by (auto simp: checkSkippedDomains_def skip_domain_def deleteStaleBindingDomain_def
      split: prod.splits option.splits if_splits dest: delete_view)

lemma EnsureDomainExists_view: "EnsureDomainExists k m acc ep s = (r, s') \<Longrightarrow> view s' = view s"
  by (auto simp: EnsureDomainExists_def Let_def split: sum.splits option.splits
      dest: checkSkippedDomains_view getOrCreateDomain_view)

end

section \<open>A reference cluster\<close>

definition list_domain_kube :: "(string \<Rightarrow> string + go_url) \<Rightarrow> (NamespacedName \<times> Domain) list domain_kube" where
  "list_domain_kube parse =
     \<lparr>dkMeta = list_meta,
      dkGet = (\<lambda>key w. case map_of w key of Some d \<Rightarrow> if object_key d = key then Inr d else Inl (PlainError ''broken'')
        | None \<Rightarrow> Inl (KubeError KubeNotFound ''not found'')),
      dkCreate = (\<lambda>d w. if map_of w (object_key d) \<noteq> None then (Inl (PlainError ''already exists''), w)
        else (let d' = map_domain_status (\<lambda>_. empty_domain_status) d in (Inr d', AList.update (object_key d) d' w))),
      dkUpdate = (\<lambda>d w. (Inr d, AList.update (object_key d) d w)),
      dkDelete = (\<lambda>key w. (None, AList.delete key w)), dkRetry = retry_steps 4, dkParse = parse, dkQuote = (\<lambda>s. s),
      dkErrorText = (\<lambda>e. [])\<rparr>"

lemma object_key_status [simp]: "object_key (map_domain_status f d) = object_key d"
  by (simp add: object_key_def)

interpretation list_domains: domain_objects "list_domain_kube parse" map_of for parse
proof (intro domain_objects.intro domain_objects_axioms.intro)
  show "object_meta (dkMeta (list_domain_kube parse))" by (simp add: list_domain_kube_def list_meta.object_meta_axioms)
qed (auto simp: list_domain_kube_def update_conv' retries_steps IgnoreNotFound_def delete_conv' Let_def
    split: option.splits if_splits)

end
