(* ===== verification/Bound_Endpoint_Controller.thy ===== *)
theory Bound_Endpoint_Controller
  imports Domain_Manager Bound_Endpoint_Poller
begin

text \<open>
  \<^bold>\<open>internal/controller/bindings/boundendpoint_controller.go\<close> and \<^bold>\<open>boundendpoint_conditions.go\<close>: a
  BoundEndpoint becomes two Services. Clients send requests to the target Service, an external name
  for the upstream Service, which leads to the port that the pod forwarders have for this endpoint.

  The object has its own status type here because the controller works on conditions, while the
  poller only copies them. Of a Service, the fields that the controller writes are represented. The
  Kubernetes client, the parser of URLs and the network are arguments (\<open>bound_env\<close>). One turn of the
  connectivity test has an outcome (\<open>connect_outcome\<close>), which the network decides; waiting takes no
  time in the model. Events and log messages are left out.
\<close>

section \<open>Objects\<close>

record BindingStatus =
  btObservedGeneration :: int
  btConditions :: "Condition list"
  btTargetServiceRef :: "K8sObjectRefOptionalNamespace ptr"
  btUpstreamServiceRef :: "string ptr"
  btEndpoints :: "BindingEndpoint list"
  btHashedName :: string
  btEndpointsSummary :: string

record binding_body =
  bnSpec :: BoundEndpointSpec
  bnStatus :: BindingStatus

type_synonym Binding = "binding_body kube_object"

record BoundServicePort =
  vpName :: string
  vpProtocol :: string
  vpPort :: int
  vpTargetPort :: int

record BoundServiceSpec =
  vsType :: string
  vsExternalName :: string
  vsInternalTrafficPolicy :: "string ptr"
  vsSessionAffinity :: string
  vsSelector :: labels
  vsPorts :: "BoundServicePort list"

record service_body =
  vcLabels :: labels
  vcAnnotations :: labels
  vcSpec :: BoundServiceSpec

type_synonym BoundService = "service_body kube_object"

definition map_binding_status :: "(BindingStatus \<Rightarrow> BindingStatus) \<Rightarrow> Binding \<Rightarrow> Binding" where
  "map_binding_status f be = be\<lparr>obBody := (obBody be)\<lparr>bnStatus := f (bnStatus (obBody be))\<rparr>\<rparr>"

definition set_binding_observed :: "int \<Rightarrow> Binding \<Rightarrow> Binding" where
  "set_binding_observed generation = map_binding_status (btObservedGeneration_update (\<lambda>_. generation))"

lemma map_binding_status_simps [simp]:
  "obMeta (map_binding_status f be) = obMeta be" "bnSpec (obBody (map_binding_status f be)) = bnSpec (obBody be)"
  "bnStatus (obBody (map_binding_status f be)) = f (bnStatus (obBody be))" "object_key (map_binding_status f be) = object_key be"
  by (simp_all add: map_binding_status_def object_key_def)

section \<open>Labels\<close>

definition LabelManagedBy :: string where "LabelManagedBy = ''app.kubernetes.io/managed-by''"
definition LabelBoundEndpointName :: string where "LabelBoundEndpointName = ''ngrok.com/endpoint-binding-name''"
definition LabelBoundEndpointNamespace :: string where "LabelBoundEndpointNamespace = ''ngrok.com/endpoint-binding-namespace''"
definition LabelEndpointURL :: string where "LabelEndpointURL = ''ngrok.com/endpoint-url''"
definition LegacyLabelBoundEndpointName :: string where
  "LegacyLabelBoundEndpointName = ''bindings.k8s.ngrok.com/endpoint-binding-name''"
definition LegacyLabelBoundEndpointNamespace :: string where
  "LegacyLabelBoundEndpointNamespace = ''bindings.k8s.ngrok.com/endpoint-binding-namespace''"
definition LegacyLabelEndpointURL :: string where "LegacyLabelEndpointURL = ''bindings.k8s.ngrok.com/endpoint-url''"

lemmas binding_label_defs = LabelManagedBy_def LabelBoundEndpointName_def LabelBoundEndpointNamespace_def LabelEndpointURL_def
  LegacyLabelBoundEndpointName_def LegacyLabelBoundEndpointNamespace_def LegacyLabelEndpointURL_def

definition boundEndpointLabelsFor :: "labels \<Rightarrow> string \<times> string" where
  "boundEndpointLabelsFor svcLabels =
     (let newName = label_get svcLabels LabelBoundEndpointName; newNamespace = label_get svcLabels LabelBoundEndpointNamespace
      in if newName \<noteq> [] \<and> newNamespace \<noteq> [] then (newName, newNamespace)
         else (label_get svcLabels LegacyLabelBoundEndpointName, label_get svcLabels LegacyLabelBoundEndpointNamespace))"

definition commonBoundEndpointLabels :: labels where
  "commonBoundEndpointLabels = [(LabelManagedBy, ''ngrok-operator'')]"

definition MergeMaps :: "(string \<times> 'v) list list \<Rightarrow> (string \<times> 'v) list" where
  "MergeMaps ms = fold (\<lambda>m result. fold (\<lambda>(k, v). AList.update k v) m result) ms []"

text \<open>The index of Services by their owner, and that of BoundEndpoints by their target namespace.\<close>

definition index_by_owner :: "BoundService \<Rightarrow> string list" where
  "index_by_owner svc =
     (case boundEndpointLabelsFor (vcLabels (obBody svc)) of
        (epbName, epbNamespace) \<Rightarrow> if epbName = [] \<or> epbNamespace = [] then [] else [epbNamespace @ ''/'' @ epbName])"

definition index_by_target_namespace :: "Binding \<Rightarrow> string list" where
  "index_by_target_namespace be = [tgNamespace (bsTarget (bnSpec (obBody be)))]"

section \<open>The environment\<close>

datatype connect_outcome = Deadline | DialFailed | CloseFailed | Connected

record 's bound_env =
  bvMeta :: kube_meta
  bvErrors :: ngrok_errors
  bvErrorText :: "go_error \<Rightarrow> string"
  bvClusterDomain :: string
  bvSelector :: labels
  bvRefreshDuration :: nat
  bvParse :: "string \<Rightarrow> go_error + go_url"
  bvConnect :: "string \<Rightarrow> nat \<Rightarrow> nat \<Rightarrow> 's \<Rightarrow> connect_outcome"
  bvGetNamespace :: "string \<Rightarrow> 's \<Rightarrow> go_error option"
  bvGetService :: "NamespacedName \<Rightarrow> 's \<Rightarrow> go_error + BoundService"
  bvCreateService :: "BoundService \<Rightarrow> 's \<Rightarrow> (go_error + BoundService) \<times> 's"
  bvUpdateService :: "BoundService \<Rightarrow> 's \<Rightarrow> (go_error + BoundService) \<times> 's"
  bvDeleteService :: "NamespacedName \<Rightarrow> 's \<Rightarrow> go_error option \<times> 's"
  bvRetry :: "(Binding \<times> 's) retrier"
  bvStatus :: "(binding_body, 's) status_client"
  bvGet :: "NamespacedName \<Rightarrow> 's \<Rightarrow> go_error + Binding"
  bvPatch :: "(binding_body, go_error, 's) patcher"

section \<open>The two Services\<close>

definition new_service :: "string \<Rightarrow> string \<Rightarrow> labels \<Rightarrow> labels \<Rightarrow> BoundServiceSpec \<Rightarrow> BoundService" where
  "new_service name namespace ls annotations spec =
     \<lparr>obMeta = \<lparr>omName = name, omNamespace = namespace, omGeneration = 0, omFinalizers = [], omDeleting = False\<rparr>,
      obBody = \<lparr>vcLabels = ls, vcAnnotations = annotations, vcSpec = spec\<rparr>\<rparr>"

definition convertBoundEndpointToServices :: "string \<Rightarrow> labels \<Rightarrow> Binding \<Rightarrow> BoundService \<times> BoundService" where
  "convertBoundEndpointToServices clusterDomain selector be =
     (let name = omName (obMeta be); namespace = omNamespace (obMeta be);
          spec = bnSpec (obBody be); target = bsTarget spec;
          endpointURL = name @ ''.'' @ namespace @ ''.'' @ clusterDomain;
          thisBindingLabels =
            [(LabelBoundEndpointName, name), (LabelBoundEndpointNamespace, namespace),
             (LegacyLabelBoundEndpointName, name), (LegacyLabelBoundEndpointNamespace, namespace)];
          targetLabels = MergeMaps [commonBoundEndpointLabels, tmLabels (tgMetadata target), thisBindingLabels];
          upstreamLabels = MergeMaps [commonBoundEndpointLabels, thisBindingLabels]
      in (new_service (tgService target) (tgNamespace target) targetLabels (tmAnnotations (tgMetadata target))
            \<lparr>vsType = ''ExternalName'', vsExternalName = endpointURL, vsInternalTrafficPolicy = Some ''Cluster'',
             vsSessionAffinity = ''ClientIP'', vsSelector = [],
             vsPorts = [\<lparr>vpName = bsScheme spec, vpProtocol = tgProtocol target, vpPort = tgPort target, vpTargetPort = tgPort target\<rparr>]\<rparr>,
          new_service name namespace upstreamLabels [(LabelEndpointURL, endpointURL), (LegacyLabelEndpointURL, endpointURL)]
            \<lparr>vsType = ''ClusterIP'', vsExternalName = [], vsInternalTrafficPolicy = Some ''Cluster'',
             vsSessionAffinity = ''ClientIP'', vsSelector = selector,
             vsPorts = [\<lparr>vpName = bsScheme spec, vpProtocol = tgProtocol target, vpPort = tgPort target, vpTargetPort = uint (bsPort spec)\<rparr>]\<rparr>))"

abbreviation bound_services :: "'s bound_env \<Rightarrow> Binding \<Rightarrow> BoundService \<times> BoundService" where
  "bound_services env \<equiv> convertBoundEndpointToServices (bvClusterDomain env) (bvSelector env)"

section \<open>Conditions\<close>

definition ConditionTypeReady :: string where "ConditionTypeReady = ''Ready''"
definition ConditionTypeServicesCreated :: string where "ConditionTypeServicesCreated = ''ServicesCreated''"
definition ConditionTypeConnectivityVerified :: string where "ConditionTypeConnectivityVerified = ''ConnectivityVerified''"

lemmas binding_condition_defs = ConditionTypeReady_def ConditionTypeServicesCreated_def ConditionTypeConnectivityVerified_def

definition set_binding_condition :: "kube_meta \<Rightarrow> string \<Rightarrow> bool \<Rightarrow> string \<Rightarrow> string \<Rightarrow> Binding \<Rightarrow> Binding" where
  "set_binding_condition km condType ok reason message be =
     map_binding_status (btConditions_update (Set_condition km (omGeneration (obMeta be)) condType ok reason message)) be"

definition setServicesCreatedCondition :: "kube_meta \<Rightarrow> bool \<Rightarrow> string \<Rightarrow> string \<Rightarrow> Binding \<Rightarrow> Binding" where
  "setServicesCreatedCondition km = set_binding_condition km ConditionTypeServicesCreated"

text \<open>The text of the error, or \<open>None\<close> where connectivity is verified.\<close>

definition setConnectivityVerifiedCondition :: "kube_meta \<Rightarrow> string option \<Rightarrow> Binding \<Rightarrow> Binding" where
  "setConnectivityVerifiedCondition km err be =
     (case err of
        None \<Rightarrow> set_binding_condition km ConditionTypeConnectivityVerified True ''ConnectivityVerified'' ''Successfully connected to upstream service'' be
      | Some msg \<Rightarrow> set_binding_condition km ConditionTypeConnectivityVerified False ''ConnectivityFailed'' (SanitizeErrorMessage msg) be)"

definition setReadyCondition :: "kube_meta \<Rightarrow> bool \<Rightarrow> string \<Rightarrow> string \<Rightarrow> Binding \<Rightarrow> Binding" where
  "setReadyCondition km = set_binding_condition km ConditionTypeReady"

definition calculateReadyCondition :: "kube_meta \<Rightarrow> Binding \<Rightarrow> Binding" where
  "calculateReadyCondition km be =
     (let cs = btConditions (bnStatus (obBody be));
          servicesCreatedCondition = kmFindStatusCondition km cs ConditionTypeServicesCreated;
          servicesCreated = (case servicesCreatedCondition of Some c \<Rightarrow> cnStatus c = ''True'' | None \<Rightarrow> False);
          connectivityCondition = kmFindStatusCondition km cs ConditionTypeConnectivityVerified;
          connectivityVerified = (case connectivityCondition of Some c \<Rightarrow> cnStatus c = ''True'' | None \<Rightarrow> False);
          ready = (servicesCreated \<and> connectivityVerified);
          (reason, message) =
            (if ready then (''BoundEndpointReady'', ''BoundEndpoint is ready'')
             else if \<not> servicesCreated then
               (case servicesCreatedCondition of
                  Some c \<Rightarrow> (cnReason c, cnMessage c)
                | None \<Rightarrow> (''ServicesNotCreated'', ''Services not yet created''))
             else if \<not> connectivityVerified then
               (case connectivityCondition of
                  Some c \<Rightarrow> (cnReason c, cnMessage c)
                | None \<Rightarrow> (''ConnectivityNotVerified'', ''Connectivity not yet verified''))
             else (''Unknown'', ''BoundEndpoint is not ready''))
      in setReadyCondition km ready reason message be)"

section \<open>The connectivity test\<close>

fun connect_attempts :: "'s bound_env \<Rightarrow> string \<Rightarrow> nat \<Rightarrow> nat \<Rightarrow> nat \<Rightarrow> 's \<Rightarrow> go_error option" where
  "connect_attempts env host 0 i backoff s = Some (PlainError ''exceeded max retries'')"
| "connect_attempts env host (Suc n) i backoff s =
     (case bvConnect env host i backoff s of
        Deadline \<Rightarrow> Some (PlainError ''attempting to connect to BoundEndpoint URL timed out'')
      | Connected \<Rightarrow> None
      | _ \<Rightarrow> connect_attempts env host n (i + 1) (if backoff = 0 then 1 else backoff * 2) s)"

definition testBoundEndpointConnectivity :: "'s bound_env \<Rightarrow> Binding \<Rightarrow> 's \<Rightarrow> go_error option" where
  "testBoundEndpointConnectivity env be s =
     (let url = bsEndpointURL (bnSpec (obBody be))
      in case bvParse env url of
           Inl e \<Rightarrow> Some (WrappedError (''failed to parse BoundEndpoint URL '' @ url) e)
         | Inr uri \<Rightarrow> connect_attempts env (guHost uri) 8 0 0 s)"

definition NgrokOpErrFailedToConnectServices :: EnrichedError where
  "NgrokOpErrFailedToConnectServices = \<lparr>eeName = ''ERR_NGROK_20004'', eeCode = 20004, eeStatusCode = 503\<rparr>"

definition setConnectivityStatus :: "'s bound_env \<Rightarrow> go_error option \<Rightarrow> Binding \<Rightarrow> Binding" where
  "setConnectivityStatus env err be =
     setConnectivityVerifiedCondition (bvMeta env)
       (map_option (\<lambda>e. error_text (bvErrorText env)
          (NewNgrokError (bvErrorText env) e NgrokOpErrFailedToConnectServices ''failed to bind BoundEndpoint'')) err) be"

section \<open>The callbacks\<close>

definition own_fields :: "BindingStatus \<Rightarrow> BindingStatus \<Rightarrow> BindingStatus" where
  "own_fields st current =
     current\<lparr>btConditions := btConditions st, btTargetServiceRef := btTargetServiceRef st, btUpstreamServiceRef := btUpstreamServiceRef st\<rparr>"

definition bound_updateStatus :: "'s bound_env \<Rightarrow> Binding \<Rightarrow> go_error option \<Rightarrow> 's \<Rightarrow> go_error option \<times> 's" where
  "bound_updateStatus env be statusErr s =
     (case bvGet env (object_key be) s of
        Inl e \<Rightarrow> (Some e, s)
      | Inr current \<Rightarrow>
          (case ReconcileStatus (bvRetry env) (bvStatus env) (Some set_binding_observed)
              (calculateReadyCondition (bvMeta env) (map_binding_status (own_fields (bnStatus (obBody be))) current)) statusErr s of
             ((err, _), s') \<Rightarrow> (err, s')))"

definition updateServiceRefs :: "BoundService \<Rightarrow> BoundService \<Rightarrow> Binding \<Rightarrow> Binding" where
  "updateServiceRefs targetSvc upstreamSvc =
     map_binding_status (\<lambda>st. st\<lparr>btTargetServiceRef :=
         Some \<lparr>krName = omName (obMeta targetSvc), krNamespace = Some (omNamespace (obMeta targetSvc))\<rparr>,
       btUpstreamServiceRef := Some (omName (obMeta upstreamSvc))\<rparr>)"

text \<open>A create that succeeds leaves the stored Service in the caller's variable.\<close>

definition create_service ::
  "EnrichedError \<Rightarrow> string \<Rightarrow> 's bound_env \<Rightarrow> Binding \<Rightarrow> BoundService \<Rightarrow> 's \<Rightarrow> ((go_error + BoundService) \<times> Binding) \<times> 's" where
  "create_service ee msg env owner service s =
     (case bvCreateService env service s of
        (Inl e, s') \<Rightarrow>
          (let ngrokErr = NewNgrokError (bvErrorText env) e ee msg
           in ((Inl ngrokErr,
                setServicesCreatedCondition (bvMeta env) False ''ServiceCreationFailed'' (error_text (bvErrorText env) ngrokErr) owner), s'))
      | (Inr svc, s') \<Rightarrow> ((Inr svc, owner), s'))"

definition createTargetService ::
  "'s bound_env \<Rightarrow> Binding \<Rightarrow> BoundService \<Rightarrow> 's \<Rightarrow> ((go_error + BoundService) \<times> Binding) \<times> 's" where
  "createTargetService = create_service NgrokOpErrFailedToCreateTargetService ''Failed to create Target Service''"

definition createUpstreamService ::
  "'s bound_env \<Rightarrow> Binding \<Rightarrow> BoundService \<Rightarrow> 's \<Rightarrow> ((go_error + BoundService) \<times> Binding) \<times> 's" where
  "createUpstreamService = create_service NgrokOpErrFailedToCreateUpstreamService ''Failed to create Upstream Service''"

definition report :: "'s bound_env \<Rightarrow> Binding \<Rightarrow> go_error option \<Rightarrow> 's \<Rightarrow> (go_error option \<times> Binding) \<times> 's" where
  "report env be err s = (case bound_updateStatus env be err s of (r, s') \<Rightarrow> ((r, be), s'))"

definition services_created ::
  "'s bound_env \<Rightarrow> BoundService \<Rightarrow> BoundService \<Rightarrow> Binding \<Rightarrow> 's \<Rightarrow> (go_error option \<times> Binding) \<times> 's" where
  "services_created env target upstream cr s =
     (let be = updateServiceRefs target upstream
            (setServicesCreatedCondition (bvMeta env) True ''ServicesCreated'' ''Target and Upstream services created'' cr)
      in report env (setConnectivityStatus env (testBoundEndpointConnectivity env be s) be) None s)"

definition bound_create :: "'s bound_env \<Rightarrow> (binding_body, 's) callback" where
  "bound_create env cr s =
     (case bound_services env cr of
        (target, upstream) \<Rightarrow>
          (case createUpstreamService env cr upstream s of
             ((Inl e, cr1), s1) \<Rightarrow> report env cr1 (Some e) s1
           | ((Inr upstream', cr1), s1) \<Rightarrow>
               (case createTargetService env cr1 target s1 of
                  ((Inl e, cr2), s2) \<Rightarrow> report env cr2 (Some e) s2
                | ((Inr target', cr2), s2) \<Rightarrow> services_created env target' upstream' cr2 s2)))"

definition refreshed :: "BoundService \<Rightarrow> BoundService \<Rightarrow> BoundService" where
  "refreshed existing desired =
     existing\<lparr>obBody := (obBody existing)\<lparr>vcSpec := vcSpec (obBody desired), vcAnnotations := vcAnnotations (obBody desired),
       vcLabels := vcLabels (obBody desired)\<rparr>\<rparr>"

text \<open>One Service of an update: \<open>desired\<close> keeps its value where the Service exists.\<close>

definition upsert_service ::
  "('s bound_env \<Rightarrow> Binding \<Rightarrow> BoundService \<Rightarrow> 's \<Rightarrow> ((go_error + BoundService) \<times> Binding) \<times> 's) \<Rightarrow>
   's bound_env \<Rightarrow> Binding \<Rightarrow> BoundService \<Rightarrow> 's \<Rightarrow> ((go_error + BoundService) \<times> Binding) \<times> 's" where
  "upsert_service creating env cr desired s =
     (case bvGetService env (object_key desired) s of
        Inl e \<Rightarrow> if IgnoreNotFound e \<noteq> None then ((Inl e, cr), s) else creating env cr desired s
      | Inr existing \<Rightarrow>
          (case bvUpdateService env (refreshed existing desired) s of
             (Inl e, s') \<Rightarrow> ((Inl e, cr), s')
           | (Inr _, s') \<Rightarrow> ((Inr desired, cr), s')))"

definition bound_update :: "'s bound_env \<Rightarrow> (binding_body, 's) callback" where
  "bound_update env cr s =
     (case bound_services env cr of
        (target, upstream) \<Rightarrow>
          (case upsert_service createUpstreamService env cr upstream s of
             ((Inl e, cr1), s1) \<Rightarrow> report env cr1 (Some e) s1
           | ((Inr upstream', cr1), s1) \<Rightarrow>
               (case upsert_service createTargetService env cr1 target s1 of
                  ((Inl e, cr2), s2) \<Rightarrow> report env cr2 (Some e) s2
                | ((Inr target', cr2), s2) \<Rightarrow> services_created env target' upstream' cr2 s2)))"

definition delete_upstream :: "'s bound_env \<Rightarrow> BoundService \<Rightarrow> 's \<Rightarrow> go_error option \<times> 's" where
  "delete_upstream env upstream s =
     (case bvDeleteService env (object_key upstream) s of
        (Some e, s') \<Rightarrow> (IgnoreNotFound e, s')
      | (None, s') \<Rightarrow> (None, s'))"

definition deleteBoundEndpointServices :: "'s bound_env \<Rightarrow> Binding \<Rightarrow> 's \<Rightarrow> go_error option \<times> 's" where
  "deleteBoundEndpointServices env cr s =
     (case bound_services env cr of
        (target, upstream) \<Rightarrow>
          (case bvGetNamespace env (omNamespace (obMeta target)) s of
             Some e \<Rightarrow> if IgnoreNotFound e \<noteq> None then (Some e, s) else delete_upstream env upstream s
           | None \<Rightarrow>
               (case bvDeleteService env (object_key target) s of
                  (Some e, s') \<Rightarrow> if IgnoreNotFound e = None then (None, s') else (Some e, s')
                | (None, s') \<Rightarrow> delete_upstream env upstream s')))"

definition bound_delete :: "'s bound_env \<Rightarrow> (binding_body, 's) callback" where
  "bound_delete env cr s = (case deleteBoundEndpointServices env cr s of (err, s') \<Rightarrow> ((err, cr), s'))"

definition bound_errResult :: "BaseControllerOp \<Rightarrow> Binding \<Rightarrow> go_error \<Rightarrow> ctrl_result \<times> go_error option" where
  "bound_errResult op cr err = (no_result, Some err)"

definition bound_base_controller :: "'s bound_env \<Rightarrow> (binding_body, 's) BaseController" where
  "bound_base_controller env =
     \<lparr>bcGet = bvGet env, bcPatch = bvPatch env, bcDrainState = None, bcStatusID = Some (\<lambda>be. omName (obMeta be)),
      bcCreate = Some (bound_create env), bcUpdate = Some (bound_update env), bcDelete = Some (bound_delete env),
      bcErrResult = Some bound_errResult\<rparr>"

definition bound_reconcile :: "'s bound_env \<Rightarrow> NamespacedName \<Rightarrow> 's \<Rightarrow> reconcile_result \<times> 's" where
  "bound_reconcile env req s =
     (case Reconcile (bvMeta env) (bvErrors env) (bound_base_controller env) req s of
        (None, s') \<Rightarrow> (None, s')
      | (Some (res, Some e), s') \<Rightarrow> (Some (res, Some e), s')
      | (Some (res, None), s') \<Rightarrow> (Some (\<lparr>RequeueAfter = bvRefreshDuration env\<rparr>, None), s'))"

section \<open>Watches\<close>

text \<open>The list of the first one is the answer of the index, or the error of listing.\<close>

definition findBoundEndpointsForNamespace :: "go_error + Binding list \<Rightarrow> string \<Rightarrow> NamespacedName list" where
  "findBoundEndpointsForNamespace stored nsName =
     (case stored of
        Inl e \<Rightarrow> []
      | Inr bes \<Rightarrow> map object_key (filter (\<lambda>be. nsName \<in> set (index_by_target_namespace be)) bes))"

definition findBoundEndpointsForService :: "'s bound_env \<Rightarrow> BoundService \<Rightarrow> 's \<Rightarrow> NamespacedName list" where
  "findBoundEndpointsForService env svc s =
     (case boundEndpointLabelsFor (vcLabels (obBody svc)) of
        (epbName, epbNamespace) \<Rightarrow>
          if epbName = [] \<or> epbNamespace = [] then []
          else (case bvGet env \<lparr>nnName = epbName, nnNamespace = epbNamespace\<rparr> s of
                  Inl e \<Rightarrow> []
                | Inr epb \<Rightarrow> [object_key epb]))"

section \<open>From the Services back to the endpoint\<close>

lemma map_of_put_all: "map_of (fold (\<lambda>(k, v). AList.update k v) m result) = map_of result ++ map_of (rev m)"
  by (induction m arbitrary: result) (auto simp: map_add_def split: option.split)

lemma bound_services_keys [simp]:
  "bound_services env be = (target, upstream) \<Longrightarrow>
     object_key target = \<lparr>nnName = tgService (bsTarget (bnSpec (obBody be))), nnNamespace = tgNamespace (bsTarget (bnSpec (obBody be)))\<rparr> \<and>
     object_key upstream = object_key be"
  by (auto simp: convertBoundEndpointToServices_def new_service_def object_key_def Let_def)

lemma bound_services_owner:
  assumes "svc \<in> {fst (bound_services env be), snd (bound_services env be)}" "omName (obMeta be) \<noteq> []" "omNamespace (obMeta be) \<noteq> []"
  shows "boundEndpointLabelsFor (vcLabels (obBody svc)) = (omName (obMeta be), omNamespace (obMeta be))"
  using assms by (auto simp: convertBoundEndpointToServices_def new_service_def Let_def MergeMaps_def boundEndpointLabelsFor_def label_get_def
      binding_label_defs)

text \<open>
  \<^bold>\<open>C11\<close>. The Services of a BoundEndpoint lead back to it. Whatever labels the user asks for on the target
  Service, both Services carry the name and the namespace of their endpoint: the index of Services
  has them under its key, and a change of one of them requeues exactly this endpoint.
\<close>

theorem services_lead_back:
  assumes "svc \<in> {fst (bound_services env be), snd (bound_services env be)}" "omName (obMeta be) \<noteq> []" "omNamespace (obMeta be) \<noteq> []"
    and "bvGet env (object_key be) s = Inr stored" "object_key stored = object_key be"
  shows "index_by_owner svc = [omNamespace (obMeta be) @ ''/'' @ omName (obMeta be)] \<and>
    findBoundEndpointsForService env svc s = [object_key be]"
  using bound_services_owner [OF assms(1-3)] assms(2-)
  by (simp add: index_by_owner_def findBoundEndpointsForService_def object_key_def)

section \<open>The interface of the cluster\<close>

text \<open>
  What the controller relies on. \<open>services\<close> and \<open>bindings\<close> are what the cluster stores. A read answers
  with what is stored or with an error, and the error says \<open>NotFound\<close> only if nothing is stored; a
  write that succeeds stores the object and changes nothing else; a failed write of a Service changes
  no Service. A namespace that does not exist has no Services. Writing a status stores that status.
\<close>

locale bound_cluster =
  meta: object_meta "bvMeta env" + writer: status_writer "bvRetry env" "bvStatus env" bnStatus services
  for env :: "'s bound_env" and services :: "'s \<Rightarrow> NamespacedName \<Rightarrow> BoundService option" +
  fixes bindings :: "'s \<Rightarrow> NamespacedName \<Rightarrow> Binding option"
  assumes get_service: "bvGetService env key s = Inr svc \<Longrightarrow> services s key = Some svc \<and> object_key svc = key"
    and service_missing: "bvGetService env key s = Inl e \<Longrightarrow> IgnoreNotFound e = None \<Longrightarrow> services s key = None"
    and create_service: "bvCreateService env svc s = (Inr svc', s') \<Longrightarrow>
      services s' = (services s)(object_key svc \<mapsto> svc') \<and> object_key svc' = object_key svc \<and> obBody svc' = obBody svc"
    and update_service: "bvUpdateService env svc s = (Inr svc', s') \<Longrightarrow>
      services s' = (services s)(object_key svc \<mapsto> svc') \<and> object_key svc' = object_key svc \<and> obBody svc' = obBody svc"
    and delete_service: "bvDeleteService env key s = (None, s') \<Longrightarrow> services s' = (services s)(key := None)"
    and delete_failed: "bvDeleteService env key s = (Some e, s') \<Longrightarrow>
      services s' = services s \<and> (IgnoreNotFound e = None \<longrightarrow> services s key = None)"
    and no_namespace: "bvGetNamespace env ns s = Some e \<Longrightarrow> IgnoreNotFound e = None \<Longrightarrow> nnNamespace key = ns \<Longrightarrow> services s key = None"
    and get_binding: "bvGet env key s = Inr be \<Longrightarrow> bindings s key = Some be \<and> object_key be = key"
    and status_stored: "scStatusUpdate (bvStatus env) be s = (Inr be', s') \<Longrightarrow>
      \<exists>new. bindings s' (object_key be) = Some new \<and> bnStatus (obBody new) = bnStatus (obBody be)"

section \<open>What an update achieves\<close>

definition condition_is :: "kube_meta \<Rightarrow> string \<Rightarrow> bool \<Rightarrow> BindingStatus \<Rightarrow> bool" where
  "condition_is km t ok st \<longleftrightarrow>
     (\<exists>c. kmFindStatusCondition km (btConditions st) t = Some c \<and> cnStatus c = (if ok then ''True'' else ''False''))"

text \<open>A Service in the cluster that has the labels, annotations and spec of a desired one.\<close>

definition provides :: "('s \<Rightarrow> NamespacedName \<Rightarrow> BoundService option) \<Rightarrow> 's \<Rightarrow> BoundService \<Rightarrow> bool" where
  "provides services s svc \<longleftrightarrow> (\<exists>stored. services s (object_key svc) = Some stored \<and> obBody stored = obBody svc)"

text \<open>The last call is made in a state that satisfies every invariant of the calls.\<close>

lemma attempts_final:
  assumes "attempts f s r" "I s" "\<And>x. I x \<Longrightarrow> I (snd (f x))"
  shows "\<exists>x. r = f x \<and> I x"
  using assms by (induction rule: attempts.induct) (auto, metis snd_conv)

context status_writer begin

lemma ReconcileStatus_stored:
  assumes run: "ReconcileStatus retry sc (Some f) ob origErr s = ((None, ob'), s')" and "ob1 = f (omGeneration (obMeta ob)) ob"
  shows "\<exists>x s1. scStatusUpdate sc x s1 = (Inr ob', s') \<and> object_key x = object_key ob1 \<and> status (obBody x) = status (obBody ob1)"
proof -
  have r: "retry (status_attempt sc) (ob1, s) = (None, ob', s')"
    using assms by (auto simp: ReconcileStatus_def Let_def split: prod.splits option.splits)
  let ?I = "\<lambda>x. object_key (fst x) = object_key ob1 \<and> status (obBody (fst x)) = status (obBody ob1)"
  have step: "?I (snd (status_attempt sc x))" if "?I x" for x
    using that status_kept version_only by (auto simp: status_attempt_def split: prod.splits sum.splits)
  obtain x where x: "(None, ob', s') = status_attempt sc x" "?I x"
    using attempts_final [of "status_attempt sc" "(ob1, s)" "(None, ob', s')" ?I] retrying r step
    by (metis (no_types, lifting) fst_conv retries_def)
  then show ?thesis
    by (cases x) (auto simp: status_attempt_def split: prod.splits sum.splits if_splits)
qed

end

context object_meta begin

lemma find_Set_condition [simp]:
  "kmFindStatusCondition km (Set_condition km g t ok reason msg cs) t' =
     (if t' = t then Some \<lparr>cnType = t, cnStatus = (if ok then ''True'' else ''False''), cnReason = reason, cnMessage = msg,
        cnObservedGeneration = g\<rparr> else kmFindStatusCondition km cs t')"
  by (simp add: Set_condition_def find_set)

lemma calculateReadyCondition_ready:
  assumes "condition_is km ConditionTypeServicesCreated True (bnStatus (obBody be))"
    and "condition_is km ConditionTypeConnectivityVerified ok (bnStatus (obBody be))"
  shows "condition_is km ConditionTypeReady ok (bnStatus (obBody (calculateReadyCondition km be)))"
    "condition_is km ConditionTypeServicesCreated True (bnStatus (obBody (calculateReadyCondition km be)))"
  using assms
  by (auto simp: calculateReadyCondition_def setReadyCondition_def set_binding_condition_def condition_is_def Let_def binding_condition_defs
      split: prod.split if_splits)

end

lemma calculateReadyCondition_keeps [simp]:
  "btTargetServiceRef (bnStatus (obBody (calculateReadyCondition km be))) = btTargetServiceRef (bnStatus (obBody be))"
  "btUpstreamServiceRef (bnStatus (obBody (calculateReadyCondition km be))) = btUpstreamServiceRef (bnStatus (obBody be))"
  "btEndpoints (bnStatus (obBody (calculateReadyCondition km be))) = btEndpoints (bnStatus (obBody be))"
  "btHashedName (bnStatus (obBody (calculateReadyCondition km be))) = btHashedName (bnStatus (obBody be))"
  "btEndpointsSummary (bnStatus (obBody (calculateReadyCondition km be))) = btEndpointsSummary (bnStatus (obBody be))"
  "object_key (calculateReadyCondition km be) = object_key be" "obMeta (calculateReadyCondition km be) = obMeta be"
  by (simp_all add: calculateReadyCondition_def setReadyCondition_def set_binding_condition_def Let_def split: prod.split)

text \<open>
  The status that an update leaves: both Services are created, the references name them, the
  condition \<open>Ready\<close> says whether the connectivity test succeeded, and the poller's fields are those of
  the object \<open>read\<close>.
\<close>

definition binding_reported :: "'s bound_env \<Rightarrow> Binding \<Rightarrow> 's \<Rightarrow> BindingStatus \<Rightarrow> BindingStatus \<Rightarrow> bool" where
  "binding_reported env be s read st \<longleftrightarrow>
     condition_is (bvMeta env) ConditionTypeServicesCreated True st \<and>
     condition_is (bvMeta env) ConditionTypeReady (testBoundEndpointConnectivity env be s = None) st \<and>
     btTargetServiceRef st = Some \<lparr>krName = tgService (bsTarget (bnSpec (obBody be))),
       krNamespace = Some (tgNamespace (bsTarget (bnSpec (obBody be))))\<rparr> \<and>
     btUpstreamServiceRef st = Some (omName (obMeta be)) \<and>
     btEndpoints st = btEndpoints read \<and> btHashedName st = btHashedName read \<and> btEndpointsSummary st = btEndpointsSummary read"

context bound_cluster begin

lemma report_error: "report env be (Some e) s = ((err, be'), s') \<Longrightarrow> err \<noteq> None"
  by (auto simp: report_def bound_updateStatus_def split: sum.splits prod.splits dest: writer.ReconcileStatus_spec(3))

lemma report_ok:
  assumes "report env be None s = ((None, be'), s')"
  shows "be' = be" "services s' = services s"
    "\<exists>read new. bvGet env (object_key be) s = Inr read \<and> bindings s' (object_key be) = Some new \<and>
      bnStatus (obBody new) = bnStatus (obBody (set_binding_observed (omGeneration (obMeta read))
        (calculateReadyCondition (bvMeta env) (map_binding_status (own_fields (bnStatus (obBody be))) read))))"
proof -
  obtain read where read: "bvGet env (object_key be) s = Inr read"
    using assms by (auto simp: report_def bound_updateStatus_def split: sum.splits)
  let ?ob = "calculateReadyCondition (bvMeta env) (map_binding_status (own_fields (bnStatus (obBody be))) read)"
  obtain ob' where w: "ReconcileStatus (bvRetry env) (bvStatus env) (Some set_binding_observed) ?ob None s = ((None, ob'), s')"
    using assms read by (auto simp: report_def bound_updateStatus_def split: prod.splits)
  show "be' = be" using assms by (auto simp: report_def split: prod.splits)
  show "services s' = services s" by (rule writer.ReconcileStatus_spec(1) [OF w])
  obtain x s1 where x: "scStatusUpdate (bvStatus env) x s1 = (Inr ob', s')"
    "object_key x = object_key (set_binding_observed (omGeneration (obMeta ?ob)) ?ob)"
    "bnStatus (obBody x) = bnStatus (obBody (set_binding_observed (omGeneration (obMeta ?ob)) ?ob))"
    using writer.ReconcileStatus_stored [OF w refl] by blast
  have key: "object_key x = object_key be" using x(2) get_binding [OF read] by (simp add: set_binding_observed_def)
  obtain new where "bindings s' (object_key be) = Some new" "bnStatus (obBody new) = bnStatus (obBody x)"
    using status_stored [OF x(1)] key by auto
  then show "\<exists>read new. bvGet env (object_key be) s = Inr read \<and> bindings s' (object_key be) = Some new \<and>
      bnStatus (obBody new) = bnStatus (obBody (set_binding_observed (omGeneration (obMeta read))
        (calculateReadyCondition (bvMeta env) (map_binding_status (own_fields (bnStatus (obBody be))) read))))"
    using read x(3) by auto
qed

lemma create_service_ok:
  assumes "create_service ee msg env cr desired s = ((Inr svc, cr'), s')"
  shows "cr' = cr" "object_key svc = object_key desired" "services s' = (services s)(object_key desired \<mapsto> svc)" "obBody svc = obBody desired"
  using assms create_service by (auto simp: create_service_def Let_def split: prod.splits sum.splits)

lemma upsert_service_ok:
  assumes run: "upsert_service (create_service ee msg) env cr desired s = ((Inr svc, cr'), s')"
  shows "cr' = cr" "object_key svc = object_key desired"
    "\<exists>stored. services s' = (services s)(object_key desired \<mapsto> stored) \<and> obBody stored = obBody desired"
proof -
  have "cr' = cr \<and> object_key svc = object_key desired \<and>
    (\<exists>stored. services s' = (services s)(object_key desired \<mapsto> stored) \<and> obBody stored = obBody desired)"
  proof (cases "bvGetService env (object_key desired) s")
    case (Inl e)
    then show ?thesis using run create_service_ok by (fastforce simp: upsert_service_def split: if_splits)
  next
    case (Inr existing)
    have "object_key (refreshed existing desired) = object_key desired" "obBody (refreshed existing desired) = obBody desired"
      using get_service [OF Inr] by (simp_all add: refreshed_def object_key_def)
    then show ?thesis using run Inr update_service [of "refreshed existing desired"]
      by (auto simp: upsert_service_def split: prod.splits sum.splits)
  qed
  then show "cr' = cr" "object_key svc = object_key desired"
    "\<exists>stored. services s' = (services s)(object_key desired \<mapsto> stored) \<and> obBody stored = obBody desired" by blast+
qed

lemma services_created_ok:
  assumes run: "services_created env target upstream be s = ((None, be'), s')"
    and refs: "object_key target = \<lparr>nnName = tgService (bsTarget (bnSpec (obBody be))), nnNamespace = tgNamespace (bsTarget (bnSpec (obBody be)))\<rparr>"
      "object_key upstream = object_key be"
  shows "services s' = services s"
    "\<exists>read new. bindings s (object_key be) = Some read \<and> bindings s' (object_key be) = Some new \<and>
      binding_reported env be s (bnStatus (obBody read)) (bnStatus (obBody new))"
proof -
  let ?created = "updateServiceRefs target upstream
    (setServicesCreatedCondition (bvMeta env) True ''ServicesCreated'' ''Target and Upstream services created'' be)"
  let ?test = "testBoundEndpointConnectivity env be s"
  let ?be = "setConnectivityStatus env ?test ?created"
  have same: "testBoundEndpointConnectivity env ?created s = ?test"
    by (simp add: testBoundEndpointConnectivity_def updateServiceRefs_def setServicesCreatedCondition_def set_binding_condition_def)
  have key: "object_key ?be = object_key be"
    by (simp add: setConnectivityStatus_def setConnectivityVerifiedCondition_def set_binding_condition_def updateServiceRefs_def
        setServicesCreatedCondition_def split: option.split)
  have rep: "report env ?be None s = ((None, be'), s')" using run by (simp add: services_created_def same)
  show "services s' = services s" by (rule report_ok(2) [OF rep])
  obtain read new where read: "bvGet env (object_key be) s = Inr read" and new: "bindings s' (object_key be) = Some new"
    and st: "bnStatus (obBody new) = bnStatus (obBody (set_binding_observed (omGeneration (obMeta read))
        (calculateReadyCondition (bvMeta env) (map_binding_status (own_fields (bnStatus (obBody ?be))) read))))"
    using report_ok(3) [OF rep] key by auto
  let ?own = "map_binding_status (own_fields (bnStatus (obBody ?be))) read"
  have own: "condition_is (bvMeta env) ConditionTypeServicesCreated True (bnStatus (obBody ?own))"
    "condition_is (bvMeta env) ConditionTypeConnectivityVerified (?test = None) (bnStatus (obBody ?own))"
    by (auto simp: own_fields_def condition_is_def setConnectivityStatus_def setConnectivityVerifiedCondition_def set_binding_condition_def
        updateServiceRefs_def setServicesCreatedCondition_def binding_condition_defs split: option.split)
  have refs': "btTargetServiceRef (bnStatus (obBody ?be)) = Some \<lparr>krName = tgService (bsTarget (bnSpec (obBody be))),
      krNamespace = Some (tgNamespace (bsTarget (bnSpec (obBody be))))\<rparr>"
    "btUpstreamServiceRef (bnStatus (obBody ?be)) = Some (omName (obMeta be))"
    using refs by (auto simp: setConnectivityStatus_def setConnectivityVerifiedCondition_def set_binding_condition_def updateServiceRefs_def
        setServicesCreatedCondition_def object_key_def split: option.split)
  have "binding_reported env be s (bnStatus (obBody read)) (bnStatus (obBody new))"
    using meta.calculateReadyCondition_ready [OF own] refs'
    by (simp add: binding_reported_def st set_binding_observed_def condition_is_def own_fields_def)
  then show "\<exists>read new. bindings s (object_key be) = Some read \<and> bindings s' (object_key be) = Some new \<and>
      binding_reported env be s (bnStatus (obBody read)) (bnStatus (obBody new))"
    using get_binding [OF read] new by blast
qed

lemma bound_update_ok:
  assumes run: "bound_update env be s = ((None, be'), s')"
    and svcs: "bound_services env be = (target, upstream)" and distinct: "object_key target \<noteq> object_key upstream"
  shows "\<exists>t u s1. services s' = (services s)(object_key upstream \<mapsto> u, object_key target \<mapsto> t) \<and> obBody t = obBody target \<and> obBody u = obBody upstream \<and>
    services s1 = services s' \<and> (\<exists>read new. bindings s1 (object_key be) = Some read \<and> bindings s' (object_key be) = Some new \<and>
      binding_reported env be s1 (bnStatus (obBody read)) (bnStatus (obBody new)))"
proof -
  obtain r1 be1 s1 where up: "upsert_service createUpstreamService env be upstream s = ((r1, be1), s1)" by (metis surj_pair)
  then obtain u' where r1: "r1 = Inr u'" using run svcs by (cases r1) (auto simp: bound_update_def dest: report_error)
  note u = upsert_service_ok [OF up [unfolded r1 createUpstreamService_def]]
  obtain r2 be2 s2 where tg: "upsert_service createTargetService env be target s1 = ((r2, be2), s2)" by (metis surj_pair)
  then obtain t' where r2: "r2 = Inr t'" using run svcs up r1 u(1) by (cases r2) (auto simp: bound_update_def dest: report_error)
  note t = upsert_service_ok [OF tg [unfolded r2 createTargetService_def]]
  have "services_created env t' u' be s2 = ((None, be'), s')" using run svcs up r1 u(1) tg r2 t(1) by (simp add: bound_update_def)
  note c = services_created_ok [OF this]
  have keys: "object_key t' = \<lparr>nnName = tgService (bsTarget (bnSpec (obBody be))), nnNamespace = tgNamespace (bsTarget (bnSpec (obBody be)))\<rparr>"
    "object_key u' = object_key be" using t(2) u(2) bound_services_keys [OF svcs] by simp_all
  from c(2) [OF keys] c(1) [OF keys] u(3) t(3) show ?thesis by metis
qed

lemma bound_delete_ok:
  assumes run: "bound_delete env be s = ((None, be'), s')" and svcs: "bound_services env be = (target, upstream)"
    and there: "services s (object_key target) \<noteq> None \<or> (\<exists>e. bvGetNamespace env (omNamespace (obMeta target)) s = Some e)"
  shows "services s' = (services s)(object_key target := None, object_key upstream := None)"
proof -
  have up: "services s2 = (services s1)(object_key upstream := None)" if "delete_upstream env upstream s1 = (None, s2)" for s1 s2
    using that delete_service delete_failed by (fastforce simp: delete_upstream_def split: prod.splits option.splits)
  show ?thesis
  proof (cases "bvGetNamespace env (omNamespace (obMeta target)) s")
    case (Some e)
    then have nf: "IgnoreNotFound e = None" and d: "delete_upstream env upstream s = (None, s')"
      using run svcs by (auto simp: bound_delete_def deleteBoundEndpointServices_def split: prod.splits if_splits)
    have "services s (object_key target) = None"
      using no_namespace [OF Some nf, of "object_key target"] by (simp add: object_key_def)
    then show ?thesis using up [OF d] by (metis fun_upd_triv)
  next
    case None
    obtain err s1 where d: "bvDeleteService env (object_key target) s = (err, s1)" by fastforce
    have "err = None"
      using there None run svcs d delete_failed [of "object_key target" s]
      by (cases err) (auto simp: bound_delete_def deleteBoundEndpointServices_def split: prod.splits if_splits)
    then have "services s1 = (services s)(object_key target := None)" "delete_upstream env upstream s1 = (None, s')"
      using run svcs None d delete_service by (auto simp: bound_delete_def deleteBoundEndpointServices_def split: prod.splits)
    then show ?thesis using up by simp
  qed
qed

end

text \<open>
  \<^bold>\<open>C9\<close>. A BoundEndpoint is projected. If an update ends without an error, the cluster has the target and the
  upstream Service with exactly the labels, annotations and specs of the endpoint and no other Service is
  touched: the external name of the target is the upstream Service, and the upstream leads from the
  target's port to the port of the pod forwarders that is allocated to the endpoint. The stored status
  names both Services, says \<open>Ready\<close> if and only if the endpoint could be connected to, and keeps the
  poller's fields of the object that was read last.
\<close>

theorem bound_endpoint_projected:
  assumes "bound_cluster env services bindings" "bound_update env be s = ((None, be'), s')"
    and svcs: "bound_services env be = (target, upstream)" and distinct: "object_key target \<noteq> object_key upstream"
  shows "provides services s' target \<and> provides services s' upstream \<and>
    (\<forall>key. key = object_key target \<or> key = object_key upstream \<or> services s' key = services s key) \<and>
    vsExternalName (vcSpec (obBody target)) = nnName (object_key upstream) @ ''.'' @ nnNamespace (object_key upstream) @ ''.'' @ bvClusterDomain env \<and>
    map vpPort (vsPorts (vcSpec (obBody target))) = map vpPort (vsPorts (vcSpec (obBody upstream))) \<and>
    map vpTargetPort (vsPorts (vcSpec (obBody upstream))) = [uint (bsPort (bnSpec (obBody be)))] \<and>
    (\<exists>s1 read new. services s1 = services s' \<and> bindings s1 (object_key be) = Some read \<and> bindings s' (object_key be) = Some new \<and>
      binding_reported env be s1 (bnStatus (obBody read)) (bnStatus (obBody new)))"
proof -
  obtain t u s1 where *: "services s' = (services s)(object_key upstream \<mapsto> u, object_key target \<mapsto> t)" "obBody t = obBody target"
      "obBody u = obBody upstream" "services s1 = services s'"
      "\<exists>read new. bindings s1 (object_key be) = Some read \<and> bindings s' (object_key be) = Some new \<and>
        binding_reported env be s1 (bnStatus (obBody read)) (bnStatus (obBody new))"
    using bound_cluster.bound_update_ok [OF assms] by blast
  have shape: "vsExternalName (vcSpec (obBody target)) = omName (obMeta be) @ ''.'' @ omNamespace (obMeta be) @ ''.'' @ bvClusterDomain env"
    "map vpPort (vsPorts (vcSpec (obBody target))) = map vpPort (vsPorts (vcSpec (obBody upstream)))"
    "map vpTargetPort (vsPorts (vcSpec (obBody upstream))) = [uint (bsPort (bnSpec (obBody be)))]"
    using svcs by (auto simp: convertBoundEndpointToServices_def new_service_def Let_def)
  show ?thesis
    using * distinct shape bound_services_keys [OF svcs] by (simp add: provides_def) (auto simp: object_key_def)
qed

text \<open>
  \<^bold>\<open>C10\<close>. The Services go with their endpoint. If deleting succeeds and the target Service was there or
  its namespace is gone, neither of the two Services remains and no other Service is touched.
\<close>

theorem bound_services_deleted:
  assumes "bound_cluster env services bindings" "bound_delete env be s = ((None, be'), s')"
    and "bound_services env be = (target, upstream)"
    and "services s (object_key target) \<noteq> None \<or> bvGetNamespace env (omNamespace (obMeta target)) s \<noteq> None"
  shows "services s' = (services s)(object_key target := None, object_key upstream := None)"
  using bound_cluster.bound_delete_ok [OF assms(1-3)] assms(4) by auto

text \<open>
  Without that condition the upstream Service can stay: when the target Service is already gone while
  its namespace exists, deleting succeeds at once and leaves the upstream Service behind.
\<close>

lemma upstream_service_leaks:
  assumes "bound_services env be = (target, upstream)" "bvGetNamespace env (omNamespace (obMeta target)) s = None"
    and "bvDeleteService env (object_key target) s = (Some e, s)" "kube_reason_of e = Some KubeNotFound"
  shows "bound_delete env be s = ((None, be), s)"
  using assms by (simp add: bound_delete_def deleteBoundEndpointServices_def IgnoreNotFound_def)

section \<open>A reference world\<close>

text \<open>
  A cluster as lists of objects. Each element of \<open>bwPoller\<close> is a write of the poller that comes between
  a read and the status update that follows it, which then fails with a conflict.
\<close>

record bound_world =
  bwNamespaces :: "string list"
  bwServices :: "BoundService list"
  bwBindings :: "Binding list"
  bwPoller :: "BindingEndpoint list list"

definition find_object :: "'b kube_object list \<Rightarrow> NamespacedName \<Rightarrow> 'b kube_object option" where
  "find_object obs key = find (\<lambda>ob. object_key ob = key) obs"

definition drop_object :: "NamespacedName \<Rightarrow> 'b kube_object list \<Rightarrow> 'b kube_object list" where
  "drop_object key obs = filter (\<lambda>ob. object_key ob \<noteq> key) obs"

definition put_object :: "'b kube_object \<Rightarrow> 'b kube_object list \<Rightarrow> 'b kube_object list" where
  "put_object ob obs = ob # drop_object (object_key ob) obs"

lemma find_object_drop: "find_object (drop_object key obs) = (find_object obs)(key := None)"
proof (rule ext)
  show "find_object (drop_object key obs) k = ((find_object obs)(key := None)) k" for k
    by (induction obs) (auto simp: find_object_def drop_object_def)
qed

lemma find_object_put: "find_object (put_object ob obs) = (find_object obs)(object_key ob \<mapsto> ob)"
  using find_object_drop [of "object_key ob" obs] by (auto simp: put_object_def fun_eq_iff) (auto simp: find_object_def)

lemma find_object_key: "find_object obs key = Some ob \<Longrightarrow> object_key ob = key"
  by (auto simp: find_object_def find_Some_iff)

definition kube_missing :: go_error where "kube_missing = KubeError KubeNotFound ''not found''"

definition read_object :: "'b kube_object list \<Rightarrow> NamespacedName \<Rightarrow> go_error + 'b kube_object" where
  "read_object obs key = (case find_object obs key of Some ob \<Rightarrow> Inr ob | None \<Rightarrow> Inl kube_missing)"

definition poller_writes :: "NamespacedName \<Rightarrow> BindingEndpoint list \<Rightarrow> Binding list \<Rightarrow> Binding list" where
  "poller_writes key eps = map (\<lambda>be. if object_key be = key then map_binding_status (btEndpoints_update (\<lambda>_. eps)) be else be)"

definition ref_bound_env :: "(string \<Rightarrow> go_error + go_url) \<Rightarrow> (string \<Rightarrow> nat \<Rightarrow> nat \<Rightarrow> bound_world \<Rightarrow> connect_outcome) \<Rightarrow> bound_world bound_env" where
  "ref_bound_env parse connect =
     \<lparr>bvMeta = list_meta, bvErrors = \<lparr>neIsNotFound = (\<lambda>e. False), neIsErrorCode = (\<lambda>e codes. False)\<rparr>, bvErrorText = (\<lambda>e. neMsg e),
      bvClusterDomain = ''svc.cluster.local'', bvSelector = [(''app'', ''forwarder'')], bvRefreshDuration = 300,
      bvParse = parse, bvConnect = connect,
      bvGetNamespace = (\<lambda>ns w. if ns \<in> set (bwNamespaces w) \<or> ns \<in> set (map (\<lambda>svc. omNamespace (obMeta svc)) (bwServices w)) then None
        else Some kube_missing),
      bvGetService = (\<lambda>key w. read_object (bwServices w) key),
      bvCreateService = (\<lambda>svc w. if find_object (bwServices w) (object_key svc) = None then (Inr svc, w\<lparr>bwServices := put_object svc (bwServices w)\<rparr>)
        else (Inl (KubeError KubeOther ''already exists''), w)),
      bvUpdateService = (\<lambda>svc w. if find_object (bwServices w) (object_key svc) = None then (Inl kube_missing, w)
        else (Inr svc, w\<lparr>bwServices := put_object svc (bwServices w)\<rparr>)),
      bvDeleteService = (\<lambda>key w. if find_object (bwServices w) key = None then (Some kube_missing, w)
        else (None, w\<lparr>bwServices := drop_object key (bwServices w)\<rparr>)),
      bvRetry = retry_steps 4,
      bvStatus = \<lparr>scStatusUpdate = (\<lambda>be w. case bwPoller w of
          [] \<Rightarrow> (Inr be, w\<lparr>bwBindings := put_object be (bwBindings w)\<rparr>)
        | eps # rest \<Rightarrow> (Inl (KubeError KubeConflict ''conflict''),
            w\<lparr>bwBindings := poller_writes (object_key be) eps (bwBindings w), bwPoller := rest\<rparr>)),
        scLatestVersion = (\<lambda>be w. Inr (\<lambda>x. x))\<rparr>,
      bvGet = (\<lambda>key w. read_object (bwBindings w) key),
      bvPatch = (\<lambda>old new w. ((None, new), w\<lparr>bwBindings := put_object new (bwBindings w)\<rparr>))\<rparr>"

abbreviation world_services :: "bound_world \<Rightarrow> NamespacedName \<Rightarrow> BoundService option" where
  "world_services w \<equiv> find_object (bwServices w)"

abbreviation world_bindings :: "bound_world \<Rightarrow> NamespacedName \<Rightarrow> Binding option" where
  "world_bindings w \<equiv> find_object (bwBindings w)"

interpretation ref_bound_writer: status_writer "bvRetry (ref_bound_env parse connect)" "bvStatus (ref_bound_env parse connect)" bnStatus
    world_services for parse connect
  by unfold_locales (auto simp: ref_bound_env_def retries_steps split: list.splits)

lemma missing_ignored [simp]: "IgnoreNotFound kube_missing = None"
  by (simp add: IgnoreNotFound_def kube_missing_def)

lemma ref_bound_cluster: "bound_cluster_axioms (ref_bound_env parse connect) world_services world_bindings"
proof
  let ?env = "ref_bound_env parse connect"
  show "world_services w key = None"
    if "bvGetNamespace ?env ns w = Some e" "IgnoreNotFound e = None" "nnNamespace key = ns" for ns w e key
    using that by (auto simp: ref_bound_env_def find_object_def find_None_iff object_key_def split: if_splits)
qed (auto simp: ref_bound_env_def read_object_def find_object_put find_object_drop split: option.splits if_splits list.splits
      dest: find_object_key)

interpretation ref_bound: bound_cluster "ref_bound_env parse connect" world_services world_bindings for parse connect
  by (rule bound_cluster.intro [OF _ ref_bound_writer.status_writer_axioms ref_bound_cluster])
    (simp add: ref_bound_env_def list_meta.object_meta_axioms)

definition witness_binding :: Binding where
  "witness_binding =
     \<lparr>obMeta = \<lparr>omName = ''ngrok-1'', omNamespace = ''ngrok-op'', omGeneration = 2, omFinalizers = [], omDeleting = False\<rparr>,
      obBody = \<lparr>bnSpec = \<lparr>bsEndpointURL = ''http://api.shop:80'', bsScheme = ''http'', bsPort = 10001,
          bsTarget = \<lparr>tgService = ''api'', tgNamespace = ''shop'', tgProtocol = ''TCP'', tgPort = 80,
            tgMetadata = \<lparr>tmLabels = [(LabelBoundEndpointName, ''other''), (''team'', ''blue'')], tmAnnotations = []\<rparr>\<rparr>\<rparr>,
        bnStatus = \<lparr>btObservedGeneration = 1, btConditions = [], btTargetServiceRef = None, btUpstreamServiceRef = None,
          btEndpoints = [\<lparr>beID = ''ep_1'', beURI = []\<rparr>], btHashedName = ''ngrok-1'', btEndpointsSummary = ''1 endpoint''\<rparr>\<rparr>\<rparr>"

definition witness_bound_world :: bound_world where
  "witness_bound_world =
     \<lparr>bwNamespaces = [''shop'', ''ngrok-op''], bwServices = [snd (convertBoundEndpointToServices ''old.domain'' [] witness_binding)],
      bwBindings = [witness_binding], bwPoller = []\<rparr>"

text \<open>A network in which the second attempt succeeds.\<close>

definition witness_bound_env :: "bound_world bound_env" where
  "witness_bound_env =
     ref_bound_env (\<lambda>url. Inr \<lparr>guScheme = ''http'', guHost = ''api.shop:80'', guPath = []\<rparr>)
       (\<lambda>host i backoff w. if i = 0 then DialFailed else Connected)"

lemma witness_bound_cluster: "bound_cluster witness_bound_env world_services world_bindings"
  unfolding witness_bound_env_def by (rule ref_bound.bound_cluster_axioms)

theorem services_lead_back_witness:
  "findBoundEndpointsForService witness_bound_env (fst (bound_services witness_bound_env witness_binding)) witness_bound_world =
     [object_key witness_binding]"
  using services_lead_back [of "fst (bound_services witness_bound_env witness_binding)" witness_bound_env witness_binding
      witness_bound_world witness_binding]
  by (simp add: witness_binding_def witness_bound_env_def witness_bound_world_def ref_bound_env_def read_object_def find_object_def)

lemmas bound_run_defs = bound_update_def bound_delete_def deleteBoundEndpointServices_def delete_upstream_def upsert_service_def createUpstreamService_def
  createTargetService_def create_service_def services_created_def report_def bound_updateStatus_def ReconcileStatus_def
  status_attempt_def read_object_def find_object_def put_object_def drop_object_def refreshed_def kube_missing_def IgnoreNotFound_def
  convertBoundEndpointToServices_def new_service_def object_key_def updateServiceRefs_def setServicesCreatedCondition_def
  set_binding_condition_def map_binding_status_def setConnectivityStatus_def setConnectivityVerifiedCondition_def
  testBoundEndpointConnectivity_def

definition witness_updated :: "(go_error option \<times> Binding) \<times> bound_world" where
  "witness_updated = bound_update witness_bound_env witness_binding witness_bound_world"

lemma witness_bound_update: "fst (fst witness_updated) = None"
  by (simp add: witness_updated_def bound_run_defs witness_bound_env_def witness_bound_world_def witness_binding_def ref_bound_env_def Let_def
      eval_nat_numeral)

theorem bound_endpoint_projected_witness:
  "provides world_services (snd witness_updated) (fst (bound_services witness_bound_env witness_binding)) \<and>
   provides world_services (snd witness_updated) (snd (bound_services witness_bound_env witness_binding))"
proof -
  obtain be' s' where run: "bound_update witness_bound_env witness_binding witness_bound_world = ((None, be'), s')"
    using witness_bound_update by (metis prod.collapse witness_updated_def)
  have d: "object_key (fst (bound_services witness_bound_env witness_binding)) \<noteq> object_key (snd (bound_services witness_bound_env witness_binding))"
    by (simp add: witness_binding_def convertBoundEndpointToServices_def new_service_def object_key_def Let_def)
  from bound_endpoint_projected [OF witness_bound_cluster run prod.collapse [symmetric] d]
  show ?thesis by (simp add: run witness_updated_def)
qed

definition witness_full_world :: bound_world where
  "witness_full_world =
     witness_bound_world\<lparr>bwServices := [fst (bound_services witness_bound_env witness_binding), snd (bound_services witness_bound_env witness_binding)]\<rparr>"

theorem bound_services_deleted_witness:
  "world_services (snd (bound_delete witness_bound_env witness_binding witness_full_world)) =
     (world_services witness_full_world)(object_key (fst (bound_services witness_bound_env witness_binding)) := None,
        object_key (snd (bound_services witness_bound_env witness_binding)) := None)"
proof -
  have run: "bound_delete witness_bound_env witness_binding witness_full_world =
      ((None, witness_binding), snd (bound_delete witness_bound_env witness_binding witness_full_world))"
    by (simp add: bound_run_defs witness_full_world_def witness_bound_env_def witness_bound_world_def witness_binding_def ref_bound_env_def Let_def)
  have "world_services witness_full_world (object_key (fst (bound_services witness_bound_env witness_binding))) \<noteq> None"
    by (simp add: witness_full_world_def find_object_def)
  then show ?thesis
    using bound_services_deleted [OF witness_bound_cluster run prod.collapse [symmetric]] by blast
qed

text \<open>
  A write of the poller that comes between the controller's read and its status update is lost: the
  conflict is retried with the status that was read before, and the poller's endpoints with it.
\<close>

lemma conflict_overwrites_poller:
  "map_option (\<lambda>be. map beID (btEndpoints (bnStatus (obBody be))))
     (world_bindings (snd (bound_updateStatus witness_bound_env witness_binding None (witness_bound_world\<lparr>bwPoller := [[]]\<rparr>)))
        (object_key witness_binding)) = Some [''ep_1'']"
  by (simp add: bound_run_defs witness_bound_env_def witness_bound_world_def witness_binding_def ref_bound_env_def Let_def eval_nat_numeral
      poller_writes_def calculateReadyCondition_def setReadyCondition_def own_fields_def set_binding_observed_def list_meta_def)

end
