(* ===== verification/Agent_Driver.thy ===== *)
theory Agent_Driver
  imports Domain_Manager
begin

text \<open>
  \<^bold>\<open>pkg/agent/driver.go\<close> and \<^bold>\<open>endpoint_forwarder_map.go\<close>: the driver of the ngrok agent keeps one
  forwarder for each AgentEndpoint and replaces it when the endpoint changes.

  The agent library is an argument (\<open>agent_sdk\<close>): \<open>Forward\<close> starts a forwarder for a request, and a
  forwarder can be closed. Certificates and pools of certificates are texts. The connection to the
  service, its remote procedure calls and the health channels are left out, except for the flag that
  the driver is shutting down.
\<close>

section \<open>Requests\<close>

type_synonym certificate = string

datatype ClientAuthType = NoClientCert | VerifyClientCertIfGiven | RequireAndVerifyClientCert

record AgentTLSTermination =
  atServerCert :: "certificate ptr"
  atClientCAs :: "string ptr"
  atClientAuth :: ClientAuthType

record tls_server_config =
  tcCertificates :: "certificate list"
  tcClientCAs :: "string ptr"
  tcClientAuth :: ClientAuthType

record agent_upstream =
  auURL :: string
  auInsecureSkipVerify :: bool
  auCertificates :: "certificate list"
  auProtocol :: "string ptr"

record agent_request =
  arUpstream :: agent_upstream
  arURL :: string
  arBindings :: "string list"
  arMetadata :: raw_json
  arPoolingEnabled :: bool
  arDescription :: string
  arTrafficPolicy :: "string ptr"
  arTLSTermination :: "tls_server_config ptr"

definition buildUpstream :: "EndpointUpstream \<Rightarrow> certificate list \<Rightarrow> agent_upstream" where
  "buildUpstream upstreamSpec clientCerts =
     \<lparr>auURL = euURL upstreamSpec, auInsecureSkipVerify = True, auCertificates = clientCerts, auProtocol = euProtocol upstreamSpec\<rparr>"

definition server_config :: "AgentTLSTermination ptr \<Rightarrow> tls_server_config ptr" where
  "server_config agentTLS =
     (case agentTLS of
        None \<Rightarrow> None
      | Some t \<Rightarrow>
          (case atServerCert t of
             None \<Rightarrow> None
           | Some cert \<Rightarrow> Some
               (if atClientCAs t \<noteq> None
                then \<lparr>tcCertificates = [cert], tcClientCAs = atClientCAs t, tcClientAuth = atClientAuth t\<rparr>
                else \<lparr>tcCertificates = [cert], tcClientCAs = None, tcClientAuth = NoClientCert\<rparr>)))"

definition agent_request_for ::
  "AgentEndpointSpec \<Rightarrow> string \<Rightarrow> certificate list \<Rightarrow> AgentTLSTermination ptr \<Rightarrow> agent_request" where
  "agent_request_for spec trafficPolicy clientCerts agentTLS =
     \<lparr>arUpstream = buildUpstream (aesUpstream spec) clientCerts, arURL = aesURL spec, arBindings = aesBindings spec,
      arMetadata = MetadataAPIString (aesMetadata spec), arPoolingEnabled = True, arDescription = aesDescription spec,
      arTrafficPolicy = (if trafficPolicy \<noteq> [] then Some trafficPolicy else None), arTLSTermination = server_config agentTLS\<rparr>"

section \<open>The driver\<close>

record ('f, 's) agent_sdk =
  agPoolingEnabled :: "'f \<Rightarrow> bool"
  agURL :: "'f \<Rightarrow> string"
  agTrafficPolicy :: "'f \<Rightarrow> string"
  agForward :: "agent_request \<Rightarrow> 's \<Rightarrow> (go_error + 'f) \<times> 's"
  agClose :: "'f \<Rightarrow> 's \<Rightarrow> go_error option \<times> 's"

record 'f agent_driver =
  adForwarders :: "(string \<times> 'f) list"
  adDone :: bool

record EndpointResult =
  erURL :: string
  erTrafficPolicy :: string
  erReady :: bool

definition forwarders_Get :: "'f agent_driver \<Rightarrow> string \<Rightarrow> 'f option" where
  "forwarders_Get d name = map_of (adForwarders d) name"

definition forwarders_Add :: "string \<Rightarrow> 'f \<Rightarrow> 'f agent_driver \<Rightarrow> 'f agent_driver" where
  "forwarders_Add name ep d = d\<lparr>adForwarders := AList.update name ep (adForwarders d)\<rparr>"

definition forwarders_Delete :: "string \<Rightarrow> 'f agent_driver \<Rightarrow> 'f agent_driver" where
  "forwarders_Delete name d = d\<lparr>adForwarders := AList.delete name (adForwarders d)\<rparr>"

definition not_ready :: EndpointResult where
  "not_ready = \<lparr>erURL = [], erTrafficPolicy = [], erReady = False\<rparr>"

definition start_forwarder ::
  "('f, 's) agent_sdk \<Rightarrow> string \<Rightarrow> agent_request \<Rightarrow> 'f agent_driver \<Rightarrow> 's \<Rightarrow> ((EndpointResult \<times> go_error option) \<times> 'f agent_driver) \<times> 's" where
  "start_forwarder sdk name req d s =
     (case agForward sdk req s of
        (Inl e, s') \<Rightarrow> (((not_ready, Some e), d), s')
      | (Inr epf, s') \<Rightarrow>
          (((\<lparr>erURL = agURL sdk epf, erTrafficPolicy = agTrafficPolicy sdk epf, erReady = True\<rparr>, None), forwarders_Add name epf d), s'))"

text \<open>A forwarder with pooling is closed when the function returns, whatever it returns.\<close>

definition CreateAgentEndpoint ::
  "('f, 's) agent_sdk \<Rightarrow> string \<Rightarrow> AgentEndpointSpec \<Rightarrow> string \<Rightarrow> certificate list \<Rightarrow> AgentTLSTermination ptr \<Rightarrow>
   'f agent_driver \<Rightarrow> 's \<Rightarrow> ((EndpointResult \<times> go_error option) \<times> 'f agent_driver) \<times> 's" where
  "CreateAgentEndpoint sdk name spec trafficPolicy clientCerts agentTLS d s =
     (let req = agent_request_for spec trafficPolicy clientCerts agentTLS
      in if adDone d then (((not_ready, Some (PlainError ''driver is shutting down'')), d), s)
         else
           case forwarders_Get d name of
             None \<Rightarrow> start_forwarder sdk name req d s
           | Some epf \<Rightarrow>
               if \<not> agPoolingEnabled sdk epf then
                 (case agClose sdk epf s of
                    (Some e, s') \<Rightarrow> (((not_ready, Some e), d), s')
                  | (None, s') \<Rightarrow> start_forwarder sdk name req d s')
               else
                 (case start_forwarder sdk name req d s of
                    (r, s') \<Rightarrow> (case agClose sdk epf s' of (_, s'') \<Rightarrow> (r, s''))))"

definition DeleteAgentEndpoint ::
  "('f, 's) agent_sdk \<Rightarrow> string \<Rightarrow> 'f agent_driver \<Rightarrow> 's \<Rightarrow> (go_error option \<times> 'f agent_driver) \<times> 's" where
  "DeleteAgentEndpoint sdk name d s =
     (case forwarders_Get d name of
        None \<Rightarrow> ((None, d), s)
      | Some epf \<Rightarrow>
          (case agClose sdk epf s of
             (Some e, s') \<Rightarrow> ((Some e, d), s')
           | (None, s') \<Rightarrow> ((None, forwarders_Delete name d), s')))"

section \<open>What the library promises\<close>

text \<open>
  \<open>fwd\<close> gives for each forwarder that was ever started its request and whether it is open. A new
  forwarder is a new object; closing one without an error closes it and no other.
\<close>

locale agent_library =
  fixes sdk :: "('f, 's) agent_sdk" and fwd :: "'s \<Rightarrow> 'f \<Rightarrow> (agent_request \<times> bool) option"
  assumes forward_ok: "agForward sdk req s = (Inr f, s') \<Longrightarrow> fwd s f = None \<and> fwd s' = (fwd s)(f \<mapsto> (req, True))"
    and forward_failed: "agForward sdk req s = (Inl e, s') \<Longrightarrow> fwd s' = fwd s"
    and close_ok: "agClose sdk f s = (None, s') \<Longrightarrow> fwd s' = (fwd s)(f := map_option (\<lambda>(req, b). (req, False)) (fwd s f))"
    and close_failed: "agClose sdk f s = (Some e, s') \<Longrightarrow>
      \<exists>b'. fwd s' = (fwd s)(f := map_option (\<lambda>(req, b). (req, b')) (fwd s f))"

text \<open>The state of the driver: names have different forwarders, which were started by it.\<close>

definition driver_ok :: "('s \<Rightarrow> 'f \<Rightarrow> (agent_request \<times> bool) option) \<Rightarrow> 'f agent_driver \<Rightarrow> 's \<Rightarrow> bool" where
  "driver_ok fwd d s \<longleftrightarrow> (\<forall>n f. forwarders_Get d n = Some f \<longrightarrow> fwd s f \<noteq> None) \<and>
     (\<forall>n m f. forwarders_Get d n = Some f \<longrightarrow> forwarders_Get d m = Some f \<longrightarrow> n = m)"

text \<open>The open request of a name.\<close>

definition serving :: "('s \<Rightarrow> 'f \<Rightarrow> (agent_request \<times> bool) option) \<Rightarrow> 'f agent_driver \<Rightarrow> 's \<Rightarrow> string \<Rightarrow> agent_request option" where
  "serving fwd d s name =
     (case forwarders_Get d name of
        None \<Rightarrow> None
      | Some f \<Rightarrow> (case fwd s f of Some (req, True) \<Rightarrow> Some req | _ \<Rightarrow> None))"

text \<open>Every open forwarder is one that the driver knows.\<close>

definition no_leak :: "('s \<Rightarrow> 'f \<Rightarrow> (agent_request \<times> bool) option) \<Rightarrow> 'f agent_driver \<Rightarrow> 's \<Rightarrow> bool" where
  "no_leak fwd d s \<longleftrightarrow> (\<forall>f req. fwd s f = Some (req, True) \<longrightarrow> (\<exists>n. forwarders_Get d n = Some f))"

lemma forwarders_Get_simps [simp]:
  "forwarders_Get (forwarders_Add name f d) = (forwarders_Get d)(name \<mapsto> f)"
  "forwarders_Get (forwarders_Delete name d) = (forwarders_Get d)(name := None)"
  by (auto simp: forwarders_Get_def forwarders_Add_def forwarders_Delete_def update_conv' delete_conv')

context agent_library begin

lemma close_fwd:
  assumes "agClose sdk f s = (r, s')"
  shows "\<exists>b'. fwd s' = (fwd s)(f := map_option (\<lambda>(req, b). (req, b')) (fwd s f)) \<and> (r = None \<longrightarrow> \<not> b')"
  using assms close_ok close_failed by (cases r) blast+

lemma close_keeps:
  assumes "agClose sdk f s = (r, s')" "driver_ok fwd d s"
  shows "driver_ok fwd d s'" "forwarders_Get d n \<noteq> Some f \<Longrightarrow> serving fwd d s' n = serving fwd d s n"
  using close_fwd [OF assms(1)] assms(2) by (auto simp: driver_ok_def serving_def split: option.splits)

lemma start_ok:
  assumes "start_forwarder sdk name req d s = (((res, None), d'), s')" "driver_ok fwd d s"
  shows "\<exists>f. fwd s f = None \<and> fwd s' = (fwd s)(f \<mapsto> (req, True)) \<and> forwarders_Get d' = (forwarders_Get d)(name \<mapsto> f)"
    "driver_ok fwd d' s'" "serving fwd d' s' = (serving fwd d s)(name \<mapsto> req)"
proof -
  from assms(1) obtain f where f: "agForward sdk req s = (Inr f, s')" "d' = forwarders_Add name f d"
    by (auto simp: start_forwarder_def split: prod.splits sum.splits)
  note fw = forward_ok [OF f(1)]
  have new: "forwarders_Get d n \<noteq> Some f" for n using fw assms(2) by (metis driver_ok_def)
  show "\<exists>f. fwd s f = None \<and> fwd s' = (fwd s)(f \<mapsto> (req, True)) \<and> forwarders_Get d' = (forwarders_Get d)(name \<mapsto> f)"
    using fw f(2) by auto
  show "driver_ok fwd d' s'" using fw new assms(2) by (auto simp: driver_ok_def f(2))
  show "serving fwd d' s' = (serving fwd d s)(name \<mapsto> req)"
    using fw new by (auto simp: serving_def f(2) fun_eq_iff split: option.split)
qed

lemma start_failed:
  assumes "start_forwarder sdk name req d s = (((res, Some e), d'), s')"
  shows "d' = d" "fwd s' = fwd s"
  using assms forward_failed by (auto simp: start_forwarder_def split: prod.splits sum.splits)

lemma same_view: "fwd s' = fwd s \<Longrightarrow> driver_ok fwd d s' = driver_ok fwd d s \<and> serving fwd d s' = serving fwd d s \<and> no_leak fwd d s' = no_leak fwd d s"
  by (auto simp: driver_ok_def serving_def no_leak_def intro!: ext split: option.split)

lemma create_ok:
  assumes run: "CreateAgentEndpoint sdk name spec policy certs tls d s = (((res, None), d'), s')" and ok: "driver_ok fwd d s"
  shows "driver_ok fwd d' s'" "serving fwd d' s' = (serving fwd d s)(name \<mapsto> agent_request_for spec policy certs tls)"
proof -
  let ?req = "agent_request_for spec policy certs tls"
  have "driver_ok fwd d' s' \<and> serving fwd d' s' = (serving fwd d s)(name \<mapsto> ?req)"
  proof (cases "forwarders_Get d name")
    case None
    then have "start_forwarder sdk name ?req d s = (((res, None), d'), s')"
      using run by (auto simp: CreateAgentEndpoint_def Let_def split: if_splits)
    from start_ok [OF this ok] show ?thesis by simp
  next
    case (Some epf)
    have other: "forwarders_Get d n \<noteq> Some epf" if "n \<noteq> name" for n using that Some ok by (metis driver_ok_def)
    show ?thesis
    proof (cases "agPoolingEnabled sdk epf")
      case True
      obtain s1 r where st: "start_forwarder sdk name ?req d s = (((res, None), d'), s1)" and cl: "agClose sdk epf s1 = (r, s')"
        using run Some True by (auto simp: CreateAgentEndpoint_def Let_def split: if_splits prod.splits)
      note so = start_ok [OF st ok]
      from so(1) obtain f where f: "fwd s f = None" "forwarders_Get d' = (forwarders_Get d)(name \<mapsto> f)" by blast
      have "f \<noteq> epf" using f(1) Some ok by (metis driver_ok_def)
      then have "forwarders_Get d' n \<noteq> Some epf" for n using other [of n] by (simp add: f(2))
      with so(2,3) close_keeps [OF cl so(2)] show ?thesis by (auto simp: fun_eq_iff)
    next
      case False
      obtain s1 where cl: "agClose sdk epf s = (None, s1)" and st: "start_forwarder sdk name ?req d s1 = (((res, None), d'), s')"
        using run Some False by (auto simp: CreateAgentEndpoint_def Let_def split: if_splits prod.splits option.splits)
      note ck = close_keeps [OF cl ok]
      from start_ok(2,3) [OF st ck(1)] ck(2) other show ?thesis by (auto simp: fun_eq_iff)
    qed
  qed
  then show "driver_ok fwd d' s'" "serving fwd d' s' = (serving fwd d s)(name \<mapsto> ?req)" by simp_all
qed

lemma create_failed:
  assumes run: "CreateAgentEndpoint sdk name spec policy certs tls d s = (((res, Some e), d'), s')" and ok: "driver_ok fwd d s"
  shows "driver_ok fwd d' s' \<and> (\<forall>n. n \<noteq> name \<longrightarrow> serving fwd d' s' n = serving fwd d s n)"
proof (cases "adDone d \<or> forwarders_Get d name = None")
  case True
  then have "d' = d \<and> s' = s \<or> start_forwarder sdk name (agent_request_for spec policy certs tls) d s = (((res, Some e), d'), s')"
    using run by (auto simp: CreateAgentEndpoint_def Let_def split: if_splits)
  then have "d' = d \<and> fwd s' = fwd s" using start_failed by blast
  with ok same_view [of s' s d] show ?thesis by simp
next
  case False
  then obtain epf where epf: "forwarders_Get d name = Some epf" and nd: "\<not> adDone d" by blast
  have other: "forwarders_Get d n \<noteq> Some epf" if "n \<noteq> name" for n using that epf ok by (metis driver_ok_def)
  obtain s1 s2 r where "d' = d" "agClose sdk epf s1 = (r, s2)" "fwd s1 = fwd s" "fwd s' = fwd s2"
  proof (cases "agPoolingEnabled sdk epf")
    case True
    obtain s1 r where st: "start_forwarder sdk name (agent_request_for spec policy certs tls) d s = (((res, Some e), d'), s1)"
      and cl: "agClose sdk epf s1 = (r, s')"
      using run epf nd True by (auto simp: CreateAgentEndpoint_def Let_def split: prod.splits)
    from start_failed [OF st] cl show ?thesis using that by blast
  next
    case False
    obtain r s1 where cl: "agClose sdk epf s = (r, s1)" by fastforce
    show ?thesis
    proof (cases r)
      case None
      then have "start_forwarder sdk name (agent_request_for spec policy certs tls) d s1 = (((res, Some e), d'), s')"
        using run epf nd False cl by (auto simp: CreateAgentEndpoint_def Let_def)
      from start_failed [OF this] cl show ?thesis using that by blast
    next
      case (Some x)
      then have "d' = d" "s' = s1" using run epf nd False cl by (auto simp: CreateAgentEndpoint_def Let_def)
      then show ?thesis using cl that by blast
    qed
  qed
  note c = this
  have ok1: "driver_ok fwd d s1" using ok same_view [OF c(3)] by simp
  show ?thesis using close_keeps [OF c(2) ok1] other same_view [OF c(3), of d] same_view [OF c(4), of d] c(1) by simp
qed

lemma delete_ok:
  assumes run: "DeleteAgentEndpoint sdk name d s = ((None, d'), s')" and ok: "driver_ok fwd d s"
  shows "driver_ok fwd d' s' \<and> serving fwd d' s' = (serving fwd d s)(name := None)"
proof (cases "forwarders_Get d name")
  case None
  then show ?thesis using run ok by (auto simp: DeleteAgentEndpoint_def serving_def fun_eq_iff)
next
  case (Some epf)
  then have cl: "agClose sdk epf s = (None, s')" and d': "d' = forwarders_Delete name d"
    using run by (auto simp: DeleteAgentEndpoint_def split: prod.splits option.splits)
  have other: "forwarders_Get d n \<noteq> Some epf" if "n \<noteq> name" for n using that Some ok by (metis driver_ok_def)
  note ck = close_keeps [OF cl ok]
  have "driver_ok fwd d' s'" using ck(1) by (auto simp: d' driver_ok_def split: if_splits)
  moreover have "serving fwd d' s' n = ((serving fwd d s)(name := None)) n" for n
    using ck(2) [of n] other [of n] by (auto simp: d' serving_def)
  ultimately show ?thesis by auto
qed

lemma delete_failed:
  assumes run: "DeleteAgentEndpoint sdk name d s = ((Some e, d'), s')" and ok: "driver_ok fwd d s"
  shows "driver_ok fwd d' s' \<and> d' = d"
  using run ok close_keeps(1) by (auto simp: DeleteAgentEndpoint_def split: prod.splits option.splits)

lemma start_no_leak:
  assumes "start_forwarder sdk name req d s = ((r, d'), s')" "driver_ok fwd d s"
    and "\<And>f rq. fwd s f = Some (rq, True) \<Longrightarrow> \<exists>n. forwarders_Get d n = Some f \<and> n \<noteq> name"
  shows "no_leak fwd d' s'"
proof (cases "snd r")
  case None
  then have "start_forwarder sdk name req d s = (((fst r, None), d'), s')" using assms(1) by (metis prod.collapse)
  from start_ok(1) [OF this assms(2)] assms(3) show ?thesis by (fastforce simp: no_leak_def split: if_splits)
next
  case (Some e)
  then have "start_forwarder sdk name req d s = (((fst r, Some e), d'), s')" using assms(1) by (metis prod.collapse)
  from start_failed [OF this] assms(3) show ?thesis by (auto simp: no_leak_def)
qed

lemma closed_no_leak:
  assumes "agClose sdk epf s = (None, s')" "no_leak fwd d s" "forwarders_Get d name = Some epf" "driver_ok fwd d s"
    "fwd s' f = Some (rq, True)"
  shows "\<exists>n. forwarders_Get d n = Some f \<and> n \<noteq> name"
  using close_ok [OF assms(1)] assms(2-5) unfolding no_leak_def by (auto split: if_splits) (metis option.inject)

lemma create_no_leak:
  assumes run: "CreateAgentEndpoint sdk name spec policy certs tls d s = ((r, d'), s')" and ok: "driver_ok fwd d s" and "no_leak fwd d s"
    and closes: "\<And>f w. fst (agClose sdk f w) = None"
  shows "no_leak fwd d' s'"
proof (cases "adDone d \<or> forwarders_Get d name = None")
  case True
  then have "d' = d \<and> s' = s \<or> start_forwarder sdk name (agent_request_for spec policy certs tls) d s = ((r, d'), s') \<and> forwarders_Get d name = None"
    using run by (auto simp: CreateAgentEndpoint_def Let_def split: if_splits)
  then consider "d' = d" "s' = s" | "start_forwarder sdk name (agent_request_for spec policy certs tls) d s = ((r, d'), s')" "forwarders_Get d name = None"
    by (elim disjE conjE)
  then show ?thesis
  proof cases
    case 2
    show ?thesis by (rule start_no_leak [OF 2(1) ok]) (use assms(3) 2(2) in \<open>fastforce simp: no_leak_def\<close>)
  qed (use assms(3) in simp)
next
  case False
  then obtain epf where epf: "forwarders_Get d name = Some epf" and nd: "\<not> adDone d" by blast
  let ?req = "agent_request_for spec policy certs tls"
  show ?thesis
  proof (cases "agPoolingEnabled sdk epf")
    case False
    obtain s1 where cl: "agClose sdk epf s = (None, s1)" using closes by (metis prod.collapse)
    then have st: "start_forwarder sdk name ?req d s1 = ((r, d'), s')"
      using run epf nd False by (simp add: CreateAgentEndpoint_def Let_def)
    show ?thesis
      by (rule start_no_leak [OF st close_keeps(1) [OF cl ok]]) (rule closed_no_leak [OF cl assms(3) epf ok])
  next
    case True
    obtain s1 where st: "start_forwarder sdk name ?req d s = ((r, d'), s1)" and cl: "agClose sdk epf s1 = (None, s')"
      using run epf nd True closes by (auto simp: CreateAgentEndpoint_def Let_def split: prod.splits) (metis fst_conv)
    show ?thesis
    proof (cases "snd r")
      case None
      then have st': "start_forwarder sdk name ?req d s = (((fst r, None), d'), s1)" using st by (metis prod.collapse)
      from start_ok(1) [OF st' ok] obtain f where f: "fwd s1 = (fwd s)(f \<mapsto> (?req, True))" "forwarders_Get d' = (forwarders_Get d)(name \<mapsto> f)"
        by blast
      have "\<exists>n. forwarders_Get d' n = Some g" if g: "fwd s' g = Some (rq, True)" for g rq
      proof (cases "g = f")
        case False
        have "g \<noteq> epf" using close_ok [OF cl] g by (auto split: if_splits)
        then have "fwd s g = Some (rq, True)" using close_ok [OF cl] g f(1) False by auto
        then obtain n where "forwarders_Get d n = Some g" using assms(3) by (auto simp: no_leak_def)
        then show ?thesis using f(2) epf \<open>g \<noteq> epf\<close> by (metis fun_upd_other option.inject)
      qed (use f(2) in auto)
      then show ?thesis by (auto simp: no_leak_def)
    next
      case (Some e)
      then have "start_forwarder sdk name ?req d s = (((fst r, Some e), d'), s1)" using st by (metis prod.collapse)
      from start_failed [OF this] assms(3) close_ok [OF cl] show ?thesis by (auto simp: no_leak_def split: if_splits)
    qed
  qed
qed

lemma delete_no_leak:
  assumes run: "DeleteAgentEndpoint sdk name d s = ((r, d'), s')" and ok: "driver_ok fwd d s" and nl: "no_leak fwd d s"
    and closes: "\<And>f w. fst (agClose sdk f w) = None"
  shows "no_leak fwd d' s'"
proof (cases "forwarders_Get d name")
  case None
  then show ?thesis using run nl by (auto simp: DeleteAgentEndpoint_def)
next
  case (Some epf)
  obtain s1 where cl: "agClose sdk epf s = (None, s1)" using closes by (metis prod.collapse)
  then have "d' = forwarders_Delete name d" "s' = s1" using run Some by (auto simp: DeleteAgentEndpoint_def)
  then show ?thesis using closed_no_leak [OF cl nl Some ok] by (fastforce simp: no_leak_def)
qed

end

section \<open>The properties\<close>

text \<open>
  \<^bold>\<open>C8\<close>. The driver is a map from names to running endpoints. A create that succeeds makes exactly the
  requested endpoint run under its name; one that fails leaves the endpoints of all other names as
  they were; a delete that succeeds ends the endpoint of the name and no other.
\<close>

theorem agent_driver_refines_map:
  assumes "agent_library sdk fwd" "driver_ok fwd d s"
  shows "(CreateAgentEndpoint sdk name spec policy certs tls d s = (((res, err), d'), s') \<longrightarrow>
      driver_ok fwd d' s' \<and>
      (if err = None then serving fwd d' s' = (serving fwd d s)(name \<mapsto> agent_request_for spec policy certs tls)
       else \<forall>n. n \<noteq> name \<longrightarrow> serving fwd d' s' n = serving fwd d s n)) \<and>
    (DeleteAgentEndpoint sdk name d s = ((derr, d'), s') \<longrightarrow>
      driver_ok fwd d' s' \<and> (derr = None \<longrightarrow> serving fwd d' s' = (serving fwd d s)(name := None)))"
proof -
  have "driver_ok fwd d' s' \<and> serving fwd d' s' = (serving fwd d s)(name \<mapsto> agent_request_for spec policy certs tls)"
    if "CreateAgentEndpoint sdk name spec policy certs tls d s = (((res, None), d'), s')"
    using agent_library.create_ok [OF assms(1) that assms(2)] by simp
  moreover have "driver_ok fwd d' s' \<and> (\<forall>n. n \<noteq> name \<longrightarrow> serving fwd d' s' n = serving fwd d s n)"
    if "CreateAgentEndpoint sdk name spec policy certs tls d s = (((res, Some e), d'), s')" for e
    using agent_library.create_failed [OF assms(1) that assms(2)] .
  moreover have "driver_ok fwd d' s' \<and> serving fwd d' s' = (serving fwd d s)(name := None)"
    if "DeleteAgentEndpoint sdk name d s = ((None, d'), s')"
    using agent_library.delete_ok [OF assms(1) that assms(2)] .
  moreover have "driver_ok fwd d' s'" if "DeleteAgentEndpoint sdk name d s = ((Some e, d'), s')" for e
    using agent_library.delete_failed [OF assms(1) that assms(2)] by blast
  ultimately show ?thesis by (cases err; cases derr) auto
qed

datatype agent_call =
    CallCreate string AgentEndpointSpec string "certificate list" "AgentTLSTermination ptr"
  | CallDelete string

fun run_call :: "('f, 's) agent_sdk \<Rightarrow> agent_call \<Rightarrow> 'f agent_driver \<times> 's \<Rightarrow> 'f agent_driver \<times> 's" where
  "run_call sdk (CallCreate name spec policy certs tls) (d, s) =
     (case CreateAgentEndpoint sdk name spec policy certs tls d s of ((_, d'), s') \<Rightarrow> (d', s'))"
| "run_call sdk (CallDelete name) (d, s) = (case DeleteAgentEndpoint sdk name d s of ((_, d'), s') \<Rightarrow> (d', s'))"

definition new_agent_driver :: "'f agent_driver" where
  "new_agent_driver = \<lparr>adForwarders = [], adDone = False\<rparr>"

lemma run_calls_inv:
  assumes lib: "agent_library sdk fwd" and closes: "\<And>f w. fst (agClose sdk f w) = None"
    and "driver_ok fwd d s" "no_leak fwd d s" "fold (run_call sdk) calls (d, s) = (d', s')"
  shows "driver_ok fwd d' s' \<and> no_leak fwd d' s'"
  using assms(3-5)
proof (induction calls arbitrary: d s)
  case (Cons c calls)
  obtain d1 s1 where one: "run_call sdk c (d, s) = (d1, s1)" by fastforce
  have "driver_ok fwd d1 s1 \<and> no_leak fwd d1 s1"
  proof (cases c)
    case (CallCreate name spec policy certs tls)
    then obtain res err where r: "CreateAgentEndpoint sdk name spec policy certs tls d s = (((res, err), d1), s1)"
      using one by (auto split: prod.splits)
    have "driver_ok fwd d1 s1"
      using agent_library.create_ok(1) [OF lib _ Cons.prems(1)] agent_library.create_failed [OF lib _ Cons.prems(1)] r
      by (cases err) blast+
    then show ?thesis using agent_library.create_no_leak [OF lib r Cons.prems(1,2) closes] by simp
  next
    case (CallDelete name)
    then obtain err where r: "DeleteAgentEndpoint sdk name d s = ((err, d1), s1)" using one by (auto split: prod.splits)
    have "driver_ok fwd d1 s1"
      using agent_library.delete_ok [OF lib _ Cons.prems(1)] agent_library.delete_failed [OF lib _ Cons.prems(1)] r
      by (cases err) blast+
    then show ?thesis using agent_library.delete_no_leak [OF lib r Cons.prems(1,2) closes] by simp
  qed
  then show ?case using Cons.IH [of d1 s1] Cons.prems(3) one by simp
qed simp


section \<open>The driver as the controller sees it\<close>

text \<open>The interface \<open>agent.Driver\<close> of the code: \<open>running\<close> is what runs under a name.\<close>

locale running_endpoints =
  fixes create :: "string \<Rightarrow> AgentEndpointSpec \<Rightarrow> string \<Rightarrow> certificate list \<Rightarrow> AgentTLSTermination ptr \<Rightarrow> 's \<Rightarrow> (EndpointResult \<times> go_error option) \<times> 's"
    and delete :: "string \<Rightarrow> 's \<Rightarrow> go_error option \<times> 's"
    and good :: "'s \<Rightarrow> bool" and running :: "'s \<Rightarrow> string \<Rightarrow> agent_request option"
  assumes create_runs: "good s \<Longrightarrow> create name spec policy certs tls s = ((res, None), s') \<Longrightarrow>
      good s' \<and> running s' = (running s)(name \<mapsto> agent_request_for spec policy certs tls)"
    and create_fails: "good s \<Longrightarrow> create name spec policy certs tls s = ((res, Some e), s') \<Longrightarrow>
      good s' \<and> (\<forall>n. n \<noteq> name \<longrightarrow> running s' n = running s n)"
    and delete_ends: "good s \<Longrightarrow> delete name s = (None, s') \<Longrightarrow> good s' \<and> running s' = (running s)(name := None)"

definition drive_create ::
  "('f, 's) agent_sdk \<Rightarrow> string \<Rightarrow> AgentEndpointSpec \<Rightarrow> string \<Rightarrow> certificate list \<Rightarrow> AgentTLSTermination ptr \<Rightarrow>
   'f agent_driver \<times> 's \<Rightarrow> (EndpointResult \<times> go_error option) \<times> 'f agent_driver \<times> 's" where
  "drive_create sdk name spec policy certs tls = (\<lambda>(d, s).
     case CreateAgentEndpoint sdk name spec policy certs tls d s of ((r, d'), s') \<Rightarrow> (r, d', s'))"

definition drive_delete :: "('f, 's) agent_sdk \<Rightarrow> string \<Rightarrow> 'f agent_driver \<times> 's \<Rightarrow> go_error option \<times> 'f agent_driver \<times> 's" where
  "drive_delete sdk name = (\<lambda>(d, s). case DeleteAgentEndpoint sdk name d s of ((r, d'), s') \<Rightarrow> (r, d', s'))"

sublocale agent_library \<subseteq> driven: running_endpoints "drive_create sdk" "drive_delete sdk"
    "\<lambda>(d, s). driver_ok fwd d s" "\<lambda>(d, s). serving fwd d s"
  by unfold_locales (auto simp: drive_create_def drive_delete_def split: prod.splits dest: create_ok create_failed delete_ok)

section \<open>A reference library\<close>

text \<open>Forwarders are numbered; one URL is refused.\<close>

definition list_sdk :: "(nat, (agent_request \<times> bool) list) agent_sdk" where
  "list_sdk =
     \<lparr>agPoolingEnabled = (\<lambda>f. True), agURL = (\<lambda>f. ''https://assigned''), agTrafficPolicy = (\<lambda>f. []),
      agForward = (\<lambda>req w. if arURL req = ''bad'' then (Inl (PlainError ''refused''), w) else (Inr (length w), w @ [(req, True)])),
      agClose = (\<lambda>f w. (None, if f < length w then w[f := (fst (w ! f), False)] else w))\<rparr>"

definition list_fwd :: "(agent_request \<times> bool) list \<Rightarrow> nat \<Rightarrow> (agent_request \<times> bool) option" where
  "list_fwd w f = (if f < length w then Some (w ! f) else None)"

interpretation list_agent: agent_library list_sdk list_fwd
  by unfold_locales (auto simp: list_sdk_def list_fwd_def fun_eq_iff nth_append nth_list_update split: if_splits prod.splits)

definition witness_agent_spec :: "string \<Rightarrow> AgentEndpointSpec" where
  "witness_agent_spec url =
     \<lparr>aesURL = url, aesUpstream = \<lparr>euURL = ''http://app.web:80'', euProtocol = None, euProxyProtocolVersion = None\<rparr>, aesTrafficPolicy = None,
      aesDescription = [], aesMetadata = None, aesBindings = [], aesClientCertificateRefs = [], aesTLSTermination = None\<rparr>"

theorem agent_driver_refines_map_witness:
  "\<exists>d' w'. fold (run_call list_sdk) [CallCreate ''web/app'' (witness_agent_spec ''a.example.com'') [] [] None] (new_agent_driver, []) = (d', w') \<and>
     serving list_fwd d' w' ''web/app'' = Some (agent_request_for (witness_agent_spec ''a.example.com'') [] [] None)"
proof -
  let ?c = "CreateAgentEndpoint list_sdk ''web/app'' (witness_agent_spec ''a.example.com'') [] [] None new_agent_driver []"
  have "snd (fst (fst ?c)) = None" by code_simp
  then have run: "?c = (((fst (fst (fst ?c)), None), snd (fst ?c)), snd ?c)" by (metis prod.collapse)
  have "driver_ok list_fwd new_agent_driver []" by (simp add: driver_ok_def new_agent_driver_def forwarders_Get_def)
  from agent_driver_refines_map [OF list_agent.agent_library_axioms this, of "''web/app''" "witness_agent_spec ''a.example.com''" "[]" "[]" None
      "fst (fst (fst ?c))" None "snd (fst ?c)" "snd ?c"] run
  have "serving list_fwd (snd (fst ?c)) (snd ?c) ''web/app'' = Some (agent_request_for (witness_agent_spec ''a.example.com'') [] [] None)" by simp
  then show ?thesis by (intro exI [of _ "snd (fst ?c)"] exI [of _ "snd ?c"]) (simp add: case_prod_beta)
qed


text \<open>
  A replacement that fails ends the endpoint that was running: the old forwarder is closed in any
  case.
\<close>

lemma failed_replacement_ends_endpoint:
  "\<exists>d w d' w' res e. serving list_fwd d w ''web/app'' \<noteq> None \<and>
     CreateAgentEndpoint list_sdk ''web/app'' (witness_agent_spec ''bad'') [] [] None d w = (((res, Some e), d'), w') \<and>
     serving list_fwd d' w' ''web/app'' = None"
  by (rule exI [of _ "\<lparr>adForwarders = [(''web/app'', 0)], adDone = False\<rparr>"],
      rule exI [of _ "[(agent_request_for (witness_agent_spec ''a.example.com'') [] [] None, True)]"])
    (simp add: CreateAgentEndpoint_def start_forwarder_def forwarders_Get_def serving_def list_sdk_def list_fwd_def agent_request_for_def
      witness_agent_spec_def)

text \<open>The version of the proxy protocol that a spec asks for is not passed on.\<close>

lemma proxy_protocol_ignored:
  "agent_request_for (spec\<lparr>aesUpstream := (aesUpstream spec)\<lparr>euProxyProtocolVersion := v\<rparr>\<rparr>) policy certs tls = agent_request_for spec policy certs tls"
  by (simp add: agent_request_for_def buildUpstream_def)

end
