(* ===== verification/Traffic_Policy_Manager.thy ===== *)
theory Traffic_Policy_Manager
  imports Base_Controller Traffic_Policy
begin

text \<open>
  \<^bold>\<open>internal/trafficpolicy/manager.go\<close> and \<^bold>\<open>indexer.go\<close>: an endpoint names its traffic policy inline or
  by reference; the manager resolves it and keeps the condition \<open>TrafficPolicyApplied\<close>. The interface
  \<open>EndpointWithTrafficPolicy\<close> is a record of accessors. A policy text is a \<open>raw_json\<close>; the empty text is
  no policy. Reading an NgrokTrafficPolicy is the argument \<open>getPolicy\<close>.
\<close>

record TrafficPolicySource =
  tsInline :: "raw_json ptr"
  tsReference :: "string ptr"

record 'b EndpointWithTrafficPolicy =
  etpCfg :: "'b \<Rightarrow> TrafficPolicySource ptr"
  etpConditions :: "'b \<Rightarrow> Condition list"
  etpPutConditions :: "Condition list \<Rightarrow> 'b \<Rightarrow> 'b"

definition ConditionTrafficPolicy :: string where
  "ConditionTrafficPolicy = ''TrafficPolicyApplied''"

definition ErrInvalidConfig :: go_error where
  "ErrInvalidConfig = PlainError ''invalid TrafficPolicy configuration: exactly one of inline or targetRef must be set''"

definition ErrTrafficPolicyNotFound :: go_error where
  "ErrTrafficPolicyNotFound = PlainError ''referenced TrafficPolicy not found''"

definition ErrInvalidPolicyJSON :: go_error where
  "ErrInvalidPolicyJSON = PlainError ''TrafficPolicy contains invalid JSON''"

record PolicyResult =
  prPolicy :: raw_json
  prSource :: string

definition put_conditions :: "'b EndpointWithTrafficPolicy \<Rightarrow> (Condition list \<Rightarrow> Condition list) \<Rightarrow> 'b kube_object \<Rightarrow> 'b kube_object" where
  "put_conditions acc f ep = ep\<lparr>obBody := etpPutConditions acc (f (etpConditions acc (obBody ep))) (obBody ep)\<rparr>"

definition policy_setCondition ::
  "kube_meta \<Rightarrow> 'b EndpointWithTrafficPolicy \<Rightarrow> bool \<Rightarrow> string \<Rightarrow> string \<Rightarrow> 'b kube_object \<Rightarrow> 'b kube_object" where
  "policy_setCondition km acc applied reason message ep =
     put_conditions acc (Set_condition km (omGeneration (obMeta ep)) ConditionTrafficPolicy applied reason message) ep"

definition SetError :: "kube_meta \<Rightarrow> 'b EndpointWithTrafficPolicy \<Rightarrow> string \<Rightarrow> 'b kube_object \<Rightarrow> 'b kube_object" where
  "SetError km acc message ep = policy_setCondition km acc False ''TrafficPolicyError'' message ep"

definition clearStaleError :: "kube_meta \<Rightarrow> 'b EndpointWithTrafficPolicy \<Rightarrow> 'b kube_object \<Rightarrow> 'b kube_object" where
  "clearStaleError km acc ep =
     (case kmFindStatusCondition km (etpConditions acc (obBody ep)) ConditionTrafficPolicy of
        Some c \<Rightarrow> if cnStatus c = ''False'' then put_conditions acc (kmRemoveStatusCondition km ConditionTrafficPolicy) ep else ep
      | None \<Rightarrow> ep)"

definition MarkApplied :: "kube_meta \<Rightarrow> 'b EndpointWithTrafficPolicy \<Rightarrow> 'b kube_object \<Rightarrow> 'b kube_object" where
  "MarkApplied km acc ep =
     (if etpCfg acc (obBody ep) = None then ep
      else policy_setCondition km acc True ''TrafficPolicyApplied'' ''Traffic policy successfully applied'' ep)"

definition IntendedSource :: "TrafficPolicySource ptr \<Rightarrow> string" where
  "IntendedSource cfg =
     (case cfg of
        None \<Rightarrow> ''none''
      | Some c \<Rightarrow> (case tsReference c of Some name \<Rightarrow> name | None \<Rightarrow> if tsInline c \<noteq> None then ''inline'' else ''none''))"

definition exactlyOneSet :: "TrafficPolicySource \<Rightarrow> bool" where
  "exactlyOneSet cfg \<longleftrightarrow>
     (if tsInline cfg \<noteq> None then 1 else 0 :: nat) + (if tsReference cfg \<noteq> None then 1 else 0) = 1"

fun marshalInline :: "raw_json \<Rightarrow> go_error + raw_json" where
  "marshalInline RawEmpty = Inr RawEmpty"
| "marshalInline (RawInvalid t) = Inl ErrInvalidPolicyJSON"
| "marshalInline (RawDoc j) = Inr (RawDoc j)"

definition resolveRef :: "(NamespacedName \<Rightarrow> 's \<Rightarrow> go_error + raw_json) \<Rightarrow> string \<Rightarrow> string \<Rightarrow> 's \<Rightarrow> go_error + raw_json" where
  "resolveRef getPolicy namespace name s =
     (case getPolicy \<lparr>nnName = name, nnNamespace = namespace\<rparr> s of
        Inl e \<Rightarrow>
          if kube_reason_of e = Some KubeNotFound then Inl (SuffixedError ErrTrafficPolicyNotFound (namespace @ ''/'' @ name))
          else Inl e
      | Inr policy \<Rightarrow> marshalInline policy)"

definition Resolve ::
  "kube_meta \<Rightarrow> (go_error \<Rightarrow> string) \<Rightarrow> (NamespacedName \<Rightarrow> 's \<Rightarrow> go_error + raw_json) \<Rightarrow> 'b EndpointWithTrafficPolicy \<Rightarrow>
   'b kube_object \<Rightarrow> 's \<Rightarrow> (go_error + PolicyResult) \<times> 'b kube_object" where
  "Resolve km ng getPolicy acc ep s =
     (let failed = (\<lambda>e. (Inl e, policy_setCondition km acc False ''TrafficPolicyError'' (error_text ng e) ep))
      in case etpCfg acc (obBody ep) of
           None \<Rightarrow> (Inr \<lparr>prPolicy = RawEmpty, prSource = ''none''\<rparr>, put_conditions acc (kmRemoveStatusCondition km ConditionTrafficPolicy) ep)
         | Some cfg \<Rightarrow>
             if \<not> exactlyOneSet cfg then failed ErrInvalidConfig
             else
               (case tsReference cfg of
                  Some name \<Rightarrow>
                    (case resolveRef getPolicy (omNamespace (obMeta ep)) name s of
                       Inl e \<Rightarrow> failed e
                     | Inr policy \<Rightarrow> (Inr \<lparr>prPolicy = policy, prSource = IntendedSource (Some cfg)\<rparr>, clearStaleError km acc ep))
                | None \<Rightarrow>
                    (case marshalInline (case tsInline cfg of Some raw \<Rightarrow> raw | None \<Rightarrow> RawEmpty) of
                       Inl e \<Rightarrow> failed e
                     | Inr policy \<Rightarrow> (Inr \<lparr>prPolicy = policy, prSource = ''inline''\<rparr>, clearStaleError km acc ep))))"

section \<open>Indexing\<close>

definition nn_String :: "NamespacedName \<Rightarrow> string" where
  "nn_String n = nnNamespace n @ ''/'' @ nnName n"

definition IndexKey :: "'b EndpointWithTrafficPolicy \<Rightarrow> 'b kube_object \<Rightarrow> string" where
  "IndexKey acc ep =
     (case etpCfg acc (obBody ep) of
        None \<Rightarrow> []
      | Some cfg \<Rightarrow>
          (case tsReference cfg of None \<Rightarrow> []
           | Some name \<Rightarrow> nn_String \<lparr>nnName = name, nnNamespace = omNamespace (obMeta ep)\<rparr>))"

definition IndexKeyForObject :: "'b EndpointWithTrafficPolicy \<Rightarrow> 'b kube_object \<Rightarrow> string list" where
  "IndexKeyForObject acc ep = (let key = IndexKey acc ep in if key \<noteq> [] then [key] else [])"

definition LookupKey :: "'b kube_object \<Rightarrow> string" where
  "LookupKey tp = nn_String (object_key tp)"

section \<open>What resolving does\<close>

locale policy_access =
  fixes acc :: "'b EndpointWithTrafficPolicy"
  assumes conditions_put [simp]: "etpConditions acc (etpPutConditions acc cs b) = cs"
    and cfg_put [simp]: "etpCfg acc (etpPutConditions acc cs b) = etpCfg acc b"
begin

lemma put_conditions_simps [simp]:
  "etpConditions acc (obBody (put_conditions acc f ep)) = f (etpConditions acc (obBody ep))"
  "etpCfg acc (obBody (put_conditions acc f ep)) = etpCfg acc (obBody ep)"
  "obMeta (put_conditions acc f ep) = obMeta ep"
  by (simp_all add: put_conditions_def)

end

text \<open>The policy that an endpoint asks for, in the namespace of the endpoint.\<close>

definition policy_of ::
  "(NamespacedName \<Rightarrow> 's \<Rightarrow> go_error + raw_json) \<Rightarrow> string \<Rightarrow> TrafficPolicySource ptr \<Rightarrow> 's \<Rightarrow> raw_json option" where
  "policy_of getPolicy namespace cfg s =
     (case cfg of
        None \<Rightarrow> Some RawEmpty
      | Some c \<Rightarrow>
          (case (tsInline c, tsReference c) of
             (Some raw, None) \<Rightarrow> Some raw
           | (None, Some name) \<Rightarrow> (case getPolicy \<lparr>nnName = name, nnNamespace = namespace\<rparr> s of Inr raw \<Rightarrow> Some raw | Inl e \<Rightarrow> None)
           | _ \<Rightarrow> None))"

lemma marshalInline_ok: "marshalInline raw = Inr p \<longleftrightarrow> p = raw \<and> (\<forall>t. raw \<noteq> RawInvalid t)"
  by (cases raw) auto

lemma Resolve_policy:
  "Resolve km ng getPolicy acc ep s = (Inr r, ep') \<Longrightarrow>
   policy_of getPolicy (omNamespace (obMeta ep)) (etpCfg acc (obBody ep)) s = Some (prPolicy r) \<and> (\<forall>t. prPolicy r \<noteq> RawInvalid t)"
  by (auto simp: Resolve_def policy_of_def exactlyOneSet_def resolveRef_def marshalInline_ok Let_def split: option.splits sum.splits if_splits)

definition no_policy_error :: "kube_meta \<Rightarrow> 'b EndpointWithTrafficPolicy \<Rightarrow> 'b kube_object \<Rightarrow> bool" where
  "no_policy_error km acc ep \<longleftrightarrow>
     (\<forall>c. kmFindStatusCondition km (etpConditions acc (obBody ep)) ConditionTrafficPolicy = Some c \<longrightarrow> cnStatus c \<noteq> ''False'')"

lemma Resolve_no_error:
  assumes "object_meta km" "policy_access acc" "Resolve km ng getPolicy acc ep s = (Inr r, ep')"
  shows "no_policy_error km acc ep'"
  using assms(3) unfolding no_policy_error_def
  by (auto simp: Resolve_def clearStaleError_def policy_access.put_conditions_simps [OF assms(2)] object_meta.find_remove [OF assms(1)]
      Let_def split: option.splits sum.splits if_splits)

lemma Resolve_keeps:
  assumes "\<And>cs b. f (etpPutConditions acc cs b) = f b" "Resolve km ng getPolicy acc ep s = (r, ep')"
  shows "f (obBody ep') = f (obBody ep)" "obMeta ep' = obMeta ep"
  using assms
  by (auto simp: Resolve_def clearStaleError_def policy_setCondition_def put_conditions_def Let_def
      split: option.splits sum.splits if_splits)

lemma Resolve_cong:
  assumes "\<And>c name. etpCfg acc (obBody ep) = Some c \<Longrightarrow> tsReference c = Some name \<Longrightarrow>
    g \<lparr>nnName = name, nnNamespace = omNamespace (obMeta ep)\<rparr> s = h \<lparr>nnName = name, nnNamespace = omNamespace (obMeta ep)\<rparr> s"
  shows "Resolve km ng g acc ep s = Resolve km ng h acc ep s"
proof (cases "etpCfg acc (obBody ep)")
  case (Some c)
  show ?thesis
  proof (cases "tsReference c")
    case ref: (Some name)
    show ?thesis using assms [OF Some ref] Some ref by (simp add: Resolve_def resolveRef_def Let_def)
  qed (simp add: Resolve_def Some Let_def)
qed (simp add: Resolve_def)

text \<open>
  \<^bold>\<open>C16\<close>. Resolving a traffic policy is exact. It succeeds if and only if the endpoint has no policy, a
  valid inline one, or a reference to an existing policy of its own namespace, never both, and then
  gives that policy and leaves no error on the endpoint; otherwise it puts the condition
  \<open>TrafficPolicyApplied\<close> to false for the current generation.
\<close>

theorem Resolve_exact:
  assumes "object_meta km" "policy_access acc" "Resolve km ng getPolicy acc ep s = (r, ep')"
  shows "(case r of
       Inr res \<Rightarrow> policy_of getPolicy (omNamespace (obMeta ep)) (etpCfg acc (obBody ep)) s = Some (prPolicy res) \<and>
         (\<forall>t. prPolicy res \<noteq> RawInvalid t) \<and> no_policy_error km acc ep'
     | Inl e \<Rightarrow> policy_of getPolicy (omNamespace (obMeta ep)) (etpCfg acc (obBody ep)) s \<in> {None} \<union> range (\<lambda>t. Some (RawInvalid t)) \<and>
         (\<exists>c. kmFindStatusCondition km (etpConditions acc (obBody ep')) ConditionTrafficPolicy = Some c \<and>
            cnStatus c = ''False'' \<and> cnObservedGeneration c = omGeneration (obMeta ep)))"
proof (cases r)
  case (Inr res)
  have "no_policy_error km acc ep'" by (rule Resolve_no_error [OF assms(1,2) assms(3) [unfolded Inr]])
  then show ?thesis using Resolve_policy [of km ng getPolicy acc ep s res ep'] assms(3) Inr by simp
next
  case (Inl e)
  note puts = policy_access.put_conditions_simps [OF assms(2)]
  note fs = object_meta.find_set [OF assms(1)]
  have ep': "ep' = policy_setCondition km acc False ''TrafficPolicyError'' (error_text ng e) ep"
    using assms(3) Inl by (auto simp: Resolve_def Let_def split: option.splits sum.splits if_splits)
  have m: "marshalInline raw = Inl e \<Longrightarrow> Some raw \<in> range (\<lambda>t. Some (RawInvalid t))" for raw by (cases raw) auto
  have "policy_of getPolicy (omNamespace (obMeta ep)) (etpCfg acc (obBody ep)) s \<in> {None} \<union> range (\<lambda>t. Some (RawInvalid t))"
    using assms(3) Inl m
    by (auto simp: Resolve_def policy_of_def exactlyOneSet_def resolveRef_def Let_def split: option.splits sum.splits if_splits)
  then show ?thesis by (simp add: Inl ep' policy_setCondition_def puts Set_condition_def fs)
qed

end
