(* ===== verification/Cloud_Endpoint_Controller.thy ===== *)
theory Cloud_Endpoint_Controller
  imports Domain_Manager Traffic_Policy_Manager
begin

text \<open>
  \<^bold>\<open>internal/controller/ngrok/cloudendpoint_controller.go\<close> and \<^bold>\<open>cloudendpoint_conditions.go\<close>: a
  CloudEndpoint resource, whether generated or written by a user, becomes an endpoint of the ngrok
  API once its domain exists and its traffic policy is resolved.

  The stored resource has its own types here because the policy fields of a user's resource hold any
  text. The ngrok API, the Kubernetes client and the text of JSON are arguments (\<open>cloud_env\<close>). The
  deprecation events that \<open>normalizeLegacyTrafficPolicy\<close> emits are its first result.
\<close>

section \<open>The resource\<close>

record CloudPolicyCfg =
  ccInline :: "raw_json ptr"
  ccReference :: "string ptr"
  ccPolicy :: "raw_json ptr"

record CloudSpec =
  clURL :: string
  clTrafficPolicyName :: string
  clPoolingEnabled :: "bool ptr"
  clTrafficPolicy :: "CloudPolicyCfg ptr"
  clDescription :: string
  clMetadata :: "crd_metadata ptr"
  clBindings :: "string list"

record CloudEndpointStatus =
  cstObservedGeneration :: int
  cstID :: string
  cstAssignedURL :: string
  cstDomainRef :: "K8sObjectRefOptionalNamespace ptr"
  cstConditions :: "Condition list"

text \<open>Of the owner references only the flag \<open>Controller\<close> matters.\<close>

record clep_body =
  clLabels :: labels
  clOwners :: "bool ptr list"
  clSpec :: CloudSpec
  clStatus :: CloudEndpointStatus

type_synonym CloudEndpointObject = "clep_body kube_object"

definition clep_ToTrafficPolicyCfg :: "CloudPolicyCfg ptr \<Rightarrow> TrafficPolicySource ptr" where
  "clep_ToTrafficPolicyCfg cfg =
     (case cfg of
        None \<Rightarrow> None
      | Some c \<Rightarrow>
          (let inline = (if ccInline c = None \<and> ccReference c = None \<and> ccPolicy c \<noteq> None then ccPolicy c else ccInline c)
           in if inline = None \<and> ccReference c = None then None
              else Some \<lparr>tsInline = inline, tsReference = ccReference c\<rparr>))"

definition HasDeprecatedPolicy :: "CloudPolicyCfg ptr \<Rightarrow> bool" where
  "HasDeprecatedPolicy cfg = (case cfg of None \<Rightarrow> False | Some c \<Rightarrow> ccPolicy c \<noteq> None)"

definition hasEffectivePolicy :: "CloudPolicyCfg ptr \<Rightarrow> bool" where
  "hasEffectivePolicy cfg =
     (case cfg of None \<Rightarrow> False | Some c \<Rightarrow> ccInline c \<noteq> None \<or> ccReference c \<noteq> None \<or> ccPolicy c \<noteq> None)"

definition clep_domain :: "clep_body EndpointWithDomain" where
  "clep_domain =
     \<lparr>ewURL = (\<lambda>b. clURL (clSpec b)), ewBindings = (\<lambda>b. clBindings (clSpec b)), ewConditions = (\<lambda>b. cstConditions (clStatus b)),
      ewPutConditions = (\<lambda>cs b. b\<lparr>clStatus := (clStatus b)\<lparr>cstConditions := cs\<rparr>\<rparr>),
      ewDomainRef = (\<lambda>b. cstDomainRef (clStatus b)),
      ewPutDomainRef = (\<lambda>ref b. b\<lparr>clStatus := (clStatus b)\<lparr>cstDomainRef := ref\<rparr>\<rparr>)\<rparr>"

definition clep_policy :: "clep_body EndpointWithTrafficPolicy" where
  "clep_policy =
     \<lparr>etpCfg = (\<lambda>b. clep_ToTrafficPolicyCfg (clTrafficPolicy (clSpec b))), etpConditions = (\<lambda>b. cstConditions (clStatus b)),
      etpPutConditions = (\<lambda>cs b. b\<lparr>clStatus := (clStatus b)\<lparr>cstConditions := cs\<rparr>\<rparr>)\<rparr>"

definition map_clep_status :: "(CloudEndpointStatus \<Rightarrow> CloudEndpointStatus) \<Rightarrow> CloudEndpointObject \<Rightarrow> CloudEndpointObject" where
  "map_clep_status f ep = ep\<lparr>obBody := (obBody ep)\<lparr>clStatus := f (clStatus (obBody ep))\<rparr>\<rparr>"

definition set_clep_observed :: "int \<Rightarrow> CloudEndpointObject \<Rightarrow> CloudEndpointObject" where
  "set_clep_observed generation = map_clep_status (cstObservedGeneration_update (\<lambda>_. generation))"

section \<open>Legacy policy fields\<close>

definition isOperatorOwned :: "clep_body \<Rightarrow> bool" where
  "isOperatorOwned b \<longleftrightarrow> list_ex (\<lambda>c. c = Some True) (clOwners b) \<or> map_of (clLabels b) ControllerName \<noteq> None"

definition normalize_spec :: "CloudSpec \<Rightarrow> CloudSpec" where
  "normalize_spec sp =
     (if clTrafficPolicyName sp \<noteq> [] \<and> \<not> hasEffectivePolicy (clTrafficPolicy sp)
      then sp\<lparr>clTrafficPolicy := Some \<lparr>ccInline = None, ccReference = Some (clTrafficPolicyName sp), ccPolicy = None\<rparr>\<rparr>
      else sp)"

definition normalizeLegacyTrafficPolicy :: "bool \<Rightarrow> CloudEndpointObject \<Rightarrow> string list \<times> CloudEndpointObject" where
  "normalizeLegacyTrafficPolicy emitEvents ep =
     (let emit = emitEvents \<and> \<not> isOperatorOwned (obBody ep);
          sp = clSpec (obBody ep);
          name_events =
            (if clTrafficPolicyName sp \<noteq> [] \<and> emit
             then (if hasEffectivePolicy (clTrafficPolicy sp)
                   then [''spec.trafficPolicyName is deprecated and is ignored when spec.trafficPolicy is also set; use spec.trafficPolicy.targetRef.name instead'']
                   else [''spec.trafficPolicyName is deprecated; use spec.trafficPolicy.targetRef.name instead''])
             else []);
          sp' = normalize_spec sp;
          policy_events =
            (case clTrafficPolicy sp' of
               Some c \<Rightarrow>
                 if ccPolicy c \<noteq> None \<and> emit
                 then (if ccReference c \<noteq> None
                       then [''spec.trafficPolicy.policy is deprecated and is ignored when spec.trafficPolicy.targetRef is also set; use spec.trafficPolicy.targetRef instead'']
                       else if ccInline c \<noteq> None
                       then [''spec.trafficPolicy.policy is deprecated and is ignored when spec.trafficPolicy.inline is also set; use spec.trafficPolicy.inline instead'']
                       else [''spec.trafficPolicy.policy is deprecated; use spec.trafficPolicy.inline instead''])
                 else []
             | None \<Rightarrow> [])
      in (name_events @ policy_events, ep\<lparr>obBody := (obBody ep)\<lparr>clSpec := sp'\<rparr>\<rparr>))"

definition indexCloudEndpointTrafficPolicyRefs :: "CloudEndpointObject \<Rightarrow> string list" where
  "indexCloudEndpointTrafficPolicyRefs ep =
     (let sp = clSpec (obBody ep)
      in if hasEffectivePolicy (clTrafficPolicy sp)
         then (let key = IndexKey clep_policy ep in if key \<noteq> [] then [key] else [])
         else if clTrafficPolicyName sp \<noteq> [] then [omNamespace (obMeta ep) @ ''/'' @ clTrafficPolicyName sp]
         else [])"

section \<open>The API\<close>

record CloudAPIEndpoint =
  apID :: string
  apURL :: string
  apDescription :: string
  apMetadata :: string
  apTrafficPolicy :: string
  apBindings :: "string list"
  apPoolingEnabled :: bool

record EndpointWrite =
  wrURL :: string
  wrDescription :: string
  wrMetadata :: string
  wrTrafficPolicy :: string
  wrBindings :: "string list"
  wrPoolingEnabled :: "bool ptr"

record 's cloud_env =
  ceKube :: "'s domain_kube"
  ceManager :: Manager
  ceErrors :: ngrok_errors
  ceText :: "raw_json \<Rightarrow> string"
  ceGetPolicy :: "NamespacedName \<Rightarrow> 's \<Rightarrow> go_error + raw_json"
  ceRetry :: "(CloudEndpointObject \<times> 's) retrier"
  ceStatus :: "(clep_body, 's) status_client"
  ceGet :: "NamespacedName \<Rightarrow> 's \<Rightarrow> go_error + CloudEndpointObject"
  cePatch :: "(clep_body, go_error, 's) patcher"
  ceDrainState :: "('s \<Rightarrow> bool \<times> 's) option"
  ceCreateEndpoint :: "EndpointWrite \<Rightarrow> 's \<Rightarrow> (go_error + CloudAPIEndpoint) \<times> 's"
  ceGetEndpoint :: "string \<Rightarrow> 's \<Rightarrow> go_error + CloudAPIEndpoint"
  ceUpdateEndpoint :: "string \<Rightarrow> EndpointWrite \<Rightarrow> 's \<Rightarrow> (go_error + CloudAPIEndpoint) \<times> 's"
  ceDeleteEndpoint :: "string \<Rightarrow> 's \<Rightarrow> go_error option \<times> 's"

abbreviation ceMeta :: "'s cloud_env \<Rightarrow> kube_meta" where
  "ceMeta env \<equiv> dkMeta (ceKube env)"

definition endpoint_write :: "(raw_json \<Rightarrow> string) \<Rightarrow> CloudSpec \<Rightarrow> string \<Rightarrow> EndpointWrite" where
  "endpoint_write text sp policy =
     \<lparr>wrURL = clURL sp, wrDescription = clDescription sp, wrMetadata = text (MetadataAPIString (clMetadata sp)),
      wrTrafficPolicy = policy, wrBindings = clBindings sp, wrPoolingEnabled = clPoolingEnabled sp\<rparr>"

definition endpointNeedsUpdate :: "(raw_json \<Rightarrow> string) \<Rightarrow> CloudAPIEndpoint \<Rightarrow> CloudSpec \<Rightarrow> string \<Rightarrow> bool" where
  "endpointNeedsUpdate text current sp policy =
     (if apURL current \<noteq> clURL sp then True
      else if apDescription current \<noteq> clDescription sp then True
      else if apMetadata current \<noteq> text (MetadataAPIString (clMetadata sp)) then True
      else if apTrafficPolicy current \<noteq> policy then True
      else if apBindings current \<noteq> clBindings sp then True
      else (case clPoolingEnabled sp of Some b \<Rightarrow> apPoolingEnabled current \<noteq> b | None \<Rightarrow> False))"

section \<open>Conditions\<close>

definition IsTrafficPolicyError :: "string \<Rightarrow> bool" where
  "IsTrafficPolicyError errMsg \<longleftrightarrow> contains_text ''policy'' errMsg \<or> contains_text ''ERR_NGROK_2201'' errMsg"

definition ConditionCloudEndpointReady :: string where "ConditionCloudEndpointReady = ''Ready''"
definition ConditionCloudEndpointCreated :: string where "ConditionCloudEndpointCreated = ''CloudEndpointCreated''"

definition set_clep_condition :: "kube_meta \<Rightarrow> string \<Rightarrow> bool \<Rightarrow> string \<Rightarrow> string \<Rightarrow> CloudEndpointObject \<Rightarrow> CloudEndpointObject" where
  "set_clep_condition km condType ok reason message ep =
     map_clep_status (cstConditions_update (Set_condition km (omGeneration (obMeta ep)) condType ok reason message)) ep"

definition setCloudEndpointReadyCondition :: "kube_meta \<Rightarrow> bool \<Rightarrow> string \<Rightarrow> string \<Rightarrow> CloudEndpointObject \<Rightarrow> CloudEndpointObject" where
  "setCloudEndpointReadyCondition km = set_clep_condition km ConditionCloudEndpointReady"

definition setCloudEndpointCreatedCondition :: "kube_meta \<Rightarrow> bool \<Rightarrow> string \<Rightarrow> string \<Rightarrow> CloudEndpointObject \<Rightarrow> CloudEndpointObject" where
  "setCloudEndpointCreatedCondition km = set_clep_condition km ConditionCloudEndpointCreated"

definition calculateCloudEndpointReadyCondition ::
  "kube_meta \<Rightarrow> DomainResult ptr \<Rightarrow> CloudEndpointObject \<Rightarrow> CloudEndpointObject" where
  "calculateCloudEndpointReadyCondition km domainResult ep =
     (let cs = cstConditions (clStatus (obBody ep));
          createdCondition = kmFindStatusCondition km cs ConditionCloudEndpointCreated;
          cloudEndpointCreated = (case createdCondition of Some c \<Rightarrow> cnStatus c = ''True'' | None \<Rightarrow> False);
          trafficPolicyCondition = kmFindStatusCondition km cs ConditionTrafficPolicy;
          trafficPolicyReady = (case trafficPolicyCondition of Some c \<Rightarrow> cnStatus c \<noteq> ''False'' | None \<Rightarrow> True);
          domainReady = (case domainResult of Some r \<Rightarrow> drIsReady r | None \<Rightarrow> False);
          ready = (cloudEndpointCreated \<and> trafficPolicyReady \<and> domainReady);
          (reason, message) =
            (if ready then (''CloudEndpointActive'', ''CloudEndpoint is active and ready'')
             else if \<not> domainReady then
               (case domainResult of
                  Some r \<Rightarrow> if drReadyReason r \<noteq> [] then (drReadyReason r, drReadyMessage r)
                    else (''DomainNotReady'', ''Domain is not ready'')
                | None \<Rightarrow> (''DomainNotReady'', ''Domain is not ready''))
             else if \<not> trafficPolicyReady then
               (case trafficPolicyCondition of Some c \<Rightarrow> (cnReason c, cnMessage c) | None \<Rightarrow> ([], []))
             else if \<not> cloudEndpointCreated then
               (case createdCondition of
                  Some c \<Rightarrow> if cnStatus c = ''False'' then (cnReason c, cnMessage c)
                    else (''Pending'', ''Waiting for CloudEndpoint to be ready'')
                | None \<Rightarrow> (''Pending'', ''Waiting for CloudEndpoint to be ready''))
             else (''Unknown'', ''CloudEndpoint is not ready''))
      in setCloudEndpointReadyCondition km ready reason message ep)"

section \<open>The callbacks\<close>

type_synonym 's cloud_result = "(go_error option \<times> CloudEndpointObject) \<times> 's"

definition cloud_ReconcileStatus :: "'s cloud_env \<Rightarrow> CloudEndpointObject \<Rightarrow> go_error option \<Rightarrow> 's \<Rightarrow> 's cloud_result" where
  "cloud_ReconcileStatus env ep err s = ReconcileStatus (ceRetry env) (ceStatus env) (Some set_clep_observed) ep err s"

definition cloud_updateStatus ::
  "'s cloud_env \<Rightarrow> CloudEndpointObject \<Rightarrow> CloudAPIEndpoint ptr \<Rightarrow> DomainResult ptr \<Rightarrow> go_error option \<Rightarrow> 's \<Rightarrow> 's cloud_result" where
  "cloud_updateStatus env ep ngrokClep domainResult statusErr s =
     (let ep1 = (case ngrokClep of Some a \<Rightarrow> map_clep_status (\<lambda>st. st\<lparr>cstID := apID a, cstAssignedURL := apURL a\<rparr>) ep | None \<Rightarrow> ep);
          ep2 = calculateCloudEndpointReadyCondition (ceMeta env) domainResult ep1
      in case cloud_ReconcileStatus env ep2 statusErr s of
           ((Some e, ep3), s') \<Rightarrow> ((Some e, ep3), s')
         | ((None, ep3), s') \<Rightarrow> (((case domainResult of Some r \<Rightarrow> RequeueError r | None \<Rightarrow> None), ep3), s'))"

definition recordWriteSuccess ::
  "'s cloud_env \<Rightarrow> CloudEndpointObject \<Rightarrow> CloudAPIEndpoint \<Rightarrow> DomainResult ptr \<Rightarrow> string \<Rightarrow> 's \<Rightarrow> 's cloud_result" where
  "recordWriteSuccess env ep a domainResult message s =
     cloud_updateStatus env
       (setCloudEndpointCreatedCondition (ceMeta env) True ''CloudEndpointCreated'' message (MarkApplied (ceMeta env) clep_policy ep))
       (Some a) domainResult None s"

definition recordWriteError ::
  "'s cloud_env \<Rightarrow> CloudEndpointObject \<Rightarrow> DomainResult ptr \<Rightarrow> string \<Rightarrow> go_error \<Rightarrow> string \<Rightarrow> 's \<Rightarrow> 's cloud_result" where
  "recordWriteError env ep domainResult policy err message s =
     (let text = error_text (dkErrorText (ceKube env)) err;
          ep1 = setCloudEndpointCreatedCondition (ceMeta env) False ''CloudEndpointCreationFailed'' message ep;
          ep2 = (if policy \<noteq> [] \<and> IsTrafficPolicyError text
                 then SetError (ceMeta env) clep_policy (SanitizeErrorMessage text) ep1 else ep1)
      in cloud_updateStatus env ep2 None domainResult (Some err) s)"

definition resolveTrafficPolicy :: "'s cloud_env \<Rightarrow> CloudEndpointObject \<Rightarrow> 's \<Rightarrow> (go_error + string) \<times> CloudEndpointObject" where
  "resolveTrafficPolicy env ep s =
     (case Resolve (ceMeta env) (dkErrorText (ceKube env)) (ceGetPolicy env) clep_policy (snd (normalizeLegacyTrafficPolicy True ep)) s of
        (Inl e, ep') \<Rightarrow> (Inl e, ep')
      | (Inr r, ep') \<Rightarrow> (Inr (ceText env (prPolicy r)), ep'))"

definition createWithPolicy ::
  "'s cloud_env \<Rightarrow> CloudEndpointObject \<Rightarrow> DomainResult ptr \<Rightarrow> string \<Rightarrow> 's \<Rightarrow> 's cloud_result" where
  "createWithPolicy env ep domainResult policy s =
     (case ceCreateEndpoint env (endpoint_write (ceText env) (clSpec (obBody ep)) policy) s of
        (Inl e, s') \<Rightarrow> recordWriteError env ep domainResult policy e
          (''Failed to create cloud endpoint: '' @ error_text (dkErrorText (ceKube env)) e) s'
      | (Inr a, s') \<Rightarrow> recordWriteSuccess env ep a domainResult ''CloudEndpoint created successfully'' s')"

definition cloud_create :: "'s cloud_env \<Rightarrow> (clep_body, 's) callback" where
  "cloud_create env ep s =
     (case EnsureDomainExists (ceKube env) (ceManager env) clep_domain ep s of
        (((domainResult, Some e), ep1), s1) \<Rightarrow> cloud_updateStatus env ep1 None domainResult (Some e) s1
      | (((domainResult, None), ep1), s1) \<Rightarrow>
          (case resolveTrafficPolicy env ep1 s1 of
             (Inl e, ep2) \<Rightarrow> cloud_updateStatus env ep2 None domainResult (Some e) s1
           | (Inr policy, ep2) \<Rightarrow> createWithPolicy env ep2 domainResult policy s1))"

definition update_endpoint ::
  "'s cloud_env \<Rightarrow> CloudEndpointObject \<Rightarrow> DomainResult ptr \<Rightarrow> string \<Rightarrow> 's \<Rightarrow> 's cloud_result" where
  "update_endpoint env ep domainResult policy s =
     (case ceGetEndpoint env (cstID (clStatus (obBody ep))) s of
        Inl e \<Rightarrow>
          if neIsNotFound (ceErrors env) e then
            (case cloud_ReconcileStatus env (map_clep_status (\<lambda>st. st\<lparr>cstID := [], cstAssignedURL := []\<rparr>) ep) None s of
               ((Some e', ep'), s') \<Rightarrow> ((Some e', ep'), s')
             | ((None, ep'), s') \<Rightarrow> createWithPolicy env (snd (normalizeLegacyTrafficPolicy False ep')) domainResult policy s')
          else cloud_updateStatus env ep None domainResult (Some e) s
      | Inr current \<Rightarrow>
          if \<not> endpointNeedsUpdate (ceText env) current (clSpec (obBody ep)) policy
          then recordWriteSuccess env ep current domainResult ''CloudEndpoint updated successfully'' s
          else
            (case ceUpdateEndpoint env (cstID (clStatus (obBody ep))) (endpoint_write (ceText env) (clSpec (obBody ep)) policy) s of
               (Inl e, s') \<Rightarrow> recordWriteError env ep domainResult policy e
                 (''Failed to update cloud endpoint: '' @ error_text (dkErrorText (ceKube env)) e) s'
             | (Inr a, s') \<Rightarrow> recordWriteSuccess env ep a domainResult ''CloudEndpoint updated successfully'' s'))"

definition cloud_update :: "'s cloud_env \<Rightarrow> (clep_body, 's) callback" where
  "cloud_update env ep s =
     (case EnsureDomainExists (ceKube env) (ceManager env) clep_domain ep s of
        (((domainResult, Some e), ep1), s1) \<Rightarrow> cloud_updateStatus env ep1 None domainResult (Some e) s1
      | (((domainResult, None), ep1), s1) \<Rightarrow>
          (case resolveTrafficPolicy env ep1 s1 of
             (Inl e, ep2) \<Rightarrow> cloud_updateStatus env ep2 None domainResult (Some e) s1
           | (Inr policy, ep2) \<Rightarrow> update_endpoint env ep2 domainResult policy s1))"

definition cloud_delete :: "'s cloud_env \<Rightarrow> (clep_body, 's) callback" where
  "cloud_delete env ep s = (case ceDeleteEndpoint env (cstID (clStatus (obBody ep))) s of (err, s') \<Rightarrow> ((err, ep), s'))"

definition cloud_ErrResult :: "'s cloud_env \<Rightarrow> BaseControllerOp \<Rightarrow> CloudEndpointObject \<Rightarrow> go_error \<Rightarrow> ctrl_result \<times> go_error option" where
  "cloud_ErrResult env op ep err =
     (if neIsErrorCode (ceErrors env) err [18016, 18017] then (no_result, Some err)
      else if errors_Is ErrDomainNotReady err then (\<lparr>RequeueAfter = 10\<rparr>, None)
      else if errors_Is ErrInvalidConfig err \<or> errors_Is ErrInvalidPolicyJSON err then (no_result, None)
      else if errors_Is ErrTrafficPolicyNotFound err then (no_result, None)
      else CtrlResultForErr (ceErrors env) err)"

definition cloud_base_controller :: "'s cloud_env \<Rightarrow> (clep_body, 's) BaseController" where
  "cloud_base_controller env =
     \<lparr>bcGet = ceGet env, bcPatch = cePatch env, bcDrainState = ceDrainState env,
      bcStatusID = Some (\<lambda>ep. cstID (clStatus (obBody ep))), bcCreate = Some (cloud_create env), bcUpdate = Some (cloud_update env),
      bcDelete = Some (cloud_delete env), bcErrResult = Some (cloud_ErrResult env)\<rparr>"

definition cloud_reconcile :: "'s cloud_env \<Rightarrow> NamespacedName \<Rightarrow> 's \<Rightarrow> reconcile_result \<times> 's" where
  "cloud_reconcile env req s = Reconcile (ceMeta env) (ceErrors env) (cloud_base_controller env) req s"

text \<open>The watches: which endpoints to reconcile when a policy or a Domain changes.\<close>

definition findCloudEndpointForTrafficPolicy :: "CloudEndpointObject list \<Rightarrow> NamespacedName \<Rightarrow> NamespacedName list" where
  "findCloudEndpointForTrafficPolicy stored tp =
     map object_key (filter (\<lambda>ep. nn_String tp \<in> set (indexCloudEndpointTrafficPolicyRefs ep)) stored)"

definition findCloudEndpointsForDomain :: "CloudEndpointObject list \<Rightarrow> NamespacedName \<Rightarrow> NamespacedName list" where
  "findCloudEndpointsForDomain stored domain =
     map object_key (filter (\<lambda>ep. ref_Matches (cstDomainRef (clStatus (obBody ep))) domain)
       (filter (\<lambda>ep. omNamespace (obMeta ep) = nnNamespace domain) stored))"

section \<open>The accessors as interfaces\<close>

lemma map_clep_status_simps [simp]:
  "obMeta (map_clep_status f ep) = obMeta ep" "clSpec (obBody (map_clep_status f ep)) = clSpec (obBody ep)"
  "clStatus (obBody (map_clep_status f ep)) = f (clStatus (obBody ep))"
  by (simp_all add: map_clep_status_def)

interpretation clep_access: endpoint_access clep_domain
  by unfold_locales (simp_all add: clep_domain_def)

interpretation clep_policies: policy_access clep_policy
  by unfold_locales (simp_all add: clep_policy_def)

lemma normalize_spec_simps [simp]:
  "clURL (normalize_spec sp) = clURL sp" "clDescription (normalize_spec sp) = clDescription sp"
  "clMetadata (normalize_spec sp) = clMetadata sp" "clBindings (normalize_spec sp) = clBindings sp"
  "clPoolingEnabled (normalize_spec sp) = clPoolingEnabled sp" "clTrafficPolicyName (normalize_spec sp) = clTrafficPolicyName sp"
  by (simp_all add: normalize_spec_def)

lemma endpoint_write_normalize [simp]: "endpoint_write text (normalize_spec sp) policy = endpoint_write text sp policy"
  by (simp add: endpoint_write_def)

lemma normalize_twice [simp]: "normalize_spec (normalize_spec sp) = normalize_spec sp"
  by (simp add: normalize_spec_def hasEffectivePolicy_def)

lemma normalized [simp]:
  "snd (normalizeLegacyTrafficPolicy emit ep) = ep\<lparr>obBody := (obBody ep)\<lparr>clSpec := normalize_spec (clSpec (obBody ep))\<rparr>\<rparr>"
  by (simp add: normalizeLegacyTrafficPolicy_def Let_def)

text \<open>The policy configuration that the controller acts on.\<close>

definition effective_cfg :: "CloudSpec \<Rightarrow> TrafficPolicySource ptr" where
  "effective_cfg sp = clep_ToTrafficPolicyCfg (clTrafficPolicy (normalize_spec sp))"

lemma effective_normalize [simp]: "effective_cfg (normalize_spec sp) = effective_cfg sp"
  by (simp add: effective_cfg_def)

lemma no_effective_policy: "\<not> hasEffectivePolicy cfg \<Longrightarrow> clep_ToTrafficPolicyCfg cfg = None"
  by (cases cfg) (simp_all add: hasEffectivePolicy_def clep_ToTrafficPolicyCfg_def Let_def)

lemma index_effective:
  "indexCloudEndpointTrafficPolicyRefs ep =
     (case effective_cfg (clSpec (obBody ep)) of
        Some c \<Rightarrow> (case tsReference c of Some name \<Rightarrow> [omNamespace (obMeta ep) @ ''/'' @ name] | None \<Rightarrow> [])
      | None \<Rightarrow> [])"
proof (cases "hasEffectivePolicy (clTrafficPolicy (clSpec (obBody ep)))")
  case True
  then have "normalize_spec (clSpec (obBody ep)) = clSpec (obBody ep)" by (simp add: normalize_spec_def)
  with True show ?thesis
    by (simp add: indexCloudEndpointTrafficPolicyRefs_def effective_cfg_def IndexKey_def clep_policy_def nn_String_def Let_def
        split: option.split)
next
  case False
  then show ?thesis
    by (simp add: indexCloudEndpointTrafficPolicyRefs_def effective_cfg_def normalize_spec_def no_effective_policy Let_def)
      (simp add: clep_ToTrafficPolicyCfg_def)
qed

text \<open>
  \<^bold>\<open>C17\<close>. The index of policies is complete. What an endpoint's policy resolves to, legacy fields
  included, depends only on the policies whose change the watch maps to this endpoint.
\<close>

theorem policy_index_complete:
  assumes "\<And>key. object_key ep \<in> set (findCloudEndpointForTrafficPolicy [ep] key) \<Longrightarrow> ceGetPolicy env key s = getPolicy key s"
  shows "resolveTrafficPolicy env ep s = resolveTrafficPolicy (env\<lparr>ceGetPolicy := getPolicy\<rparr>) ep s"
proof -
  let ?sp = "clSpec (obBody ep)" and ?key = "\<lambda>name. \<lparr>nnName = name, nnNamespace = omNamespace (obMeta ep)\<rparr>"
  have ix: "nn_String key \<in> set (indexCloudEndpointTrafficPolicyRefs ep) \<Longrightarrow> ceGetPolicy env key s = getPolicy key s" for key
    using assms [of key] by (simp add: findCloudEndpointForTrafficPolicy_def)
  have "Resolve km ng (ceGetPolicy env) clep_policy (snd (normalizeLegacyTrafficPolicy True ep)) s =
      Resolve km ng getPolicy clep_policy (snd (normalizeLegacyTrafficPolicy True ep)) s" for km ng
  proof (rule Resolve_cong)
    fix c name
    assume "etpCfg clep_policy (obBody (snd (normalizeLegacyTrafficPolicy True ep))) = Some c" "tsReference c = Some name"
    then have "nn_String (?key name) \<in> set (indexCloudEndpointTrafficPolicyRefs ep)"
      by (simp add: index_effective clep_policy_def effective_cfg_def nn_String_def)
    from ix [OF this] show "ceGetPolicy env \<lparr>nnName = name, nnNamespace = omNamespace (obMeta (snd (normalizeLegacyTrafficPolicy True ep)))\<rparr> s =
        getPolicy \<lparr>nnName = name, nnNamespace = omNamespace (obMeta (snd (normalizeLegacyTrafficPolicy True ep)))\<rparr> s" by simp
  qed
  then show ?thesis by (simp add: resolveTrafficPolicy_def split: prod.split sum.split)
qed

section \<open>What creating and updating achieve\<close>

text \<open>
  The service: the endpoints of the account by ID. \<open>made_by\<close> is what the API makes of a request, of
  which only this is assumed: an endpoint that has every requested value is what it makes of the
  request. The operations on Kubernetes leave the account alone, those on Domains the policies too, and the spec
  that the server returns with a status is the one whose normal form the controller works on.
\<close>

definition already_made :: "EndpointWrite \<Rightarrow> CloudAPIEndpoint \<Rightarrow> bool" where
  "already_made req a \<longleftrightarrow> apURL a = wrURL req \<and> apDescription a = wrDescription req \<and> apMetadata a = wrMetadata req \<and>
     apTrafficPolicy a = wrTrafficPolicy req \<and> apBindings a = wrBindings req \<and>
     (case wrPoolingEnabled req of Some b \<Rightarrow> apPoolingEnabled a = b | None \<Rightarrow> True)"

lemma needs_no_update: "\<not> endpointNeedsUpdate text a sp policy \<longleftrightarrow> already_made (endpoint_write text sp policy) a"
  by (auto simp: endpointNeedsUpdate_def already_made_def endpoint_write_def split: option.split)

definition clep_condition_true :: "kube_meta \<Rightarrow> string \<Rightarrow> CloudEndpointObject \<Rightarrow> bool" where
  "clep_condition_true km condType ep \<longleftrightarrow>
     (\<exists>c. kmFindStatusCondition km (cstConditions (clStatus (obBody ep))) condType = Some c \<and> cnStatus c = ''True'')"

definition clep_ready :: "kube_meta \<Rightarrow> int \<Rightarrow> CloudEndpointObject \<Rightarrow> bool" where
  "clep_ready km generation ep \<longleftrightarrow>
     (\<exists>c. kmFindStatusCondition km (cstConditions (clStatus (obBody ep))) ConditionCloudEndpointReady = Some c \<and>
        cnStatus c = ''True'' \<and> cnObservedGeneration c = generation)"

lemma calculate_simps [simp]:
  "clSpec (obBody (calculateCloudEndpointReadyCondition km r ep)) = clSpec (obBody ep)"
  "cstID (clStatus (obBody (calculateCloudEndpointReadyCondition km r ep))) = cstID (clStatus (obBody ep))"
  "cstAssignedURL (clStatus (obBody (calculateCloudEndpointReadyCondition km r ep))) = cstAssignedURL (clStatus (obBody ep))"
  "obMeta (calculateCloudEndpointReadyCondition km r ep) = obMeta ep"
  by (simp_all add: calculateCloudEndpointReadyCondition_def setCloudEndpointReadyCondition_def set_clep_condition_def Let_def
      split: prod.split)

context object_meta begin

lemma calculate_ready:
  "clep_ready km (omGeneration (obMeta ep)) (calculateCloudEndpointReadyCondition km (Some r) ep) \<longleftrightarrow>
     clep_condition_true km ConditionCloudEndpointCreated ep \<and> no_policy_error km clep_policy ep \<and> drIsReady r"
  by (simp add: calculateCloudEndpointReadyCondition_def setCloudEndpointReadyCondition_def set_clep_condition_def clep_ready_def
      no_policy_error_def clep_condition_true_def clep_policy_def Let_def split: prod.split option.split)

end

text \<open>
  The outcome of a callback: exactly one endpoint of the account may have changed, the one whose ID
  the status has; it is what the API makes of the request, and the resource is ready.
\<close>

definition cloud_settled ::
  "kube_meta \<Rightarrow> ('s \<Rightarrow> string \<Rightarrow> CloudAPIEndpoint option) \<Rightarrow> (EndpointWrite \<Rightarrow> CloudAPIEndpoint \<Rightarrow> bool) \<Rightarrow>
   int \<Rightarrow> EndpointWrite \<Rightarrow> 's \<Rightarrow> CloudEndpointObject \<Rightarrow> 's \<Rightarrow> bool" where
  "cloud_settled km endpoints made_by generation req s ep' s' \<longleftrightarrow>
     (\<exists>a. endpoints s' = (endpoints s)(apID a \<mapsto> a) \<and> made_by req a \<and> cstID (clStatus (obBody ep')) = apID a \<and>
        cstAssignedURL (clStatus (obBody ep')) = apURL a \<and> clep_ready km generation ep')"

locale cloud_service =
  meta: object_meta "ceMeta env" + writer: status_writer "ceRetry env" "ceStatus env" clStatus endpoints +
  frame: domain_frame "ceKube env" "\<lambda>s. (endpoints s, \<lambda>key. ceGetPolicy env key s)"
  for env :: "'s cloud_env" and endpoints :: "'s \<Rightarrow> string \<Rightarrow> CloudAPIEndpoint option" +
  fixes made_by :: "EndpointWrite \<Rightarrow> CloudAPIEndpoint \<Rightarrow> bool"
  assumes made: "already_made req a \<Longrightarrow> made_by req a"
    and created: "ceCreateEndpoint env req s = (Inr a, s') \<Longrightarrow> made_by req a \<and> endpoints s' = (endpoints s)(apID a \<mapsto> a)"
    and got: "ceGetEndpoint env i s = Inr a \<Longrightarrow> endpoints s i = Some a \<and> apID a = i"
    and updated: "ceUpdateEndpoint env i req s = (Inr a, s') \<Longrightarrow> made_by req a \<and> apID a = i \<and> endpoints s' = (endpoints s)(i \<mapsto> a)"
    and stored_spec: "scStatusUpdate (ceStatus env) ob s = (Inr ob', s') \<Longrightarrow>
      normalize_spec (clSpec (obBody ob')) = normalize_spec (clSpec (obBody ob)) \<and> obMeta ob' = obMeta ob"
    and version_meta: "scLatestVersion (ceStatus env) ob s = Inr f \<Longrightarrow> obMeta (f ob') = obMeta ob'"
begin

lemma updateStatus_error: "cloud_updateStatus env ep a r (Some e) s = ((err, ep'), s') \<Longrightarrow> err \<noteq> None"
  by (auto simp: cloud_updateStatus_def cloud_ReconcileStatus_def Let_def split: prod.splits option.splits
      dest: writer.ReconcileStatus_spec(3))

lemma updateStatus_ok:
  assumes run: "cloud_updateStatus env ep (Some a) (Some r) None s = ((None, ep'), s')"
    and policy: "no_policy_error (ceMeta env) clep_policy ep"
    and created: "clep_condition_true (ceMeta env) ConditionCloudEndpointCreated ep"
  shows "endpoints s' = endpoints s" "cstID (clStatus (obBody ep')) = apID a" "cstAssignedURL (clStatus (obBody ep')) = apURL a"
    "clep_ready (ceMeta env) (omGeneration (obMeta ep)) ep'"
proof -
  let ?ep = "calculateCloudEndpointReadyCondition (ceMeta env) (Some r)
    (map_clep_status (\<lambda>st. st\<lparr>cstID := apID a, cstAssignedURL := apURL a\<rparr>) ep)"
  obtain err ep3 s3 where w: "cloud_ReconcileStatus env ?ep None s = ((err, ep3), s3)" by (metis surj_pair)
  have fin: "err = None" "ep' = ep3" "s' = s3" "drIsReady r"
    using run w by (auto simp: cloud_updateStatus_def RequeueError_def split: option.splits if_splits)
  note sp = writer.ReconcileStatus_spec [OF w [unfolded cloud_ReconcileStatus_def]]
  show "endpoints s' = endpoints s" using sp(1) fin by simp
  have st: "clStatus (obBody ep') = (clStatus (obBody ?ep))\<lparr>cstObservedGeneration := omGeneration (obMeta ?ep)\<rparr>"
    using sp(2) fin by (simp add: set_clep_observed_def)
  then show "cstID (clStatus (obBody ep')) = apID a" "cstAssignedURL (clStatus (obBody ep')) = apURL a" by simp_all
  show "clep_ready (ceMeta env) (omGeneration (obMeta ep)) ep'"
    using meta.calculate_ready [of "map_clep_status (\<lambda>st. st\<lparr>cstID := apID a, cstAssignedURL := apURL a\<rparr>) ep" r] policy created fin(4) st
    by (simp add: clep_ready_def no_policy_error_def clep_condition_true_def clep_policy_def)
qed

lemma MarkApplied_ok:
  assumes "no_policy_error (ceMeta env) clep_policy ep"
  shows "no_policy_error (ceMeta env) clep_policy (setCloudEndpointCreatedCondition (ceMeta env) True reason msg (MarkApplied (ceMeta env) clep_policy ep))"
    "clep_condition_true (ceMeta env) ConditionCloudEndpointCreated
      (setCloudEndpointCreatedCondition (ceMeta env) True reason msg (MarkApplied (ceMeta env) clep_policy ep))"
  using assms
  by (auto simp: MarkApplied_def setCloudEndpointCreatedCondition_def set_clep_condition_def no_policy_error_def clep_condition_true_def
      policy_setCondition_def put_conditions_def clep_policy_def ConditionCloudEndpointCreated_def ConditionTrafficPolicy_def)

lemma MarkApplied_meta: "obMeta (setCloudEndpointCreatedCondition km' ok reason msg (MarkApplied km' clep_policy ep)) = obMeta ep"
  by (simp add: MarkApplied_def setCloudEndpointCreatedCondition_def set_clep_condition_def policy_setCondition_def put_conditions_def)

lemma recordWriteSuccess_ok:
  assumes run: "recordWriteSuccess env ep a (Some r) msg s1 = ((None, ep'), s')" and policy: "no_policy_error (ceMeta env) clep_policy ep"
    and view: "endpoints s1 = (endpoints s)(apID a \<mapsto> a)" and req: "made_by req a"
  shows "cloud_settled (ceMeta env) endpoints made_by (omGeneration (obMeta ep)) req s ep' s'"
  using updateStatus_ok [OF run [unfolded recordWriteSuccess_def] MarkApplied_ok [OF policy]] view req
  by (auto simp: cloud_settled_def MarkApplied_meta)

lemma recordWriteError_error: "recordWriteError env ep r policy e msg s = ((err, ep'), s') \<Longrightarrow> err \<noteq> None"
  using updateStatus_error by (auto simp: recordWriteError_def Let_def)

lemma createWithPolicy_ok:
  assumes run: "createWithPolicy env ep (Some r) policy s = ((None, ep'), s')" and ok: "no_policy_error (ceMeta env) clep_policy ep"
  shows "cloud_settled (ceMeta env) endpoints made_by (omGeneration (obMeta ep)) (endpoint_write (ceText env) (clSpec (obBody ep)) policy) s ep' s'"
proof (cases "ceCreateEndpoint env (endpoint_write (ceText env) (clSpec (obBody ep)) policy) s")
  case (Pair res s1)
  then obtain a where a: "res = Inr a"
    using run by (auto simp: createWithPolicy_def split: sum.splits dest!: recordWriteError_error)
  then have "recordWriteSuccess env ep a (Some r) ''CloudEndpoint created successfully'' s1 = ((None, ep'), s')"
    using run Pair by (simp add: createWithPolicy_def)
  from recordWriteSuccess_ok [OF this ok] created [OF Pair [unfolded a]] show ?thesis by blast
qed

lemma ReconcileStatus_spec_kept:
  assumes "cloud_ReconcileStatus env ep None s = ((None, ep'), s')"
  shows "normalize_spec (clSpec (obBody ep')) = normalize_spec (clSpec (obBody ep))" "obMeta ep' = obMeta ep"
    "cstConditions (clStatus (obBody ep')) = cstConditions (clStatus (obBody ep))" "endpoints s' = endpoints s"
proof -
  let ?ep = "set_clep_observed (omGeneration (obMeta ep)) ep"
  let ?I = "\<lambda>x. normalize_spec (clSpec (obBody (fst x))) = normalize_spec (clSpec (obBody ep)) \<and> obMeta (fst x) = obMeta ep"
  have "attempts (status_attempt (ceStatus env)) (?ep, s) (None, ep', s')"
    using assms writer.retrying unfolding retries_def cloud_ReconcileStatus_def ReconcileStatus_def
    by (simp split: prod.splits option.splits) metis
  moreover have "?I (snd (status_attempt (ceStatus env) x))" if "?I x" for x
    using that stored_spec writer.version_only version_meta
    by (auto simp: status_attempt_def split: prod.splits option.splits sum.splits)
  moreover have "?I (?ep, s)" by (simp add: set_clep_observed_def)
  ultimately have "?I (ep', s')" using attempts_invariant [of _ _ "(None, ep', s')" ?I] by simp
  then show "normalize_spec (clSpec (obBody ep')) = normalize_spec (clSpec (obBody ep))" "obMeta ep' = obMeta ep" by simp_all
  show "cstConditions (clStatus (obBody ep')) = cstConditions (clStatus (obBody ep))" "endpoints s' = endpoints s"
    using writer.ReconcileStatus_spec(1,2) [OF assms [unfolded cloud_ReconcileStatus_def]] by (simp_all add: set_clep_observed_def)
qed

lemma update_endpoint_ok:
  assumes run: "update_endpoint env ep (Some r) policy s = ((None, ep'), s')" and ok: "no_policy_error (ceMeta env) clep_policy ep"
  shows "cloud_settled (ceMeta env) endpoints made_by (omGeneration (obMeta ep)) (endpoint_write (ceText env) (clSpec (obBody ep)) policy) s ep' s'"
proof (cases "ceGetEndpoint env (cstID (clStatus (obBody ep))) s")
  case (Inl e)
  let ?ep = "map_clep_status (\<lambda>st. st\<lparr>cstID := [], cstAssignedURL := []\<rparr>) ep"
  obtain ep1 s1 where w: "cloud_ReconcileStatus env ?ep None s = ((None, ep1), s1)"
    and cr: "createWithPolicy env (snd (normalizeLegacyTrafficPolicy False ep1)) (Some r) policy s1 = ((None, ep'), s')"
    using run Inl by (auto simp: update_endpoint_def split: if_splits prod.splits option.splits dest!: updateStatus_error)
  note kept = ReconcileStatus_spec_kept [OF w]
  have "no_policy_error (ceMeta env) clep_policy (snd (normalizeLegacyTrafficPolicy False ep1))"
    using ok kept(3) by (simp add: no_policy_error_def clep_policy_def)
  from createWithPolicy_ok [OF cr this] kept(1,2,4)
  show ?thesis by (simp add: cloud_settled_def)
next
  case (Inr a)
  note g = got [OF Inr]
  let ?req = "endpoint_write (ceText env) (clSpec (obBody ep)) policy"
  show ?thesis
  proof (cases "endpointNeedsUpdate (ceText env) a (clSpec (obBody ep)) policy")
    case False
    then have rs: "recordWriteSuccess env ep a (Some r) ''CloudEndpoint updated successfully'' s = ((None, ep'), s')"
      using run Inr by (simp add: update_endpoint_def)
    show ?thesis
      by (rule recordWriteSuccess_ok [OF rs ok]) (use g False made needs_no_update in \<open>auto simp: fun_upd_idem\<close>)
  next
    case True
    obtain res s1 where up: "ceUpdateEndpoint env (cstID (clStatus (obBody ep))) ?req s = (res, s1)" by fastforce
    then obtain a' where a': "res = Inr a'"
      using run Inr True by (auto simp: update_endpoint_def split: sum.splits dest!: recordWriteError_error)
    then have rs: "recordWriteSuccess env ep a' (Some r) ''CloudEndpoint updated successfully'' s1 = ((None, ep'), s')"
      using run Inr True up by (simp add: update_endpoint_def)
    from updated [OF up [unfolded a']] show ?thesis by (intro recordWriteSuccess_ok [OF rs ok]) auto
  qed
qed

lemma resolve_ok:
  assumes "resolveTrafficPolicy env ep s = (Inr ptext, ep')"
  shows "no_policy_error (ceMeta env) clep_policy ep'" "clSpec (obBody ep') = normalize_spec (clSpec (obBody ep))" "obMeta ep' = obMeta ep"
    "\<exists>policy. policy_of (ceGetPolicy env) (omNamespace (obMeta ep)) (effective_cfg (clSpec (obBody ep))) s = Some policy \<and> ptext = ceText env policy"
proof -
  let ?ep = "snd (normalizeLegacyTrafficPolicy True ep)"
  obtain res where r: "Resolve (ceMeta env) (dkErrorText (ceKube env)) (ceGetPolicy env) clep_policy ?ep s = (Inr res, ep')"
    and ptext: "ptext = ceText env (prPolicy res)"
    using assms by (auto simp: resolveTrafficPolicy_def split: prod.splits sum.splits)
  show "no_policy_error (ceMeta env) clep_policy ep'"
    by (rule Resolve_no_error [OF meta.object_meta_axioms clep_policies.policy_access_axioms r])
  have "clSpec (etpPutConditions clep_policy cs b) = clSpec b" for cs b by (simp add: clep_policy_def)
  from Resolve_keeps [of clSpec, OF this r]
  show "clSpec (obBody ep') = normalize_spec (clSpec (obBody ep))" "obMeta ep' = obMeta ep" by simp_all
  show "\<exists>policy. policy_of (ceGetPolicy env) (omNamespace (obMeta ep)) (effective_cfg (clSpec (obBody ep))) s = Some policy \<and> ptext = ceText env policy"
    using Resolve_policy [OF r] ptext by (auto simp: clep_policy_def effective_cfg_def)
qed

lemma callback_ok:
  assumes run: "f ep s = ((None, ep'), s')" and f: "f = cloud_create env \<or> f = cloud_update env"
  shows "\<exists>policy. policy_of (ceGetPolicy env) (omNamespace (obMeta ep)) (effective_cfg (clSpec (obBody ep))) s = Some policy \<and>
    cloud_settled (ceMeta env) endpoints made_by (omGeneration (obMeta ep)) (endpoint_write (ceText env) (clSpec (obBody ep)) (ceText env policy)) s ep' s'"
proof -
  obtain res err ep1 s1 where ens: "EnsureDomainExists (ceKube env) (ceManager env) clep_domain ep s = (((res, err), ep1), s1)"
    by (metis surj_pair)
  have err: "err = None"
    using run f ens by (cases err) (auto simp: cloud_create_def cloud_update_def dest!: updateStatus_error)
  then obtain r where r: "res = Some r" using EnsureDomainExists_result [OF ens [unfolded err]] by blast
  have "clSpec (ewPutConditions clep_domain cs b) = clSpec b" "clSpec (ewPutDomainRef clep_domain ref b) = clSpec b" for cs ref b
    by (simp_all add: clep_domain_def)
  from EnsureDomainExists_keeps [of _ _ _ _ _ _ _ _ clSpec, OF ens this]
  have ep1: "clSpec (obBody ep1) = clSpec (obBody ep)" "obMeta ep1 = obMeta ep" by simp_all
  have view: "endpoints s1 = endpoints s" "ceGetPolicy env key s1 = ceGetPolicy env key s" for key
    using frame.EnsureDomainExists_view [OF ens] by (auto dest: fun_cong)
  obtain res2 ep2 where rp: "resolveTrafficPolicy env ep1 s1 = (res2, ep2)" by fastforce
  then obtain ptext where ptext: "res2 = Inr ptext"
    using run f ens err by (cases res2) (auto simp: cloud_create_def cloud_update_def dest!: updateStatus_error)
  note res = resolve_ok [OF rp [unfolded ptext], unfolded ep1]
  have "createWithPolicy env ep2 (Some r) ptext s1 = ((None, ep'), s') \<or> update_endpoint env ep2 (Some r) ptext s1 = ((None, ep'), s')"
    using run f ens err r rp ptext by (auto simp: cloud_create_def cloud_update_def)
  then have "cloud_settled (ceMeta env) endpoints made_by (omGeneration (obMeta ep2)) (endpoint_write (ceText env) (clSpec (obBody ep2)) ptext) s1 ep' s'"
    using createWithPolicy_ok [OF _ res(1)] update_endpoint_ok [OF _ res(1)] by blast
  moreover have "policy_of (ceGetPolicy env) ns cfg s1 = policy_of (ceGetPolicy env) ns cfg s" for ns cfg
    by (simp add: policy_of_def view split: option.split)
  ultimately show ?thesis using res(2-4) view(1) by (auto simp: cloud_settled_def)
qed

end

text \<open>
  \<^bold>\<open>C4\<close>. A cloud endpoint converges. If creating or updating a CloudEndpoint ends without an error, its
  policy could be resolved from the spec as it was, and the account has an endpoint that is what the
  API makes of this spec and this policy. The status has the ID and the URL of that endpoint, the
  condition \<open>Ready\<close> is true for the current generation, and no other endpoint of the account has
  changed; this includes an endpoint that was deleted behind the operator's back.
\<close>

theorem cloud_endpoint_converges:
  assumes "cloud_service env endpoints made_by" "f = cloud_create env \<or> f = cloud_update env" "f ep s = ((None, ep'), s')"
  shows "\<exists>policy. policy_of (ceGetPolicy env) (omNamespace (obMeta ep)) (effective_cfg (clSpec (obBody ep))) s = Some policy \<and>
    cloud_settled (ceMeta env) endpoints made_by (omGeneration (obMeta ep))
      (endpoint_write (ceText env) (clSpec (obBody ep)) (ceText env policy)) s ep' s'"
  by (rule cloud_service.callback_ok [OF assms(1,3,2)])

section \<open>A reference account\<close>

record cloud_world =
  cwDomains :: "(NamespacedName \<times> Domain) list"
  cwPolicies :: "(NamespacedName \<times> raw_json) list"
  cwStored :: "(NamespacedName \<times> CloudEndpointObject) list"
  cwEndpoints :: "(string \<times> CloudAPIEndpoint) list"

definition cloud_kube :: "(string \<Rightarrow> string + go_url) \<Rightarrow> cloud_world domain_kube" where
  "cloud_kube parse =
     (let k = list_domain_kube parse; put = (\<lambda>w (r, ds). (r, w\<lparr>cwDomains := ds\<rparr>))
      in \<lparr>dkMeta = list_meta, dkGet = (\<lambda>key w. dkGet k key (cwDomains w)), dkCreate = (\<lambda>d w. put w (dkCreate k d (cwDomains w))),
         dkUpdate = (\<lambda>d w. put w (dkUpdate k d (cwDomains w))), dkDelete = (\<lambda>key w. (None, w\<lparr>cwDomains := AList.delete key (cwDomains w)\<rparr>)),
         dkRetry = retry_steps 4, dkParse = parse, dkQuote = (\<lambda>s. s), dkErrorText = (\<lambda>e. [])\<rparr>)"

definition made_endpoint :: "string \<Rightarrow> EndpointWrite \<Rightarrow> CloudAPIEndpoint" where
  "made_endpoint i req =
     \<lparr>apID = i, apURL = wrURL req, apDescription = wrDescription req, apMetadata = wrMetadata req, apTrafficPolicy = wrTrafficPolicy req,
      apBindings = wrBindings req, apPoolingEnabled = (case wrPoolingEnabled req of Some b \<Rightarrow> b | None \<Rightarrow> False)\<rparr>"

definition put_endpoint :: "CloudAPIEndpoint \<Rightarrow> cloud_world \<Rightarrow> (go_error + CloudAPIEndpoint) \<times> cloud_world" where
  "put_endpoint a w = (Inr a, w\<lparr>cwEndpoints := AList.update (apID a) a (cwEndpoints w)\<rparr>)"

definition ref_cloud_env :: "(string \<Rightarrow> string + go_url) \<Rightarrow> cloud_world cloud_env" where
  "ref_cloud_env parse =
     \<lparr>ceKube = cloud_kube parse, ceManager = \<lparr>mgReclaimPolicy = None, mgControllerLabels = None\<rparr>,
      ceErrors = \<lparr>neIsNotFound = (\<lambda>e. e = PlainError ''404''), neIsErrorCode = (\<lambda>e codes. False)\<rparr>,
      ceText = (\<lambda>raw. case raw of RawEmpty \<Rightarrow> [] | RawInvalid t \<Rightarrow> t | RawDoc j \<Rightarrow> ''document''),
      ceGetPolicy = (\<lambda>key w. case map_of (cwPolicies w) key of Some p \<Rightarrow> Inr p | None \<Rightarrow> Inl (KubeError KubeNotFound ''not found'')),
      ceRetry = retry_steps 4,
      ceStatus = \<lparr>scStatusUpdate = (\<lambda>ep w. (Inr ep, w\<lparr>cwStored := AList.update (object_key ep) ep (cwStored w)\<rparr>)),
        scLatestVersion = (\<lambda>ep w. Inr (\<lambda>x. x))\<rparr>,
      ceGet = (\<lambda>key w. case map_of (cwStored w) key of Some ep \<Rightarrow> Inr ep | None \<Rightarrow> Inl (KubeError KubeNotFound ''not found'')),
      cePatch = (\<lambda>old new w. ((None, new), w\<lparr>cwStored := AList.update (object_key new) new (cwStored w)\<rparr>)), ceDrainState = None,
      ceCreateEndpoint = (\<lambda>req w. put_endpoint (made_endpoint (''ep_'' @ concat (map fst (cwEndpoints w))) req) w),
      ceGetEndpoint = (\<lambda>i w. case map_of (cwEndpoints w) i of Some a \<Rightarrow> if apID a = i then Inr a else Inl (PlainError ''broken'')
        | None \<Rightarrow> Inl (PlainError ''404'')),
      ceUpdateEndpoint = (\<lambda>i req w. put_endpoint (made_endpoint i req) w),
      ceDeleteEndpoint = (\<lambda>i w. (None, w\<lparr>cwEndpoints := AList.delete i (cwEndpoints w)\<rparr>))\<rparr>"

lemma already_made_endpoint [simp]: "already_made req (made_endpoint i req)"
  by (simp add: already_made_def made_endpoint_def split: option.split)

lemma made_endpoint_id [simp]: "apID (made_endpoint i req) = i"
  by (simp add: made_endpoint_def)

interpretation clep_domains: domain_managing "list_domain_kube parse" map_of clep_domain for parse
  by (intro domain_managing.intro list_domains.domain_objects_axioms clep_access.endpoint_access_axioms)

abbreviation account :: "cloud_world \<Rightarrow> string \<Rightarrow> CloudAPIEndpoint option" where
  "account w \<equiv> map_of (cwEndpoints w)"

interpretation ref_cloud_writer: status_writer "ceRetry (ref_cloud_env parse)" "ceStatus (ref_cloud_env parse)" clStatus account for parse
  by unfold_locales (auto simp: ref_cloud_env_def retries_steps)

interpretation ref_cloud_frame: domain_frame "ceKube (ref_cloud_env parse)"
    "\<lambda>w. (account w, \<lambda>key. ceGetPolicy (ref_cloud_env parse) key w)" for parse
  by unfold_locales (auto simp: ref_cloud_env_def cloud_kube_def retries_steps Let_def split: prod.splits)

interpretation ref_cloud: cloud_service "ref_cloud_env parse" account already_made for parse
proof (intro cloud_service.intro cloud_service_axioms.intro)
  show "object_meta (ceMeta (ref_cloud_env parse))" by (simp add: ref_cloud_env_def cloud_kube_def Let_def list_meta.object_meta_axioms)
qed (rule ref_cloud_writer.status_writer_axioms ref_cloud_frame.domain_frame_axioms |
  auto simp: ref_cloud_env_def put_endpoint_def update_conv' split: option.splits if_splits)+

text \<open>
  A user's endpoint that names its policy in the legacy field and whose endpoint in the API is gone;
  its Domain is ready.
\<close>

definition witness_parse :: "string \<Rightarrow> string + go_url" where
  "witness_parse u = Inr \<lparr>guScheme = ''https'', guHost = ''app.example.com'', guPath = []\<rparr>"

definition witness_clep :: CloudEndpointObject where
  "witness_clep =
     \<lparr>obMeta = \<lparr>omName = ''app'', omNamespace = ''web'', omGeneration = 3, omFinalizers = [FinalizerName], omDeleting = False\<rparr>,
      obBody = \<lparr>clLabels = [], clOwners = [],
        clSpec = \<lparr>clURL = ''https://app.example.com'', clTrafficPolicyName = ''gate'', clPoolingEnabled = None, clTrafficPolicy = None,
          clDescription = [], clMetadata = None, clBindings = [''public'']\<rparr>,
        clStatus = \<lparr>cstObservedGeneration = 2, cstID = ''ep_gone'', cstAssignedURL = [], cstDomainRef = None, cstConditions = []\<rparr>\<rparr>\<rparr>"

definition witness_cloud_domain :: Domain where
  "witness_cloud_domain = map_domain_status (\<lambda>st. st\<lparr>dstID := ''rd_1'',
       dstConditions := [\<lparr>cnType = ''Ready'', cnStatus = ''True'', cnReason = [], cnMessage = [], cnObservedGeneration = 1\<rparr>]\<rparr>)
     (new_domain ''app-example-com'' ''web'' (empty_domain_spec\<lparr>dsDomain := ''app.example.com''\<rparr>))"

definition witness_cloud :: cloud_world where
  "witness_cloud =
     \<lparr>cwDomains = [(object_key witness_cloud_domain, witness_cloud_domain)],
      cwPolicies = [(\<lparr>nnName = ''gate'', nnNamespace = ''web''\<rparr>, RawDoc JNull)], cwStored = [], cwEndpoints = []\<rparr>"

lemma witness_update_ok: "fst (fst (cloud_update (ref_cloud_env witness_parse) witness_clep witness_cloud)) = None"
proof -
  have parsed: "ParseAndSanitizeEndpointURL witness_parse ''https://app.example.com'' True =
      Inr \<lparr>guScheme = ''https'', guHost = ''app.example.com:443'', guPath = []\<rparr>" by code_simp
  have hy: "url_Hostname \<lparr>guScheme = ''https'', guHost = ''app.example.com:443'', guPath = []\<rparr> = ''app.example.com''"
    "HyphenatedDomainNameFromURL ''app.example.com'' = ''app-example-com''" "IsInternalDomain ''app.example.com'' = False" by code_simp+
  have ens: "EnsureDomainExists (ceKube (ref_cloud_env witness_parse)) (ceManager (ref_cloud_env witness_parse)) clep_domain witness_clep witness_cloud =
    (((Some \<lparr>drDomain = Some witness_cloud_domain, drIsReady = True, drReadyReason = [], drReadyMessage = []\<rparr>, None),
     witness_clep\<lparr>obBody := (obBody witness_clep)\<lparr>clStatus := (clStatus (obBody witness_clep))\<lparr>cstDomainRef := Some (domain_ref_to witness_cloud_domain),
       cstConditions := [\<lparr>cnType = ''DomainReady'', cnStatus = ''True'', cnReason = [], cnMessage = [], cnObservedGeneration = 3\<rparr>]\<rparr>\<rparr>\<rparr>), witness_cloud)"
    by (simp add: EnsureDomainExists_def parsed hy checkSkippedDomains_def getOrCreateDomain_def ensureControllerLabels_def checkExistingDomain_def
       IsDomainReady_def setDomainCondition_def set_domain_ref_def domain_ref_to_def ref_cloud_env_def cloud_kube_def list_domain_kube_def clep_domain_def
       witness_clep_def witness_cloud_def witness_cloud_domain_def new_domain_def object_key_def map_domain_status_def domain_status_def list_meta_def
       ConditionDomainReady_def ConditionEndpointDomainReady_def Let_def)
  let ?ep = "witness_clep\<lparr>obBody := (obBody witness_clep)\<lparr>clStatus := (clStatus (obBody witness_clep))\<lparr>cstDomainRef := Some (domain_ref_to witness_cloud_domain),
       cstConditions := [\<lparr>cnType = ''DomainReady'', cnStatus = ''True'', cnReason = [], cnMessage = [], cnObservedGeneration = 3\<rparr>]\<rparr>\<rparr>\<rparr>"
  have res: "resolveTrafficPolicy (ref_cloud_env witness_parse) ?ep witness_cloud = (Inr ''document'', snd (normalizeLegacyTrafficPolicy True ?ep))"
    by (simp add: resolveTrafficPolicy_def Resolve_def clep_policy_def witness_clep_def normalize_spec_def hasEffectivePolicy_def clep_ToTrafficPolicyCfg_def
      exactlyOneSet_def resolveRef_def ref_cloud_env_def cloud_kube_def witness_cloud_def clearStaleError_def list_meta_def ConditionTrafficPolicy_def Let_def)
  show ?thesis unfolding cloud_update_def ens
    by (simp add: res del: normalized) (simp add: update_endpoint_def ref_cloud_env_def witness_clep_def witness_cloud_def cloud_ReconcileStatus_def ReconcileStatus_def
     status_attempt_def eval_nat_numeral createWithPolicy_def put_endpoint_def recordWriteSuccess_def cloud_updateStatus_def RequeueError_def Let_def
     split: option.split)
qed

theorem cloud_endpoint_converges_witness:
  "\<exists>ep' w' a. cloud_update (ref_cloud_env witness_parse) witness_clep witness_cloud = ((None, ep'), w') \<and>
     account w' (cstID (clStatus (obBody ep'))) = Some a \<and> apTrafficPolicy a = ''document''"
proof -
  let ?env = "ref_cloud_env witness_parse"
  let ?r = "cloud_update ?env witness_clep witness_cloud"
  have "fst (fst ?r) = None" by (rule witness_update_ok)
  then have run: "?r = ((None, snd (fst ?r)), snd ?r)" by (metis prod.collapse)
  from cloud_endpoint_converges [where f = "cloud_update ?env", OF ref_cloud.cloud_service_axioms disjI2 [OF refl] run]
  obtain policy where p: "policy_of (ceGetPolicy ?env) (omNamespace (obMeta witness_clep)) (effective_cfg (clSpec (obBody witness_clep))) witness_cloud = Some policy"
    and st: "cloud_settled (ceMeta ?env) account already_made (omGeneration (obMeta witness_clep))
      (endpoint_write (ceText ?env) (clSpec (obBody witness_clep)) (ceText ?env policy)) witness_cloud (snd (fst ?r)) (snd ?r)" by auto
  have "policy_of (ceGetPolicy ?env) (omNamespace (obMeta witness_clep)) (effective_cfg (clSpec (obBody witness_clep))) witness_cloud = Some (RawDoc JNull)"
    by code_simp
  with p have pol: "ceText ?env policy = ''document''" by (simp add: ref_cloud_env_def)
  from st obtain a where "account (snd ?r) (cstID (clStatus (obBody (snd (fst ?r))))) = Some a" "apTrafficPolicy a = ''document''"
    by (auto simp: cloud_settled_def already_made_def endpoint_write_def pol)
  with run show ?thesis by blast
qed


theorem Resolve_exact_witness:
  "\<exists>e ep'. Resolve list_meta (\<lambda>e. []) (\<lambda>key w. Inl (KubeError KubeNotFound ''gone'')) clep_policy
       (snd (normalizeLegacyTrafficPolicy True witness_clep)) witness_cloud = (Inl e, ep') \<and>
     \<not> no_policy_error list_meta clep_policy ep'"
proof -
  let ?r = "Resolve list_meta (\<lambda>e. []) (\<lambda>key w. Inl (KubeError KubeNotFound ''gone'')) clep_policy
    (snd (normalizeLegacyTrafficPolicy True witness_clep)) witness_cloud"
  have "case fst ?r of Inl e \<Rightarrow> True | Inr p \<Rightarrow> False" by code_simp
  then obtain e ep' where run: "?r = (Inl e, ep')" by (cases ?r) (auto split: sum.splits)
  from Resolve_exact [OF list_meta.object_meta_axioms clep_policies.policy_access_axioms run]
  have "\<not> no_policy_error list_meta clep_policy ep'" by (auto simp: no_policy_error_def)
  with run show ?thesis by blast
qed

theorem policy_index_complete_witness:
  "resolveTrafficPolicy (ref_cloud_env witness_parse) witness_clep witness_cloud =
   resolveTrafficPolicy ((ref_cloud_env witness_parse)\<lparr>ceGetPolicy := (\<lambda>key w.
     if nn_String key = ''web/gate'' then ceGetPolicy (ref_cloud_env witness_parse) key w else Inl (PlainError ''unavailable''))\<rparr>)
     witness_clep witness_cloud"
proof (rule policy_index_complete)
  fix key
  assume "object_key witness_clep \<in> set (findCloudEndpointForTrafficPolicy [witness_clep] key)"
  then have "nn_String key = ''web/gate''"
    by (simp add: findCloudEndpointForTrafficPolicy_def index_effective effective_cfg_def normalize_spec_def hasEffectivePolicy_def
        clep_ToTrafficPolicyCfg_def witness_clep_def split: if_splits)
  then show "ceGetPolicy (ref_cloud_env witness_parse) key witness_cloud =
      (if nn_String key = ''web/gate'' then ceGetPolicy (ref_cloud_env witness_parse) key witness_cloud
       else Inl (PlainError ''unavailable''))" by simp
qed

end
