(* ===== verification/Agent_Endpoint_Controller.thy ===== *)
theory Agent_Endpoint_Controller
  imports Agent_Driver Cloud_Endpoint_Controller
begin

text \<open>
  \<^bold>\<open>internal/controller/agent/agent_endpoint_controller.go\<close> and \<^bold>\<open>agent_endpoint_conditions.go\<close>: an
  AgentEndpoint runs in the agent of this process once its domain exists, its traffic policy is
  resolved and the certificates it refers to have been read.

  The policy of the spec is kept beside it, because that of a stored resource can be any text. Parsing
  certificates is an argument. The interface to the agent (\<open>agent.Driver\<close>) is two operations of the
  environment; the theory of the driver provides them.
\<close>

section \<open>The resource\<close>

record AgentEndpointStatus =
  gsObservedGeneration :: int
  gsAssignedURL :: string
  gsAttachedTrafficPolicy :: string
  gsDomainRef :: "K8sObjectRefOptionalNamespace ptr"
  gsConditions :: "Condition list"

record aep_body =
  agSpec :: AgentEndpointSpec
  agPolicyCfg :: "TrafficPolicySource ptr"
  agStatus :: AgentEndpointStatus

type_synonym AgentEndpointObject = "aep_body kube_object"

definition aep_domain :: "aep_body EndpointWithDomain" where
  "aep_domain =
     \<lparr>ewURL = (\<lambda>b. aesURL (agSpec b)), ewBindings = (\<lambda>b. aesBindings (agSpec b)), ewConditions = (\<lambda>b. gsConditions (agStatus b)),
      ewPutConditions = (\<lambda>cs b. b\<lparr>agStatus := (agStatus b)\<lparr>gsConditions := cs\<rparr>\<rparr>),
      ewDomainRef = (\<lambda>b. gsDomainRef (agStatus b)),
      ewPutDomainRef = (\<lambda>ref b. b\<lparr>agStatus := (agStatus b)\<lparr>gsDomainRef := ref\<rparr>\<rparr>)\<rparr>"

definition aep_policy :: "aep_body EndpointWithTrafficPolicy" where
  "aep_policy =
     \<lparr>etpCfg = agPolicyCfg, etpConditions = (\<lambda>b. gsConditions (agStatus b)),
      etpPutConditions = (\<lambda>cs b. b\<lparr>agStatus := (agStatus b)\<lparr>gsConditions := cs\<rparr>\<rparr>)\<rparr>"

definition map_aep_status :: "(AgentEndpointStatus \<Rightarrow> AgentEndpointStatus) \<Rightarrow> AgentEndpointObject \<Rightarrow> AgentEndpointObject" where
  "map_aep_status f ep = ep\<lparr>obBody := (obBody ep)\<lparr>agStatus := f (agStatus (obBody ep))\<rparr>\<rparr>"

definition set_aep_observed :: "int \<Rightarrow> AgentEndpointObject \<Rightarrow> AgentEndpointObject" where
  "set_aep_observed generation = map_aep_status (gsObservedGeneration_update (\<lambda>_. generation))"

section \<open>Indexes\<close>

definition secretIndexKey :: "string \<Rightarrow> string \<Rightarrow> string" where
  "secretIndexKey namespace ref = namespace @ ''/'' @ ref"

definition indexClientCertificateRefs :: "AgentEndpointObject \<Rightarrow> string list" where
  "indexClientCertificateRefs aep =
     map (secretIndexKey (omNamespace (obMeta aep))) (aesClientCertificateRefs (agSpec (obBody aep)))"

definition indexTLSTerminationSecrets :: "AgentEndpointObject \<Rightarrow> string list" where
  "indexTLSTerminationSecrets aep =
     (case aesTLSTermination (agSpec (obBody aep)) of
        None \<Rightarrow> []
      | Some t \<Rightarrow>
          (omNamespace (obMeta aep) @ ''/'' @ etServerCertificateRef t) #
          (case etMutualTLS t of Some mt \<Rightarrow> [omNamespace (obMeta aep) @ ''/'' @ emClientCAsRef mt] | None \<Rightarrow> []))"

section \<open>Conditions\<close>

definition ConditionAgentReady :: string where "ConditionAgentReady = ''Ready''"
definition ConditionEndpointCreated :: string where "ConditionEndpointCreated = ''EndpointCreated''"

definition set_aep_condition :: "kube_meta \<Rightarrow> string \<Rightarrow> bool \<Rightarrow> string \<Rightarrow> string \<Rightarrow> AgentEndpointObject \<Rightarrow> AgentEndpointObject" where
  "set_aep_condition km condType ok reason message ep =
     map_aep_status (gsConditions_update (Set_condition km (omGeneration (obMeta ep)) condType ok reason message)) ep"

definition setEndpointReadyCondition :: "kube_meta \<Rightarrow> bool \<Rightarrow> string \<Rightarrow> string \<Rightarrow> AgentEndpointObject \<Rightarrow> AgentEndpointObject" where
  "setEndpointReadyCondition km = set_aep_condition km ConditionAgentReady"

definition setEndpointCreatedCondition :: "kube_meta \<Rightarrow> bool \<Rightarrow> string \<Rightarrow> string \<Rightarrow> AgentEndpointObject \<Rightarrow> AgentEndpointObject" where
  "setEndpointCreatedCondition km = set_aep_condition km ConditionEndpointCreated"

definition calculateAgentEndpointReadyCondition ::
  "kube_meta \<Rightarrow> DomainResult ptr \<Rightarrow> AgentEndpointObject \<Rightarrow> AgentEndpointObject" where
  "calculateAgentEndpointReadyCondition km domainResult aep =
     (let cs = gsConditions (agStatus (obBody aep));
          endpointCreatedCondition = kmFindStatusCondition km cs ConditionEndpointCreated;
          endpointCreated = (case endpointCreatedCondition of Some c \<Rightarrow> cnStatus c = ''True'' | None \<Rightarrow> False);
          trafficPolicyCondition = kmFindStatusCondition km cs ConditionTrafficPolicy;
          trafficPolicyReady = (case trafficPolicyCondition of Some c \<Rightarrow> cnStatus c \<noteq> ''False'' | None \<Rightarrow> True);
          domainReady = (case domainResult of Some r \<Rightarrow> drIsReady r | None \<Rightarrow> False);
          ready = (endpointCreated \<and> trafficPolicyReady \<and> domainReady);
          (reason, message) =
            (if ready then (''EndpointActive'', ''AgentEndpoint is active and ready'')
             else if \<not> domainReady then
               (case domainResult of
                  Some r \<Rightarrow> if drReadyReason r \<noteq> [] then (drReadyReason r, drReadyMessage r)
                    else (''DomainNotReady'', ''Domain is not ready'')
                | None \<Rightarrow> (''DomainNotReady'', ''Domain is not ready''))
             else if \<not> trafficPolicyReady then
               (case trafficPolicyCondition of Some c \<Rightarrow> (cnReason c, cnMessage c) | None \<Rightarrow> ([], []))
             else if \<not> endpointCreated then
               (case endpointCreatedCondition of
                  Some c \<Rightarrow> if cnStatus c = ''False'' then (cnReason c, cnMessage c)
                    else (''Pending'', ''Waiting for endpoint creation'')
                | None \<Rightarrow> (''Pending'', ''Waiting for endpoint creation''))
             else (''Unknown'', ''AgentEndpoint is not ready''))
      in setEndpointReadyCondition km ready reason message aep)"

section \<open>Certificates\<close>

type_synonym secret_data = "(string \<times> string) list"

record 's agent_env =
  gvKube :: "'s domain_kube"
  gvManager :: Manager
  gvErrors :: ngrok_errors
  gvText :: "raw_json \<Rightarrow> string"
  gvGetPolicy :: "NamespacedName \<Rightarrow> 's \<Rightarrow> go_error + raw_json"
  gvGetSecret :: "NamespacedName \<Rightarrow> 's \<Rightarrow> go_error + secret_data"
  gvX509KeyPair :: "string \<Rightarrow> string \<Rightarrow> go_error + certificate"
  gvCertPool :: "string \<Rightarrow> string option"
  gvRetry :: "(AgentEndpointObject \<times> 's) retrier"
  gvStatus :: "(aep_body, 's) status_client"
  gvGet :: "NamespacedName \<Rightarrow> 's \<Rightarrow> go_error + AgentEndpointObject"
  gvPatch :: "(aep_body, go_error, 's) patcher"
  gvDrainState :: "('s \<Rightarrow> bool \<times> 's) option"
  gvCreate :: "string \<Rightarrow> AgentEndpointSpec \<Rightarrow> string \<Rightarrow> certificate list \<Rightarrow> AgentTLSTermination ptr \<Rightarrow> 's \<Rightarrow>
    (EndpointResult \<times> go_error option) \<times> 's"
  gvDelete :: "string \<Rightarrow> 's \<Rightarrow> go_error option \<times> 's"

abbreviation gvMeta :: "'s agent_env \<Rightarrow> kube_meta" where
  "gvMeta env \<equiv> dkMeta (gvKube env)"

text \<open>A certificate and its key from a secret; \<open>what\<close> is the field of the spec that refers to it.\<close>

definition secret_key_pair :: "'s agent_env \<Rightarrow> string \<Rightarrow> NamespacedName \<Rightarrow> 's \<Rightarrow> go_error + certificate" where
  "secret_key_pair env what key s =
     (let name = dkQuote (gvKube env) (nnName key @ ''.'' @ nnNamespace key)
      in case gvGetSecret env key s of
           Inl e \<Rightarrow> Inl e
         | Inr secret \<Rightarrow>
             (case map_of secret ''tls.crt'' of
                None \<Rightarrow> Inl (PlainError (''tls.crt data is missing from AgentEndpoint '' @ what @ '' '' @ name))
              | Some certData \<Rightarrow>
                  (case map_of secret ''tls.key'' of
                     None \<Rightarrow> Inl (PlainError (''tls.key data is missing from AgentEndpoint '' @ what @ '' '' @ name))
                   | Some keyData \<Rightarrow>
                       (case gvX509KeyPair env certData keyData of
                          Inl e \<Rightarrow> Inl (WrappedError (''failed to parse TLS certificate AgentEndpoint '' @ what @ '' '' @ name) e)
                        | Inr cert \<Rightarrow> Inr cert))))"

fun client_certs :: "'s agent_env \<Rightarrow> string \<Rightarrow> string list \<Rightarrow> 's \<Rightarrow> go_error + certificate list" where
  "client_certs env ns [] s = Inr []"
| "client_certs env ns (ref # refs) s =
     (case secret_key_pair env ''clientCertRef'' \<lparr>nnName = ref, nnNamespace = ns\<rparr> s of
        Inl e \<Rightarrow> Inl e
      | Inr cert \<Rightarrow> (case client_certs env ns refs s of Inl e \<Rightarrow> Inl e | Inr certs \<Rightarrow> Inr (cert # certs)))"

definition getClientCerts :: "'s agent_env \<Rightarrow> AgentEndpointObject \<Rightarrow> 's \<Rightarrow> go_error + certificate list" where
  "getClientCerts env aep s = client_certs env (omNamespace (obMeta aep)) (aesClientCertificateRefs (agSpec (obBody aep))) s"

definition getServerCert :: "'s agent_env \<Rightarrow> string \<Rightarrow> EndpointTLSTermination \<Rightarrow> 's \<Rightarrow> go_error + certificate" where
  "getServerCert env ns t s =
     secret_key_pair env ''tlsTermination.serverCertificateRef'' \<lparr>nnName = etServerCertificateRef t, nnNamespace = ns\<rparr> s"

definition getClientCAs :: "'s agent_env \<Rightarrow> string \<Rightarrow> EndpointMutualTLS \<Rightarrow> 's \<Rightarrow> go_error + string" where
  "getClientCAs env ns mt s =
     (let key = \<lparr>nnName = emClientCAsRef mt, nnNamespace = ns\<rparr>; name = dkQuote (gvKube env) (nnName key @ ''.'' @ nnNamespace key)
      in case gvGetSecret env key s of
           Inl e \<Rightarrow> Inl e
         | Inr secret \<Rightarrow>
             (case map_of secret ''ca.crt'' of
                None \<Rightarrow> Inl (PlainError (''ca.crt data is missing from AgentEndpoint tlsTermination.mutualTLS.clientCAsRef '' @ name))
              | Some caData \<Rightarrow>
                  (case gvCertPool env caData of
                     None \<Rightarrow> Inl (PlainError (''no PEM-encoded certificates found in AgentEndpoint tlsTermination.mutualTLS.clientCAsRef '' @
                       name @ '' ca.crt''))
                   | Some pool \<Rightarrow> Inr pool)))"

definition clientAuthForMode :: "string \<Rightarrow> ClientAuthType" where
  "clientAuthForMode mode = (if mode = ''request'' then VerifyClientCertIfGiven else RequireAndVerifyClientCert)"

definition getAgentTLSTermination :: "'s agent_env \<Rightarrow> AgentEndpointObject \<Rightarrow> 's \<Rightarrow> go_error + AgentTLSTermination ptr" where
  "getAgentTLSTermination env aep s =
     (case aesTLSTermination (agSpec (obBody aep)) of
        None \<Rightarrow> Inr None
      | Some t \<Rightarrow>
          (case getServerCert env (omNamespace (obMeta aep)) t s of
             Inl e \<Rightarrow> Inl e
           | Inr cert \<Rightarrow>
               (case etMutualTLS t of
                  None \<Rightarrow> Inr (Some \<lparr>atServerCert = Some cert, atClientCAs = None, atClientAuth = NoClientCert\<rparr>)
                | Some mt \<Rightarrow>
                    (case getClientCAs env (omNamespace (obMeta aep)) mt s of
                       Inl e \<Rightarrow> Inl e
                     | Inr pool \<Rightarrow> Inr (Some \<lparr>atServerCert = Some cert, atClientCAs = Some pool,
                         atClientAuth = clientAuthForMode (emMode mt)\<rparr>)))))"

section \<open>The callbacks\<close>

type_synonym 's agent_result = "(go_error option \<times> AgentEndpointObject) \<times> 's"

definition agent_statusID :: "AgentEndpointObject \<Rightarrow> string" where
  "agent_statusID ep = omNamespace (obMeta ep) @ ''/'' @ omName (obMeta ep)"

definition agent_updateStatus ::
  "'s agent_env \<Rightarrow> AgentEndpointObject \<Rightarrow> EndpointResult ptr \<Rightarrow> DomainResult ptr \<Rightarrow> go_error option \<Rightarrow> 's \<Rightarrow> 's agent_result" where
  "agent_updateStatus env ep result domainResult statusErr s =
     (let ep1 = (case result of Some r \<Rightarrow> map_aep_status (gsAssignedURL_update (\<lambda>_. erURL r)) ep | None \<Rightarrow> ep);
          ep2 = calculateAgentEndpointReadyCondition (gvMeta env) domainResult ep1
      in case ReconcileStatus (gvRetry env) (gvStatus env) (Some set_aep_observed) ep2 statusErr s of
           ((Some e, ep3), s') \<Rightarrow> ((Some e, ep3), s')
         | ((None, ep3), s') \<Rightarrow> (((case domainResult of Some r \<Rightarrow> RequeueError r | None \<Rightarrow> None), ep3), s'))"

definition set_attached :: "string \<Rightarrow> AgentEndpointObject \<Rightarrow> AgentEndpointObject" where
  "set_attached src = map_aep_status (gsAttachedTrafficPolicy_update (\<lambda>_. src))"

definition agent_config_error ::
  "'s agent_env \<Rightarrow> string \<Rightarrow> go_error \<Rightarrow> AgentEndpointObject \<Rightarrow> DomainResult ptr \<Rightarrow> 's \<Rightarrow> 's agent_result" where
  "agent_config_error env what e ep domainResult s =
     agent_updateStatus env
       (setEndpointCreatedCondition (gvMeta env) False ''ConfigurationError'' (what @ error_text (dkErrorText (gvKube env)) e) ep)
       None domainResult (Some e) s"

definition create_endpoint ::
  "'s agent_env \<Rightarrow> AgentEndpointObject \<Rightarrow> DomainResult ptr \<Rightarrow> string \<Rightarrow> certificate list \<Rightarrow> AgentTLSTermination ptr \<Rightarrow> 's \<Rightarrow> 's agent_result" where
  "create_endpoint env ep domainResult policy clientCerts agentTLS s =
     (case gvCreate env (agent_statusID ep) (agSpec (obBody ep)) policy clientCerts agentTLS s of
        ((_, Some e), s') \<Rightarrow>
          (let text = error_text (dkErrorText (gvKube env)) e;
               ep1 = setEndpointCreatedCondition (gvMeta env) False ''NgrokAPIError'' (''Failed to create endpoint: '' @ text) ep;
               ep2 = (if policy \<noteq> [] \<and> IsTrafficPolicyError text
                      then SetError (gvMeta env) aep_policy (SanitizeErrorMessage text) ep1 else ep1)
           in agent_updateStatus env ep2 None domainResult (Some e) s')
      | ((result, None), s') \<Rightarrow>
          agent_updateStatus env
            (setEndpointCreatedCondition (gvMeta env) True ''EndpointCreated'' ''Endpoint successfully created''
              (MarkApplied (gvMeta env) aep_policy ep)) (Some result) domainResult None s')"

definition agent_update :: "'s agent_env \<Rightarrow> (aep_body, 's) callback" where
  "agent_update env endpoint s =
     (case EnsureDomainExists (gvKube env) (gvManager env) aep_domain endpoint s of
        (((domainResult, Some e), ep1), s1) \<Rightarrow> agent_updateStatus env ep1 None domainResult (Some e) s1
      | (((domainResult, None), ep1), s1) \<Rightarrow>
          (case Resolve (gvMeta env) (dkErrorText (gvKube env)) (gvGetPolicy env) aep_policy
              (set_attached (IntendedSource (agPolicyCfg (obBody ep1))) ep1) s1 of
             (Inl e, ep2) \<Rightarrow> agent_updateStatus env ep2 None domainResult (Some e) s1
           | (Inr tpResult, ep2) \<Rightarrow>
               (let ep3 = set_attached (prSource tpResult) ep2
                in case getClientCerts env ep3 s1 of
                     Inl e \<Rightarrow> agent_config_error env ''Failed to get client certificates: '' e ep3 domainResult s1
                   | Inr clientCerts \<Rightarrow>
                       (case getAgentTLSTermination env ep3 s1 of
                          Inl e \<Rightarrow> agent_config_error env ''Failed to get TLS termination config: '' e ep3 domainResult s1
                        | Inr agentTLS \<Rightarrow>
                            create_endpoint env ep3 domainResult (gvText env (prPolicy tpResult)) clientCerts agentTLS s1))))"

definition agent_delete :: "'s agent_env \<Rightarrow> (aep_body, 's) callback" where
  "agent_delete env endpoint s = (case gvDelete env (agent_statusID endpoint) s of (err, s') \<Rightarrow> ((err, endpoint), s'))"

definition agent_ErrResult :: "'s agent_env \<Rightarrow> BaseControllerOp \<Rightarrow> AgentEndpointObject \<Rightarrow> go_error \<Rightarrow> ctrl_result \<times> go_error option" where
  "agent_ErrResult env op ep err =
     (if errors_Is ErrDomainNotReady err then (\<lparr>RequeueAfter = 10\<rparr>, None)
      else if errors_Is ErrInvalidConfig err \<or> errors_Is ErrInvalidPolicyJSON err then (no_result, None)
      else if errors_Is ErrTrafficPolicyNotFound err then (no_result, None)
      else if IsTrafficPolicyError (error_text (dkErrorText (gvKube env)) err) then (no_result, None)
      else CtrlResultForErr (gvErrors env) err)"

definition agent_base_controller :: "'s agent_env \<Rightarrow> (aep_body, 's) BaseController" where
  "agent_base_controller env =
     \<lparr>bcGet = gvGet env, bcPatch = gvPatch env, bcDrainState = gvDrainState env, bcStatusID = Some agent_statusID,
      bcCreate = None, bcUpdate = Some (agent_update env), bcDelete = Some (agent_delete env),
      bcErrResult = Some (agent_ErrResult env)\<rparr>"

definition agent_reconcile :: "'s agent_env \<Rightarrow> NamespacedName \<Rightarrow> 's \<Rightarrow> reconcile_result \<times> 's" where
  "agent_reconcile env req s = Reconcile (gvMeta env) (gvErrors env) (agent_base_controller env) req s"

section \<open>Watches\<close>

definition findAgentEndpointForTrafficPolicy :: "AgentEndpointObject list \<Rightarrow> NamespacedName \<Rightarrow> NamespacedName list" where
  "findAgentEndpointForTrafficPolicy stored tp =
     map object_key (filter (\<lambda>ep. nn_String tp \<in> set (IndexKeyForObject aep_policy ep)) stored)"

definition findAgentEndpointForSecret :: "AgentEndpointObject list \<Rightarrow> NamespacedName \<Rightarrow> NamespacedName list" where
  "findAgentEndpointForSecret stored secret =
     fold (\<lambda>ix requests.
         fold (\<lambda>aep rs. if object_key aep \<in> set rs then rs else rs @ [object_key aep])
           (filter (\<lambda>aep. nn_String secret \<in> set (ix aep)) stored) requests)
       [indexClientCertificateRefs, indexTLSTerminationSecrets] []"

definition findAgentEndpointsForDomain ::
  "(string \<Rightarrow> string + go_url) \<Rightarrow> AgentEndpointObject list \<Rightarrow> Domain \<Rightarrow> NamespacedName list" where
  "findAgentEndpointsForDomain parse stored domain =
     map object_key (filter (\<lambda>ep.
       ref_Matches (gsDomainRef (agStatus (obBody ep))) (object_key domain) \<or>
       aesURL (agSpec (obBody ep)) \<noteq> [] \<and>
       (case ParseAndSanitizeEndpointURL parse (aesURL (agSpec (obBody ep))) True of
          Inl e \<Rightarrow> False
        | Inr u \<Rightarrow> HyphenatedDomainNameFromURL (url_Hostname u) = HyphenatedDomainNameFromURL (dsDomain (domain_spec domain))))
       (filter (\<lambda>ep. omNamespace (obMeta ep) = omNamespace (obMeta domain)) stored))"

section \<open>Secrets\<close>

interpretation aep_access: endpoint_access aep_domain
  by unfold_locales (simp_all add: aep_domain_def)

interpretation aep_policies: policy_access aep_policy
  by unfold_locales (simp_all add: aep_policy_def)

interpretation aep_domains: domain_managing "list_domain_kube parse" map_of aep_domain for parse
  by (intro domain_managing.intro list_domains.domain_objects_axioms aep_access.endpoint_access_axioms)

lemma found_for_secret:
  "object_key ep \<in> set (findAgentEndpointForSecret [ep] key) \<longleftrightarrow>
     nn_String key \<in> set (indexClientCertificateRefs ep) \<union> set (indexTLSTerminationSecrets ep)"
  by (simp add: findAgentEndpointForSecret_def)

lemma secret_key_pair_cong:
  "gvGetSecret env key s = getSecret key s \<Longrightarrow> secret_key_pair env what key s = secret_key_pair (env\<lparr>gvGetSecret := getSecret\<rparr>) what key s"
  by (simp add: secret_key_pair_def Let_def split: sum.split option.split)

lemma client_certs_cong:
  "(\<And>ref. ref \<in> set refs \<Longrightarrow> gvGetSecret env \<lparr>nnName = ref, nnNamespace = ns\<rparr> s = getSecret \<lparr>nnName = ref, nnNamespace = ns\<rparr> s) \<Longrightarrow>
   client_certs env ns refs s = client_certs (env\<lparr>gvGetSecret := getSecret\<rparr>) ns refs s"
proof (induction refs)
  case (Cons ref refs)
  have "secret_key_pair env ''clientCertRef'' \<lparr>nnName = ref, nnNamespace = ns\<rparr> s =
      secret_key_pair (env\<lparr>gvGetSecret := getSecret\<rparr>) ''clientCertRef'' \<lparr>nnName = ref, nnNamespace = ns\<rparr> s"
    by (rule secret_key_pair_cong) (simp add: Cons.prems)
  moreover have "client_certs env ns refs s = client_certs (env\<lparr>gvGetSecret := getSecret\<rparr>) ns refs s"
    using Cons by simp
  ultimately show ?case by (simp split: sum.split)
qed simp

text \<open>
  \<^bold>\<open>C13\<close>. The indexes of secrets are complete. The certificates of an agent endpoint, for upstreams and
  for terminating TLS, depend only on the secrets whose change the watch maps to this endpoint,
  which are all in its own namespace.
\<close>

theorem secret_index_complete:
  assumes "\<And>key. object_key ep \<in> set (findAgentEndpointForSecret [ep] key) \<Longrightarrow> nnNamespace key = omNamespace (obMeta ep) \<Longrightarrow>
    gvGetSecret env key s = getSecret key s"
  shows "getClientCerts env ep s = getClientCerts (env\<lparr>gvGetSecret := getSecret\<rparr>) ep s \<and>
    getAgentTLSTermination env ep s = getAgentTLSTermination (env\<lparr>gvGetSecret := getSecret\<rparr>) ep s"
proof -
  let ?ns = "omNamespace (obMeta ep)"
  have same: "gvGetSecret env \<lparr>nnName = ref, nnNamespace = ?ns\<rparr> s = getSecret \<lparr>nnName = ref, nnNamespace = ?ns\<rparr> s"
    if "?ns @ ''/'' @ ref \<in> set (indexClientCertificateRefs ep) \<union> set (indexTLSTerminationSecrets ep)" for ref
    using assms [of "\<lparr>nnName = ref, nnNamespace = ?ns\<rparr>"] that by (simp add: found_for_secret nn_String_def)
  have "client_certs env ?ns (aesClientCertificateRefs (agSpec (obBody ep))) s =
      client_certs (env\<lparr>gvGetSecret := getSecret\<rparr>) ?ns (aesClientCertificateRefs (agSpec (obBody ep))) s"
    by (rule client_certs_cong, rule same) (auto simp: indexClientCertificateRefs_def secretIndexKey_def)
  moreover have "getAgentTLSTermination env ep s = getAgentTLSTermination (env\<lparr>gvGetSecret := getSecret\<rparr>) ep s"
  proof (cases "aesTLSTermination (agSpec (obBody ep))")
    case (Some t)
    have server: "getServerCert env ?ns t s = getServerCert (env\<lparr>gvGetSecret := getSecret\<rparr>) ?ns t s"
      unfolding getServerCert_def by (rule secret_key_pair_cong, rule same) (simp add: indexTLSTerminationSecrets_def Some)
    have ca: "getClientCAs env ?ns mt s = getClientCAs (env\<lparr>gvGetSecret := getSecret\<rparr>) ?ns mt s" if "etMutualTLS t = Some mt" for mt
      using same [of "emClientCAsRef mt"] that Some
      by (simp add: getClientCAs_def indexTLSTerminationSecrets_def Let_def split: sum.split option.split)
    show ?thesis using server ca by (cases "etMutualTLS t") (simp_all add: getAgentTLSTermination_def Some split: sum.split)
  qed (simp add: getAgentTLSTermination_def)
  ultimately show ?thesis by (simp add: getClientCerts_def)
qed

section \<open>What an update achieves\<close>

definition aep_ready :: "kube_meta \<Rightarrow> int \<Rightarrow> AgentEndpointObject \<Rightarrow> bool" where
  "aep_ready km generation ep \<longleftrightarrow>
     (\<exists>c. kmFindStatusCondition km (gsConditions (agStatus (obBody ep))) ConditionAgentReady = Some c \<and>
        cnStatus c = ''True'' \<and> cnObservedGeneration c = generation)"

definition aep_created :: "kube_meta \<Rightarrow> AgentEndpointObject \<Rightarrow> bool" where
  "aep_created km ep \<longleftrightarrow>
     (\<exists>c. kmFindStatusCondition km (gsConditions (agStatus (obBody ep))) ConditionEndpointCreated = Some c \<and> cnStatus c = ''True'')"

lemma map_aep_status_simps [simp]:
  "obMeta (map_aep_status f ep) = obMeta ep" "agSpec (obBody (map_aep_status f ep)) = agSpec (obBody ep)"
  "agPolicyCfg (obBody (map_aep_status f ep)) = agPolicyCfg (obBody ep)" "agStatus (obBody (map_aep_status f ep)) = f (agStatus (obBody ep))"
  by (simp_all add: map_aep_status_def)

lemma calculate_agent_simps [simp]:
  "gsAttachedTrafficPolicy (agStatus (obBody (calculateAgentEndpointReadyCondition km r ep))) = gsAttachedTrafficPolicy (agStatus (obBody ep))"
  "gsAssignedURL (agStatus (obBody (calculateAgentEndpointReadyCondition km r ep))) = gsAssignedURL (agStatus (obBody ep))"
  "obMeta (calculateAgentEndpointReadyCondition km r ep) = obMeta ep"
  by (simp_all add: calculateAgentEndpointReadyCondition_def setEndpointReadyCondition_def set_aep_condition_def Let_def split: prod.split)

context object_meta begin

lemma calculate_agent_ready:
  "aep_ready km (omGeneration (obMeta ep)) (calculateAgentEndpointReadyCondition km (Some r) ep) \<longleftrightarrow>
     aep_created km ep \<and> no_policy_error km aep_policy ep \<and> drIsReady r"
  by (simp add: calculateAgentEndpointReadyCondition_def setEndpointReadyCondition_def set_aep_condition_def aep_ready_def
      no_policy_error_def aep_created_def aep_policy_def Let_def split: prod.split option.split)

lemma created_agent_conditions:
  assumes "no_policy_error km aep_policy ep"
  shows "no_policy_error km aep_policy (setEndpointCreatedCondition km True reason msg (MarkApplied km aep_policy ep))"
    "aep_created km (setEndpointCreatedCondition km True reason msg (MarkApplied km aep_policy ep))"
  using assms
  by (auto simp: MarkApplied_def setEndpointCreatedCondition_def set_aep_condition_def no_policy_error_def aep_created_def
      policy_setCondition_def put_conditions_def aep_policy_def ConditionEndpointCreated_def ConditionTrafficPolicy_def)

end

lemma created_agent_keeps:
  "obMeta (setEndpointCreatedCondition km True reason msg (MarkApplied km aep_policy ep)) = obMeta ep"
  "gsAttachedTrafficPolicy (agStatus (obBody (setEndpointCreatedCondition km True reason msg (MarkApplied km aep_policy ep)))) =
     gsAttachedTrafficPolicy (agStatus (obBody ep))"
  by (simp_all add: MarkApplied_def setEndpointCreatedCondition_def set_aep_condition_def policy_setCondition_def put_conditions_def aep_policy_def)

lemma secret_free_of_state:
  assumes "\<And>key. gvGetSecret env key s1 = gvGetSecret env key s"
  shows "secret_key_pair env what key s1 = secret_key_pair env what key s" "client_certs env ns refs s1 = client_certs env ns refs s"
    "getServerCert env ns t s1 = getServerCert env ns t s" "getClientCAs env ns mt s1 = getClientCAs env ns mt s"
proof -
  show one: "secret_key_pair env what key s1 = secret_key_pair env what key s" for what key
    by (simp add: secret_key_pair_def assms)
  show "client_certs env ns refs s1 = client_certs env ns refs s" by (induction refs) (simp_all add: one split: sum.split)
  show "getServerCert env ns t s1 = getServerCert env ns t s" by (simp add: getServerCert_def one)
  show "getClientCAs env ns mt s1 = getClientCAs env ns mt s" by (simp add: getClientCAs_def assms)
qed

locale agent_service =
  meta: object_meta "gvMeta env" + agents: running_endpoints "gvCreate env" "gvDelete env" good running +
  writer: status_writer "gvRetry env" "gvStatus env" agStatus running +
  frame: domain_frame "gvKube env" "\<lambda>s. (good s, running s, \<lambda>key. gvGetPolicy env key s, \<lambda>key. gvGetSecret env key s)"
  for env :: "'s agent_env" and good :: "'s \<Rightarrow> bool" and running :: "'s \<Rightarrow> string \<Rightarrow> agent_request option"
begin

lemma updateStatus_error: "agent_updateStatus env ep a r (Some e) s = ((err, ep'), s') \<Longrightarrow> err \<noteq> None"
  by (auto simp: agent_updateStatus_def Let_def split: prod.splits option.splits dest: writer.ReconcileStatus_spec(3))

lemma updateStatus_ok:
  assumes run: "agent_updateStatus env ep (Some a) (Some r) None s = ((None, ep'), s')"
    and policy: "no_policy_error (gvMeta env) aep_policy ep" and created: "aep_created (gvMeta env) ep"
  shows "running s' = running s" "gsAssignedURL (agStatus (obBody ep')) = erURL a"
    "gsAttachedTrafficPolicy (agStatus (obBody ep')) = gsAttachedTrafficPolicy (agStatus (obBody ep))"
    "aep_ready (gvMeta env) (omGeneration (obMeta ep)) ep'"
proof -
  let ?base = "map_aep_status (gsAssignedURL_update (\<lambda>_. erURL a)) ep"
  let ?ep = "calculateAgentEndpointReadyCondition (gvMeta env) (Some r) ?base"
  obtain err ep3 s3 where w: "ReconcileStatus (gvRetry env) (gvStatus env) (Some set_aep_observed) ?ep None s = ((err, ep3), s3)"
    by (metis surj_pair)
  have fin: "ep' = ep3" "s' = s3" "drIsReady r"
    using run w by (auto simp: agent_updateStatus_def RequeueError_def split: option.splits if_splits)
  note sp = writer.ReconcileStatus_spec(1,2) [OF w]
  show "running s' = running s" using sp(1) fin by simp
  have st: "agStatus (obBody ep') = (agStatus (obBody ?ep))\<lparr>gsObservedGeneration := omGeneration (obMeta ?ep)\<rparr>"
    using sp(2) fin by (simp add: set_aep_observed_def)
  then show "gsAssignedURL (agStatus (obBody ep')) = erURL a"
    "gsAttachedTrafficPolicy (agStatus (obBody ep')) = gsAttachedTrafficPolicy (agStatus (obBody ep))" by simp_all
  show "aep_ready (gvMeta env) (omGeneration (obMeta ep)) ep'"
    using meta.calculate_agent_ready [of ?base r] policy created fin(3) st
    by (simp add: aep_ready_def no_policy_error_def aep_created_def aep_policy_def)
qed

lemma create_endpoint_ok:
  assumes run: "create_endpoint env ep (Some r) policy certs tls s = ((None, ep'), s')"
    and ok: "no_policy_error (gvMeta env) aep_policy ep" and good: "good s"
  shows "running s' = (running s)(agent_statusID ep \<mapsto> agent_request_for (agSpec (obBody ep)) policy certs tls)"
    "gsAttachedTrafficPolicy (agStatus (obBody ep')) = gsAttachedTrafficPolicy (agStatus (obBody ep))"
    "aep_ready (gvMeta env) (omGeneration (obMeta ep)) ep'"
proof -
  obtain res err s1 where cr: "gvCreate env (agent_statusID ep) (agSpec (obBody ep)) policy certs tls s = ((res, err), s1)" by (metis surj_pair)
  have err: "err = None"
    using run cr by (cases err) (auto simp: create_endpoint_def Let_def dest!: updateStatus_error)
  have up: "agent_updateStatus env (setEndpointCreatedCondition (gvMeta env) True ''EndpointCreated'' ''Endpoint successfully created''
      (MarkApplied (gvMeta env) aep_policy ep)) (Some res) (Some r) None s1 = ((None, ep'), s')"
    using run cr err by (simp add: create_endpoint_def)
  note u = updateStatus_ok [OF up meta.created_agent_conditions [OF ok], unfolded created_agent_keeps]
  show "running s' = (running s)(agent_statusID ep \<mapsto> agent_request_for (agSpec (obBody ep)) policy certs tls)"
    using agents.create_runs [OF good cr [unfolded err]] u(1) by simp
  show "gsAttachedTrafficPolicy (agStatus (obBody ep')) = gsAttachedTrafficPolicy (agStatus (obBody ep))"
    "aep_ready (gvMeta env) (omGeneration (obMeta ep)) ep'" using u(3,4) .
qed

lemma update_ok:
  assumes run: "agent_update env ep s = ((None, ep'), s')" and good: "good s"
  shows "\<exists>policy certs tls. policy_of (gvGetPolicy env) (omNamespace (obMeta ep)) (agPolicyCfg (obBody ep)) s = Some policy \<and>
    getClientCerts env ep s = Inr certs \<and> getAgentTLSTermination env ep s = Inr tls \<and>
    running s' = (running s)(agent_statusID ep \<mapsto> agent_request_for (agSpec (obBody ep)) (gvText env policy) certs tls) \<and>
    aep_ready (gvMeta env) (omGeneration (obMeta ep)) ep'"
proof -
  obtain res err ep1 s1 where ens: "EnsureDomainExists (gvKube env) (gvManager env) aep_domain ep s = (((res, err), ep1), s1)"
    by (metis surj_pair)
  have err: "err = None" using run ens by (cases err) (auto simp: agent_update_def dest!: updateStatus_error)
  then obtain r where r: "res = Some r" using EnsureDomainExists_result [OF ens [unfolded err]] by blast
  let ?core = "\<lambda>b. (agSpec b, agPolicyCfg b)"
  have "?core (ewPutConditions aep_domain cs b) = ?core b" "?core (ewPutDomainRef aep_domain ref b) = ?core b" for cs ref b
    by (simp_all add: aep_domain_def)
  from EnsureDomainExists_keeps [of _ _ _ _ _ _ _ _ ?core, OF ens this]
  have ep1: "agSpec (obBody ep1) = agSpec (obBody ep)" "agPolicyCfg (obBody ep1) = agPolicyCfg (obBody ep)" "obMeta ep1 = obMeta ep" by auto
  have view: "good s1 = good s" "running s1 = running s" "gvGetPolicy env key s1 = gvGetPolicy env key s" "gvGetSecret env key s1 = gvGetSecret env key s" for key
    using frame.EnsureDomainExists_view [OF ens] by (auto dest: fun_cong)
  let ?ep = "set_attached (IntendedSource (agPolicyCfg (obBody ep1))) ep1"
  obtain res2 ep2 where rs: "Resolve (gvMeta env) (dkErrorText (gvKube env)) (gvGetPolicy env) aep_policy ?ep s1 = (res2, ep2)" by fastforce
  then obtain tp where tp: "res2 = Inr tp"
    using run ens err by (cases res2) (auto simp: agent_update_def dest!: updateStatus_error)
  note rs' = rs [unfolded tp]
  have "?core (etpPutConditions aep_policy cs b) = ?core b" for cs b by (simp add: aep_policy_def)
  from Resolve_keeps [of ?core, OF this rs'] ep1
  have ep2: "agSpec (obBody ep2) = agSpec (obBody ep)" "agPolicyCfg (obBody ep2) = agPolicyCfg (obBody ep)" "obMeta ep2 = obMeta ep"
    by (auto simp: set_attached_def)
  let ?final = "set_attached (prSource tp) ep2"
  have ep3: "agSpec (obBody ?final) = agSpec (obBody ep)" "obMeta ?final = obMeta ep" using ep2 by (simp_all add: set_attached_def)
  have nopol: "no_policy_error (gvMeta env) aep_policy ?final"
    using Resolve_no_error [OF meta.object_meta_axioms aep_policies.policy_access_axioms rs']
    by (simp add: no_policy_error_def aep_policy_def set_attached_def)
  have certs_same: "getClientCerts env ?final s1 = getClientCerts env ep s" "getAgentTLSTermination env ?final s1 = getAgentTLSTermination env ep s"
    using secret_free_of_state [of env s1 s, OF view(4)] ep3
    by (simp_all add: getClientCerts_def getAgentTLSTermination_def split: option.split sum.split)
  obtain certs where certs: "getClientCerts env ep s = Inr certs"
    using run ens err rs tp certs_same(1)
    by (cases "getClientCerts env ep s") (auto simp: agent_update_def agent_config_error_def Let_def dest!: updateStatus_error)
  obtain tls where tls: "getAgentTLSTermination env ep s = Inr tls"
    using run ens err rs tp certs_same certs
    by (cases "getAgentTLSTermination env ep s") (auto simp: agent_update_def agent_config_error_def Let_def dest!: updateStatus_error)
  have cr: "create_endpoint env ?final (Some r) (gvText env (prPolicy tp)) certs tls s1 = ((None, ep'), s')"
    using run ens err r rs tp certs_same certs tls by (simp add: agent_update_def Let_def)
  note c = create_endpoint_ok [OF cr nopol view(1) [THEN iffD2, OF good]]
  have "policy_of (gvGetPolicy env) (omNamespace (obMeta ep)) (agPolicyCfg (obBody ep)) s1 = Some (prPolicy tp)"
    using Resolve_policy [OF rs'] ep1 by (simp add: aep_policy_def set_attached_def)
  moreover have "policy_of (gvGetPolicy env) ns cfg s1 = policy_of (gvGetPolicy env) ns cfg s" for ns cfg
    by (simp add: policy_of_def view split: option.split)
  ultimately have "policy_of (gvGetPolicy env) (omNamespace (obMeta ep)) (agPolicyCfg (obBody ep)) s = Some (prPolicy tp)" by simp
  then show ?thesis using certs tls c(1,3) ep3 view(2) by (auto simp: agent_statusID_def)
qed

end


section \<open>A reference world\<close>

record agent_world =
  awDomains :: "(NamespacedName \<times> Domain) list"
  awPolicies :: "(NamespacedName \<times> raw_json) list"
  awSecrets :: "(NamespacedName \<times> secret_data) list"
  awStored :: "(NamespacedName \<times> AgentEndpointObject) list"
  awAgent :: "nat agent_driver \<times> (agent_request \<times> bool) list"

definition agent_kube :: "(string \<Rightarrow> string + go_url) \<Rightarrow> agent_world domain_kube" where
  "agent_kube parse =
     (let k = list_domain_kube parse; put = (\<lambda>w (r, ds). (r, w\<lparr>awDomains := ds\<rparr>))
      in \<lparr>dkMeta = list_meta, dkGet = (\<lambda>key w. dkGet k key (awDomains w)), dkCreate = (\<lambda>d w. put w (dkCreate k d (awDomains w))),
         dkUpdate = (\<lambda>d w. put w (dkUpdate k d (awDomains w))), dkDelete = (\<lambda>key w. (None, w\<lparr>awDomains := AList.delete key (awDomains w)\<rparr>)),
         dkRetry = retry_steps 4, dkParse = parse, dkQuote = (\<lambda>s. s), dkErrorText = (\<lambda>e. [])\<rparr>)"

definition find_or_missing :: "(NamespacedName \<times> 'a) list \<Rightarrow> NamespacedName \<Rightarrow> go_error + 'a" where
  "find_or_missing m key = (case map_of m key of Some x \<Rightarrow> Inr x | None \<Rightarrow> Inl (KubeError KubeNotFound ''not found''))"

definition ref_agent_env :: "(string \<Rightarrow> string + go_url) \<Rightarrow> agent_world agent_env" where
  "ref_agent_env parse =
     \<lparr>gvKube = agent_kube parse, gvManager = \<lparr>mgReclaimPolicy = None, mgControllerLabels = None\<rparr>,
      gvErrors = \<lparr>neIsNotFound = (\<lambda>e. False), neIsErrorCode = (\<lambda>e codes. False)\<rparr>,
      gvText = (\<lambda>raw. case raw of RawEmpty \<Rightarrow> [] | RawInvalid t \<Rightarrow> t | RawDoc j \<Rightarrow> ''document''),
      gvGetPolicy = (\<lambda>key w. find_or_missing (awPolicies w) key), gvGetSecret = (\<lambda>key w. find_or_missing (awSecrets w) key),
      gvX509KeyPair = (\<lambda>c k. Inr (c @ k)), gvCertPool = (\<lambda>t. Some t), gvRetry = retry_steps 4,
      gvStatus = \<lparr>scStatusUpdate = (\<lambda>ep w. (Inr ep, w\<lparr>awStored := AList.update (object_key ep) ep (awStored w)\<rparr>)),
        scLatestVersion = (\<lambda>ep w. Inr (\<lambda>x. x))\<rparr>,
      gvGet = (\<lambda>key w. find_or_missing (awStored w) key),
      gvPatch = (\<lambda>old new w. ((None, new), w\<lparr>awStored := AList.update (object_key new) new (awStored w)\<rparr>)), gvDrainState = None,
      gvCreate = (\<lambda>name spec policy certs tls w. case drive_create list_sdk name spec policy certs tls (awAgent w) of
        (r, a) \<Rightarrow> (r, w\<lparr>awAgent := a\<rparr>)),
      gvDelete = (\<lambda>name w. case drive_delete list_sdk name (awAgent w) of (r, a) \<Rightarrow> (r, w\<lparr>awAgent := a\<rparr>))\<rparr>"

abbreviation agent_good :: "agent_world \<Rightarrow> bool" where
  "agent_good w \<equiv> (case awAgent w of (d, s) \<Rightarrow> driver_ok list_fwd d s)"

abbreviation agent_running :: "agent_world \<Rightarrow> string \<Rightarrow> agent_request option" where
  "agent_running w \<equiv> (case awAgent w of (d, s) \<Rightarrow> serving list_fwd d s)"

interpretation ref_agent_writer: status_writer "gvRetry (ref_agent_env parse)" "gvStatus (ref_agent_env parse)" agStatus agent_running for parse
  by unfold_locales (auto simp: ref_agent_env_def retries_steps)

interpretation ref_agent_frame: domain_frame "gvKube (ref_agent_env parse)"
    "\<lambda>w. (agent_good w, agent_running w, \<lambda>key. gvGetPolicy (ref_agent_env parse) key w, \<lambda>key. gvGetSecret (ref_agent_env parse) key w)" for parse
  by unfold_locales (auto simp: ref_agent_env_def agent_kube_def retries_steps Let_def split: prod.splits)

interpretation ref_running: running_endpoints "gvCreate (ref_agent_env parse)" "gvDelete (ref_agent_env parse)" agent_good agent_running for parse
proof
  fix s :: agent_world and name spec policy certs tls res s' e
  assume good: "agent_good s"
  show "agent_good s' \<and> agent_running s' = (agent_running s)(name \<mapsto> agent_request_for spec policy certs tls)"
    if "gvCreate (ref_agent_env parse) name spec policy certs tls s = ((res, None), s')"
    using list_agent.driven.create_runs [of "awAgent s" name spec policy certs tls res] good that
    by (auto simp: ref_agent_env_def split: prod.splits)
  show "agent_good s' \<and> (\<forall>n. n \<noteq> name \<longrightarrow> agent_running s' n = agent_running s n)"
    if "gvCreate (ref_agent_env parse) name spec policy certs tls s = ((res, Some e), s')"
    using list_agent.driven.create_fails [of "awAgent s" name spec policy certs tls res e] good that
    by (auto simp: ref_agent_env_def split: prod.splits)
  show "agent_good s' \<and> agent_running s' = (agent_running s)(name := None)" if "gvDelete (ref_agent_env parse) name s = (None, s')"
    using list_agent.driven.delete_ends [of "awAgent s" name] good that
    by (auto simp: ref_agent_env_def split: prod.splits)
qed

interpretation ref_agent: agent_service "ref_agent_env parse" agent_good agent_running for parse
proof (intro agent_service.intro ref_running.running_endpoints_axioms ref_agent_writer.status_writer_axioms ref_agent_frame.domain_frame_axioms)
  show "object_meta (gvMeta (ref_agent_env parse))" by (simp add: ref_agent_env_def agent_kube_def Let_def list_meta.object_meta_axioms)
qed

definition witness_aep :: AgentEndpointObject where
  "witness_aep =
     \<lparr>obMeta = \<lparr>omName = ''app'', omNamespace = ''web'', omGeneration = 3, omFinalizers = [FinalizerName], omDeleting = False\<rparr>,
      obBody = \<lparr>agSpec = (witness_agent_spec ''https://app.internal'')\<lparr>aesBindings := [''internal''], aesClientCertificateRefs := [''cert'']\<rparr>,
        agPolicyCfg = None,
        agStatus = \<lparr>gsObservedGeneration = 2, gsAssignedURL = [], gsAttachedTrafficPolicy = [], gsDomainRef = None, gsConditions = []\<rparr>\<rparr>\<rparr>"

definition witness_agent_world :: agent_world where
  "witness_agent_world =
     \<lparr>awDomains = [], awPolicies = [], awSecrets = [(\<lparr>nnName = ''cert'', nnNamespace = ''web''\<rparr>, [(''tls.crt'', ''c''), (''tls.key'', ''k'')])],
      awStored = [], awAgent = (new_agent_driver, [])\<rparr>"

lemma witness_agent_update:
  "fst (fst (agent_update (ref_agent_env witness_parse) witness_aep witness_agent_world)) = None"
  by code_simp


theorem secret_index_complete_witness:
  "getClientCerts (ref_agent_env witness_parse) witness_aep witness_agent_world =
   getClientCerts ((ref_agent_env witness_parse)\<lparr>gvGetSecret := (\<lambda>key w.
     if nn_String key = ''web/cert'' then gvGetSecret (ref_agent_env witness_parse) key w else Inl (PlainError ''unavailable''))\<rparr>)
     witness_aep witness_agent_world"
proof (rule secret_index_complete [THEN conjunct1])
  fix key
  assume "object_key witness_aep \<in> set (findAgentEndpointForSecret [witness_aep] key)"
  then have "nn_String key = ''web/cert''"
    by (simp add: found_for_secret indexClientCertificateRefs_def indexTLSTerminationSecrets_def secretIndexKey_def witness_aep_def
        witness_agent_spec_def split: if_splits)
  then show "gvGetSecret (ref_agent_env witness_parse) key witness_agent_world =
      (if nn_String key = ''web/cert'' then gvGetSecret (ref_agent_env witness_parse) key witness_agent_world
       else Inl (PlainError ''unavailable''))" by simp
qed

end
