(* ===== verification/IP_Policy_Controller.thy ===== *)
theory IP_Policy_Controller
  imports Domain_Manager Bound_Endpoint_Controller
begin

text \<open>
  \<^bold>\<open>internal/controller/ingress/ippolicy_controller.go\<close> and \<^bold>\<open>ippolicy_conditions.go\<close>: an IPPolicy
  resource becomes an IP policy of the ngrok API with its rules. The rules of the API are brought to
  those of the spec in rounds (\<open>IPPolicyDiff\<close>), denials first, so that no round opens what the spec closes.

  The ngrok API and the Kubernetes client are arguments (\<open>ip_env\<close>). So is the order in which Go ranges
  over a map (\<open>ivRange\<close>, for each round of the diff); the properties hold for every order.
\<close>

section \<open>The resource\<close>

record IPPolicyRule =
  plDescription :: string
  plMetadata :: "crd_metadata ptr"
  plCIDR :: string
  plAction :: string

record IPPolicySpec =
  ipDescription :: string
  ipMetadata :: "crd_metadata ptr"
  ipRules :: "IPPolicyRule list"

record IPPolicyStatus =
  ptObservedGeneration :: int
  ptID :: string
  ptConditions :: "Condition list"

record ippolicy_body =
  iyStatus :: IPPolicyStatus
  iySpec :: IPPolicySpec

type_synonym IPPolicy = "ippolicy_body kube_object"

definition map_policy_status :: "(IPPolicyStatus \<Rightarrow> IPPolicyStatus) \<Rightarrow> IPPolicy \<Rightarrow> IPPolicy" where
  "map_policy_status f p = p\<lparr>obBody := (obBody p)\<lparr>iyStatus := f (iyStatus (obBody p))\<rparr>\<rparr>"

definition set_policy_observed :: "int \<Rightarrow> IPPolicy \<Rightarrow> IPPolicy" where
  "set_policy_observed generation = map_policy_status (ptObservedGeneration_update (\<lambda>_. generation))"

abbreviation policy_id :: "IPPolicy \<Rightarrow> string" where
  "policy_id p \<equiv> ptID (iyStatus (obBody p))"

abbreviation policy_spec :: "IPPolicy \<Rightarrow> IPPolicySpec" where
  "policy_spec p \<equiv> iySpec (obBody p)"

lemma map_policy_status_simps [simp]:
  "obMeta (map_policy_status f p) = obMeta p" "iySpec (obBody (map_policy_status f p)) = iySpec (obBody p)"
  "iyStatus (obBody (map_policy_status f p)) = f (iyStatus (obBody p))" "object_key (map_policy_status f p) = object_key p"
  by (simp_all add: map_policy_status_def object_key_def)

definition IPPolicyRuleActionAllow :: string where "IPPolicyRuleActionAllow = ''allow''"
definition IPPolicyRuleActionDeny :: string where "IPPolicyRuleActionDeny = ''deny''"

section \<open>The API\<close>

record RemoteIPPolicy =
  rpID :: string
  rpDescription :: string
  rpMetadata :: string

record RemoteIPRule =
  rrID :: string
  rrPolicyID :: string
  rrCIDR :: string
  rrAction :: string
  rrMetadata :: string
  rrDescription :: string

record IPPolicyRuleCreate =
  ncPolicyID :: string
  ncCIDR :: string
  ncAction :: string
  ncMetadata :: string
  ncDescription :: string

record IPPolicyRuleUpdate =
  nuID :: string
  nuMetadata :: string
  nuDescription :: string
  nuCIDR :: string

record 's ip_env =
  ivMeta :: kube_meta
  ivErrors :: ngrok_errors
  ivErrorText :: "go_error \<Rightarrow> string"
  ivText :: "raw_json \<Rightarrow> string"
  ivRange :: "nat \<Rightarrow> string list \<Rightarrow> string list"
  ivGetPolicy :: "string \<Rightarrow> 's \<Rightarrow> go_error + RemoteIPPolicy"
  ivCreatePolicy :: "string \<Rightarrow> string \<Rightarrow> 's \<Rightarrow> (go_error + RemoteIPPolicy) \<times> 's"
  ivUpdatePolicy :: "string \<Rightarrow> string \<Rightarrow> string \<Rightarrow> 's \<Rightarrow> go_error option \<times> 's"
  ivDeletePolicy :: "string \<Rightarrow> 's \<Rightarrow> go_error option \<times> 's"
  ivListRules :: "'s \<Rightarrow> RemoteIPRule list \<times> go_error option"
  ivCreateRule :: "IPPolicyRuleCreate \<Rightarrow> 's \<Rightarrow> go_error option \<times> 's"
  ivUpdateRule :: "IPPolicyRuleUpdate \<Rightarrow> 's \<Rightarrow> go_error option \<times> 's"
  ivDeleteRule :: "string \<Rightarrow> 's \<Rightarrow> go_error option \<times> 's"
  ivRetry :: "(IPPolicy \<times> 's) retrier"
  ivStatus :: "(ippolicy_body, 's) status_client"
  ivGet :: "NamespacedName \<Rightarrow> 's \<Rightarrow> go_error + IPPolicy"
  ivPatch :: "(ippolicy_body, go_error, 's) patcher"
  ivDrainState :: "('s \<Rightarrow> bool \<times> 's) option"

section \<open>Conditions\<close>

definition ConditionIPPolicyReady :: string where "ConditionIPPolicyReady = ''Ready''"
definition ConditionIPPolicyCreated :: string where "ConditionIPPolicyCreated = ''IPPolicyCreated''"
definition ConditionIPPolicyRulesConfigured :: string where "ConditionIPPolicyRulesConfigured = ''IPPolicyRulesConfigured''"
definition legacyConditionIPPolicyRulesConfigured :: string where "legacyConditionIPPolicyRulesConfigured = ''RulesConfigured''"

lemmas ip_condition_defs = ConditionIPPolicyReady_def ConditionIPPolicyCreated_def ConditionIPPolicyRulesConfigured_def
  legacyConditionIPPolicyRulesConfigured_def

definition set_ip_condition :: "kube_meta \<Rightarrow> string \<Rightarrow> bool \<Rightarrow> string \<Rightarrow> string \<Rightarrow> IPPolicy \<Rightarrow> IPPolicy" where
  "set_ip_condition km condType ok reason message p =
     map_policy_status (ptConditions_update (Set_condition km (omGeneration (obMeta p)) condType ok reason message)) p"

definition setIPPolicyReadyCondition :: "kube_meta \<Rightarrow> bool \<Rightarrow> string \<Rightarrow> string \<Rightarrow> IPPolicy \<Rightarrow> IPPolicy" where
  "setIPPolicyReadyCondition km = set_ip_condition km ConditionIPPolicyReady"

definition setIPPolicyCreatedCondition :: "kube_meta \<Rightarrow> bool \<Rightarrow> string \<Rightarrow> string \<Rightarrow> IPPolicy \<Rightarrow> IPPolicy" where
  "setIPPolicyCreatedCondition km = set_ip_condition km ConditionIPPolicyCreated"

definition setIPPolicyRulesConfiguredCondition :: "kube_meta \<Rightarrow> bool \<Rightarrow> string \<Rightarrow> string \<Rightarrow> IPPolicy \<Rightarrow> IPPolicy" where
  "setIPPolicyRulesConfiguredCondition km ok reason message p =
     map_policy_status (ptConditions_update (kmRemoveStatusCondition km legacyConditionIPPolicyRulesConfigured))
       (set_ip_condition km ConditionIPPolicyRulesConfigured ok reason message p)"

definition hasIPPolicyCreatedCondition :: "kube_meta \<Rightarrow> IPPolicy ptr \<Rightarrow> bool" where
  "hasIPPolicyCreatedCondition km p =
     (case p of
        None \<Rightarrow> False
      | Some pol \<Rightarrow>
          (case kmFindStatusCondition km (ptConditions (iyStatus (obBody pol))) ConditionIPPolicyCreated of
             Some c \<Rightarrow> cnStatus c = ''True'' | None \<Rightarrow> False))"

definition calculateIPPolicyReadyCondition :: "kube_meta \<Rightarrow> IPPolicy \<Rightarrow> IPPolicy" where
  "calculateIPPolicyReadyCondition km p =
     (let ipPolicyCreated = hasIPPolicyCreatedCondition km (Some p);
          ipPolicyRulesConfigured =
            (case kmFindStatusCondition km (ptConditions (iyStatus (obBody p))) ConditionIPPolicyRulesConfigured of
               Some c \<Rightarrow> cnStatus c = ''True'' | None \<Rightarrow> False)
      in if ipPolicyCreated \<and> ipPolicyRulesConfigured then setIPPolicyReadyCondition km True ''IPPolicyActive'' ''IP Policy is active'' p
         else if ipPolicyCreated \<and> \<not> ipPolicyRulesConfigured
         then setIPPolicyReadyCondition km False ''IPPolicyRulesConfigurationError'' ''IP Policy rules are not configured'' p
         else setIPPolicyReadyCondition km False ''IPPolicyCreationFailed'' ''IP Policy is not ready'' p)"

section \<open>The difference between remote and desired rules\<close>

record IPPolicyDiff =
  dfIdx :: nat
  dfPolicyID :: string
  dfRemoteDeny :: "(string \<times> RemoteIPRule) list"
  dfRemoteAllow :: "(string \<times> RemoteIPRule) list"
  dfSpecDeny :: "(string \<times> IPPolicyRule) list"
  dfSpecAllow :: "(string \<times> IPPolicyRule) list"
  dfCreates :: "IPPolicyRuleCreate list"
  dfDeletes :: "RemoteIPRule list"
  dfUpdates :: "IPPolicyRuleUpdate list"

definition group_remote :: "RemoteIPRule \<Rightarrow> IPPolicyDiff \<Rightarrow> IPPolicyDiff" where
  "group_remote rule diff =
     (if rrAction rule = IPPolicyRuleActionDeny then diff\<lparr>dfRemoteDeny := AList.update (rrCIDR rule) rule (dfRemoteDeny diff)\<rparr>
      else diff\<lparr>dfRemoteAllow := AList.update (rrCIDR rule) rule (dfRemoteAllow diff)\<rparr>)"

definition group_spec :: "IPPolicyRule \<Rightarrow> IPPolicyDiff \<Rightarrow> IPPolicyDiff" where
  "group_spec rule diff =
     (if plAction rule = IPPolicyRuleActionDeny then diff\<lparr>dfSpecDeny := AList.update (plCIDR rule) rule (dfSpecDeny diff)\<rparr>
      else diff\<lparr>dfSpecAllow := AList.update (plCIDR rule) rule (dfSpecAllow diff)\<rparr>)"

definition newIPPolicyDiff :: "string \<Rightarrow> RemoteIPRule list \<Rightarrow> IPPolicyRule list \<Rightarrow> IPPolicyDiff" where
  "newIPPolicyDiff policyID remote spec =
     fold group_spec spec (fold group_remote remote
       \<lparr>dfIdx = 0, dfPolicyID = policyID, dfRemoteDeny = [], dfRemoteAllow = [], dfSpecDeny = [], dfSpecAllow = [],
        dfCreates = [], dfDeletes = [], dfUpdates = []\<rparr>)"

definition existsInSpec :: "IPPolicyDiff \<Rightarrow> string \<Rightarrow> bool" where
  "existsInSpec d cidr \<longleftrightarrow> map_of (dfSpecDeny d) cidr \<noteq> None \<or> map_of (dfSpecAllow d) cidr \<noteq> None"

definition existsInRemote :: "IPPolicyDiff \<Rightarrow> string \<Rightarrow> bool" where
  "existsInRemote d cidr \<longleftrightarrow> map_of (dfRemoteDeny d) cidr \<noteq> None \<or> map_of (dfRemoteAllow d) cidr \<noteq> None"

definition createRule :: "(raw_json \<Rightarrow> string) \<Rightarrow> IPPolicyDiff \<Rightarrow> IPPolicyRule \<Rightarrow> IPPolicyRuleCreate" where
  "createRule txt d rule =
     \<lparr>ncPolicyID = dfPolicyID d, ncCIDR = plCIDR rule, ncAction = plAction rule, ncMetadata = txt (MetadataAPIString (plMetadata rule)),
      ncDescription = plDescription rule\<rparr>"

definition updateIfNeeded :: "(raw_json \<Rightarrow> string) \<Rightarrow> IPPolicyRule \<Rightarrow> RemoteIPRule \<Rightarrow> IPPolicyRuleUpdate list" where
  "updateIfNeeded txt rule remoteRule =
     (let metadata = txt (MetadataAPIString (plMetadata rule))
      in if plCIDR rule = rrCIDR remoteRule \<and> plAction rule = rrAction remoteRule \<and>
           (metadata \<noteq> rrMetadata remoteRule \<or> plDescription rule \<noteq> rrDescription remoteRule)
         then [\<lparr>nuID = rrID remoteRule, nuMetadata = metadata, nuDescription = plDescription rule, nuCIDR = plCIDR rule\<rparr>]
         else [])"

text \<open>The entries of a map in the order in which they are ranged over.\<close>

definition ranging :: "(string list \<Rightarrow> string list) \<Rightarrow> (string \<times> 'v) list \<Rightarrow> (string \<times> 'v) list" where
  "ranging ord xs = concat (map (\<lambda>k. case map_of xs k of Some v \<Rightarrow> [(k, v)] | None \<Rightarrow> []) (ord (map fst xs)))"

text \<open>Of these entries, the values whose keys satisfy a condition, and what the values with a partner yield.\<close>

definition picked :: "(string \<Rightarrow> bool) \<Rightarrow> (string \<times> 'v) list \<Rightarrow> 'v list" where
  "picked P xs = map snd (filter (\<lambda>(c, x). P c) xs)"

definition partnered :: "('v \<Rightarrow> 'r \<Rightarrow> 'y list) \<Rightarrow> (string \<times> 'r) list \<Rightarrow> (string \<times> 'v) list \<Rightarrow> 'y list" where
  "partnered g m xs = concat (map (\<lambda>(c, x). case map_of m c of Some r \<Rightarrow> g x r | None \<Rightarrow> []) xs)"

text \<open>What a round deletes, creates and updates, in this order.\<close>

definition diff_round ::
  "(raw_json \<Rightarrow> string) \<Rightarrow> (string list \<Rightarrow> string list) \<Rightarrow> IPPolicyDiff \<Rightarrow> nat \<Rightarrow>
   RemoteIPRule list \<times> IPPolicyRuleCreate list \<times> IPPolicyRuleUpdate list" where
  "diff_round txt ord d idx =
     (if idx = 0 then ([], map (createRule txt d) (picked (\<lambda>c. \<not> existsInRemote d c) (ranging ord (dfSpecDeny d))), [])
      else if idx = 1 then
        (partnered (\<lambda>rule r. [r]) (dfRemoteAllow d) (ranging ord (dfSpecDeny d)),
         map (createRule txt d) (picked (\<lambda>c. map_of (dfRemoteAllow d) c \<noteq> None) (ranging ord (dfSpecDeny d))), [])
      else if idx = 2 then
        (partnered (\<lambda>rule r. [r]) (dfRemoteDeny d) (ranging ord (dfSpecAllow d)),
         map (createRule txt d) (picked (\<lambda>c. map_of (dfRemoteDeny d) c \<noteq> None) (ranging ord (dfSpecAllow d))), [])
      else if idx = 3 then ([], map (createRule txt d) (picked (\<lambda>c. \<not> existsInRemote d c) (ranging ord (dfSpecAllow d))), [])
      else if idx = 4 then
        (picked (\<lambda>c. \<not> existsInSpec d c) (ranging ord (dfRemoteAllow d)) @ picked (\<lambda>c. \<not> existsInSpec d c) (ranging ord (dfRemoteDeny d)), [], [])
      else if idx = 5 then
        ([], [], partnered (updateIfNeeded txt) (dfRemoteAllow d) (ranging ord (dfSpecAllow d)) @
           partnered (updateIfNeeded txt) (dfRemoteDeny d) (ranging ord (dfSpecDeny d)))
      else ([], [], []))"

definition diff_Next :: "(raw_json \<Rightarrow> string) \<Rightarrow> (nat \<Rightarrow> string list \<Rightarrow> string list) \<Rightarrow> IPPolicyDiff \<Rightarrow> bool \<times> IPPolicyDiff" where
  "diff_Next txt ord d =
     (case diff_round txt (ord (dfIdx d)) d (dfIdx d) of
        (deletes, creates, updates) \<Rightarrow>
          (dfIdx d < 6, d\<lparr>dfIdx := dfIdx d + 1, dfCreates := creates, dfDeletes := deletes, dfUpdates := updates\<rparr>))"

section \<open>Bringing the rules up to date\<close>

text \<open>A call for each element; the first error ends the loop.\<close>

fun each_call :: "('a \<Rightarrow> 's \<Rightarrow> go_error option \<times> 's) \<Rightarrow> 'a list \<Rightarrow> 's \<Rightarrow> go_error option \<times> 's" where
  "each_call f [] s = (None, s)"
| "each_call f (x # xs) s = (case f x s of (Some e, s') \<Rightarrow> (Some e, s') | (None, s') \<Rightarrow> each_call f xs s')"

definition run_round :: "'s ip_env \<Rightarrow> IPPolicyDiff \<Rightarrow> 's \<Rightarrow> go_error option \<times> 's" where
  "run_round env d s =
     (case each_call (\<lambda>r. ivDeleteRule env (rrID r)) (dfDeletes d) s of
        (Some e, s1) \<Rightarrow> (Some e, s1)
      | (None, s1) \<Rightarrow>
          (case each_call (ivCreateRule env) (dfCreates d) s1 of
             (Some e, s2) \<Rightarrow> (Some e, s2)
           | (None, s2) \<Rightarrow> each_call (ivUpdateRule env) (dfUpdates d) s2))"

function rounds :: "'s ip_env \<Rightarrow> IPPolicyDiff \<Rightarrow> 's \<Rightarrow> go_error option \<times> 's" where
  "rounds env d s =
     (case diff_Next (ivText env) (ivRange env) d of
        (found, d') \<Rightarrow>
          if \<not> found then (None, s)
          else (case run_round env d' s of
                  (Some e, s') \<Rightarrow> (Some e, s')
                | (None, s') \<Rightarrow> rounds env d' s'))"
  by pat_completeness auto
termination
  by (relation "measure (\<lambda>(env, d, s). 6 - dfIdx d)") (auto simp: diff_Next_def split: prod.splits)

declare rounds.simps [simp del]

definition getRemotePolicyRules :: "'s ip_env \<Rightarrow> string \<Rightarrow> 's \<Rightarrow> RemoteIPRule list \<times> go_error option" where
  "getRemotePolicyRules env policyID s =
     (case ivListRules env s of (rules, err) \<Rightarrow> (filter (\<lambda>r. rrPolicyID r = policyID) rules, err))"

definition NgrokOpErrInvalidCIDR :: EnrichedError where
  "NgrokOpErrInvalidCIDR = \<lparr>eeName = ''ERR_NGROK_1406'', eeCode = 1406, eeStatusCode = 400\<rparr>"

definition setConditionsBasedOnErr :: "'s ip_env \<Rightarrow> go_error \<Rightarrow> IPPolicy \<Rightarrow> IPPolicy" where
  "setConditionsBasedOnErr env e p =
     (let msg = error_text (ivErrorText env) e;
          reason = (if neIsErrorCode (ivErrors env) e [eeCode NgrokOpErrInvalidCIDR] then ''IPPolicyInvalidCIDR'' else ''IPPolicyRulesConfigurationError'')
      in setIPPolicyReadyCondition (ivMeta env) False reason msg (setIPPolicyRulesConfiguredCondition (ivMeta env) False reason msg p))"

definition createOrUpdateIPPolicyRules :: "'s ip_env \<Rightarrow> IPPolicy \<Rightarrow> 's \<Rightarrow> (go_error option \<times> IPPolicy) \<times> 's" where
  "createOrUpdateIPPolicyRules env p s =
     (case getRemotePolicyRules env (policy_id p) s of
        (_, Some e) \<Rightarrow> ((Some e, p), s)
      | (remoteRules, None) \<Rightarrow>
          (let p1 = (if remoteRules = []
                     then setIPPolicyRulesConfiguredCondition (ivMeta env) False ''IPPolicyRulesConfigurationError'' ''No rules configured for IP Policy'' p
                     else p)
           in case rounds env (newIPPolicyDiff (policy_id p) remoteRules (ipRules (policy_spec p))) s of
                (Some e, s') \<Rightarrow> ((Some e, setConditionsBasedOnErr env e p1), s')
              | (None, s') \<Rightarrow>
                  ((None, setIPPolicyRulesConfiguredCondition (ivMeta env) True ''IPPolicyRulesConfigured'' ''All rules configured for IP Policy'' p1), s')))"

section \<open>The callbacks\<close>

definition ip_ReconcileStatus :: "'s ip_env \<Rightarrow> IPPolicy \<Rightarrow> go_error option \<Rightarrow> 's \<Rightarrow> (go_error option \<times> IPPolicy) \<times> 's" where
  "ip_ReconcileStatus env = ReconcileStatus (ivRetry env) (ivStatus env) (Some set_policy_observed)"

definition configure_rules :: "'s ip_env \<Rightarrow> IPPolicy \<Rightarrow> 's \<Rightarrow> (go_error option \<times> IPPolicy) \<times> 's" where
  "configure_rules env p s =
     (case createOrUpdateIPPolicyRules env p s of
        ((err, p1), s1) \<Rightarrow> ip_ReconcileStatus env (calculateIPPolicyReadyCondition (ivMeta env) p1) err s1)"

abbreviation api_metadata :: "'s ip_env \<Rightarrow> IPPolicy \<Rightarrow> string" where
  "api_metadata env p \<equiv> ivText env (MetadataAPIString (ipMetadata (policy_spec p)))"

definition ip_create :: "'s ip_env \<Rightarrow> (ippolicy_body, 's) callback" where
  "ip_create env p s =
     (case ivCreatePolicy env (ipDescription (policy_spec p)) (api_metadata env p) s of
        (Inl e, s1) \<Rightarrow> ((Some e, setIPPolicyCreatedCondition (ivMeta env) False ''IPPolicyCreationFailed'' (error_text (ivErrorText env) e) p), s1)
      | (Inr remotePolicy, s1) \<Rightarrow>
          configure_rules env (setIPPolicyCreatedCondition (ivMeta env) True ''IPPolicyCreated'' ''IP Policy successfully created''
            (map_policy_status (ptID_update (\<lambda>_. rpID remotePolicy)) p)) s1)"

definition ip_update :: "'s ip_env \<Rightarrow> (ippolicy_body, 's) callback" where
  "ip_update env p s =
     (case ivGetPolicy env (policy_id p) s of
        Inl e \<Rightarrow>
          (let msg = error_text (ivErrorText env) e; km = ivMeta env;
               p1 = (if neIsNotFound (ivErrors env) e
                     then map_policy_status (\<lambda>_. \<lparr>ptObservedGeneration = 0, ptID = [], ptConditions = []\<rparr>) p
                     else setIPPolicyReadyCondition km False ''IPPolicyCreationFailed'' msg
                       (setIPPolicyRulesConfiguredCondition km False ''IPPolicyCreationFailed'' msg
                         (setIPPolicyCreatedCondition km False ''IPPolicyCreationFailed'' msg p)))
           in ip_ReconcileStatus env p1 (Some e) s)
      | Inr remotePolicy \<Rightarrow>
          (let p1 = setIPPolicyCreatedCondition (ivMeta env) True ''IPPolicyCreated'' ''IP Policy already exists'' p
           in if rpDescription remotePolicy \<noteq> ipDescription (policy_spec p) \<or> rpMetadata remotePolicy \<noteq> api_metadata env p
              then (case ivUpdatePolicy env (policy_id p) (ipDescription (policy_spec p)) (api_metadata env p) s of
                      (Some e, s1) \<Rightarrow>
                        ((Some e, setIPPolicyReadyCondition (ivMeta env) False ''IPPolicyCreationFailed'' (error_text (ivErrorText env) e) p1), s1)
                    | (None, s1) \<Rightarrow> configure_rules env p1 s1)
              else configure_rules env p1 s))"

definition ip_delete :: "'s ip_env \<Rightarrow> (ippolicy_body, 's) callback" where
  "ip_delete env p s =
     (case ivDeletePolicy env (policy_id p) s of
        (err, s') \<Rightarrow>
          ((err, if (case err of None \<Rightarrow> True | Some e \<Rightarrow> neIsNotFound (ivErrors env) e)
                 then map_policy_status (ptID_update (\<lambda>_. [])) p else p), s'))"

definition ip_base_controller :: "'s ip_env \<Rightarrow> (ippolicy_body, 's) BaseController" where
  "ip_base_controller env =
     \<lparr>bcGet = ivGet env, bcPatch = ivPatch env, bcDrainState = ivDrainState env, bcStatusID = Some policy_id,
      bcCreate = Some (ip_create env), bcUpdate = Some (ip_update env), bcDelete = Some (ip_delete env), bcErrResult = None\<rparr>"

definition ip_reconcile :: "'s ip_env \<Rightarrow> NamespacedName \<Rightarrow> 's \<Rightarrow> reconcile_result \<times> 's" where
  "ip_reconcile env req s = Reconcile (ivMeta env) (ivErrors env) (ip_base_controller env) req s"

section \<open>The rounds as one plan\<close>

datatype rule_call = DeleteRule RemoteIPRule | CreateRule IPPolicyRuleCreate | UpdateRule IPPolicyRuleUpdate

fun do_call :: "'s ip_env \<Rightarrow> rule_call \<Rightarrow> 's \<Rightarrow> go_error option \<times> 's" where
  "do_call env (DeleteRule r) = ivDeleteRule env (rrID r)"
| "do_call env (CreateRule c) = ivCreateRule env c"
| "do_call env (UpdateRule u) = ivUpdateRule env u"

definition round_calls :: "RemoteIPRule list \<times> IPPolicyRuleCreate list \<times> IPPolicyRuleUpdate list \<Rightarrow> rule_call list" where
  "round_calls = (\<lambda>(ds, cs, us). map DeleteRule ds @ map CreateRule cs @ map UpdateRule us)"

definition diff_plan :: "(raw_json \<Rightarrow> string) \<Rightarrow> (nat \<Rightarrow> string list \<Rightarrow> string list) \<Rightarrow> IPPolicyDiff \<Rightarrow> nat \<Rightarrow> rule_call list" where
  "diff_plan txt ord d i = concat (map (\<lambda>i. round_calls (diff_round txt (ord i) d i)) [i..<6])"

lemma each_call_append:
  "each_call f (xs @ ys) s = (case each_call f xs s of (Some e, s') \<Rightarrow> (Some e, s') | (None, s') \<Rightarrow> each_call f ys s')"
  by (induction xs arbitrary: s) (auto split: prod.split option.split)

lemma each_call_map: "each_call f (map g xs) s = each_call (\<lambda>x. f (g x)) xs s"
  by (induction xs arbitrary: s) (auto split: prod.split option.split)

lemma run_round_calls: "run_round env d s = each_call (do_call env) (round_calls (dfDeletes d, dfCreates d, dfUpdates d)) s"
  by (simp add: run_round_def round_calls_def each_call_append each_call_map split: prod.split option.split)

lemma diff_round_maps:
  "diff_round txt ord (d\<lparr>dfIdx := i, dfCreates := cs, dfDeletes := ds, dfUpdates := us\<rparr>) = diff_round txt ord d"
  by (rule ext) (simp add: diff_round_def existsInSpec_def existsInRemote_def createRule_def [abs_def])

lemma rounds_plan: "rounds env d s = each_call (do_call env) (diff_plan (ivText env) (ivRange env) d (dfIdx d)) s"
proof (induction env d s rule: rounds.induct)
  case (1 env d s)
  obtain ds cs us where r: "diff_round (ivText env) (ivRange env (dfIdx d)) d (dfIdx d) = (ds, cs, us)" by (metis prod_cases3)
  let ?d = "d\<lparr>dfIdx := dfIdx d + 1, dfCreates := cs, dfDeletes := ds, dfUpdates := us\<rparr>"
  have n: "diff_Next (ivText env) (ivRange env) d = (dfIdx d < 6, ?d)" by (simp add: diff_Next_def r)
  show ?case
  proof (cases "dfIdx d < 6")
    case True
    have "diff_plan (ivText env) (ivRange env) ?d (dfIdx d + 1) = diff_plan (ivText env) (ivRange env) d (dfIdx d + 1)"
      by (simp add: diff_plan_def diff_round_maps)
    moreover have "diff_plan (ivText env) (ivRange env) d (dfIdx d) =
        round_calls (ds, cs, us) @ diff_plan (ivText env) (ivRange env) d (dfIdx d + 1)"
      using True r by (simp add: diff_plan_def upt_rec [of "dfIdx d"])
    moreover obtain err s1 where run: "run_round env ?d s = (err, s1)" by fastforce
    moreover have "rounds env ?d s1 = each_call (do_call env) (diff_plan (ivText env) (ivRange env) ?d (dfIdx ?d)) s1" if "err = None"
      using 1 [OF n [symmetric]] True run that by simp
    ultimately show ?thesis
      using True by (subst rounds.simps) (simp add: n run_round_calls each_call_append split: option.split)
  qed (simp add: rounds.simps [of env d] n diff_plan_def)
qed

text \<open>What a plan deletes, creates and updates.\<close>

definition deleted_ids :: "rule_call list \<Rightarrow> string set" where
  "deleted_ids calls = {rrID r | r. DeleteRule r \<in> set calls}"

definition created :: "rule_call list \<Rightarrow> IPPolicyRuleCreate set" where
  "created calls = {c. CreateRule c \<in> set calls}"

fun updates_of :: "string \<Rightarrow> rule_call list \<Rightarrow> IPPolicyRuleUpdate list" where
  "updates_of rid [] = []"
| "updates_of rid (c # cs) = (case c of UpdateRule u \<Rightarrow> if nuID u = rid then u # updates_of rid cs else updates_of rid cs | _ \<Rightarrow> updates_of rid cs)"

definition touched_ids :: "rule_call list \<Rightarrow> string set" where
  "touched_ids calls = deleted_ids calls \<union> {nuID u | u. UpdateRule u \<in> set calls}"

lemma plan_sets_Cons [simp]:
  "deleted_ids (DeleteRule r # cs) = insert (rrID r) (deleted_ids cs)" "deleted_ids (CreateRule c # cs) = deleted_ids cs"
  "deleted_ids (UpdateRule u # cs) = deleted_ids cs" "deleted_ids [] = {}"
  "created (DeleteRule r # cs) = created cs" "created (CreateRule c # cs) = insert c (created cs)" "created (UpdateRule u # cs) = created cs"
  "created [] = {}" "touched_ids (DeleteRule r # cs) = insert (rrID r) (touched_ids cs)" "touched_ids (CreateRule c # cs) = touched_ids cs"
  "touched_ids (UpdateRule u # cs) = insert (nuID u) (touched_ids cs)"
  by (auto simp: deleted_ids_def created_def touched_ids_def)

lemma created_append [simp]: "created (xs @ ys) = created xs \<union> created ys"
  by (auto simp: created_def)

lemma deleted_ids_append [simp]: "deleted_ids (xs @ ys) = deleted_ids xs \<union> deleted_ids ys"
  by (auto simp: deleted_ids_def)

lemma set_updates_of: "set (updates_of rid calls) = {u. UpdateRule u \<in> set calls \<and> nuID u = rid}"
  by (induction calls) (auto split: rule_call.splits)

lemma updates_of_untouched: "rid \<notin> touched_ids calls \<Longrightarrow> updates_of rid calls = []"
proof -
  assume "rid \<notin> touched_ids calls"
  then have "set (updates_of rid calls) = {}" by (auto simp: set_updates_of touched_ids_def)
  then show ?thesis by simp
qed

section \<open>The interface of the API\<close>

definition created_rule :: "string \<Rightarrow> IPPolicyRuleCreate \<Rightarrow> RemoteIPRule" where
  "created_rule rid c =
     \<lparr>rrID = rid, rrPolicyID = ncPolicyID c, rrCIDR = ncCIDR c, rrAction = ncAction c, rrMetadata = ncMetadata c, rrDescription = ncDescription c\<rparr>"

definition updated_rule :: "IPPolicyRuleUpdate \<Rightarrow> RemoteIPRule \<Rightarrow> RemoteIPRule" where
  "updated_rule u r = r\<lparr>rrMetadata := nuMetadata u, rrDescription := nuDescription u, rrCIDR := nuCIDR u\<rparr>"

text \<open>
  What the controller relies on. \<open>rules\<close> are the rules that the API holds, by ID; an ID is \<open>issued\<close> once
  and never reused. Listing answers with all rules; a call that succeeds has its effect and a call that
  fails has none. Ranging over a map visits all its keys, in some order.
\<close>

locale ip_rules_api =
  fixes env :: "'s ip_env" and rules :: "'s \<Rightarrow> string \<Rightarrow> RemoteIPRule option" and issued :: "'s \<Rightarrow> string set"
  assumes range_keys: "set (ivRange env i ks) = set ks"
    and rule_id: "rules s rid = Some r \<Longrightarrow> rrID r = rid"
    and dom_issued: "rules s rid \<noteq> None \<Longrightarrow> rid \<in> issued s"
    and list_rules: "ivListRules env s = (rs, None) \<Longrightarrow> set rs = ran (rules s)"
    and create_rule: "ivCreateRule env c s = (None, s') \<Longrightarrow>
      \<exists>rid. rid \<notin> issued s \<and> rules s' = (rules s)(rid \<mapsto> created_rule rid c) \<and> issued s' = insert rid (issued s)"
    and update_rule: "ivUpdateRule env u s = (None, s') \<Longrightarrow>
      \<exists>r. rules s (nuID u) = Some r \<and> rules s' = (rules s)(nuID u \<mapsto> updated_rule u r) \<and> issued s' = issued s"
    and delete_rule: "ivDeleteRule env rid s = (None, s') \<Longrightarrow> rules s' = (rules s)(rid := None) \<and> issued s' = issued s"
    and create_failed: "ivCreateRule env c s = (Some e, s') \<Longrightarrow> rules s' = rules s"
    and update_failed: "ivUpdateRule env u s = (Some e, s') \<Longrightarrow> rules s' = rules s"
    and delete_failed: "ivDeleteRule env rid s = (Some e, s') \<Longrightarrow> rules s' = rules s"

text \<open>The rules after some calls: the old ones that are not deleted, updated, and a rule for each create.\<close>

definition calls_effect :: "('s \<Rightarrow> string \<Rightarrow> RemoteIPRule option) \<Rightarrow> ('s \<Rightarrow> string set) \<Rightarrow> rule_call list \<Rightarrow> 's \<Rightarrow> 's \<Rightarrow> bool" where
  "calls_effect rules issued calls s s' \<longleftrightarrow>
     (\<forall>rid \<in> issued s. rules s' rid = (if rid \<in> deleted_ids calls then None else map_option (fold updated_rule (updates_of rid calls)) (rules s rid))) \<and>
     (\<forall>rid r. rid \<notin> issued s \<longrightarrow> rules s' rid = Some r \<longrightarrow> (\<exists>c \<in> created calls. r = created_rule rid c)) \<and>
     (\<forall>c \<in> created calls. \<exists>rid. rid \<notin> issued s \<and> rules s' rid = Some (created_rule rid c))"

context ip_rules_api begin

lemma do_call_failed: "do_call env c s = (Some e, s') \<Longrightarrow> rules s' = rules s"
  by (cases c) (auto dest: create_failed update_failed delete_failed)

lemma calls_effect_refl: "rules s' = rules s \<Longrightarrow> calls_effect rules issued [] s s'"
  using dom_issued by (fastforce simp: calls_effect_def option.map_id)

lemma calls_effect_Cons:
  assumes run: "do_call env c s = (None, s1)" and eff: "calls_effect rules issued cs s1 s'" and ids: "touched_ids (c # cs) \<subseteq> issued s"
  shows "calls_effect rules issued (c # cs) s s'"
proof (cases c)
  case (DeleteRule r)
  then have s1: "rules s1 = (rules s)(rrID r := None)" "issued s1 = issued s" using run delete_rule by auto
  then show ?thesis using eff DeleteRule by (auto simp: calls_effect_def)
next
  case (UpdateRule u)
  then obtain r where r: "rules s (nuID u) = Some r" "rules s1 = (rules s)(nuID u \<mapsto> updated_rule u r)" "issued s1 = issued s"
    using update_rule [of u s s1] run by auto
  then show ?thesis using eff UpdateRule by (auto simp: calls_effect_def)
next
  case (CreateRule x)
  then obtain new where new: "new \<notin> issued s" "rules s1 = (rules s)(new \<mapsto> created_rule new x)" "issued s1 = insert new (issued s)"
    using create_rule [of x s s1] run by auto
  have "touched_ids cs \<subseteq> issued s" using ids CreateRule by simp
  then have "new \<notin> touched_ids cs" using new(1) by blast
  then have "new \<notin> deleted_ids cs" "updates_of new cs = []" by (auto simp: touched_ids_def updates_of_untouched)
  then have made: "rules s' new = Some (created_rule new x)" using eff new by (simp add: calls_effect_def)
  have old: "rules s' rid = (if rid \<in> deleted_ids cs then None else map_option (fold updated_rule (updates_of rid cs)) (rules s rid))"
    if "rid \<in> issued s" for rid
    using eff new that by (auto simp: calls_effect_def)
  show ?thesis
    unfolding calls_effect_def CreateRule
  proof (intro conjI ballI allI impI)
    show "\<exists>y \<in> created (CreateRule x # cs). r = created_rule rid y" if "rid \<notin> issued s" "rules s' rid = Some r" for rid r
      using eff new that made by (cases "rid = new") (auto simp: calls_effect_def)
    show "\<exists>rid. rid \<notin> issued s \<and> rules s' rid = Some (created_rule rid y)" if "y \<in> created (CreateRule x # cs)" for y
      using eff new that made by (cases "y = x") (auto simp: calls_effect_def)
  qed (use old in auto)
qed

lemma each_call_effect:
  assumes "each_call (do_call env) calls s = (err, s')" "touched_ids calls \<subseteq> issued s"
  shows "\<exists>ran rest. calls = ran @ rest \<and> (err = None \<longrightarrow> rest = []) \<and> calls_effect rules issued ran s s'"
  using assms
proof (induction calls arbitrary: s)
  case Nil
  then show ?case using calls_effect_refl by auto
next
  case (Cons c cs)
  obtain err1 s1 where run: "do_call env c s = (err1, s1)" by fastforce
  show ?case
  proof (cases err1)
    case None
    have "issued s \<subseteq> issued s1"
      using run None by (cases c) (auto dest!: create_rule update_rule delete_rule)
    moreover have "touched_ids cs \<subseteq> touched_ids (c # cs)" by (auto simp: touched_ids_def deleted_ids_def)
    ultimately have "touched_ids cs \<subseteq> issued s1" using Cons.prems(2) by blast
    moreover have "each_call (do_call env) cs s1 = (err, s')" using Cons.prems(1) run None by simp
    ultimately obtain rn rest where r: "cs = rn @ rest" "err = None \<longrightarrow> rest = []" "calls_effect rules issued rn s1 s'"
      using Cons.IH [of s1] by blast
    have "touched_ids (c # rn) \<subseteq> touched_ids (c # cs)" using r(1) by (auto simp: touched_ids_def deleted_ids_def)
    then have "calls_effect rules issued (c # rn) s s'"
      using calls_effect_Cons [of c s s1 rn s'] run None r(3) Cons.prems(2) by blast
    then show ?thesis using r by (intro exI [of _ "c # rn"] exI [of _ rest]) simp
  next
    case (Some e)
    then have "err = Some e" "s' = s1" using Cons.prems run by auto
    then show ?thesis using do_call_failed run Some calls_effect_refl by (intro exI [of _ "[]"] exI [of _ "c # cs"]) auto
  qed
qed

end

section \<open>What the rounds do\<close>

text \<open>Both kinds of rules at once: \<open>True\<close> stands for denials.\<close>

abbreviation denying :: "string \<Rightarrow> bool" where
  "denying action \<equiv> action = IPPolicyRuleActionDeny"

definition remote_by :: "bool \<Rightarrow> IPPolicyDiff \<Rightarrow> string \<Rightarrow> RemoteIPRule option" where
  "remote_by b d = map_of (if b then dfRemoteDeny d else dfRemoteAllow d)"

definition spec_by :: "bool \<Rightarrow> IPPolicyDiff \<Rightarrow> string \<Rightarrow> IPPolicyRule option" where
  "spec_by b d = map_of (if b then dfSpecDeny d else dfSpecAllow d)"

lemma fold_group_remote:
  "remote_by b (fold group_remote rs d) = remote_by b d ++ map_of (rev (map (\<lambda>r. (rrCIDR r, r)) (filter (\<lambda>r. denying (rrAction r) = b) rs)))"
  "spec_by b (fold group_remote rs d) = spec_by b d" "dfPolicyID (fold group_remote rs d) = dfPolicyID d" "dfIdx (fold group_remote rs d) = dfIdx d"
proof (induction rs arbitrary: d)
  case (Cons r rs)
  have one: "remote_by b (group_remote r d) = (if denying (rrAction r) = b then (remote_by b d)(rrCIDR r \<mapsto> r) else remote_by b d)"
    "spec_by b (group_remote r d) = spec_by b d" "dfPolicyID (group_remote r d) = dfPolicyID d" "dfIdx (group_remote r d) = dfIdx d" for d
    by (auto simp: group_remote_def remote_by_def spec_by_def)
  { case 1 show ?case by (cases "denying (rrAction r) = b") (auto simp: Cons.IH(1) one map_add_def fun_eq_iff split: option.split) }
  { case 2 show ?case using Cons by (simp add: one) }
  { case 3 show ?case using Cons by (simp add: one) }
  { case 4 show ?case using Cons by (simp add: one) }
qed simp_all

lemma fold_group_spec:
  "spec_by b (fold group_spec rs d) = spec_by b d ++ map_of (rev (map (\<lambda>r. (plCIDR r, r)) (filter (\<lambda>r. denying (plAction r) = b) rs)))"
  "remote_by b (fold group_spec rs d) = remote_by b d" "dfPolicyID (fold group_spec rs d) = dfPolicyID d" "dfIdx (fold group_spec rs d) = dfIdx d"
proof (induction rs arbitrary: d)
  case (Cons r rs)
  have one: "spec_by b (group_spec r d) = (if denying (plAction r) = b then (spec_by b d)(plCIDR r \<mapsto> r) else spec_by b d)"
    "remote_by b (group_spec r d) = remote_by b d" "dfPolicyID (group_spec r d) = dfPolicyID d" "dfIdx (group_spec r d) = dfIdx d" for d
    by (auto simp: group_spec_def remote_by_def spec_by_def)
  { case 1 show ?case by (cases "denying (plAction r) = b") (auto simp: Cons.IH(1) one map_add_def fun_eq_iff split: option.split) }
  { case 2 show ?case using Cons by (simp add: one) }
  { case 3 show ?case using Cons by (simp add: one) }
  { case 4 show ?case using Cons by (simp add: one) }
qed simp_all

lemma new_diff:
  "remote_by b (newIPPolicyDiff pid remote spec) = map_of (rev (map (\<lambda>r. (rrCIDR r, r)) (filter (\<lambda>r. denying (rrAction r) = b) remote)))"
  "spec_by b (newIPPolicyDiff pid remote spec) = map_of (rev (map (\<lambda>r. (plCIDR r, r)) (filter (\<lambda>r. denying (plAction r) = b) spec)))"
  "dfPolicyID (newIPPolicyDiff pid remote spec) = pid" "dfIdx (newIPPolicyDiff pid remote spec) = 0"
  by (simp_all add: newIPPolicyDiff_def fold_group_spec fold_group_remote) (simp_all add: remote_by_def spec_by_def)

lemma remote_by_Some:
  "remote_by b (newIPPolicyDiff pid remote spec) c = Some r \<Longrightarrow> r \<in> set remote \<and> rrCIDR r = c \<and> denying (rrAction r) = b"
  by (auto simp: new_diff dest!: map_of_SomeD)

lemma remote_by_there: "r \<in> set remote \<Longrightarrow> remote_by (denying (rrAction r)) (newIPPolicyDiff pid remote spec) (rrCIDR r) \<noteq> None"
  by (auto simp: new_diff map_of_eq_None_iff image_iff)

lemma spec_by_Some:
  "spec_by b (newIPPolicyDiff pid remote spec) c = Some r \<Longrightarrow> r \<in> set spec \<and> plCIDR r = c \<and> denying (plAction r) = b"
  by (auto simp: new_diff dest!: map_of_SomeD)

lemma spec_by_there:
  assumes "r \<in> set spec" "distinct (map plCIDR spec)"
  shows "spec_by (denying (plAction r)) (newIPPolicyDiff pid remote spec) (plCIDR r) = Some r"
    "spec_by (\<not> denying (plAction r)) (newIPPolicyDiff pid remote spec) (plCIDR r) = None"
proof -
  have same: "r' = r" if "r' \<in> set spec" "plCIDR r' = plCIDR r" for r'
    using assms that by (metis distinct_map inj_onD)
  have "spec_by (denying (plAction r)) (newIPPolicyDiff pid remote spec) (plCIDR r) \<noteq> None"
    using assms(1) by (auto simp: new_diff map_of_eq_None_iff image_iff)
  then show "spec_by (denying (plAction r)) (newIPPolicyDiff pid remote spec) (plCIDR r) = Some r"
    using spec_by_Some same by (metis option.exhaust)
  show "spec_by (\<not> denying (plAction r)) (newIPPolicyDiff pid remote spec) (plCIDR r) = None"
  proof (rule ccontr)
    assume "spec_by (\<not> denying (plAction r)) (newIPPolicyDiff pid remote spec) (plCIDR r) \<noteq> None"
    then obtain r' where r': "spec_by (\<not> denying (plAction r)) (newIPPolicyDiff pid remote spec) (plCIDR r) = Some r'" by blast
    then have "r' = r" by (intro same) (simp_all add: spec_by_Some [OF r'])
    with spec_by_Some [OF r'] show False by auto
  qed
qed

lemma set_ranging: "set (ord (map fst xs)) = set (map fst xs) \<Longrightarrow> set (ranging ord xs) = {(k, v). map_of xs k = Some v}"
  using map_of_SomeD [of xs] by (auto simp: ranging_def split: option.splits) (metis fst_conv image_eqI)

lemma diff_plan_rounds:
  "diff_plan txt ord d 0 = round_calls (diff_round txt (ord 0) d 0) @ round_calls (diff_round txt (ord 1) d 1) @
     round_calls (diff_round txt (ord 2) d 2) @ round_calls (diff_round txt (ord 3) d 3) @ round_calls (diff_round txt (ord 4) d 4) @
     round_calls (diff_round txt (ord 5) d 5)"
  by (simp add: diff_plan_def upt_rec numeral_eq_Suc)

lemma round_calls_sets [simp]:
  "created (round_calls (ds, cs, us)) = set cs" "deleted_ids (round_calls (ds, cs, us)) = rrID ` set ds"
  "UpdateRule u \<in> set (round_calls (ds, cs, us)) \<longleftrightarrow> u \<in> set us"
  by (auto simp: round_calls_def created_def deleted_ids_def)

lemma exists_by:
  "existsInRemote d c \<longleftrightarrow> (\<exists>b. remote_by b d c \<noteq> None)" "existsInSpec d c \<longleftrightarrow> (\<exists>b. spec_by b d c \<noteq> None)"
  by (auto simp: existsInRemote_def existsInSpec_def remote_by_def spec_by_def ex_bool_eq)

definition all_keys :: "(nat \<Rightarrow> string list \<Rightarrow> string list) \<Rightarrow> bool" where
  "all_keys ord \<longleftrightarrow> (\<forall>i ks. set (ord i ks) = set ks)"

lemma set_ranging_by:
  assumes "all_keys ord"
  shows "set (ranging (ord i) (dfSpecDeny d)) = {(c, sp). spec_by True d c = Some sp}"
    "set (ranging (ord i) (dfSpecAllow d)) = {(c, sp). spec_by False d c = Some sp}"
    "set (ranging (ord i) (dfRemoteDeny d)) = {(c, r). remote_by True d c = Some r}"
    "set (ranging (ord i) (dfRemoteAllow d)) = {(c, r). remote_by False d c = Some r}"
  using assms by (simp_all add: set_ranging all_keys_def remote_by_def spec_by_def)

text \<open>The rules that the rounds create, those they delete and the updates, for both kinds of rules alike.\<close>

definition to_create :: "IPPolicyDiff \<Rightarrow> bool \<Rightarrow> IPPolicyRule \<Rightarrow> bool" where
  "to_create d b sp \<longleftrightarrow> (\<exists>c. spec_by b d c = Some sp \<and> (\<not> existsInRemote d c \<or> remote_by (\<not> b) d c \<noteq> None))"

definition to_delete :: "IPPolicyDiff \<Rightarrow> RemoteIPRule \<Rightarrow> bool" where
  "to_delete d r \<longleftrightarrow> (\<exists>b c. remote_by b d c = Some r \<and> (spec_by (\<not> b) d c \<noteq> None \<or> \<not> existsInSpec d c))"

lemma maps_by [simp]:
  "map_of (dfRemoteAllow d) = remote_by False d" "map_of (dfRemoteDeny d) = remote_by True d"
  by (simp_all add: remote_by_def)

lemma set_picked: "set (picked P xs) = {x. \<exists>c. (c, x) \<in> set xs \<and> P c}"
  by (force simp: picked_def)

lemma in_partnered: "y \<in> set (partnered g m xs) \<longleftrightarrow> (\<exists>c x r. (c, x) \<in> set xs \<and> map_of m c = Some r \<and> y \<in> set (g x r))"
  by (induction xs) (auto simp: partnered_def split: option.splits, (metis option.inject)+)

lemma set_partnered: "set (partnered g m xs) = {y. \<exists>c x r. (c, x) \<in> set xs \<and> map_of m c = Some r \<and> y \<in> set (g x r)}"
  by (simp add: set_eq_iff in_partnered)

lemma created_by_round:
  assumes "all_keys ord"
  shows "created (round_calls (diff_round txt (ord 0) d 0)) = createRule txt d ` {sp. \<exists>c. spec_by True d c = Some sp \<and> \<not> existsInRemote d c}"
    "created (round_calls (diff_round txt (ord (Suc 0)) d (Suc 0))) = createRule txt d ` {sp. \<exists>c. spec_by True d c = Some sp \<and> remote_by False d c \<noteq> None}"
    "created (round_calls (diff_round txt (ord 2) d 2)) = createRule txt d ` {sp. \<exists>c. spec_by False d c = Some sp \<and> remote_by True d c \<noteq> None}"
    "created (round_calls (diff_round txt (ord 3) d 3)) = createRule txt d ` {sp. \<exists>c. spec_by False d c = Some sp \<and> \<not> existsInRemote d c}"
    "created (round_calls (diff_round txt (ord 4) d 4)) = {}" "created (round_calls (diff_round txt (ord 5) d 5)) = {}"
  by (simp_all add: diff_round_def set_picked set_ranging_by [OF assms])

lemma deleted_by_round:
  assumes "all_keys ord"
  shows "deleted_ids (round_calls (diff_round txt (ord 0) d 0)) = {}"
    "deleted_ids (round_calls (diff_round txt (ord (Suc 0)) d (Suc 0))) = rrID ` {r. \<exists>c. remote_by False d c = Some r \<and> spec_by True d c \<noteq> None}"
    "deleted_ids (round_calls (diff_round txt (ord 2) d 2)) = rrID ` {r. \<exists>c. remote_by True d c = Some r \<and> spec_by False d c \<noteq> None}"
    "deleted_ids (round_calls (diff_round txt (ord 3) d 3)) = {}"
    "deleted_ids (round_calls (diff_round txt (ord 4) d 4)) =
       rrID ` ({r. \<exists>c. remote_by False d c = Some r \<and> \<not> existsInSpec d c} \<union> {r. \<exists>c. remote_by True d c = Some r \<and> \<not> existsInSpec d c})"
    "deleted_ids (round_calls (diff_round txt (ord 5) d 5)) = {}"
  by (simp_all add: diff_round_def set_picked set_partnered set_ranging_by [OF assms]) (rule arg_cong [where f = "image rrID"], blast)+

lemma plan_created_deny:
  assumes "all_keys ord"
  shows "created (round_calls (diff_round txt (ord 0) d 0) @ round_calls (diff_round txt (ord 1) d 1)) = createRule txt d ` Collect (to_create d True)"
  by (simp only: created_append One_nat_def created_by_round [OF assms] image_Un [symmetric])
    (rule arg_cong [where f = "image (createRule txt d)"], auto simp: to_create_def, blast)

lemma plan_created:
  assumes "all_keys ord"
  shows "created (diff_plan txt ord d 0) = createRule txt d ` {sp. \<exists>b. to_create d b sp}"
  by (simp only: diff_plan_rounds created_append One_nat_def created_by_round [OF assms] image_Un [symmetric] Un_empty_right)
    (rule arg_cong [where f = "image (createRule txt d)"], auto simp: to_create_def ex_bool_eq)

lemma plan_deleted:
  assumes "all_keys ord"
  shows "deleted_ids (diff_plan txt ord d 0) = rrID ` Collect (to_delete d)"
  by (simp only: diff_plan_rounds deleted_ids_append One_nat_def deleted_by_round [OF assms] image_Un [symmetric] Un_empty_right Un_empty_left)
    (rule arg_cong [where f = "image rrID"], auto simp: to_delete_def ex_bool_eq, blast)

lemma plan_updates:
  assumes "all_keys ord"
  shows "UpdateRule u \<in> set (diff_plan txt ord d 0) \<longleftrightarrow> (\<exists>b c sp r. spec_by b d c = Some sp \<and> remote_by b d c = Some r \<and> u \<in> set (updateIfNeeded txt sp r))"
  by (auto simp: diff_plan_rounds diff_round_def in_partnered set_ranging_by [OF assms] ex_bool_eq)

section \<open>The rules stay safe and arrive\<close>

text \<open>Which address ranges a policy denies and allows, and what each rule says.\<close>

definition denied :: "('s \<Rightarrow> string \<Rightarrow> RemoteIPRule option) \<Rightarrow> string \<Rightarrow> 's \<Rightarrow> string set" where
  "denied rules pid s = {rrCIDR r | rid r. rules s rid = Some r \<and> rrPolicyID r = pid \<and> denying (rrAction r)}"

definition allowed :: "('s \<Rightarrow> string \<Rightarrow> RemoteIPRule option) \<Rightarrow> string \<Rightarrow> 's \<Rightarrow> string set" where
  "allowed rules pid s = {rrCIDR r | rid r. rules s rid = Some r \<and> rrPolicyID r = pid \<and> \<not> denying (rrAction r)}"

definition spec_denied :: "IPPolicyRule list \<Rightarrow> string set" where
  "spec_denied spec = {plCIDR r | r. r \<in> set spec \<and> denying (plAction r)}"

definition spec_allowed :: "IPPolicyRule list \<Rightarrow> string set" where
  "spec_allowed spec = {plCIDR r | r. r \<in> set spec \<and> \<not> denying (plAction r)}"

definition rule_texts :: "('s \<Rightarrow> string \<Rightarrow> RemoteIPRule option) \<Rightarrow> string \<Rightarrow> 's \<Rightarrow> (string \<times> string \<times> string \<times> string) set" where
  "rule_texts rules pid s =
     {(rrCIDR r, rrAction r, rrMetadata r, rrDescription r) | rid r. rules s rid = Some r \<and> rrPolicyID r = pid}"

definition spec_text :: "(raw_json \<Rightarrow> string) \<Rightarrow> IPPolicyRule \<Rightarrow> string \<times> string \<times> string \<times> string" where
  "spec_text txt r = (plCIDR r, plAction r, txt (MetadataAPIString (plMetadata r)), plDescription r)"

lemma fold_updated_rule [simp]:
  "rrID (fold updated_rule us r) = rrID r" "rrPolicyID (fold updated_rule us r) = rrPolicyID r" "rrAction (fold updated_rule us r) = rrAction r"
  by (induction us arbitrary: r) (simp_all add: updated_rule_def)

lemma fold_updated_rule_cidr: "(\<And>u. u \<in> set us \<Longrightarrow> nuCIDR u = rrCIDR r) \<Longrightarrow> rrCIDR (fold updated_rule us r) = rrCIDR r"
  by (induction us arbitrary: r) (simp_all add: updated_rule_def)

lemma fold_updated_rule_same:
  "us \<noteq> [] \<Longrightarrow> set us \<subseteq> {u} \<Longrightarrow> fold updated_rule us r = updated_rule u r"
proof (induction us arbitrary: r)
  case (Cons x xs)
  then show ?case by (cases "xs = []") (simp_all add: updated_rule_def)
qed simp

lemma created_past:
  assumes "made @ rest = first @ later" "c \<in> created made" "c \<notin> created first"
  shows "created first \<subseteq> created made"
  using assms by (auto simp: append_eq_append_conv2)

lemma updateIfNeeded_spec:
  "u \<in> set (updateIfNeeded txt sp r) \<Longrightarrow>
     u = \<lparr>nuID = rrID r, nuMetadata = txt (MetadataAPIString (plMetadata sp)), nuDescription = plDescription sp, nuCIDR = plCIDR sp\<rparr> \<and> plCIDR sp = rrCIDR r"
  by (simp add: updateIfNeeded_def Let_def split: if_splits)

text \<open>A run of the rounds for a policy: the rules that were listed, and the calls that were made.\<close>

locale ip_rules_run = ip_rules_api env rules issued
  for env :: "'s ip_env" and rules :: "'s \<Rightarrow> string \<Rightarrow> RemoteIPRule option" and issued :: "'s \<Rightarrow> string set" +
  fixes s :: 's and pid :: string and spec :: "IPPolicyRule list" and remote :: "RemoteIPRule list" and d :: IPPolicyDiff and plan :: "rule_call list"
  assumes remote: "set remote = {r \<in> ran (rules s). rrPolicyID r = pid}" and distinct: "distinct (map plCIDR spec)"
    and d: "d = newIPPolicyDiff pid remote spec" and plan: "plan = diff_plan (ivText env) (ivRange env) d 0"
begin

lemma keys: "all_keys (ivRange env)"
  by (simp add: all_keys_def range_keys)

lemma remote_rule: "remote_by b d c = Some r \<Longrightarrow> rules s (rrID r) = Some r \<and> rrPolicyID r = pid \<and> rrCIDR r = c \<and> denying (rrAction r) = b"
  using remote_by_Some [of b pid remote spec c r] remote rule_id by (auto simp: d ran_def)

lemma remote_there: "rules s rid = Some r \<Longrightarrow> rrPolicyID r = pid \<Longrightarrow> remote_by (denying (rrAction r)) d (rrCIDR r) \<noteq> None"
  unfolding d using remote by (intro remote_by_there) (auto intro: ranI)

lemma remote_unique: "remote_by b d c = Some r \<Longrightarrow> remote_by b' d c' = Some r' \<Longrightarrow> rrID r = rrID r' \<Longrightarrow> r' = r \<and> c' = c \<and> b' = b"
  using remote_rule [of b c r] remote_rule [of b' c' r'] by (metis option.inject)

lemma spec_rule: "spec_by b d c = Some sp \<Longrightarrow> sp \<in> set spec \<and> plCIDR sp = c \<and> denying (plAction sp) = b \<and> spec_by (\<not> b) d c = None"
  using spec_by_Some [of b pid remote spec c sp] spec_by_there(2) [OF _ distinct, of sp pid remote] by (auto simp: d)

lemma spec_there: "sp \<in> set spec \<Longrightarrow> spec_by (denying (plAction sp)) d (plCIDR sp) = Some sp"
  unfolding d by (rule spec_by_there(1) [OF _ distinct])

lemma kept: "remote_by b d c = Some r \<Longrightarrow> spec_by b d c \<noteq> None \<Longrightarrow> rrID r \<notin> deleted_ids plan"
proof
  assume r: "remote_by b d c = Some r" and sp: "spec_by b d c \<noteq> None" and "rrID r \<in> deleted_ids plan"
  then obtain b' c' r' where r': "remote_by b' d c' = Some r'" "rrID r = rrID r'" "spec_by (\<not> b') d c' \<noteq> None \<or> \<not> existsInSpec d c'"
    by (auto simp: plan plan_deleted [OF keys] to_delete_def)
  then have "spec_by (\<not> b) d c \<noteq> None \<or> \<not> existsInSpec d c" using remote_unique [OF r r'(1,2)] by simp
  then show False using sp spec_rule by (auto simp: exists_by)
qed

lemma update_of:
  assumes "UpdateRule u \<in> set plan" "rules s (nuID u) = Some r"
  shows "\<exists>b c sp. spec_by b d c = Some sp \<and> remote_by b d c = Some r \<and> u \<in> set (updateIfNeeded (ivText env) sp r)"
proof -
  obtain b c sp r' where u: "spec_by b d c = Some sp" "remote_by b d c = Some r'" "u \<in> set (updateIfNeeded (ivText env) sp r')"
    using assms(1) by (auto simp: plan plan_updates [OF keys])
  then have "nuID u = rrID r'" using updateIfNeeded_spec by fastforce
  then have "r' = r" using remote_rule [OF u(2)] assms(2) by simp
  then show ?thesis using u by blast
qed

lemma touched_issued: "touched_ids plan \<subseteq> issued s"
proof
  fix rid assume "rid \<in> touched_ids plan"
  then obtain b c r where "remote_by b d c = Some r" "rid = rrID r"
    by (auto simp: touched_ids_def plan plan_deleted [OF keys] to_delete_def plan_updates [OF keys] dest!: updateIfNeeded_spec)
  then show "rid \<in> issued s" using remote_rule dom_issued by blast
qed

lemma creates_spec: "c \<in> created plan \<Longrightarrow> \<exists>sp \<in> set spec. c = createRule (ivText env) d sp"
  using spec_rule by (auto simp: plan plan_created [OF keys] to_create_def)

text \<open>A rule that was there before the calls \<open>made\<close>, a first part of the plan.\<close>

lemma old_rule:
  assumes "plan = made @ rest" "calls_effect rules issued made s s'" "rules s rid = Some r" "rid \<notin> deleted_ids made"
  shows "\<exists>r'. rules s' rid = Some r' \<and> rrPolicyID r' = rrPolicyID r \<and> rrAction r' = rrAction r \<and> rrCIDR r' = rrCIDR r"
proof -
  have "nuCIDR u = rrCIDR r" if "u \<in> set (updates_of rid made)" for u
    using that update_of [of u r] assms(1,3) updateIfNeeded_spec by (fastforce simp: set_updates_of)
  then have "rrCIDR (fold updated_rule (updates_of rid made) r) = rrCIDR r" by (rule fold_updated_rule_cidr)
  moreover have "rid \<in> issued s" using assms(3) dom_issued by blast
  ultimately show ?thesis using assms by (simp add: calls_effect_def)
qed

lemma rule_origin:
  assumes "plan = made @ rest" "calls_effect rules issued made s s'" "rules s' rid = Some r'"
  shows "(\<exists>r. rules s rid = Some r \<and> rid \<notin> deleted_ids made \<and> rrPolicyID r' = rrPolicyID r \<and> rrAction r' = rrAction r \<and> rrCIDR r' = rrCIDR r) \<or>
    (\<exists>sp \<in> set spec. createRule (ivText env) d sp \<in> created made \<and> r' = created_rule rid (createRule (ivText env) d sp) \<and> rules s rid = None)"
proof (cases "rid \<in> issued s")
  case True
  then obtain r where r: "rules s rid = Some r" "rid \<notin> deleted_ids made"
    using assms(2,3) by (auto simp: calls_effect_def split: if_splits)
  then show ?thesis using old_rule [OF assms(1,2) r] assms(3) by auto
next
  case False
  then obtain c where c: "c \<in> created made" "r' = created_rule rid c" using assms(2,3) unfolding calls_effect_def by blast
  then have "c \<in> created plan" using assms(1) by simp
  then show ?thesis using creates_spec c False dom_issued by blast
qed

lemma created_there:
  assumes "calls_effect rules issued made s s'" "createRule (ivText env) d sp \<in> created made"
  shows "\<exists>rid. rules s' rid = Some (created_rule rid (createRule (ivText env) d sp))"
  using assms by (auto simp: calls_effect_def)

lemma denials_kept:
  assumes "plan = made @ rest" "calls_effect rules issued made s s'" "cidr \<in> denied rules pid s" "cidr \<in> spec_denied spec"
  shows "cidr \<in> denied rules pid s'"
proof -
  obtain sp where sp: "sp \<in> set spec" "plCIDR sp = cidr" "denying (plAction sp)" using assms(4) by (auto simp: spec_denied_def)
  obtain rid r0 where "rules s rid = Some r0" "rrPolicyID r0 = pid" "denying (rrAction r0)" "rrCIDR r0 = cidr"
    using assms(3) by (auto simp: denied_def)
  then obtain r where r: "remote_by True d cidr = Some r" using remote_there [of rid r0] by auto
  have "rrID r \<notin> deleted_ids made" using kept [OF r] spec_there [OF sp(1)] sp assms(1) by auto
  then obtain r' where "rules s' (rrID r) = Some r'" "rrPolicyID r' = pid" "denying (rrAction r')" "rrCIDR r' = cidr"
    using old_rule [OF assms(1,2), of "rrID r" r] remote_rule [OF r] by auto
  then show ?thesis by (auto simp: denied_def)
qed

lemma allowances_justified:
  assumes "plan = made @ rest" "calls_effect rules issued made s s'"
  shows "allowed rules pid s' \<subseteq> allowed rules pid s \<union> spec_allowed spec"
  using rule_origin [OF assms] by (fastforce simp: allowed_def spec_allowed_def created_rule_def createRule_def)

lemma denials_first:
  assumes "plan = made @ rest" "calls_effect rules issued made s s'"
    and new: "rules s' rid = Some r'" "rules s rid = None" "\<not> denying (rrAction r')"
  shows "spec_denied spec \<subseteq> denied rules pid s'"
proof
  fix cidr assume c: "cidr \<in> spec_denied spec"
  then obtain sp where sp: "sp \<in> set spec" "plCIDR sp = cidr" "denying (plAction sp)" by (auto simp: spec_denied_def)
  then have s: "spec_by True d cidr = Some sp" using spec_there [of sp] by simp
  let ?first = "round_calls (diff_round (ivText env) (ivRange env 0) d 0) @ round_calls (diff_round (ivText env) (ivRange env 1) d 1)"
  have deny: "created ?first = createRule (ivText env) d ` Collect (to_create d True)" by (rule plan_created_deny [OF keys])
  obtain sp' where sp': "createRule (ivText env) d sp' \<in> created made" "r' = created_rule rid (createRule (ivText env) d sp')"
    using rule_origin [OF assms(1,2) new(1)] new(2) by auto
  obtain later where "plan = ?first @ later" using diff_plan_rounds [of "ivText env" "ivRange env" d] by (simp add: plan)
  then have "made @ rest = ?first @ later" using assms(1) by simp
  moreover have "createRule (ivText env) d sp' \<notin> created ?first"
    unfolding deny using sp'(2) new(3) spec_rule by (auto simp: to_create_def created_rule_def createRule_def)
  ultimately have made: "created ?first \<subseteq> created made" using created_past [OF _ sp'(1)] by blast
  show "cidr \<in> denied rules pid s'"
  proof (cases "to_create d True sp")
    case True
    then have "createRule (ivText env) d sp \<in> created made" using made deny by blast
    then obtain rid where "rules s' rid = Some (created_rule rid (createRule (ivText env) d sp))" using created_there [OF assms(2)] by blast
    moreover have "rrCIDR (created_rule rid (createRule (ivText env) d sp)) = cidr \<and> denying (rrAction (created_rule rid (createRule (ivText env) d sp))) \<and>
        rrPolicyID (created_rule rid (createRule (ivText env) d sp)) = pid"
      using sp by (simp add: created_rule_def createRule_def d new_diff)
    ultimately show ?thesis unfolding denied_def by blast
  next
    case False
    then obtain r where "remote_by True d cidr = Some r" using s by (auto simp: to_create_def exists_by ex_bool_eq)
    then have "cidr \<in> denied rules pid s" using remote_rule by (fastforce simp: denied_def)
    then show ?thesis using denials_kept [OF assms(1,2)] c by blast
  qed
qed

lemma others_untouched:
  assumes "plan = made @ rest" "calls_effect rules issued made s s'" "rules s rid = Some r" "rrPolicyID r \<noteq> pid"
  shows "rules s' rid = Some r"
proof -
  have "rid \<notin> touched_ids plan"
    using assms(3,4) remote_rule
    by (fastforce simp: touched_ids_def plan plan_deleted [OF keys] to_delete_def plan_updates [OF keys] dest!: updateIfNeeded_spec)
  then have "rid \<notin> touched_ids made" using assms(1) by (auto simp: touched_ids_def)
  then show ?thesis
    using assms(2,3) dom_issued [of s rid] by (auto simp: calls_effect_def updates_of_untouched touched_ids_def)
qed

text \<open>The whole plan: what is left of the old rules says what the spec says.\<close>

lemma survivor:
  assumes eff: "calls_effect rules issued plan s s'" and r: "remote_by b d c = Some r" and sp: "spec_by b d c = Some sp" and act: "rrAction r = plAction sp"
  shows "\<exists>r'. rules s' (rrID r) = Some r' \<and> rrPolicyID r' = pid \<and>
    (rrCIDR r', rrAction r', rrMetadata r', rrDescription r') = spec_text (ivText env) sp"
proof -
  note rem = remote_rule [OF r]
  let ?us = "updates_of (rrID r) plan" and ?u = "\<lparr>nuID = rrID r, nuMetadata = ivText env (MetadataAPIString (plMetadata sp)),
    nuDescription = plDescription sp, nuCIDR = plCIDR sp\<rparr>"
  have cidr: "plCIDR sp = rrCIDR r" using spec_rule [OF sp] rem by simp
  have there: "rules s' (rrID r) = Some (fold updated_rule ?us r)"
    using eff rem dom_issued [of s "rrID r"] kept [OF r] sp by (auto simp: calls_effect_def)
  have us: "set ?us = set (updateIfNeeded (ivText env) sp r)"
  proof
    show "set ?us \<subseteq> set (updateIfNeeded (ivText env) sp r)"
    proof
      fix u assume "u \<in> set ?us"
      then have u: "UpdateRule u \<in> set plan" "nuID u = rrID r" by (auto simp: set_updates_of)
      then obtain b' c' sp' where u': "spec_by b' d c' = Some sp'" "remote_by b' d c' = Some r" "u \<in> set (updateIfNeeded (ivText env) sp' r)"
        using update_of [of u r] rem by auto
      then have "sp' = sp" using remote_unique [OF r u'(2)] sp by auto
      then show "u \<in> set (updateIfNeeded (ivText env) sp r)" using u'(3) by simp
    qed
    show "set (updateIfNeeded (ivText env) sp r) \<subseteq> set ?us"
      using r sp updateIfNeeded_spec by (fastforce simp: set_updates_of plan plan_updates [OF keys])
  qed
  have "(rrCIDR (fold updated_rule ?us r), rrMetadata (fold updated_rule ?us r), rrDescription (fold updated_rule ?us r)) =
      (plCIDR sp, ivText env (MetadataAPIString (plMetadata sp)), plDescription sp)"
  proof (cases "?us = []")
    case True
    then have "updateIfNeeded (ivText env) sp r = []" using us by simp
    then show ?thesis using True cidr act by (simp add: updateIfNeeded_def Let_def split: if_splits)
  next
    case False
    have "set ?us \<subseteq> {?u}" using us updateIfNeeded_spec by blast
    then have "fold updated_rule ?us r = updated_rule ?u r" by (rule fold_updated_rule_same [OF False])
    then show ?thesis by (simp add: updated_rule_def)
  qed
  then show ?thesis using there rem act by (simp add: spec_text_def)
qed

lemma created_text: "sp \<in> set spec \<Longrightarrow> rrPolicyID (created_rule rid (createRule (ivText env) d sp)) = pid \<and>
    (rrCIDR (created_rule rid (createRule (ivText env) d sp)), rrAction (created_rule rid (createRule (ivText env) d sp)),
     rrMetadata (created_rule rid (createRule (ivText env) d sp)), rrDescription (created_rule rid (createRule (ivText env) d sp))) =
    spec_text (ivText env) sp"
  by (simp add: created_rule_def createRule_def spec_text_def d new_diff)

lemma rules_arrive:
  assumes eff: "calls_effect rules issued plan s s'"
    and unique: "\<And>r r'. r \<in> set remote \<Longrightarrow> r' \<in> set remote \<Longrightarrow> rrCIDR r = rrCIDR r' \<Longrightarrow> rrAction r = rrAction r' \<Longrightarrow> r = r'"
    and actions: "\<And>r. r \<in> set remote \<Longrightarrow> rrAction r \<in> {IPPolicyRuleActionAllow, IPPolicyRuleActionDeny}"
      "\<And>sp. sp \<in> set spec \<Longrightarrow> plAction sp \<in> {IPPolicyRuleActionAllow, IPPolicyRuleActionDeny}"
  shows "rule_texts rules pid s' = spec_text (ivText env) ` set spec"
proof
  have act: "rrAction r = plAction sp" if "remote_by b d c = Some r" "spec_by b d c = Some sp" for b c r sp
    using remote_by_Some [of b pid remote spec c r] spec_rule [of b c sp] that actions(1) [of r] actions(2) [of sp] by (auto simp: d)
  show "rule_texts rules pid s' \<subseteq> spec_text (ivText env) ` set spec"
  proof
    fix t assume "t \<in> rule_texts rules pid s'"
    then obtain rid r' where r': "rules s' rid = Some r'" "rrPolicyID r' = pid" "t = (rrCIDR r', rrAction r', rrMetadata r', rrDescription r')"
      by (auto simp: rule_texts_def)
    from rule_origin [OF append_Nil2 [symmetric] eff r'(1)] show "t \<in> spec_text (ivText env) ` set spec"
    proof (elim disjE exE conjE bexE)
      fix r assume r: "rules s rid = Some r" "rid \<notin> deleted_ids plan" "rrPolicyID r' = rrPolicyID r"
      let ?b = "denying (rrAction r)" and ?c = "rrCIDR r"
      have mem: "r \<in> set remote" using r r'(2) remote by (auto intro: ranI)
      obtain r2 where r2: "remote_by ?b d ?c = Some r2" using remote_there [OF r(1)] r(3) r'(2) by auto
      then have "r2 \<in> set remote" "rrCIDR r2 = ?c" "denying (rrAction r2) = ?b"
        using remote_by_Some [of ?b pid remote spec ?c r2] by (auto simp: d)
      then have same: "r2 = r" using unique [of r2 r] mem actions(1) [of r2] actions(1) [of r] by auto
      have rid: "rrID r = rid" using rule_id r(1) .
      have "\<not> to_delete d r" using r(2) rid by (auto simp: plan plan_deleted [OF keys])
      then have "spec_by (\<not> ?b) d ?c = None" "existsInSpec d ?c" using r2 same by (auto simp: to_delete_def)
      then obtain sp where sp: "spec_by ?b d ?c = Some sp" by (cases ?b) (auto simp: exists_by ex_bool_eq)
      obtain r3 where "rules s' rid = Some r3" "(rrCIDR r3, rrAction r3, rrMetadata r3, rrDescription r3) = spec_text (ivText env) sp"
        using survivor [OF eff r2 sp act [OF r2 sp]] same rid by auto
      then show ?thesis using r' spec_rule [OF sp] by auto
    next
      fix sp assume "sp \<in> set spec" "r' = created_rule rid (createRule (ivText env) d sp)"
      then show ?thesis using created_text [of sp rid] r'(3) by auto
    qed
  qed
  show "spec_text (ivText env) ` set spec \<subseteq> rule_texts rules pid s'"
  proof
    fix t assume "t \<in> spec_text (ivText env) ` set spec"
    then obtain sp where sp: "sp \<in> set spec" "t = spec_text (ivText env) sp" by blast
    let ?b = "denying (plAction sp)" and ?c = "plCIDR sp"
    note s = spec_there [OF sp(1)]
    show "t \<in> rule_texts rules pid s'"
    proof (cases "to_create d ?b sp")
      case True
      then have "createRule (ivText env) d sp \<in> created plan" by (auto simp: plan plan_created [OF keys])
      then obtain rid where "rules s' rid = Some (created_rule rid (createRule (ivText env) d sp))" using created_there [OF eff] by blast
      then show ?thesis unfolding rule_texts_def using created_text [OF sp(1), of rid] sp(2) by force
    next
      case False
      then obtain r where r: "remote_by ?b d ?c = Some r"
        using s by (cases ?b) (auto simp: to_create_def exists_by ex_bool_eq)
      obtain r' where "rules s' (rrID r) = Some r'" "rrPolicyID r' = pid"
          "(rrCIDR r', rrAction r', rrMetadata r', rrDescription r') = spec_text (ivText env) sp"
        using survivor [OF eff r s act [OF r s]] by blast
      then show ?thesis unfolding rule_texts_def using sp(2) by force
    qed
  qed
qed

end

context ip_rules_api begin

lemma rules_run:
  assumes "createOrUpdateIPPolicyRules env p s = ((err, p'), s')" "distinct (map plCIDR (ipRules (policy_spec p)))"
  shows "(err \<noteq> None \<and> s' = s) \<or> (\<exists>remote made rest.
    ip_rules_run env rules issued s (policy_id p) (ipRules (policy_spec p)) remote (newIPPolicyDiff (policy_id p) remote (ipRules (policy_spec p)))
      (made @ rest) \<and> (err = None \<longrightarrow> rest = []) \<and> calls_effect rules issued made s s')"
proof -
  obtain rs lerr where l: "ivListRules env s = (rs, lerr)" by fastforce
  show ?thesis
  proof (cases lerr)
    case (Some e)
    then show ?thesis using assms l by (auto simp: createOrUpdateIPPolicyRules_def getRemotePolicyRules_def)
  next
    case None
    let ?remote = "filter (\<lambda>r. rrPolicyID r = policy_id p) rs" and ?spec = "ipRules (policy_spec p)"
    let ?d = "newIPPolicyDiff (policy_id p) ?remote ?spec"
    let ?plan = "diff_plan (ivText env) (ivRange env) ?d 0"
    have run: "ip_rules_run env rules issued s (policy_id p) ?spec ?remote ?d ?plan"
      using list_rules [OF l [unfolded None]] assms(2) by unfold_locales auto
    have "rounds env ?d s = (err, s')"
      using assms(1) l None by (auto simp: createOrUpdateIPPolicyRules_def getRemotePolicyRules_def Let_def split: prod.splits option.splits)
    then have "each_call (do_call env) ?plan s = (err, s')" by (simp add: rounds_plan new_diff)
    from each_call_effect [OF this ip_rules_run.touched_issued [OF run]] obtain made rest where "?plan = made @ rest" "err = None \<longrightarrow> rest = []" "calls_effect rules issued made s s'"
      by auto
    then have "ip_rules_run env rules issued s (policy_id p) ?spec ?remote ?d (made @ rest)" "err = None \<longrightarrow> rest = []"
      "calls_effect rules issued made s s'" using run by simp_all
    then show ?thesis by blast
  qed
qed

end


section \<open>The whole policy\<close>

text \<open>Rules as the API keeps them: one for each range and action, and no other actions.\<close>

definition valid_rules :: "('s \<Rightarrow> string \<Rightarrow> RemoteIPRule option) \<Rightarrow> 's \<Rightarrow> bool" where
  "valid_rules rules s \<longleftrightarrow>
     (\<forall>r \<in> ran (rules s). rrAction r \<in> {IPPolicyRuleActionAllow, IPPolicyRuleActionDeny}) \<and>
     (\<forall>r \<in> ran (rules s). \<forall>r' \<in> ran (rules s).
        rrPolicyID r = rrPolicyID r' \<longrightarrow> rrCIDR r = rrCIDR r' \<longrightarrow> rrAction r = rrAction r' \<longrightarrow> r = r')"

definition valid_spec :: "IPPolicyRule list \<Rightarrow> bool" where
  "valid_spec spec \<longleftrightarrow> distinct (map plCIDR spec) \<and> (\<forall>sp \<in> set spec. plAction sp \<in> {IPPolicyRuleActionAllow, IPPolicyRuleActionDeny})"

definition ip_condition_true :: "kube_meta \<Rightarrow> string \<Rightarrow> int \<Rightarrow> IPPolicy \<Rightarrow> bool" where
  "ip_condition_true km t generation p \<longleftrightarrow>
     (\<exists>c. kmFindStatusCondition km (ptConditions (iyStatus (obBody p))) t = Some c \<and> cnStatus c = ''True'' \<and> cnObservedGeneration c = generation)"

text \<open>
  What the controller relies on besides the rules: \<open>policies\<close> are the policies of the API by ID; calls
  on policies leave the rules alone and calls on rules the policies.
\<close>

locale ip_policy_service =
  api: ip_rules_api env rules issued + meta: object_meta "ivMeta env" +
  writer: status_writer "ivRetry env" "ivStatus env" iyStatus "\<lambda>s. (rules s, policies s)"
  for env :: "'s ip_env" and rules :: "'s \<Rightarrow> string \<Rightarrow> RemoteIPRule option" and issued :: "'s \<Rightarrow> string set"
    and policies :: "'s \<Rightarrow> string \<Rightarrow> RemoteIPPolicy option" +
  assumes get_policy: "ivGetPolicy env pid s = Inr rp \<Longrightarrow> policies s pid = Some rp"
    and create_policy: "ivCreatePolicy env desc md s = (Inr rp, s') \<Longrightarrow>
      policies s' (rpID rp) = Some rp \<and> rpDescription rp = desc \<and> rpMetadata rp = md \<and> rules s' = rules s"
    and update_policy: "ivUpdatePolicy env pid desc md s = (None, s') \<Longrightarrow>
      (\<exists>rp. policies s' pid = Some rp \<and> rpDescription rp = desc \<and> rpMetadata rp = md) \<and> rules s' = rules s"
    and rule_frame: "do_call env c s = (err, s') \<Longrightarrow> policies s' = policies s"
begin

lemma calls_frame: "each_call (do_call env) cs s = (err, s') \<Longrightarrow> policies s' = policies s"
  by (induction cs arbitrary: s) (auto dest: rule_frame split: prod.splits option.splits)

lemma rules_ok:
  assumes "createOrUpdateIPPolicyRules env p s = ((None, p'), s')" "valid_spec (ipRules (policy_spec p))" "valid_rules rules s"
  shows "policies s' = policies s" "rule_texts rules (policy_id p) s' = spec_text (ivText env) ` set (ipRules (policy_spec p))"
    "obMeta p' = obMeta p" "policy_id p' = policy_id p"
    "ip_condition_true (ivMeta env) ConditionIPPolicyRulesConfigured (omGeneration (obMeta p)) p'"
    "ip_condition_true (ivMeta env) ConditionIPPolicyCreated g p' = ip_condition_true (ivMeta env) ConditionIPPolicyCreated g p"
proof -
  let ?spec = "ipRules (policy_spec p)"
  have spec: "distinct (map plCIDR ?spec)" using assms(2) by (simp add: valid_spec_def)
  obtain remote made where run: "ip_rules_run env rules issued s (policy_id p) ?spec remote (newIPPolicyDiff (policy_id p) remote ?spec) made"
    and eff: "calls_effect rules issued made s s'"
    using api.rules_run [OF assms(1) spec] by auto
  have "set remote = {r \<in> ran (rules s). rrPolicyID r = policy_id p}" by (rule ip_rules_run.remote [OF run])
  then show "rule_texts rules (policy_id p) s' = spec_text (ivText env) ` set ?spec"
    using assms(2,3) by (intro ip_rules_run.rules_arrive [OF run eff]) (auto simp: valid_rules_def valid_spec_def)
  show "policies s' = policies s"
    using assms(1) calls_frame
    by (auto simp: createOrUpdateIPPolicyRules_def rounds_plan Let_def split: prod.splits option.splits)
  show "obMeta p' = obMeta p" "policy_id p' = policy_id p"
    "ip_condition_true (ivMeta env) ConditionIPPolicyRulesConfigured (omGeneration (obMeta p)) p'"
    "ip_condition_true (ivMeta env) ConditionIPPolicyCreated g p' = ip_condition_true (ivMeta env) ConditionIPPolicyCreated g p"
    using assms(1)
    by (auto simp: createOrUpdateIPPolicyRules_def Let_def setIPPolicyRulesConfiguredCondition_def set_ip_condition_def ip_condition_true_def
        meta.find_remove ip_condition_defs split: prod.splits option.splits if_splits)
qed

lemma ip_calculate_ready:
  assumes "ip_condition_true (ivMeta env) ConditionIPPolicyCreated g p"
    and "ip_condition_true (ivMeta env) ConditionIPPolicyRulesConfigured g' p"
  shows "ip_condition_true (ivMeta env) ConditionIPPolicyReady (omGeneration (obMeta p)) (calculateIPPolicyReadyCondition (ivMeta env) p)"
  using assms by (auto simp: calculateIPPolicyReadyCondition_def hasIPPolicyCreatedCondition_def ip_condition_true_def setIPPolicyReadyCondition_def
      set_ip_condition_def Let_def)

lemma calculate_keeps [simp]:
  "policy_id (calculateIPPolicyReadyCondition km p) = policy_id p" "obMeta (calculateIPPolicyReadyCondition km p) = obMeta p"
  by (simp_all add: calculateIPPolicyReadyCondition_def setIPPolicyReadyCondition_def set_ip_condition_def Let_def)

lemma configure_rules_ok:
  assumes run: "configure_rules env p s = ((None, p'), s')" and spec: "valid_spec (ipRules (policy_spec p))" and valid: "valid_rules rules s"
    and created: "ip_condition_true (ivMeta env) ConditionIPPolicyCreated g p"
  shows "policies s' = policies s" "rule_texts rules (policy_id p) s' = spec_text (ivText env) ` set (ipRules (policy_spec p))"
    "policy_id p' = policy_id p" "ip_condition_true (ivMeta env) ConditionIPPolicyReady (omGeneration (obMeta p)) p'"
proof -
  obtain err p1 s1 where c: "createOrUpdateIPPolicyRules env p s = ((err, p1), s1)" by (metis surj_pair)
  let ?p = "calculateIPPolicyReadyCondition (ivMeta env) p1"
  have w: "ReconcileStatus (ivRetry env) (ivStatus env) (Some set_policy_observed) ?p err s1 = ((None, p'), s')"
    using run c by (simp add: configure_rules_def ip_ReconcileStatus_def)
  then have "err = None" using writer.ReconcileStatus_spec(3) [OF w] by auto
  note r = rules_ok [OF c [unfolded this] spec valid]
  note sp = writer.ReconcileStatus_spec(1,2) [OF w]
  show "policies s' = policies s" "rule_texts rules (policy_id p) s' = spec_text (ivText env) ` set (ipRules (policy_spec p))"
    using sp(1) r(1,2) by (simp_all add: rule_texts_def)
  have st: "iyStatus (obBody p') = (iyStatus (obBody ?p))\<lparr>ptObservedGeneration := omGeneration (obMeta ?p)\<rparr>"
    using sp(2) by (simp add: set_policy_observed_def)
  then show "policy_id p' = policy_id p" using r(4) by simp
  have "ip_condition_true (ivMeta env) ConditionIPPolicyCreated g p1" using r(6) created by simp
  from ip_calculate_ready [OF this r(5)]
  show "ip_condition_true (ivMeta env) ConditionIPPolicyReady (omGeneration (obMeta p)) p'"
    using st r(3) by (simp add: ip_condition_true_def)
qed

lemma created_set:
  "ip_condition_true (ivMeta env) ConditionIPPolicyCreated (omGeneration (obMeta p)) (setIPPolicyCreatedCondition (ivMeta env) True reason msg p)"
  "policy_id (setIPPolicyCreatedCondition (ivMeta env) True reason msg p) = policy_id p"
  "policy_spec (setIPPolicyCreatedCondition (ivMeta env) True reason msg p) = policy_spec p"
  "obMeta (setIPPolicyCreatedCondition (ivMeta env) True reason msg p) = obMeta p"
  by (simp_all add: setIPPolicyCreatedCondition_def set_ip_condition_def ip_condition_true_def)

lemma create_ok:
  assumes run: "ip_create env p s = ((None, p'), s')" and spec: "valid_spec (ipRules (policy_spec p))" and valid: "valid_rules rules s"
  shows "\<exists>rp. policies s' (policy_id p') = Some rp \<and> rpDescription rp = ipDescription (policy_spec p) \<and> rpMetadata rp = api_metadata env p \<and>
    rule_texts rules (policy_id p') s' = spec_text (ivText env) ` set (ipRules (policy_spec p)) \<and>
    ip_condition_true (ivMeta env) ConditionIPPolicyReady (omGeneration (obMeta p)) p'"
proof -
  obtain rp s1 where c: "ivCreatePolicy env (ipDescription (policy_spec p)) (api_metadata env p) s = (Inr rp, s1)"
    using run by (auto simp: ip_create_def split: prod.splits sum.splits)
  note cp = create_policy [OF c]
  let ?p = "setIPPolicyCreatedCondition (ivMeta env) True ''IPPolicyCreated'' ''IP Policy successfully created''
    (map_policy_status (ptID_update (\<lambda>_. rpID rp)) p)"
  have run': "configure_rules env ?p s1 = ((None, p'), s')" using run c by (simp add: ip_create_def)
  have valid': "valid_rules rules s1" using valid cp by (simp add: valid_rules_def)
  have spec': "valid_spec (ipRules (policy_spec ?p))" using spec by (simp add: created_set)
  from configure_rules_ok [OF run' spec' valid' created_set(1)] cp show ?thesis by (simp add: created_set)
qed

lemma update_ok:
  assumes run: "ip_update env p s = ((None, p'), s')" and spec: "valid_spec (ipRules (policy_spec p))" and valid: "valid_rules rules s"
  shows "\<exists>rp. policies s' (policy_id p') = Some rp \<and> rpDescription rp = ipDescription (policy_spec p) \<and> rpMetadata rp = api_metadata env p \<and>
    rule_texts rules (policy_id p') s' = spec_text (ivText env) ` set (ipRules (policy_spec p)) \<and>
    ip_condition_true (ivMeta env) ConditionIPPolicyReady (omGeneration (obMeta p)) p'"
proof -
  obtain rp where g: "ivGetPolicy env (policy_id p) s = Inr rp"
    using run writer.ReconcileStatus_spec(3) by (fastforce simp: ip_update_def ip_ReconcileStatus_def Let_def split: sum.splits)
  let ?p = "setIPPolicyCreatedCondition (ivMeta env) True ''IPPolicyCreated'' ''IP Policy already exists'' p"
  have spec': "valid_spec (ipRules (policy_spec ?p))" using spec by (simp add: created_set)
  show ?thesis
  proof (cases "rpDescription rp \<noteq> ipDescription (policy_spec p) \<or> rpMetadata rp \<noteq> api_metadata env p")
    case True
    then obtain s1 where u: "ivUpdatePolicy env (policy_id p) (ipDescription (policy_spec p)) (api_metadata env p) s = (None, s1)"
        and run': "configure_rules env ?p s1 = ((None, p'), s')"
      using run g by (auto simp: ip_update_def Let_def split: prod.splits option.splits)
    have valid': "valid_rules rules s1" using valid update_policy [OF u] by (simp add: valid_rules_def)
    from configure_rules_ok [OF run' spec' valid' created_set(1)] update_policy [OF u] show ?thesis by (auto simp: created_set)
  next
    case False
    then have run': "configure_rules env ?p s = ((None, p'), s')" using run g by (simp add: ip_update_def)
    from configure_rules_ok [OF run' spec' valid created_set(1)] get_policy [OF g] False show ?thesis by (simp add: created_set)
  qed
qed

end


section \<open>A reference world\<close>

text \<open>Rules and policies as lists, and the IDs of deleted rules. A new ID is longer than all others.\<close>

record ip_world =
  iwRules :: "RemoteIPRule list"
  iwGone :: "string list"
  iwPolicies :: "RemoteIPPolicy list"

definition world_rules :: "ip_world \<Rightarrow> string \<Rightarrow> RemoteIPRule option" where
  "world_rules w rid = find (\<lambda>r. rrID r = rid) (iwRules w)"

definition world_policies :: "ip_world \<Rightarrow> string \<Rightarrow> RemoteIPPolicy option" where
  "world_policies w pid = find (\<lambda>p. rpID p = pid) (iwPolicies w)"

definition world_ids :: "ip_world \<Rightarrow> string list" where
  "world_ids w = map rrID (iwRules w) @ iwGone w"

definition fresh_id :: "string list \<Rightarrow> string" where
  "fresh_id ids = replicate (Suc (sum_list (map length ids))) (CHR ''x'')"

definition drop_rule :: "string \<Rightarrow> ip_world \<Rightarrow> ip_world" where
  "drop_rule rid w = w\<lparr>iwRules := filter (\<lambda>r. rrID r \<noteq> rid) (iwRules w), iwGone := rid # iwGone w\<rparr>"

definition put_rule :: "RemoteIPRule \<Rightarrow> ip_world \<Rightarrow> ip_world" where
  "put_rule r w = w\<lparr>iwRules := r # filter (\<lambda>x. rrID x \<noteq> rrID r) (iwRules w)\<rparr>"

definition missing_rule :: go_error where
  "missing_rule = NgrokError 404 [] ''not found''"

definition ref_ip_env :: "(nat \<Rightarrow> string list \<Rightarrow> string list) \<Rightarrow> ip_world ip_env" where
  "ref_ip_env ord =
     \<lparr>ivMeta = list_meta, ivErrors = \<lparr>neIsNotFound = (\<lambda>e. e = missing_rule), neIsErrorCode = (\<lambda>e codes. False)\<rparr>, ivErrorText = (\<lambda>e. neMsg e),
      ivText = (\<lambda>raw. case raw of RawEmpty \<Rightarrow> [] | RawInvalid t \<Rightarrow> t | RawDoc j \<Rightarrow> ''document''), ivRange = ord,
      ivGetPolicy = (\<lambda>pid w. case world_policies w pid of Some p \<Rightarrow> Inr p | None \<Rightarrow> Inl missing_rule),
      ivCreatePolicy = (\<lambda>desc md w. let p = \<lparr>rpID = fresh_id (map rpID (iwPolicies w)), rpDescription = desc, rpMetadata = md\<rparr>
        in (Inr p, w\<lparr>iwPolicies := p # iwPolicies w\<rparr>)),
      ivUpdatePolicy = (\<lambda>pid desc md w. (None, w\<lparr>iwPolicies := \<lparr>rpID = pid, rpDescription = desc, rpMetadata = md\<rparr> # iwPolicies w\<rparr>)),
      ivDeletePolicy = (\<lambda>pid w. (None, w\<lparr>iwPolicies := filter (\<lambda>p. rpID p \<noteq> pid) (iwPolicies w)\<rparr>)),
      ivListRules = (\<lambda>w. (map (\<lambda>rid. the (world_rules w rid)) (map rrID (iwRules w)), None)),
      ivCreateRule = (\<lambda>c w. (None, put_rule (created_rule (fresh_id (world_ids w)) c) w)),
      ivUpdateRule = (\<lambda>u w. case world_rules w (nuID u) of Some r \<Rightarrow> (None, put_rule (updated_rule u r) w) | None \<Rightarrow> (Some missing_rule, w)),
      ivDeleteRule = (\<lambda>rid w. if world_rules w rid = None then (Some missing_rule, w) else (None, drop_rule rid w)),
      ivRetry = retry_steps 4, ivStatus = \<lparr>scStatusUpdate = (\<lambda>p w. (Inr p, w)), scLatestVersion = (\<lambda>p w. Inr (\<lambda>x. x))\<rparr>,
      ivGet = (\<lambda>key w. Inl missing_rule), ivPatch = (\<lambda>old new w. ((None, new), w)), ivDrainState = None\<rparr>"

lemma find_filter_kept: "find P (filter Q xs) = find P xs" if "\<And>x. P x \<Longrightarrow> Q x"
  using that by (induction xs) auto

lemma world_rules_put: "world_rules (put_rule r w) = (world_rules w)(rrID r \<mapsto> r)"
  by (auto simp: world_rules_def put_rule_def fun_eq_iff intro!: find_filter_kept)

lemma world_rules_drop: "world_rules (drop_rule rid w) = (world_rules w)(rid := None)"
proof (rule ext)
  show "world_rules (drop_rule rid w) k = ((world_rules w)(rid := None)) k" for k
    by (cases "k = rid") (auto simp: world_rules_def drop_rule_def find_None_iff intro!: find_filter_kept)
qed

lemma world_rules_id: "world_rules w rid = Some r \<Longrightarrow> rrID r = rid \<and> rid \<in> set (world_ids w)"
  by (auto simp: world_rules_def world_ids_def find_Some_iff)

lemma world_rules_ran: "(\<lambda>rid. the (world_rules w rid)) ` set (map rrID (iwRules w)) = ran (world_rules w)"
proof -
  have "world_rules w (rrID r) \<noteq> None" if "r \<in> set (iwRules w)" for r using that by (auto simp: world_rules_def find_None_iff)
  moreover have "rid \<in> set (map rrID (iwRules w))" if "world_rules w rid = Some r" for rid r using that by (auto simp: world_rules_def find_Some_iff)
  ultimately show ?thesis by (force simp: ran_def image_iff)
qed

lemma fresh_id_new: "fresh_id ids \<notin> set ids"
proof
  assume "fresh_id ids \<in> set ids"
  then have "length (fresh_id ids) \<le> sum_list (map length ids)" by (intro member_le_sum_list) auto
  then show False by (simp add: fresh_id_def)
qed

lemma world_ids_simps [simp]:
  "set (world_ids (put_rule r w)) = insert (rrID r) (set (world_ids w))"
  "set (world_ids (drop_rule rid w)) = insert rid (set (world_ids w))"
  by (auto simp: world_ids_def put_rule_def drop_rule_def)

definition witness_order :: "nat \<Rightarrow> string list \<Rightarrow> string list" where
  "witness_order i ks = (if even i then ks else rev ks)"

definition witness_ip_env :: "ip_world ip_env" where
  "witness_ip_env = ref_ip_env witness_order"

interpretation ref_ip: ip_rules_api witness_ip_env world_rules "\<lambda>w. set (world_ids w)"
proof
  show "\<exists>rid. rid \<notin> set (world_ids w) \<and> world_rules w' = (world_rules w)(rid \<mapsto> created_rule rid c) \<and> set (world_ids w') = insert rid (set (world_ids w))"
    if "ivCreateRule witness_ip_env c w = (None, w')" for c w w'
    using that
    by (intro exI [of _ "fresh_id (world_ids w)"])
      (auto simp: witness_ip_env_def ref_ip_env_def fresh_id_new world_rules_put, simp_all add: created_rule_def)
qed (auto simp: witness_ip_env_def ref_ip_env_def witness_order_def world_rules_put world_rules_drop updated_rule_def
      simp flip: world_rules_ran dest: world_rules_id split: option.splits if_splits)

interpretation ref_ip_writer: status_writer "ivRetry witness_ip_env" "ivStatus witness_ip_env" iyStatus "\<lambda>w. (world_rules w, world_policies w)"
  by unfold_locales (auto simp: witness_ip_env_def ref_ip_env_def retries_steps)

lemma do_call_policies: "do_call witness_ip_env c w = (err, w') \<Longrightarrow> world_policies w' = world_policies w"
  by (cases c) (auto simp: witness_ip_env_def ref_ip_env_def put_rule_def drop_rule_def world_policies_def fun_eq_iff split: option.splits if_splits)

interpretation ref_ip_service: ip_policy_service witness_ip_env world_rules "\<lambda>w. set (world_ids w)" world_policies
proof (rule ip_policy_service.intro)
  show "ip_policy_service_axioms witness_ip_env world_rules world_policies"
    by unfold_locales (use do_call_policies in \<open>auto simp: witness_ip_env_def ref_ip_env_def world_policies_def world_rules_def Let_def fun_eq_iff
        split: option.splits\<close>)
  show "object_meta (ivMeta witness_ip_env)" by (simp add: witness_ip_env_def ref_ip_env_def list_meta.object_meta_axioms)
qed (rule ref_ip.ip_rules_api_axioms ref_ip_writer.status_writer_axioms)+

definition witness_policy :: IPPolicy where
  "witness_policy =
     \<lparr>obMeta = \<lparr>omName = ''office'', omNamespace = ''web'', omGeneration = 3, omFinalizers = [], omDeleting = False\<rparr>,
      obBody = \<lparr>iyStatus = \<lparr>ptObservedGeneration = 2, ptID = ''ipp'', ptConditions = []\<rparr>,
        iySpec = \<lparr>ipDescription = ''office'', ipMetadata = None,
          ipRules = [\<lparr>plDescription = [], plMetadata = None, plCIDR = ''10.0.0.0/8'', plAction = ''deny''\<rparr>,
            \<lparr>plDescription = ''vpn'', plMetadata = None, plCIDR = ''1.2.3.0/24'', plAction = ''allow''\<rparr>]\<rparr>\<rparr>\<rparr>"

text \<open>In the API the first range is still allowed, the second has no description and a third one is stale.\<close>

definition witness_ip_world :: ip_world where
  "witness_ip_world =
     \<lparr>iwRules =
        [\<lparr>rrID = ''a'', rrPolicyID = ''ipp'', rrCIDR = ''10.0.0.0/8'', rrAction = ''allow'', rrMetadata = [], rrDescription = []\<rparr>,
         \<lparr>rrID = ''b'', rrPolicyID = ''ipp'', rrCIDR = ''1.2.3.0/24'', rrAction = ''allow'', rrMetadata = [], rrDescription = []\<rparr>,
         \<lparr>rrID = ''c'', rrPolicyID = ''ipp'', rrCIDR = ''9.9.9.9/32'', rrAction = ''deny'', rrMetadata = [], rrDescription = []\<rparr>],
      iwGone = [], iwPolicies = [\<lparr>rpID = ''ipp'', rpDescription = [], rpMetadata = []\<rparr>]\<rparr>"

interpretation witness_run: ip_rules_run witness_ip_env world_rules "\<lambda>w. set (world_ids w)" witness_ip_world "''ipp''" "ipRules (policy_spec witness_policy)"
    "iwRules witness_ip_world" "newIPPolicyDiff ''ipp'' (iwRules witness_ip_world) (ipRules (policy_spec witness_policy))"
    "diff_plan (ivText witness_ip_env) (ivRange witness_ip_env) (newIPPolicyDiff ''ipp'' (iwRules witness_ip_world) (ipRules (policy_spec witness_policy))) 0"
proof
  show "set (iwRules witness_ip_world) = {r \<in> ran (world_rules witness_ip_world). rrPolicyID r = ''ipp''}"
    by (simp flip: world_rules_ran add: witness_ip_world_def world_rules_def) auto
qed (simp_all add: witness_policy_def)


lemma witness_policy_updated: "fst (fst (ip_update witness_ip_env witness_policy witness_ip_world)) = None"
  by code_simp


end
