(* ===== verification/Spec2Isabelle.thy ===== *)
theory Spec2Isabelle
  imports Gateway_Properties Gateway_Filter_Properties Bound_Endpoint_Actions Binding_Aggregator Drain_Properties
    Driver_Properties Bound_Endpoint_Controller Agent_Endpoint_Controller IP_Policy_Controller
begin

text \<open>
  \<^bold>\<open>A model of the ngrok Kubernetes operator.\<close>

  The operator watches Ingress, Gateway API and ngrok resources of a cluster and turns them into
  CloudEndpoints and AgentEndpoints, which other controllers of the same program bring to the ngrok
  API. It has these parts.

  \<^item> A \<^emph>\<open>store\<close> caches the Kubernetes objects (\<^bold>\<open>internal/store\<close>).
  \<^item> The \<^emph>\<open>translator\<close> reads the store and makes an intermediate representation of virtual hosts
    (\<^bold>\<open>internal/ir\<close>) from ingresses (\<^bold>\<open>pkg/managerdriver/translate_ingresses.go\<close>) and from gateways and
    their routes (\<^bold>\<open>translate_gatewayapi.go\<close>), and from the virtual hosts the endpoints with their
    traffic policies (\<^bold>\<open>translator.go\<close>, \<^bold>\<open>internal/trafficpolicy\<close>).
  \<^item> The \<^emph>\<open>driver\<close> compares the endpoints of the translation with those of the cluster and creates,
    updates and deletes them, reserves Domains and writes the statuses of ingresses and gateways; calls
    that arrive while a sync runs are debounced (\<^bold>\<open>pkg/managerdriver/driver.go\<close>, \<^bold>\<open>endpoints.go\<close>,
    \<^bold>\<open>domains.go\<close>). Objects it owns carry labels (\<^bold>\<open>internal/controller/labels\<close>).
  \<^item> The \<^emph>\<open>bindings poller\<close> asks the ngrok API which endpoints are to be projected into the cluster,
    groups them by service (\<^bold>\<open>internal/ngrokapi/bindingendpoint_aggregator.go\<close>) and creates, updates
    and deletes BoundEndpoints, each with a port of its own; the \<^emph>\<open>bound endpoint controller\<close> gives each
    of them two Services (\<^bold>\<open>internal/controller/bindings\<close>).
  \<^item> The \<^emph>\<open>controllers\<close> share a reconcile loop with finalizers and conditions
    (\<^bold>\<open>internal/controller/base_controller.go\<close>). That of Domains reserves hosts
    (\<^bold>\<open>internal/controller/ingress/domain_controller.go\<close>), that of cloud endpoints brings them to the
    API (\<^bold>\<open>internal/controller/ngrok/cloudendpoint_controller.go\<close>), that of agent endpoints runs them in
    the ngrok agent (\<^bold>\<open>internal/controller/agent\<close>, \<^bold>\<open>pkg/agent\<close>); a \<^emph>\<open>domain manager\<close>
    (\<^bold>\<open>internal/domain/manager.go\<close>) finds the Domain of an endpoint and a \<^emph>\<open>policy manager\<close>
    (\<^bold>\<open>internal/trafficpolicy/manager.go\<close>) its traffic policy.
  \<^item> On removal of the operator a \<^emph>\<open>drain\<close> takes its finalizers off all resources before it is
    deregistered (\<^bold>\<open>internal/drain\<close>, \<^bold>\<open>internal/controller/ngrok/kubernetesoperator_controller.go\<close>).

  \<^bold>\<open>Theories.\<close>

  \<^descr> \<open>Ngrok_Prelude\<close>: Go's standard library as far as it is used (maps, stable sorting, decimal
    numbers, ASCII strings), loops with errors, and the lemmas the components share.
  \<^descr> \<open>Traffic_Policy\<close>: policy documents, their JSON validation, encoding and merging.
    They survive a round trip, unknown keys are refused, merging is a monoid.
  \<^descr> \<open>Ngrok_IR\<close>: virtual hosts, routes, destinations, service keys, sorting of routes.
    Sorting is stable and puts the most specific route first.
  \<^descr> \<open>Annotations\<close>, \<open>Endpoint_Naming\<close>: annotations, names and URLs of endpoints, ports of services.
    Generated names are valid Kubernetes names.
  \<^descr> \<open>Endpoint_Translator\<close>, \<open>Translation_Correctness\<close>: from virtual hosts to endpoints.
    Weighted routing selects one destination, no rule forwards to an endpoint that is not created,
    the cloud endpoints are exactly those expected, only exclusive services are collapsed.
  \<^descr> \<open>Gateway_Objects\<close>, \<open>Resource_Store\<close>: the objects and the caches.
    A lookup sees the last change, the served ingresses are characterised.
  \<^descr> \<open>Ingress_Translation\<close>: ingresses to virtual hosts.
    A hostname stays in one namespace and policies are not shared.
  \<^descr> \<open>Gateway_Filters\<close>, \<open>Gateway_Matching\<close>, \<open>Gateway_Translation\<close>: matches and filters of HTTPRoutes,
    reference grants, listeners and TLS options, and the translation of gateways and of all objects
    (\<open>Translate\<close>). \<open>Gateway_Correctness\<close>, \<open>Gateway_Properties\<close>, \<open>Gateway_Filter_Properties\<close>: services
    of other namespaces are reached only with a grant, only admitted routes attach to a gateway, the
    translation never dereferences nil, header filters and TLS options mean what they should.
  \<^descr> \<open>Port_Allocator\<close>, \<open>Bound_Endpoint_Poller\<close>, \<open>Bound_Endpoint_Actions\<close>, \<open>Binding_Aggregator\<close>: the
    poller. The allocator is a set of used ports, creates and updates are exact, every reported
    endpoint is bound once.
  \<^descr> \<open>Kube_Objects\<close>, \<open>Base_Controller\<close>: objects with metadata, finalizers and conditions; the shared
    reconcile loop and its treatment of errors.
  \<^descr> \<open>Controller_Labels\<close>: the labels of an operator instance. Labelled objects are selected and
    recognised, other labels are kept.
  \<^descr> \<open>Sync_Debouncer\<close>: channels, \<open>syncStart\<close> and \<open>syncDone\<close> and all interleavings of their callers as a
    transition system. One sync runs at a time, every caller is answered, one waiter requeues.
  \<^descr> \<open>Driver_Endpoints\<close>, \<open>Domain_Objects\<close>, \<open>Driver_Domains\<close>: applying endpoints and Domains, addresses.
    \<open>Driver\<close>, \<open>Driver_Sync\<close>: the driver's state, its operations on the store, syncs and statuses.
    \<open>Driver_Properties\<close>: a sync without an error leaves exactly the endpoints of the translation and
    the Domains of all hosts, and nothing foreign is touched.
  \<^descr> \<open>Controller_Laws\<close>: what the resource controllers share in proofs, the writing of a status and a
    rule for whole reconciles. \<open>Domain_Controller\<close>: reservations are given up only on request and made
    once, the conditions are exact. \<open>Endpoint_URL\<close>, \<open>Domain_Manager\<close>: URLs of endpoints; every endpoint
    gets its Domain and nothing else changes.
  \<^descr> \<open>Traffic_Policy_Manager\<close>, \<open>Cloud_Endpoint_Controller\<close>: resolving is exact, the index of policies is
    complete, a cloud endpoint without an error has converged.
  \<^descr> \<open>Bound_Endpoint_Controller\<close>: the Services of a bound endpoint. A reconciled endpoint has exactly its
    Services and its status says whether it can be reached, the Services lead back to their endpoint.
  \<^descr> \<open>IP_Policy_Controller\<close>: IP policies and their rules. A policy without an error has converged, and
    every intermediate state of its rules is safe: denials come before allowances.
  \<^descr> \<open>Agent_Driver\<close>, \<open>Agent_Endpoint_Controller\<close>: the driver is a map of running endpoints that loses
    none, an agent endpoint without an error has converged, the indexes of secrets are complete.
  \<^descr> \<open>Drain\<close>, \<open>Drain_Correctness\<close>, \<open>Drain_Properties\<close>: the drain. A completed drain leaves no finalizer
    of the operator, deregistration comes after it, nothing of the user is deleted.

  \<^bold>\<open>How state and effects are modelled.\<close> Structs are records, enumerations are datatypes (or strings
  where the code keeps unknown values), pointers to values are options, Go maps are association lists.
  Objects that several places share and change in place, upstreams, traffic policies and the
  virtual hosts of a gateway, live in explicit stores and are named by addresses. Where Go leaves an
  order open (ranging over a map), the order is an argument, and the properties hold for every order.
  Errors are values of sum types. A nil dereference is the error \<open>NilDereference\<close>. Ports are 16-bit words.

  \<^bold>\<open>Arguments.\<close> Code outside the repository is an argument of the definitions that use it, and what is
  assumed of it is an interface: the bitmap of libnetwork (\<open>bitmap\<close>), the Kubernetes API client
  (\<open>endpoint_api\<close> for the poller, \<open>drain_api\<close> for the drain, \<open>managed_client\<close> and \<open>domain_cluster\<close> for
  the driver, \<open>status_writer\<close>, \<open>domain_objects\<close> and \<open>domain_frame\<close> for the controllers,
  \<open>bound_cluster\<close> for Services), the ngrok API (\<open>domain_service\<close>, \<open>cloud_service\<close>,
  \<open>ip_rules_api\<close>, \<open>ip_policy_service\<close>; \<open>ip_rules_run\<close> is one run of the rounds), the ngrok agent
  (\<open>agent_library\<close>; what the driver makes of it is \<open>running_endpoints\<close> and \<open>agent_service\<close>), the finalizers and conditions of
  apimachinery (\<open>object_meta\<close>), SHA-256 (\<open>hex_digest\<close>), UUIDs, glob matching and label selectors. The
  parser from texts to JSON trees and the URL parser are arguments of which nothing is assumed. Each
  interface is interpreted on a concrete implementation.

  \<^bold>\<open>Bounds.\<close> The only loop that waits, the drain's wait for a deletion, polls a number of times given by
  the timeout and the interval of the code (\<open>drPolls\<close>); the properties hold for every number. The
  connectivity test of a bound endpoint makes at most the 8 attempts of the code. All other loops
  recurse over lists.

  \<^bold>\<open>Not modelled.\<close> The controller of services and the registration of the operator are not modelled. Process start, command line flags, health checks, log messages,
  events, metrics, network connections of the forwarder and the agent, generated code, mocks and test
  helpers are left out: they are input and output, or they have no logic of their own.
\<close>

end
